(* ===== verification/Prelude.thy ===== *)
theory Prelude
  imports Complex_Main "HOL-Library.Word"
begin

unbundle bit_operations_syntax

section \<open>What every component shares\<close>

text \<open>
  The types and the parts of Rust's standard library that the modelled code uses: machine
  integers with checked and saturating arithmetic, \<open>str\<close> as its UTF-8 byte sequence,
  decimal parsing and printing, \<open>trim\<close>, \<open>replace\<close>, \<open>split\<close>,
  \<open>join\<close>, \<open>Result\<close> as a sum, and the collection of lemmas the component
  proofs are written over.
\<close>

named_theorems rust_str \<open>membership facts about the characters a string function emits\<close>
named_theorems rust_result \<open>inversion of computations that end in \<open>Ok\<close>\<close>

subsection \<open>Types\<close>

type_synonym u8 = "8 word"
type_synonym u32 = "32 word"
type_synonym u64 = "64 word"
type_synonym i64 = "64 word" \<comment> \<open>two's complement, read with \<open>sint\<close>\<close>
type_synonym uuid = "128 word"

text \<open>The nil UUID is the all-zero value.\<close>

definition nil_uuid :: uuid where
  "nil_uuid = 0"

subsection \<open>Machine integers\<close>

definition saturating_sub :: "'l::len word \<Rightarrow> 'l word \<Rightarrow> 'l word" where
  "saturating_sub a b = (if a < b then 0 else a - b)"

definition saturating_add :: "'l::len word \<Rightarrow> 'l word \<Rightarrow> 'l word" where
  "saturating_add a b = (if unat a + unat b < 2 ^ LENGTH('l) then a + b else - 1)"

definition checked_add :: "'l::len word \<Rightarrow> 'l word \<Rightarrow> 'l word option" where
  "checked_add a b = (if unat a + unat b < 2 ^ LENGTH('l) then Some (a + b) else None)"

definition checked_mul :: "'l::len word \<Rightarrow> 'l word \<Rightarrow> 'l word option" where
  "checked_mul a b = (if unat a * unat b < 2 ^ LENGTH('l) then Some (a * b) else None)"

lemma unat_saturating_sub: "unat (saturating_sub a b) = unat a - unat b"
  by (auto simp: saturating_sub_def word_less_nat_alt unat_sub_if')

lemma unat_saturating_add:
  "unat (saturating_add a b) = min (unat a + unat b) (2 ^ LENGTH('l) - 1)"
  for a b :: "'l::len word"
proof (cases "unat a + unat b < 2 ^ LENGTH('l)")
  case True
  then have "unat (a + b) = unat a + unat b"
    by (simp add: unat_word_ariths)
  then show ?thesis using True by (simp add: saturating_add_def)
next
  case False
  then show ?thesis by (auto simp: saturating_add_def unsigned_minus_1_eq_mask mask_eq_exp_minus_1)
qed

lemma checked_add_Some:
  "checked_add a b = Some c \<Longrightarrow> unat c = unat a + unat b"
  by (auto simp: checked_add_def unat_word_ariths split: if_splits)

lemma checked_mul_Some:
  "checked_mul a b = Some c \<Longrightarrow> unat c = unat a * unat b"
  by (auto simp: checked_mul_def unat_word_ariths split: if_splits)

subsection \<open>Results and panics\<close>

text \<open>
  \<open>Result<T, E>\<close> is \<open>'e + 'a\<close> with \<open>Inl\<close> the error. The \<open>?\<close> operator is
  \<open>and_then\<close>. A computation that may panic returns an \<open>outcome\<close>.
\<close>

type_synonym ('e, 'a) result = "'e + 'a"

datatype 'a outcome = Panic | Done 'a

fun and_then :: "('e, 'a) result \<Rightarrow> ('a \<Rightarrow> ('e, 'b) result) \<Rightarrow> ('e, 'b) result" where
  "and_then (Inl e) f = Inl e"
| "and_then (Inr x) f = f x"

definition map_ok :: "('a \<Rightarrow> 'b) \<Rightarrow> ('e, 'a) result \<Rightarrow> ('e, 'b) result" where
  "map_ok f r = and_then r (\<lambda>x. Inr (f x))"

definition ok_or :: "'e \<Rightarrow> 'a option \<Rightarrow> ('e, 'a) result" where
  "ok_or e x = (case x of None \<Rightarrow> Inl e | Some y \<Rightarrow> Inr y)"

text \<open>\<open>collect::<Result<Vec<_>, _>>()\<close>: the first error, or all the values.\<close>

fun collect_results :: "('e, 'a) result list \<Rightarrow> ('e, 'a list) result" where
  "collect_results [] = Inr []"
| "collect_results (Inl e # rs) = Inl e"
| "collect_results (Inr x # rs) = map_ok (\<lambda>xs. x # xs) (collect_results rs)"

lemma and_then_Inr_conv [simp]:
  "and_then r f = Inr y \<longleftrightarrow> (\<exists>x. r = Inr x \<and> f x = Inr y)"
  by (cases r) auto

lemma and_then_Inl_conv:
  "and_then r f = Inl e \<longleftrightarrow> r = Inl e \<or> (\<exists>x. r = Inr x \<and> f x = Inl e)"
  by (cases r) auto

lemma map_ok_simps [simp]:
  "map_ok f (Inl e) = Inl e" "map_ok f (Inr x) = Inr (f x)"
  by (simp_all add: map_ok_def)

lemma map_ok_Inr_conv [simp]: "map_ok f r = Inr y \<longleftrightarrow> (\<exists>x. r = Inr x \<and> y = f x)"
  by (auto simp: map_ok_def)

lemma ok_or_Inr_conv [simp]: "ok_or e x = Inr y \<longleftrightarrow> x = Some y"
  by (auto simp: ok_or_def split: option.splits)

lemma ok_or_simps [simp]: "ok_or e None = Inl e" "ok_or e (Some y) = Inr y"
  by (simp_all add: ok_or_def)

lemma collect_results_Inr:
  "collect_results rs = Inr xs \<longleftrightarrow> rs = map Inr xs"
proof (induction rs arbitrary: xs)
  case Nil
  then show ?case by auto
next
  case (Cons r rs)
  then show ?case by (cases r; cases xs) auto
qed

text \<open>\<open>Option::unwrap_or\<close>.\<close>

definition unwrap_or :: "'a \<Rightarrow> 'a option \<Rightarrow> 'a" where
  "unwrap_or d x = (case x of None \<Rightarrow> d | Some y \<Rightarrow> y)"

lemma unwrap_or_simps [simp]: "unwrap_or d None = d" "unwrap_or d (Some y) = y"
  by (simp_all add: unwrap_or_def)

subsection \<open>Strings\<close>

text \<open>
  A \<open>str\<close> is the list of its UTF-8 bytes, so \<open>length\<close> is Rust's \<open>len()\<close>.
  Characters that do not occur in the source's literals as themselves are named here.
\<close>

abbreviation quote :: char where "quote \<equiv> CHR 0x27"
abbreviation backslash :: char where "backslash \<equiv> CHR 0x5C"
abbreviation dquote :: char where "dquote \<equiv> CHR 0x22"

abbreviation byte :: "char \<Rightarrow> nat" where "byte c \<equiv> of_char c"

definition is_ascii_digit :: "char \<Rightarrow> bool" where
  "is_ascii_digit c \<longleftrightarrow> 48 \<le> byte c \<and> byte c \<le> 57"

definition is_ascii_alphabetic :: "char \<Rightarrow> bool" where
  "is_ascii_alphabetic c \<longleftrightarrow>
     (65 \<le> byte c \<and> byte c \<le> 90) \<or> (97 \<le> byte c \<and> byte c \<le> 122)"

definition is_ascii_alphanumeric :: "char \<Rightarrow> bool" where
  "is_ascii_alphanumeric c \<longleftrightarrow> is_ascii_digit c \<or> is_ascii_alphabetic c"

definition to_ascii_lowercase :: "char \<Rightarrow> char" where
  "to_ascii_lowercase c = (if 65 \<le> byte c \<and> byte c \<le> 90 then char_of (byte c + 32) else c)"

definition to_ascii_uppercase :: "char \<Rightarrow> char" where
  "to_ascii_uppercase c = (if 97 \<le> byte c \<and> byte c \<le> 122 then char_of (byte c - 32) else c)"

text \<open>
  \<open>str::to_lowercase\<close>, for comparisons with ASCII constants that contain no \<open>k\<close>: no
  character outside ASCII has a lower case that begins such a constant's letters.
\<close>

definition to_lowercase :: "string \<Rightarrow> string" where
  "to_lowercase s = map to_ascii_lowercase s"

text \<open>\<open>str::replace\<close> with a one-character pattern.\<close>

definition str_replace :: "char \<Rightarrow> string \<Rightarrow> string \<Rightarrow> string" where
  "str_replace c r s = concat (map (\<lambda>x. if x = c then r else [x]) s)"

fun strip_prefix :: "string \<Rightarrow> string \<Rightarrow> string option" where
  "strip_prefix [] s = Some s"
| "strip_prefix (p # ps) [] = None"
| "strip_prefix (p # ps) (c # cs) = (if p = c then strip_prefix ps cs else None)"

definition strip_suffix :: "string \<Rightarrow> string \<Rightarrow> string option" where
  "strip_suffix p s = map_option rev (strip_prefix (rev p) (rev s))"

text \<open>\<open>str::split\<close> on a character; the empty string has one (empty) piece.\<close>

fun split_on :: "char \<Rightarrow> string \<Rightarrow> string list" where
  "split_on d [] = [[]]"
| "split_on d (c # cs) =
     (if c = d then [] # split_on d cs
      else (case split_on d cs of [] \<Rightarrow> [[c]] | p # ps \<Rightarrow> (c # p) # ps))"

fun join :: "string \<Rightarrow> string list \<Rightarrow> string" where
  "join sep [] = []"
| "join sep [x] = x"
| "join sep (x # y # ys) = x @ sep @ join sep (y # ys)"

lemma strip_prefix_Some: "strip_prefix p s = Some r \<longleftrightarrow> s = p @ r"
  by (induction p s rule: strip_prefix.induct) auto

lemma strip_suffix_Some: "strip_suffix p s = Some r \<longleftrightarrow> s = r @ p"
proof
  assume "strip_suffix p s = Some r"
  then have "rev s = rev p @ rev r"
    by (auto simp: strip_suffix_def strip_prefix_Some)
  then have "rev (rev s) = r @ p" by simp
  then show "s = r @ p" by simp
next
  assume "s = r @ p"
  moreover have "strip_prefix (rev p) (rev p @ rev r) = Some (rev r)"
    by (simp add: strip_prefix_Some)
  ultimately show "strip_suffix p s = Some r"
    by (simp add: strip_suffix_def)
qed

lemma split_on_nonempty [simp]: "split_on d s \<noteq> []"
  by (cases s) (auto split: list.splits)

lemma join_split_on: "join [d] (split_on d s) = s"
proof (induction s)
  case Nil
  then show ?case by simp
next
  case (Cons c cs)
  then show ?case
    by (cases "split_on d cs"; cases "tl (split_on d cs)") auto
qed

lemma set_join_concat: "join [] xs = concat xs"
  by (induction "[]::string" xs rule: join.induct) auto

lemma length_str_replace_ge:
  "r \<noteq> [] \<Longrightarrow> length s \<le> length (str_replace c r s)"
proof (induction s)
  case (Cons x xs)
  then show ?case by (cases r) (auto simp: str_replace_def)
qed (simp add: str_replace_def)

subsubsection \<open>Trimming\<close>

text \<open>
  \<open>str::trim\<close> removes the characters of Unicode's \<open>White_Space\<close> property from both
  ends. \<open>ws_len\<close> is the number of bytes such a character takes at the front of a
  byte sequence (0 if there is none), \<open>ws_len_rev\<close> the same at the end of the
  reversed sequence.
\<close>

fun ws_len :: "nat list \<Rightarrow> nat" where
  "ws_len (a # b # c # r) =
     (if a \<in> {9, 10, 11, 12, 13, 32} then 1
      else if a = 194 \<and> b \<in> {133, 160} then 2
      else if a = 225 \<and> b = 154 \<and> c = 128 then 3
      else if a = 226 \<and> b = 128 \<and> (128 \<le> c \<and> c \<le> 138 \<or> c \<in> {168, 169, 175}) then 3
      else if a = 226 \<and> b = 129 \<and> c = 159 then 3
      else if a = 227 \<and> b = 128 \<and> c = 128 then 3 else 0)"
| "ws_len [a, b] =
     (if a \<in> {9, 10, 11, 12, 13, 32} then 1
      else if a = 194 \<and> b \<in> {133, 160} then 2 else 0)"
| "ws_len [a] = (if a \<in> {9, 10, 11, 12, 13, 32} then 1 else 0)"
| "ws_len [] = 0"

definition ws_len_rev :: "nat list \<Rightarrow> nat" where
  "ws_len_rev r =
     (if ws_len (take 1 r) = 1 then 1
      else if ws_len (rev (take 2 r)) = 2 then 2
      else if ws_len (rev (take 3 r)) = 3 then 3 else 0)"

fun drop_ws :: "(nat list \<Rightarrow> nat) \<Rightarrow> nat \<Rightarrow> string \<Rightarrow> string" where
  "drop_ws w 0 s = s"
| "drop_ws w (Suc n) s =
     (let k = w (map byte s) in if k = 0 then s else drop_ws w n (drop k s))"

text \<open>Every round drops at least one byte, so \<open>length s\<close> rounds are enough.\<close>

definition trim_start :: "string \<Rightarrow> string" where
  "trim_start s = drop_ws ws_len (length s) s"

definition trim_end :: "string \<Rightarrow> string" where
  "trim_end s = rev (drop_ws ws_len_rev (length s) (rev s))"

definition trim :: "string \<Rightarrow> string" where
  "trim s = trim_end (trim_start s)"

lemma set_drop_ws: "set (drop_ws w n s) \<subseteq> set s"
proof (induction w n s rule: drop_ws.induct)
  case (2 w n s)
  show ?case
  proof (cases "w (map byte s) = 0")
    case False
    then have "set (drop_ws w (Suc n) s) \<subseteq> set (drop (w (map byte s)) s)"
      using 2 by (simp add: Let_def)
    then show ?thesis using set_drop_subset by fastforce
  qed simp
qed simp

lemma set_trim [rust_str]: "set (trim s) \<subseteq> set s"
  using set_drop_ws[of ws_len "length s" s] set_drop_ws[of ws_len_rev _ "rev (trim_start s)"]
  by (fastforce simp: trim_def trim_end_def trim_start_def)

lemma drop_ws_stop: "w (map byte s) = 0 \<Longrightarrow> drop_ws w n s = s"
  by (cases n) auto

text \<open>A string whose first and last bytes are ASCII and not white space is its own trim.\<close>

definition no_ws_end :: "char \<Rightarrow> bool" where
  "no_ws_end c \<longleftrightarrow> byte c < 128 \<and> byte c \<notin> {9, 10, 11, 12, 13, 32}"

lemma ws_len_ascii: "a < 128 \<Longrightarrow> a \<notin> {9, 10, 11, 12, 13, 32} \<Longrightarrow> ws_len (a # r) = 0"
  by (cases "a # r" rule: ws_len.cases) auto

lemma ws_len_rev_ascii:
  assumes "a < 128" "a \<notin> {9, 10, 11, 12, 13, 32}"
  shows "ws_len_rev (a # r) = 0"
proof -
  have 1: "ws_len [a] \<noteq> 1" using assms by simp
  have "ws_len (rev (take 2 (a # r))) \<noteq> 2"
    using assms by (cases r) (auto split: if_splits)
  moreover have "ws_len (rev (take 3 (a # r))) \<noteq> 3"
    using assms by (cases r; cases "tl r") (auto split: if_splits)
  ultimately show ?thesis using 1 by (simp add: ws_len_rev_def)
qed

lemma trim_id:
  assumes "s \<noteq> []" "no_ws_end (hd s)" "no_ws_end (last s)"
  shows "trim s = s"
proof -
  obtain c cs where s: "s = c # cs" using assms(1) by (cases s) auto
  have "trim_start s = s"
    using assms(2) s by (simp add: trim_start_def drop_ws_stop ws_len_ascii no_ws_end_def)
  moreover have "trim_end s = s"
  proof -
    obtain d ds where d: "rev s = d # ds" using assms(1) by (cases "rev s") auto
    then have "last s = d" using assms(1) by (simp add: hd_rev[symmetric])
    then have "ws_len_rev (map byte (rev s)) = 0"
      using assms(3) d ws_len_rev_ascii[of "byte d" "map byte ds"]
      by (simp add: no_ws_end_def)
    then show ?thesis by (simp add: trim_end_def drop_ws_stop)
  qed
  ultimately show ?thesis by (simp add: trim_def)
qed

subsection \<open>Decimal numbers\<close>

definition digit_val :: "char \<Rightarrow> nat" where
  "digit_val c = byte c - 48"

definition digit_char :: "nat \<Rightarrow> char" where
  "digit_char n = char_of (48 + n)"

text \<open>\<open>Display\<close> for unsigned integers.\<close>

fun show_nat :: "nat \<Rightarrow> string" where
  "show_nat n = (if n < 10 then [digit_char n] else show_nat (n div 10) @ [digit_char (n mod 10)])"

declare show_nat.simps [simp del]

definition show_word :: "'l::len word \<Rightarrow> string" where
  "show_word w = show_nat (unat w)"

fun digits_value :: "nat \<Rightarrow> string \<Rightarrow> nat option" where
  "digits_value acc [] = Some acc"
| "digits_value acc (c # cs) =
     (if is_ascii_digit c then digits_value (10 * acc + digit_val c) cs else None)"

text \<open>
  \<open>FromStr\<close> for an unsigned type of \<open>w\<close> bits: an optional plus sign that something
  follows, at least one digit, nothing else, and no overflow.
\<close>

definition unsigned_digits :: "string \<Rightarrow> string" where
  "unsigned_digits s = (case s of c # d # cs \<Rightarrow> if c = CHR ''+'' then d # cs else s | _ \<Rightarrow> s)"

definition parse_unsigned :: "nat \<Rightarrow> string \<Rightarrow> nat option" where
  "parse_unsigned w s =
     (if s = [] then None
      else case digits_value 0 (unsigned_digits s) of
             None \<Rightarrow> None
           | Some n \<Rightarrow> if n < 2 ^ w then Some n else None)"

lemma byte_digit_char: "n < 10 \<Longrightarrow> byte (digit_char n) = 48 + n"
  by (simp add: digit_char_def)

lemma is_ascii_digit_digit_char [simp]: "n < 10 \<Longrightarrow> is_ascii_digit (digit_char n)"
  by (simp add: is_ascii_digit_def byte_digit_char)

lemma digit_val_digit_char [simp]: "n < 10 \<Longrightarrow> digit_val (digit_char n) = n"
  by (simp add: digit_val_def byte_digit_char)

lemma digits_value_append:
  "digits_value a (xs @ ys) =
     (case digits_value a xs of None \<Rightarrow> None | Some n \<Rightarrow> digits_value n ys)"
  by (induction a xs rule: digits_value.induct) auto

lemma digits_value_show_nat: "digits_value 0 (show_nat n) = Some n"
proof (induction n rule: show_nat.induct)
  case (1 n)
  show ?case
  proof (cases "n < 10")
    case True
    then show ?thesis by (simp add: show_nat.simps[of n])
  next
    case False
    then have "digits_value 0 (show_nat (n div 10)) = Some (n div 10)" using 1 by simp
    then show ?thesis using False
      by (simp add: show_nat.simps[of n] digits_value_append)
  qed
qed

lemma show_nat_digits [rust_str]: "\<forall>c \<in> set (show_nat n). is_ascii_digit c"
proof (induction n rule: show_nat.induct)
  case (1 n)
  then show ?case by (cases "n < 10") (auto simp: show_nat.simps[of n])
qed

lemma show_nat_not_Nil [simp]: "show_nat n \<noteq> []"
  by (subst show_nat.simps) simp

lemma plus_not_digit [simp]: "\<not> is_ascii_digit (CHR ''+'')"
  by (simp add: is_ascii_digit_def)

lemma unsigned_digits_digits:
  "\<forall>c \<in> set s. is_ascii_digit c \<Longrightarrow> unsigned_digits s = s"
  by (cases s; cases "tl s") (auto simp: unsigned_digits_def)

text \<open>Round trip: what \<open>Display\<close> prints, \<open>FromStr\<close> reads back.\<close>

lemma parse_show_nat: "n < 2 ^ w \<Longrightarrow> parse_unsigned w (show_nat n) = Some n"
  by (simp add: parse_unsigned_def unsigned_digits_digits show_nat_digits digits_value_show_nat)

lemma parse_unsigned_bound: "parse_unsigned w s = Some n \<Longrightarrow> n < 2 ^ w"
  by (auto simp: parse_unsigned_def split: option.splits if_splits)

lemma digits_value_digits: "digits_value a s = Some n \<Longrightarrow> \<forall>c \<in> set s. is_ascii_digit c"
  by (induction a s rule: digits_value.induct) (auto split: if_splits)

text \<open>The characters a successfully parsed number is written with.\<close>

lemma parse_unsigned_chars:
  assumes "parse_unsigned w s = Some n"
  shows "\<forall>c \<in> set s. is_ascii_digit c \<or> c = CHR ''+''"
proof -
  have *: "\<forall>c \<in> set (unsigned_digits s). is_ascii_digit c"
    using assms digits_value_digits
    by (fastforce simp: parse_unsigned_def split: option.splits if_splits)
  show ?thesis
  proof
    fix c assume "c \<in> set s"
    then show "is_ascii_digit c \<or> c = CHR ''+''"
      using * by (cases s; cases "tl s") (auto simp: unsigned_digits_def split: if_splits)
  qed
qed

subsection \<open>Quote-free text\<close>

text \<open>
  Text that can be placed outside a string literal without opening one. The lemmas are
  the simplifier's rules for the generated SQL.
\<close>

definition quote_free :: "string \<Rightarrow> bool" where
  "quote_free s \<longleftrightarrow> quote \<notin> set s"

lemma quote_free_simps [simp]:
  "quote_free []"
  "quote_free (c # s) \<longleftrightarrow> c \<noteq> quote \<and> quote_free s"
  "quote_free (s @ t) \<longleftrightarrow> quote_free s \<and> quote_free t"
  by (auto simp: quote_free_def)

lemma digits_quote_free: "\<forall>c \<in> set s. is_ascii_digit c \<or> c \<in> set t \<Longrightarrow> quote_free t \<Longrightarrow> quote_free s"
  by (auto simp: quote_free_def is_ascii_digit_def)

lemma quote_free_show_nat [simp]: "quote_free (show_nat n)"
  by (rule digits_quote_free[of _ "[]"]) (simp_all add: show_nat_digits)

lemma quote_free_show_word [simp]: "quote_free (show_word w)"
  by (simp add: show_word_def)

lemma quote_free_join: "quote_free sep \<Longrightarrow> (\<And>x. x \<in> set xs \<Longrightarrow> quote_free x) \<Longrightarrow> quote_free (join sep xs)"
  by (induction sep xs rule: join.induct) auto

lemma quote_free_concat: "(\<And>x. x \<in> set xs \<Longrightarrow> quote_free x) \<Longrightarrow> quote_free (concat xs)"
  by (induction xs) auto

end
