(* ===== verification/Nlq_Ir.thy ===== *)
theory Nlq_Ir
  imports Prelude
begin

section \<open>The natural-language query intermediate representation\<close>

text \<open>
  The data of \<open>libs/domain-core/src/nlq.rs\<close>: the object the language model emits and
  the query services translate to SQL. Record fields carry the prefix of their struct
  (\<open>ir_\<close>, \<open>flt_\<close>, \<open>tr_\<close>) because HOL field names are global.
\<close>

datatype nlq_operation =
    Timeseries | Rate | Irate | Increase | Histogram | Topk | Table | Distribution
  | Catalog | Inventory

datatype nlq_signal = Metrics | Traces | Logs

datatype nlq_filter_op = Eq | Ne | Re | Nre | Gt | Gte | Lt | Lte

record nlq_filter =
  flt_field :: string
  flt_op :: nlq_filter_op
  flt_value :: string

record nlq_time_range =
  tr_from :: string
  tr_to :: string

datatype nlq_visualization_hint =
    Hint_Timeseries | Hint_Histogram | Hint_Heatmap | Hint_Table | Hint_Topk
  | Hint_Flamegraph | Hint_Distribution

record nlq_ir =
  ir_operation :: nlq_operation
  ir_signals :: "nlq_signal list"
  ir_metric :: "string option"
  ir_window :: "string option"
  ir_filters :: "nlq_filter list"
  ir_group_by :: "string list"
  ir_resolution :: "string option"
  ir_time_range :: nlq_time_range
  ir_visualization_hint :: "nlq_visualization_hint option"
  ir_percentiles :: "string list option"
  ir_catalog_field :: "string option"
  ir_limit :: "u32 option"
  ir_query :: "string option"

end
