(* ===== verification/Float64.thy ===== *)
theory Float64
  imports Prelude
begin

section \<open>Rust's \<open>f64\<close>\<close>

text \<open>
  IEEE 754 binary64 as the code uses it. A finite value is a sign bit, an integer
  significand and a binary exponent; every arithmetic result is the exact result rounded
  to nearest, ties to even, with gradual underflow at \<open>2^-1074\<close> and overflow to
  infinity at \<open>2^1024\<close>. Parsing follows the grammar of \<open>f64::from_str\<close>, printing the
  shortest-digits rule of \<open>Display\<close>, which never uses an exponent. All of it computes
  on integers.
\<close>

datatype f64 = NaN | Infinity bool | Finite bool int int

subsection \<open>Rounding\<close>

text \<open>The number of binary digits, 64 at a time where the number is large.\<close>

function bit_length :: "int \<Rightarrow> int" where
  "bit_length n =
     (if n \<le> 0 then 0
      else if n < 2 ^ 64 then 1 + bit_length (n div 2)
      else 64 + bit_length (n div 2 ^ 64))"
  by pat_completeness auto
termination
  by (relation "measure nat") auto

declare bit_length.simps [simp del]

text \<open>The fraction \<open>n / d\<close> divided by \<open>2^e\<close>, again as a fraction of integers.\<close>

definition scale2 :: "int \<Rightarrow> int \<Rightarrow> int \<Rightarrow> int \<times> int" where
  "scale2 e n d = (if 0 \<le> e then (n, d * 2 ^ nat e) else (n * 2 ^ nat (- e), d))"

definition round_half_even :: "int \<Rightarrow> int \<Rightarrow> int" where
  "round_half_even a b =
     (let m = a div b; r = a mod b
      in if 2 * r < b then m else if b < 2 * r then m + 1 else if even m then m else m + 1)"

text \<open>The exponent of the last place: 53 significant bits, but not below \<open>2^-1074\<close>.\<close>

definition last_place :: "int \<Rightarrow> int \<Rightarrow> int" where
  "last_place n d =
     (let e = bit_length n - bit_length d - 53; (a, b) = scale2 e n d
      in max (- 1074) (if a < b * 2 ^ 53 then e else e + 1))"

definition finite_or_inf :: "bool \<Rightarrow> int \<Rightarrow> int \<Rightarrow> f64" where
  "finite_or_inf neg m e =
     (if m = 0 then Finite neg 0 0
      else let (m', e') = (if m = 2 ^ 53 then (2 ^ 52, e + 1) else (m, e))
           in if 971 < e' then Infinity neg else Finite neg m' e')"

text \<open>The \<open>f64\<close> nearest to the non-negative fraction \<open>n / d\<close>, with the given sign.\<close>

definition round_f64 :: "bool \<Rightarrow> int \<Rightarrow> int \<Rightarrow> f64" where
  "round_f64 neg n d =
     (if n = 0 then Finite neg 0 0
      else let e = last_place n d; (a, b) = scale2 e n d
           in finite_or_inf neg (round_half_even a b) e)"

definition round_bin :: "bool \<Rightarrow> int \<Rightarrow> int \<Rightarrow> f64" where
  "round_bin neg m e = (if 0 \<le> e then round_f64 neg (m * 2 ^ nat e) 1
                        else round_f64 neg m (2 ^ nat (- e)))"

text \<open>Decimal literals of the source as the fraction they denote, and \<open>n as f64\<close>.\<close>

definition f64_lit :: "int \<Rightarrow> int \<Rightarrow> f64" where
  "f64_lit n d = round_f64 (n < 0) \<bar>n\<bar> d"

definition f64_of_nat :: "nat \<Rightarrow> f64" where
  "f64_of_nat n = round_f64 False (int n) 1"

definition f64_of_u64 :: "'l::len word \<Rightarrow> f64" where
  "f64_of_u64 w = f64_of_nat (unat w)"

subsection \<open>Arithmetic and comparison\<close>

definition signed :: "bool \<Rightarrow> int \<Rightarrow> int" where
  "signed s m = (if s then - m else m)"

text \<open>Two values over their smaller exponent: comparable, addable integers.\<close>

definition align :: "bool \<Rightarrow> int \<Rightarrow> int \<Rightarrow> bool \<Rightarrow> int \<Rightarrow> int \<Rightarrow> int \<times> int" where
  "align s m e t n f =
     (signed s m * 2 ^ nat (e - min e f), signed t n * 2 ^ nat (f - min e f))"

fun f64_neg :: "f64 \<Rightarrow> f64" where
  "f64_neg NaN = NaN"
| "f64_neg (Infinity s) = Infinity (\<not> s)"
| "f64_neg (Finite s m e) = Finite (\<not> s) m e"

fun f64_abs :: "f64 \<Rightarrow> f64" where
  "f64_abs NaN = NaN"
| "f64_abs (Infinity s) = Infinity False"
| "f64_abs (Finite s m e) = Finite False m e"

fun f64_add :: "f64 \<Rightarrow> f64 \<Rightarrow> f64" where
  "f64_add NaN y = NaN"
| "f64_add x NaN = NaN"
| "f64_add (Infinity s) (Infinity t) = (if s = t then Infinity s else NaN)"
| "f64_add (Infinity s) y = Infinity s"
| "f64_add x (Infinity t) = Infinity t"
| "f64_add (Finite s m e) (Finite t n f) =
     (let (a, b) = align s m e t n f; z = a + b
      in if z = 0 then Finite (s \<and> t) 0 0 else round_bin (z < 0) \<bar>z\<bar> (min e f))"

definition f64_sub :: "f64 \<Rightarrow> f64 \<Rightarrow> f64" where
  "f64_sub x y = f64_add x (f64_neg y)"

fun f64_mul :: "f64 \<Rightarrow> f64 \<Rightarrow> f64" where
  "f64_mul NaN y = NaN"
| "f64_mul x NaN = NaN"
| "f64_mul (Infinity s) (Infinity t) = Infinity (s \<noteq> t)"
| "f64_mul (Infinity s) (Finite t n f) = (if n = 0 then NaN else Infinity (s \<noteq> t))"
| "f64_mul (Finite s m e) (Infinity t) = (if m = 0 then NaN else Infinity (s \<noteq> t))"
| "f64_mul (Finite s m e) (Finite t n f) = round_bin (s \<noteq> t) (m * n) (e + f)"

fun f64_div :: "f64 \<Rightarrow> f64 \<Rightarrow> f64" where
  "f64_div NaN y = NaN"
| "f64_div x NaN = NaN"
| "f64_div (Infinity s) (Infinity t) = NaN"
| "f64_div (Infinity s) (Finite t n f) = Infinity (s \<noteq> t)"
| "f64_div (Finite s m e) (Infinity t) = Finite (s \<noteq> t) 0 0"
| "f64_div (Finite s m e) (Finite t n f) =
     (if n = 0 then (if m = 0 then NaN else Infinity (s \<noteq> t))
      else let (a, b) = scale2 (f - e) m n in round_f64 (s \<noteq> t) a b)"

definition fin_lt :: "bool \<Rightarrow> int \<Rightarrow> int \<Rightarrow> bool \<Rightarrow> int \<Rightarrow> int \<Rightarrow> bool" where
  "fin_lt s m e t n f \<longleftrightarrow> (case align s m e t n f of (a, b) \<Rightarrow> a < b)"

definition fin_eq :: "bool \<Rightarrow> int \<Rightarrow> int \<Rightarrow> bool \<Rightarrow> int \<Rightarrow> int \<Rightarrow> bool" where
  "fin_eq s m e t n f \<longleftrightarrow> (case align s m e t n f of (a, b) \<Rightarrow> a = b)"

fun f64_lt :: "f64 \<Rightarrow> f64 \<Rightarrow> bool" where
  "f64_lt NaN y = False"
| "f64_lt x NaN = False"
| "f64_lt (Infinity s) (Infinity t) = (s \<and> \<not> t)"
| "f64_lt (Infinity s) (Finite t n f) = s"
| "f64_lt (Finite s m e) (Infinity t) = (\<not> t)"
| "f64_lt (Finite s m e) (Finite t n f) = fin_lt s m e t n f"

fun f64_eq :: "f64 \<Rightarrow> f64 \<Rightarrow> bool" where
  "f64_eq NaN y = False"
| "f64_eq x NaN = False"
| "f64_eq (Infinity s) (Infinity t) = (s = t)"
| "f64_eq (Infinity s) (Finite t n f) = False"
| "f64_eq (Finite s m e) (Infinity t) = False"
| "f64_eq (Finite s m e) (Finite t n f) = fin_eq s m e t n f"

definition f64_le :: "f64 \<Rightarrow> f64 \<Rightarrow> bool" where
  "f64_le x y \<longleftrightarrow> f64_lt x y \<or> f64_eq x y"

text \<open>
  The value of a finite number, for the proofs: comparison is the order of the values.
\<close>

definition f64_real :: "bool \<Rightarrow> int \<Rightarrow> int \<Rightarrow> real" where
  "f64_real s m e = of_int (signed s m) * 2 powr of_int e"

lemma aligned_real:
  "g \<le> e \<Longrightarrow> of_int (signed s m * 2 ^ nat (e - g)) * 2 powr of_int g = f64_real s m e"
proof -
  assume "g \<le> e"
  then have "(2::real) ^ nat (e - g) * 2 powr of_int g = 2 powr of_int e"
    by (simp add: powr_realpow[symmetric] powr_add[symmetric])
  then show ?thesis by (simp add: f64_real_def)
qed

lemma align_fst_snd:
  "of_int (fst (align s m e t n f)) * 2 powr of_int (min e f) = f64_real s m e"
  "of_int (snd (align s m e t n f)) * 2 powr of_int (min e f) = f64_real t n f"
  unfolding align_def fst_conv snd_conv by (rule aligned_real; simp)+

lemma align_less:
  "fst (align s m e t n f) < snd (align s m e t n f) \<longleftrightarrow> f64_real s m e < f64_real t n f"
proof -
  let ?p = "(2::real) powr of_int (min e f)"
  have "fst (align s m e t n f) < snd (align s m e t n f) \<longleftrightarrow>
        of_int (fst (align s m e t n f)) * ?p < of_int (snd (align s m e t n f)) * ?p"
    by simp
  then show ?thesis by (simp only: align_fst_snd)
qed

lemma align_eq:
  "fst (align s m e t n f) = snd (align s m e t n f) \<longleftrightarrow> f64_real s m e = f64_real t n f"
proof -
  let ?p = "(2::real) powr of_int (min e f)"
  have "fst (align s m e t n f) = snd (align s m e t n f) \<longleftrightarrow>
        of_int (fst (align s m e t n f)) * ?p = of_int (snd (align s m e t n f)) * ?p"
    by simp
  then show ?thesis by (simp only: align_fst_snd)
qed

lemma fin_lt_real: "fin_lt s m e t n f \<longleftrightarrow> f64_real s m e < f64_real t n f"
  by (simp add: fin_lt_def case_prod_beta align_less)

lemma fin_eq_real: "fin_eq s m e t n f \<longleftrightarrow> f64_real s m e = f64_real t n f"
  by (simp add: fin_eq_def case_prod_beta align_eq)

lemmas f64_order = fin_lt_real fin_eq_real f64_le_def

lemma f64_lt_irrefl [simp]: "\<not> f64_lt x x"
  by (cases x) (auto simp: f64_order)

lemma f64_lt_trans: "f64_lt x y \<Longrightarrow> f64_lt y z \<Longrightarrow> f64_lt x z"
  by (cases x; cases y; cases z) (auto simp: f64_order)

lemma f64_lt_NaN [simp]: "\<not> f64_lt x NaN" "\<not> f64_eq x NaN"
  by (cases x; simp)+

lemma f64_eq_sym: "f64_eq x y \<longleftrightarrow> f64_eq y x"
  by (cases x; cases y) (auto simp: f64_order)

lemma f64_le_trans: "f64_le x y \<Longrightarrow> f64_le y z \<Longrightarrow> f64_le x z"
  by (cases x; cases y; cases z) (auto simp: f64_order)

lemma f64_lt_le_trans: "f64_lt x y \<Longrightarrow> f64_le y z \<Longrightarrow> f64_lt x z"
  by (cases x; cases y; cases z) (auto simp: f64_order)

lemma f64_le_lt_trans: "f64_le x y \<Longrightarrow> f64_lt y z \<Longrightarrow> f64_lt x z"
  by (cases x; cases y; cases z) (auto simp: f64_order)

lemma f64_not_lt_le: "x \<noteq> NaN \<Longrightarrow> y \<noteq> NaN \<Longrightarrow> \<not> f64_lt x y \<longleftrightarrow> f64_le y x"
  by (cases x; cases y) (auto simp: f64_order)

subsection \<open>\<open>f64::from_str\<close>\<close>

text \<open>
  \<open>Number ::= (Digit+ | Digit+ '.' Digit* | Digit* '.' Digit+) Exp?\<close> with
  \<open>Exp ::= ('e' | 'E') Sign? Digit+\<close>, or \<open>inf\<close>, \<open>infinity\<close>, \<open>nan\<close> in any case; an
  optional sign before either.
\<close>

definition decimal_f64 :: "bool \<Rightarrow> nat \<Rightarrow> int \<Rightarrow> f64" where
  "decimal_f64 neg n e =
     (if 0 \<le> e then round_f64 neg (int n * 10 ^ nat e) 1
      else round_f64 neg (int n) (10 ^ nat (- e)))"

definition parse_exponent :: "string \<Rightarrow> int option" where
  "parse_exponent s =
     (case s of
        [] \<Rightarrow> Some 0
      | c # cs \<Rightarrow>
          if to_ascii_lowercase c \<noteq> CHR ''e'' then None
          else let (neg, ds) = (case cs of
                     d # r \<Rightarrow> if d = CHR ''-'' then (True, r)
                               else if d = CHR ''+'' then (False, r) else (False, cs)
                   | [] \<Rightarrow> (False, []))
               in if ds = [] then None
                  else map_option (\<lambda>n. if neg then - int n else int n) (digits_value 0 ds))"

definition parse_number :: "bool \<Rightarrow> string \<Rightarrow> f64 option" where
  "parse_number neg s =
     (let ip = takeWhile is_ascii_digit s; r = dropWhile is_ascii_digit s;
          (fp, r') = (case r of
             c # cs \<Rightarrow> if c = CHR ''.'' then (takeWhile is_ascii_digit cs, dropWhile is_ascii_digit cs)
                      else ([], r)
           | [] \<Rightarrow> ([], []))
      in if ip = [] \<and> fp = [] then None
         else (case (parse_exponent r', digits_value 0 (ip @ fp)) of
                 (Some e, Some n) \<Rightarrow> Some (decimal_f64 neg n (e - int (length fp)))
               | _ \<Rightarrow> None))"

definition parse_f64 :: "string \<Rightarrow> f64 option" where
  "parse_f64 s =
     (let (neg, r) = (case s of
            c # cs \<Rightarrow> if c = CHR ''-'' then (True, cs)
                     else if c = CHR ''+'' then (False, cs) else (False, s)
          | [] \<Rightarrow> (False, []));
          l = map to_ascii_lowercase r
      in if l = ''inf'' \<or> l = ''infinity'' then Some (Infinity neg)
         else if l = ''nan'' then Some NaN
         else parse_number neg r)"

subsection \<open>\<open>Display\<close> for \<open>f64\<close>\<close>

text \<open>
  \<open>decimal_magnitude n d\<close> is the \<open>t\<close> with \<open>10^t <= n / d < 10^(t + 1)\<close>. Below 1 the
  fraction is multiplied by 10 until it reaches 1; the smallest positive value,
  \<open>2^-1074\<close>, needs 324 steps, so 400 are enough.
\<close>

fun steps_to_one :: "nat \<Rightarrow> int \<Rightarrow> int \<Rightarrow> nat" where
  "steps_to_one 0 n d = 0"
| "steps_to_one (Suc k) n d = (if d \<le> n then 0 else Suc (steps_to_one k (10 * n) d))"

definition decimal_magnitude :: "int \<Rightarrow> int \<Rightarrow> int" where
  "decimal_magnitude n d =
     (if d \<le> n then int (length (show_nat (nat (n div d)))) - 1
      else - int (steps_to_one 400 n d))"

text \<open>
  The digits with \<open>k\<close> significant places, rounded down and up, that read back as the
  value; the nearer one if both do.
\<close>

definition digits_candidate :: "f64 \<Rightarrow> int \<Rightarrow> int \<Rightarrow> int \<Rightarrow> int option" where
  "digits_candidate x n d p =
     (let (a, b) = (if 0 \<le> p then (n, d * 10 ^ nat p) else (n * 10 ^ nat (- p), d));
          lo = a div b; hi = lo + 1;
          lo_ok = (decimal_f64 False (nat lo) p = x); hi_ok = (decimal_f64 False (nat hi) p = x)
      in if lo_ok \<and> (\<not> hi_ok \<or> 2 * (a mod b) \<le> b) then Some lo
         else if hi_ok then Some hi else None)"

fun shortest_digits :: "nat \<Rightarrow> f64 \<Rightarrow> int \<Rightarrow> int \<Rightarrow> int \<Rightarrow> int \<times> int" where
  "shortest_digits 0 x n d p = (case digits_candidate x n d p of Some m \<Rightarrow> (m, p) | None \<Rightarrow> (0, 0))"
| "shortest_digits (Suc k) x n d p =
     (case digits_candidate x n d p of Some m \<Rightarrow> (m, p) | None \<Rightarrow> shortest_digits k x n d (p - 1))"

fun strip_zeros :: "nat \<Rightarrow> nat \<Rightarrow> int \<Rightarrow> nat \<times> int" where
  "strip_zeros 0 m p = (m, p)"
| "strip_zeros (Suc k) m p = (if m \<noteq> 0 \<and> m mod 10 = 0 then strip_zeros k (m div 10) (p + 1) else (m, p))"

text \<open>\<open>m * 10^p\<close> in positional notation.\<close>

definition show_decimal :: "nat \<Rightarrow> int \<Rightarrow> string" where
  "show_decimal m p =
     (let s = show_nat m; n = nat (- p)
      in if 0 \<le> p then s @ replicate (nat p) (CHR ''0'')
         else if n < length s then take (length s - n) s @ ''.'' @ drop (length s - n) s
         else ''0.'' @ replicate (n - length s) (CHR ''0'') @ s)"

text \<open>17 significant digits identify a binary64 value, so 17 attempts are enough.\<close>

fun show_f64 :: "f64 \<Rightarrow> string" where
  "show_f64 NaN = ''NaN''"
| "show_f64 (Infinity s) = (if s then ''-inf'' else ''inf'')"
| "show_f64 (Finite s m e) =
     (if s then ''-'' else []) @
     (if m = 0 then ''0''
      else let (n, d) = (if 0 \<le> e then (m * 2 ^ nat e, 1) else (m, 2 ^ nat (- e)));
               (g, p) = shortest_digits 16 (Finite False m e) n d (decimal_magnitude n d);
               (g', p') = strip_zeros 20 (nat g) p
           in show_decimal g' p')"

text \<open>
  \<open>{:.3}\<close>: the exact value rounded to three decimals. (None of the values the code
  prints this way lies exactly between two such decimals.)
\<close>

definition show_fixed3 :: "f64 \<Rightarrow> string" where
  "show_fixed3 x =
     (case x of
        Finite s m e \<Rightarrow>
          (let t = (if 0 \<le> e then m * 2 ^ nat e * 1000
                    else round_half_even (m * 1000) (2 ^ nat (- e)));
               frac = show_nat (nat (t mod 1000))
           in (if s then ''-'' else []) @ show_nat (nat (t div 1000)) @ ''.'' @
              replicate (3 - length frac) (CHR ''0'') @ frac)
      | _ \<Rightarrow> show_f64 x)"

lemma zero_is_digit [simp]: "is_ascii_digit (CHR ''0'')"
  by (simp add: is_ascii_digit_def)

lemma show_decimal_chars: "\<forall>c \<in> set (show_decimal m p). is_ascii_digit c \<or> c = CHR ''.''"
  using show_nat_digits[of m]
  by (auto simp: show_decimal_def Let_def dest: in_set_takeD in_set_dropD)

text \<open>A printed \<open>f64\<close> is one token: digits, point, sign, or one of the special names.\<close>

definition numeric_chars :: string where
  "numeric_chars = ''.-NaNinf''"

lemma show_f64_Finite:
  "\<exists>g p. show_f64 (Finite s m e) =
     (if s then ''-'' else []) @ (if m = 0 then ''0'' else show_decimal g p)"
  by (cases "m = 0") (auto simp: Let_def case_prod_beta)

lemma show_f64_chars: "\<forall>c \<in> set (show_f64 x). is_ascii_digit c \<or> c \<in> set numeric_chars"
proof (cases x)
  case (Finite s m e)
  obtain g p where "show_f64 x = (if s then ''-'' else []) @ (if m = 0 then ''0'' else show_decimal g p)"
    using show_f64_Finite Finite by blast
  then show ?thesis using show_decimal_chars[of g p]
    by (auto simp: numeric_chars_def)
qed (auto simp: numeric_chars_def)

lemma quote_free_show_f64 [simp]: "quote_free (show_f64 x)"
proof (rule digits_quote_free)
  show "\<forall>c \<in> set (show_f64 x). is_ascii_digit c \<or> c \<in> set numeric_chars"
    by (rule show_f64_chars)
  show "quote_free numeric_chars" by (simp add: numeric_chars_def)
qed

lemma quote_free_replicate [simp]: "quote_free (replicate n c) \<longleftrightarrow> n = 0 \<or> c \<noteq> quote"
  by (auto simp: quote_free_def)

lemma quote_free_show_fixed3 [simp]: "quote_free (show_fixed3 x)"
  by (cases x) (simp_all add: show_fixed3_def Let_def)

end
