(* ===== verification/Sql_Lexer.thy ===== *)
theory Sql_Lexer
  imports Prelude
begin

section \<open>What "safely inlined" means: the literal syntax of the SQL engines\<close>

text \<open>
  The query code inlines values into SQL text. Its contract is about how the engine reads
  the text back: every value must come back as exactly one string literal with exactly
  that content, and nothing of it may be read as code. This theory states the contract:
  reference lexers for the documented literal syntax of ClickHouse (a quote inside a
  literal is written with a backslash or doubled) and of DuckDB (doubled only, a backslash
  is an ordinary character), and a locale \<open>sql_dialect\<close> of the laws a dialect's lexer and
  the escaping function satisfy together. The lemmas about composed text are proved once
  in the locale, for any dialect.
\<close>

datatype sql_token = Code char | Lit string

definition code :: "string \<Rightarrow> sql_token list" where
  "code s = map Code s"

text \<open>The literals of a token sequence, and its text with every literal blanked out.\<close>

fun literals :: "sql_token list \<Rightarrow> string list" where
  "literals [] = []"
| "literals (Code c # ts) = literals ts"
| "literals (Lit v # ts) = v # literals ts"

fun skeleton :: "sql_token list \<Rightarrow> string" where
  "skeleton [] = []"
| "skeleton (Code c # ts) = c # skeleton ts"
| "skeleton (Lit v # ts) = quote # quote # skeleton ts"

lemma literals_append [simp]: "literals (ts @ us) = literals ts @ literals us"
  by (induction ts rule: literals.induct) auto

lemma skeleton_append [simp]: "skeleton (ts @ us) = skeleton ts @ skeleton us"
  by (induction ts rule: skeleton.induct) auto

lemma literals_code [simp]: "literals (code s) = []"
  by (induction s) (auto simp: code_def)

lemma skeleton_code [simp]: "skeleton (code s) = s"
  by (induction s) (auto simp: code_def)

lemma literals_concat: "literals (concat tss) = concat (map literals tss)"
  by (induction tss) auto

lemma skeleton_concat: "skeleton (concat tss) = concat (map skeleton tss)"
  by (induction tss) auto

text \<open>Tokens in front of what a lexer makes of the rest.\<close>

definition after :: "sql_token list \<Rightarrow> sql_token list option \<Rightarrow> sql_token list option" where
  "after ts x = map_option (\<lambda>us. ts @ us) x"

lemma after_simps [simp]:
  "after [] x = x"
  "after ts (after us x) = after (ts @ us) x"
  "after ts (Some us) = Some (ts @ us)"
  "after ts None = None"
  by (cases x; simp add: after_def)+

subsection \<open>The reference lexers\<close>

text \<open>Inside a literal the mode carries the content read so far.\<close>

datatype lex_mode = In_code | In_lit string | After_backslash string | After_quote string

fun ch_lex_from :: "lex_mode \<Rightarrow> string \<Rightarrow> sql_token list option" where
  "ch_lex_from In_code [] = Some []"
| "ch_lex_from In_code (c # cs) =
     (if c = quote then ch_lex_from (In_lit []) cs
      else after [Code c] (ch_lex_from In_code cs))"
| "ch_lex_from (In_lit a) [] = None"
| "ch_lex_from (In_lit a) (c # cs) =
     (if c = backslash then ch_lex_from (After_backslash a) cs
      else if c = quote then ch_lex_from (After_quote a) cs
      else ch_lex_from (In_lit (a @ [c])) cs)"
| "ch_lex_from (After_backslash a) [] = None"
| "ch_lex_from (After_backslash a) (c # cs) =
     (if c = quote \<or> c = backslash then ch_lex_from (In_lit (a @ [c])) cs
      else ch_lex_from (In_lit (a @ [backslash, c])) cs)"
| "ch_lex_from (After_quote a) [] = Some [Lit a]"
| "ch_lex_from (After_quote a) (c # cs) =
     (if c = quote then ch_lex_from (In_lit (a @ [c])) cs
      else after [Lit a, Code c] (ch_lex_from In_code cs))"

definition ch_lex :: "string \<Rightarrow> sql_token list option" where
  "ch_lex s = ch_lex_from In_code s"

fun duck_lex_from :: "lex_mode \<Rightarrow> string \<Rightarrow> sql_token list option" where
  "duck_lex_from In_code [] = Some []"
| "duck_lex_from In_code (c # cs) =
     (if c = quote then duck_lex_from (In_lit []) cs
      else after [Code c] (duck_lex_from In_code cs))"
| "duck_lex_from (After_quote a) [] = Some [Lit a]"
| "duck_lex_from (After_quote a) (c # cs) =
     (if c = quote then duck_lex_from (In_lit (a @ [c])) cs
      else after [Lit a, Code c] (duck_lex_from In_code cs))"
| "duck_lex_from (In_lit a) (c # cs) =
     (if c = quote then duck_lex_from (After_quote a) cs
      else duck_lex_from (In_lit (a @ [c])) cs)"
| "duck_lex_from m cs = None"

definition duck_lex :: "string \<Rightarrow> sql_token list option" where
  "duck_lex s = duck_lex_from In_code s"

subsection \<open>Text pieces and quoted values\<close>

text \<open>
  \<open>piece\<close> marks a literal piece of a format string (it is the identity, and is never
  unfolded while a proof composes pieces); \<open>quoted\<close> is the format string's
  \<open>'{value}'\<close>.
\<close>

definition piece :: "string \<Rightarrow> string" where
  "piece s = s"

definition quoted :: "string \<Rightarrow> string" where
  "quoted s = [quote] @ s @ [quote]"

fun starts_quote :: "string \<Rightarrow> bool" where
  "starts_quote [] = False"
| "starts_quote (c # s) = (c = quote)"

lemma quote_free_piece [simp]: "quote_free (piece s) = quote_free s"
  by (simp add: piece_def)

lemma starts_quote_append [simp]:
  "starts_quote (s @ r) \<longleftrightarrow> (if s = [] then starts_quote r else starts_quote s)"
  by (cases s) auto

lemma starts_quote_piece [simp]: "starts_quote (piece s) = starts_quote s"
  by (simp add: piece_def)

lemma piece_Nil [simp]: "piece s = [] \<longleftrightarrow> s = []"
  by (simp add: piece_def)

lemma quoted_not_Nil [simp]: "quoted s \<noteq> []"
  by (simp add: quoted_def)

lemma quote_free_starts [simp]: "quote_free s \<Longrightarrow> \<not> starts_quote s"
  by (cases s) auto

text \<open>
  \<open>lexes lx s ts\<close>: wherever \<open>s\<close> is placed as code, the lexer reads it as the tokens
  \<open>ts\<close> and goes on as if it had just started, provided what follows does not continue
  a literal that \<open>s\<close> ended with.
\<close>

definition lexes :: "(string \<Rightarrow> sql_token list option) \<Rightarrow> string \<Rightarrow> sql_token list \<Rightarrow> bool" where
  "lexes lx s ts \<longleftrightarrow>
     \<not> starts_quote s \<and> (\<forall>r. \<not> starts_quote r \<longrightarrow> lx (s @ r) = after ts (lx r))"

text \<open>
  \<open>inlines lx s ls s'\<close>: both texts lex; they are the same code once their literals are
  blanked out, and the literals of \<open>s\<close> are exactly \<open>ls\<close>. It relates what is generated
  for a value to what is generated for a blank in its place.
\<close>

definition inlines :: "(string \<Rightarrow> sql_token list option) \<Rightarrow> string \<Rightarrow> string list \<Rightarrow> string \<Rightarrow> bool" where
  "inlines lx s ls s' \<longleftrightarrow>
     (\<exists>ts ts'. lexes lx s ts \<and> lexes lx s' ts' \<and> skeleton ts = skeleton ts' \<and> literals ts = ls)"

text \<open>
  \<open>scoped lx p v s\<close>: among the tokens of \<open>s\<close>, the code \<open>p\<close> is followed by the literal
  \<open>v\<close>. With \<open>p\<close> the text \<open>tenant_id = \<close> this is the tenant predicate, read as code.
\<close>

definition scoped :: "(string \<Rightarrow> sql_token list option) \<Rightarrow> string \<Rightarrow> string \<Rightarrow> string \<Rightarrow> bool" where
  "scoped lx p v s \<longleftrightarrow> (\<exists>a b. lexes lx s (a @ code p @ Lit v # b))"

fun ends_with :: "string \<Rightarrow> string \<Rightarrow> bool" where
  "ends_with p [] = (p = [])"
| "ends_with p (c # cs) = (c # cs = p \<or> ends_with p cs)"

lemma ends_with_append: "ends_with p a \<Longrightarrow> \<exists>c. a = c @ p"
proof (induction p a rule: ends_with.induct)
  case (2 p c cs)
  then show ?case
    by (cases "c # cs = p") (force, metis append_Cons ends_with.simps(2))
qed auto

subsection \<open>The dialect's laws\<close>

locale sql_dialect =
  fixes lx :: "string \<Rightarrow> sql_token list option"
    and esc :: "string \<Rightarrow> string"
    and value_ok :: "string \<Rightarrow> bool"
  assumes lex_Nil: "lx [] = Some []"
    and lex_code: "c \<noteq> quote \<Longrightarrow> lx (c # r) = after [Code c] (lx r)"
    and lex_lit: "value_ok v \<Longrightarrow> \<not> starts_quote r \<Longrightarrow>
                  lx (quoted (esc v) @ r) = after [Lit v] (lx r)"
begin

lemma lex_text: "quote_free s \<Longrightarrow> lx (s @ r) = after (code s) (lx r)"
  by (induction s) (auto simp: lex_code code_def)

lemma lexes_text: "quote_free s \<Longrightarrow> lexes lx s (code s)"
  by (simp add: lexes_def lex_text)

lemma lexes_Nil: "lexes lx [] []"
  by (simp add: lexes_def)

text \<open>Text before a value, a value, text after it: the shape of every predicate.\<close>

lemma lexes_value:
  assumes "quote_free a" "a \<noteq> []" "value_ok v" "lexes lx b ts"
  shows "lexes lx (a @ quoted (esc v) @ b) (code a @ Lit v # ts)"
  using assms
  by (auto simp: lexes_def lex_text lex_lit)

lemma lexes_append:
  assumes "lexes lx s ts" "lexes lx t us"
  shows "lexes lx (s @ t) (ts @ us)"
  using assms by (auto simp: lexes_def)

lemma lexes_text_append:
  assumes "quote_free a" "lexes lx t us"
  shows "lexes lx (a @ t) (code a @ us)"
  by (rule lexes_append[OF lexes_text]) (use assms in auto)

lemma lexes_concat:
  assumes "\<And>x. x \<in> set xs \<Longrightarrow> lexes lx (f x) (g x)"
  shows "lexes lx (concat (map f xs)) (concat (map g xs))"
  using assms by (induction xs) (auto intro: lexes_Nil lexes_append)

lemma lexes_whole: "lexes lx s ts \<Longrightarrow> lx s = Some ts"
  by (auto simp: lexes_def lex_Nil dest: spec[of _ "[]"])

lemma inlines_text: "quote_free a \<Longrightarrow> inlines lx a [] a"
  by (auto simp: inlines_def intro!: exI[of _ "code a"] lexes_text)

lemma inlines_Nil: "inlines lx [] [] []"
  by (rule inlines_text) simp

lemma inlines_append:
  assumes "inlines lx s ls s'" "inlines lx t ms t'"
  shows "inlines lx (s @ t) (ls @ ms) (s' @ t')"
proof -
  obtain ts ts' us us' where
    "lexes lx s ts" "lexes lx s' ts'" "skeleton ts = skeleton ts'" "literals ts = ls"
    "lexes lx t us" "lexes lx t' us'" "skeleton us = skeleton us'" "literals us = ms"
    using assms by (auto simp: inlines_def)
  then show ?thesis
    unfolding inlines_def
    by (intro exI[of _ "ts @ us"] exI[of _ "ts' @ us'"]) (simp add: lexes_append)
qed

lemma inlines_piece:
  assumes "quote_free a" "inlines lx t ls t'"
  shows "inlines lx (piece a @ t) ls (piece a @ t')"
  using inlines_append[OF inlines_text[of "piece a"] assms(2)] assms(1) by simp

lemma inlines_value:
  assumes "quote_free a" "a \<noteq> []" "value_ok v" "value_ok v'" "inlines lx b ls b'"
  shows "inlines lx (piece a @ quoted (esc v) @ b) (v # ls) (piece a @ quoted (esc v') @ b')"
proof -
  obtain ts ts' where
    b: "lexes lx b ts" "lexes lx b' ts'" "skeleton ts = skeleton ts'" "literals ts = ls"
    using assms(5) by (auto simp: inlines_def)
  have "lexes lx (piece a @ quoted (esc v) @ b) (code (piece a) @ Lit v # ts)"
    using assms b by (intro lexes_value) simp_all
  moreover have "lexes lx (piece a @ quoted (esc v') @ b') (code (piece a) @ Lit v' # ts')"
    using assms b by (intro lexes_value) simp_all
  ultimately show ?thesis using b
    unfolding inlines_def
    by (intro exI[of _ "code (piece a) @ Lit v # ts"] exI[of _ "code (piece a) @ Lit v' # ts'"]) simp
qed

lemma inlines_value_end:
  assumes "quote_free a" "a \<noteq> []" "value_ok v" "value_ok v'"
  shows "inlines lx (piece a @ quoted (esc v)) [v] (piece a @ quoted (esc v'))"
  using inlines_value[OF assms inlines_Nil] by simp

lemma inlines_concat:
  assumes "\<And>x. x \<in> set xs \<Longrightarrow> inlines lx (f x) (ls x) (g x)"
  shows "inlines lx (concat (map f xs)) (concat (map ls xs)) (concat (map g xs))"
  using assms by (induction xs) (auto intro: inlines_append inlines_Nil)

lemma inlines_join:
  assumes "quote_free sep" "list_all (\<lambda>(s, ls, s'). inlines lx s ls s') xs"
  shows "inlines lx (join sep (map fst xs)) (concat (map (fst \<circ> snd) xs)) (join sep (map (snd \<circ> snd) xs))"
  using assms(2)
proof (induction xs rule: induct_list012)
  case 1
  then show ?case by (simp add: inlines_Nil)
next
  case (2 x)
  then show ?case by (cases x) simp
next
  case (3 x y zs)
  obtain s ls s' where x: "x = (s, ls, s')" by (cases x)
  have "inlines lx s ls s'" using 3(3) x by simp
  moreover have "inlines lx (sep @ join sep (map fst (y # zs))) (concat (map (fst \<circ> snd) (y # zs)))
      (sep @ join sep (map (snd \<circ> snd) (y # zs)))"
    using inlines_append[OF inlines_text[OF assms(1)] 3(2)] 3(3) by (simp add: comp_def)
  ultimately have "inlines lx (s @ sep @ join sep (map fst (y # zs)))
      (ls @ concat (map (fst \<circ> snd) (y # zs))) (s' @ sep @ join sep (map (snd \<circ> snd) (y # zs)))"
    by (rule inlines_append)
  then show ?case using x by (simp add: comp_def)
qed

text \<open>What the relation says of complete texts.\<close>

lemma inlines_whole:
  "inlines lx s ls s' \<Longrightarrow>
   \<exists>ts ts'. lx s = Some ts \<and> lx s' = Some ts' \<and> skeleton ts = skeleton ts' \<and> literals ts = ls"
  unfolding inlines_def by (blast dest: lexes_whole)

lemma inlines_lexes: "inlines lx s ls s' \<Longrightarrow> \<exists>ts. lexes lx s ts"
  by (auto simp: inlines_def)

lemma scoped_value:
  assumes "ends_with p a" "quote_free a" "a \<noteq> []" "value_ok v" "\<exists>ts. lexes lx b ts"
  shows "scoped lx p v (piece a @ quoted (esc v) @ b)"
proof -
  obtain c where c: "a = c @ p" using ends_with_append[OF assms(1)] by blast
  obtain ts where ts: "lexes lx b ts" using assms(5) by blast
  have "lexes lx (piece a @ quoted (esc v) @ b) (code (piece a) @ Lit v # ts)"
    using assms ts by (intro lexes_value) simp_all
  moreover have "code (piece a) = code c @ code p"
    using c by (simp add: piece_def code_def)
  ultimately show ?thesis by (auto simp: scoped_def)
qed

lemma scoped_append:
  assumes "\<exists>ts. lexes lx s ts" "scoped lx p v t"
  shows "scoped lx p v (s @ t)"
proof -
  obtain ts a b where "lexes lx s ts" "lexes lx t (a @ code p @ Lit v # b)"
    using assms by (auto simp: scoped_def)
  then have "lexes lx (s @ t) ((ts @ a) @ code p @ Lit v # b)"
    using lexes_append by fastforce
  then show ?thesis unfolding scoped_def by blast
qed

lemma scoped_whole: "scoped lx p v s \<Longrightarrow> \<exists>a b. lx s = Some (a @ code p @ Lit v # b)"
  unfolding scoped_def by (blast dest: lexes_whole)

end

end
