(* ===== verification/Sql_Templates.thy ===== *)
theory Sql_Templates
  imports Nlq_Ir Float64 Sql_Lexer
begin

section \<open>ClickHouse SQL from the query IR\<close>

text \<open>
  \<open>libs/query-core/src/sql_templates.rs\<close>: one definition per function, in the order of
  the file's dependencies (helpers first). The format strings are the source's, with
  \<open>piece\<close> around their literal parts. \<open>us\<close> is the \<open>Display\<close> of the \<open>uuid\<close> crate, a
  parameter. Warnings (\<open>tracing\<close>) have no effect on the result and are left out.
\<close>

datatype schema_metric_type = SM_Gauge | SM_Counter | SM_Histogram | SM_Summary | SM_Unknown

definition schema_metric_type_parse :: "string \<Rightarrow> schema_metric_type" where
  "schema_metric_type_parse s =
     (if s = ''gauge'' then SM_Gauge
      else if s = ''counter'' then SM_Counter
      else if s = ''histogram'' then SM_Histogram
      else if s = ''summary'' then SM_Summary
      else SM_Unknown)"

record sql_context =
  ctx_tenant_id :: uuid
  ctx_metric_name :: string
  ctx_metric_type :: schema_metric_type
  ctx_ir :: nlq_ir

datatype sql_template_error =
    MissingMetricName
  | MissingTimeRange
  | UnsupportedOperation string
  | InvalidResolution string
  | InvalidTimeExpression string
  | MissingCatalogField
  | InvalidFilterValue string

fun sql_template_error_display :: "sql_template_error \<Rightarrow> string" where
  "sql_template_error_display MissingMetricName = ''metric_name is required for SQL generation''"
| "sql_template_error_display MissingTimeRange = ''time_range is required''"
| "sql_template_error_display (UnsupportedOperation op) = ''unsupported operation: '' @ op"
| "sql_template_error_display (InvalidResolution r) = ''invalid resolution: '' @ r"
| "sql_template_error_display (InvalidTimeExpression e) = ''invalid time expression: '' @ e"
| "sql_template_error_display MissingCatalogField =
     ''catalog_field is required for catalog operations''"
| "sql_template_error_display (InvalidFilterValue field) =
     ''invalid filter value for field: '' @ field"

type_synonym sql_result = "(sql_template_error, string) result"

subsection \<open>Escaping and validation\<close>

definition escape_string_value :: "string \<Rightarrow> string" where
  "escape_string_value s =
     str_replace quote [backslash, quote] (str_replace backslash [backslash, backslash] s)"

definition validate_sql_identifier :: "string \<Rightarrow> (sql_template_error, unit) result" where
  "validate_sql_identifier s =
     (if s = [] \<or> 64 < length s then Inl (InvalidFilterValue s)
      else if list_all (\<lambda>c. is_ascii_alphanumeric c \<or> c = CHR ''_'') s then Inr ()
      else Inl (InvalidFilterValue s))"

subsection \<open>Durations and time expressions\<close>

definition parse_duration_str :: "string \<Rightarrow> (nat \<times> string) option" where
  "parse_duration_str s =
     (let s = trim s; ds = takeWhile is_ascii_digit s; unit = dropWhile is_ascii_digit s
      in if unit = [] then None
         else if ds = [] then None
         else (case parse_unsigned 64 ds of None \<Rightarrow> None | Some n \<Rightarrow> Some (n, unit)))"

definition duration_unit_to_ch :: "string \<Rightarrow> string option" where
  "duration_unit_to_ch unit =
     (if unit = ''s'' then Some ''SECOND''
      else if unit = ''m'' then Some ''MINUTE''
      else if unit = ''h'' then Some ''HOUR''
      else if unit = ''d'' then Some ''DAY''
      else None)"

definition nanos_per_unit :: "string \<Rightarrow> nat option" where
  "nanos_per_unit unit =
     (if unit = ''s'' then Some 1000000000
      else if unit = ''m'' then Some 60000000000
      else if unit = ''h'' then Some 3600000000000
      else if unit = ''d'' then Some 86400000000000
      else None)"

definition parse_time_expr :: "string \<Rightarrow> sql_result" where
  "parse_time_expr e0 =
     (let e = trim e0; err = InvalidTimeExpression e
      in if e = ''now'' then Inr ''toUnixTimestamp64Nano(now64())''
         else case strip_prefix ''now-'' e of
           Some rest \<Rightarrow>
             and_then (ok_or err (parse_duration_str rest)) (\<lambda>(n, unit).
             and_then (ok_or err (nanos_per_unit unit)) (\<lambda>k.
             if n * k < 2 ^ 64
             then Inr (''toUnixTimestamp64Nano(now64()) - '' @ show_nat (n * k))
             else Inl err))
         | None \<Rightarrow>
             if e \<noteq> [] \<and> list_all is_ascii_digit e then Inr e else Inl err)"

definition parse_interval :: "string \<Rightarrow> sql_result" where
  "parse_interval s =
     and_then (ok_or (InvalidResolution s) (parse_duration_str s)) (\<lambda>(n, unit).
     and_then (ok_or (InvalidResolution s) (duration_unit_to_ch unit)) (\<lambda>ch_unit.
     Inr (show_nat n @ '' '' @ ch_unit)))"

definition interval_to_secs :: "string \<Rightarrow> (sql_template_error, f64) result" where
  "interval_to_secs s =
     and_then (ok_or (InvalidResolution s) (parse_duration_str s)) (\<lambda>(n, unit).
     and_then
       (if unit = ''s'' then Inr (f64_lit 1 1)
        else if unit = ''m'' then Inr (f64_lit 60 1)
        else if unit = ''h'' then Inr (f64_lit 3600 1)
        else if unit = ''d'' then Inr (f64_lit 86400 1)
        else Inl (InvalidResolution s)) (\<lambda>factor.
     Inr (f64_mul (f64_of_nat n) factor)))"

definition build_time_range_clause :: "string \<Rightarrow> string \<Rightarrow> sql_result" where
  "build_time_range_clause tfrom tto =
     and_then (parse_time_expr tfrom) (\<lambda>from_expr.
     and_then (parse_time_expr tto) (\<lambda>to_expr.
     Inr (piece ''\<newline>  AND mp.time_unix_nano >= '' @
         from_expr @
         piece ''\<newline>  AND mp.time_unix_nano <= '' @
         to_expr)))"

definition build_log_time_range_clause :: "string \<Rightarrow> string \<Rightarrow> sql_result" where
  "build_log_time_range_clause tfrom tto =
     and_then (parse_time_expr tfrom) (\<lambda>from_expr.
     and_then (parse_time_expr tto) (\<lambda>to_expr.
     Inr (piece ''\<newline>  AND timestamp_unix_nano >= '' @
         from_expr @
         piece ''\<newline>  AND timestamp_unix_nano <= '' @
         to_expr)))"

definition build_window_preceding_clause :: "string \<Rightarrow> sql_result" where
  "build_window_preceding_clause window =
     and_then (parse_time_expr (''now-'' @ window)) (\<lambda>from_expr.
     Inr (piece ''\<newline>  AND mp.time_unix_nano >= '' @
         from_expr))"

subsection \<open>Filters and grouping\<close>

definition map_filter_field :: "string \<Rightarrow> string" where
  "map_filter_field field =
     (if field = ''service_name'' \<or> field = ''service'' then piece ''ms.service_name''
      else if field = ''environment'' \<or> field = ''env'' then piece ''ms.environment''
      else if field = ''metric_name'' \<or> field = ''metric'' then piece ''ms.metric_name''
      else piece ''JSONExtractString(ms.attributes, '' @ quoted (escape_string_value field) @
           piece '')'')"

definition map_log_filter_field :: "string \<Rightarrow> string" where
  "map_log_filter_field field =
     (if field = ''service_name'' \<or> field = ''service'' then piece ''service_name''
      else if field = ''severity_text'' \<or> field = ''severity'' \<or> field = ''level''
        then piece ''severity_text''
      else if field = ''environment'' \<or> field = ''env'' then piece ''environment''
      else if field = ''trace_id'' then piece ''trace_id''
      else if field = ''span_id'' then piece ''span_id''
      else if field = ''body'' then piece ''body''
      else piece ''JSONExtractString(attributes, '' @ quoted (escape_string_value field) @
           piece '')'')"

fun build_filter_expr :: "string \<Rightarrow> nlq_filter_op \<Rightarrow> string \<Rightarrow> string" where
  "build_filter_expr col Eq v = col @ piece '' = '' @ quoted (escape_string_value v)"
| "build_filter_expr col Ne v = col @ piece '' != '' @ quoted (escape_string_value v)"
| "build_filter_expr col Re v =
     piece ''match('' @ col @ piece '', '' @ quoted (escape_string_value v) @ piece '')''"
| "build_filter_expr col Nre v =
     piece ''NOT match('' @ col @ piece '', '' @ quoted (escape_string_value v) @ piece '')''"
| "build_filter_expr col Gt v = col @ piece '' > '' @ escape_string_value v"
| "build_filter_expr col Gte v = col @ piece '' >= '' @ escape_string_value v"
| "build_filter_expr col Lt v = col @ piece '' < '' @ escape_string_value v"
| "build_filter_expr col Lte v = col @ piece '' <= '' @ escape_string_value v"

definition match_expr :: "string \<Rightarrow> string \<Rightarrow> string" where
  "match_expr col v =
     piece ''match('' @ col @ piece '', '' @ quoted (escape_string_value v) @ piece '')''"

definition numeric_filter :: "string \<Rightarrow> string \<Rightarrow> string \<Rightarrow> sql_result" where
  "numeric_filter col op v =
     and_then (ok_or (InvalidFilterValue col) (parse_f64 v)) (\<lambda>parsed.
     Inr (col @ op @ show_f64 parsed))"

fun build_filter_expr_checked :: "string \<Rightarrow> nlq_filter_op \<Rightarrow> string \<Rightarrow> sql_result" where
  "build_filter_expr_checked col Eq v = Inr (col @ piece '' = '' @ quoted (escape_string_value v))"
| "build_filter_expr_checked col Ne v = Inr (col @ piece '' != '' @ quoted (escape_string_value v))"
| "build_filter_expr_checked col Re v =
     (if length v \<le> 256 then Inr (match_expr col v) else Inl (InvalidFilterValue col))"
| "build_filter_expr_checked col Nre v =
     (if length v \<le> 256 then Inr (piece ''NOT '' @ match_expr col v)
      else Inl (InvalidFilterValue col))"
| "build_filter_expr_checked col Gt v = numeric_filter col (piece '' > '') v"
| "build_filter_expr_checked col Gte v = numeric_filter col (piece '' >= '') v"
| "build_filter_expr_checked col Lt v = numeric_filter col (piece '' < '') v"
| "build_filter_expr_checked col Lte v = numeric_filter col (piece '' <= '') v"

definition filter_clause :: "string \<Rightarrow> string" where
  "filter_clause e = piece ''\<newline>  AND ('' @ e @ piece '')''"

definition build_filter_clauses_checked :: "nlq_filter list \<Rightarrow> sql_result" where
  "build_filter_clauses_checked filters =
     (if filters = [] then Inr []
      else map_ok (join [])
        (collect_results (map (\<lambda>f.
           map_ok filter_clause
             (build_filter_expr_checked (map_filter_field (flt_field f)) (flt_op f) (flt_value f)))
         filters)))"

definition build_log_filter_clauses_checked :: "nlq_filter list \<Rightarrow> sql_result" where
  "build_log_filter_clauses_checked filters =
     (if filters = [] then Inr []
      else map_ok (join [])
        (collect_results (map (\<lambda>f.
           map_ok filter_clause
             (build_filter_expr_checked (map_log_filter_field (flt_field f)) (flt_op f) (flt_value f)))
         filters)))"

definition build_filter_clauses :: "nlq_filter list \<Rightarrow> string" where
  "build_filter_clauses filters =
     (if filters = [] then []
      else join [] (map (\<lambda>f. piece ''\<newline>  AND '' @
        build_filter_expr (map_filter_field (flt_field f)) (flt_op f) (flt_value f)) filters))"

definition build_log_filter_clauses :: "nlq_filter list \<Rightarrow> string" where
  "build_log_filter_clauses filters =
     (if filters = [] then []
      else join [] (map (\<lambda>f. piece ''\<newline>  AND '' @
        build_filter_expr (map_log_filter_field (flt_field f)) (flt_op f) (flt_value f)) filters))"

definition build_group_by :: "string list \<Rightarrow> string \<times> string" where
  "build_group_by group_by =
     (if group_by = [] then ([], [])
      else let valid = filter (\<lambda>g. validate_sql_identifier g = Inr ()) group_by
           in if valid = [] then ([], [])
              else (concat (map (\<lambda>g. piece '',\<newline>    '' @ map_filter_field g @ piece '' AS '' @ g) valid),
                    concat (map (\<lambda>g. piece '', '' @ map_filter_field g) valid)))"

definition stat_to_sql_expr :: "string \<Rightarrow> string \<Rightarrow> string option" where
  "stat_to_sql_expr stat val =
     (if stat = ''median'' then Some (piece ''quantile(0.50)('' @ val @ piece '') AS median'')
      else if stat = ''average'' then Some (piece ''avg('' @ val @ piece '') AS average'')
      else if stat = ''mean'' then Some (piece ''avg('' @ val @ piece '') AS mean'')
      else if stat = ''min'' then Some (piece ''min('' @ val @ piece '') AS min'')
      else if stat = ''max'' then Some (piece ''max('' @ val @ piece '') AS max'')
      else if stat = ''min_val'' then Some (piece ''min('' @ val @ piece '') AS min_val'')
      else if stat = ''max_val'' then Some (piece ''max('' @ val @ piece '') AS max_val'')
      else case strip_prefix ''p'' stat of
             None \<Rightarrow> None
           | Some digits \<Rightarrow>
              (case parse_unsigned 32 digits of
                 None \<Rightarrow> None
               | Some n \<Rightarrow>
                   if n = 0 \<or> 999 < n then None
                   else let q = (if n \<le> 99 then f64_div (f64_of_nat n) (f64_lit 100 1)
                                 else f64_div (f64_of_nat n) (f64_lit 1000 1))
                        in Some (piece ''quantile('' @ show_fixed3 q @ piece '')('' @ val @
                                 piece '') AS '' @ stat)))"

subsection \<open>The operation templates\<close>

definition timeseries_sql :: "(uuid \<Rightarrow> string) \<Rightarrow> sql_context \<Rightarrow> sql_result" where
  "timeseries_sql us ctx =
     (let ir = ctx_ir ctx; resolution = unwrap_or ''1m'' (ir_resolution ir) in
      and_then (parse_interval resolution) (\<lambda>interval.
      and_then (build_filter_clauses_checked (ir_filters ir)) (\<lambda>filters.
      and_then (build_time_range_clause (tr_from (ir_time_range ir)) (tr_to (ir_time_range ir))) (\<lambda>time_clause.
      case build_group_by (ir_group_by ir) of (group_select, group_clause) \<Rightarrow>
      Inr (piece (''SELECT\<newline>    '' @
                ''toStartOfInterval(fromUnixTimestamp64Nano(mp.time_unix_nano), '' @
                ''INTERVAL '') @
         interval @
         piece ('') AS bucket,\<newline>    avg(coalesce(mp.value_double, '' @
                ''toFloat64(mp.value_int))) AS value'') @
         group_select @
         piece (''\<newline>FROM observable.metric_points mp\<newline>JOIN '' @
                ''observable.metric_series ms\<newline>    ON ms.tenant_id = '' @
                ''mp.tenant_id AND ms.metric_series_id = mp.metric_series_id'' @
                ''\<newline>WHERE mp.tenant_id = '') @
         quoted (us (ctx_tenant_id ctx)) @
         piece ''\<newline>  AND ms.metric_name = '' @
         quoted (escape_string_value (ctx_metric_name ctx)) @
         filters @
         time_clause @
         piece ''\<newline>GROUP BY bucket'' @
         group_clause @
         piece ''\<newline>ORDER BY bucket'')))))"

definition rate_sql :: "(uuid \<Rightarrow> string) \<Rightarrow> sql_context \<Rightarrow> sql_result" where
  "rate_sql us ctx =
     (let ir = ctx_ir ctx; resolution = unwrap_or ''1m'' (ir_resolution ir) in
      and_then (parse_interval resolution) (\<lambda>interval.
      and_then (interval_to_secs resolution) (\<lambda>interval_secs.
      let window = unwrap_or ''5m'' (ir_window ir) in
      and_then (build_filter_clauses_checked (ir_filters ir)) (\<lambda>filters.
      and_then (build_time_range_clause (tr_from (ir_time_range ir)) (tr_to (ir_time_range ir))) (\<lambda>time_clause.
      and_then (build_window_preceding_clause window) (\<lambda>window_clause.
      case build_group_by (ir_group_by ir) of (group_select, group_clause) \<Rightarrow>
      Inr (piece (''WITH src AS (\<newline>    SELECT\<newline>        '' @
                ''mp.time_unix_nano,\<newline>        coalesce(mp.value_double, '' @
                ''toFloat64(mp.value_int)) AS value,\<newline>        '' @
                ''mp.metric_series_id\<newline>    FROM observable.metric_points '' @
                ''mp\<newline>    JOIN observable.metric_series ms\<newline>'' @
                ''        ON ms.tenant_id = mp.tenant_id AND ms.metric_series_id '' @
                ''= mp.metric_series_id\<newline>    WHERE mp.tenant_id = '') @
         quoted (us (ctx_tenant_id ctx)) @
         piece ''\<newline>      AND ms.metric_name = '' @
         quoted (escape_string_value (ctx_metric_name ctx)) @
         filters @
         time_clause @
         window_clause @
         piece (''\<newline>)\<newline>SELECT\<newline>    '' @
                ''toStartOfInterval(fromUnixTimestamp64Nano(time_unix_nano), '' @
                ''INTERVAL '') @
         interval @
         piece '') AS bucket,\<newline>    sum(if(delta < 0, value, delta)) / '' @
         (show_f64 interval_secs) @
         piece '' AS rate'' @
         group_select @
         piece (''\<newline>FROM (\<newline>    SELECT\<newline>        '' @
                ''time_unix_nano, value,\<newline>        value - '' @
                ''lagInFrame(value, 1, value)\<newline>            OVER '' @
                ''(PARTITION BY metric_series_id ORDER BY time_unix_nano) AS '' @
                ''delta\<newline>    FROM src\<newline>)\<newline>GROUP BY bucket'') @
         group_clause @
         piece ''\<newline>ORDER BY bucket'')))))))"

definition irate_sql :: "(uuid \<Rightarrow> string) \<Rightarrow> sql_context \<Rightarrow> sql_result" where
  "irate_sql us ctx =
     (let ir = ctx_ir ctx; window = unwrap_or ''1m'' (ir_window ir) in
      and_then (build_filter_clauses_checked (ir_filters ir)) (\<lambda>filters.
      and_then (build_time_range_clause (tr_from (ir_time_range ir)) (tr_to (ir_time_range ir))) (\<lambda>time_clause.
      and_then (build_window_preceding_clause window) (\<lambda>window_clause.
      Inr (piece (''WITH src AS (\<newline>    SELECT\<newline>        '' @
                ''mp.time_unix_nano,\<newline>        coalesce(mp.value_double, '' @
                ''toFloat64(mp.value_int)) AS value,\<newline>        '' @
                ''mp.metric_series_id,\<newline>        row_number()\<newline>'' @
                ''            OVER (PARTITION BY mp.metric_series_id ORDER BY '' @
                ''mp.time_unix_nano DESC) AS rn\<newline>    FROM '' @
                ''observable.metric_points mp\<newline>    JOIN '' @
                ''observable.metric_series ms\<newline>        ON ms.tenant_id = '' @
                ''mp.tenant_id AND ms.metric_series_id = mp.metric_series_id'' @
                ''\<newline>    WHERE mp.tenant_id = '') @
         quoted (us (ctx_tenant_id ctx)) @
         piece ''\<newline>      AND ms.metric_name = '' @
         quoted (escape_string_value (ctx_metric_name ctx)) @
         filters @
         time_clause @
         window_clause @
         piece (''\<newline>)\<newline>SELECT\<newline>    metric_series_id,'' @
                ''\<newline>    if(delta < 0, latest_value, delta) / ((latest_ts '' @
                ''- prev_ts) / 1e9) AS irate\<newline>FROM (\<newline>    SELECT'' @
                ''\<newline>        metric_series_id,\<newline>        '' @
                ''maxIf(value, rn = 1) AS latest_value,\<newline>        '' @
                ''maxIf(value, rn = 1) - maxIf(value, rn = 2) AS delta,\<newline>'' @
                ''        maxIf(time_unix_nano, rn = 1) AS latest_ts,\<newline>'' @
                ''        maxIf(time_unix_nano, rn = 2) AS prev_ts\<newline>    '' @
                ''FROM src\<newline>    WHERE rn <= 2\<newline>    GROUP BY '' @
                ''metric_series_id\<newline>)\<newline>WHERE latest_ts > prev_ts''))))))"

definition increase_sql :: "(uuid \<Rightarrow> string) \<Rightarrow> sql_context \<Rightarrow> sql_result" where
  "increase_sql us ctx =
     (let ir = ctx_ir ctx; window = unwrap_or ''1h'' (ir_window ir) in
      and_then (build_filter_clauses_checked (ir_filters ir)) (\<lambda>filters.
      and_then (build_time_range_clause (tr_from (ir_time_range ir)) (tr_to (ir_time_range ir))) (\<lambda>time_clause.
      and_then (build_window_preceding_clause window) (\<lambda>window_clause.
      case build_group_by (ir_group_by ir) of (group_select, group_clause) \<Rightarrow>
      Inr (piece (''WITH src AS (\<newline>    SELECT\<newline>        '' @
                ''mp.time_unix_nano,\<newline>        coalesce(mp.value_double, '' @
                ''toFloat64(mp.value_int)) AS value,\<newline>        '' @
                ''mp.metric_series_id\<newline>    FROM observable.metric_points '' @
                ''mp\<newline>    JOIN observable.metric_series ms\<newline>'' @
                ''        ON ms.tenant_id = mp.tenant_id AND ms.metric_series_id '' @
                ''= mp.metric_series_id\<newline>    WHERE mp.tenant_id = '') @
         quoted (us (ctx_tenant_id ctx)) @
         piece ''\<newline>      AND ms.metric_name = '' @
         quoted (escape_string_value (ctx_metric_name ctx)) @
         filters @
         time_clause @
         window_clause @
         piece (''\<newline>)\<newline>SELECT\<newline>    sum(if(delta < 0, '' @
                ''value, delta)) AS increase'') @
         group_select @
         piece (''\<newline>FROM (\<newline>    SELECT\<newline>        value,'' @
                ''\<newline>        value - lagInFrame(value, 1, value)\<newline>'' @
                ''            OVER (PARTITION BY metric_series_id ORDER BY '' @
                ''time_unix_nano) AS delta\<newline>    FROM src\<newline>)'' @
                ''\<newline>WHERE true'') @
         group_clause)))))"

definition histogram_sql :: "(uuid \<Rightarrow> string) \<Rightarrow> sql_context \<Rightarrow> sql_result" where
  "histogram_sql us ctx =
     (let ir = ctx_ir ctx in
      and_then (build_filter_clauses_checked (ir_filters ir)) (\<lambda>filters.
      and_then (build_time_range_clause (tr_from (ir_time_range ir)) (tr_to (ir_time_range ir))) (\<lambda>time_clause.
      Inr (piece (''SELECT\<newline>    bound,\<newline>    sum(count_in_bucket) '' @
                ''AS count\<newline>FROM (\<newline>    SELECT\<newline>        '' @
                ''arrayJoin(\<newline>            arrayMap(\<newline>'' @
                ''                (b, c) -> (b, c),\<newline>                '' @
                ''mp.histogram_explicit_bounds,\<newline>                '' @
                ''arraySlice(arrayDifference(arrayConcat([toUInt64(0)], '' @
                ''mp.histogram_bucket_counts)), 1, '' @
                ''length(mp.histogram_explicit_bounds))\<newline>            )'' @
                ''\<newline>        ) AS bc,\<newline>        bc.1 AS bound,'' @
                ''\<newline>        bc.2 AS count_in_bucket\<newline>    FROM '' @
                ''observable.metric_points mp\<newline>    JOIN '' @
                ''observable.metric_series ms\<newline>        ON ms.tenant_id = '' @
                ''mp.tenant_id AND ms.metric_series_id = mp.metric_series_id'' @
                ''\<newline>    WHERE mp.tenant_id = '') @
         quoted (us (ctx_tenant_id ctx)) @
         piece ''\<newline>      AND ms.metric_name = '' @
         quoted (escape_string_value (ctx_metric_name ctx)) @
         filters @
         time_clause @
         piece (''\<newline>      AND notEmpty(mp.histogram_explicit_bounds)'' @
                ''\<newline>)\<newline>GROUP BY bound\<newline>ORDER BY bound'')))))"

definition topk_sql :: "(uuid \<Rightarrow> string) \<Rightarrow> sql_context \<Rightarrow> sql_result" where
  "topk_sql us ctx =
     (let ir = ctx_ir ctx; k = show_word (unwrap_or 10 (ir_limit ir)) in
      and_then (build_filter_clauses_checked (ir_filters ir)) (\<lambda>filters.
      and_then (build_time_range_clause (tr_from (ir_time_range ir)) (tr_to (ir_time_range ir))) (\<lambda>time_clause.
      Inr (piece (''SELECT\<newline>    ms.metric_name,\<newline>    '' @
                ''ms.service_name,\<newline>    avg(coalesce(mp.value_double, '' @
                ''toFloat64(mp.value_int))) AS avg_value\<newline>FROM '' @
                ''observable.metric_points mp\<newline>JOIN '' @
                ''observable.metric_series ms\<newline>    ON ms.tenant_id = '' @
                ''mp.tenant_id AND ms.metric_series_id = mp.metric_series_id'' @
                ''\<newline>WHERE mp.tenant_id = '') @
         quoted (us (ctx_tenant_id ctx)) @
         piece ''\<newline>  AND ms.metric_name = '' @
         quoted (escape_string_value (ctx_metric_name ctx)) @
         filters @
         time_clause @
         piece (''\<newline>GROUP BY ms.metric_name, ms.service_name\<newline>'' @
                ''ORDER BY avg_value DESC\<newline>LIMIT '') @
         k))))"

definition table_sql :: "(uuid \<Rightarrow> string) \<Rightarrow> sql_context \<Rightarrow> sql_result" where
  "table_sql us ctx =
     (let ir = ctx_ir ctx in
      and_then (build_filter_clauses_checked (ir_filters ir)) (\<lambda>filters.
      and_then (build_time_range_clause (tr_from (ir_time_range ir)) (tr_to (ir_time_range ir))) (\<lambda>time_clause.
      case build_group_by (ir_group_by ir) of (extra_select, _) \<Rightarrow>
      Inr (piece (''SELECT\<newline>    mp.time_unix_nano AS timestamp_unix_nano,'' @
                ''\<newline>    ms.metric_name,\<newline>    ms.service_name,'' @
                ''\<newline>    coalesce(mp.value_double, '' @
                ''toFloat64(mp.value_int)) AS value'') @
         extra_select @
         piece (''\<newline>FROM observable.metric_points mp\<newline>JOIN '' @
                ''observable.metric_series ms\<newline>    ON ms.tenant_id = '' @
                ''mp.tenant_id AND ms.metric_series_id = mp.metric_series_id'' @
                ''\<newline>WHERE mp.tenant_id = '') @
         quoted (us (ctx_tenant_id ctx)) @
         piece ''\<newline>  AND ms.metric_name = '' @
         quoted (escape_string_value (ctx_metric_name ctx)) @
         filters @
         time_clause @
         piece ''\<newline>ORDER BY timestamp_unix_nano DESC\<newline>LIMIT 1000''))))"

text \<open>The select list of \<open>distribution_sql\<close>: the requested statistics that have an expression.\<close>

definition distribution_select_list :: "string list option \<Rightarrow> string" where
  "distribution_select_list percentiles =
     (let val = piece ''coalesce(mp.value_double, toFloat64(mp.value_int))'';
          default_stats = [''p50'', ''p90'', ''p95'', ''p99'', ''min'', ''max''];
          requested = (case percentiles of
                         Some v \<Rightarrow> if v \<noteq> [] then v else default_stats
                       | None \<Rightarrow> default_stats);
          expressions = List.map_filter (\<lambda>stat. stat_to_sql_expr stat val) requested;
          expressions = (if expressions = []
                         then [piece ''quantile(0.99)('' @ val @ piece '') AS p99''] else expressions)
      in join (piece '',\<newline>'') (map (\<lambda>e. piece ''    '' @ e) expressions))"

definition distribution_sql :: "(uuid \<Rightarrow> string) \<Rightarrow> sql_context \<Rightarrow> sql_result" where
  "distribution_sql us ctx =
     (let ir = ctx_ir ctx in
      and_then (build_filter_clauses_checked (ir_filters ir)) (\<lambda>filters.
      and_then (build_time_range_clause (tr_from (ir_time_range ir)) (tr_to (ir_time_range ir))) (\<lambda>time_clause.
      let select_list = distribution_select_list (ir_percentiles ir) in
      Inr (piece ''SELECT\<newline>'' @
         select_list @
         piece (''\<newline>FROM observable.metric_points mp\<newline>JOIN '' @
                ''observable.metric_series ms\<newline>    ON ms.tenant_id = '' @
                ''mp.tenant_id AND ms.metric_series_id = mp.metric_series_id'' @
                ''\<newline>WHERE mp.tenant_id = '') @
         quoted (us (ctx_tenant_id ctx)) @
         piece ''\<newline>  AND ms.metric_name = '' @
         quoted (escape_string_value (ctx_metric_name ctx)) @
         filters @
         time_clause))))"

definition catalog_sql :: "(uuid \<Rightarrow> string) \<Rightarrow> sql_context \<Rightarrow> sql_result" where
  "catalog_sql us ctx =
     (let ir = ctx_ir ctx in
      and_then (ok_or MissingCatalogField (ir_catalog_field ir)) (\<lambda>field.
      and_then (validate_sql_identifier field) (\<lambda>_.
      let col_expr = map_filter_field field in
      and_then (build_filter_clauses_checked (ir_filters ir)) (\<lambda>filters.
      Inr (piece ''SELECT\<newline>    '' @
         col_expr @
         piece '' AS '' @
         field @
         piece ('',\<newline>    count() AS series_count\<newline>FROM '' @
                ''observable.metric_series ms\<newline>WHERE ms.tenant_id = '') @
         quoted (us (ctx_tenant_id ctx)) @
         filters @
         piece ''\<newline>GROUP BY '' @
         field @
         piece ''\<newline>ORDER BY series_count DESC\<newline>LIMIT 100'')))))"

definition generate_sql :: "(uuid \<Rightarrow> string) \<Rightarrow> sql_context \<Rightarrow> sql_result" where
  "generate_sql us ctx =
     (case ir_operation (ctx_ir ctx) of
        Timeseries \<Rightarrow> timeseries_sql us ctx
      | Rate \<Rightarrow> rate_sql us ctx
      | Irate \<Rightarrow> irate_sql us ctx
      | Increase \<Rightarrow> increase_sql us ctx
      | Histogram \<Rightarrow> histogram_sql us ctx
      | Topk \<Rightarrow> topk_sql us ctx
      | Table \<Rightarrow> table_sql us ctx
      | Distribution \<Rightarrow> distribution_sql us ctx
      | Catalog \<Rightarrow> catalog_sql us ctx
      | Inventory \<Rightarrow> Inl MissingMetricName)"

subsection \<open>Log search\<close>

record log_sql_context =
  lctx_tenant_id :: uuid
  lctx_ir :: nlq_ir

definition log_query_clause :: "string option \<Rightarrow> string" where
  "log_query_clause q =
     (case q of
        Some q \<Rightarrow> if q \<noteq> [] then piece ''\<newline>  AND positionCaseInsensitive(body, '' @
         quoted (escape_string_value q) @
         piece '') > 0'' else []
      | None \<Rightarrow> [])"

definition generate_log_sql :: "(uuid \<Rightarrow> string) \<Rightarrow> log_sql_context \<Rightarrow> sql_result" where
  "generate_log_sql us ctx =
     (let ir = lctx_ir ctx in
      and_then (build_log_time_range_clause (tr_from (ir_time_range ir)) (tr_to (ir_time_range ir))) (\<lambda>time_clause.
      and_then (build_log_filter_clauses_checked (ir_filters ir)) (\<lambda>filter_clause.
      let query_clause = log_query_clause (ir_query ir) in
      Inr (piece (''SELECT\<newline>    log_id,\<newline>    timestamp_unix_nano,'' @
                ''\<newline>    observed_timestamp_unix_nano,\<newline>    '' @
                ''severity_number,\<newline>    severity_text,\<newline>    body,'' @
                ''\<newline>    trace_id,\<newline>    span_id,\<newline>    '' @
                ''service_name,\<newline>    environment,\<newline>    host_id,'' @
                ''\<newline>    fingerprint,\<newline>    attributes,\<newline>'' @
                ''    resource_attributes\<newline>FROM observable.logs\<newline>'' @
                ''WHERE tenant_id = '') @
         quoted (us (lctx_tenant_id ctx)) @
         query_clause @
         filter_clause @
         time_clause @
         piece ''\<newline>ORDER BY timestamp_unix_nano DESC\<newline>LIMIT 200''))))"

end
