(* ===== verification/Sql_Safety.thy ===== *)
theory Sql_Safety
  imports Sql_Templates
begin

section \<open>No value becomes SQL\<close>

text \<open>
  \<open>escape_string_value\<close> satisfies the laws of the \<open>sql_dialect\<close> locale for ClickHouse's
  literals, for every value. Over that interpretation: each clause builder inlines exactly
  the values it was given, and so does every operation template.
\<close>

subsection \<open>Escaping against ClickHouse's lexer\<close>

lemma escape_Nil [simp]: "escape_string_value [] = []"
  by (simp add: escape_string_value_def str_replace_def)

lemma escape_Cons:
  "escape_string_value (c # s) =
     (if c = backslash then [backslash, backslash]
      else if c = quote then [backslash, quote] else [c]) @ escape_string_value s"
  by (simp add: escape_string_value_def str_replace_def)

lemma ch_lex_escaped:
  "\<not> starts_quote r \<Longrightarrow>
   ch_lex_from (In_lit a) (escape_string_value v @ quote # r) = after [Lit (a @ v)] (ch_lex r)"
proof (induction v arbitrary: a)
  case Nil
  then show ?case by (cases r) (auto simp: ch_lex_def)
next
  case (Cons c v)
  then show ?case by (auto simp: escape_Cons)
qed

interpretation clickhouse: sql_dialect ch_lex escape_string_value "\<lambda>_. True"
proof unfold_locales
  show "ch_lex [] = Some []" by (simp add: ch_lex_def)
  show "ch_lex (c # r) = after [Code c] (ch_lex r)" if "c \<noteq> quote" for c r
    using that by (simp add: ch_lex_def)
  show "ch_lex (quoted (escape_string_value v) @ r) = after [Lit v] (ch_lex r)"
    if "\<not> starts_quote r" for v r
    using ch_lex_escaped[OF that, of "[]" v] by (simp add: quoted_def ch_lex_def)
qed

text \<open>A text without quotes and backslashes is its own escape: so is a printed UUID.\<close>

definition plain_text :: "string \<Rightarrow> bool" where
  "plain_text s \<longleftrightarrow> quote \<notin> set s \<and> backslash \<notin> set s"

lemma escape_plain: "plain_text s \<Longrightarrow> escape_string_value s = s"
  by (induction s) (auto simp: plain_text_def escape_Cons)

lemma plain_text_Nil [simp]: "plain_text []"
  by (simp add: plain_text_def)

subsection \<open>The code positions hold only validated text\<close>

lemma list_all_digits_quote_free: "list_all is_ascii_digit s \<Longrightarrow> quote_free s"
  using digits_quote_free[of s "[]"] by (auto simp: list_all_iff)

lemma quote_free_parse_time_expr: "parse_time_expr e = Inr s \<Longrightarrow> quote_free s"
  by (auto simp: parse_time_expr_def Let_def list_all_digits_quote_free split: if_splits option.splits)

lemma quote_free_unit: "duration_unit_to_ch u = Some s \<Longrightarrow> quote_free s"
  by (auto simp: duration_unit_to_ch_def split: if_splits)

lemma quote_free_parse_interval: "parse_interval e = Inr s \<Longrightarrow> quote_free s"
  by (auto simp: parse_interval_def quote_free_unit)

lemma quote_free_time_range: "build_time_range_clause f t = Inr s \<Longrightarrow> quote_free s"
  by (auto simp: build_time_range_clause_def dest: quote_free_parse_time_expr)

lemma quote_free_log_time_range: "build_log_time_range_clause f t = Inr s \<Longrightarrow> quote_free s"
  by (auto simp: build_log_time_range_clause_def dest: quote_free_parse_time_expr)

lemma quote_free_window: "build_window_preceding_clause w = Inr s \<Longrightarrow> quote_free s"
  by (auto simp: build_window_preceding_clause_def dest: quote_free_parse_time_expr)

lemma quote_free_identifier: "validate_sql_identifier s = Inr () \<Longrightarrow> quote_free s"
  by (auto simp: validate_sql_identifier_def quote_free_def list_all_iff is_ascii_alphanumeric_def
      is_ascii_digit_def is_ascii_alphabetic_def split: if_splits)

lemmas code_text = quote_free_parse_interval quote_free_time_range quote_free_log_time_range
  quote_free_window quote_free_identifier

subsection \<open>What blanking a value means\<close>

definition is_metric_column :: "string \<Rightarrow> bool" where
  "is_metric_column f \<longleftrightarrow>
     f \<in> {''service_name'', ''service'', ''environment'', ''env'', ''metric_name'', ''metric''}"

definition is_log_column :: "string \<Rightarrow> bool" where
  "is_log_column f \<longleftrightarrow>
     f \<in> {''service_name'', ''service'', ''severity_text'', ''severity'', ''level'',
          ''environment'', ''env'', ''trace_id'', ''span_id'', ''body''}"

definition is_numeric_op :: "nlq_filter_op \<Rightarrow> bool" where
  "is_numeric_op op \<longleftrightarrow> op \<in> {Gt, Gte, Lt, Lte}"

definition blank_filter :: "(string \<Rightarrow> bool) \<Rightarrow> nlq_filter \<Rightarrow> nlq_filter" where
  "blank_filter direct f =
     \<lparr>flt_field = (if direct (flt_field f) then flt_field f else []),
      flt_op = flt_op f,
      flt_value = (if is_numeric_op (flt_op f) then flt_value f else [])\<rparr>"

definition blank_ir :: "(string \<Rightarrow> bool) \<Rightarrow> nlq_ir \<Rightarrow> nlq_ir" where
  "blank_ir direct ir =
     ir\<lparr>ir_filters := map (blank_filter direct) (ir_filters ir),
        ir_query := map_option (\<lambda>q. if q = [] then [] else ''x'') (ir_query ir)\<rparr>"

definition blank_context :: "sql_context \<Rightarrow> sql_context" where
  "blank_context ctx = ctx\<lparr>ctx_metric_name := [], ctx_ir := blank_ir is_metric_column (ctx_ir ctx)\<rparr>"

definition blank_log_context :: "log_sql_context \<Rightarrow> log_sql_context" where
  "blank_log_context ctx = ctx\<lparr>lctx_ir := blank_ir is_log_column (lctx_ir ctx)\<rparr>"

lemma blank_ir_simps [simp]:
  "ir_operation (blank_ir d ir) = ir_operation ir"
  "ir_window (blank_ir d ir) = ir_window ir"
  "ir_filters (blank_ir d ir) = map (blank_filter d) (ir_filters ir)"
  "ir_group_by (blank_ir d ir) = ir_group_by ir"
  "ir_resolution (blank_ir d ir) = ir_resolution ir"
  "ir_time_range (blank_ir d ir) = ir_time_range ir"
  "ir_percentiles (blank_ir d ir) = ir_percentiles ir"
  "ir_catalog_field (blank_ir d ir) = ir_catalog_field ir"
  "ir_limit (blank_ir d ir) = ir_limit ir"
  "ir_query (blank_ir d ir) = map_option (\<lambda>q. if q = [] then [] else ''x'') (ir_query ir)"
  by (simp_all add: blank_ir_def)

lemma blank_context_simps [simp]:
  "ctx_metric_name (blank_context ctx) = []"
  "ctx_ir (blank_context ctx) = blank_ir is_metric_column (ctx_ir ctx)"
  by (simp_all add: blank_context_def)

lemma blank_log_context_simps [simp]:
  "lctx_ir (blank_log_context ctx) = blank_ir is_log_column (lctx_ir ctx)"
  by (simp add: blank_log_context_def)

text \<open>The literals a filter, a list of filters and a grouping contribute, in order.\<close>

definition column_literals :: "(string \<Rightarrow> bool) \<Rightarrow> string \<Rightarrow> string list" where
  "column_literals direct f = (if direct f then [] else [f])"

definition filter_literals :: "(string \<Rightarrow> bool) \<Rightarrow> nlq_filter \<Rightarrow> string list" where
  "filter_literals direct f =
     column_literals direct (flt_field f) @ (if is_numeric_op (flt_op f) then [] else [flt_value f])"

definition group_literals :: "string list \<Rightarrow> string list" where
  "group_literals gs =
     concat (map (column_literals is_metric_column) (filter (\<lambda>g. validate_sql_identifier g = Inr ()) gs))"

subsection \<open>The clause builders\<close>

lemmas inline_rules =
  clickhouse.inlines_value[OF _ _ TrueI TrueI] clickhouse.inlines_value_end[OF _ _ TrueI TrueI]
  clickhouse.inlines_piece clickhouse.inlines_append

lemma column_inlines:
  "inlines ch_lex (map_filter_field f) (column_literals is_metric_column f)
     (map_filter_field (if is_metric_column f then f else []))"
proof (cases "is_metric_column f")
  case True
  then have "quote_free (map_filter_field f)"
    by (auto simp: is_metric_column_def map_filter_field_def)
  then show ?thesis using True by (simp add: column_literals_def clickhouse.inlines_text)
next
  case False
  have "inlines ch_lex
      (piece ''JSONExtractString(ms.attributes, '' @ quoted (escape_string_value f) @ piece '')'') [f]
      (piece ''JSONExtractString(ms.attributes, '' @ quoted (escape_string_value []) @ piece '')'')"
    by (rule inline_rules(1)) (simp_all add: clickhouse.inlines_text)
  then show ?thesis using False
    by (simp add: column_literals_def map_filter_field_def is_metric_column_def)
qed

lemma log_column_inlines:
  "inlines ch_lex (map_log_filter_field f) (column_literals is_log_column f)
     (map_log_filter_field (if is_log_column f then f else []))"
proof (cases "is_log_column f")
  case True
  then have "quote_free (map_log_filter_field f)"
    by (auto simp: is_log_column_def map_log_filter_field_def)
  then show ?thesis using True by (simp add: column_literals_def clickhouse.inlines_text)
next
  case False
  have "inlines ch_lex
      (piece ''JSONExtractString(attributes, '' @ quoted (escape_string_value f) @ piece '')'') [f]
      (piece ''JSONExtractString(attributes, '' @ quoted (escape_string_value []) @ piece '')'')"
    by (rule inline_rules(1)) (simp_all add: clickhouse.inlines_text)
  then show ?thesis using False
    by (simp add: column_literals_def map_log_filter_field_def is_log_column_def)
qed

text \<open>One filter, over any column expression that inlines.\<close>

lemma equality_inlines:
  assumes "inlines ch_lex col ls col'" "quote_free a" "quote_free op" "op \<noteq> []" "quote_free b"
  shows "inlines ch_lex (piece a @ col @ piece op @ quoted (escape_string_value v) @ piece b)
     (ls @ [v]) (piece a @ col' @ piece op @ quoted (escape_string_value v') @ piece b)"
proof -
  have "inlines ch_lex (piece op @ quoted (escape_string_value v) @ piece b) [v]
          (piece op @ quoted (escape_string_value v') @ piece b)"
    by (rule inline_rules(1)) (use assms in \<open>simp_all add: clickhouse.inlines_text\<close>)
  from clickhouse.inlines_piece[OF assms(2) clickhouse.inlines_append[OF assms(1) this]]
  show ?thesis .
qed

lemma numeric_inlines:
  assumes "inlines ch_lex col ls col'" "quote_free a" "quote_free op" "quote_free b"
  shows "inlines ch_lex (piece a @ col @ op @ show_f64 x @ piece b) ls
           (piece a @ col' @ op @ show_f64 x @ piece b)"
proof -
  have "inlines ch_lex (op @ show_f64 x @ piece b) [] (op @ show_f64 x @ piece b)"
    using assms by (intro clickhouse.inlines_text) simp
  then have "inlines ch_lex (col @ op @ show_f64 x @ piece b) (ls @ []) (col' @ op @ show_f64 x @ piece b)"
    using assms(1) by (rule clickhouse.inlines_append[rotated])
  then show ?thesis using assms(2) by (intro inline_rules(3)) auto
qed

lemma numeric_filter_inlines:
  assumes "inlines ch_lex col ls col'" "numeric_filter col op v = Inr e" "quote_free op"
  shows "\<exists>e'. numeric_filter col' op v = Inr e' \<and>
           inlines ch_lex (filter_clause e) ls (filter_clause e')"
proof -
  obtain x where x: "parse_f64 v = Some x" "e = col @ op @ show_f64 x"
    using assms(2) by (auto simp: numeric_filter_def)
  have "inlines ch_lex (filter_clause e) ls (filter_clause (col' @ op @ show_f64 x))"
    using numeric_inlines[OF assms(1) _ assms(3)] x(2) by (simp add: filter_clause_def)
  then show ?thesis using x by (auto simp: numeric_filter_def)
qed

lemma filter_expr_inlines:
  assumes "inlines ch_lex col ls col'" "build_filter_expr_checked col op v = Inr e"
  shows "\<exists>e'. build_filter_expr_checked col' op (if is_numeric_op op then v else []) = Inr e' \<and>
           inlines ch_lex (filter_clause e) (ls @ (if is_numeric_op op then [] else [v]))
             (filter_clause e')"
proof -
  note eq = equality_inlines[OF assms(1)] and num = numeric_filter_inlines[OF assms(1)]
  show ?thesis
  proof (cases op)
    case Eq
    then show ?thesis using assms(2) eq[of "''\<newline>  AND (''" "'' = ''" "'')''" v "[]"]
      by (auto simp: filter_clause_def is_numeric_op_def)
  next
    case Ne
    then show ?thesis using assms(2) eq[of "''\<newline>  AND (''" "'' != ''" "'')''" v "[]"]
      by (auto simp: filter_clause_def is_numeric_op_def)
  next
    case Re
    have "inlines ch_lex (filter_clause (match_expr col v)) (ls @ [v]) (filter_clause (match_expr col' []))"
      using inline_rules(3)[of "''\<newline>  AND (''", OF _ eq[of "''match(''" "'', ''" "'')'' @ '')''" v "[]"]]
      by (simp add: filter_clause_def match_expr_def piece_def)
    then show ?thesis using assms(2) Re by (auto simp: is_numeric_op_def split: if_splits)
  next
    case Nre
    have "inlines ch_lex (filter_clause (piece ''NOT '' @ match_expr col v)) (ls @ [v])
            (filter_clause (piece ''NOT '' @ match_expr col' []))"
      using inline_rules(3)[of "''\<newline>  AND (NOT ''", OF _ eq[of "''match(''" "'', ''" "'')'' @ '')''" v "[]"]]
      by (simp add: filter_clause_def match_expr_def piece_def)
    then show ?thesis using assms(2) Nre by (auto simp: is_numeric_op_def split: if_splits)
  qed (use assms(2) num[of _ v e] in \<open>simp_all add: is_numeric_op_def\<close>)
qed

definition checked_clause :: "(string \<Rightarrow> string) \<Rightarrow> nlq_filter \<Rightarrow> sql_result" where
  "checked_clause cf f =
     map_ok filter_clause (build_filter_expr_checked (cf (flt_field f)) (flt_op f) (flt_value f))"

lemma checked_clause_inlines:
  assumes "\<And>f. inlines ch_lex (cf f) (column_literals direct f) (cf (if direct f then f else []))"
    and "checked_clause cf f = Inr c"
  shows "\<exists>c'. checked_clause cf (blank_filter direct f) = Inr c' \<and>
           inlines ch_lex c (filter_literals direct f) c'"
proof -
  obtain e where e: "build_filter_expr_checked (cf (flt_field f)) (flt_op f) (flt_value f) = Inr e"
    "c = filter_clause e" using assms(2) by (auto simp: checked_clause_def)
  from filter_expr_inlines[OF assms(1) e(1)] show ?thesis
    using e(2) by (auto simp: checked_clause_def blank_filter_def filter_literals_def)
qed

lemma filters_inline:
  assumes col: "\<And>f. inlines ch_lex (cf f) (column_literals direct f) (cf (if direct f then f else []))"
    and rs: "collect_results (map (checked_clause cf) fs) = Inr xs"
  shows "\<exists>ys. collect_results (map (checked_clause cf) (map (blank_filter direct) fs)) = Inr ys \<and>
           inlines ch_lex (concat xs) (concat (map (filter_literals direct) fs)) (concat ys)"
  using rs
proof (induction fs arbitrary: xs)
  case Nil
  then show ?case by (simp add: clickhouse.inlines_Nil)
next
  case (Cons f fs)
  obtain c xs' where c: "checked_clause cf f = Inr c" and xs: "xs = c # xs'"
    and rest: "collect_results (map (checked_clause cf) fs) = Inr xs'"
    using Cons.prems by (auto simp: collect_results_Inr map_eq_Cons_conv Cons_eq_map_conv)
  obtain ys where ys: "collect_results (map (checked_clause cf) (map (blank_filter direct) fs)) = Inr ys"
    and inl: "inlines ch_lex (concat xs') (concat (map (filter_literals direct) fs)) (concat ys)"
    using Cons.IH[OF rest] by blast
  obtain c' where c': "checked_clause cf (blank_filter direct f) = Inr c'"
    and ic: "inlines ch_lex c (filter_literals direct f) c'"
    using checked_clause_inlines[OF col c] by blast
  have "inlines ch_lex (concat xs) (concat (map (filter_literals direct) (f # fs))) (concat (c' # ys))"
    using clickhouse.inlines_append[OF ic inl] xs by simp
  then show ?case using ys c' by (intro exI[of _ "c' # ys"]) simp
qed

lemma build_filter_clauses_checked_alt:
  "build_filter_clauses_checked fs =
     map_ok concat (collect_results (map (checked_clause map_filter_field) fs))"
  "build_log_filter_clauses_checked fs =
     map_ok concat (collect_results (map (checked_clause map_log_filter_field) fs))"
proof -
  have *: "join [] = (concat :: string list \<Rightarrow> string)" by (rule ext) (rule set_join_concat)
  show "build_filter_clauses_checked fs =
     map_ok concat (collect_results (map (checked_clause map_filter_field) fs))"
    by (simp add: build_filter_clauses_checked_def checked_clause_def[abs_def] *)
  show "build_log_filter_clauses_checked fs =
     map_ok concat (collect_results (map (checked_clause map_log_filter_field) fs))"
    by (simp add: build_log_filter_clauses_checked_def checked_clause_def[abs_def] *)
qed

lemma filter_clauses_inline:
  assumes "build_filter_clauses_checked fs = Inr s"
  shows "\<exists>s'. build_filter_clauses_checked (map (blank_filter is_metric_column) fs) = Inr s' \<and>
           inlines ch_lex s (concat (map (filter_literals is_metric_column) fs)) s'"
proof -
  obtain xs where "collect_results (map (checked_clause map_filter_field) fs) = Inr xs" "s = concat xs"
    using assms by (auto simp: build_filter_clauses_checked_alt)
  with filters_inline[OF column_inlines, of fs xs] show ?thesis
    by (auto simp: build_filter_clauses_checked_alt simp del: map_map)
qed

lemma log_filter_clauses_inline:
  assumes "build_log_filter_clauses_checked fs = Inr s"
  shows "\<exists>s'. build_log_filter_clauses_checked (map (blank_filter is_log_column) fs) = Inr s' \<and>
           inlines ch_lex s (concat (map (filter_literals is_log_column) fs)) s'"
proof -
  obtain xs where "collect_results (map (checked_clause map_log_filter_field) fs) = Inr xs" "s = concat xs"
    using assms by (auto simp: build_filter_clauses_checked_alt)
  with filters_inline[OF log_column_inlines, of fs xs] show ?thesis
    by (auto simp: build_filter_clauses_checked_alt simp del: map_map)
qed

lemma column_inlines_self:
  "inlines ch_lex (map_filter_field f) (column_literals is_metric_column f) (map_filter_field f)"
proof (cases "is_metric_column f")
  case True
  then show ?thesis using column_inlines[of f] by simp
next
  case False
  have "inlines ch_lex
      (piece ''JSONExtractString(ms.attributes, '' @ quoted (escape_string_value f) @ piece '')'') [f]
      (piece ''JSONExtractString(ms.attributes, '' @ quoted (escape_string_value f) @ piece '')'')"
    by (rule inline_rules(1)) (simp_all add: clickhouse.inlines_text)
  then show ?thesis using False
    by (simp add: column_literals_def map_filter_field_def is_metric_column_def)
qed

lemma group_by_inlines:
  assumes "build_group_by gs = (sel, clause)"
  shows "inlines ch_lex sel (group_literals gs) sel" "inlines ch_lex clause (group_literals gs) clause"
proof -
  let ?valid = "filter (\<lambda>g. validate_sql_identifier g = Inr ()) gs"
  have 1: "inlines ch_lex (piece '',\<newline>    '' @ map_filter_field g @ piece '' AS '' @ g)
             (column_literals is_metric_column g)
             (piece '',\<newline>    '' @ map_filter_field g @ piece '' AS '' @ g)"
    if "g \<in> set ?valid" for g
  proof -
    have "inlines ch_lex (piece '' AS '' @ g) [] (piece '' AS '' @ g)"
      using that by (intro clickhouse.inlines_text) (simp add: quote_free_identifier)
    from clickhouse.inlines_append[OF column_inlines_self[of g] this] show ?thesis
      by (intro clickhouse.inlines_piece) simp_all
  qed
  have 2: "inlines ch_lex (piece '', '' @ map_filter_field g) (column_literals is_metric_column g)
             (piece '', '' @ map_filter_field g)" for g
    by (intro clickhouse.inlines_piece column_inlines_self) simp
  show "inlines ch_lex sel (group_literals gs) sel"
    using assms clickhouse.inlines_concat[of ?valid, OF 1]
    by (auto simp: build_group_by_def Let_def group_literals_def clickhouse.inlines_Nil
        split: if_splits)
  show "inlines ch_lex clause (group_literals gs) clause"
    using assms clickhouse.inlines_concat[of ?valid, OF 2]
    by (auto simp: build_group_by_def Let_def group_literals_def clickhouse.inlines_Nil
        split: if_splits)
qed

subsection \<open>The operation templates\<close>

text \<open>
  \<open>safe_sql us ctx q q' ls\<close> is what each template establishes of its text \<open>q\<close> and the
  text \<open>q'\<close> it generates for the blanked context.
\<close>

definition safe_sql :: "string \<Rightarrow> string \<Rightarrow> string list \<Rightarrow> string \<Rightarrow> bool" where
  "safe_sql tid q ls q' \<longleftrightarrow> inlines ch_lex q ls q' \<and> scoped ch_lex ''tenant_id = '' tid q"

lemma safe_tenant:
  assumes "plain_text tid" "ends_with ''tenant_id = '' a" "quote_free a"
    "inlines ch_lex b ls b'"
  shows "safe_sql tid (piece a @ quoted tid @ b) (tid # ls) (piece a @ quoted [] @ b')"
proof -
  have "a \<noteq> []" using assms(2) by auto
  then show ?thesis
    using clickhouse.inlines_value[OF assms(3) _ TrueI TrueI assms(4), of tid "[]"]
      clickhouse.scoped_value[OF assms(2,3) _ TrueI, of b tid] assms(1,4)
    by (auto simp: safe_sql_def escape_plain dest: clickhouse.inlines_lexes)
qed

lemma safe_append:
  assumes "inlines ch_lex s ks s'" "safe_sql tid q ls q'"
  shows "safe_sql tid (s @ q) (ks @ ls) (s' @ q')"
  using assms clickhouse.inlines_append[of s ks s' q ls q'] clickhouse.inlines_lexes[OF assms(1)]
    clickhouse.scoped_append[of s]
  by (auto simp: safe_sql_def)

lemma safe_text:
  assumes "quote_free a" "safe_sql tid q ls q'"
  shows "safe_sql tid (a @ q) ls (a @ q')"
  using safe_append[OF clickhouse.inlines_text assms(2)] assms(1) by force

text \<open>The part all templates over metric points share: tenant, metric name, filters, a tail.\<close>

lemma safe_metric:
  assumes "plain_text tid" "inlines ch_lex fs fl fs'" "ends_with ''tenant_id = '' a"
    "quote_free a" "quote_free d" "d \<noteq> []" "inlines ch_lex b ls b'"
  shows "safe_sql tid (piece a @ quoted tid @ piece d @ quoted (escape_string_value m) @ fs @ b)
           (tid # m # fl @ ls) (piece a @ quoted [] @ piece d @ quoted [] @ fs' @ b')"
  using safe_tenant[OF assms(1,3,4) clickhouse.inlines_value
      [OF assms(5,6) TrueI TrueI clickhouse.inlines_append[OF assms(2,7)], of m "[]"]]
  by simp

lemma text_then: "quote_free a \<Longrightarrow> inlines ch_lex b ls b' \<Longrightarrow> inlines ch_lex (a @ b) ls (a @ b')"
  using clickhouse.inlines_append[OF clickhouse.inlines_text] by force

lemma then_text:
  "inlines ch_lex a ls a' \<Longrightarrow> quote_free b \<Longrightarrow> inlines ch_lex (a @ b) ls (a' @ b)"
  using clickhouse.inlines_append[OF _ clickhouse.inlines_text] by force

definition filters_literals :: "(string \<Rightarrow> bool) \<Rightarrow> nlq_ir \<Rightarrow> string list" where
  "filters_literals direct ir = concat (map (filter_literals direct) (ir_filters ir))"

lemma filters_obtain:
  assumes "build_filter_clauses_checked (ir_filters ir) = Inr fs"
  obtains fs' where
    "build_filter_clauses_checked (map (blank_filter is_metric_column) (ir_filters ir)) = Inr fs'"
    "inlines ch_lex fs (filters_literals is_metric_column ir) fs'"
  using filter_clauses_inline[OF assms] by (auto simp: filters_literals_def)

lemma timeseries_safe:
  assumes "timeseries_sql us ctx = Inr q" "plain_text (us (ctx_tenant_id ctx))"
  shows "\<exists>q'. timeseries_sql (\<lambda>_. []) (blank_context ctx) = Inr q' \<and>
           safe_sql (us (ctx_tenant_id ctx)) q
             (group_literals (ir_group_by (ctx_ir ctx)) @ us (ctx_tenant_id ctx) # ctx_metric_name ctx #
              filters_literals is_metric_column (ctx_ir ctx) @ group_literals (ir_group_by (ctx_ir ctx))) q'"
proof -
  obtain sel clause where g: "build_group_by (ir_group_by (ctx_ir ctx)) = (sel, clause)" by fastforce
  obtain interval fs t where
    i: "parse_interval (unwrap_or ''1m'' (ir_resolution (ctx_ir ctx))) = Inr interval"
    and f: "build_filter_clauses_checked (ir_filters (ctx_ir ctx)) = Inr fs"
    and t: "build_time_range_clause (tr_from (ir_time_range (ctx_ir ctx)))
              (tr_to (ir_time_range (ctx_ir ctx))) = Inr t"
    using assms(1) by (auto simp: timeseries_sql_def Let_def)
  obtain fs' where f': "build_filter_clauses_checked
       (map (blank_filter is_metric_column) (ir_filters (ctx_ir ctx))) = Inr fs'"
    and inl: "inlines ch_lex fs (filters_literals is_metric_column (ctx_ir ctx)) fs'"
    using filters_obtain[OF f] .
  have [simp]: "quote_free t" "quote_free interval" using i t by (auto intro: code_text)
  note shape = safe_text[OF _ safe_text[OF _ safe_text[OF _ safe_append[OF group_by_inlines(1)[OF g]
    safe_metric[OF assms(2) inl _ _ _ _ text_then[OF _ text_then[OF _ then_text[OF group_by_inlines(2)[OF g]]]]]]]]]
  show ?thesis using assms(1)
    by (auto simp: timeseries_sql_def Let_def i f f' t g intro!: shape)
qed

lemma safe_metric_text:
  assumes "plain_text tid" "inlines ch_lex fs fl fs'" "ends_with ''tenant_id = '' a"
    "quote_free a" "quote_free d" "d \<noteq> []" "quote_free b"
  shows "safe_sql tid (piece a @ quoted tid @ piece d @ quoted (escape_string_value m) @ fs @ b)
           (tid # m # fl) (piece a @ quoted [] @ piece d @ quoted [] @ fs' @ b)"
  using safe_metric[OF assms(1-6) clickhouse.inlines_text[OF assms(7)]] by simp

lemma rate_safe:
  assumes "rate_sql us ctx = Inr q" "plain_text (us (ctx_tenant_id ctx))"
  shows "\<exists>q'. rate_sql (\<lambda>_. []) (blank_context ctx) = Inr q' \<and>
           safe_sql (us (ctx_tenant_id ctx)) q
             (us (ctx_tenant_id ctx) # ctx_metric_name ctx #
              filters_literals is_metric_column (ctx_ir ctx) @ group_literals (ir_group_by (ctx_ir ctx)) @ group_literals (ir_group_by (ctx_ir ctx))) q'"
proof -
  obtain sel clause where g: "build_group_by (ir_group_by (ctx_ir ctx)) = (sel, clause)" by fastforce
  obtain interval secs fs t w where
    i: "parse_interval (unwrap_or ''1m'' (ir_resolution (ctx_ir ctx))) = Inr interval"
    and s: "interval_to_secs (unwrap_or ''1m'' (ir_resolution (ctx_ir ctx))) = Inr secs"
    and f: "build_filter_clauses_checked (ir_filters (ctx_ir ctx)) = Inr fs"
    and t: "build_time_range_clause (tr_from (ir_time_range (ctx_ir ctx)))
              (tr_to (ir_time_range (ctx_ir ctx))) = Inr t"
    and w: "build_window_preceding_clause (unwrap_or ''5m'' (ir_window (ctx_ir ctx))) = Inr w"
    using assms(1) by (auto simp: rate_sql_def Let_def)
  obtain fs' where f': "build_filter_clauses_checked
       (map (blank_filter is_metric_column) (ir_filters (ctx_ir ctx))) = Inr fs'"
    and inl: "inlines ch_lex fs (filters_literals is_metric_column (ctx_ir ctx)) fs'"
    using filters_obtain[OF f] .
  have [simp]: "quote_free t" "quote_free w" "quote_free interval" using i t w by (auto intro: code_text)
  note shape = safe_metric[OF assms(2) inl _ _ _ _ 
    text_then[OF _ text_then[OF _ text_then[OF _ text_then[OF _ text_then[OF _ text_then[OF _ text_then[OF _ clickhouse.inlines_append[OF group_by_inlines(1)[OF g]
    text_then[OF _ then_text[OF group_by_inlines(2)[OF g]]]]]]]]]]]]
  show ?thesis using assms(1)
    by (auto simp: rate_sql_def Let_def i s f f' t w g intro!: shape)
qed

lemma irate_safe:
  assumes "irate_sql us ctx = Inr q" "plain_text (us (ctx_tenant_id ctx))"
  shows "\<exists>q'. irate_sql (\<lambda>_. []) (blank_context ctx) = Inr q' \<and>
           safe_sql (us (ctx_tenant_id ctx)) q
             (us (ctx_tenant_id ctx) # ctx_metric_name ctx #
              filters_literals is_metric_column (ctx_ir ctx)) q'"
proof -
  obtain fs t w where
    f: "build_filter_clauses_checked (ir_filters (ctx_ir ctx)) = Inr fs"
    and t: "build_time_range_clause (tr_from (ir_time_range (ctx_ir ctx)))
              (tr_to (ir_time_range (ctx_ir ctx))) = Inr t"
    and w: "build_window_preceding_clause (unwrap_or ''1m'' (ir_window (ctx_ir ctx))) = Inr w"
    using assms(1) by (auto simp: irate_sql_def Let_def)
  obtain fs' where f': "build_filter_clauses_checked
       (map (blank_filter is_metric_column) (ir_filters (ctx_ir ctx))) = Inr fs'"
    and inl: "inlines ch_lex fs (filters_literals is_metric_column (ctx_ir ctx)) fs'"
    using filters_obtain[OF f] .
  have [simp]: "quote_free t" "quote_free w" using t w by (auto intro: code_text)
  note shape = safe_metric_text[OF assms(2) inl]
  show ?thesis using assms(1)
    by (auto simp: irate_sql_def Let_def f f' t w intro!: shape)
qed

lemma increase_safe:
  assumes "increase_sql us ctx = Inr q" "plain_text (us (ctx_tenant_id ctx))"
  shows "\<exists>q'. increase_sql (\<lambda>_. []) (blank_context ctx) = Inr q' \<and>
           safe_sql (us (ctx_tenant_id ctx)) q
             (us (ctx_tenant_id ctx) # ctx_metric_name ctx #
              filters_literals is_metric_column (ctx_ir ctx) @ group_literals (ir_group_by (ctx_ir ctx)) @ group_literals (ir_group_by (ctx_ir ctx))) q'"
proof -
  obtain sel clause where g: "build_group_by (ir_group_by (ctx_ir ctx)) = (sel, clause)" by fastforce
  obtain fs t w where
    f: "build_filter_clauses_checked (ir_filters (ctx_ir ctx)) = Inr fs"
    and t: "build_time_range_clause (tr_from (ir_time_range (ctx_ir ctx)))
              (tr_to (ir_time_range (ctx_ir ctx))) = Inr t"
    and w: "build_window_preceding_clause (unwrap_or ''1h'' (ir_window (ctx_ir ctx))) = Inr w"
    using assms(1) by (auto simp: increase_sql_def Let_def)
  obtain fs' where f': "build_filter_clauses_checked
       (map (blank_filter is_metric_column) (ir_filters (ctx_ir ctx))) = Inr fs'"
    and inl: "inlines ch_lex fs (filters_literals is_metric_column (ctx_ir ctx)) fs'"
    using filters_obtain[OF f] .
  have [simp]: "quote_free t" "quote_free w" using t w by (auto intro: code_text)
  note shape = safe_metric[OF assms(2) inl _ _ _ _ 
    text_then[OF _ text_then[OF _ text_then[OF _ clickhouse.inlines_append[OF group_by_inlines(1)[OF g]
    text_then[OF _ group_by_inlines(2)[OF g]]]]]]]
  show ?thesis using assms(1)
    by (auto simp: increase_sql_def Let_def f f' t w g intro!: shape)
qed

lemma histogram_safe:
  assumes "histogram_sql us ctx = Inr q" "plain_text (us (ctx_tenant_id ctx))"
  shows "\<exists>q'. histogram_sql (\<lambda>_. []) (blank_context ctx) = Inr q' \<and>
           safe_sql (us (ctx_tenant_id ctx)) q
             (us (ctx_tenant_id ctx) # ctx_metric_name ctx #
              filters_literals is_metric_column (ctx_ir ctx)) q'"
proof -
  obtain fs t where
    f: "build_filter_clauses_checked (ir_filters (ctx_ir ctx)) = Inr fs"
    and t: "build_time_range_clause (tr_from (ir_time_range (ctx_ir ctx)))
              (tr_to (ir_time_range (ctx_ir ctx))) = Inr t"
    using assms(1) by (auto simp: histogram_sql_def Let_def)
  obtain fs' where f': "build_filter_clauses_checked
       (map (blank_filter is_metric_column) (ir_filters (ctx_ir ctx))) = Inr fs'"
    and inl: "inlines ch_lex fs (filters_literals is_metric_column (ctx_ir ctx)) fs'"
    using filters_obtain[OF f] .
  have [simp]: "quote_free t" using t by (auto intro: code_text)
  note shape = safe_metric_text[OF assms(2) inl]
  show ?thesis using assms(1)
    by (auto simp: histogram_sql_def Let_def f f' t intro!: shape)
qed

lemma topk_safe:
  assumes "topk_sql us ctx = Inr q" "plain_text (us (ctx_tenant_id ctx))"
  shows "\<exists>q'. topk_sql (\<lambda>_. []) (blank_context ctx) = Inr q' \<and>
           safe_sql (us (ctx_tenant_id ctx)) q
             (us (ctx_tenant_id ctx) # ctx_metric_name ctx #
              filters_literals is_metric_column (ctx_ir ctx)) q'"
proof -
  obtain fs t where
    f: "build_filter_clauses_checked (ir_filters (ctx_ir ctx)) = Inr fs"
    and t: "build_time_range_clause (tr_from (ir_time_range (ctx_ir ctx)))
              (tr_to (ir_time_range (ctx_ir ctx))) = Inr t"
    using assms(1) by (auto simp: topk_sql_def Let_def)
  obtain fs' where f': "build_filter_clauses_checked
       (map (blank_filter is_metric_column) (ir_filters (ctx_ir ctx))) = Inr fs'"
    and inl: "inlines ch_lex fs (filters_literals is_metric_column (ctx_ir ctx)) fs'"
    using filters_obtain[OF f] .
  have [simp]: "quote_free t" using t by (auto intro: code_text)
  note shape = safe_metric_text[OF assms(2) inl]
  show ?thesis using assms(1)
    by (auto simp: topk_sql_def Let_def f f' t intro!: shape)
qed

lemma table_safe:
  assumes "table_sql us ctx = Inr q" "plain_text (us (ctx_tenant_id ctx))"
  shows "\<exists>q'. table_sql (\<lambda>_. []) (blank_context ctx) = Inr q' \<and>
           safe_sql (us (ctx_tenant_id ctx)) q
             (group_literals (ir_group_by (ctx_ir ctx)) @ us (ctx_tenant_id ctx) # ctx_metric_name ctx #
              filters_literals is_metric_column (ctx_ir ctx)) q'"
proof -
  obtain sel clause where g: "build_group_by (ir_group_by (ctx_ir ctx)) = (sel, clause)" by fastforce
  obtain fs t where
    f: "build_filter_clauses_checked (ir_filters (ctx_ir ctx)) = Inr fs"
    and t: "build_time_range_clause (tr_from (ir_time_range (ctx_ir ctx)))
              (tr_to (ir_time_range (ctx_ir ctx))) = Inr t"
    using assms(1) by (auto simp: table_sql_def Let_def)
  obtain fs' where f': "build_filter_clauses_checked
       (map (blank_filter is_metric_column) (ir_filters (ctx_ir ctx))) = Inr fs'"
    and inl: "inlines ch_lex fs (filters_literals is_metric_column (ctx_ir ctx)) fs'"
    using filters_obtain[OF f] .
  have [simp]: "quote_free t" using t by (auto intro: code_text)
  note shape = safe_text[OF _ safe_append[OF group_by_inlines(1)[OF g]
    safe_metric_text[OF assms(2) inl]]]
  show ?thesis using assms(1)
    by (auto simp: table_sql_def Let_def f f' t g intro!: shape)
qed

end
