(* ===== verification/Sql_Noninterference.thy ===== *)
theory Sql_Noninterference
  imports Sql_Safety
begin

section \<open>Every generated query is the template with the values as literals\<close>

text \<open>
  The remaining templates (distribution, catalog, log search), and the theorems about
  \<open>generate_sql\<close> and \<open>generate_log_sql\<close> as wholes.
\<close>

subsection \<open>Distribution\<close>

lemma quote_free_percentile:
  assumes "strip_prefix ''p'' stat = Some ds" "parse_unsigned 32 ds = Some n"
  shows "quote_free stat"
proof -
  have "quote_free ds"
    using parse_unsigned_chars[OF assms(2)] by (intro digits_quote_free[of ds "''+''"]) simp_all
  then show ?thesis using assms(1) by (simp add: strip_prefix_Some)
qed

lemma quote_free_stat:
  assumes "stat_to_sql_expr stat val = Some e" "quote_free val"
  shows "quote_free e"
  using assms unfolding stat_to_sql_expr_def Let_def
  by (simp only: split: if_split_asm option.split_asm; clarsimp)
    (erule (1) quote_free_percentile)+

lemma quote_free_distribution_select [simp]: "quote_free (distribution_select_list ps)"
proof -
  have "quote_free e" if "e \<in> set (List.map_filter (\<lambda>s. stat_to_sql_expr s val) stats)" "quote_free val"
    for e val stats
    using that by (auto simp: List.map_filter_def intro: quote_free_stat)
  then show ?thesis
    unfolding distribution_select_list_def Let_def
    by (intro quote_free_join) (auto split: if_splits)
qed

lemma distribution_safe:
  assumes "distribution_sql us ctx = Inr q" "plain_text (us (ctx_tenant_id ctx))"
  shows "\<exists>q'. distribution_sql (\<lambda>_. []) (blank_context ctx) = Inr q' \<and>
           safe_sql (us (ctx_tenant_id ctx)) q
             (us (ctx_tenant_id ctx) # ctx_metric_name ctx #
              filters_literals is_metric_column (ctx_ir ctx)) q'"
proof -
  obtain fs t where f: "build_filter_clauses_checked (ir_filters (ctx_ir ctx)) = Inr fs"
    and t: "build_time_range_clause (tr_from (ir_time_range (ctx_ir ctx)))
              (tr_to (ir_time_range (ctx_ir ctx))) = Inr t"
    using assms(1) by (auto simp: distribution_sql_def Let_def)
  obtain fs' where f': "build_filter_clauses_checked
       (map (blank_filter is_metric_column) (ir_filters (ctx_ir ctx))) = Inr fs'"
    and inl: "inlines ch_lex fs (filters_literals is_metric_column (ctx_ir ctx)) fs'"
    using filters_obtain[OF f] .
  have [simp]: "quote_free t" using t by (auto intro: code_text)
  note shape = safe_text[OF _ safe_text[OF _ safe_metric_text[OF assms(2) inl]]]
  show ?thesis using assms(1)
    by (auto simp: distribution_sql_def Let_def f f' t intro!: shape)
qed

subsection \<open>Catalog\<close>

definition catalog_literals :: "nlq_ir \<Rightarrow> string list" where
  "catalog_literals ir =
     (case ir_catalog_field ir of None \<Rightarrow> [] | Some f \<Rightarrow> column_literals is_metric_column f)"

lemma catalog_safe:
  assumes "catalog_sql us ctx = Inr q" "plain_text (us (ctx_tenant_id ctx))"
  shows "\<exists>q'. catalog_sql (\<lambda>_. []) (blank_context ctx) = Inr q' \<and>
           safe_sql (us (ctx_tenant_id ctx)) q
             (catalog_literals (ctx_ir ctx) @ us (ctx_tenant_id ctx) #
              filters_literals is_metric_column (ctx_ir ctx)) q'"
proof -
  obtain field fs where c: "ir_catalog_field (ctx_ir ctx) = Some field"
    and v: "validate_sql_identifier field = Inr ()"
    and f: "build_filter_clauses_checked (ir_filters (ctx_ir ctx)) = Inr fs"
    using assms(1) by (auto simp: catalog_sql_def Let_def)
  obtain fs' where f': "build_filter_clauses_checked
       (map (blank_filter is_metric_column) (ir_filters (ctx_ir ctx))) = Inr fs'"
    and inl: "inlines ch_lex fs (filters_literals is_metric_column (ctx_ir ctx)) fs'"
    using filters_obtain[OF f] .
  have [simp]: "quote_free field" using v by (rule quote_free_identifier)
  note shape = safe_text[OF _ safe_append[OF column_inlines_self safe_text[OF _ safe_text[OF _
    safe_tenant[OF assms(2) _ _ then_text[OF inl]]]]]]
  show ?thesis using assms(1)
    by (auto simp: catalog_sql_def Let_def f f' c v catalog_literals_def intro!: shape)
qed

subsection \<open>Log search\<close>

definition query_literals :: "nlq_ir \<Rightarrow> string list" where
  "query_literals ir = (case ir_query ir of None \<Rightarrow> [] | Some q \<Rightarrow> if q = [] then [] else [q])"

lemma log_query_inlines:
  "inlines ch_lex (log_query_clause (ir_query ir)) (query_literals ir)
     (log_query_clause (ir_query (blank_ir d ir)))"
proof -
  have "inlines ch_lex (piece ''\<newline>  AND positionCaseInsensitive(body, '' @
          quoted (escape_string_value q) @ piece '') > 0'') [q]
        (piece ''\<newline>  AND positionCaseInsensitive(body, '' @
          quoted (escape_string_value ''x'') @ piece '') > 0'')" for q
    by (rule inline_rules(1)) (simp_all add: clickhouse.inlines_text)
  then show ?thesis
    by (auto simp: log_query_clause_def query_literals_def clickhouse.inlines_Nil
        simp del: append.simps split: option.splits)
qed

lemma log_safe:
  assumes "generate_log_sql us ctx = Inr q" "plain_text (us (lctx_tenant_id ctx))"
  shows "\<exists>q'. generate_log_sql (\<lambda>_. []) (blank_log_context ctx) = Inr q' \<and>
           safe_sql (us (lctx_tenant_id ctx)) q
             (us (lctx_tenant_id ctx) # query_literals (lctx_ir ctx) @
              filters_literals is_log_column (lctx_ir ctx)) q'"
proof -
  obtain fs t where f: "build_log_filter_clauses_checked (ir_filters (lctx_ir ctx)) = Inr fs"
    and t: "build_log_time_range_clause (tr_from (ir_time_range (lctx_ir ctx)))
              (tr_to (ir_time_range (lctx_ir ctx))) = Inr t"
    using assms(1) by (auto simp: generate_log_sql_def Let_def)
  obtain fs' where f': "build_log_filter_clauses_checked
       (map (blank_filter is_log_column) (ir_filters (lctx_ir ctx))) = Inr fs'"
    and inl: "inlines ch_lex fs (filters_literals is_log_column (lctx_ir ctx)) fs'"
    using log_filter_clauses_inline[OF f] by (auto simp: filters_literals_def)
  have [simp]: "quote_free t" using t by (auto intro: code_text)
  note shape = safe_tenant[OF assms(2) _ _ clickhouse.inlines_append[OF log_query_inlines then_text[OF inl]]]
  show ?thesis using assms(1)
    by (simp add: generate_log_sql_def Let_def f f' t del: blank_ir_simps(10))
      (drule sym, simp only:, rule shape, simp_all)
qed


subsection \<open>All operations\<close>

text \<open>The literals of the generated query, in order of appearance, for each operation.\<close>

definition metric_literals :: "(uuid \<Rightarrow> string) \<Rightarrow> sql_context \<Rightarrow> string list" where
  "metric_literals us ctx =
     (let ir = ctx_ir ctx;
          g = group_literals (ir_group_by ir);
          fs = filters_literals is_metric_column ir;
          body = us (ctx_tenant_id ctx) # ctx_metric_name ctx # fs
      in case ir_operation ir of
           Timeseries \<Rightarrow> g @ body @ g
         | Rate \<Rightarrow> body @ g @ g
         | Increase \<Rightarrow> body @ g @ g
         | Table \<Rightarrow> g @ body
         | Catalog \<Rightarrow> catalog_literals ir @ us (ctx_tenant_id ctx) # fs
         | Inventory \<Rightarrow> []
         | _ \<Rightarrow> body)"

lemma generate_sql_safe:
  assumes "generate_sql us ctx = Inr q" "plain_text (us (ctx_tenant_id ctx))"
  shows "\<exists>q'. generate_sql (\<lambda>_. []) (blank_context ctx) = Inr q' \<and>
           safe_sql (us (ctx_tenant_id ctx)) q (metric_literals us ctx) q'"
proof (cases "ir_operation (ctx_ir ctx)")
  case Timeseries
  then show ?thesis using assms timeseries_safe[of us ctx q]
    by (simp add: generate_sql_def metric_literals_def Let_def)
next
  case Rate
  then show ?thesis using assms rate_safe[of us ctx q]
    by (simp add: generate_sql_def metric_literals_def Let_def)
next
  case Irate
  then show ?thesis using assms irate_safe[of us ctx q]
    by (simp add: generate_sql_def metric_literals_def Let_def)
next
  case Increase
  then show ?thesis using assms increase_safe[of us ctx q]
    by (simp add: generate_sql_def metric_literals_def Let_def)
next
  case Histogram
  then show ?thesis using assms histogram_safe[of us ctx q]
    by (simp add: generate_sql_def metric_literals_def Let_def)
next
  case Topk
  then show ?thesis using assms topk_safe[of us ctx q]
    by (simp add: generate_sql_def metric_literals_def Let_def)
next
  case Table
  then show ?thesis using assms table_safe[of us ctx q]
    by (simp add: generate_sql_def metric_literals_def Let_def)
next
  case Distribution
  then show ?thesis using assms distribution_safe[of us ctx q]
    by (simp add: generate_sql_def metric_literals_def Let_def)
next
  case Catalog
  then show ?thesis using assms catalog_safe[of us ctx q]
    by (simp add: generate_sql_def metric_literals_def Let_def)
next
  case Inventory
  then show ?thesis using assms by (simp add: generate_sql_def)
qed

lemma safe_sql_lexed:
  "safe_sql tid q ls q' \<Longrightarrow>
   \<exists>ts ts'. ch_lex q = Some ts \<and> ch_lex q' = Some ts' \<and> skeleton ts = skeleton ts' \<and> literals ts = ls"
  by (auto simp: safe_sql_def dest: clickhouse.inlines_whole)

lemma safe_sql_scoped:
  "safe_sql tid q ls q' \<Longrightarrow> \<exists>a b. ch_lex q = Some (a @ code ''tenant_id = '' @ Lit tid # b)"
  by (auto simp: safe_sql_def dest: clickhouse.scoped_whole)

text \<open>Concrete inputs for the witnesses: hostile names and values.\<close>

definition sample_uuid_display :: "uuid \<Rightarrow> string" where
  "sample_uuid_display u = ''00000000-0000-0000-0000-000000000007''"

definition sample_filter :: nlq_filter where
  "sample_filter = \<lparr>flt_field = ''host'' @ [quote], flt_op = Re, flt_value = quote # '' OR 1=1 --'' @ [backslash]\<rparr>"

definition sample_ir :: nlq_ir where
  "sample_ir = \<lparr>ir_operation = Timeseries, ir_signals = [Metrics], ir_metric = Some ''m'',
     ir_window = None, ir_filters = [sample_filter],
     ir_group_by = [''region'', ''bad; DROP''], ir_resolution = Some ''5m'',
     ir_time_range = \<lparr>tr_from = ''now-1h'', tr_to = ''now''\<rparr>, ir_visualization_hint = None,
     ir_percentiles = None, ir_catalog_field = None, ir_limit = None,
     ir_query = Some (quote # '' OR 1=1'')\<rparr>"

definition sample_context :: sql_context where
  "sample_context = \<lparr>ctx_tenant_id = 7, ctx_metric_name = ''cpu'' @ [backslash, quote],
     ctx_metric_type = SM_Gauge, ctx_ir = sample_ir\<rparr>"

definition sample_log_context :: log_sql_context where
  "sample_log_context = \<lparr>lctx_tenant_id = 7, lctx_ir = sample_ir\<rparr>"

lemma sample_durations:
  "parse_duration_str ''5m'' = Some (5, ''m'')" "parse_duration_str ''1h'' = Some (1, ''h'')"
  by (simp_all add: parse_duration_str_def trim_id no_ws_end_def is_ascii_digit_def
      parse_unsigned_def unsigned_digits_def digit_val_def)

lemma sample_times:
  "parse_time_expr ''now'' = Inr ''toUnixTimestamp64Nano(now64())''"
  "parse_time_expr ''now-1h'' = Inr (''toUnixTimestamp64Nano(now64()) - '' @ show_nat 3600000000000)"
  by (simp_all add: parse_time_expr_def trim_id no_ws_end_def sample_durations nanos_per_unit_def)

lemma sample_generates:
  "\<exists>q. generate_sql sample_uuid_display sample_context = Inr q"
  "\<exists>q. generate_log_sql sample_uuid_display sample_log_context = Inr q"
  "plain_text (sample_uuid_display u)"
  "ctx_tenant_id sample_context = 7" "lctx_tenant_id sample_log_context = 7"
proof -
  obtain sel clause where g: "build_group_by [''region'', ''bad; DROP''] = (sel, clause)" by fastforce
  show "\<exists>q. generate_sql sample_uuid_display sample_context = Inr q"
    by (simp add: generate_sql_def sample_context_def sample_ir_def timeseries_sql_def Let_def
        parse_interval_def sample_durations duration_unit_to_ch_def build_time_range_clause_def
        sample_times build_filter_clauses_checked_def sample_filter_def g)
  show "\<exists>q. generate_log_sql sample_uuid_display sample_log_context = Inr q"
    by (simp add: generate_log_sql_def sample_log_context_def sample_ir_def Let_def
        build_log_time_range_clause_def sample_times build_log_filter_clauses_checked_def sample_filter_def)
qed (simp_all add: plain_text_def sample_uuid_display_def sample_context_def sample_log_context_def)

subsection \<open>The properties\<close>

text \<open>
  C1. Whatever metric name, filter fields and values, group fields and tenant a metric
  query carries, the engine reads the generated SQL as the same code as for the blanked
  query (empty names and values): the values do not influence the code, and the string
  literals it reads are exactly the tenant, the metric name, the filter values and the
  attribute names, in that order of appearance. No value can inject SQL.
\<close>

theorem generate_sql_injection_free:
  assumes "generate_sql us ctx = Inr q" "plain_text (us (ctx_tenant_id ctx))"
  shows "\<exists>q' ts ts'. generate_sql (\<lambda>_. []) (blank_context ctx) = Inr q' \<and>
           ch_lex q = Some ts \<and> ch_lex q' = Some ts' \<and>
           skeleton ts = skeleton ts' \<and> literals ts = metric_literals us ctx"
  using generate_sql_safe[OF assms] safe_sql_lexed by blast

theorem generate_sql_injection_free_witness:
  "\<exists>q q' ts ts'. generate_sql sample_uuid_display sample_context = Inr q \<and>
     generate_sql (\<lambda>_. []) (blank_context sample_context) = Inr q' \<and>
     ch_lex q = Some ts \<and> ch_lex q' = Some ts' \<and> skeleton ts = skeleton ts' \<and>
     literals ts = metric_literals sample_uuid_display sample_context"
  using sample_generates(1,3) generate_sql_injection_free[of sample_uuid_display sample_context]
  by blast

text \<open>
  C2. Every generated metric query restricts the rows to the tenant of its context: the
  engine reads, as code, \<open>tenant_id = \<close> followed by the literal of that tenant's id.
\<close>

theorem generate_sql_tenant_scoped:
  assumes "generate_sql us ctx = Inr q" "plain_text (us (ctx_tenant_id ctx))"
  shows "\<exists>a b. ch_lex q = Some (a @ code ''tenant_id = '' @ Lit (us (ctx_tenant_id ctx)) # b)"
  using generate_sql_safe[OF assms] safe_sql_scoped by blast

theorem generate_sql_tenant_scoped_witness:
  "\<exists>q a b. generate_sql sample_uuid_display sample_context = Inr q \<and>
     ch_lex q = Some (a @ code ''tenant_id = '' @ Lit (sample_uuid_display 7) # b)"
  using sample_generates(1,3,4) generate_sql_tenant_scoped[of sample_uuid_display sample_context]
  by auto

text \<open>
  C3. Log search: the same two guarantees for \<open>generate_log_sql\<close>, whose free-text query
  also comes back as one literal.
\<close>

theorem generate_log_sql_safe:
  assumes "generate_log_sql us ctx = Inr q" "plain_text (us (lctx_tenant_id ctx))"
  shows "\<exists>q' ts ts' a b. generate_log_sql (\<lambda>_. []) (blank_log_context ctx) = Inr q' \<and>
           ch_lex q = Some ts \<and> ch_lex q' = Some ts' \<and> skeleton ts = skeleton ts' \<and>
           literals ts = us (lctx_tenant_id ctx) # query_literals (lctx_ir ctx) @
             filters_literals is_log_column (lctx_ir ctx) \<and>
           ts = a @ code ''tenant_id = '' @ Lit (us (lctx_tenant_id ctx)) # b"
proof -
  obtain q' where q': "generate_log_sql (\<lambda>_. []) (blank_log_context ctx) = Inr q'"
    "safe_sql (us (lctx_tenant_id ctx)) q (us (lctx_tenant_id ctx) # query_literals (lctx_ir ctx) @
       filters_literals is_log_column (lctx_ir ctx)) q'"
    using log_safe[OF assms] by blast
  then show ?thesis
    using safe_sql_lexed[OF q'(2)] safe_sql_scoped[OF q'(2)] by (metis option.inject)
qed

theorem generate_log_sql_safe_witness:
  "\<exists>q q' ts ts' a b. generate_log_sql sample_uuid_display sample_log_context = Inr q \<and>
     generate_log_sql (\<lambda>_. []) (blank_log_context sample_log_context) = Inr q' \<and>
     ch_lex q = Some ts \<and> ch_lex q' = Some ts' \<and> skeleton ts = skeleton ts' \<and>
     literals ts = sample_uuid_display 7 # query_literals sample_ir @
       filters_literals is_log_column sample_ir \<and>
     ts = a @ code ''tenant_id = '' @ Lit (sample_uuid_display 7) # b"
proof -
  obtain q where q: "generate_log_sql sample_uuid_display sample_log_context = Inr q"
    using sample_generates(2) by blast
  have ir: "lctx_ir sample_log_context = sample_ir" by (simp add: sample_log_context_def)
  show ?thesis
    using generate_log_sql_safe[OF q] sample_generates(3,5) q unfolding ir by auto
qed

end
