(* ===== verification/Duckdb_Queries.thy ===== *)
theory Duckdb_Queries
  imports Sql_Safety
begin

section \<open>The playground's DuckDB renderers\<close>

text \<open>
  The query renderers of \<open>libs/query-core/src\<close> for the browser-local engine:
  \<open>log_query.rs\<close>, \<open>trace_query.rs\<close>, \<open>service_query.rs\<close>, \<open>topology_query.rs\<close>,
  \<open>metric_query.rs\<close>, \<open>change_event_query.rs\<close>. The field names compared with
  \<open>to_lowercase\<close> contain no letter whose lower case is reached from outside ASCII, so
  the comparison is the ASCII one.
\<close>

definition optional_clause :: "(string \<Rightarrow> string) \<Rightarrow> string option \<Rightarrow> string list" where
  "optional_clause f x = (case x of None \<Rightarrow> [] | Some v \<Rightarrow> [f v])"

definition eq_clause :: "string \<Rightarrow> string \<Rightarrow> string" where
  "eq_clause lhs v = piece lhs @ quoted (escape_string_value v)"

definition ilike_clause :: "string \<Rightarrow> string \<Rightarrow> string" where
  "ilike_clause lhs v = piece lhs @ quoted (''%'' @ escape_string_value v @ ''%'')"

definition filter_val :: "nlq_ir \<Rightarrow> string \<Rightarrow> string option" where
  "filter_val ir field =
     map_option flt_value (find (\<lambda>f. to_lowercase (flt_field f) = to_lowercase field \<and> flt_op f = Eq)
       (ir_filters ir))"

definition nonempty_query :: "nlq_ir \<Rightarrow> string option" where
  "nonempty_query ir = (case ir_query ir of Some s \<Rightarrow> if s = [] then None else Some s | None \<Rightarrow> None)"

text \<open>
  The bucket width both histograms use: the bucket count is at least one, and so is the
  range, so neither division can fail and the width is positive.
\<close>

definition duckdb_interval :: "u64 \<Rightarrow> u64 \<Rightarrow> u32 \<Rightarrow> u64" where
  "duckdb_interval from_ns to_ns bucket_count =
     (let bucket_count = max bucket_count 1;
          range_ns = max (saturating_sub to_ns from_ns) 1
      in max (range_ns div ucast bucket_count) 1)"

subsection \<open>Logs\<close>

record log_query_filters =
  lqf_service_name :: "string option"
  lqf_environment :: "string option"
  lqf_body_text :: "string option"
  lqf_from_expr :: string
  lqf_to_expr :: string

definition extract_log_query_filters :: "nlq_ir \<Rightarrow> (sql_template_error, log_query_filters) result" where
  "extract_log_query_filters ir =
     and_then (parse_time_expr (tr_from (ir_time_range ir))) (\<lambda>from_expr.
     and_then (parse_time_expr (tr_to (ir_time_range ir))) (\<lambda>to_expr.
     Inr \<lparr>lqf_service_name = filter_val ir ''service_name'',
          lqf_environment = filter_val ir ''environment'',
          lqf_body_text = nonempty_query ir,
          lqf_from_expr = from_expr, lqf_to_expr = to_expr\<rparr>))"

definition render_log_query_duckdb :: "log_query_filters \<Rightarrow> string" where
  "render_log_query_duckdb filters =
     (let where_sql = join (piece '' AND '')
        ([piece ''timestamp_unix_nano >= '' @ lqf_from_expr filters,
          piece ''timestamp_unix_nano <= '' @ lqf_to_expr filters]
         @ optional_clause (eq_clause ''service_name = '') (lqf_service_name filters)
         @ optional_clause (eq_clause ''environment = '') (lqf_environment filters)
         @ optional_clause (ilike_clause ''body ILIKE '') (lqf_body_text filters)) in
      piece (''SELECT log_id, timestamp_unix_nano, observed_timestamp_unix_nano, '' @
             ''severity_number, severity_text, body, trace_id, span_id, '' @
             ''service_name, environment, host_id FROM logs WHERE '') @
      where_sql @
      piece '' ORDER BY timestamp_unix_nano DESC LIMIT 500'')"

record duckdb_histogram_plan =
  dhp_sql :: string
  dhp_from_ns :: u64
  dhp_interval_ns :: u64

definition bucket_clauses :: "string \<Rightarrow> u64 \<Rightarrow> u64 \<Rightarrow> string option \<Rightarrow> string" where
  "bucket_clauses col from_ns to_ns service =
     join (piece '' AND '')
       ([piece (col @ '' >= '') @ show_word from_ns, piece (col @ '' <= '') @ show_word to_ns]
        @ optional_clause (eq_clause ''service_name = '') service)"

definition render_log_histogram_duckdb :: "u64 \<Rightarrow> u64 \<Rightarrow> u32 \<Rightarrow> string option \<Rightarrow> duckdb_histogram_plan" where
  "render_log_histogram_duckdb from_ns to_ns bucket_count service =
     (let interval_ns = duckdb_interval from_ns to_ns bucket_count;
          where_sql = bucket_clauses ''timestamp_unix_nano'' from_ns to_ns service;
          sql = piece ''SELECT CAST((timestamp_unix_nano - '' @
          (show_word from_ns) @
          piece '') / '' @
          (show_word interval_ns) @
          piece ('' AS BIGINT) AS bucket_idx, severity_number, count() AS cnt '' @
                 ''FROM logs WHERE '') @
          where_sql @
          piece '' GROUP BY bucket_idx, severity_number ORDER BY bucket_idx ASC''
      in \<lparr>dhp_sql = sql, dhp_from_ns = from_ns, dhp_interval_ns = interval_ns\<rparr>)"

subsection \<open>Traces\<close>

record trace_query_filters =
  tqf_service_name :: "string option"
  tqf_status_code :: "string option"
  tqf_environment :: "string option"
  tqf_operation_text :: "string option"
  tqf_from_expr :: string
  tqf_to_expr :: string

definition extract_trace_query_filters :: "nlq_ir \<Rightarrow> (sql_template_error, trace_query_filters) result" where
  "extract_trace_query_filters ir =
     and_then (parse_time_expr (tr_from (ir_time_range ir))) (\<lambda>from_expr.
     and_then (parse_time_expr (tr_to (ir_time_range ir))) (\<lambda>to_expr.
     Inr \<lparr>tqf_service_name = filter_val ir ''service_name'',
          tqf_status_code = filter_val ir ''status_code'',
          tqf_environment = filter_val ir ''environment'',
          tqf_operation_text = nonempty_query ir,
          tqf_from_expr = from_expr, tqf_to_expr = to_expr\<rparr>))"

definition render_trace_query_duckdb :: "trace_query_filters \<Rightarrow> string" where
  "render_trace_query_duckdb filters =
     (let where_sql = join (piece '' AND '')
        ([piece ''(parent_span_id = '' @ quoted [] @ piece '' OR parent_span_id IS NULL)'',
          piece ''start_time_unix_nano >= '' @ tqf_from_expr filters,
          piece ''start_time_unix_nano <= '' @ tqf_to_expr filters]
         @ optional_clause (eq_clause ''service_name = '') (tqf_service_name filters)
         @ optional_clause (eq_clause ''status_code = '') (tqf_status_code filters)
         @ optional_clause (eq_clause ''environment = '') (tqf_environment filters)
         @ optional_clause (ilike_clause ''operation_name ILIKE '') (tqf_operation_text filters)) in
      piece (''SELECT trace_id, service_name AS root_service, operation_name AS '' @
             ''root_operation, CAST(duration_ns / 1000000 AS BIGINT) AS '' @
             ''duration_ms, status_code, environment, start_time_unix_nano FROM '' @
             ''spans WHERE '') @
      where_sql @
      piece '' ORDER BY start_time_unix_nano DESC LIMIT 500'')"

definition render_trace_histogram_duckdb :: "u64 \<Rightarrow> u64 \<Rightarrow> u32 \<Rightarrow> string option \<Rightarrow> duckdb_histogram_plan" where
  "render_trace_histogram_duckdb from_ns to_ns bucket_count service =
     (let interval_ns = duckdb_interval from_ns to_ns bucket_count;
          where_sql = bucket_clauses ''start_time_unix_nano'' from_ns to_ns service;
          sql = piece ''SELECT CAST((start_time_unix_nano - '' @
          (show_word from_ns) @
          piece '') / '' @
          (show_word interval_ns) @
          piece ('' AS BIGINT) AS bucket_idx, count(DISTINCT trace_id) AS cnt '' @
                 ''FROM spans WHERE '') @
          where_sql @
          piece '' GROUP BY bucket_idx ORDER BY bucket_idx ASC''
      in \<lparr>dhp_sql = sql, dhp_from_ns = from_ns, dhp_interval_ns = interval_ns\<rparr>)"

subsection \<open>Services\<close>

record service_summary_row =
  ssr_service_name :: string
  ssr_request_count :: u64
  ssr_error_count :: u64
  ssr_p95_latency_ns :: f64

record service_summary =
  ss_service_name :: string
  ss_request_rate :: f64
  ss_error_rate :: f64
  ss_p95_latency_ms :: f64
  ss_health_state :: string
  ss_active_alert_count :: u64
  ss_latest_deployment :: "string option"

definition render_service_summary_duckdb :: "u64 \<Rightarrow> u64 \<Rightarrow> string option \<Rightarrow> string" where
  "render_service_summary_duckdb from_ns to_ns environment =
     (let where_sql = join (piece '' AND '')
        ([piece ''start_time_unix_nano >= '' @ show_word from_ns,
          piece ''start_time_unix_nano <= '' @ show_word to_ns]
         @ optional_clause (eq_clause ''environment = '') environment) in
      piece (''SELECT service_name, count(*) AS request_count, count(*) FILTER '' @
             ''(WHERE status_code = '') @
      quoted ''ERROR'' @
      piece ('') AS error_count, quantile_cont(duration_ns, 0.95) AS '' @
             ''p95_latency_ns FROM spans WHERE '') @
      where_sql @
      piece '' GROUP BY service_name ORDER BY service_name'')"

definition health_state :: "f64 \<Rightarrow> string" where
  "health_state error_rate =
     (if f64_lt (f64_lit 5 100) error_rate then ''breach''
      else if f64_lt (f64_lit 1 100) error_rate then ''watch''
      else ''healthy'')"

definition error_rate_of :: "u64 \<Rightarrow> u64 \<Rightarrow> f64" where
  "error_rate_of request_count error_count =
     (if request_count > 0 then f64_div (f64_of_u64 error_count) (f64_of_u64 request_count)
      else f64_lit 0 1)"

definition service_summary_from_row :: "service_summary_row \<Rightarrow> f64 \<Rightarrow> service_summary" where
  "service_summary_from_row row duration_secs =
     (let error_rate = error_rate_of (ssr_request_count row) (ssr_error_count row)
      in \<lparr>ss_service_name = ssr_service_name row,
          ss_request_rate = f64_div (f64_of_u64 (ssr_request_count row)) duration_secs,
          ss_error_rate = error_rate,
          ss_p95_latency_ms = f64_div (ssr_p95_latency_ns row) (f64_lit 1000000 1),
          ss_health_state = health_state error_rate,
          ss_active_alert_count = 0,
          ss_latest_deployment = None\<rparr>)"

definition render_response_time_histogram_duckdb :: "u64 \<Rightarrow> u64 \<Rightarrow> u32 \<Rightarrow> string \<Rightarrow> duckdb_histogram_plan" where
  "render_response_time_histogram_duckdb from_ns to_ns bucket_count service_name =
     (let interval_ns = duckdb_interval from_ns to_ns bucket_count;
          service_name = escape_string_value service_name;
          sql = piece ''SELECT CAST((start_time_unix_nano - '' @
          (show_word from_ns) @
          piece '') / '' @
          (show_word interval_ns) @
          piece ('' AS BIGINT) AS bucket_idx, quantile_cont(duration_ns, 0.50) '' @
                 ''AS p50_latency_ns, quantile_cont(duration_ns, 0.95) AS '' @
                 ''p95_latency_ns, count(*) AS span_count FROM spans WHERE '' @
                 ''service_name = '') @
          quoted service_name @
          piece '' AND start_time_unix_nano >= '' @
          (show_word from_ns) @
          piece '' AND start_time_unix_nano <= '' @
          (show_word to_ns) @
          piece '' GROUP BY bucket_idx ORDER BY bucket_idx ASC''
      in \<lparr>dhp_sql = sql, dhp_from_ns = from_ns, dhp_interval_ns = interval_ns\<rparr>)"

subsection \<open>Topology\<close>

record topology_edge_row =
  ter_caller :: string
  ter_callee :: string
  ter_request_count :: u64
  ter_error_count :: u64
  ter_p95_latency_ns :: f64

record topology_edge =
  te_caller :: string
  te_callee :: string
  te_request_count :: u64
  te_error_rate :: f64
  te_p95_latency_ms :: f64

definition render_topology_duckdb :: "u64 \<Rightarrow> u64 \<Rightarrow> string option \<Rightarrow> string option \<Rightarrow> string" where
  "render_topology_duckdb from_ns to_ns environment service =
     (let where_sql = join (piece '' AND '')
        ([piece ''child.parent_span_id = parent.span_id'',
          piece ''child.trace_id = parent.trace_id'',
          piece ''child.service_name != parent.service_name'',
          piece ''child.start_time_unix_nano >= '' @ show_word from_ns,
          piece ''child.start_time_unix_nano <= '' @ show_word to_ns]
         @ optional_clause (\<lambda>env. let escaped = escape_string_value env in
             piece ''child.environment = '' @ quoted escaped @
             piece '' AND parent.environment = '' @ quoted escaped) environment
         @ optional_clause (\<lambda>svc. let escaped = escape_string_value svc in
             piece ''(child.service_name = '' @ quoted escaped @
             piece '' OR parent.service_name = '' @ quoted escaped @ piece '')'') service) in
      piece (''SELECT parent.service_name AS caller, child.service_name AS '' @
             ''callee, count(*) AS request_count, count(*) FILTER (WHERE '' @
             ''child.status_code = '') @
      quoted ''ERROR'' @
      piece ('') AS error_count, quantile_cont(child.duration_ns, 0.95) AS '' @
             ''p95_latency_ns FROM spans AS child, spans AS parent WHERE '') @
      where_sql @
      piece '' GROUP BY caller, callee ORDER BY request_count DESC'')"

definition topology_edge_from_row :: "topology_edge_row \<Rightarrow> topology_edge" where
  "topology_edge_from_row row =
     \<lparr>te_caller = ter_caller row, te_callee = ter_callee row,
      te_request_count = ter_request_count row,
      te_error_rate = error_rate_of (ter_request_count row) (ter_error_count row),
      te_p95_latency_ms = f64_div (ter_p95_latency_ns row) (f64_lit 1000000 1)\<rparr>"

subsection \<open>Metrics\<close>

definition render_metric_catalog_duckdb :: "string option \<Rightarrow> string" where
  "render_metric_catalog_duckdb service =
     (let where_sql = (case service of
            Some svc \<Rightarrow> eq_clause ''WHERE service_name = '' svc | None \<Rightarrow> []) in
      piece (''SELECT metric_name, any_value(description) AS description, unit, '' @
             ''metric_type, is_monotonic, aggregation_temporality, service_name, '' @
             ''environment, count(DISTINCT metric_series_id) AS series_count '' @
             ''FROM metric_series '') @
      where_sql @
      piece ('' GROUP BY metric_name, unit, metric_type, is_monotonic, '' @
             ''aggregation_temporality, service_name, environment ORDER BY '' @
             ''series_count DESC, metric_name ASC''))"

definition render_metric_group_points_duckdb ::
    "string \<Rightarrow> string \<Rightarrow> string \<Rightarrow> string \<Rightarrow> string \<Rightarrow> string" where
  "render_metric_group_points_duckdb metric_name service environment metric_type unit =
     (let metric_name = escape_string_value metric_name;
          service = escape_string_value service;
          environment = escape_string_value environment;
          metric_type = escape_string_value metric_type;
          unit = escape_string_value unit;
          agg = (if metric_type = ''gauge'' then piece ''avg'' else piece ''sum'') in
      piece (''SELECT mp.metric_series_id AS metric_series_id, ms.metric_name AS '' @
             ''metric_name, ms.service_name AS service_name, mp.time_unix_nano '' @
             ''AS time_unix_nano, mp.start_time_unix_nano AS '' @
             ''start_time_unix_nano, '') @
      agg @
      piece (''(mp.value_double) AS value_double FROM metric_points mp INNER '' @
             ''JOIN metric_series ms ON ms.metric_series_id = '' @
             ''mp.metric_series_id WHERE ms.metric_name = '') @
      quoted metric_name @
      piece '' AND ms.service_name = '' @
      quoted service @
      piece '' AND ms.environment = '' @
      quoted environment @
      piece '' AND ms.metric_type = '' @
      quoted metric_type @
      piece '' AND ms.unit = '' @
      quoted unit @
      piece ('' GROUP BY mp.metric_series_id, ms.metric_name, ms.service_name, '' @
             ''mp.time_unix_nano, mp.start_time_unix_nano ORDER BY '' @
             ''mp.time_unix_nano ASC''))"

subsection \<open>Change events\<close>

definition render_change_events_duckdb ::
    "string option \<Rightarrow> string option \<Rightarrow> string option \<Rightarrow> u64 \<Rightarrow> u64 \<Rightarrow> u32 \<Rightarrow> string" where
  "render_change_events_duckdb service_name environment event_type from_ns to_ns limit =
     (let where_sql = join (piece '' AND '')
        ([piece ''occurred_at_unix_nano >= '' @ show_word from_ns,
          piece ''occurred_at_unix_nano <= '' @ show_word to_ns]
         @ optional_clause (eq_clause ''service_name = '') service_name
         @ optional_clause (eq_clause ''environment = '') environment
         @ optional_clause (eq_clause ''event_type = '') event_type) in
      piece (''SELECT change_event_id, event_type, service_name, environment, '' @
             ''title, description, occurred_at_unix_nano, source FROM '' @
             ''change_events WHERE '') @
      where_sql @
      piece '' ORDER BY occurred_at_unix_nano DESC LIMIT '' @
      (show_word limit))"

end
