(* ===== verification/Duckdb_Safety.thy ===== *)
theory Duckdb_Safety
  imports Duckdb_Queries
begin

section \<open>When the DuckDB renderers are safe\<close>

text \<open>
  The renderers escape with the ClickHouse function. DuckDB's literals know no backslash
  escape, so the dialect's laws hold for values without quotes and backslashes, and for no
  others: the first theorem is an equivalence. For the plain values the same library of
  composition lemmas gives the queries' literals.
\<close>

lemma duck_lex_plain:
  "plain_text v \<Longrightarrow> \<not> starts_quote r \<Longrightarrow>
   duck_lex_from (In_lit a) (v @ quote # r) = after [Lit (a @ v)] (duck_lex r)"
proof (induction v arbitrary: a)
  case Nil
  then show ?case by (cases r) (auto simp: duck_lex_def)
next
  case (Cons c v)
  then show ?case by (auto simp: plain_text_def)
qed

interpretation duckdb: sql_dialect duck_lex escape_string_value plain_text
proof unfold_locales
  show "duck_lex [] = Some []" by (simp add: duck_lex_def)
  show "duck_lex (c # r) = after [Code c] (duck_lex r)" if "c \<noteq> quote" for c r
    using that by (simp add: duck_lex_def)
  show "duck_lex (quoted (escape_string_value v) @ r) = after [Lit v] (duck_lex r)"
    if "plain_text v" "\<not> starts_quote r" for v r
    using duck_lex_plain[OF that, of "[]"] that(1)
    by (simp add: quoted_def escape_plain duck_lex_def)
qed

lemma after_eq_single: "after (t # u # ts) x \<noteq> Some [l]"
  by (cases x) auto

lemma starts_quote_escape [simp]: "\<not> starts_quote (escape_string_value v)"
  by (cases v) (auto simp: escape_Cons)

lemma duck_lex_escaped_single:
  "duck_lex_from (In_lit a) (escape_string_value v @ [quote]) = Some [Lit w] \<Longrightarrow>
   w = a @ escape_string_value v \<and> quote \<notin> set v"
proof (induction v arbitrary: a)
  case (Cons c v)
  consider "c = quote" | "c = backslash" | "c \<noteq> quote" "c \<noteq> backslash" by blast
  then show ?case
  proof cases
    case 1
    then show ?thesis
      using Cons.prems starts_quote_escape[of v]
      by (cases "escape_string_value v") (auto simp: escape_Cons after_eq_single split: if_splits)
  next
    case 2
    then have "duck_lex_from (In_lit (a @ [backslash, backslash])) (escape_string_value v @ [quote]) = Some [Lit w]"
      using Cons.prems by (simp add: escape_Cons)
    from Cons.IH[OF this] show ?thesis using 2 by (simp add: escape_Cons)
  next
    case 3
    then have "duck_lex_from (In_lit (a @ [c])) (escape_string_value v @ [quote]) = Some [Lit w]"
      using Cons.prems by (simp add: escape_Cons)
    from Cons.IH[OF this] show ?thesis using 3 by (simp add: escape_Cons)
  qed
qed simp

lemma escape_eq_plain: "escape_string_value v = v \<Longrightarrow> plain_text v"
proof (induction v)
  case (Cons c v)
  have "length v \<le> length (escape_string_value v)"
    by (induction v) (auto simp: escape_Cons)
  then show ?case using Cons
    by (auto simp: escape_Cons plain_text_def dest: arg_cong[of _ _ length] split: if_splits)
qed simp

lemma duck_literal_iff:
  "duck_lex (quoted (escape_string_value v)) = Some [Lit v] \<longleftrightarrow> plain_text v"
proof
  assume "duck_lex (quoted (escape_string_value v)) = Some [Lit v]"
  then have "duck_lex_from (In_lit []) (escape_string_value v @ [quote]) = Some [Lit v]"
    by (simp add: duck_lex_def quoted_def)
  from duck_lex_escaped_single[OF this] show "plain_text v"
    by (intro escape_eq_plain) simp
next
  assume "plain_text v"
  then show "duck_lex (quoted (escape_string_value v)) = Some [Lit v]"
    using duckdb.lex_lit[of v "[]"] duckdb.lex_Nil by simp
qed

subsection \<open>Clauses\<close>

lemma duck_eq_clause:
  "plain_text v \<Longrightarrow> quote_free l \<Longrightarrow> l \<noteq> [] \<Longrightarrow>
   inlines duck_lex (eq_clause l v) [v] (eq_clause l [])"
  using duckdb.inlines_value_end[of l v "[]"] by (simp add: eq_clause_def)

lemma duck_ilike_clause:
  assumes "plain_text v" "quote_free l" "l \<noteq> []"
  shows "inlines duck_lex (ilike_clause l v) [''%'' @ v @ ''%''] (ilike_clause l [])"
proof -
  have p: "plain_text (''%'' @ v @ ''%'')" "plain_text ''%%''" using assms(1) by (auto simp: plain_text_def)
  show ?thesis
    using duckdb.inlines_value_end[OF assms(2,3) p] assms(1)
    by (simp add: ilike_clause_def escape_plain[OF p(1), simplified] escape_plain[OF p(2), simplified]
        escape_plain[OF assms(1)])
qed

text \<open>
  A condition list as the renderers build it: unconditional texts, then one clause per
  value present. \<open>present\<close> lists the values of the optional clauses.
\<close>

definition present :: "(string \<Rightarrow> string) \<Rightarrow> string option \<Rightarrow> string list" where
  "present f x = (case x of None \<Rightarrow> [] | Some v \<Rightarrow> [f v])"

definition optional_plain :: "string option \<Rightarrow> bool" where
  "optional_plain x \<longleftrightarrow> (case x of None \<Rightarrow> True | Some v \<Rightarrow> plain_text v)"

type_synonym inlined = "string \<times> string list \<times> string"

definition inl_text :: "string \<Rightarrow> inlined" where
  "inl_text s = (s, [], s)"

definition inl_opt :: "(string \<Rightarrow> string) \<Rightarrow> (string \<Rightarrow> string) \<Rightarrow> string option \<Rightarrow> inlined list" where
  "inl_opt cl lit x = (case x of None \<Rightarrow> [] | Some v \<Rightarrow> [(cl v, [lit v], cl [])])"

lemma inl_opt_proj:
  "map fst (inl_opt cl lit x) = optional_clause cl x"
  "concat (map (fst \<circ> snd) (inl_opt cl lit x)) = present lit x"
  "map (snd \<circ> snd) (inl_opt cl lit x) = optional_clause cl (map_option (\<lambda>_. []) x)"
  by (auto simp: inl_opt_def optional_clause_def present_def split: option.splits)

lemma inl_opt_ok:
  assumes "optional_plain x" "\<And>v. plain_text v \<Longrightarrow> inlines duck_lex (cl v) [lit v] (cl [])"
  shows "list_all (\<lambda>(s, ls, s'). inlines duck_lex s ls s') (inl_opt cl lit x)"
  using assms by (auto simp: inl_opt_def optional_plain_def split: option.splits)

lemma inl_text_proj [simp]:
  "fst (inl_text s) = s" "fst (snd (inl_text s)) = []" "snd (snd (inl_text s)) = s"
  by (simp_all add: inl_text_def)

lemma inl_text_ok: "quote_free s \<Longrightarrow> (case inl_text s of (s, ls, s') \<Rightarrow> inlines duck_lex s ls s')"
  by (simp add: inl_text_def duckdb.inlines_text)

subsection \<open>Log and trace queries\<close>

definition blank_log_filters :: "log_query_filters \<Rightarrow> log_query_filters" where
  "blank_log_filters f = f\<lparr>lqf_service_name := map_option (\<lambda>_. []) (lqf_service_name f),
     lqf_environment := map_option (\<lambda>_. []) (lqf_environment f),
     lqf_body_text := map_option (\<lambda>_. []) (lqf_body_text f)\<rparr>"

lemma duckdb_log_inlines:
  assumes "quote_free (lqf_from_expr f)" "quote_free (lqf_to_expr f)"
    "optional_plain (lqf_service_name f)" "optional_plain (lqf_environment f)"
    "optional_plain (lqf_body_text f)"
  shows "inlines duck_lex (render_log_query_duckdb f)
           (present id (lqf_service_name f) @ present id (lqf_environment f) @
            present (\<lambda>v. ''%'' @ v @ ''%'') (lqf_body_text f))
           (render_log_query_duckdb (blank_log_filters f))"
proof -
  define xs where "xs = [inl_text (piece ''timestamp_unix_nano >= '' @ lqf_from_expr f),
      inl_text (piece ''timestamp_unix_nano <= '' @ lqf_to_expr f)]
      @ inl_opt (eq_clause ''service_name = '') id (lqf_service_name f)
      @ inl_opt (eq_clause ''environment = '') id (lqf_environment f)
      @ inl_opt (ilike_clause ''body ILIKE '') (\<lambda>v. ''%'' @ v @ ''%'') (lqf_body_text f)"
  have "list_all (\<lambda>(s, ls, s'). inlines duck_lex s ls s') xs"
    unfolding xs_def list_all_append using assms
    by (intro conjI inl_opt_ok) (simp_all add: duck_eq_clause duck_ilike_clause[simplified] inl_text_ok)
  from duckdb.inlines_join[OF _ this, of "piece '' AND ''"]
  have j: "inlines duck_lex (join (piece '' AND '') (map fst xs)) (concat (map (fst \<circ> snd) xs))
     (join (piece '' AND '') (map (snd \<circ> snd) xs))" by simp
  have "inlines duck_lex (a @ join (piece '' AND '') (map fst xs) @ b) (concat (map (fst \<circ> snd) xs))
     (a @ join (piece '' AND '') (map (snd \<circ> snd) xs) @ b)" if "quote_free a" "quote_free b" for a b
    using duckdb.inlines_append[OF duckdb.inlines_text[OF that(1)]
        duckdb.inlines_append[OF j duckdb.inlines_text[OF that(2)]]] by simp
  then show ?thesis
    by (simp add: render_log_query_duckdb_def blank_log_filters_def xs_def inl_opt_proj)
qed

text \<open>The same for traces, whose first condition holds a constant empty literal.\<close>

definition blank_trace_filters :: "trace_query_filters \<Rightarrow> trace_query_filters" where
  "blank_trace_filters f = f\<lparr>tqf_service_name := map_option (\<lambda>_. []) (tqf_service_name f),
     tqf_status_code := map_option (\<lambda>_. []) (tqf_status_code f),
     tqf_environment := map_option (\<lambda>_. []) (tqf_environment f),
     tqf_operation_text := map_option (\<lambda>_. []) (tqf_operation_text f)\<rparr>"

lemma root_clause_inlines:
  "inlines duck_lex (piece ''(parent_span_id = '' @ quoted [] @ piece '' OR parent_span_id IS NULL)'') [[]]
     (piece ''(parent_span_id = '' @ quoted [] @ piece '' OR parent_span_id IS NULL)'')"
  using duckdb.inlines_value[of "''(parent_span_id = ''" "[]" "[]", OF _ _ _ _
      duckdb.inlines_text[of "piece '' OR parent_span_id IS NULL)''"]]
  by simp

lemma duckdb_trace_inlines:
  assumes "quote_free (tqf_from_expr f)" "quote_free (tqf_to_expr f)"
    "optional_plain (tqf_service_name f)" "optional_plain (tqf_status_code f)"
    "optional_plain (tqf_environment f)" "optional_plain (tqf_operation_text f)"
  shows "inlines duck_lex (render_trace_query_duckdb f)
           ([] # present id (tqf_service_name f) @ present id (tqf_status_code f) @
            present id (tqf_environment f) @ present (\<lambda>v. ''%'' @ v @ ''%'') (tqf_operation_text f))
           (render_trace_query_duckdb (blank_trace_filters f))"
proof -
  define root where "root = piece ''(parent_span_id = '' @ quoted [] @ piece '' OR parent_span_id IS NULL)''"
  define xs where "xs = [(root, [[]], root), inl_text (piece ''start_time_unix_nano >= '' @ tqf_from_expr f),
      inl_text (piece ''start_time_unix_nano <= '' @ tqf_to_expr f)]
      @ inl_opt (eq_clause ''service_name = '') id (tqf_service_name f)
      @ inl_opt (eq_clause ''status_code = '') id (tqf_status_code f)
      @ inl_opt (eq_clause ''environment = '') id (tqf_environment f)
      @ inl_opt (ilike_clause ''operation_name ILIKE '') (\<lambda>v. ''%'' @ v @ ''%'') (tqf_operation_text f)"
  have "list_all (\<lambda>(s, ls, s'). inlines duck_lex s ls s') xs"
    unfolding xs_def list_all_append using assms root_clause_inlines[folded root_def]
    by (intro conjI inl_opt_ok) (simp_all add: duck_eq_clause duck_ilike_clause[simplified] inl_text_ok)
  from duckdb.inlines_join[OF _ this, of "piece '' AND ''"]
  have j: "inlines duck_lex (join (piece '' AND '') (map fst xs)) (concat (map (fst \<circ> snd) xs))
     (join (piece '' AND '') (map (snd \<circ> snd) xs))" by simp
  have "inlines duck_lex (a @ join (piece '' AND '') (map fst xs) @ b) (concat (map (fst \<circ> snd) xs))
     (a @ join (piece '' AND '') (map (snd \<circ> snd) xs) @ b)" if "quote_free a" "quote_free b" for a b
    using duckdb.inlines_append[OF duckdb.inlines_text[OF that(1)]
        duckdb.inlines_append[OF j duckdb.inlines_text[OF that(2)]]] by simp
  then show ?thesis
    by (simp add: render_trace_query_duckdb_def blank_trace_filters_def xs_def root_def[symmetric] inl_opt_proj)
qed

subsection \<open>The properties\<close>

definition log_filters_plain :: "log_query_filters \<Rightarrow> bool" where
  "log_filters_plain f \<longleftrightarrow> optional_plain (lqf_service_name f) \<and>
     optional_plain (lqf_environment f) \<and> optional_plain (lqf_body_text f)"

definition trace_filters_plain :: "trace_query_filters \<Rightarrow> bool" where
  "trace_filters_plain f \<longleftrightarrow> optional_plain (tqf_service_name f) \<and> optional_plain (tqf_status_code f) \<and>
     optional_plain (tqf_environment f) \<and> optional_plain (tqf_operation_text f)"

text \<open>
  A clause as the renderers write it: text, then a literal with the escaped value between
  two fixed texts. If the literals that DuckDB reads are the values, the values are plain:
  the first value that is not spoils its literal, whatever follows.
\<close>

lemma duck_lit_text:
  "quote \<notin> set s \<Longrightarrow> duck_lex_from (In_lit a) (s @ r) = duck_lex_from (In_lit (a @ s)) r"
  by (induction s arbitrary: a) auto

lemma duck_lit_prefix:
  "duck_lex_from m s = Some ts \<Longrightarrow> m = In_lit a \<or> m = After_quote a \<Longrightarrow> \<exists>x ls. literals ts = (a @ x) # ls"
proof (induction m s arbitrary: a ts rule: duck_lex_from.induct)
  case (4 b c cs)
  show ?case
  proof (cases "c = quote")
    case True
    then show ?thesis using 4(1)[OF True, of ts "a @ [c]"] 4(3,4) by auto
  next
    case False
    then have "\<exists>us. ts = [Lit a, Code c] @ us" using 4(3,4) by (auto simp: after_def)
    then show ?thesis by auto
  qed
next
  case (5 b c cs)
  show ?case
  proof (cases "c = quote")
    case True
    then show ?thesis using 5(1)[OF True, of ts a] 5(3,4) by auto
  next
    case False
    then show ?thesis using 5(2)[OF False, of ts "a @ [c]"] 5(3,4) by auto
  qed
qed auto

lemma duck_lit_first:
  "duck_lex_from (In_lit a) s = Some ts \<Longrightarrow> literals ts = l # ls \<Longrightarrow> \<exists>x. l = a @ x"
  using duck_lit_prefix[of "In_lit a" s ts a] by auto

lemma escape_quote_free: "quote \<notin> set v \<Longrightarrow> quote \<notin> set (escape_string_value v)"
  by (induction v) (auto simp: escape_Cons)

lemma escape_longer: "length v \<le> length (escape_string_value v)"
  by (induction v) (auto simp: escape_Cons)

lemma escape_same_length: "length (escape_string_value v) = length v \<Longrightarrow> escape_string_value v = v"
proof (induction v)
  case (Cons c v)
  then show ?case using escape_longer[of v] by (auto simp: escape_Cons split: if_splits)
qed simp

lemma escape_append: "escape_string_value (v @ w) = escape_string_value v @ escape_string_value w"
  by (induction v) (auto simp: escape_Cons)

lemma duck_first_literal:
  assumes "duck_lex_from (In_lit a) (escape_string_value v @ q @ quote # r) = Some ts" "quote \<notin> set q"
    and "literals ts = (a @ v @ q) # ls"
  shows "plain_text v"
proof (cases "quote \<in> set v")
  case True
  then obtain p w where v: "v = p @ quote # w" "quote \<notin> set p" by (blast dest: split_list_first)
  have "duck_lex_from (In_lit (a @ escape_string_value p @ [backslash])) (quote # escape_string_value w @ q @ quote # r) = Some ts"
    using assms(1) duck_lit_text[OF escape_quote_free[OF v(2)], of a] by (simp add: v(1) escape_append escape_Cons)
  then obtain x where "a @ v @ q = (a @ escape_string_value p @ [backslash]) @ x"
    using duck_lit_first assms(3) by blast
  then have "p @ quote # w @ q = escape_string_value p @ backslash # x" by (simp add: v(1))
  then have "(p @ quote # w @ q) ! length p = (escape_string_value p @ backslash # x) ! length p" by (rule arg_cong)
  then have "quote = (escape_string_value p @ [backslash]) ! length p"
    using escape_longer[of p] by (simp add: nth_append split: if_splits)
  then have "quote \<in> set (escape_string_value p @ [backslash])"
    using escape_longer[of p] nth_mem[of "length p" "escape_string_value p @ [backslash]"] by simp
  then show ?thesis using escape_quote_free[OF v(2)] by simp
next
  case False
  then have "duck_lex_from (In_lit (a @ escape_string_value v @ q)) (quote # r) = Some ts"
    using assms(1,2) duck_lit_text[OF escape_quote_free[OF False], of a] duck_lit_text[OF assms(2)] by simp
  then obtain x where "a @ v @ q = (a @ escape_string_value v @ q) @ x"
    using duck_lit_first assms(3) by blast
  then have "length (escape_string_value v) = length v"
    using escape_longer[of v] by (auto dest: arg_cong[of _ _ length])
  then show ?thesis by (intro escape_eq_plain escape_same_length)
qed

definition clause_of :: "string \<times> string \<times> string \<Rightarrow> string" where
  "clause_of = (\<lambda>(l, p, v). l @ quote # p @ escape_string_value v @ p @ [quote])"

definition clause_value :: "string \<times> string \<times> string \<Rightarrow> string" where
  "clause_value = (\<lambda>(l, p, v). p @ v @ p)"

lemma after_Some: "after ts x = Some us \<Longrightarrow> \<exists>vs. x = Some vs \<and> us = ts @ vs"
  by (cases x) auto

lemma clauses_start: "list_all (\<lambda>(l, p, v). quote_free l \<and> l \<noteq> []) xs \<Longrightarrow> \<not> starts_quote b \<Longrightarrow>
   \<not> starts_quote (concat (map clause_of xs) @ b)"
  by (cases xs) (auto simp: clause_of_def)

lemma clauses_plain:
  assumes "duck_lex (concat (map clause_of xs) @ b) = Some ts" "literals ts = map clause_value xs"
    and "list_all (\<lambda>(l, p, v). quote_free l \<and> l \<noteq> []) xs" "list_all (\<lambda>(l, p, v). plain_text p) xs" "\<not> starts_quote b"
  shows "list_all (\<lambda>(l, p, v). plain_text v) xs"
  using assms(1-4)
proof (induction xs arbitrary: ts)
  case (Cons y ys)
  obtain l p v where y: "y = (l, p, v)" by (cases y)
  let ?rest = "concat (map clause_of ys) @ b"
  have "after (code l) (duck_lex_from (In_lit []) (p @ escape_string_value v @ p @ quote # ?rest)) = Some ts"
    using Cons.prems(1,3) y duckdb.lex_text[of l] by (simp add: clause_of_def duck_lex_def)
  then obtain us where us: "duck_lex_from (In_lit []) (p @ escape_string_value v @ p @ quote # ?rest) = Some us" "ts = code l @ us"
    by (blast dest: after_Some)
  have p: "quote \<notin> set p" using Cons.prems(4) y by (simp add: plain_text_def)
  then have "duck_lex_from (In_lit p) (escape_string_value v @ p @ quote # ?rest) = Some us"
    using us(1) by (simp add: duck_lit_text)
  then have v: "plain_text v"
    using duck_first_literal[OF _ p] Cons.prems(2) us(2) y by (simp add: clause_value_def)
  have "plain_text (p @ v @ p)" using v Cons.prems(4) y by (auto simp: plain_text_def)
  then have "after [Lit (p @ v @ p)] (duck_lex ?rest) = Some us"
    using us(1) duck_lex_plain[of "p @ v @ p" ?rest "[]"] clauses_start[of ys b] Cons.prems(3) assms(5) v
    by (simp add: escape_plain)
  then obtain vs where "duck_lex ?rest = Some vs" "us = Lit (p @ v @ p) # vs" by (auto dest: after_Some)
  then show ?case using Cons.IH[of vs] Cons.prems(2-4) us(2) y v by (simp add: clause_value_def)
qed simp


definition log_clauses :: "log_query_filters \<Rightarrow> (string \<times> string \<times> string) list" where
  "log_clauses f =
     map (\<lambda>v. ('' AND service_name = '', [], v)) (present id (lqf_service_name f)) @
     map (\<lambda>v. ('' AND environment = '', [], v)) (present id (lqf_environment f)) @
     map (\<lambda>v. ('' AND body ILIKE '', ''%'', v)) (present id (lqf_body_text f))"

lemma render_log_clauses:
  "\<exists>a. render_log_query_duckdb f = a @ concat (map clause_of (log_clauses f)) @ '' ORDER BY timestamp_unix_nano DESC LIMIT 500'' \<and>
     (quote_free (lqf_from_expr f) \<and> quote_free (lqf_to_expr f) \<longrightarrow> quote_free a)"
proof -
  define a where "a = ''SELECT log_id, timestamp_unix_nano, observed_timestamp_unix_nano, '' @
             ''severity_number, severity_text, body, trace_id, span_id, '' @
             ''service_name, environment, host_id FROM logs WHERE '' @ ''timestamp_unix_nano >= '' @ lqf_from_expr f @
             '' AND '' @ ''timestamp_unix_nano <= '' @ lqf_to_expr f"
  have "render_log_query_duckdb f = a @ concat (map clause_of (log_clauses f)) @ '' ORDER BY timestamp_unix_nano DESC LIMIT 500''"
    by (cases "lqf_service_name f"; cases "lqf_environment f"; cases "lqf_body_text f")
       (simp_all add: render_log_query_duckdb_def a_def log_clauses_def clause_of_def present_def optional_clause_def
          eq_clause_def ilike_clause_def quoted_def piece_def)
  moreover have "quote_free (lqf_from_expr f) \<and> quote_free (lqf_to_expr f) \<longrightarrow> quote_free a"
    by (simp add: a_def)
  ultimately show ?thesis by blast
qed

lemma log_clauses_values:
  "map clause_value (log_clauses f) = present id (lqf_service_name f) @ present id (lqf_environment f) @
     present (\<lambda>v. ''%'' @ v @ ''%'') (lqf_body_text f)"
  by (simp add: log_clauses_def clause_value_def present_def split: option.split)

lemma log_clauses_plain:
  "list_all (\<lambda>(l, p, v). plain_text v) (log_clauses f) \<longleftrightarrow> log_filters_plain f"
  by (simp add: log_clauses_def log_filters_plain_def optional_plain_def present_def split: option.split)

text \<open>
  DuckDB reads the query as the template with the values as its literals: the service, the
  environment and the pattern around the free text, and code that is that of the template.
\<close>

definition reads_log_filters :: "log_query_filters \<Rightarrow> bool" where
  "reads_log_filters f \<longleftrightarrow>
     (\<exists>ts ts'. duck_lex (render_log_query_duckdb f) = Some ts \<and>
        duck_lex (render_log_query_duckdb (blank_log_filters f)) = Some ts' \<and> skeleton ts = skeleton ts' \<and>
        literals ts = present id (lqf_service_name f) @ present id (lqf_environment f) @
          present (\<lambda>v. ''%'' @ v @ ''%'') (lqf_body_text f))"


definition sample_duck_ir :: nlq_ir where
  "sample_duck_ir = \<lparr>ir_operation = Table, ir_signals = [Logs], ir_metric = None, ir_window = None,
     ir_filters = [\<lparr>flt_field = ''Service_Name'', flt_op = Eq, flt_value = ''cart''\<rparr>],
     ir_group_by = [], ir_resolution = None, ir_time_range = \<lparr>tr_from = ''now'', tr_to = ''now''\<rparr>,
     ir_visualization_hint = None, ir_percentiles = None, ir_catalog_field = None,
     ir_limit = None, ir_query = Some ''timeout''\<rparr>"

lemma sample_duck_now: "parse_time_expr ''now'' = Inr ''toUnixTimestamp64Nano(now64())''"
  by (simp add: parse_time_expr_def trim_id no_ws_end_def)

lemma sample_duck_fields:
  "filter_val sample_duck_ir ''service_name'' = Some ''cart''"
  "filter_val sample_duck_ir ''environment'' = None"
  "filter_val sample_duck_ir ''status_code'' = None"
  "nonempty_query sample_duck_ir = Some ''timeout''"
  "tr_from (ir_time_range sample_duck_ir) = ''now''" "tr_to (ir_time_range sample_duck_ir) = ''now''"
  by code_simp+


text \<open>The same for the playground's trace query.\<close>

theorem duckdb_trace_query_safe:
  assumes "extract_trace_query_filters ir = Inr f" "trace_filters_plain f"
  shows "\<exists>ts ts'. duck_lex (render_trace_query_duckdb f) = Some ts \<and>
           duck_lex (render_trace_query_duckdb (blank_trace_filters f)) = Some ts' \<and>
           skeleton ts = skeleton ts' \<and>
           literals ts = [] # present id (tqf_service_name f) @ present id (tqf_status_code f) @
             present id (tqf_environment f) @ present (\<lambda>v. ''%'' @ v @ ''%'') (tqf_operation_text f)"
proof -
  have "quote_free (tqf_from_expr f)" "quote_free (tqf_to_expr f)"
    using assms(1) by (auto simp: extract_trace_query_filters_def quote_free_parse_time_expr)
  with assms(2) show ?thesis
    using duckdb.inlines_whole[OF duckdb_trace_inlines, of f] by (auto simp: trace_filters_plain_def)
qed

theorem duckdb_trace_query_safe_witness:
  "\<exists>f ts ts'. extract_trace_query_filters sample_duck_ir = Inr f \<and>
     duck_lex (render_trace_query_duckdb f) = Some ts \<and>
     duck_lex (render_trace_query_duckdb (blank_trace_filters f)) = Some ts' \<and>
     skeleton ts = skeleton ts' \<and> literals ts = [[], ''cart'', ''%timeout%'']"
proof -
  obtain f where f: "extract_trace_query_filters sample_duck_ir = Inr f"
    "tqf_service_name f = Some ''cart''" "tqf_status_code f = None" "tqf_environment f = None"
    "tqf_operation_text f = Some ''timeout''"
    by (simp add: extract_trace_query_filters_def sample_duck_fields sample_duck_now)
  have "trace_filters_plain f"
    using f by (simp add: trace_filters_plain_def optional_plain_def plain_text_def)
  from duckdb_trace_query_safe[OF f(1) this] f show ?thesis by (auto simp: present_def)
qed

end
