(* ===== verification/Domain.thy ===== *)
theory Domain
  imports Float64 "HOL-Library.Char_ord" "HOL-Library.List_Lexorder"
begin

section \<open>The telemetry data model\<close>

text \<open>
  \<open>libs/domain/src\<close>: spans, logs, metric series and points, and the two wire envelopes
  (\<open>span.rs\<close>, \<open>log.rs\<close>, \<open>metric.rs\<close>, \<open>envelope.rs\<close>). A \<open>HashMap\<close> is the list of its
  entries in iteration order; two lists with the same \<open>map_of\<close> are the same map. Record
  fields carry a prefix because HOL field names are global.
\<close>

datatype json_number = PosInt u64 | NegInt i64 | Float f64

datatype json =
    JNull
  | JBool bool
  | JNumber json_number
  | JString string
  | JArray "json list"
  | JObject "(string \<times> json) list"

type_synonym attributes = "(string \<times> json) list"

datatype span_kind = Internal | Server | Client | Producer | Consumer

datatype status_code = Unset | Ok | Error

record span_event =
  sev_tenant_id :: uuid
  sev_trace_id :: string
  sev_span_id :: string
  sev_event_index :: u32
  sev_name :: string
  sev_timestamp_unix_nano :: u64
  sev_attributes :: attributes

record span =
  sp_tenant_id :: uuid
  sp_trace_id :: string
  sp_span_id :: string
  sp_parent_span_id :: "string option"
  sp_service_name :: string
  sp_service_namespace :: string
  sp_service_version :: string
  sp_operation_name :: string
  sp_span_kind :: span_kind
  sp_start_time_unix_nano :: u64
  sp_end_time_unix_nano :: u64
  sp_duration_ns :: u64
  sp_status_code :: status_code
  sp_status_message :: string
  sp_attributes :: attributes
  sp_resource_attributes :: attributes
  sp_environment :: string
  sp_host_id :: string
  sp_workload :: string
  sp_deployment_id :: string
  sp_events :: "span_event list"

record log_record =
  lg_tenant_id :: uuid
  lg_log_id :: uuid
  lg_timestamp_unix_nano :: u64
  lg_observed_timestamp_unix_nano :: u64
  lg_severity_number :: "32 word"
  lg_severity_text :: string
  lg_body :: json
  lg_trace_id :: "string option"
  lg_span_id :: "string option"
  lg_attributes :: attributes
  lg_resource_attributes :: attributes
  lg_service_name :: string
  lg_environment :: string
  lg_host_id :: string
  lg_fingerprint :: "u64 option"

datatype metric_type = Type_Gauge | Type_Sum | Type_Histogram | Type_ExponentialHistogram | Type_Summary

datatype aggregation_temporality = Delta | Cumulative

record metric_series =
  ms_tenant_id :: uuid
  ms_metric_series_id :: uuid
  ms_metric_name :: string
  ms_description :: string
  ms_unit :: string
  ms_metric_type :: metric_type
  ms_is_monotonic :: "bool option"
  ms_aggregation_temporality :: "aggregation_temporality option"
  ms_attributes :: "(string \<times> string) list"
  ms_resource_attributes :: attributes
  ms_service_name :: string
  ms_environment :: string

record metric_point =
  mp_tenant_id :: uuid
  mp_metric_series_id :: uuid
  mp_metric_name :: string
  mp_service_name :: string
  mp_time_unix_nano :: u64
  mp_start_time_unix_nano :: "u64 option"
  mp_value_double :: "f64 option"
  mp_value_int :: "i64 option"
  mp_histogram_count :: "u64 option"
  mp_histogram_sum :: "f64 option"
  mp_histogram_bucket_counts :: "u64 list option"
  mp_histogram_explicit_bounds :: "f64 list option"

text \<open>\<open>..Default::default()\<close> for series and points.\<close>

definition default_series :: metric_series where
  "default_series = \<lparr>ms_tenant_id = nil_uuid, ms_metric_series_id = nil_uuid, ms_metric_name = [],
     ms_description = [], ms_unit = [], ms_metric_type = Type_Gauge, ms_is_monotonic = None,
     ms_aggregation_temporality = None, ms_attributes = [], ms_resource_attributes = [],
     ms_service_name = [], ms_environment = []\<rparr>"

definition default_point :: metric_point where
  "default_point = \<lparr>mp_tenant_id = nil_uuid, mp_metric_series_id = nil_uuid, mp_metric_name = [],
     mp_service_name = [], mp_time_unix_nano = 0, mp_start_time_unix_nano = None,
     mp_value_double = None, mp_value_int = None, mp_histogram_count = None,
     mp_histogram_sum = None, mp_histogram_bucket_counts = None,
     mp_histogram_explicit_bounds = None\<rparr>"

datatype envelope_payload =
    Spans "span list"
  | LogRecords "log_record list"
  | MetricData "metric_series list" "metric_point list"

record telemetry_envelope =
  env_envelope_id :: uuid
  env_tenant_id :: uuid
  env_environment :: string
  env_received_at_unix_nano :: u64
  env_payload :: envelope_payload

record normalized_batch =
  nb_spans :: "span list"
  nb_logs :: "log_record list"
  nb_series :: "metric_series list"
  nb_points :: "metric_point list"

record deployment_marker_event =
  dme_deployment_id :: uuid
  dme_tenant_id :: uuid
  dme_service_name :: string
  dme_environment :: string
  dme_service_version :: string
  dme_status :: string
  dme_started_at_unix_nano :: u64

subsection \<open>Hashing\<close>

text \<open>
  The 128-bit FNV-1a variant that both \<open>deterministic_uuid_from_bytes\<close> and the storage
  writer's deduplication token use: two 64-bit lanes, with wrapping multiplication.
\<close>

definition fnv_offset :: u64 where "fnv_offset = 0xcbf29ce484222325"
definition fnv_prime :: u64 where "fnv_prime = 0x00000100000001b3"

fun fnv_feed :: "u64 \<times> u64 \<Rightarrow> string \<Rightarrow> u64 \<times> u64" where
  "fnv_feed (hi, lo) [] = (hi, lo)"
| "fnv_feed (hi, lo) (b # bs) =
     fnv_feed ((hi XOR of_nat (byte b)) * fnv_prime,
               (lo XOR word_rotl 1 (of_nat (byte b))) * fnv_prime) bs"

definition fnv_start :: "u64 \<times> u64" where
  "fnv_start = (fnv_offset, fnv_offset XOR 0x9e3779b97f4a7c15)"

definition deterministic_uuid_from_bytes :: "string \<Rightarrow> uuid" where
  "deterministic_uuid_from_bytes bytes =
     (case fnv_feed fnv_start bytes of (hi, lo) \<Rightarrow> push_bit 64 (ucast hi) OR ucast lo)"

text \<open>
  The identity of a metric series. \<open>serde_json::json!\<close> builds an object whose map keeps
  its keys sorted, as \<open>BTreeMap\<close> does for the attributes. \<open>us\<close> is the UUID's text,
  \<open>js\<close> the text of a JSON value.
\<close>

definition sorted_entries :: "(string \<times> 'v) list \<Rightarrow> (string \<times> 'v) list" where
  "sorted_entries kvs = map (\<lambda>k. (k, the (map_of kvs k))) (sort (remdups (map fst kvs)))"

definition json_object :: "(string \<times> json) list \<Rightarrow> json" where
  "json_object kvs = JObject (sorted_entries kvs)"

fun metric_type_json :: "metric_type \<Rightarrow> json" where
  "metric_type_json Type_Gauge = JString ''gauge''"
| "metric_type_json Type_Sum = JString ''sum''"
| "metric_type_json Type_Histogram = JString ''histogram''"
| "metric_type_json Type_ExponentialHistogram = JString ''exponential_histogram''"
| "metric_type_json Type_Summary = JString ''summary''"

fun temporality_json :: "aggregation_temporality \<Rightarrow> json" where
  "temporality_json Delta = JString ''delta''"
| "temporality_json Cumulative = JString ''cumulative''"

definition option_json :: "('a \<Rightarrow> json) \<Rightarrow> 'a option \<Rightarrow> json" where
  "option_json f x = (case x of None \<Rightarrow> JNull | Some y \<Rightarrow> f y)"

definition deterministic_metric_series_id ::
    "(uuid \<Rightarrow> string) \<Rightarrow> (json \<Rightarrow> string) \<Rightarrow> metric_series \<Rightarrow> uuid" where
  "deterministic_metric_series_id us js series =
     (let key = json_object
        [(''tenant_id'', JString (us (ms_tenant_id series))),
         (''metric_name'', JString (ms_metric_name series)),
         (''metric_type'', metric_type_json (ms_metric_type series)),
         (''is_monotonic'', option_json JBool (ms_is_monotonic series)),
         (''aggregation_temporality'', option_json temporality_json (ms_aggregation_temporality series)),
         (''attributes'', json_object (map (\<lambda>(k, v). (k, JString v)) (ms_attributes series))),
         (''resource_attributes'', json_object (ms_resource_attributes series)),
         (''service_name'', JString (ms_service_name series)),
         (''environment'', JString (ms_environment series))]
      in deterministic_uuid_from_bytes (js key))"

lemma fnv_feed_append: "fnv_feed s (xs @ ys) = fnv_feed (fnv_feed s xs) ys"
proof (induction xs arbitrary: s)
  case Nil
  then show ?case by (cases s) simp
next
  case (Cons x xs)
  then show ?case by (cases s) simp
qed

text \<open>Sorting the entries forgets the iteration order of the map.\<close>

lemma dom_map_of_entries: "dom (map_of kvs) = fst ` set kvs"
  by (rule dom_map_of_conv_image_fst)

lemma sorted_entries_cong:
  assumes "map_of kvs = map_of kvs'"
  shows "sorted_entries kvs = sorted_entries kvs'"
proof -
  have "set (map fst kvs) = set (map fst kvs')"
    using dom_map_of_entries[of kvs] dom_map_of_entries[of kvs'] assms by simp
  then have "sort (remdups (map fst kvs)) = sort (remdups (map fst kvs'))"
    by (metis sorted_list_of_set_sort_remdups)
  then show ?thesis using assms by (simp add: sorted_entries_def)
qed

lemma map_of_sorted_entries: "map_of (sorted_entries kvs) = map_of kvs"
proof
  fix k
  show "map_of (sorted_entries kvs) k = map_of kvs k"
  proof (cases "k \<in> fst ` set kvs")
    case True
    then obtain v where "map_of kvs k = Some v"
      using dom_map_of_entries[of kvs] by blast
    then show ?thesis using True by (simp add: sorted_entries_def map_of_map_restrict)
  next
    case False
    then show ?thesis
      by (simp add: sorted_entries_def map_of_map_restrict map_of_eq_None_iff[symmetric])
  qed
qed

lemma map_of_map_value: "map_of (map (\<lambda>(k, v). (k, f v)) kvs) = map_option f \<circ> map_of kvs"
  by (induction kvs) auto

end
