(* ===== verification/Storage_Rows.thy ===== *)
theory Storage_Rows
  imports Domain
begin

section \<open>The storage contract: domain records and ClickHouse rows\<close>

text \<open>
  \<open>libs/observable-storage-contracts/src\<close>: the row structs and the conversions in both
  directions. \<open>serde_json\<close> is a parameter, the record \<open>serde\<close> of the six functions the
  conversions call; each may fail. A conversion that fails writes the default, as
  \<open>unwrap_or_default\<close> does.
\<close>

record serde =
  attrs_to_string :: "attributes \<Rightarrow> string option"
  attrs_from_str :: "string \<Rightarrow> attributes option"
  labels_to_string :: "(string \<times> string) list \<Rightarrow> string option"
  labels_from_str :: "string \<Rightarrow> (string \<times> string) list option"
  value_to_string :: "json \<Rightarrow> string"
  value_from_str :: "string \<Rightarrow> json option"

subsection \<open>Spans\<close>

record span_row =
  spr_tenant_id :: uuid
  spr_trace_id :: string
  spr_span_id :: string
  spr_service_name :: string
  spr_service_namespace :: string
  spr_service_version :: string
  spr_operation_name :: string
  spr_span_kind :: string
  spr_start_time_unix_nano :: u64
  spr_end_time_unix_nano :: u64
  spr_duration_ns :: u64
  spr_status_code :: string
  spr_status_message :: string
  spr_attributes :: string
  spr_resource_attributes :: string
  spr_environment :: string
  spr_host_id :: string
  spr_workload :: string
  spr_deployment_id :: string
  spr_parent_span_id :: "string option"

fun span_kind_text :: "span_kind \<Rightarrow> string" where
  "span_kind_text Internal = ''INTERNAL''"
| "span_kind_text Server = ''SERVER''"
| "span_kind_text Client = ''CLIENT''"
| "span_kind_text Producer = ''PRODUCER''"
| "span_kind_text Consumer = ''CONSUMER''"

definition span_kind_of_text :: "string \<Rightarrow> span_kind" where
  "span_kind_of_text s =
     (if s = ''SERVER'' then Server
      else if s = ''CLIENT'' then Client
      else if s = ''PRODUCER'' then Producer
      else if s = ''CONSUMER'' then Consumer
      else Internal)"

fun status_code_text :: "status_code \<Rightarrow> string" where
  "status_code_text Unset = ''UNSET''"
| "status_code_text Ok = ''OK''"
| "status_code_text Error = ''ERROR''"

definition status_code_of_text :: "string \<Rightarrow> status_code" where
  "status_code_of_text s = (if s = ''OK'' then Ok else if s = ''ERROR'' then Error else Unset)"

definition span_row_from :: "serde \<Rightarrow> span \<Rightarrow> span_row" where
  "span_row_from S s =
     \<lparr>spr_tenant_id = sp_tenant_id s, spr_trace_id = sp_trace_id s, spr_span_id = sp_span_id s,
      spr_service_name = sp_service_name s, spr_service_namespace = sp_service_namespace s,
      spr_service_version = sp_service_version s, spr_operation_name = sp_operation_name s,
      spr_span_kind = span_kind_text (sp_span_kind s),
      spr_start_time_unix_nano = sp_start_time_unix_nano s,
      spr_end_time_unix_nano = sp_end_time_unix_nano s, spr_duration_ns = sp_duration_ns s,
      spr_status_code = status_code_text (sp_status_code s),
      spr_status_message = sp_status_message s,
      spr_attributes = unwrap_or [] (attrs_to_string S (sp_attributes s)),
      spr_resource_attributes = unwrap_or [] (attrs_to_string S (sp_resource_attributes s)),
      spr_environment = sp_environment s, spr_host_id = sp_host_id s, spr_workload = sp_workload s,
      spr_deployment_id = sp_deployment_id s, spr_parent_span_id = sp_parent_span_id s\<rparr>"

definition span_from_row :: "serde \<Rightarrow> span_row \<Rightarrow> span" where
  "span_from_row S row =
     \<lparr>sp_tenant_id = spr_tenant_id row, sp_trace_id = spr_trace_id row, sp_span_id = spr_span_id row,
      sp_parent_span_id = spr_parent_span_id row, sp_service_name = spr_service_name row,
      sp_service_namespace = spr_service_namespace row,
      sp_service_version = spr_service_version row, sp_operation_name = spr_operation_name row,
      sp_span_kind = span_kind_of_text (spr_span_kind row),
      sp_start_time_unix_nano = spr_start_time_unix_nano row,
      sp_end_time_unix_nano = spr_end_time_unix_nano row, sp_duration_ns = spr_duration_ns row,
      sp_status_code = status_code_of_text (spr_status_code row),
      sp_status_message = spr_status_message row,
      sp_attributes = unwrap_or [] (attrs_from_str S (spr_attributes row)),
      sp_resource_attributes = unwrap_or [] (attrs_from_str S (spr_resource_attributes row)),
      sp_environment = spr_environment row, sp_host_id = spr_host_id row,
      sp_workload = spr_workload row, sp_deployment_id = spr_deployment_id row, sp_events = []\<rparr>"

record span_event_row =
  ser_tenant_id :: uuid
  ser_trace_id :: string
  ser_span_id :: string
  ser_event_index :: u32
  ser_name :: string
  ser_timestamp_unix_nano :: u64
  ser_attributes :: string

definition span_event_row_from :: "serde \<Rightarrow> span_event \<Rightarrow> span_event_row" where
  "span_event_row_from S e =
     \<lparr>ser_tenant_id = sev_tenant_id e, ser_trace_id = sev_trace_id e, ser_span_id = sev_span_id e,
      ser_event_index = sev_event_index e, ser_name = sev_name e,
      ser_timestamp_unix_nano = sev_timestamp_unix_nano e,
      ser_attributes = unwrap_or ''{}'' (attrs_to_string S (sev_attributes e))\<rparr>"

definition span_event_from_row :: "serde \<Rightarrow> span_event_row \<Rightarrow> span_event" where
  "span_event_from_row S r =
     (let attrs = unwrap_or [] (attrs_from_str S (ser_attributes r))
      in \<lparr>sev_tenant_id = ser_tenant_id r, sev_trace_id = ser_trace_id r, sev_span_id = ser_span_id r,
          sev_event_index = ser_event_index r, sev_name = ser_name r,
          sev_timestamp_unix_nano = ser_timestamp_unix_nano r, sev_attributes = attrs\<rparr>)"

subsection \<open>Logs\<close>

record log_row =
  lgr_tenant_id :: uuid
  lgr_log_id :: uuid
  lgr_timestamp_unix_nano :: u64
  lgr_observed_timestamp_unix_nano :: u64
  lgr_severity_number :: "32 word"
  lgr_severity_text :: string
  lgr_body :: string
  lgr_attributes :: string
  lgr_resource_attributes :: string
  lgr_service_name :: string
  lgr_environment :: string
  lgr_host_id :: string
  lgr_trace_id :: "string option"
  lgr_span_id :: "string option"
  lgr_fingerprint :: "u64 option"

definition log_row_from :: "serde \<Rightarrow> log_record \<Rightarrow> log_row" where
  "log_row_from S l =
     \<lparr>lgr_tenant_id = lg_tenant_id l, lgr_log_id = lg_log_id l,
      lgr_timestamp_unix_nano = lg_timestamp_unix_nano l,
      lgr_observed_timestamp_unix_nano = lg_observed_timestamp_unix_nano l,
      lgr_severity_number = lg_severity_number l, lgr_severity_text = lg_severity_text l,
      lgr_body = value_to_string S (lg_body l),
      lgr_attributes = unwrap_or [] (attrs_to_string S (lg_attributes l)),
      lgr_resource_attributes = unwrap_or [] (attrs_to_string S (lg_resource_attributes l)),
      lgr_service_name = lg_service_name l, lgr_environment = lg_environment l,
      lgr_host_id = lg_host_id l, lgr_trace_id = lg_trace_id l, lgr_span_id = lg_span_id l,
      lgr_fingerprint = lg_fingerprint l\<rparr>"

definition log_from_row :: "serde \<Rightarrow> log_row \<Rightarrow> log_record" where
  "log_from_row S row =
     \<lparr>lg_tenant_id = lgr_tenant_id row, lg_log_id = lgr_log_id row,
      lg_timestamp_unix_nano = lgr_timestamp_unix_nano row,
      lg_observed_timestamp_unix_nano = lgr_observed_timestamp_unix_nano row,
      lg_severity_number = lgr_severity_number row, lg_severity_text = lgr_severity_text row,
      lg_body = unwrap_or JNull (value_from_str S (lgr_body row)),
      lg_trace_id = lgr_trace_id row, lg_span_id = lgr_span_id row,
      lg_attributes = unwrap_or [] (attrs_from_str S (lgr_attributes row)),
      lg_resource_attributes = unwrap_or [] (attrs_from_str S (lgr_resource_attributes row)),
      lg_service_name = lgr_service_name row, lg_environment = lgr_environment row,
      lg_host_id = lgr_host_id row, lg_fingerprint = lgr_fingerprint row\<rparr>"

subsection \<open>Metrics\<close>

record metric_series_row =
  msr_tenant_id :: uuid
  msr_metric_series_id :: uuid
  msr_metric_name :: string
  msr_description :: string
  msr_unit :: string
  msr_metric_type :: string
  msr_is_monotonic :: "u8 option"
  msr_aggregation_temporality :: "string option"
  msr_attributes :: string
  msr_resource_attributes :: string
  msr_service_name :: string
  msr_environment :: string

record metric_point_row =
  mpr_tenant_id :: uuid
  mpr_metric_series_id :: uuid
  mpr_metric_name :: string
  mpr_service_name :: string
  mpr_time_unix_nano :: u64
  mpr_start_time_unix_nano :: "u64 option"
  mpr_value_double :: "f64 option"
  mpr_value_int :: "i64 option"
  mpr_histogram_count :: "u64 option"
  mpr_histogram_sum :: "f64 option"
  mpr_histogram_bucket_counts :: "u64 list"
  mpr_histogram_explicit_bounds :: "f64 list"

text \<open>\<open>format!("{:?}", t).to_lowercase()\<close>, with the exponential histogram spelled out.\<close>

fun metric_type_text :: "metric_type \<Rightarrow> string" where
  "metric_type_text Type_ExponentialHistogram = ''exponential_histogram''"
| "metric_type_text Type_Gauge = ''gauge''"
| "metric_type_text Type_Sum = ''sum''"
| "metric_type_text Type_Histogram = ''histogram''"
| "metric_type_text Type_Summary = ''summary''"

definition metric_type_of_text :: "string \<Rightarrow> metric_type" where
  "metric_type_of_text s =
     (let s = to_lowercase s
      in if s = ''gauge'' then Type_Gauge
         else if s = ''sum'' then Type_Sum
         else if s = ''histogram'' then Type_Histogram
         else if s = ''exponential_histogram'' \<or> s = ''exponentialhistogram''
           then Type_ExponentialHistogram
         else if s = ''summary'' then Type_Summary
         else Type_Gauge)"

fun temporality_text :: "aggregation_temporality \<Rightarrow> string" where
  "temporality_text Delta = ''delta''"
| "temporality_text Cumulative = ''cumulative''"

definition temporality_of_text :: "string \<Rightarrow> aggregation_temporality option" where
  "temporality_of_text s =
     (let s = to_lowercase s
      in if s = ''delta'' then Some Delta
         else if s = ''cumulative'' then Some Cumulative
         else None)"

definition series_row_from :: "serde \<Rightarrow> metric_series \<Rightarrow> metric_series_row" where
  "series_row_from S s =
     \<lparr>msr_tenant_id = ms_tenant_id s, msr_metric_series_id = ms_metric_series_id s,
      msr_metric_name = ms_metric_name s, msr_description = ms_description s, msr_unit = ms_unit s,
      msr_metric_type = metric_type_text (ms_metric_type s),
      msr_is_monotonic = map_option (\<lambda>m. if m then 1 else 0) (ms_is_monotonic s),
      msr_aggregation_temporality = map_option temporality_text (ms_aggregation_temporality s),
      msr_attributes = unwrap_or [] (labels_to_string S (ms_attributes s)),
      msr_resource_attributes = unwrap_or [] (attrs_to_string S (ms_resource_attributes s)),
      msr_service_name = ms_service_name s, msr_environment = ms_environment s\<rparr>"

definition series_from_row :: "serde \<Rightarrow> metric_series_row \<Rightarrow> metric_series" where
  "series_from_row S row =
     \<lparr>ms_tenant_id = msr_tenant_id row, ms_metric_series_id = msr_metric_series_id row,
      ms_metric_name = msr_metric_name row, ms_description = msr_description row,
      ms_unit = msr_unit row, ms_metric_type = metric_type_of_text (msr_metric_type row),
      ms_is_monotonic = map_option (\<lambda>m. m \<noteq> 0) (msr_is_monotonic row),
      ms_aggregation_temporality =
        Option.bind (msr_aggregation_temporality row) temporality_of_text,
      ms_attributes = unwrap_or [] (labels_from_str S (msr_attributes row)),
      ms_resource_attributes = unwrap_or [] (attrs_from_str S (msr_resource_attributes row)),
      ms_service_name = msr_service_name row, ms_environment = msr_environment row\<rparr>"

definition non_empty :: "'a list \<Rightarrow> 'a list option" where
  "non_empty values = (if values = [] then None else Some values)"

definition point_row_from :: "metric_point \<Rightarrow> metric_point_row" where
  "point_row_from p =
     \<lparr>mpr_tenant_id = mp_tenant_id p, mpr_metric_series_id = mp_metric_series_id p,
      mpr_metric_name = mp_metric_name p, mpr_service_name = mp_service_name p,
      mpr_time_unix_nano = mp_time_unix_nano p,
      mpr_start_time_unix_nano = mp_start_time_unix_nano p, mpr_value_double = mp_value_double p,
      mpr_value_int = mp_value_int p, mpr_histogram_count = mp_histogram_count p,
      mpr_histogram_sum = mp_histogram_sum p,
      mpr_histogram_bucket_counts = unwrap_or [] (mp_histogram_bucket_counts p),
      mpr_histogram_explicit_bounds = unwrap_or [] (mp_histogram_explicit_bounds p)\<rparr>"

definition point_from_row :: "metric_point_row \<Rightarrow> metric_point" where
  "point_from_row row =
     \<lparr>mp_tenant_id = mpr_tenant_id row, mp_metric_series_id = mpr_metric_series_id row,
      mp_metric_name = mpr_metric_name row, mp_service_name = mpr_service_name row,
      mp_time_unix_nano = mpr_time_unix_nano row,
      mp_start_time_unix_nano = mpr_start_time_unix_nano row,
      mp_value_double = mpr_value_double row, mp_value_int = mpr_value_int row,
      mp_histogram_count = mpr_histogram_count row, mp_histogram_sum = mpr_histogram_sum row,
      mp_histogram_bucket_counts = non_empty (mpr_histogram_bucket_counts row),
      mp_histogram_explicit_bounds = non_empty (mpr_histogram_explicit_bounds row)\<rparr>"

subsection \<open>Text codecs\<close>

text \<open>
  Each enumeration is stored as text; what the reader needs of the pair of conversions is
  that decoding inverts encoding, from which distinct values have distinct texts and the
  reader's fallback never hides a stored value.
\<close>

locale text_codec =
  fixes enc :: "'a \<Rightarrow> string"
    and dec :: "string \<Rightarrow> 'a option"
  assumes dec_enc: "dec (enc x) = Some x"
begin

lemma enc_inj: "enc x = enc y \<longleftrightarrow> x = y"
  by (metis dec_enc option.inject)

lemma map_dec: "Option.bind (map_option enc y) dec = y"
  by (cases y) (simp_all add: dec_enc)

end

interpretation span_kind: text_codec span_kind_text "\<lambda>s. Some (span_kind_of_text s)"
proof
  show "Some (span_kind_of_text (span_kind_text x)) = Some x" for x
    by (cases x) (simp_all add: span_kind_of_text_def)
qed

interpretation status_code: text_codec status_code_text "\<lambda>s. Some (status_code_of_text s)"
proof
  show "Some (status_code_of_text (status_code_text x)) = Some x" for x
    by (cases x) (simp_all add: status_code_of_text_def)
qed

lemma lower_constants:
  "to_lowercase ''gauge'' = ''gauge''" "to_lowercase ''sum'' = ''sum''"
  "to_lowercase ''histogram'' = ''histogram''" "to_lowercase ''summary'' = ''summary''"
  "to_lowercase ''exponential_histogram'' = ''exponential_histogram''"
  "to_lowercase ''delta'' = ''delta''" "to_lowercase ''cumulative'' = ''cumulative''"
  by code_simp+

interpretation metric_type: text_codec metric_type_text "\<lambda>s. Some (metric_type_of_text s)"
proof
  show "Some (metric_type_of_text (metric_type_text x)) = Some x" for x
    by (cases x) (simp_all add: metric_type_of_text_def lower_constants)
qed

interpretation temporality: text_codec temporality_text temporality_of_text
proof
  show "temporality_of_text (temporality_text x) = Some x" for x
    by (cases x) (simp_all add: temporality_of_text_def lower_constants)
qed

subsection \<open>Reading back what was written\<close>

text \<open>
  The contract with \<open>serde_json\<close> for one map: it serialises, and parsing the text gives a
  map with the same entries (in any iteration order).
\<close>

definition reads_back :: "('m list \<Rightarrow> string option) \<Rightarrow> (string \<Rightarrow> 'm list option) \<Rightarrow>
    ('m list \<Rightarrow> 'k) \<Rightarrow> 'm list \<Rightarrow> bool" where
  "reads_back to_s from_s vw m =
     (case to_s m of None \<Rightarrow> False
      | Some s \<Rightarrow> (case from_s s of None \<Rightarrow> False | Some m' \<Rightarrow> vw m' = vw m))"

abbreviation attrs_ok :: "serde \<Rightarrow> attributes \<Rightarrow> bool" where
  "attrs_ok S \<equiv> reads_back (attrs_to_string S) (attrs_from_str S) map_of"

abbreviation labels_ok :: "serde \<Rightarrow> (string \<times> string) list \<Rightarrow> bool" where
  "labels_ok S \<equiv> reads_back (labels_to_string S) (labels_from_str S) map_of"

lemma reads_back_unwrap:
  "reads_back to_s from_s vw m \<Longrightarrow> vw (unwrap_or [] (from_s (unwrap_or d (to_s m)))) = vw m"
  by (auto simp: reads_back_def split: option.splits)

text \<open>The records as the maps they stand for: attribute lists up to their entries.\<close>

definition same_span :: "span \<Rightarrow> span \<Rightarrow> bool" where
  "same_span s t \<longleftrightarrow>
     map_of (sp_attributes s) = map_of (sp_attributes t) \<and>
     map_of (sp_resource_attributes s) = map_of (sp_resource_attributes t) \<and>
     s\<lparr>sp_attributes := [], sp_resource_attributes := []\<rparr> =
     t\<lparr>sp_attributes := [], sp_resource_attributes := []\<rparr>"

definition same_event :: "span_event \<Rightarrow> span_event \<Rightarrow> bool" where
  "same_event e f \<longleftrightarrow> map_of (sev_attributes e) = map_of (sev_attributes f) \<and>
     e\<lparr>sev_attributes := []\<rparr> = f\<lparr>sev_attributes := []\<rparr>"

definition same_log :: "log_record \<Rightarrow> log_record \<Rightarrow> bool" where
  "same_log s t \<longleftrightarrow>
     map_of (lg_attributes s) = map_of (lg_attributes t) \<and>
     map_of (lg_resource_attributes s) = map_of (lg_resource_attributes t) \<and>
     s\<lparr>lg_attributes := [], lg_resource_attributes := []\<rparr> =
     t\<lparr>lg_attributes := [], lg_resource_attributes := []\<rparr>"

definition same_series :: "metric_series \<Rightarrow> metric_series \<Rightarrow> bool" where
  "same_series s t \<longleftrightarrow>
     map_of (ms_attributes s) = map_of (ms_attributes t) \<and>
     map_of (ms_resource_attributes s) = map_of (ms_resource_attributes t) \<and>
     s\<lparr>ms_attributes := [], ms_resource_attributes := []\<rparr> =
     t\<lparr>ms_attributes := [], ms_resource_attributes := []\<rparr>"

text \<open>A point whose histogram vectors, where present, hold something.\<close>

definition vectors_nonempty :: "metric_point \<Rightarrow> bool" where
  "vectors_nonempty p \<longleftrightarrow>
     mp_histogram_bucket_counts p \<noteq> Some [] \<and> mp_histogram_explicit_bounds p \<noteq> Some []"

lemma non_empty_unwrap: "non_empty (unwrap_or [] x) = (if x = Some [] then None else x)"
  by (cases x) (auto simp: non_empty_def)

subsection \<open>The properties\<close>

text \<open>
  C7. A span written as a row and read back is the same span, up to the order of its
  attributes; the events of the span are not in its row but rows of their own table, and
  each of them reads back as the same event. This needs that the attribute maps survive
  being written as JSON and read.
\<close>

theorem span_row_roundtrip:
  assumes "attrs_ok S (sp_attributes s)" "attrs_ok S (sp_resource_attributes s)"
    and "\<forall>e \<in> set (sp_events s). attrs_ok S (sev_attributes e)"
  shows "same_span (span_from_row S (span_row_from S s)) (s\<lparr>sp_events := []\<rparr>) \<and>
    list_all2 same_event (map (span_event_from_row S \<circ> span_event_row_from S) (sp_events s)) (sp_events s)"
proof
  show "same_span (span_from_row S (span_row_from S s)) (s\<lparr>sp_events := []\<rparr>)"
    using reads_back_unwrap[OF assms(1), of "[]"] reads_back_unwrap[OF assms(2), of "[]"]
      span_kind.dec_enc[of "sp_span_kind s"] status_code.dec_enc[of "sp_status_code s"]
    by (simp add: same_span_def span_from_row_def span_row_from_def)
  have "same_event (span_event_from_row S (span_event_row_from S e)) e" if "e \<in> set (sp_events s)" for e
    using reads_back_unwrap[OF assms(3)[rule_format, OF that], of "''{}''"]
    by (simp add: same_event_def span_event_from_row_def span_event_row_from_def Let_def)
  then show "list_all2 same_event (map (span_event_from_row S \<circ> span_event_row_from S) (sp_events s)) (sp_events s)"
    by (simp add: list_all2_map1 list_all2_same)
qed

definition sample_serde :: serde where
  "sample_serde = \<lparr>attrs_to_string = \<lambda>m. if m = [] then Some ''{}'' else if m = [(''a'', JNull)] then Some ''{a}'' else None,
     attrs_from_str = \<lambda>s. if s = ''{}'' then Some [] else if s = ''{a}'' then Some [(''a'', JNull)] else None,
     labels_to_string = \<lambda>m. if m = [] then Some ''{}'' else None,
     labels_from_str = \<lambda>s. if s = ''{}'' then Some [] else None,
     value_to_string = \<lambda>_. ''null'', value_from_str = \<lambda>s. if s = ''null'' then Some JNull else None\<rparr>"

definition sample_span :: span where
  "sample_span = \<lparr>sp_tenant_id = 7, sp_trace_id = ''t'', sp_span_id = ''s'', sp_parent_span_id = None,
     sp_service_name = ''cart'', sp_service_namespace = [], sp_service_version = ''1'',
     sp_operation_name = ''GET'', sp_span_kind = Server, sp_start_time_unix_nano = 5,
     sp_end_time_unix_nano = 9, sp_duration_ns = 0, sp_status_code = Error,
     sp_status_message = [], sp_attributes = [(''a'', JNull)], sp_resource_attributes = [],
     sp_environment = ''prod'', sp_host_id = [], sp_workload = [], sp_deployment_id = [],
     sp_events = []\<rparr>"

definition sample_event :: span_event where
  "sample_event = \<lparr>sev_tenant_id = 7, sev_trace_id = ''t'', sev_span_id = ''s'', sev_event_index = 0,
     sev_name = ''retry'', sev_timestamp_unix_nano = 6, sev_attributes = [(''a'', JNull)]\<rparr>"

theorem span_row_roundtrip_witness:
  "same_span (span_from_row sample_serde (span_row_from sample_serde (sample_span\<lparr>sp_events := [sample_event]\<rparr>))) sample_span \<and>
   same_event (span_event_from_row sample_serde (span_event_row_from sample_serde sample_event)) sample_event"
  using span_row_roundtrip[of sample_serde "sample_span\<lparr>sp_events := [sample_event]\<rparr>"]
  by (simp add: sample_serde_def sample_span_def sample_event_def reads_back_def)

text \<open>The same for log records, whose body is stored as JSON text.\<close>

theorem log_row_roundtrip:
  assumes "attrs_ok S (lg_attributes l)" "attrs_ok S (lg_resource_attributes l)"
    "value_from_str S (value_to_string S (lg_body l)) = Some (lg_body l)"
  shows "same_log (log_from_row S (log_row_from S l)) l"
  using reads_back_unwrap[OF assms(1), of "[]"] reads_back_unwrap[OF assms(2), of "[]"] assms(3)
  by (simp add: same_log_def log_from_row_def log_row_from_def)

definition sample_log :: log_record where
  "sample_log = \<lparr>lg_tenant_id = 7, lg_log_id = 1, lg_timestamp_unix_nano = 5,
     lg_observed_timestamp_unix_nano = 6, lg_severity_number = 17, lg_severity_text = ''ERROR'',
     lg_body = JNull, lg_trace_id = Some ''t'', lg_span_id = None, lg_attributes = [(''a'', JNull)],
     lg_resource_attributes = [], lg_service_name = ''cart'', lg_environment = ''prod'',
     lg_host_id = [], lg_fingerprint = Some 3\<rparr>"

theorem log_row_roundtrip_witness:
  "same_log (log_from_row sample_serde (log_row_from sample_serde sample_log)) sample_log"
  using log_row_roundtrip[of sample_serde sample_log]
  by (simp add: sample_serde_def sample_log_def reads_back_def)

text \<open>
  Metric series come back with their type, temporality and monotonicity, and metric
  points exactly, except that an empty histogram vector comes back as absent.
\<close>

theorem metric_row_roundtrip:
  assumes "labels_ok S (ms_attributes s)" "attrs_ok S (ms_resource_attributes s)"
  shows "same_series (series_from_row S (series_row_from S s)) s \<and>
         (point_from_row (point_row_from p) = p \<longleftrightarrow> vectors_nonempty p)"
proof
  have "map_option (\<lambda>m. m \<noteq> (0::u8)) (map_option (\<lambda>m. if m then 1 else 0) b) = b" for b
    by (cases b) auto
  then show "same_series (series_from_row S (series_row_from S s)) s"
    using reads_back_unwrap[OF assms(1), of "[]"] reads_back_unwrap[OF assms(2), of "[]"]
      metric_type.dec_enc[of "ms_metric_type s"]
    by (simp add: same_series_def series_from_row_def series_row_from_def temporality.map_dec)
  show "point_from_row (point_row_from p) = p \<longleftrightarrow> vectors_nonempty p"
    by (cases p) (auto simp: point_from_row_def point_row_from_def vectors_nonempty_def non_empty_unwrap)
qed

theorem metric_row_roundtrip_witness:
  "same_series (series_from_row sample_serde (series_row_from sample_serde default_series)) default_series \<and>
   (point_from_row (point_row_from default_point) = default_point \<longleftrightarrow> vectors_nonempty default_point)"
  by (rule metric_row_roundtrip) (simp_all add: sample_serde_def default_series_def reads_back_def)

end
