(* ===== verification/Span_Metrics.thy ===== *)
theory Span_Metrics
  imports Storage_Rows "HOL-Library.Multiset"
begin

section \<open>RED metrics derived from spans\<close>

text \<open>
  \<open>services/stream-processor/src/metrics.rs\<close>. The map behind the mutex is the list of its
  entries in drain order. The release profile checks overflow, so an addition that would
  wrap panics; a panic while the mutex is held poisons it, and every later
  \<open>lock().unwrap()\<close> panics. \<open>us\<close> and \<open>js\<close> are the parameters of
  \<open>deterministic_metric_series_id\<close>; \<open>now\<close> is the wall clock.
\<close>

record metric_key =
  mk_tenant_id :: uuid
  mk_service_name :: string
  mk_operation_name :: string
  mk_span_kind :: string
  mk_status_code :: string
  mk_environment :: string

record aggregator_state =
  ag_calls :: u64
  ag_errors :: u64
  ag_durations_ns :: "u64 list"

type_synonym aggregator_map = "(metric_key \<times> aggregator_state) list"

record span_metrics_aggregator =
  sma_state :: aggregator_map
  sma_poisoned :: bool
  sma_window_start_ns :: u64

definition aggregator_new :: "u64 \<Rightarrow> span_metrics_aggregator" where
  "aggregator_new now = \<lparr>sma_state = [], sma_poisoned = False, sma_window_start_ns = now\<rparr>"

subsection \<open>Recording\<close>

definition span_key :: "span \<Rightarrow> uuid \<Rightarrow> metric_key" where
  "span_key s tenant_id =
     \<lparr>mk_tenant_id = tenant_id, mk_service_name = sp_service_name s,
      mk_operation_name = sp_operation_name s, mk_span_kind = span_kind_text (sp_span_kind s),
      mk_status_code = status_code_text (sp_status_code s), mk_environment = sp_environment s\<rparr>"

definition empty_entry :: aggregator_state where
  "empty_entry = \<lparr>ag_calls = 0, ag_errors = 0, ag_durations_ns = []\<rparr>"

definition bump_entry :: "span \<Rightarrow> aggregator_state \<Rightarrow> aggregator_state option" where
  "bump_entry s e =
     (case checked_add (ag_calls e) 1 of None \<Rightarrow> None | Some calls \<Rightarrow>
      case (if sp_status_code s = Error then checked_add (ag_errors e) 1 else Some (ag_errors e)) of
        None \<Rightarrow> None
      | Some errors \<Rightarrow> Some \<lparr>ag_calls = calls, ag_errors = errors,
                           ag_durations_ns = ag_durations_ns e @ [sp_duration_ns s]\<rparr>)"

text \<open>\<open>state.entry(key).or_insert(...)\<close> followed by the updates of the entry.\<close>

fun update_entry :: "metric_key \<Rightarrow> span \<Rightarrow> aggregator_map \<Rightarrow> aggregator_map option" where
  "update_entry k s [] = map_option (\<lambda>e. [(k, e)]) (bump_entry s empty_entry)"
| "update_entry k s ((k', e) # m) =
     (if k' = k then map_option (\<lambda>e'. (k', e') # m) (bump_entry s e)
      else map_option (\<lambda>m'. (k', e) # m') (update_entry k s m))"

definition record_span ::
    "span_metrics_aggregator \<Rightarrow> span \<Rightarrow> uuid \<Rightarrow> span_metrics_aggregator \<times> unit outcome" where
  "record_span agg s tenant_id =
     (if sma_poisoned agg then (agg, Panic)
      else case update_entry (span_key s tenant_id) s (sma_state agg) of
             None \<Rightarrow> (agg\<lparr>sma_poisoned := True\<rparr>, Panic)
           | Some m \<Rightarrow> (agg\<lparr>sma_state := m\<rparr>, Done ()))"

subsection \<open>Flushing\<close>

definition make_attributes :: "metric_key \<Rightarrow> (string \<times> string) list" where
  "make_attributes key =
     [(''operation'', mk_operation_name key), (''span.kind'', mk_span_kind key),
      (''status.code'', mk_status_code key)]"

definition with_series_id :: "(uuid \<Rightarrow> string) \<Rightarrow> (json \<Rightarrow> string) \<Rightarrow> metric_series \<Rightarrow> metric_series" where
  "with_series_id us js s = s\<lparr>ms_metric_series_id := deterministic_metric_series_id us js s\<rparr>"

definition counter_series ::
    "(uuid \<Rightarrow> string) \<Rightarrow> (json \<Rightarrow> string) \<Rightarrow> metric_key \<Rightarrow> string \<Rightarrow> metric_series" where
  "counter_series us js key name =
     with_series_id us js (default_series\<lparr>
       ms_tenant_id := mk_tenant_id key, ms_metric_name := name, ms_metric_type := Type_Sum,
       ms_is_monotonic := Some True, ms_aggregation_temporality := Some Delta,
       ms_service_name := mk_service_name key, ms_environment := mk_environment key,
       ms_attributes := make_attributes key\<rparr>)"

definition duration_series ::
    "(uuid \<Rightarrow> string) \<Rightarrow> (json \<Rightarrow> string) \<Rightarrow> metric_key \<Rightarrow> metric_series" where
  "duration_series us js key =
     with_series_id us js (default_series\<lparr>
       ms_tenant_id := mk_tenant_id key, ms_metric_name := ''span.duration_ms'',
       ms_metric_type := Type_Histogram, ms_aggregation_temporality := Some Delta,
       ms_service_name := mk_service_name key, ms_environment := mk_environment key,
       ms_attributes := make_attributes key, ms_unit := ''ms''\<rparr>)"

definition point_of :: "u64 \<Rightarrow> u64 \<Rightarrow> metric_key \<Rightarrow> metric_series \<Rightarrow> metric_point" where
  "point_of now window_start key s =
     default_point\<lparr>mp_tenant_id := mk_tenant_id key, mp_metric_series_id := ms_metric_series_id s,
       mp_metric_name := ms_metric_name s, mp_service_name := mk_service_name key,
       mp_time_unix_nano := now, mp_start_time_unix_nano := Some window_start\<rparr>"

definition duration_bounds :: "f64 list" where
  "duration_bounds =
     [f64_lit 1 1, f64_lit 2 1, f64_lit 5 1, f64_lit 10 1, f64_lit 20 1, f64_lit 50 1,
      f64_lit 100 1, f64_lit 200 1, f64_lit 500 1, f64_lit 1000 1, f64_lit 2000 1, f64_lit 5000 1]"

text \<open>The index of the first bound that is not below the value.\<close>

fun bucket_index :: "f64 \<Rightarrow> f64 list \<Rightarrow> nat \<Rightarrow> nat option" where
  "bucket_index d [] i = None"
| "bucket_index d (b # bs) i = (if f64_le d b then Some i else bucket_index d bs (Suc i))"

definition count_duration :: "f64 list \<Rightarrow> u64 list \<Rightarrow> u64 \<Rightarrow> u64 list" where
  "count_duration bounds counts d_ns =
     (let d_ms = f64_div (f64_of_u64 d_ns) (f64_lit 1000000 1);
          i = (case bucket_index d_ms bounds 0 of Some i \<Rightarrow> i | None \<Rightarrow> length counts - 1)
      in counts[i := counts ! i + 1])"

text \<open>\<open>iter().sum::<u64>()\<close>, which panics when a partial sum overflows.\<close>

fun checked_sum :: "u64 \<Rightarrow> u64 list \<Rightarrow> u64 option" where
  "checked_sum acc [] = Some acc"
| "checked_sum acc (d # ds) =
     (case checked_add acc d of None \<Rightarrow> None | Some acc' \<Rightarrow> checked_sum acc' ds)"

definition counter_point :: "u64 \<Rightarrow> u64 \<Rightarrow> metric_key \<Rightarrow> metric_series \<Rightarrow> u64 \<Rightarrow> metric_point" where
  "counter_point now w key s n = (point_of now w key s)\<lparr>mp_value_int := Some n\<rparr>"

definition duration_point ::
    "u64 \<Rightarrow> u64 \<Rightarrow> metric_key \<Rightarrow> metric_series \<Rightarrow> u64 list \<Rightarrow> u64 \<Rightarrow> metric_point" where
  "duration_point now w key s durations total_ns =
     (let bounds = duration_bounds
      in (point_of now w key s)\<lparr>
           mp_histogram_count := Some (of_nat (length durations)),
           mp_histogram_sum := Some (f64_div (f64_of_u64 total_ns) (f64_lit 1000000 1)),
           mp_histogram_bucket_counts :=
             Some (foldl (count_duration bounds) (replicate (length bounds + 1) 0) durations),
           mp_histogram_explicit_bounds := Some bounds\<rparr>)"

definition flush_entry ::
    "(uuid \<Rightarrow> string) \<Rightarrow> (json \<Rightarrow> string) \<Rightarrow> u64 \<Rightarrow> u64 \<Rightarrow> metric_key \<times> aggregator_state \<Rightarrow>
     (metric_series list \<times> metric_point list) option" where
  "flush_entry us js now w entry =
     (case entry of (key, agg) \<Rightarrow>
      let calls_series = counter_series us js key ''span.calls_total'';
          calls_point = counter_point now w key calls_series (ag_calls agg);
          errors_series = counter_series us js key ''span.errors_total'';
          errors_point = counter_point now w key errors_series (ag_errors agg);
          errs = (if ag_errors agg > 0 then ([errors_series], [errors_point]) else ([], []));
          dur_series = duration_series us js key;
          durations = sort (ag_durations_ns agg)
      in case checked_sum 0 durations of
           None \<Rightarrow> None
         | Some total_ns \<Rightarrow>
             Some (calls_series # fst errs @ [dur_series],
                   calls_point # snd errs @ [duration_point now w key dur_series durations total_ns]))"

fun flush_entries ::
    "(uuid \<Rightarrow> string) \<Rightarrow> (json \<Rightarrow> string) \<Rightarrow> u64 \<Rightarrow> u64 \<Rightarrow> aggregator_map \<Rightarrow>
     (metric_series list \<times> metric_point list) option" where
  "flush_entries us js now w [] = Some ([], [])"
| "flush_entries us js now w (e # es) =
     (case flush_entry us js now w e of None \<Rightarrow> None | Some (s, p) \<Rightarrow>
      case flush_entries us js now w es of None \<Rightarrow> None | Some (ss, ps) \<Rightarrow> Some (s @ ss, p @ ps))"

text \<open>
  \<open>drain\<close> empties the map also when the loop unwinds.
\<close>

definition aggregator_flush ::
    "(uuid \<Rightarrow> string) \<Rightarrow> (json \<Rightarrow> string) \<Rightarrow> u64 \<Rightarrow> span_metrics_aggregator \<Rightarrow>
     span_metrics_aggregator \<times> (metric_series list \<times> metric_point list) outcome" where
  "aggregator_flush us js now agg =
     (if sma_poisoned agg then (agg, Panic)
      else case flush_entries us js now (sma_window_start_ns agg) (sma_state agg) of
             None \<Rightarrow> (agg\<lparr>sma_state := [], sma_poisoned := True\<rparr>, Panic)
           | Some r \<Rightarrow> (agg\<lparr>sma_state := []\<rparr>, Done r))"

definition flush_normalized ::
    "(uuid \<Rightarrow> string) \<Rightarrow> (json \<Rightarrow> string) \<Rightarrow> u64 \<Rightarrow> span_metrics_aggregator \<Rightarrow>
     span_metrics_aggregator \<times> normalized_batch option outcome" where
  "flush_normalized us js now agg =
     (case aggregator_flush us js now agg of
        (agg', Panic) \<Rightarrow> (agg', Panic)
      | (agg', Done (series, points)) \<Rightarrow>
          (agg', Done (if series = [] \<and> points = [] then None
             else Some \<lparr>nb_spans = [], nb_logs = [], nb_series = series, nb_points = points\<rparr>)))"

subsection \<open>Recording: what an entry counts\<close>

text \<open>The spans of a sequence of recordings that fall on a key, and what their entry must be.\<close>

definition hits :: "metric_key \<Rightarrow> (span \<times> uuid) list \<Rightarrow> span list" where
  "hits k xs = map fst (filter (\<lambda>(s, t). span_key s t = k) xs)"

definition tallies :: "aggregator_state \<Rightarrow> span list \<Rightarrow> bool" where
  "tallies e ss \<longleftrightarrow>
     unat (ag_calls e) = length ss \<and>
     unat (ag_errors e) = length (filter (\<lambda>s. sp_status_code s = Error) ss) \<and>
     ag_durations_ns e = map sp_duration_ns ss"

definition well_counted :: "aggregator_map \<Rightarrow> (span \<times> uuid) list \<Rightarrow> bool" where
  "well_counted m xs \<longleftrightarrow>
     distinct (map fst m) \<and>
     (\<forall>k. case map_of m k of None \<Rightarrow> hits k xs = [] | Some e \<Rightarrow> hits k xs \<noteq> [] \<and> tallies e (hits k xs))"

lemma bump_tallies:
  "bump_entry s e = Some e' \<Longrightarrow> tallies e ss \<Longrightarrow> tallies e' (ss @ [s])"
  by (auto simp: bump_entry_def tallies_def dest: checked_add_Some split: option.splits if_splits)

lemma tallies_empty: "tallies empty_entry []"
  by (simp add: tallies_def empty_entry_def)

lemma update_entry_keys:
  "update_entry k s m = Some m' \<Longrightarrow> set (map fst m') = insert k (set (map fst m))"
proof (induction k s m arbitrary: m' rule: update_entry.induct)
  case (2 k s k' e m)
  show ?case
  proof (cases "k' = k")
    case True
    then show ?thesis using "2.prems" by auto
  next
    case False
    then obtain m1 where m1: "update_entry k s m = Some m1" "m' = (k', e) # m1"
      using "2.prems" by auto
    from "2.IH"[OF False m1(1)] show ?thesis using m1(2) by (simp add: insert_commute)
  qed
qed auto

lemma update_entry_distinct:
  "update_entry k s m = Some m' \<Longrightarrow> distinct (map fst m) \<Longrightarrow> distinct (map fst m')"
proof (induction k s m arbitrary: m' rule: update_entry.induct)
  case (2 k s k' e m)
  show ?case
  proof (cases "k' = k")
    case True
    then show ?thesis using "2.prems" by auto
  next
    case False
    then obtain m1 where m1: "update_entry k s m = Some m1" "m' = (k', e) # m1"
      using "2.prems" by auto
    then show ?thesis
      using "2.IH"[OF False m1(1)] update_entry_keys[OF m1(1)] "2.prems"(2) False by simp
  qed
qed auto

lemma update_entry_other:
  "update_entry k s m = Some m' \<Longrightarrow> j \<noteq> k \<Longrightarrow> map_of m' j = map_of m j"
  by (induction k s m arbitrary: m' rule: update_entry.induct) (auto split: if_splits)

lemma update_entry_same:
  "update_entry k s m = Some m' \<Longrightarrow>
   \<exists>e'. map_of m' k = Some e' \<and>
     bump_entry s (case map_of m k of None \<Rightarrow> empty_entry | Some e \<Rightarrow> e) = Some e'"
  by (induction k s m arbitrary: m' rule: update_entry.induct) (auto split: if_splits)

lemma hits_append:
  "hits k (xs @ [(s, t)]) = hits k xs @ (if span_key s t = k then [s] else [])"
  by (simp add: hits_def)

lemma update_well_counted:
  assumes "well_counted m xs" "update_entry (span_key s t) s m = Some m'"
  shows "well_counted m' (xs @ [(s, t)])"
proof -
  have "case map_of m' k of None \<Rightarrow> hits k (xs @ [(s, t)]) = []
        | Some e \<Rightarrow> hits k (xs @ [(s, t)]) \<noteq> [] \<and> tallies e (hits k (xs @ [(s, t)]))" for k
  proof (cases "k = span_key s t")
    case True
    obtain e' where e': "map_of m' k = Some e'"
      "bump_entry s (case map_of m k of None \<Rightarrow> empty_entry | Some e \<Rightarrow> e) = Some e'"
      using update_entry_same[OF assms(2)] True by auto
    have "tallies (case map_of m k of None \<Rightarrow> empty_entry | Some e \<Rightarrow> e) (hits k xs)"
      using assms(1) tallies_empty by (auto simp: well_counted_def split: option.splits dest: spec[of _ k])
    from bump_tallies[OF e'(2) this] show ?thesis using e'(1) True by (simp add: hits_append)
  next
    case False
    then have "hits k (xs @ [(s, t)]) = hits k xs" by (auto simp: hits_append)
    moreover have "case map_of m k of None \<Rightarrow> hits k xs = []
        | Some e \<Rightarrow> hits k xs \<noteq> [] \<and> tallies e (hits k xs)"
      using assms(1) by (simp add: well_counted_def)
    ultimately show ?thesis using update_entry_other[OF assms(2) False] by (simp split: option.splits)
  qed
  then show ?thesis
    using assms(1) update_entry_distinct[OF assms(2)] by (simp add: well_counted_def)
qed

fun record_all ::
    "span_metrics_aggregator \<Rightarrow> (span \<times> uuid) list \<Rightarrow> span_metrics_aggregator \<times> unit outcome" where
  "record_all agg [] = (agg, Done ())"
| "record_all agg ((s, t) # xs) =
     (case record_span agg s t of
        (agg', Panic) \<Rightarrow> (agg', Panic)
      | (agg', Done _) \<Rightarrow> record_all agg' xs)"

lemma record_all_well_counted:
  "record_all agg xs = (agg', Done ()) \<Longrightarrow> well_counted (sma_state agg) ys \<Longrightarrow>
   well_counted (sma_state agg') (ys @ xs) \<and> sma_poisoned agg' = sma_poisoned agg"
proof (induction agg xs arbitrary: ys rule: record_all.induct)
  case (2 agg s t xs)
  obtain m where m: "\<not> sma_poisoned agg" "update_entry (span_key s t) s (sma_state agg) = Some m"
    and r: "record_all (agg\<lparr>sma_state := m\<rparr>) xs = (agg', Done ())"
    using "2.prems"(1) by (auto simp: record_span_def split: if_splits option.splits)
  have rec: "record_span agg s t = (agg\<lparr>sma_state := m\<rparr>, Done ())"
    using m by (simp add: record_span_def)
  from "2.IH"[OF rec[symmetric] refl r, of "ys @ [(s, t)]"] update_well_counted[OF "2.prems"(2) m(2)]
  show ?case by simp
qed simp

subsection \<open>Flushing: what a window emits\<close>

lemma checked_sum_None:
  "checked_sum acc ds = None \<longleftrightarrow> 2 ^ 64 \<le> unat acc + sum_list (map unat ds)"
proof (induction ds arbitrary: acc)
  case Nil
  then show ?case using unsigned_less[of acc, where 'a = nat] by simp
next
  case (Cons d ds)
  show ?case
  proof (cases "checked_add acc d")
    case None
    then show ?thesis by (auto simp: checked_add_def split: if_splits)
  next
    case (Some a)
    then show ?thesis using Cons[of a] checked_add_Some[OF Some] by (simp add: add.assoc)
  qed
qed

lemma checked_sum_Some:
  "checked_sum acc ds = Some r \<Longrightarrow> unat r = unat acc + sum_list (map unat ds)"
  by (induction ds arbitrary: acc) (auto split: option.splits dest: checked_add_Some)

lemma sum_unat_sort: "sum_list (map unat (sort ds)) = sum_list (map unat ds)"
  proof -
  have "mset (map unat (sort ds)) = mset (map unat ds)" by simp
  then show ?thesis by (metis sum_mset_sum_list)
qed

lemma bucket_index_bound: "bucket_index d bs i = Some j \<Longrightarrow> i \<le> j \<and> j < i + length bs"
  by (induction d bs i rule: bucket_index.induct) (auto split: if_splits)

lemma length_count_duration [simp]: "length (count_duration bs cs d) = length cs"
  by (simp add: count_duration_def Let_def)

lemma sum_list_bump: "i < length cs \<Longrightarrow> sum_list (cs[i := cs ! i + 1]) = sum_list cs + (1::u64)"
  by (induction cs arbitrary: i) (auto split: nat.splits)

lemma length_foldl_count [simp]: "length (foldl (count_duration bs) cs ds) = length cs"
  by (induction ds arbitrary: cs) simp_all

lemma sum_count_duration:
  assumes "length cs = length bs + 1"
  shows "sum_list (count_duration bs cs d) = sum_list cs + 1"
proof -
  define i where "i = (case bucket_index (f64_div (f64_of_u64 d) (f64_lit 1000000 1)) bs 0 of
      Some i \<Rightarrow> i | None \<Rightarrow> length cs - 1)"
  have i: "i < length cs"
    using assms by (auto simp: i_def split: option.splits dest: bucket_index_bound)
  have "sum_list (cs[i := cs ! i + 1]) = sum_list cs + 1"
    using i by (rule sum_list_bump)
  then show ?thesis by (simp add: count_duration_def i_def Let_def)
qed

lemma sum_foldl_count:
  "length cs = length bs + 1 \<Longrightarrow>
   sum_list (foldl (count_duration bs) cs ds) = sum_list cs + of_nat (length ds)"
  by (induction ds arbitrary: cs) (simp_all add: sum_count_duration)

lemma sum_replicate_zero [simp]: "sum_list (replicate n (0::u64)) = 0"
  by (induction n) auto

definition counts_match :: "metric_point \<Rightarrow> u64 \<Rightarrow> bool" where
  "counts_match p n \<longleftrightarrow>
     mp_histogram_count p = Some n \<and>
     (case mp_histogram_bucket_counts p of None \<Rightarrow> False | Some cs \<Rightarrow>
        sum_list cs = n \<and> length cs = length duration_bounds + 1) \<and>
     mp_histogram_explicit_bounds p = Some duration_bounds"

lemma flush_entry_None:
  "flush_entry us js now w (k, e) = None \<longleftrightarrow> 2 ^ 64 \<le> sum_list (map unat (ag_durations_ns e))"
proof -
  have "flush_entry us js now w (k, e) = None \<longleftrightarrow> checked_sum 0 (sort (ag_durations_ns e)) = None"
    by (simp add: flush_entry_def Let_def split: option.splits)
  then show ?thesis by (simp add: checked_sum_None sum_unat_sort del: not_None_eq)
qed

lemma flush_entry_Some:
  assumes "flush_entry us js now w (k, e) = Some (ss, ps)"
  obtains total_ns where
    "unat total_ns = sum_list (map unat (ag_durations_ns e))"
    "ss = counter_series us js k ''span.calls_total'' #
          (if ag_errors e > 0 then [counter_series us js k ''span.errors_total''] else []) @
          [duration_series us js k]"
    "ps = counter_point now w k (counter_series us js k ''span.calls_total'') (ag_calls e) #
          (if ag_errors e > 0
           then [counter_point now w k (counter_series us js k ''span.errors_total'') (ag_errors e)] else []) @
          [duration_point now w k (duration_series us js k) (sort (ag_durations_ns e)) total_ns]"
proof -
  obtain t where t: "checked_sum 0 (sort (ag_durations_ns e)) = Some t"
    using assms by (auto simp: flush_entry_def Let_def split: option.splits)
  show ?thesis
    by (rule that[of t]) (use assms t checked_sum_Some[OF t] in
        \<open>simp_all add: flush_entry_def Let_def sum_unat_sort split: if_splits\<close>)
qed

lemma duration_point_counts:
  "counts_match (duration_point now w k s ds t) (of_nat (length ds))"
  using sum_foldl_count[of "replicate (length duration_bounds + 1) 0" duration_bounds ds]
  by (simp add: counts_match_def duration_point_def Let_def)

lemma series_identity:
  "ms_tenant_id (counter_series us js k n) = mk_tenant_id k"
  "ms_metric_series_id (counter_series us js k n) = deterministic_metric_series_id us js (counter_series us js k n)"
  "ms_tenant_id (duration_series us js k) = mk_tenant_id k"
  "ms_metric_series_id (duration_series us js k) = deterministic_metric_series_id us js (duration_series us js k)"
  by (simp_all add: counter_series_def duration_series_def with_series_id_def deterministic_metric_series_id_def)

lemma point_identity:
  "mp_tenant_id (counter_point now w k s n) = mk_tenant_id k"
  "mp_metric_series_id (counter_point now w k s n) = ms_metric_series_id s"
  "mp_value_int (counter_point now w k s n) = Some n"
  "mp_tenant_id (duration_point now w k s ds t) = mk_tenant_id k"
  "mp_metric_series_id (duration_point now w k s ds t) = ms_metric_series_id s"
  by (simp_all add: counter_point_def duration_point_def point_of_def Let_def)

lemma flush_entries_None:
  "flush_entries us js now w m = None \<longleftrightarrow>
   (\<exists>(k, e) \<in> set m. 2 ^ 64 \<le> sum_list (map unat (ag_durations_ns e)))"
proof (induction m)
  case (Cons x m)
  obtain k e where x: "x = (k, e)" by (cases x)
  show ?case
    using Cons flush_entry_None[of us js now w k e] x
    by (cases "flush_entry us js now w (k, e)") (auto split: option.splits)
qed simp

lemma flush_entries_mem:
  "flush_entries us js now w m = Some (ss, ps) \<Longrightarrow> (k, e) \<in> set m \<Longrightarrow>
   \<exists>ss1 ps1. flush_entry us js now w (k, e) = Some (ss1, ps1) \<and> set ss1 \<subseteq> set ss \<and> set ps1 \<subseteq> set ps"
proof (induction m arbitrary: ss ps)
  case (Cons x m)
  obtain s1 p1 s2 p2 where x: "flush_entry us js now w x = Some (s1, p1)"
    "flush_entries us js now w m = Some (s2, p2)" "ss = s1 @ s2" "ps = p1 @ p2"
    using Cons.prems(1) by (auto split: option.splits)
  show ?case
  proof (cases "x = (k, e)")
    case True
    then show ?thesis using x by auto
  next
    case False
    then show ?thesis using Cons.IH[OF x(2)] Cons.prems(2) x(3,4) by auto
  qed
qed simp

lemma flush_entries_origin:
  "flush_entries us js now w m = Some (ss, ps) \<Longrightarrow>
   (\<forall>s \<in> set ss. (\<exists>x \<in> set m. ms_tenant_id s = mk_tenant_id (fst x)) \<and>
      ms_metric_series_id s = deterministic_metric_series_id us js s) \<and>
   (\<forall>p \<in> set ps. (\<exists>x \<in> set m. mp_tenant_id p = mk_tenant_id (fst x)) \<and>
      (\<exists>s \<in> set ss. mp_metric_series_id p = ms_metric_series_id s))"
proof (induction m arbitrary: ss ps)
  case (Cons x m)
  obtain k e where x: "x = (k, e)" by (cases x)
  obtain s1 p1 s2 p2 where f: "flush_entry us js now w (k, e) = Some (s1, p1)"
    "flush_entries us js now w m = Some (s2, p2)" "ss = s1 @ s2" "ps = p1 @ p2"
    using Cons.prems x by (auto split: option.splits)
  obtain t where s1: "s1 = counter_series us js k ''span.calls_total'' #
          (if ag_errors e > 0 then [counter_series us js k ''span.errors_total''] else []) @
          [duration_series us js k]"
    and p1: "p1 = counter_point now w k (counter_series us js k ''span.calls_total'') (ag_calls e) #
          (if ag_errors e > 0
           then [counter_point now w k (counter_series us js k ''span.errors_total'') (ag_errors e)] else []) @
          [duration_point now w k (duration_series us js k) (sort (ag_durations_ns e)) t]"
    by (rule flush_entry_Some[OF f(1)])
  have "\<forall>s \<in> set s1. ms_tenant_id s = mk_tenant_id k \<and>
      ms_metric_series_id s = deterministic_metric_series_id us js s"
    "\<forall>p \<in> set p1. mp_tenant_id p = mk_tenant_id k \<and>
      (\<exists>s \<in> set s1. mp_metric_series_id p = ms_metric_series_id s)"
    by (simp_all add: s1 p1 series_identity point_identity)
  with Cons.IH[OF f(2)] show ?case
    unfolding f(3,4) x set_append list.set(2) ball_Un bex_Un by (metis fst_conv insert_iff)
qed simp

lemma flush_entry_published:
  assumes "aggregator_flush us js now agg = (agg', Done (ss, ps))" "(k, e) \<in> set (sma_state agg)"
  shows "sma_state agg' = [] \<and>
    (\<exists>p \<in> set ps. p = counter_point now (sma_window_start_ns agg) k
        (counter_series us js k ''span.calls_total'') (ag_calls e)) \<and>
    (\<exists>p \<in> set ps. mp_tenant_id p = mk_tenant_id k \<and>
        mp_metric_series_id p = ms_metric_series_id (duration_series us js k) \<and>
        counts_match p (of_nat (length (ag_durations_ns e)))) \<and>
    (ag_errors e > 0 \<longrightarrow> counter_point now (sma_window_start_ns agg) k
        (counter_series us js k ''span.errors_total'') (ag_errors e) \<in> set ps) \<and>
    (\<forall>s \<in> set ss. ms_metric_series_id s = deterministic_metric_series_id us js s) \<and>
    (\<forall>p \<in> set ps. \<exists>x \<in> set (sma_state agg). mp_tenant_id p = mk_tenant_id (fst x))"
proof -
  let ?w = "sma_window_start_ns agg"
  have f: "flush_entries us js now ?w (sma_state agg) = Some (ss, ps)" and e: "sma_state agg' = []"
    using assms(1) by (auto simp: aggregator_flush_def split: if_splits option.splits)
  obtain ss1 ps1 where 1: "flush_entry us js now ?w (k, e) = Some (ss1, ps1)" "set ps1 \<subseteq> set ps"
    using flush_entries_mem[OF f assms(2)] by blast
  obtain t where ps1: "ps1 = counter_point now ?w k (counter_series us js k ''span.calls_total'') (ag_calls e) #
          (if ag_errors e > 0
           then [counter_point now ?w k (counter_series us js k ''span.errors_total'') (ag_errors e)] else []) @
          [duration_point now ?w k (duration_series us js k) (sort (ag_durations_ns e)) t]"
    by (rule flush_entry_Some[OF 1(1)])
  have d: "counts_match (duration_point now ?w k (duration_series us js k) (sort (ag_durations_ns e)) t)
      (of_nat (length (ag_durations_ns e)))"
    using duration_point_counts[of now ?w k _ "sort (ag_durations_ns e)"] by simp
  show ?thesis
    using e flush_entries_origin[OF f] 1(2) ps1 d point_identity(4,5)
    by (intro conjI) (fastforce split: prod.splits if_splits)+
qed

lemma record_all_window:
  "record_all agg xs = (agg', r) \<Longrightarrow> sma_window_start_ns agg' = sma_window_start_ns agg"
  by (induction agg xs rule: record_all.induct)
     (auto simp: record_span_def split: prod.splits outcome.splits if_splits option.splits)

lemma well_counted_tenants:
  assumes "well_counted m xs" "x \<in> set m"
  shows "mk_tenant_id (fst x) \<in> snd ` set xs"
proof -
  have "map_of m (fst x) = Some (snd x)"
    using assms by (simp add: well_counted_def)
  moreover have "case map_of m (fst x) of None \<Rightarrow> hits (fst x) xs = []
      | Some e \<Rightarrow> hits (fst x) xs \<noteq> [] \<and> tallies e (hits (fst x) xs)"
    using assms(1) by (simp add: well_counted_def)
  ultimately have "hits (fst x) xs \<noteq> []" by simp
  then obtain s t where "(s, t) \<in> set xs" "span_key s t = fst x"
    by (auto simp: hits_def filter_empty_conv)
  then show ?thesis by (metis image_eqI metric_key.select_convs(1) snd_conv span_key_def)
qed

subsection \<open>The properties\<close>

text \<open>
  C8. A window counts every recorded span exactly once, under the tenant of its envelope:
  if recording a sequence of spans on a fresh aggregator does not panic, then for each key
  the entry holds the number of its spans, the number of those with status Error, and
  their durations in order; keys without spans have no entry.
\<close>

theorem record_all_counts:
  assumes "record_all (aggregator_new now) xs = (agg, Done ())"
  shows "well_counted (sma_state agg) xs"
  using record_all_well_counted[OF assms, of "[]"]
  by (simp add: aggregator_new_def well_counted_def hits_def)

theorem record_all_counts_witness:
  "well_counted (sma_state (fst (record_all (aggregator_new 0) [(sample_span, 7), (sample_span, 8)])))
     [(sample_span, 7), (sample_span, 8)]"
proof -
  have "snd (record_all (aggregator_new 0) [(sample_span, 7), (sample_span, 8)]) = Done ()"
    by (simp add: aggregator_new_def record_span_def bump_entry_def empty_entry_def checked_add_def
        span_key_def sample_span_def)
  then show ?thesis
    using record_all_counts[of 0 "[(sample_span, 7), (sample_span, 8)]"]
    by (cases "record_all (aggregator_new 0) [(sample_span, 7), (sample_span, 8)]") simp
qed

subsection \<open>What a window must publish\<close>

text \<open>
  The points of a key, stated over the recorded spans and the series that are published
  with them. The bucket of a duration is the first whose bound it does not exceed, in
  milliseconds; the last bucket has no bound.
\<close>

definition span_ms :: "u64 \<Rightarrow> f64" where
  "span_ms d = f64_div (f64_of_u64 d) (f64_lit 1000000 1)"

definition in_bucket :: "nat \<Rightarrow> f64 \<Rightarrow> bool" where
  "in_bucket i ms \<longleftrightarrow> i \<le> length duration_bounds \<and>
     (\<forall>j < i. \<not> f64_le ms (duration_bounds ! j)) \<and> (i < length duration_bounds \<longrightarrow> f64_le ms (duration_bounds ! i))"

definition histogram_of :: "metric_point \<Rightarrow> span list \<Rightarrow> bool" where
  "histogram_of p spans \<longleftrightarrow>
     (\<exists>n cs total_ns. mp_histogram_count p = Some n \<and> unat n = length spans \<and>
        mp_histogram_explicit_bounds p = Some duration_bounds \<and>
        mp_histogram_bucket_counts p = Some cs \<and> length cs = length duration_bounds + 1 \<and>
        (\<forall>i < length cs. unat (cs ! i) = length (filter (\<lambda>s. in_bucket i (span_ms (sp_duration_ns s))) spans)) \<and>
        mp_histogram_sum p = Some (span_ms total_ns) \<and> unat total_ns = sum_list (map (unat \<circ> sp_duration_ns) spans))"

definition published_as ::
    "(uuid \<Rightarrow> string) \<Rightarrow> (json \<Rightarrow> string) \<Rightarrow> u64 \<Rightarrow> u64 \<Rightarrow> metric_series list \<Rightarrow> metric_key \<Rightarrow> string \<Rightarrow> metric_point \<Rightarrow> bool" where
  "published_as us js now w ss k name p \<longleftrightarrow>
     mp_metric_name p = name \<and> mp_tenant_id p = mk_tenant_id k \<and> mp_service_name p = mk_service_name k \<and>
     mp_time_unix_nano p = now \<and> mp_start_time_unix_nano p = Some w \<and>
     (\<exists>s \<in> set ss. ms_metric_name s = name \<and> ms_tenant_id s = mk_tenant_id k \<and> ms_service_name s = mk_service_name k \<and>
        ms_environment s = mk_environment k \<and> ms_aggregation_temporality s = Some Delta \<and>
        ms_attributes s = [(''operation'', mk_operation_name k), (''span.kind'', mk_span_kind k), (''status.code'', mk_status_code k)] \<and>
        (if name = ''span.duration_ms'' then ms_metric_type s = Type_Histogram \<and> ms_unit s = ''ms''
         else ms_metric_type s = Type_Sum \<and> ms_is_monotonic s = Some True) \<and>
        ms_metric_series_id s = deterministic_metric_series_id us js s \<and> mp_metric_series_id p = ms_metric_series_id s)"

definition counts_spans :: "metric_point \<Rightarrow> span list \<Rightarrow> bool" where
  "counts_spans p spans \<longleftrightarrow> (\<exists>n. mp_value_int p = Some n \<and> unat n = length spans)"

definition failed_spans :: "span list \<Rightarrow> span list" where
  "failed_spans = filter (\<lambda>s. sp_status_code s = Error)"

definition window_point ::
    "(uuid \<Rightarrow> string) \<Rightarrow> (json \<Rightarrow> string) \<Rightarrow> u64 \<Rightarrow> u64 \<Rightarrow> metric_series list \<Rightarrow> metric_key \<Rightarrow> span list \<Rightarrow> metric_point \<Rightarrow> bool" where
  "window_point us js now w ss k spans p \<longleftrightarrow>
     published_as us js now w ss k ''span.calls_total'' p \<and> counts_spans p spans \<or>
     published_as us js now w ss k ''span.errors_total'' p \<and> counts_spans p (failed_spans spans) \<and> failed_spans spans \<noteq> [] \<or>
     published_as us js now w ss k ''span.duration_ms'' p \<and> histogram_of p spans"

lemma bucket_index_Some:
  "bucket_index d bs n = Some i \<Longrightarrow> n \<le> i \<and> i - n < length bs \<and> f64_le d (bs ! (i - n)) \<and> (\<forall>j < i - n. \<not> f64_le d (bs ! j))"
proof (induction d bs n rule: bucket_index.induct)
  case (2 d b bs n)
  show ?case
  proof (cases "f64_le d b")
    case False
    then have r: "Suc n \<le> i \<and> i - Suc n < length bs \<and> f64_le d (bs ! (i - Suc n)) \<and> (\<forall>j < i - Suc n. \<not> f64_le d (bs ! j))"
      using 2 by simp
    moreover have "\<not> f64_le d ((b # bs) ! j)" if "j < i - n" for j
      using r False that by (cases j) auto
    ultimately show ?thesis by (auto simp: nth_Cons' Suc_diff_Suc)
  qed (use 2 in auto)
qed simp

lemma bucket_index_None: "bucket_index d bs n = None \<Longrightarrow> j < length bs \<Longrightarrow> \<not> f64_le d (bs ! j)"
  by (induction d bs n arbitrary: j rule: bucket_index.induct) (auto simp: nth_Cons split: if_splits nat.splits)

lemma in_bucket_unique: "in_bucket i d \<Longrightarrow> in_bucket j d \<Longrightarrow> i = j"
  unfolding in_bucket_def by (metis linorder_neqE_nat order_less_le_trans)

lemma bucket_exists:
  "in_bucket (case bucket_index d duration_bounds 0 of Some i \<Rightarrow> i | None \<Rightarrow> length duration_bounds) d"
  by (auto simp: in_bucket_def dest: bucket_index_Some bucket_index_None split: option.splits)

lemma count_duration_at:
  assumes "length cs = length duration_bounds + 1" "i < length cs"
  shows "count_duration duration_bounds cs d ! i = cs ! i + (if in_bucket i (span_ms d) then 1 else 0)"
proof -
  define j where "j = (case bucket_index (span_ms d) duration_bounds 0 of Some i \<Rightarrow> i | None \<Rightarrow> length duration_bounds)"
  have j: "in_bucket j (span_ms d)" unfolding j_def by (rule bucket_exists)
  have "count_duration duration_bounds cs d = cs[j := cs ! j + 1]"
    using assms(1) by (simp add: count_duration_def j_def span_ms_def Let_def cong: option.case_cong)
  moreover have "in_bucket i (span_ms d) \<longleftrightarrow> i = j" using j in_bucket_unique by blast
  ultimately show ?thesis using assms(2) by (simp add: nth_list_update)
qed

lemma foldl_count_at:
  "length cs = length duration_bounds + 1 \<Longrightarrow> i < length cs \<Longrightarrow>
   foldl (count_duration duration_bounds) cs ds ! i = cs ! i + of_nat (length (filter (\<lambda>d. in_bucket i (span_ms d)) ds))"
  by (induction ds arbitrary: cs) (simp_all add: count_duration_at)

lemma length_filter_sort: "length (filter P (sort xs)) = length (filter P xs)"
  by (metis mset_filter mset_sort size_mset)

lemma duration_histogram:
  assumes "ag_durations_ns e = map sp_duration_ns spans" "length spans < 2 ^ 64"
    and "unat total_ns = sum_list (map unat (ag_durations_ns e))"
  shows "histogram_of (duration_point now w k s (sort (ag_durations_ns e)) total_ns) spans"
proof -
  let ?ds = "sort (ag_durations_ns e)" and ?zero = "replicate (length duration_bounds + 1) (0 :: u64)"
  have n: "unat (of_nat m :: u64) = m" if "m < 2 ^ 64" for m
    using that by (simp add: unat_of_nat take_bit_nat_eq_self)
  have "unat (foldl (count_duration duration_bounds) ?zero ?ds ! i) =
      length (filter (\<lambda>s. in_bucket i (span_ms (sp_duration_ns s))) spans)"
    if "i < length duration_bounds + 1" for i
  proof -
    have "length (filter (\<lambda>d. in_bucket i (span_ms d)) ?ds) = length (filter (\<lambda>s. in_bucket i (span_ms (sp_duration_ns s))) spans)"
      unfolding length_filter_sort assms(1) filter_map by (simp add: comp_def)
    moreover have "length (filter (\<lambda>s. in_bucket i (span_ms (sp_duration_ns s))) spans) < 2 ^ 64"
      using length_filter_le assms(2) by (rule order_le_less_trans)
    moreover have "?zero ! i = 0" using that by (rule nth_replicate)
    ultimately show ?thesis using foldl_count_at[of ?zero i ?ds] that n by (simp del: replicate_Suc)
  qed
  then show ?thesis
    using n[OF assms(2)] assms(1,3) by (simp add: histogram_of_def duration_point_def Let_def span_ms_def, blast)
qed

lemma series_published:
  "published_as us js now w ss k name (counter_point now w k (counter_series us js k name) n)"
  if "counter_series us js k name \<in> set ss" "name \<noteq> ''span.duration_ms''"
  using that
  by (auto simp: published_as_def counter_point_def point_of_def counter_series_def with_series_id_def make_attributes_def
      deterministic_metric_series_id_def intro!: bexI[of _ "counter_series us js k name"])

lemma duration_published:
  "published_as us js now w ss k ''span.duration_ms'' (duration_point now w k (duration_series us js k) ds t)"
  if "duration_series us js k \<in> set ss"
  using that
  by (auto simp: published_as_def duration_point_def point_of_def duration_series_def with_series_id_def make_attributes_def Let_def
      deterministic_metric_series_id_def intro!: bexI[of _ "duration_series us js k"])

text \<open>An entry publishes the points of its key, and nothing else.\<close>

lemma entry_published:
  assumes "flush_entry us js now w (k, e) = Some (ss1, ps1)" "set ss1 \<subseteq> set ss" "set ps1 \<subseteq> set ps" "tallies e spans"
  shows "(\<exists>p \<in> set ps. published_as us js now w ss k ''span.calls_total'' p \<and> counts_spans p spans) \<and>
    (failed_spans spans \<noteq> [] \<longrightarrow>
      (\<exists>p \<in> set ps. published_as us js now w ss k ''span.errors_total'' p \<and> counts_spans p (failed_spans spans))) \<and>
    (\<exists>p \<in> set ps. published_as us js now w ss k ''span.duration_ms'' p \<and> histogram_of p spans)"
proof -
  obtain t where t: "unat t = sum_list (map unat (ag_durations_ns e))"
    and ss1: "ss1 = counter_series us js k ''span.calls_total'' #
          (if ag_errors e > 0 then [counter_series us js k ''span.errors_total''] else []) @ [duration_series us js k]"
    and ps1: "ps1 = counter_point now w k (counter_series us js k ''span.calls_total'') (ag_calls e) #
          (if ag_errors e > 0
           then [counter_point now w k (counter_series us js k ''span.errors_total'') (ag_errors e)] else []) @
          [duration_point now w k (duration_series us js k) (sort (ag_durations_ns e)) t]"
    by (rule flush_entry_Some[OF assms(1)])
  have n: "unat (ag_calls e) = length spans" "unat (ag_errors e) = length (failed_spans spans)"
    "ag_durations_ns e = map sp_duration_ns spans" "length spans < 2 ^ 64"
    using assms(4) unsigned_less[of "ag_calls e", where 'a = nat] by (simp_all add: tallies_def failed_spans_def)
  have calls: "counter_point now w k (counter_series us js k ''span.calls_total'') (ag_calls e) \<in> set ps"
      "counter_series us js k ''span.calls_total'' \<in> set ss" "duration_series us js k \<in> set ss"
      "duration_point now w k (duration_series us js k) (sort (ag_durations_ns e)) t \<in> set ps"
    using assms(2,3) ss1 ps1 by auto
  have errs: "counter_point now w k (counter_series us js k ''span.errors_total'') (ag_errors e) \<in> set ps \<and>
      counter_series us js k ''span.errors_total'' \<in> set ss" if "failed_spans spans \<noteq> []"
  proof -
    have "0 < ag_errors e" using n(2) that by (simp add: word_less_nat_alt)
    then show ?thesis using assms(2,3) ss1 ps1 by auto
  qed
  have count: "counts_spans (counter_point now w k s m) xs" if "unat m = length xs" for s m and xs :: "span list"
    using that by (simp add: counts_spans_def counter_point_def)
  show ?thesis
  proof (intro conjI impI)
    show "\<exists>p \<in> set ps. published_as us js now w ss k ''span.calls_total'' p \<and> counts_spans p spans"
      by (rule bexI[OF _ calls(1)], rule conjI, rule series_published[OF calls(2)], simp, rule count, rule n(1))
    show "\<exists>p \<in> set ps. published_as us js now w ss k ''span.errors_total'' p \<and> counts_spans p (failed_spans spans)"
      if "failed_spans spans \<noteq> []"
      using errs[OF that] by (intro bexI[OF _ conjunct1[OF errs[OF that]]] conjI series_published count n(2)) simp_all
    show "\<exists>p \<in> set ps. published_as us js now w ss k ''span.duration_ms'' p \<and> histogram_of p spans"
      by (rule bexI[OF _ calls(4)], rule conjI, rule duration_published[OF calls(3)], rule duration_histogram[OF n(3,4) t])
  qed
qed

lemma entry_points:
  assumes "flush_entry us js now w (k, e) = Some (ss1, ps1)" "set ss1 \<subseteq> set ss" "tallies e spans" "p \<in> set ps1"
  shows "window_point us js now w ss k spans p"
proof -
  obtain t where t: "unat t = sum_list (map unat (ag_durations_ns e))"
    and ss1: "ss1 = counter_series us js k ''span.calls_total'' #
          (if ag_errors e > 0 then [counter_series us js k ''span.errors_total''] else []) @ [duration_series us js k]"
    and ps1: "ps1 = counter_point now w k (counter_series us js k ''span.calls_total'') (ag_calls e) #
          (if ag_errors e > 0
           then [counter_point now w k (counter_series us js k ''span.errors_total'') (ag_errors e)] else []) @
          [duration_point now w k (duration_series us js k) (sort (ag_durations_ns e)) t]"
    by (rule flush_entry_Some[OF assms(1)])
  have n: "unat (ag_calls e) = length spans" "unat (ag_errors e) = length (failed_spans spans)"
    "ag_durations_ns e = map sp_duration_ns spans" "length spans < 2 ^ 64"
    using assms(3) unsigned_less[of "ag_calls e", where 'a = nat] by (simp_all add: tallies_def failed_spans_def)
  consider "p = counter_point now w k (counter_series us js k ''span.calls_total'') (ag_calls e)"
    | "0 < ag_errors e" "p = counter_point now w k (counter_series us js k ''span.errors_total'') (ag_errors e)"
    | "p = duration_point now w k (duration_series us js k) (sort (ag_durations_ns e)) t"
    using assms(4) ps1 by (auto split: if_splits)
  then show ?thesis
  proof cases
    case 1
    then show ?thesis
      using series_published[of us js k "''span.calls_total''" ss now w "ag_calls e"] assms(2) ss1 n(1)
      by (auto simp: window_point_def counts_spans_def counter_point_def)
  next
    case 2
    then have "failed_spans spans \<noteq> []" using n(2) by (auto simp: word_less_nat_alt)
    then show ?thesis
      using 2 series_published[of us js k "''span.errors_total''" ss now w "ag_errors e"] assms(2) ss1 n(2)
      by (auto simp: window_point_def counts_spans_def counter_point_def)
  next
    case 3
    then show ?thesis
      using duration_published[of us js k ss] assms(2) ss1 duration_histogram[OF n(3,4) t]
      by (auto simp: window_point_def)
  qed
qed

lemma flush_entries_from:
  "flush_entries us js now w m = Some (ss, ps) \<Longrightarrow> p \<in> set ps \<Longrightarrow>
   \<exists>k e ss1 ps1. (k, e) \<in> set m \<and> flush_entry us js now w (k, e) = Some (ss1, ps1) \<and> set ss1 \<subseteq> set ss \<and> p \<in> set ps1"
proof (induction m arbitrary: ss ps)
  case (Cons x m)
  obtain s1 p1 s2 p2 where x: "flush_entry us js now w x = Some (s1, p1)"
    "flush_entries us js now w m = Some (s2, p2)" "ss = s1 @ s2" "ps = p1 @ p2"
    using Cons.prems(1) by (auto split: option.splits)
  show ?case
  proof (cases "p \<in> set p1")
    case True
    then show ?thesis using x by (cases x) auto
  next
    case False
    then show ?thesis using Cons.IH[OF x(2)] Cons.prems(2) x(3,4) by fastforce
  qed
qed simp

text \<open>
  C9. Recording a window and flushing it publishes exactly what was recorded, and empties
  the aggregator: for the key of each span there is a calls point with the number of its
  spans, an errors point with the number of those with status Error if there are any, and
  a duration histogram, whose buckets count the spans of the key by their duration in
  milliseconds and whose sum is the sum of the durations; each point refers to a series
  published with it, of its name, its type, its attributes and its deterministic id; and
  every point published is one of these.
\<close>

theorem flush_publishes_window:
  assumes "record_all (aggregator_new w) xs = (agg, Done ())"
    and "aggregator_flush us js now agg = (agg', Done (ss, ps))"
  shows "sma_state agg' = [] \<and>
    (\<forall>(s, t) \<in> set xs. let k = span_key s t; spans = hits k xs in
      (\<exists>p \<in> set ps. published_as us js now w ss k ''span.calls_total'' p \<and> counts_spans p spans) \<and>
      (failed_spans spans \<noteq> [] \<longrightarrow>
        (\<exists>p \<in> set ps. published_as us js now w ss k ''span.errors_total'' p \<and> counts_spans p (failed_spans spans))) \<and>
      (\<exists>p \<in> set ps. published_as us js now w ss k ''span.duration_ms'' p \<and> histogram_of p spans)) \<and>
    (\<forall>p \<in> set ps. \<exists>(s, t) \<in> set xs. window_point us js now w ss (span_key s t) (hits (span_key s t) xs) p)"
proof -
  have wc: "well_counted (sma_state agg) xs" and w: "sma_window_start_ns agg = w"
    using record_all_well_counted[OF assms(1), of "[]"] record_all_window[OF assms(1)]
    by (simp_all add: aggregator_new_def well_counted_def hits_def)
  have f: "flush_entries us js now w (sma_state agg) = Some (ss, ps)" and e: "sma_state agg' = []"
    using assms(2) w by (auto simp: aggregator_flush_def split: if_splits option.splits)
  have "let spans = hits k xs in
      (\<exists>p \<in> set ps. published_as us js now w ss k ''span.calls_total'' p \<and> counts_spans p spans) \<and>
      (failed_spans spans \<noteq> [] \<longrightarrow>
        (\<exists>p \<in> set ps. published_as us js now w ss k ''span.errors_total'' p \<and> counts_spans p (failed_spans spans))) \<and>
      (\<exists>p \<in> set ps. published_as us js now w ss k ''span.duration_ms'' p \<and> histogram_of p spans)"
    if "(s, t) \<in> set xs" "k = span_key s t" for s t k
  proof -
    have "hits k xs \<noteq> []" using that by (force simp: hits_def filter_empty_conv)
    then obtain e where e: "(k, e) \<in> set (sma_state agg)" "tallies e (hits k xs)"
      using wc by (auto simp: well_counted_def split: option.splits dest: spec[of _ k] map_of_SomeD)
    obtain ss1 ps1 where 1: "flush_entry us js now w (k, e) = Some (ss1, ps1)" "set ss1 \<subseteq> set ss" "set ps1 \<subseteq> set ps"
      using flush_entries_mem[OF f e(1)] by blast
    show ?thesis using entry_published[OF 1 e(2)] by (simp add: Let_def)
  qed
  moreover have "\<exists>(s, t) \<in> set xs. window_point us js now w ss (span_key s t) (hits (span_key s t) xs) p" if "p \<in> set ps" for p
  proof -
    obtain k e ss1 ps1 where 1: "(k, e) \<in> set (sma_state agg)" "flush_entry us js now w (k, e) = Some (ss1, ps1)"
        "set ss1 \<subseteq> set ss" "p \<in> set ps1"
      using flush_entries_from[OF f \<open>p \<in> set ps\<close>] by blast
    have "map_of (sma_state agg) k = Some e" using wc 1(1) by (simp add: well_counted_def)
    then have h: "hits k xs \<noteq> []" "tallies e (hits k xs)"
      using wc by (auto simp: well_counted_def dest: spec[of _ k])
    then obtain s t where "(s, t) \<in> set xs" "span_key s t = k" by (auto simp: hits_def filter_empty_conv)
    then show ?thesis using entry_points[OF 1(2,3) h(2) 1(4)] by blast
  qed
  ultimately show ?thesis using e by (auto simp: Let_def)
qed

theorem flush_publishes_window_witness:
  "\<exists>ps p. aggregator_flush (\<lambda>_. []) (\<lambda>_. []) 1 (fst (record_all (aggregator_new 0) [(sample_span, 7)])) =
      (aggregator_new 0, Done ps) \<and> p \<in> set (snd ps) \<and> mp_metric_name p = ''span.duration_ms'' \<and>
      mp_tenant_id p = 7 \<and> histogram_of p [sample_span]"
proof -
  define agg where "agg = fst (record_all (aggregator_new 0) [(sample_span, 7)])"
  have agg: "record_all (aggregator_new 0) [(sample_span, 7)] = (agg, Done ())"
    by (simp add: agg_def aggregator_new_def record_span_def bump_entry_def empty_entry_def
        checked_add_def span_key_def sample_span_def)
  have "flush_entries (\<lambda>_. []) (\<lambda>_. []) 1 (sma_window_start_ns agg) (sma_state agg) \<noteq> None"
    unfolding flush_entries_None
    by (simp add: agg_def aggregator_new_def record_span_def bump_entry_def
        empty_entry_def checked_add_def span_key_def sample_span_def)
  moreover have "\<not> sma_poisoned agg" "agg\<lparr>sma_state := []\<rparr> = aggregator_new 0"
    by (simp_all add: agg_def aggregator_new_def record_span_def bump_entry_def empty_entry_def
        checked_add_def)
  ultimately obtain ss ps where f: "aggregator_flush (\<lambda>_. []) (\<lambda>_. []) 1 agg = (aggregator_new 0, Done (ss, ps))"
    by (auto simp: aggregator_flush_def)
  have h: "hits (span_key sample_span 7) [(sample_span, 7)] = [sample_span]" by (simp add: hits_def)
  obtain p where "p \<in> set ps" "published_as (\<lambda>_. []) (\<lambda>_. []) 1 0 ss (span_key sample_span 7) ''span.duration_ms'' p"
      "histogram_of p [sample_span]"
    using flush_publishes_window[OF agg f] h by (auto simp: Let_def)
  then show ?thesis
    using f unfolding agg_def by (intro exI[of _ "(ss, ps)"] exI[of _ p]) (simp add: published_as_def span_key_def)
qed

text \<open>
  C10. A flush panics exactly when the durations of some key sum to 2^64 nanoseconds or
  more; the panic poisons the mutex, and from then on every recording panics. (Two spans
  with an end timestamp near the maximum are enough.)
\<close>

theorem flush_panics_iff_overflow:
  assumes "\<not> sma_poisoned agg" "aggregator_flush us js now agg = (agg', r)"
  shows "(r = Panic \<longleftrightarrow>
           (\<exists>(k, e) \<in> set (sma_state agg). 2 ^ 64 \<le> sum_list (map unat (ag_durations_ns e)))) \<and>
         (r = Panic \<longrightarrow> (\<forall>s t. record_span agg' s t = (agg', Panic)))"
  using assms flush_entries_None[of us js now "sma_window_start_ns agg" "sma_state agg"]
  by (auto simp: aggregator_flush_def record_span_def split: option.splits)

definition overflow_aggregator :: span_metrics_aggregator where
  "overflow_aggregator = \<lparr>sma_state = [(span_key sample_span 7,
     \<lparr>ag_calls = 2, ag_errors = 0, ag_durations_ns = [0x8000000000000000, 0x8000000000000000]\<rparr>)],
     sma_poisoned = False, sma_window_start_ns = 0\<rparr>"

theorem flush_panics_iff_overflow_witness:
  "\<exists>agg'. aggregator_flush (\<lambda>_. []) (\<lambda>_. []) 1 overflow_aggregator = (agg', Panic) \<and>
     record_span agg' sample_span 7 = (agg', Panic)"
proof -
  obtain agg' r where f: "aggregator_flush (\<lambda>_. []) (\<lambda>_. []) 1 overflow_aggregator = (agg', r)"
    by fastforce
  have "\<not> sma_poisoned overflow_aggregator" by (simp add: overflow_aggregator_def)
  from flush_panics_iff_overflow[OF this f]
  have "r = Panic" by (simp add: overflow_aggregator_def)
  with flush_panics_iff_overflow[OF \<open>\<not> sma_poisoned overflow_aggregator\<close> f] f show ?thesis by blast
qed

end
