(* ===== verification/Process.thy ===== *)
theory Process
  imports Domain
begin

section \<open>Normalisation and merging in the stream processor\<close>

text \<open>
  \<open>libs/observable-process/src/lib.rs\<close> and \<open>services/stream-processor/src/batch.rs\<close>.
  \<open>Uuid::new_v4()\<close> draws from a supply: \<open>fresh n\<close> is the \<open>n\<close>-th draw, and the code that
  draws threads the counter.
\<close>

type_synonym uuid_supply = "nat \<Rightarrow> uuid"

record merged_telemetry =
  mt_spans :: "span list"
  mt_logs :: "log_record list"
  mt_series :: "metric_series list"
  mt_points :: "metric_point list"

definition empty_merged :: merged_telemetry where
  "empty_merged = \<lparr>mt_spans = [], mt_logs = [], mt_series = [], mt_points = []\<rparr>"

definition normalise_span :: "span \<Rightarrow> uuid \<Rightarrow> span" where
  "normalise_span s tenant_id =
     (let s = s\<lparr>sp_tenant_id := tenant_id\<rparr>
      in if sp_duration_ns s = 0
         then s\<lparr>sp_duration_ns := saturating_sub (sp_end_time_unix_nano s) (sp_start_time_unix_nano s)\<rparr>
         else s)"

definition normalise_log :: "uuid_supply \<Rightarrow> nat \<Rightarrow> log_record \<Rightarrow> uuid \<Rightarrow> log_record \<times> nat" where
  "normalise_log fresh n l tenant_id =
     (let l = l\<lparr>lg_tenant_id := tenant_id\<rparr>
      in if lg_log_id l = nil_uuid then (l\<lparr>lg_log_id := fresh n\<rparr>, Suc n) else (l, n))"

definition normalise_metric_series :: "metric_series \<Rightarrow> uuid \<Rightarrow> metric_series" where
  "normalise_metric_series series tenant_id = series\<lparr>ms_tenant_id := tenant_id\<rparr>"

definition normalise_metric_point :: "metric_point \<Rightarrow> uuid \<Rightarrow> metric_point" where
  "normalise_metric_point point tenant_id = point\<lparr>mp_tenant_id := tenant_id\<rparr>"

text \<open>\<open>logs.into_iter().map(|log| normalise_log(log, tenant_id))\<close>, drawing in order.\<close>

fun normalise_logs :: "uuid_supply \<Rightarrow> nat \<Rightarrow> log_record list \<Rightarrow> uuid \<Rightarrow> log_record list \<times> nat" where
  "normalise_logs fresh n [] tenant_id = ([], n)"
| "normalise_logs fresh n (l # ls) tenant_id =
     (let (l', n1) = normalise_log fresh n l tenant_id;
          (ls', n2) = normalise_logs fresh n1 ls tenant_id
      in (l' # ls', n2))"

definition merge_step ::
    "uuid_supply \<Rightarrow> merged_telemetry \<times> nat \<Rightarrow> telemetry_envelope \<Rightarrow> merged_telemetry \<times> nat" where
  "merge_step fresh st envelope =
     (case st of (merged, n) \<Rightarrow>
      let tenant_id = env_tenant_id envelope in
      case env_payload envelope of
        Spans spans \<Rightarrow>
          (merged\<lparr>mt_spans := mt_spans merged @ map (\<lambda>s. normalise_span s tenant_id) spans\<rparr>, n)
      | LogRecords logs \<Rightarrow>
          (case normalise_logs fresh n logs tenant_id of (logs', n') \<Rightarrow>
             (merged\<lparr>mt_logs := mt_logs merged @ logs'\<rparr>, n'))
      | MetricData series points \<Rightarrow>
          (merged\<lparr>mt_series := mt_series merged @ map (\<lambda>s. normalise_metric_series s tenant_id) series,
                  mt_points := mt_points merged @ map (\<lambda>p. normalise_metric_point p tenant_id) points\<rparr>, n))"

definition merge_telemetry ::
    "uuid_supply \<Rightarrow> nat \<Rightarrow> telemetry_envelope list \<Rightarrow> merged_telemetry \<times> nat" where
  "merge_telemetry fresh n batch = foldl (merge_step fresh) (empty_merged, n) batch"

text \<open>
  The stream processor's own copy, with its loop written over four local vectors.
\<close>

fun merge_batch_loop ::
    "uuid_supply \<Rightarrow> nat \<Rightarrow> span list \<Rightarrow> log_record list \<Rightarrow> metric_series list \<Rightarrow> metric_point list \<Rightarrow>
     telemetry_envelope list \<Rightarrow> merged_telemetry \<times> nat" where
  "merge_batch_loop fresh n spans logs series points [] =
     (\<lparr>mt_spans = spans, mt_logs = logs, mt_series = series, mt_points = points\<rparr>, n)"
| "merge_batch_loop fresh n spans logs series points (env # envs) =
     (let tid = env_tenant_id env in
      case env_payload env of
        Spans ss \<Rightarrow>
          merge_batch_loop fresh n (spans @ map (\<lambda>s. normalise_span s tid) ss) logs series points envs
      | LogRecords ls \<Rightarrow>
          (case normalise_logs fresh n ls tid of (ls', n') \<Rightarrow>
             merge_batch_loop fresh n' spans (logs @ ls') series points envs)
      | MetricData sr pt \<Rightarrow>
          merge_batch_loop fresh n spans logs
            (series @ map (\<lambda>s. normalise_metric_series s tid) sr)
            (points @ map (\<lambda>p. normalise_metric_point p tid) pt) envs)"

definition merge_batch :: "uuid_supply \<Rightarrow> nat \<Rightarrow> telemetry_envelope list \<Rightarrow> merged_telemetry \<times> nat" where
  "merge_batch fresh n batch = merge_batch_loop fresh n [] [] [] [] batch"

subsection \<open>Facts about one record\<close>

lemma normalise_span_simps [simp]:
  "sp_tenant_id (normalise_span s t) = t"
  "sp_trace_id (normalise_span s t) = sp_trace_id s"
  "sp_span_id (normalise_span s t) = sp_span_id s"
  "sp_service_name (normalise_span s t) = sp_service_name s"
  "sp_start_time_unix_nano (normalise_span s t) = sp_start_time_unix_nano s"
  "sp_end_time_unix_nano (normalise_span s t) = sp_end_time_unix_nano s"
  "sp_status_code (normalise_span s t) = sp_status_code s"
  by (simp_all add: normalise_span_def Let_def)

lemma normalise_span_idem: "normalise_span (normalise_span s t) t = normalise_span s t"
  by (simp add: normalise_span_def Let_def)

lemma normalise_series_tenant [simp]: "ms_tenant_id (normalise_metric_series s t) = t"
  by (simp add: normalise_metric_series_def)

lemma normalise_point_tenant [simp]: "mp_tenant_id (normalise_metric_point p t) = t"
  by (simp add: normalise_metric_point_def)

lemma normalise_log_facts:
  assumes "normalise_log fresh n l t = (l', n')"
  shows "lg_tenant_id l' = t"
    and "lg_log_id l' = (if lg_log_id l = nil_uuid then fresh n else lg_log_id l)"
    and "l'\<lparr>lg_tenant_id := u, lg_log_id := i\<rparr> = l\<lparr>lg_tenant_id := u, lg_log_id := i\<rparr>"
    and "n \<le> n'"
  using assms by (auto simp: normalise_log_def Let_def split: if_splits)

text \<open>The part of a log that merging does not touch.\<close>

definition log_content :: "log_record \<Rightarrow> log_record" where
  "log_content l = l\<lparr>lg_tenant_id := nil_uuid, lg_log_id := nil_uuid\<rparr>"

lemma normalise_logs_induct:
  "normalise_logs fresh n ls t = (ls', n') \<Longrightarrow>
   map log_content ls' = map log_content ls \<and> (\<forall>l \<in> set ls'. lg_tenant_id l = t) \<and> n \<le> n'"
proof (induction ls arbitrary: n ls' n')
  case (Cons l ls)
  obtain l1 n1 where l: "normalise_log fresh n l t = (l1, n1)" by fastforce
  obtain ls1 n2 where ls: "normalise_logs fresh n1 ls t = (ls1, n2)" by fastforce
  have "ls' = l1 # ls1" "n' = n2" using Cons.prems by (simp_all add: l ls)
  moreover have "log_content l1 = log_content l"
    using normalise_log_facts(3)[OF l, of nil_uuid nil_uuid] by (simp add: log_content_def)
  ultimately show ?case
    using Cons.IH[OF ls] normalise_log_facts(1,4)[OF l] by simp
qed simp

lemma normalise_logs_facts:
  assumes "normalise_logs fresh n ls t = (ls', n')"
  shows "map log_content ls' = map log_content ls" "\<forall>l \<in> set ls'. lg_tenant_id l = t" "n \<le> n'"
  using normalise_logs_induct[OF assms] by simp_all

subsection \<open>Merging as concatenation\<close>

fun spans_of :: "telemetry_envelope \<Rightarrow> span list" where
  "spans_of e = (case env_payload e of Spans ss \<Rightarrow> ss | _ \<Rightarrow> [])"

fun logs_of :: "telemetry_envelope \<Rightarrow> log_record list" where
  "logs_of e = (case env_payload e of LogRecords ls \<Rightarrow> ls | _ \<Rightarrow> [])"

fun series_of :: "telemetry_envelope \<Rightarrow> metric_series list" where
  "series_of e = (case env_payload e of MetricData sr pt \<Rightarrow> sr | _ \<Rightarrow> [])"

fun points_of :: "telemetry_envelope \<Rightarrow> metric_point list" where
  "points_of e = (case env_payload e of MetricData sr pt \<Rightarrow> pt | _ \<Rightarrow> [])"

declare spans_of.simps [simp del] logs_of.simps [simp del]
  series_of.simps [simp del] points_of.simps [simp del]

lemmas payload_of = spans_of.simps logs_of.simps series_of.simps points_of.simps

definition all_spans :: "telemetry_envelope list \<Rightarrow> span list" where
  "all_spans es = concat (map (\<lambda>e. map (\<lambda>s. normalise_span s (env_tenant_id e)) (spans_of e)) es)"

definition all_series :: "telemetry_envelope list \<Rightarrow> metric_series list" where
  "all_series es = concat (map (\<lambda>e. map (\<lambda>s. normalise_metric_series s (env_tenant_id e)) (series_of e)) es)"

definition all_points :: "telemetry_envelope list \<Rightarrow> metric_point list" where
  "all_points es = concat (map (\<lambda>e. map (\<lambda>p. normalise_metric_point p (env_tenant_id e)) (points_of e)) es)"

text \<open>A log's tenant and content, without its id.\<close>

definition all_logs :: "telemetry_envelope list \<Rightarrow> (uuid \<times> log_record) list" where
  "all_logs es = concat (map (\<lambda>e. map (\<lambda>l. (env_tenant_id e, log_content l)) (logs_of e)) es)"

definition tagged_log :: "log_record \<Rightarrow> uuid \<times> log_record" where
  "tagged_log l = (lg_tenant_id l, log_content l)"

lemma tagged_logs:
  assumes "normalise_logs fresh n ls t = (ls', n')"
  shows "map tagged_log ls' = map (\<lambda>l. (t, log_content l)) ls"
proof -
  have "map tagged_log ls' = map (\<lambda>l. (t, log_content l)) ls'"
    using normalise_logs_facts(2)[OF assms] by (simp add: tagged_log_def)
  also have "\<dots> = map (Pair t) (map log_content ls')" by simp
  finally show ?thesis using normalise_logs_facts(1)[OF assms] by simp
qed

lemma merge_step_parts:
  assumes "merge_step fresh (m, n) e = (m1, n1)"
  shows "mt_spans m1 = mt_spans m @ map (\<lambda>s. normalise_span s (env_tenant_id e)) (spans_of e)"
    "mt_series m1 = mt_series m @ map (\<lambda>s. normalise_metric_series s (env_tenant_id e)) (series_of e)"
    "mt_points m1 = mt_points m @ map (\<lambda>p. normalise_metric_point p (env_tenant_id e)) (points_of e)"
    "map tagged_log (mt_logs m1) =
       map tagged_log (mt_logs m) @ map (\<lambda>l. (env_tenant_id e, log_content l)) (logs_of e)"
  using assms
  by (auto simp: merge_step_def Let_def payload_of tagged_logs split: envelope_payload.splits prod.splits)

lemma merge_foldl:
  "foldl (merge_step fresh) (m, n) es = (m', n') \<Longrightarrow>
   mt_spans m' = mt_spans m @ all_spans es \<and> mt_series m' = mt_series m @ all_series es \<and>
   mt_points m' = mt_points m @ all_points es \<and>
   map tagged_log (mt_logs m') = map tagged_log (mt_logs m) @ all_logs es"
proof (induction es arbitrary: m n)
  case Nil
  then show ?case by (simp add: all_spans_def all_series_def all_points_def all_logs_def)
next
  case (Cons e es)
  obtain m1 n1 where s: "merge_step fresh (m, n) e = (m1, n1)" by fastforce
  then have "foldl (merge_step fresh) (m1, n1) es = (m', n')" using Cons.prems by simp
  from Cons.IH[OF this] merge_step_parts[OF s] show ?case
    by (simp add: all_spans_def all_series_def all_points_def all_logs_def)
qed

lemma merge_telemetry_parts:
  assumes "merge_telemetry fresh n es = (m, n')"
  shows "mt_spans m = all_spans es" "mt_series m = all_series es" "mt_points m = all_points es"
    "map tagged_log (mt_logs m) = all_logs es"
  using merge_foldl[OF assms[unfolded merge_telemetry_def]] by (simp_all add: empty_merged_def)

text \<open>Keeping one tenant's records is merging that tenant's envelopes.\<close>

lemma filter_tenant_concat:
  assumes "\<And>e x. x \<in> set (f e) \<Longrightarrow> tn x = env_tenant_id e"
  shows "filter (\<lambda>x. tn x = t) (concat (map f es)) =
         concat (map f (filter (\<lambda>e. env_tenant_id e = t) es))"
proof (induction es)
  case (Cons e es)
  have "filter (\<lambda>x. tn x = t) (f e) = (if env_tenant_id e = t then f e else [])"
    using assms by (auto simp: filter_id_conv filter_empty_conv)
  then show ?case using Cons by simp
qed simp

lemma merge_batch_loop_foldl:
  "merge_batch_loop fresh n (mt_spans m) (mt_logs m) (mt_series m) (mt_points m) es =
   foldl (merge_step fresh) (m, n) es"
proof (induction es arbitrary: m n)
  case Nil
  then show ?case by simp
next
  case (Cons e es)
  show ?case
  proof (cases "env_payload e")
    case (Spans ss)
    then show ?thesis using Cons[of n "m\<lparr>mt_spans := mt_spans m @ map (\<lambda>s. normalise_span s (env_tenant_id e)) ss\<rparr>"]
      by (simp add: merge_step_def Let_def)
  next
    case (LogRecords ls)
    obtain ls' n' where "normalise_logs fresh n ls (env_tenant_id e) = (ls', n')" by fastforce
    then show ?thesis using LogRecords Cons[of n' "m\<lparr>mt_logs := mt_logs m @ ls'\<rparr>"]
      by (simp add: merge_step_def Let_def)
  next
    case (MetricData sr pt)
    then show ?thesis
      using Cons[of n "m\<lparr>mt_series := mt_series m @ map (\<lambda>s. normalise_metric_series s (env_tenant_id e)) sr,
        mt_points := mt_points m @ map (\<lambda>p. normalise_metric_point p (env_tenant_id e)) pt\<rparr>"]
      by (simp add: merge_step_def Let_def)
  qed
qed

lemma merge_batch_eq: "merge_batch fresh n es = merge_telemetry fresh n es"
  using merge_batch_loop_foldl[of fresh n empty_merged es]
  by (simp add: merge_batch_def merge_telemetry_def empty_merged_def)

subsection \<open>The properties\<close>

text \<open>
  C6. Merging is tenant isolated and complete: the merged records of a tenant are, in
  order, exactly the normalised records of the envelopes of that tenant, whatever tenant
  ids the records carried themselves; nothing is lost, duplicated or moved to another
  tenant. (Logs up to their ids, which normalisation may draw.)
\<close>

theorem merge_tenant_isolated:
  "case merge_telemetry fresh n es of (m, n') \<Rightarrow>
     let mine = filter (\<lambda>e. env_tenant_id e = t) es in
     filter (\<lambda>s. sp_tenant_id s = t) (mt_spans m) = all_spans mine \<and>
     filter (\<lambda>s. ms_tenant_id s = t) (mt_series m) = all_series mine \<and>
     filter (\<lambda>p. mp_tenant_id p = t) (mt_points m) = all_points mine \<and>
     filter (\<lambda>l. fst l = t) (map tagged_log (mt_logs m)) = all_logs mine"
proof -
  obtain m n' where m: "merge_telemetry fresh n es = (m, n')" by fastforce
  note p = merge_telemetry_parts[OF m]
  have "filter (\<lambda>s. sp_tenant_id s = t) (mt_spans m) = all_spans (filter (\<lambda>e. env_tenant_id e = t) es)"
    unfolding p all_spans_def by (rule filter_tenant_concat) auto
  moreover have "filter (\<lambda>s. ms_tenant_id s = t) (mt_series m) = all_series (filter (\<lambda>e. env_tenant_id e = t) es)"
    unfolding p all_series_def by (rule filter_tenant_concat) auto
  moreover have "filter (\<lambda>p. mp_tenant_id p = t) (mt_points m) = all_points (filter (\<lambda>e. env_tenant_id e = t) es)"
    unfolding p all_points_def by (rule filter_tenant_concat) auto
  moreover have "filter (\<lambda>l. fst l = t) (map tagged_log (mt_logs m)) = all_logs (filter (\<lambda>e. env_tenant_id e = t) es)"
    unfolding p all_logs_def by (rule filter_tenant_concat) auto
  ultimately show ?thesis by (simp add: m Let_def)
qed

text \<open>
  The stream processor's \<open>merge_batch\<close> and the shared library's \<open>merge_telemetry\<close>
  compute the same batch, drawing the same ids.
\<close>

theorem merge_batch_is_merge_telemetry: "merge_batch fresh n es = merge_telemetry fresh n es"
  by (rule merge_batch_eq)

text \<open>
  Normalising a span is idempotent, stamps the tenant, and derives a missing duration
  from the timestamps without ever wrapping: an end before the start gives zero.
\<close>

theorem normalise_span_correct:
  "normalise_span (normalise_span s t) t = normalise_span s t \<and>
   sp_tenant_id (normalise_span s t) = t \<and>
   unat (sp_duration_ns (normalise_span s t)) =
     (if sp_duration_ns s = 0
      then unat (sp_end_time_unix_nano s) - unat (sp_start_time_unix_nano s)
      else unat (sp_duration_ns s))"
  by (simp add: normalise_span_idem) (simp add: normalise_span_def Let_def unat_saturating_sub)

end
