(* ===== verification/Batching.thy ===== *)
theory Batching
  imports Process "HOL-Library.AList"
begin

section \<open>Retrying sinks and the batching consumer\<close>

text \<open>
  \<open>services/stream-processor/src/consumer.rs\<close>: a handler is retried with exponential
  backoff until it accepts a batch (\<open>flush_with_retry\<close>), and Kafka offsets are committed
  only after it has (\<open>run_batch\<close>). What the loop relies on is stated as the locales
  \<open>sink\<close> and \<open>ordered_sink\<close>; the storage writer's flush loops use the first one too.

  A computation that may wait for ever is a partial function into \<open>option\<close>, where
  \<open>None\<close> is not returning. Delays are in milliseconds.
\<close>

definition initial_retry_backoff :: nat where "initial_retry_backoff = 500"
definition max_retry_backoff :: nat where "max_retry_backoff = 30000"

type_synonym ('s, 'a, 'e) handler = "'s \<Rightarrow> 'a list \<Rightarrow> 's \<times> ('e, unit) result"

text \<open>The second component collects the delays slept, in order.\<close>

partial_function (option) flush_with_retry_from ::
    "('s \<Rightarrow> 'a list \<Rightarrow> 's \<times> ('e, unit) result) \<Rightarrow> nat \<Rightarrow> 's \<Rightarrow> 'a list \<Rightarrow> nat list \<Rightarrow> ('s \<times> nat list) option" where
  "flush_with_retry_from handler backoff s batch slept =
     (case handler s batch of
        (s', Inr _) \<Rightarrow> Some (s', slept)
      | (s', Inl _) \<Rightarrow>
          flush_with_retry_from handler (min (backoff * 2) max_retry_backoff) s' batch (slept @ [backoff]))"

definition flush_with_retry :: "('s, 'a, 'e) handler \<Rightarrow> 's \<Rightarrow> 'a list \<Rightarrow> ('s \<times> nat list) option" where
  "flush_with_retry handler s batch = flush_with_retry_from handler initial_retry_backoff s batch []"

subsection \<open>How retrying behaves\<close>

text \<open>The handler's state after \<open>n\<close> failed attempts, and whether attempt \<open>n\<close> succeeds.\<close>

fun attempt_state :: "('s, 'a, 'e) handler \<Rightarrow> 's \<Rightarrow> 'a list \<Rightarrow> nat \<Rightarrow> 's" where
  "attempt_state h s b 0 = s"
| "attempt_state h s b (Suc n) = attempt_state h (fst (h s b)) b n"

definition attempt_ok :: "('s, 'a, 'e) handler \<Rightarrow> 's \<Rightarrow> 'a list \<Rightarrow> nat \<Rightarrow> bool" where
  "attempt_ok h s b n = (case snd (h (attempt_state h s b n) b) of Inr _ \<Rightarrow> True | Inl _ \<Rightarrow> False)"

fun backoff_after :: "nat \<Rightarrow> nat \<Rightarrow> nat" where
  "backoff_after b 0 = b"
| "backoff_after b (Suc n) = backoff_after (min (b * 2) max_retry_backoff) n"

lemma attempt_ok_Suc: "attempt_ok h s b (Suc n) = attempt_ok h (fst (h s b)) b n"
  by (simp add: attempt_ok_def)

lemma flush_from_success:
  assumes "attempt_ok h s b n" "\<forall>m < n. \<not> attempt_ok h s b m"
  shows "flush_with_retry_from h w s b sl =
           Some (fst (h (attempt_state h s b n) b), sl @ map (backoff_after w) [0..<n])"
  using assms
proof (induction n arbitrary: s w sl)
  case 0
  then show ?case
    by (subst flush_with_retry_from.simps) (auto simp: attempt_ok_def split: sum.splits prod.splits)
next
  case (Suc n)
  obtain s' r where h: "h s b = (s', r)" by fastforce
  have r: "\<exists>e. r = Inl e"
    using Suc.prems(2)[rule_format, of 0] h by (cases r) (simp_all add: attempt_ok_def)
  have IH: "flush_with_retry_from h (min (w * 2) max_retry_backoff) s' b (sl @ [w]) =
      Some (fst (h (attempt_state h s' b n) b),
        (sl @ [w]) @ map (backoff_after (min (w * 2) max_retry_backoff)) [0..<n])"
  proof (rule Suc.IH)
    show "attempt_ok h s' b n" using Suc.prems(1) h by (simp add: attempt_ok_Suc)
    show "\<forall>m < n. \<not> attempt_ok h s' b m"
      using Suc.prems(2) h by (metis Suc_less_eq attempt_ok_Suc fst_conv)
  qed
  have "map (backoff_after w) [0..<Suc n] = w # map (backoff_after (min (w * 2) max_retry_backoff)) [0..<n]"
    by (simp add: upt_conv_Cons map_Suc_upt[symmetric] del: upt_Suc)
  then show ?case
    using IH h r by (subst flush_with_retry_from.simps) auto
qed

lemma flush_from_returns:
  assumes "flush_with_retry_from h w s b sl = Some r"
  shows "\<exists>n. attempt_ok h s b n"
proof (rule flush_with_retry_from.raw_induct[where P = "\<lambda>h w s b sl r. \<exists>n. attempt_ok h s b n", OF _ assms])
  fix F h w s b sl r
  assume IH: "\<And>h w s b sl r. F h w s b sl = Some r \<Longrightarrow> \<exists>n. attempt_ok h s b n"
    and "(case h s b of (s', Inl x) \<Rightarrow> F h (min (w * 2) max_retry_backoff) s' b (sl @ [w])
          | (s', Inr xa) \<Rightarrow> Some (s', sl)) = Some r"
  then show "\<exists>n. attempt_ok h s b n"
  proof (cases "h s b")
    case (Pair s' x)
    show ?thesis
    proof (cases x)
      case (Inl e)
      then obtain n where "attempt_ok h s' b n"
        using IH Pair \<open>_ = Some r\<close> by fastforce
      then have "attempt_ok h s b (Suc n)" using Pair by (simp add: attempt_ok_Suc)
      then show ?thesis by blast
    next
      case (Inr u)
      then have "attempt_ok h s b 0" using Pair by (simp add: attempt_ok_def)
      then show ?thesis by blast
    qed
  qed
qed

text \<open>
  Returning is succeeding at some attempt: the first successful one, after the delays of
  the failed ones.
\<close>

lemma flush_from_iff:
  "flush_with_retry_from h w s b sl = Some r \<longleftrightarrow>
   (\<exists>n. attempt_ok h s b n \<and> (\<forall>m < n. \<not> attempt_ok h s b m) \<and>
        r = (fst (h (attempt_state h s b n) b), sl @ map (backoff_after w) [0..<n]))"
proof
  assume *: "flush_with_retry_from h w s b sl = Some r"
  obtain k where "attempt_ok h s b k" using flush_from_returns[OF *] ..
  define n where "n = (LEAST n. attempt_ok h s b n)"
  have n: "attempt_ok h s b n" "\<forall>m < n. \<not> attempt_ok h s b m"
    using \<open>attempt_ok h s b k\<close> by (auto simp: n_def intro: LeastI dest: not_less_Least)
  from flush_from_success[OF n, of w sl] *
  have "r = (fst (h (attempt_state h s b n) b), sl @ map (backoff_after w) [0..<n])" by simp
  with n show "\<exists>n. attempt_ok h s b n \<and> (\<forall>m < n. \<not> attempt_ok h s b m) \<and>
        r = (fst (h (attempt_state h s b n) b), sl @ map (backoff_after w) [0..<n])"
    by (intro exI[of _ n] conjI)
next
  assume "\<exists>n. attempt_ok h s b n \<and> (\<forall>m < n. \<not> attempt_ok h s b m) \<and>
        r = (fst (h (attempt_state h s b n) b), sl @ map (backoff_after w) [0..<n])"
  then show "flush_with_retry_from h w s b sl = Some r"
    by (elim exE conjE) (simp only: flush_from_success)
qed

lemma backoff_closed: "w \<le> max_retry_backoff \<Longrightarrow> backoff_after w n = min (w * 2 ^ n) max_retry_backoff"
proof (induction n arbitrary: w)
  case (Suc n)
  have "min (min (w * 2) max_retry_backoff * 2 ^ n) max_retry_backoff = min (w * 2 * 2 ^ n) max_retry_backoff"
  proof (cases "w * 2 \<le> max_retry_backoff")
    case False
    have "max_retry_backoff * 1 \<le> max_retry_backoff * 2 ^ n" "max_retry_backoff * 1 \<le> w * 2 * 2 ^ n"
      using False by (intro mult_le_mono; simp)+
    then show ?thesis using False by simp
  qed simp
  then show ?case using Suc.IH[of "min (w * 2) max_retry_backoff"] by (simp add: mult.assoc)
qed simp

text \<open>A property kept by failed attempts and established by the successful one.\<close>

lemma flush_with_retry_inv:
  assumes f: "flush_with_retry h s b = Some (s', sl)"
    and fail: "\<And>s s1 e. P s \<Longrightarrow> h s b = (s1, Inl e) \<Longrightarrow> P s1"
    and ok: "\<And>s s1 u. P s \<Longrightarrow> h s b = (s1, Inr u) \<Longrightarrow> Q s1"
    and "P s"
  shows "Q s'"
proof -
  obtain n where n: "attempt_ok h s b n" "\<forall>m < n. \<not> attempt_ok h s b m"
    "s' = fst (h (attempt_state h s b n) b)"
    using f by (auto simp: flush_with_retry_def flush_from_iff)
  have "P (attempt_state h s b n)"
    using n(2) \<open>P s\<close>
  proof (induction n arbitrary: s)
    case (Suc n)
    obtain s1 r where h: "h s b = (s1, r)" by fastforce
    obtain e where "r = Inl e"
      using Suc.prems(1)[rule_format, of 0] h by (cases r) (simp_all add: attempt_ok_def)
    then have "P s1" using fail Suc.prems(2) h by blast
    moreover have "\<forall>m < n. \<not> attempt_ok h s1 b m"
      using Suc.prems(1) h by (metis Suc_less_eq attempt_ok_Suc fst_conv)
    ultimately show ?case using Suc.IH h by simp
  qed simp
  moreover obtain s1 r where h: "h (attempt_state h s b n) b = (s1, r)" by fastforce
  moreover have "\<exists>u. r = Inr u" using n(1) h by (cases r) (simp_all add: attempt_ok_def)
  ultimately show ?thesis using ok n(3) by force
qed

subsection \<open>What a batching loop relies on\<close>

text \<open>
  A sink takes a batch and may never return; when it does, it holds every item of the
  batch and still holds what it held before. An ordered sink holds a sequence, to which
  a successful batch is appended; it is a sink.
\<close>

locale sink =
  fixes deliver :: "'s \<Rightarrow> 'a list \<Rightarrow> 's option"
    and holds :: "'s \<Rightarrow> 'a \<Rightarrow> bool"
  assumes deliver_holds: "deliver s xs = Some s' \<Longrightarrow> x \<in> set xs \<Longrightarrow> holds s' x"
    and deliver_keeps: "deliver s xs = Some s' \<Longrightarrow> holds s x \<Longrightarrow> holds s' x"
begin

lemma deliver_covers:
  "deliver s xs = Some s' \<Longrightarrow> (\<forall>x \<in> set ys. holds s x) \<Longrightarrow> \<forall>x \<in> set (ys @ xs). holds s' x"
  using deliver_holds deliver_keeps by auto

end

locale ordered_sink =
  fixes deliver :: "'s \<Rightarrow> 'a list \<Rightarrow> 's option"
    and delivered :: "'s \<Rightarrow> 'a list"
  assumes deliver_appends: "deliver s xs = Some s' \<Longrightarrow> delivered s' = delivered s @ xs"

sublocale ordered_sink \<subseteq> sink deliver "\<lambda>s x. x \<in> set (delivered s)"
  by unfold_locales (auto dest: deliver_appends)

subsection \<open>The consumer loop\<close>

text \<open>
  The environment of the loop is the handler's state together with the list of items (envelopes)
  it has accepted; the latter is not in the code, it names what the handler has done.
\<close>

type_synonym ('a, 's) logged = "'s \<times> 'a list"

definition log_accepted ::
    "('s, 'a, 'e) handler \<Rightarrow> (('a, 's) logged, 'a, 'e) handler" where
  "log_accepted h sl batch =
     (case h (fst sl) batch of
        (s', Inr u) \<Rightarrow> ((s', snd sl @ batch), Inr u)
      | (s', Inl e) \<Rightarrow> ((s', snd sl), Inl e))"

definition process_batch ::
    "('s, 'a, 'e) handler \<Rightarrow> ('a, 's) logged \<Rightarrow> 'a list \<Rightarrow> ('a, 's) logged option" where
  "process_batch h s batch = map_option fst (flush_with_retry (log_accepted h) s batch)"

text \<open>What \<open>recv\<close> returns; a message may lack a payload.\<close>

type_synonym partition_id = "32 word"
type_synonym kafka_offset = "64 word"

datatype ('b, 'e) received =
    Message partition_id kafka_offset "'b option"
  | Retryable_error
  | Fatal_error 'e

datatype ('b, 'e) loop_event = Recv "('b, 'e) received" | Interval_tick

datatype 'e control = Continue | Return 'e

type_synonym watermark = "(partition_id \<times> kafka_offset) list"

record ('a, 's) consumer_state =
  cs_buf :: "'a list"
  cs_watermark :: watermark
  cs_env :: 's
  cs_commits :: "watermark list" \<comment> \<open>the offset lists handed to the broker, in order\<close>

text \<open>
  \<open>commit\<close>: an empty watermark is a no-op; otherwise each offset plus one is handed to
  the broker, whose answer \<open>commit_result\<close> is a parameter.
\<close>

definition commit_watermark ::
    "(watermark \<Rightarrow> 'e option) \<Rightarrow> ('a, 's) consumer_state \<Rightarrow> ('a, 's) consumer_state \<times> 'e control" where
  "commit_watermark commit_result st =
     (if cs_watermark st = [] then (st, Continue)
      else let tpl = map (\<lambda>(p, off). (p, off + 1)) (cs_watermark st)
           in case commit_result tpl of
                Some e \<Rightarrow> (st, Return e)
              | None \<Rightarrow> (st\<lparr>cs_commits := cs_commits st @ [tpl]\<rparr>, Continue))"

text \<open>Commit, and clear the watermark unless the commit's error ends the loop.\<close>

definition commit_and_clear ::
    "(watermark \<Rightarrow> 'e option) \<Rightarrow> ('a, 's) consumer_state \<Rightarrow> ('a, 's) consumer_state \<times> 'e control" where
  "commit_and_clear commit_result st =
     (case commit_watermark commit_result st of
        (st', Return e) \<Rightarrow> (st', Return e)
      | (st', Continue) \<Rightarrow> (st'\<lparr>cs_watermark := []\<rparr>, Continue))"

text \<open>
  One turn of \<open>run_batch\<close>. \<open>deliver\<close> is the retried handler, \<open>parse\<close> the JSON decoder of
  the payload. \<open>None\<close> is a handler that is retried for ever.
\<close>

definition run_batch_step ::
    "('s \<Rightarrow> 'a list \<Rightarrow> 's option) \<Rightarrow> (watermark \<Rightarrow> 'e option) \<Rightarrow>
     ('b \<Rightarrow> 'a option) \<Rightarrow> nat \<Rightarrow> ('a, 's) consumer_state \<Rightarrow> ('b, 'e) loop_event \<Rightarrow>
     (('a, 's) consumer_state \<times> 'e control) option" where
  "run_batch_step deliver commit_result parse max_size st ev =
     (case ev of
        Recv Retryable_error \<Rightarrow> Some (st, Continue)
      | Recv (Fatal_error e) \<Rightarrow> Some (st, Return e)
      | Recv (Message p off payload) \<Rightarrow>
          (let st = st\<lparr>cs_watermark := AList.update p off (cs_watermark st)\<rparr>
           in case Option.bind payload parse of
                None \<Rightarrow> Some (st, Continue)
              | Some env \<Rightarrow>
                  let st = st\<lparr>cs_buf := cs_buf st @ [env]\<rparr>
                  in if length (cs_buf st) \<ge> max_size
                     then (case deliver (cs_env st) (cs_buf st) of
                             None \<Rightarrow> None
                           | Some s' \<Rightarrow> Some (commit_and_clear commit_result (st\<lparr>cs_buf := [], cs_env := s'\<rparr>)))
                     else Some (st, Continue))
      | Interval_tick \<Rightarrow>
          (if cs_buf st \<noteq> []
           then (case deliver (cs_env st) (cs_buf st) of
                   None \<Rightarrow> None
                 | Some s' \<Rightarrow> Some (commit_and_clear commit_result (st\<lparr>cs_buf := [], cs_env := s'\<rparr>)))
           else Some (commit_and_clear commit_result st)))"

fun run_batch ::
    "('s \<Rightarrow> 'a list \<Rightarrow> 's option) \<Rightarrow> (watermark \<Rightarrow> 'e option) \<Rightarrow>
     ('b \<Rightarrow> 'a option) \<Rightarrow> nat \<Rightarrow> ('a, 's) consumer_state \<Rightarrow> ('b, 'e) loop_event list \<Rightarrow>
     (('a, 's) consumer_state \<times> 'e control) option" where
  "run_batch deliver commit_result parse max_size st [] = Some (st, Continue)"
| "run_batch deliver commit_result parse max_size st (ev # evs) =
     (case run_batch_step deliver commit_result parse max_size st ev of
        None \<Rightarrow> None
      | Some (st', Return e) \<Rightarrow> Some (st', Return e)
      | Some (st', Continue) \<Rightarrow> run_batch deliver commit_result parse max_size st' evs)"

definition start_state :: "'s \<Rightarrow> ('a, 's) consumer_state" where
  "start_state s = \<lparr>cs_buf = [], cs_watermark = [], cs_env = s, cs_commits = []\<rparr>"

text \<open>The envelopes a sequence of events carries.\<close>

definition parsed_event :: "('b \<Rightarrow> 'a option) \<Rightarrow> ('b, 'e) loop_event \<Rightarrow> 'a list" where
  "parsed_event parse ev =
     (case ev of
        Recv (Message p off payload) \<Rightarrow>
          (case Option.bind payload parse of None \<Rightarrow> [] | Some env \<Rightarrow> [env])
      | _ \<Rightarrow> [])"

definition parsed :: "('b \<Rightarrow> 'a option) \<Rightarrow> ('b, 'e) loop_event list \<Rightarrow> 'a list" where
  "parsed parse evs = concat (map (parsed_event parse) evs)"

subsection \<open>What the loop guarantees over any ordered sink\<close>

lemma commit_and_clear_facts:
  assumes "commit_and_clear cr st = (st', c)"
  shows "cs_buf st' = cs_buf st" "cs_env st' = cs_env st"
    "cs_commits st' = cs_commits st \<or>
     cs_commits st' = cs_commits st @ [map (\<lambda>(p, off). (p, off + 1)) (cs_watermark st)]"
    "c = Continue \<Longrightarrow> cs_watermark st' = []"
  using assms
  by (auto simp: commit_and_clear_def commit_watermark_def Let_def split: if_splits option.splits control.splits)

context ordered_sink
begin

text \<open>
  Every envelope is either delivered or still buffered, in order; a step that commits
  leaves the buffer empty.
\<close>

lemma step_accounts:
  assumes "run_batch_step deliver cr parse k st ev = Some (st', c)"
  shows "delivered (cs_env st') @ cs_buf st' = delivered (cs_env st) @ cs_buf st @ parsed_event parse ev"
    and "cs_commits st' \<noteq> cs_commits st \<Longrightarrow> cs_buf st' = []"
proof -
  have "delivered (cs_env st') @ cs_buf st' = delivered (cs_env st) @ cs_buf st @ parsed_event parse ev \<and>
        (cs_commits st' \<noteq> cs_commits st \<longrightarrow> cs_buf st' = [])"
  proof (cases ev)
    case Interval_tick
    show ?thesis
    proof (cases "cs_buf st = []")
      case True
      then have "commit_and_clear cr st = (st', c)"
        using assms Interval_tick by (simp add: run_batch_step_def)
      from commit_and_clear_facts[OF this] show ?thesis
        using True Interval_tick by (simp add: parsed_event_def)
    next
      case False
      then obtain s' where s': "deliver (cs_env st) (cs_buf st) = Some s'"
        "commit_and_clear cr (st\<lparr>cs_buf := [], cs_env := s'\<rparr>) = (st', c)"
        using assms Interval_tick by (auto simp: run_batch_step_def split: option.splits)
      from commit_and_clear_facts[OF s'(2)] deliver_appends[OF s'(1)] show ?thesis
        using Interval_tick by (simp add: parsed_event_def)
    qed
  next
    case (Recv r)
    show ?thesis
    proof (cases r)
      case (Message p off payload)
      define st1 where "st1 = st\<lparr>cs_watermark := AList.update p off (cs_watermark st)\<rparr>"
      show ?thesis
      proof (cases "Option.bind payload parse")
        case None
        then show ?thesis using assms Recv Message
          by (auto simp: run_batch_step_def parsed_event_def Let_def)
      next
        case (Some env)
        have pe: "parsed_event parse ev = [env]" using Some Recv Message by (simp add: parsed_event_def)
        show ?thesis
        proof (cases "length (cs_buf st @ [env]) \<ge> k")
          case True
          then obtain s' where s': "deliver (cs_env st) (cs_buf st @ [env]) = Some s'"
            "commit_and_clear cr (st1\<lparr>cs_buf := [], cs_env := s'\<rparr>) = (st', c)"
            using assms Recv Message Some
            by (auto simp: run_batch_step_def Let_def st1_def split: option.splits)
          from commit_and_clear_facts[OF s'(2)] deliver_appends[OF s'(1)] show ?thesis
            using pe by (simp add: st1_def)
        next
          case False
          then have "st' = st1\<lparr>cs_buf := cs_buf st @ [env]\<rparr>"
            using assms Recv Message Some by (auto simp: run_batch_step_def Let_def st1_def)
          then show ?thesis using pe by (simp add: st1_def)
        qed
      qed
    qed (use assms Recv in \<open>auto simp: run_batch_step_def parsed_event_def\<close>)
  qed
  then show "delivered (cs_env st') @ cs_buf st' = delivered (cs_env st) @ cs_buf st @ parsed_event parse ev"
    "cs_commits st' \<noteq> cs_commits st \<Longrightarrow> cs_buf st' = []" by blast+
qed

lemma run_accounts:
  "run_batch deliver cr parse k st evs = Some (st', Continue) \<Longrightarrow>
   delivered (cs_env st') @ cs_buf st' = delivered (cs_env st) @ cs_buf st @ parsed parse evs"
proof (induction evs arbitrary: st)
  case (Cons ev evs)
  obtain st1 c where s: "run_batch_step deliver cr parse k st ev = Some (st1, c)"
    using Cons.prems by (auto split: option.splits)
  then have "c = Continue" "run_batch deliver cr parse k st1 evs = Some (st', Continue)"
    using Cons.prems by (auto split: control.splits)
  with Cons.IH[OF this(2)] step_accounts(1)[OF s] show ?case by (simp add: parsed_def)
qed (simp add: parsed_def)

lemma commit_after_delivery:
  assumes "run_batch deliver cr parse k (start_state s) evs = Some (st, Continue)"
    and "run_batch_step deliver cr parse k st ev = Some (st', c)"
    and "cs_commits st' \<noteq> cs_commits st"
  shows "delivered (cs_env st') = delivered s @ parsed parse (evs @ [ev])"
  using run_accounts[OF assms(1)] step_accounts[OF assms(2)] assms(3)
  by (simp add: start_state_def parsed_def)

end

lemma deliver_process_batch:
  assumes "process_batch h s xs = Some s'"
  shows "snd s' = snd s @ xs"
proof -
  obtain sl where f: "flush_with_retry (log_accepted h) s xs = Some (s', sl)"
    using assms by (auto simp: process_batch_def)
  show ?thesis
    by (rule flush_with_retry_inv[OF f, where P = "\<lambda>t. snd t = snd s" and Q = "\<lambda>t. snd t = snd s @ xs"])
      (auto simp: log_accepted_def split: sum.splits prod.splits)
qed

text \<open>The retried handler is an ordered sink, whatever the handler.\<close>

interpretation stream: ordered_sink "process_batch h" snd for h
  by unfold_locales (rule deliver_process_batch)

subsection \<open>What is committed\<close>

definition received_at :: "('b, 'e) loop_event list \<Rightarrow> partition_id \<times> kafka_offset \<Rightarrow> bool" where
  "received_at evs po \<longleftrightarrow> (\<exists>pl. Recv (Message (fst po) (snd po) pl) \<in> set evs)"

lemma received_at_mono: "received_at evs po \<Longrightarrow> set evs \<subseteq> set evs' \<Longrightarrow> received_at evs' po"
  by (auto simp: received_at_def)

lemma set_update_subset: "set (AList.update k v xs) \<subseteq> insert (k, v) (set xs)"
  by (induction xs) auto

lemma step_watermark:
  assumes "run_batch_step deliver cr parse k st ev = Some (st', c)"
    and "\<forall>po \<in> set (cs_watermark st). received_at evs po"
  shows "\<forall>po \<in> set (cs_watermark st'). received_at (evs @ [ev]) po"
    and "cs_commits st' = cs_commits st \<or>
         (\<exists>tpl. cs_commits st' = cs_commits st @ [tpl] \<and>
            (\<forall>(p, off) \<in> set tpl. received_at (evs @ [ev]) (p, off - 1)))"
proof -
  have wm: "\<forall>po \<in> set (cs_watermark st2). received_at (evs @ [ev]) po"
    "cs_commits st2 = cs_commits st1 \<or> (\<exists>tpl. cs_commits st2 = cs_commits st1 @ [tpl] \<and>
            (\<forall>(p, off) \<in> set tpl. received_at (evs @ [ev]) (p, off - 1)))"
    if "commit_and_clear cr st1 = (st2, c2)" "\<forall>po \<in> set (cs_watermark st1). received_at (evs @ [ev]) po"
    for st1 st2 c2
    using that
    by (auto simp: commit_and_clear_def commit_watermark_def Let_def split: if_splits option.splits control.splits)
  have old: "\<forall>po \<in> set (cs_watermark st). received_at (evs @ [ev]) po"
    using assms(2) received_at_mono[of evs _ "evs @ [ev]"] by auto
  have new: "\<forall>po \<in> set (AList.update p off (cs_watermark st)). received_at (evs @ [ev]) po"
    if "ev = Recv (Message p off pl)" for p off pl
  proof
    fix po assume "po \<in> set (AList.update p off (cs_watermark st))"
    then have "po = (p, off) \<or> po \<in> set (cs_watermark st)"
      using set_update_subset[of p off "cs_watermark st"] by blast
    then show "received_at (evs @ [ev]) po"
      using old that by (auto simp: received_at_def)
  qed
  have "(\<forall>po \<in> set (cs_watermark st'). received_at (evs @ [ev]) po) \<and>
    (cs_commits st' = cs_commits st \<or>
         (\<exists>tpl. cs_commits st' = cs_commits st @ [tpl] \<and>
            (\<forall>(p, off) \<in> set tpl. received_at (evs @ [ev]) (p, off - 1))))"
  proof (cases ev)
    case Interval_tick
    show ?thesis
    proof (cases "cs_buf st = []")
      case True
      then show ?thesis using assms(1) Interval_tick wm[OF _ old] by (simp add: run_batch_step_def)
    next
      case False
      then obtain s' where "commit_and_clear cr (st\<lparr>cs_buf := [], cs_env := s'\<rparr>) = (st', c)"
        using assms(1) Interval_tick by (auto simp: run_batch_step_def split: option.splits)
      from wm[OF this] old show ?thesis by simp
    qed
  next
    case (Recv r)
    show ?thesis
    proof (cases r)
      case (Message p off pl)
      note new = new[OF Recv[unfolded Message]]
      consider (keep) "cs_watermark st' = AList.update p off (cs_watermark st)" "cs_commits st' = cs_commits st"
        | (com) s' where "commit_and_clear cr
              (st\<lparr>cs_watermark := AList.update p off (cs_watermark st), cs_buf := [], cs_env := s'\<rparr>) = (st', c)"
        using assms(1) Recv Message
        by (auto simp: run_batch_step_def Let_def split: option.splits if_splits)
      then show ?thesis
      proof cases
        case keep
        then show ?thesis using new by simp
      next
        case com
        from wm[OF com] new show ?thesis by simp
      qed
    qed (use assms(1) Recv old in \<open>auto simp: run_batch_step_def\<close>)
  qed
  then show "\<forall>po \<in> set (cs_watermark st'). received_at (evs @ [ev]) po"
    "cs_commits st' = cs_commits st \<or>
         (\<exists>tpl. cs_commits st' = cs_commits st @ [tpl] \<and>
            (\<forall>(p, off) \<in> set tpl. received_at (evs @ [ev]) (p, off - 1)))" by blast+
qed

lemma run_watermark:
  "run_batch deliver cr parse k st evs = Some (st', Continue) \<Longrightarrow>
   \<forall>po \<in> set (cs_watermark st). received_at evs0 po \<Longrightarrow>
   \<forall>po \<in> set (cs_watermark st'). received_at (evs0 @ evs) po"
proof (induction evs arbitrary: st evs0)
  case (Cons ev evs)
  obtain st1 c where s: "run_batch_step deliver cr parse k st ev = Some (st1, c)"
    using Cons.prems(1) by (auto split: option.splits)
  then have "c = Continue" and r: "run_batch deliver cr parse k st1 evs = Some (st', Continue)"
    using Cons.prems(1) by (auto split: control.splits)
  from Cons.IH[OF r step_watermark(1)[OF s Cons.prems(2)]] show ?case by simp
qed simp

subsection \<open>The properties\<close>

text \<open>
  C11. Retrying with backoff returns exactly when some attempt succeeds, after the first
  one that does, having slept after failure \<open>i\<close> for 500 ms doubled \<open>i\<close> times, capped at 30 s.
\<close>

theorem flush_with_retry_returns_iff:
  "flush_with_retry h s b = Some r \<longleftrightarrow>
   (\<exists>n. attempt_ok h s b n \<and> (\<forall>m < n. \<not> attempt_ok h s b m) \<and>
        r = (fst (h (attempt_state h s b n) b), map (\<lambda>i. min (500 * 2 ^ i) 30000) [0..<n]))"
proof -
  have "backoff_after 500 = (\<lambda>i. min (500 * 2 ^ i) 30000)"
    using backoff_closed[of 500] by (auto simp: max_retry_backoff_def)
  then show ?thesis by (simp add: flush_with_retry_def flush_from_iff initial_retry_backoff_def)
qed

text \<open>
  C12. Offsets are committed only after delivery: at every step of the consumer loop that
  hands offsets to the broker, every envelope received so far on any partition has been
  accepted by the handler, in order of arrival and exactly once; and each committed offset
  is one past the offset of a message that was received.
\<close>

theorem commit_only_after_delivery:
  assumes "run_batch (process_batch h) cr parse k (start_state (s, [])) evs = Some (st, Continue)"
    and "run_batch_step (process_batch h) cr parse k st ev = Some (st', c)"
    and "cs_commits st' \<noteq> cs_commits st"
  shows "snd (cs_env st') = parsed parse (evs @ [ev]) \<and>
         (\<exists>tpl. cs_commits st' = cs_commits st @ [tpl] \<and>
            (\<forall>(p, off) \<in> set tpl. received_at (evs @ [ev]) (p, off - 1)))"
proof -
  have "\<forall>po \<in> set (cs_watermark st). received_at evs po"
    using run_watermark[OF assms(1), of "[]"] by (simp add: start_state_def)
  from step_watermark(2)[OF assms(2) this] assms(3) stream.commit_after_delivery[OF assms]
  show ?thesis by simp
qed

definition sample_envelope :: telemetry_envelope where
  "sample_envelope = \<lparr>env_envelope_id = 1, env_tenant_id = 7, env_environment = ''prod'',
     env_received_at_unix_nano = 0, env_payload = LogRecords []\<rparr>"

text \<open>A handler that fails once and then accepts.\<close>

definition flaky_handler :: "(bool, telemetry_envelope, string) handler" where
  "flaky_handler ok b = (True, if ok then Inr () else Inl ''down'')"

lemma flaky_delivers: "process_batch flaky_handler (ok, l) b = Some ((True, l @ b))"
proof (cases ok)
  case True
  have "attempt_ok (log_accepted flaky_handler) (ok, l) b 0"
    using True by (simp add: attempt_ok_def log_accepted_def flaky_handler_def)
  from flush_from_success[OF this, of initial_retry_backoff "[]"] show ?thesis using True
    by (simp add: process_batch_def flush_with_retry_def log_accepted_def flaky_handler_def)
next
  case False
  have 1: "attempt_ok (log_accepted flaky_handler) (ok, l) b 1"
    using False by (simp add: attempt_ok_def log_accepted_def flaky_handler_def)
  have 0: "\<forall>m < 1. \<not> attempt_ok (log_accepted flaky_handler) (ok, l) b m"
    using False by (simp add: attempt_ok_def log_accepted_def flaky_handler_def)
  from flush_from_success[OF 1 0, of initial_retry_backoff "[]"] show ?thesis using False
    by (simp add: process_batch_def flush_with_retry_def log_accepted_def flaky_handler_def)
qed

definition sample_events :: "(string, string) loop_event list" where
  "sample_events = [Recv (Message 0 41 (Some ''e'')), Recv (Message 1 7 None), Recv Retryable_error]"

definition sample_parse :: "string \<Rightarrow> telemetry_envelope option" where
  "sample_parse s = (if s = ''e'' then Some sample_envelope else None)"

theorem commit_only_after_delivery_witness:
  "\<exists>st st'. run_batch (process_batch flaky_handler) (\<lambda>_. None) sample_parse 10
       (start_state (False, [])) sample_events = Some (st, Continue) \<and>
     run_batch_step (process_batch flaky_handler) (\<lambda>_. None) sample_parse 10 st Interval_tick = Some (st', Continue) \<and>
     cs_commits st' = [[(0, 42), (1, 8)]] \<and> snd (cs_env st') = [sample_envelope]"
proof -
  define st :: "(telemetry_envelope, bool \<times> telemetry_envelope list) consumer_state" where
    "st = \<lparr>cs_buf = [sample_envelope], cs_watermark = [(0, 41), (1, 7)], cs_env = (False, []), cs_commits = []\<rparr>"
  define st' :: "(telemetry_envelope, bool \<times> telemetry_envelope list) consumer_state" where
    "st' = \<lparr>cs_buf = [], cs_watermark = [], cs_env = (True, [sample_envelope]),
       cs_commits = [[(0, 42), (1, 8)]]\<rparr>"
  have r: "run_batch (process_batch flaky_handler) (\<lambda>_. None) sample_parse 10
       (start_state (False, [])) sample_events = Some (st, Continue)"
    by (simp add: sample_events_def start_state_def run_batch_step_def sample_parse_def st_def Let_def)
  have s: "run_batch_step (process_batch flaky_handler) (\<lambda>_. None) sample_parse 10 st Interval_tick = Some (st', Continue)"
    by (simp add: run_batch_step_def st_def st'_def flaky_delivers commit_and_clear_def
        commit_watermark_def)
  have "snd (cs_env st') = parsed sample_parse (sample_events @ [Interval_tick])"
    using commit_only_after_delivery[OF r s] by (simp add: st_def st'_def)
  then show ?thesis using r s
    by (intro exI[of _ st] exI[of _ st']) (simp add: st'_def)
qed

theorem flush_with_retry_returns_iff_witness:
  "flush_with_retry flaky_handler False [sample_envelope] = Some (True, [500])"
proof -
  have 1: "attempt_ok flaky_handler False [sample_envelope] 1"
    by (simp add: attempt_ok_def flaky_handler_def)
  have 0: "\<not> attempt_ok flaky_handler False [sample_envelope] 0"
    by (simp add: attempt_ok_def flaky_handler_def)
  show ?thesis
    unfolding flush_with_retry_returns_iff
    by (rule exI[of _ 1]) (use 0 1 in \<open>simp add: flaky_handler_def\<close>)
qed

end
