(* ===== verification/Write_Buffer.thy ===== *)
theory Write_Buffer
  imports Batching Storage_Rows
begin

section \<open>The storage writer: inserts and flush loops\<close>

text \<open>
  \<open>services/storage-writer/src\<close>: the insert functions (\<open>spans.rs\<close>, \<open>logs.rs\<close>,
  \<open>metrics.rs\<close>), the deduplication token (\<open>lib.rs\<close>) and the write buffer's flush loops
  (\<open>buffer.rs\<close>). The ClickHouse client is a parameter: a record of the three calls an
  insert makes, each of which may fail; \<open>row_json\<close> is \<open>serde_json::to_vec\<close> of a row.
\<close>

datatype stored_row =
    Span_row span_row
  | Span_event_row span_event_row
  | Log_row log_row
  | Series_row metric_series_row
  | Point_row metric_point_row

record ('s, 'h, 'e) clickhouse =
  ch_insert :: "'s \<Rightarrow> string \<Rightarrow> string \<Rightarrow> 's \<times> ('e, 'h) result" \<comment> \<open>table, token\<close>
  ch_write :: "'s \<Rightarrow> 'h \<Rightarrow> stored_row \<Rightarrow> 's \<times> ('e, 'h) result"
  ch_end :: "'s \<Rightarrow> 'h \<Rightarrow> 's \<times> ('e, unit) result"

subsection \<open>The deduplication token\<close>

fun hex_digit :: "nat \<Rightarrow> char" where
  "hex_digit n = (if n < 10 then char_of (48 + n) else char_of (87 + n))"

text \<open>\<open>{:016x}\<close>: sixteen hexadecimal digits.\<close>

definition hex16 :: "u64 \<Rightarrow> string" where
  "hex16 w = map (\<lambda>i. hex_digit (unat (drop_bit (4 * (15 - i)) w AND 15))) [0..<16]"

fun feed_rows :: "('r \<Rightarrow> string option) \<Rightarrow> u64 \<times> u64 \<Rightarrow> 'r list \<Rightarrow> u64 \<times> u64" where
  "feed_rows row_json st [] = st"
| "feed_rows row_json st (r # rs) =
     feed_rows row_json
       (case row_json r of None \<Rightarrow> st | Some s \<Rightarrow> fnv_feed (fnv_feed st s) ''\<newline>'') rs"

definition batch_deduplication_token :: "('r \<Rightarrow> string option) \<Rightarrow> string \<Rightarrow> 'r list \<Rightarrow> string" where
  "batch_deduplication_token row_json table rows =
     (case feed_rows row_json (fnv_feed (fnv_feed fnv_start table) '':'') rows of
        (hi, lo) \<Rightarrow> table @ ''-'' @ hex16 hi @ hex16 lo)"

subsection \<open>Inserting\<close>

text \<open>
  The state of an insert is the client's state together with the rows of every insert that
  was ended successfully; the latter names what ClickHouse has acknowledged.
\<close>

type_synonym 's persisting = "'s \<times> stored_row list"

fun write_rows ::
    "('s, 'h, 'e) clickhouse \<Rightarrow> 's \<Rightarrow> 'h \<Rightarrow> stored_row list \<Rightarrow> 's \<times> ('e, 'h) result" where
  "write_rows ch s h [] = (s, Inr h)"
| "write_rows ch s h (r # rs) =
     (case ch_write ch s h r of
        (s', Inl e) \<Rightarrow> (s', Inl e)
      | (s', Inr h') \<Rightarrow> write_rows ch s' h' rs)"

definition insert_rows ::
    "('s, 'h, 'e) clickhouse \<Rightarrow> (stored_row \<Rightarrow> string option) \<Rightarrow> string \<Rightarrow> 's persisting \<Rightarrow> stored_row list \<Rightarrow>
     's persisting \<times> ('e, unit) result" where
  "insert_rows ch row_json table st rows =
     (case st of (s, done) \<Rightarrow>
      let token = batch_deduplication_token row_json table rows in
      case ch_insert ch s table token of
        (s1, Inl e) \<Rightarrow> ((s1, done), Inl e)
      | (s1, Inr h) \<Rightarrow>
          (case write_rows ch s1 h rows of
             (s2, Inl e) \<Rightarrow> ((s2, done), Inl e)
           | (s2, Inr h') \<Rightarrow>
               (case ch_end ch s2 h' of
                  (s3, Inl e) \<Rightarrow> ((s3, done), Inl e)
                | (s3, Inr u) \<Rightarrow> ((s3, done @ rows), Inr u))))"

definition insert_spans ::
    "('s, 'h, 'e) clickhouse \<Rightarrow> serde \<Rightarrow> (stored_row \<Rightarrow> string option) \<Rightarrow> 's persisting \<Rightarrow> span list \<Rightarrow>
     's persisting \<times> ('e, unit) result" where
  "insert_spans ch S row_json st spans =
     (if spans = [] then (st, Inr ())
      else let all_events = concat (map sp_events spans);
               rows = map (\<lambda>s. Span_row (span_row_from S s)) spans
           in case insert_rows ch row_json ''spans'' st rows of
                (st', Inl e) \<Rightarrow> (st', Inl e)
              | (st', Inr u) \<Rightarrow>
                  (if all_events \<noteq> []
                   then insert_rows ch row_json ''span_events'' st'
                          (map (\<lambda>e. Span_event_row (span_event_row_from S e)) all_events)
                   else (st', Inr ())))"

definition insert_logs ::
    "('s, 'h, 'e) clickhouse \<Rightarrow> serde \<Rightarrow> (stored_row \<Rightarrow> string option) \<Rightarrow> 's persisting \<Rightarrow> log_record list \<Rightarrow>
     's persisting \<times> ('e, unit) result" where
  "insert_logs ch S row_json st logs =
     (if logs = [] then (st, Inr ())
      else insert_rows ch row_json ''logs'' st (map (\<lambda>l. Log_row (log_row_from S l)) logs))"

definition insert_metric_series ::
    "('s, 'h, 'e) clickhouse \<Rightarrow> serde \<Rightarrow> (stored_row \<Rightarrow> string option) \<Rightarrow> 's persisting \<Rightarrow> metric_series list \<Rightarrow>
     's persisting \<times> ('e, unit) result" where
  "insert_metric_series ch S row_json st series =
     (if series = [] then (st, Inr ())
      else insert_rows ch row_json ''metric_series'' st (map (\<lambda>s. Series_row (series_row_from S s)) series))"

definition insert_metric_points ::
    "('s, 'h, 'e) clickhouse \<Rightarrow> (stored_row \<Rightarrow> string option) \<Rightarrow> 's persisting \<Rightarrow> metric_point list \<Rightarrow>
     's persisting \<times> ('e, unit) result" where
  "insert_metric_points ch row_json st points =
     (if points = [] then (st, Inr ())
      else insert_rows ch row_json ''metric_points'' st (map (\<lambda>p. Point_row (point_row_from p)) points))"

text \<open>The rows a span stands for: its own and its events'.\<close>

definition span_rows :: "serde \<Rightarrow> span \<Rightarrow> stored_row list" where
  "span_rows S s = Span_row (span_row_from S s) # map (\<lambda>e. Span_event_row (span_event_row_from S e)) (sp_events s)"

lemma insert_rows_facts:
  assumes "insert_rows ch rj t st rows = (st', r)"
  shows "set (snd st) \<subseteq> set (snd st')" "r = Inr () \<Longrightarrow> snd st' = snd st @ rows" "r \<noteq> Inr () \<Longrightarrow> snd st' = snd st"
  using assms
  by (auto simp: insert_rows_def Let_def split: prod.splits sum.splits)

lemma insert_spans_facts:
  assumes "insert_spans ch S rj st xs = (st', r)"
  shows "set (snd st) \<subseteq> set (snd st')" "r = Inr () \<Longrightarrow> x \<in> set xs \<Longrightarrow> set (span_rows S x) \<subseteq> set (snd st')"
proof -
  have "set (snd st) \<subseteq> set (snd st') \<and> (r = Inr () \<longrightarrow> (\<forall>x \<in> set xs. set (span_rows S x) \<subseteq> set (snd st')))"
  proof (cases "xs = []")
    case True
    then show ?thesis using assms by (simp add: insert_spans_def)
  next
    case False
    define rows where "rows = map (\<lambda>s. Span_row (span_row_from S s)) xs"
    define evs where "evs = map (\<lambda>e. Span_event_row (span_event_row_from S e)) (concat (map sp_events xs))"
    obtain st1 r1 where 1: "insert_rows ch rj ''spans'' st rows = (st1, r1)" by fastforce
    show ?thesis
    proof (cases r1)
      case (Inl e)
      then have "st' = st1" "r = Inl e" using assms 1 False
        by (simp_all add: insert_spans_def rows_def Let_def)
      then show ?thesis using insert_rows_facts(1)[OF 1] by simp
    next
      case (Inr u)
      note p1 = insert_rows_facts(2)[OF 1, unfolded Inr]
      have "set (snd st) \<subseteq> set (snd st') \<and> (r = Inr () \<longrightarrow> set (rows @ evs) \<subseteq> set (snd st'))"
      proof (cases "concat (map sp_events xs) = []")
        case True
        then show ?thesis using assms 1 False Inr p1
          by (auto simp: insert_spans_def rows_def evs_def Let_def)
      next
        case ne: False
        then have 2: "insert_rows ch rj ''span_events'' st1 evs = (st', r)"
          using assms 1 False Inr by (simp add: insert_spans_def rows_def evs_def Let_def)
        show ?thesis using p1 insert_rows_facts(1,2)[OF 2] by (cases "r = Inr ()") auto
      qed
      moreover have "set (span_rows S x) \<subseteq> set (rows @ evs)" if "x \<in> set xs" for x
        using that by (auto simp: rows_def evs_def span_rows_def)
      ultimately show ?thesis by blast
    qed
  qed
  then show "set (snd st) \<subseteq> set (snd st')"
    "r = Inr () \<Longrightarrow> x \<in> set xs \<Longrightarrow> set (span_rows S x) \<subseteq> set (snd st')" by blast+
qed

subsection \<open>Retrying until success\<close>

text \<open>
  \<open>retry_until_success\<close> has the same shape as the consumer's \<open>flush_with_retry\<close>: the same
  delays, the same loop, over the rows to insert.
\<close>

partial_function (option) retry_from ::
    "('s \<Rightarrow> 'a list \<Rightarrow> 's \<times> ('e, unit) result) \<Rightarrow> nat \<Rightarrow> 's \<Rightarrow> 'a list \<Rightarrow> 's option" where
  "retry_from ins backoff s rows =
     (case ins s rows of
        (s', Inr _) \<Rightarrow> Some s'
      | (s', Inl _) \<Rightarrow> retry_from ins (min (backoff * 2) max_retry_backoff) s' rows)"

definition retry_until_success :: "('s \<Rightarrow> 'a list \<Rightarrow> 's \<times> ('e, unit) result) \<Rightarrow> 's \<Rightarrow> 'a list \<Rightarrow> 's option" where
  "retry_until_success ins s rows = retry_from ins initial_retry_backoff s rows"

lemma retry_from_inv:
  assumes "retry_from ins w s rows = Some s'"
    and "\<And>s s1 e. P s \<Longrightarrow> ins s rows = (s1, Inl e) \<Longrightarrow> P s1"
    and "\<And>s s1 u. P s \<Longrightarrow> ins s rows = (s1, Inr u) \<Longrightarrow> Q s1"
    and "P s"
  shows "Q s'"
proof -
  have "(\<forall>s s1 e. P s \<longrightarrow> ins s rows = (s1, Inl e) \<longrightarrow> P s1) \<longrightarrow>
        (\<forall>s s1 u. P s \<longrightarrow> ins s rows = (s1, Inr u) \<longrightarrow> Q s1) \<longrightarrow> P s \<longrightarrow> Q s'"
  proof (rule retry_from.raw_induct[where P = "\<lambda>ins w s rows s'.
        (\<forall>s s1 e. P s \<longrightarrow> ins s rows = (s1, Inl e) \<longrightarrow> P s1) \<longrightarrow>
        (\<forall>s s1 u. P s \<longrightarrow> ins s rows = (s1, Inr u) \<longrightarrow> Q s1) \<longrightarrow> P s \<longrightarrow> Q s'", OF _ assms(1)])
    fix F ins w s rows s'
    assume IH: "\<And>ins w s rows s'. F ins w s rows = Some s' \<Longrightarrow>
        (\<forall>s s1 e. P s \<longrightarrow> ins s rows = (s1, Inl e) \<longrightarrow> P s1) \<longrightarrow>
        (\<forall>s s1 u. P s \<longrightarrow> ins s rows = (s1, Inr u) \<longrightarrow> Q s1) \<longrightarrow> P s \<longrightarrow> Q s'"
      and step: "(case ins s rows of (s', Inl x) \<Rightarrow> F ins (min (w * 2) max_retry_backoff) s' rows
          | (s', Inr xa) \<Rightarrow> Some s') = Some s'"
    show "(\<forall>s s1 e. P s \<longrightarrow> ins s rows = (s1, Inl e) \<longrightarrow> P s1) \<longrightarrow>
        (\<forall>s s1 u. P s \<longrightarrow> ins s rows = (s1, Inr u) \<longrightarrow> Q s1) \<longrightarrow> P s \<longrightarrow> Q s'"
    proof (cases "ins s rows")
      case (Pair s1 r)
      then show ?thesis using step IH[of ins "min (w * 2) max_retry_backoff" s1 rows s']
        by (cases r) auto
    qed
  qed
  with assms show ?thesis by blast
qed

text \<open>
  The contract of an insert function: whatever its result it keeps what is persisted, and
  when it succeeds the rows of every item are persisted. Retried, it is a sink.
\<close>

locale covering_insert =
  fixes ins :: "'s persisting \<Rightarrow> 'a list \<Rightarrow> 's persisting \<times> ('e, unit) result"
    and rows_of :: "'a \<Rightarrow> stored_row list"
  assumes keeps: "ins st xs = (st', r) \<Longrightarrow> set (snd st) \<subseteq> set (snd st')"
    and covers: "ins st xs = (st', Inr u) \<Longrightarrow> x \<in> set xs \<Longrightarrow> set (rows_of x) \<subseteq> set (snd st')"
begin

lemma retry_facts:
  assumes "retry_until_success ins st xs = Some st'"
  shows "set (snd st) \<subseteq> set (snd st') \<and> (\<forall>x \<in> set xs. set (rows_of x) \<subseteq> set (snd st'))"
proof (rule retry_from_inv[OF assms[unfolded retry_until_success_def],
      where P = "\<lambda>t. set (snd st) \<subseteq> set (snd t)"])
  show "set (snd st) \<subseteq> set (snd s1)" if "set (snd st) \<subseteq> set (snd s)" "ins s xs = (s1, Inl e)" for s s1 e
    using that keeps by blast
  show "set (snd st) \<subseteq> set (snd s1) \<and> (\<forall>x \<in> set xs. set (rows_of x) \<subseteq> set (snd s1))"
    if "set (snd st) \<subseteq> set (snd s)" "ins s xs = (s1, Inr u)" for s s1 u
    using that keeps covers by blast
qed simp

end

sublocale covering_insert \<subseteq> sink "retry_until_success ins" "\<lambda>st x. set (rows_of x) \<subseteq> set (snd st)"
  by unfold_locales (use retry_facts in blast)+

lemma insert_single_table:
  assumes "(if xs = [] then (st, Inr ()) else insert_rows ch rj t st (map f xs)) = (st', r)"
  shows "set (snd st) \<subseteq> set (snd st')" "r = Inr () \<Longrightarrow> x \<in> set xs \<Longrightarrow> set [f x] \<subseteq> set (snd st')"
proof -
  show "set (snd st) \<subseteq> set (snd st')"
    using assms insert_rows_facts(1)[of ch rj t st "map f xs" st' r] by (simp split: if_splits)
  show "r = Inr () \<Longrightarrow> x \<in> set xs \<Longrightarrow> set [f x] \<subseteq> set (snd st')"
    using assms insert_rows_facts(2)[of ch rj t st "map f xs" st' r] by (auto split: if_splits)
qed

interpretation spans: covering_insert "insert_spans ch S rj" "span_rows S" for ch S rj
proof
  show "set (snd st) \<subseteq> set (snd st')" if "insert_spans ch S rj st xs = (st', r)" for st xs st' r
    using that by (rule insert_spans_facts(1))
  show "set (span_rows S x) \<subseteq> set (snd st')" if "insert_spans ch S rj st xs = (st', Inr u)" "x \<in> set xs"
    for st xs st' u x
    using insert_spans_facts(2)[OF that(1)] that(2) by simp
qed

interpretation logs: covering_insert "insert_logs ch S rj" "\<lambda>l. [Log_row (log_row_from S l)]" for ch S rj
  by unfold_locales (use insert_single_table in \<open>fastforce simp: insert_logs_def\<close>)+

interpretation series: covering_insert "insert_metric_series ch S rj" "\<lambda>s. [Series_row (series_row_from S s)]"
  for ch S rj
  by unfold_locales (use insert_single_table in \<open>fastforce simp: insert_metric_series_def\<close>)+

interpretation points: covering_insert "insert_metric_points ch rj" "\<lambda>p. [Point_row (point_row_from p)]"
  for ch rj
  by unfold_locales (use insert_single_table in \<open>fastforce simp: insert_metric_points_def\<close>)+

subsection \<open>The flush loops\<close>

text \<open>
  The three loops receive submissions with an optional acknowledgement channel, named by a
  number. \<open>fs_acked\<close> lists the acknowledgements sent, in order. The boolean of a step says
  whether the loop goes on; \<open>None\<close> is an insert that is retried for ever.
\<close>

record 'a flush_state =
  fs_buf :: "'a list"
  fs_acks :: "nat list"
  fs_acked :: "nat list"

definition flush_start :: "'a flush_state" where
  "flush_start = \<lparr>fs_buf = [], fs_acks = [], fs_acked = []\<rparr>"

datatype 'a flush_event = Submitted "'a list" "nat option" | Channel_closed | Flush_tick

definition option_list :: "'a option \<Rightarrow> 'a list" where
  "option_list x = (case x of None \<Rightarrow> [] | Some y \<Rightarrow> [y])"

text \<open>Flush everything buffered, then \<open>ack_all\<close> the acknowledgements taken with it.\<close>

definition flush_and_ack ::
    "('s \<Rightarrow> 'a list \<Rightarrow> 's option) \<Rightarrow> 'a flush_state \<Rightarrow> 's \<Rightarrow> ('a flush_state \<times> 's) option" where
  "flush_and_ack deliver fs s =
     map_option (\<lambda>s'. (\<lparr>fs_buf = [], fs_acks = [], fs_acked = fs_acked fs @ fs_acks fs\<rparr>, s'))
       (deliver s (fs_buf fs))"

definition flush_loop_step ::
    "('s \<Rightarrow> 'a list \<Rightarrow> 's option) \<Rightarrow> nat \<Rightarrow> 'a flush_state \<times> 's \<Rightarrow> 'a flush_event \<Rightarrow>
     (('a flush_state \<times> 's) \<times> bool) option" where
  "flush_loop_step deliver max_rows st ev =
     (case st of (fs, s) \<Rightarrow>
      case ev of
        Submitted batch ack \<Rightarrow>
          (let fs = fs\<lparr>fs_buf := fs_buf fs @ batch, fs_acks := fs_acks fs @ option_list ack\<rparr>
           in if length (fs_buf fs) \<ge> max_rows
              then map_option (\<lambda>st'. (st', True)) (flush_and_ack deliver fs s)
              else Some ((fs, s), True))
      | Channel_closed \<Rightarrow>
          (if fs_buf fs = [] then Some ((fs, s), False)
           else map_option (\<lambda>st'. (st', False)) (flush_and_ack deliver fs s))
      | Flush_tick \<Rightarrow>
          (if fs_buf fs \<noteq> []
           then map_option (\<lambda>st'. (st', True)) (flush_and_ack deliver fs s)
           else Some ((fs, s), True)))"

definition spans_flush_step ::
    "('s, 'h, 'e) clickhouse \<Rightarrow> serde \<Rightarrow> (stored_row \<Rightarrow> string option) \<Rightarrow> nat \<Rightarrow>
     span flush_state \<times> 's persisting \<Rightarrow> span flush_event \<Rightarrow>
     ((span flush_state \<times> 's persisting) \<times> bool) option" where
  "spans_flush_step ch S rj = flush_loop_step (retry_until_success (insert_spans ch S rj))"

definition logs_flush_step ::
    "('s, 'h, 'e) clickhouse \<Rightarrow> serde \<Rightarrow> (stored_row \<Rightarrow> string option) \<Rightarrow> nat \<Rightarrow>
     log_record flush_state \<times> 's persisting \<Rightarrow> log_record flush_event \<Rightarrow>
     ((log_record flush_state \<times> 's persisting) \<times> bool) option" where
  "logs_flush_step ch S rj = flush_loop_step (retry_until_success (insert_logs ch S rj))"

fun flush_loop ::
    "('st \<Rightarrow> 'ev \<Rightarrow> ('st \<times> bool) option) \<Rightarrow> 'st \<Rightarrow> 'ev list \<Rightarrow> 'st option" where
  "flush_loop step st [] = Some st"
| "flush_loop step st (ev # evs) =
     (case step st ev of
        None \<Rightarrow> None
      | Some (st', go_on) \<Rightarrow> if go_on then flush_loop step st' evs else Some st')"

text \<open>
  The metrics loop keeps two buffers. Its flush joins two independent retry loops; the
  schedule says which of the two makes the next attempt, and a schedule that ends before
  both are done is a flush that has not returned.
\<close>

fun flush_metrics ::
    "('s \<Rightarrow> 'a list \<Rightarrow> 's \<times> ('e, unit) result) \<Rightarrow> ('s \<Rightarrow> 'b list \<Rightarrow> 's \<times> ('e, unit) result) \<Rightarrow>
     bool list \<Rightarrow> 's \<Rightarrow> 'a list option \<Rightarrow> 'b list option \<Rightarrow> 's option" where
  "flush_metrics ins_s ins_p sched s None None = Some s"
| "flush_metrics ins_s ins_p [] s ss ps = None"
| "flush_metrics ins_s ins_p (b # sched) s ss ps =
     (case (if b then ss else None) of
        Some xs \<Rightarrow>
          (case ins_s s xs of
             (s', Inr _) \<Rightarrow> flush_metrics ins_s ins_p sched s' None ps
           | (s', Inl _) \<Rightarrow> flush_metrics ins_s ins_p sched s' ss ps)
      | None \<Rightarrow>
          (case (if b then None else ps) of
             Some xs \<Rightarrow>
               (case ins_p s xs of
                  (s', Inr _) \<Rightarrow> flush_metrics ins_s ins_p sched s' ss None
                | (s', Inl _) \<Rightarrow> flush_metrics ins_s ins_p sched s' ss ps)
           | None \<Rightarrow> flush_metrics ins_s ins_p sched s ss ps))"

record metrics_flush_state =
  mf_series :: "metric_series list"
  mf_points :: "metric_point list"
  mf_acks :: "nat list"
  mf_acked :: "nat list"

definition metrics_flush_start :: metrics_flush_state where
  "metrics_flush_start = \<lparr>mf_series = [], mf_points = [], mf_acks = [], mf_acked = []\<rparr>"

datatype metrics_event =
    Metrics_submitted "metric_series list" "metric_point list" "nat option"
  | Metrics_closed
  | Metrics_tick

definition metrics_flush_and_ack ::
    "('s, 'h, 'e) clickhouse \<Rightarrow> serde \<Rightarrow> (stored_row \<Rightarrow> string option) \<Rightarrow> bool list \<Rightarrow>
     metrics_flush_state \<Rightarrow> 's persisting \<Rightarrow> (metrics_flush_state \<times> 's persisting) option" where
  "metrics_flush_and_ack ch S rj sched mf s =
     map_option (\<lambda>s'. (\<lparr>mf_series = [], mf_points = [], mf_acks = [], mf_acked = mf_acked mf @ mf_acks mf\<rparr>, s'))
       (flush_metrics (insert_metric_series ch S rj) (insert_metric_points ch rj) sched s
          (Some (mf_series mf)) (Some (mf_points mf)))"

definition metrics_flush_step ::
    "('s, 'h, 'e) clickhouse \<Rightarrow> serde \<Rightarrow> (stored_row \<Rightarrow> string option) \<Rightarrow> bool list \<Rightarrow> nat \<Rightarrow>
     metrics_flush_state \<times> 's persisting \<Rightarrow> metrics_event \<Rightarrow>
     ((metrics_flush_state \<times> 's persisting) \<times> bool) option" where
  "metrics_flush_step ch S rj sched max_rows st ev =
     (case st of (mf, s) \<Rightarrow>
      case ev of
        Metrics_submitted sr pt ack \<Rightarrow>
          (let mf = mf\<lparr>mf_series := mf_series mf @ sr, mf_points := mf_points mf @ pt,
                       mf_acks := mf_acks mf @ option_list ack\<rparr>
           in if length (mf_series mf) + length (mf_points mf) \<ge> max_rows
              then map_option (\<lambda>st'. (st', True)) (metrics_flush_and_ack ch S rj sched mf s)
              else Some ((mf, s), True))
      | Metrics_closed \<Rightarrow>
          (if mf_series mf \<noteq> [] \<or> mf_points mf \<noteq> []
           then map_option (\<lambda>st'. (st', False)) (metrics_flush_and_ack ch S rj sched mf s)
           else Some ((mf, s), False))
      | Metrics_tick \<Rightarrow>
          (if mf_series mf \<noteq> [] \<or> mf_points mf \<noteq> []
           then map_option (\<lambda>st'. (st', True)) (metrics_flush_and_ack ch S rj sched mf s)
           else Some ((mf, s), True)))"

subsection \<open>What a flush loop guarantees over any sink\<close>

definition submission :: "'a flush_event \<Rightarrow> ('a list \<times> nat option) list" where
  "submission ev = (case ev of Submitted xs a \<Rightarrow> [(xs, a)] | _ \<Rightarrow> [])"

definition submissions :: "'a flush_event list \<Rightarrow> ('a list \<times> nat option) list" where
  "submissions evs = concat (map submission evs)"

definition rows_in :: "('a list \<times> nat option) list \<Rightarrow> 'a list" where
  "rows_in subs = concat (map fst subs)"

definition acks_in :: "('a list \<times> nat option) list \<Rightarrow> nat list" where
  "acks_in subs = concat (map (option_list \<circ> snd) subs)"

text \<open>
  The submissions so far split into those that were flushed and acknowledged, all of whose
  rows the store holds, and those still waiting, which are what is buffered.
\<close>

definition accounted ::
    "('s \<Rightarrow> 'a \<Rightarrow> bool) \<Rightarrow> 'a flush_state \<times> 's \<Rightarrow> ('a list \<times> nat option) list \<Rightarrow> bool" where
  "accounted holds st subs \<longleftrightarrow>
     (case st of (fs, s) \<Rightarrow>
      \<exists>finished waiting. subs = finished @ waiting \<and>
        fs_acked fs = acks_in finished \<and> (\<forall>x \<in> set (rows_in finished). holds s x) \<and>
        fs_buf fs = rows_in waiting \<and> fs_acks fs = acks_in waiting)"

lemma in_append [simp]:
  "rows_in (xs @ ys) = rows_in xs @ rows_in ys" "acks_in (xs @ ys) = acks_in xs @ acks_in ys"
  "rows_in [] = []" "acks_in [] = []" "rows_in [(r, a)] = r" "acks_in [(r, a)] = option_list a"
  by (simp_all add: rows_in_def acks_in_def)

lemma accountedI:
  assumes "subs = fin @ wait" "fs_acked fs = acks_in fin" "\<forall>x \<in> set (rows_in fin). holds s x"
    "fs_buf fs = rows_in wait" "fs_acks fs = acks_in wait"
  shows "accounted holds (fs, s) subs"
  unfolding accounted_def prod.case by (intro exI conjI) (rule assms)+

context sink
begin

lemma flush_accounts:
  assumes "accounted holds (fs, s) subs" "flush_and_ack deliver fs s = Some st'"
  shows "accounted holds st' subs"
proof -
  obtain fin wait where w: "subs = fin @ wait" "fs_acked fs = acks_in fin"
    "\<forall>x \<in> set (rows_in fin). holds s x" "fs_buf fs = rows_in wait" "fs_acks fs = acks_in wait"
    using assms(1) by (auto simp: accounted_def)
  obtain s' where s': "deliver s (rows_in wait) = Some s'"
    "st' = (\<lparr>fs_buf = [], fs_acks = [], fs_acked = fs_acked fs @ fs_acks fs\<rparr>, s')"
    using assms(2) w(4) by (auto simp: flush_and_ack_def)
  have "\<forall>x \<in> set (rows_in (fin @ wait)). holds s' x"
    using deliver_covers[OF s'(1) w(3)] by simp
  then show ?thesis unfolding s'(2) using w
    by (intro accountedI[of _ "fin @ wait" "[]"]) simp_all
qed

lemma step_accounts:
  assumes "accounted holds st subs" "flush_loop_step deliver max_rows st ev = Some (st', go_on)"
  shows "accounted holds st' (subs @ submission ev)"
proof -
  obtain fs s where st: "st = (fs, s)" by (cases st)
  show ?thesis
  proof (cases ev)
    case (Submitted batch ack)
    define fs1 where "fs1 = fs\<lparr>fs_buf := fs_buf fs @ batch, fs_acks := fs_acks fs @ option_list ack\<rparr>"
    obtain fin wait where w: "subs = fin @ wait" "fs_acked fs = acks_in fin"
      "\<forall>x \<in> set (rows_in fin). holds s x" "fs_buf fs = rows_in wait" "fs_acks fs = acks_in wait"
      using assms(1) st by (auto simp: accounted_def)
    have a1: "accounted holds (fs1, s) (subs @ submission ev)"
      using w Submitted
      by (intro accountedI[of _ fin "wait @ [(batch, ack)]"]) (simp_all add: fs1_def submission_def)
    have "(flush_and_ack deliver fs1 s = Some st') \<or> st' = (fs1, s)"
      using assms(2) st Submitted by (auto simp: flush_loop_step_def fs1_def[symmetric] Let_def split: if_splits)
    then show ?thesis using flush_accounts[OF a1] a1 by blast
  qed (use assms st flush_accounts in \<open>auto simp: flush_loop_step_def submission_def split: if_splits\<close>)
qed

lemma step_goes_on:
  "flush_loop_step deliver max_rows st ev = Some (st', go_on) \<Longrightarrow> go_on \<longleftrightarrow> ev \<noteq> Channel_closed"
  by (cases st; cases ev) (auto simp: flush_loop_step_def Let_def split: if_splits)

lemma loop_accounts:
  "flush_loop (flush_loop_step deliver max_rows) st evs = Some st' \<Longrightarrow> accounted holds st subs \<Longrightarrow>
   Channel_closed \<notin> set (butlast evs) \<Longrightarrow> accounted holds st' (subs @ submissions evs)"
proof (induction evs arbitrary: st subs)
  case (Cons ev evs)
  obtain st1 g where s: "flush_loop_step deliver max_rows st ev = Some (st1, g)"
    using Cons.prems(1) by (auto split: option.splits)
  note acc = step_accounts[OF Cons.prems(2) s]
  show ?case
  proof (cases "evs = []")
    case True
    then have "st' = st1" using Cons.prems(1) s by (simp split: if_splits)
    then show ?thesis using acc True by (simp add: submissions_def)
  next
    case False
    then have "g" using step_goes_on[OF s] Cons.prems(3) by auto
    then have "flush_loop (flush_loop_step deliver max_rows) st1 evs = Some st'"
      using Cons.prems(1) s by simp
    from Cons.IH[OF this acc] Cons.prems(3) False show ?thesis by (simp add: submissions_def)
  qed
qed (simp add: submissions_def)

lemma start_accounts: "accounted holds (flush_start, s) []"
  by (auto simp: accounted_def flush_start_def)

end

end
