(* ===== verification/Storage_Writer.thy ===== *)
theory Storage_Writer
  imports Write_Buffer
begin

section \<open>Durable sends and the normalized-topic consumer\<close>

text \<open>
  \<open>WriteBuffer::send_*_durable\<close> (\<open>buffer.rs\<close>) and \<open>NormalizedConsumer::run\<close>
  (\<open>normalized_consumer.rs\<close>). The consumer is the only sender and waits for each
  acknowledgement, so between its submission and the acknowledgement the flush loop sees
  nothing but ticks; one tick decides, because a loop whose buffer stays empty never
  answers. The \<open>Err\<close> answers (a flush loop that stopped) do not occur while the loops run.
\<close>

subsection \<open>The metrics flush covers both tables\<close>

lemma flush_metrics_facts:
  assumes "covering_insert ins_s f" "covering_insert ins_p g"
  shows "flush_metrics ins_s ins_p sched s ss ps = Some s' \<Longrightarrow>
    set (snd s) \<subseteq> set (snd s') \<and>
    (\<forall>xs. ss = Some xs \<longrightarrow> (\<forall>x \<in> set xs. set (f x) \<subseteq> set (snd s'))) \<and>
    (\<forall>xs. ps = Some xs \<longrightarrow> (\<forall>x \<in> set xs. set (g x) \<subseteq> set (snd s')))"
proof (induction sched arbitrary: s ss ps)
  case Nil
  then show ?case by (cases ss; cases ps) simp_all
next
  case (Cons b sched)
  note ks = covering_insert.keeps[OF assms(1)] and cs = covering_insert.covers[OF assms(1)]
  note kp = covering_insert.keeps[OF assms(2)] and cp = covering_insert.covers[OF assms(2)]
  consider (stop) "ss = None" "ps = None"
    | (series) xs where "b" "ss = Some xs"
    | (points) xs where "\<not> b" "ps = Some xs"
    | (skip) "flush_metrics ins_s ins_p sched s ss ps = Some s'"
    using Cons.prems by (cases b; cases ss; cases ps) auto
  then show ?case
  proof cases
    case stop
    then show ?thesis using Cons.prems by simp
  next
    case series
    obtain s1 r where i: "ins_s s xs = (s1, r)" by fastforce
    have "flush_metrics ins_s ins_p sched s1 (case r of Inr _ \<Rightarrow> None | Inl _ \<Rightarrow> ss) ps = Some s'"
      using Cons.prems series i by (cases ps; cases r) auto
    note IH = Cons.IH[OF this]
    show ?thesis
    proof (cases r)
      case (Inl e)
      then show ?thesis using IH ks[OF i] by auto
    next
      case (Inr u)
      then show ?thesis using IH ks[OF i] cs[OF i[unfolded Inr]] series by (auto 5 3)
    qed
  next
    case points
    obtain s1 r where i: "ins_p s xs = (s1, r)" by fastforce
    have "flush_metrics ins_s ins_p sched s1 ss (case r of Inr _ \<Rightarrow> None | Inl _ \<Rightarrow> ps) = Some s'"
      using Cons.prems points i by (cases ss; cases r) auto
    note IH = Cons.IH[OF this]
    show ?thesis
    proof (cases r)
      case (Inl e)
      then show ?thesis using IH kp[OF i] by auto
    next
      case (Inr u)
      then show ?thesis using IH kp[OF i] cp[OF i[unfolded Inr]] points by (auto 5 3)
    qed
  next
    case skip
    then show ?thesis using Cons.IH by blast
  qed
qed

subsection \<open>The writer and its durable sends\<close>

record 's writer =
  wr_spans :: "span flush_state"
  wr_logs :: "log_record flush_state"
  wr_metrics :: metrics_flush_state
  wr_env :: "'s persisting"
  wr_next_ack :: nat

definition writer_new :: "'s \<Rightarrow> 's writer" where
  "writer_new s = \<lparr>wr_spans = flush_start, wr_logs = flush_start, wr_metrics = metrics_flush_start,
     wr_env = (s, []), wr_next_ack = 0\<rparr>"

text \<open>Submit with a fresh acknowledgement and wait for it.\<close>

definition submit_and_wait ::
    "('a flush_state \<times> 'env \<Rightarrow> 'a flush_event \<Rightarrow> (('a flush_state \<times> 'env) \<times> bool) option) \<Rightarrow>
     'a flush_state \<times> 'env \<Rightarrow> 'a list \<Rightarrow> nat \<Rightarrow> ('a flush_state \<times> 'env) option" where
  "submit_and_wait step st rows ack =
     (case step st (Submitted rows (Some ack)) of
        None \<Rightarrow> None
      | Some ((fs, s), _) \<Rightarrow>
          if ack \<in> set (fs_acked fs) then Some (fs, s)
          else (case step (fs, s) Flush_tick of
                  None \<Rightarrow> None
                | Some ((fs', s'), _) \<Rightarrow> if ack \<in> set (fs_acked fs') then Some (fs', s') else None))"

definition send_spans_durable ::
    "('s, 'h, 'e) clickhouse \<Rightarrow> serde \<Rightarrow> (stored_row \<Rightarrow> string option) \<Rightarrow> nat \<Rightarrow>
     's writer \<Rightarrow> span list \<Rightarrow> 's writer option" where
  "send_spans_durable ch S rj max_rows w spans =
     map_option (\<lambda>(fs, s). w\<lparr>wr_spans := fs, wr_env := s, wr_next_ack := Suc (wr_next_ack w)\<rparr>)
       (submit_and_wait (spans_flush_step ch S rj max_rows) (wr_spans w, wr_env w) spans (wr_next_ack w))"

definition send_logs_durable ::
    "('s, 'h, 'e) clickhouse \<Rightarrow> serde \<Rightarrow> (stored_row \<Rightarrow> string option) \<Rightarrow> nat \<Rightarrow>
     's writer \<Rightarrow> log_record list \<Rightarrow> 's writer option" where
  "send_logs_durable ch S rj max_rows w logs =
     map_option (\<lambda>(fs, s). w\<lparr>wr_logs := fs, wr_env := s, wr_next_ack := Suc (wr_next_ack w)\<rparr>)
       (submit_and_wait (logs_flush_step ch S rj max_rows) (wr_logs w, wr_env w) logs (wr_next_ack w))"

definition send_metrics_durable ::
    "('s, 'h, 'e) clickhouse \<Rightarrow> serde \<Rightarrow> (stored_row \<Rightarrow> string option) \<Rightarrow> bool list \<Rightarrow> nat \<Rightarrow>
     's writer \<Rightarrow> metric_series list \<Rightarrow> metric_point list \<Rightarrow> 's writer option" where
  "send_metrics_durable ch S rj sched max_rows w sr pt =
     (let ack = wr_next_ack w; step = metrics_flush_step ch S rj sched max_rows in
      case step (wr_metrics w, wr_env w) (Metrics_submitted sr pt (Some ack)) of
        None \<Rightarrow> None
      | Some ((mf, s), _) \<Rightarrow>
          if ack \<in> set (mf_acked mf)
          then Some (w\<lparr>wr_metrics := mf, wr_env := s, wr_next_ack := Suc ack\<rparr>)
          else (case step (mf, s) Metrics_tick of
                  None \<Rightarrow> None
                | Some ((mf', s'), _) \<Rightarrow>
                    if ack \<in> set (mf_acked mf')
                    then Some (w\<lparr>wr_metrics := mf', wr_env := s', wr_next_ack := Suc ack\<rparr>)
                    else None))"

subsection \<open>The consumer\<close>

record 's normalized_state =
  ns_writer :: "'s writer"
  ns_commits :: "(partition_id \<times> kafka_offset) list"

definition commit_one ::
    "(partition_id \<times> kafka_offset \<Rightarrow> 'x option) \<Rightarrow> 's normalized_state \<Rightarrow> partition_id \<Rightarrow> kafka_offset \<Rightarrow>
     's normalized_state \<times> 'x control" where
  "commit_one commit_result st p off =
     (case commit_result (p, off + 1) of
        Some e \<Rightarrow> (st, Return e)
      | None \<Rightarrow> (st\<lparr>ns_commits := ns_commits st @ [(p, off + 1)]\<rparr>, Continue))"

definition store_batch ::
    "('s, 'h, 'e) clickhouse \<Rightarrow> serde \<Rightarrow> (stored_row \<Rightarrow> string option) \<Rightarrow> bool list \<Rightarrow> nat \<Rightarrow>
     's writer \<Rightarrow> normalized_batch \<Rightarrow> 's writer option" where
  "store_batch ch S rj sched max_rows w batch =
     Option.bind (if nb_spans batch \<noteq> [] then send_spans_durable ch S rj max_rows w (nb_spans batch) else Some w)
       (\<lambda>w. Option.bind (if nb_logs batch \<noteq> [] then send_logs_durable ch S rj max_rows w (nb_logs batch) else Some w)
       (\<lambda>w. if nb_series batch \<noteq> [] \<or> nb_points batch \<noteq> []
            then send_metrics_durable ch S rj sched max_rows w (nb_series batch) (nb_points batch)
            else Some w))"

definition normalized_step ::
    "('s, 'h, 'e) clickhouse \<Rightarrow> serde \<Rightarrow> (stored_row \<Rightarrow> string option) \<Rightarrow> bool list \<Rightarrow> nat \<Rightarrow>
     ('b \<Rightarrow> normalized_batch option) \<Rightarrow> (partition_id \<times> kafka_offset \<Rightarrow> 'x option) \<Rightarrow>
     's normalized_state \<Rightarrow> partition_id \<times> kafka_offset \<times> 'b option \<Rightarrow>
     ('s normalized_state \<times> 'x control) option" where
  "normalized_step ch S rj sched max_rows parse commit_result st msg =
     (case msg of (p, off, payload) \<Rightarrow>
      case payload of
        None \<Rightarrow> Some (commit_one commit_result st p off)
      | Some bytes \<Rightarrow>
          (case parse bytes of
             None \<Rightarrow> Some (commit_one commit_result st p off)
           | Some batch \<Rightarrow>
               map_option (\<lambda>w. commit_one commit_result (st\<lparr>ns_writer := w\<rparr>) p off)
                 (store_batch ch S rj sched max_rows (ns_writer st) batch)))"

subsection \<open>A durable send means the rows are stored\<close>

definition acks_below :: "nat \<Rightarrow> 'a flush_state \<Rightarrow> bool" where
  "acks_below n fs \<longleftrightarrow> (\<forall>i \<in> set (fs_acks fs) \<union> set (fs_acked fs). i < n)"

definition writer_ok :: "'s writer \<Rightarrow> bool" where
  "writer_ok w \<longleftrightarrow> acks_below (wr_next_ack w) (wr_spans w) \<and> acks_below (wr_next_ack w) (wr_logs w) \<and>
     (\<forall>i \<in> set (mf_acks (wr_metrics w)) \<union> set (mf_acked (wr_metrics w)). i < wr_next_ack w)"

lemma writer_new_ok: "writer_ok (writer_new s)"
  by (simp add: writer_ok_def writer_new_def acks_below_def flush_start_def metrics_flush_start_def)

context covering_insert
begin

lemma flush_and_ack_covers:
  assumes "flush_and_ack (retry_until_success ins) fs s = Some (fs', s')"
  shows "set (snd s) \<subseteq> set (snd s')" "\<forall>x \<in> set (fs_buf fs). set (rows_of x) \<subseteq> set (snd s')"
    "fs_acks fs' = []" "fs_acked fs' = fs_acked fs @ fs_acks fs"
  using assms retry_facts[of s "fs_buf fs" s'] by (auto simp: flush_and_ack_def)

lemma submit_stores:
  assumes "submit_and_wait (flush_loop_step (retry_until_success ins) max_rows) (fs, s) rows ack = Some (fs', s')"
    and "acks_below ack fs"
  shows "set (snd s) \<subseteq> set (snd s')" "\<forall>x \<in> set rows. set (rows_of x) \<subseteq> set (snd s')"
    "acks_below (Suc ack) fs'"
proof -
  define fs1 where "fs1 = fs\<lparr>fs_buf := fs_buf fs @ rows, fs_acks := fs_acks fs @ [ack]\<rparr>"
  have fresh: "ack \<notin> set (fs_acked fs1)" using assms(2) by (auto simp: acks_below_def fs1_def)
  have answered: "ack \<in> set (fs_acked (fst r))" if "flush_and_ack (retry_until_success ins) fs1 s = Some r" for r
    using that by (auto simp: flush_and_ack_def fs1_def)
  have "flush_and_ack (retry_until_success ins) fs1 s = Some (fs', s')"
    using assms(1) fresh
    by (auto dest: answered simp: submit_and_wait_def flush_loop_step_def option_list_def fs1_def[symmetric] Let_def
        split: if_splits option.splits)
  note f = flush_and_ack_covers[OF this]
  show "set (snd s) \<subseteq> set (snd s')" by (rule f(1))
  show "\<forall>x \<in> set rows. set (rows_of x) \<subseteq> set (snd s')" using f(2) by (simp add: fs1_def)
  show "acks_below (Suc ack) fs'" using assms(2) f(3,4) by (auto simp: acks_below_def fs1_def less_Suc_eq)
qed

end

lemma acks_below_Suc: "acks_below n fs \<Longrightarrow> acks_below (Suc n) fs"
  by (auto simp: acks_below_def less_Suc_eq)

lemma send_spans_stores:
  assumes "send_spans_durable ch S rj k w xs = Some w'" "writer_ok w"
  shows "writer_ok w'" "set (snd (wr_env w)) \<subseteq> set (snd (wr_env w'))"
    "\<forall>x \<in> set xs. set (span_rows S x) \<subseteq> set (snd (wr_env w'))"
proof -
  obtain fs s where s: "submit_and_wait (flush_loop_step (retry_until_success (insert_spans ch S rj)) k)
      (wr_spans w, wr_env w) xs (wr_next_ack w) = Some (fs, s)"
    "w' = w\<lparr>wr_spans := fs, wr_env := s, wr_next_ack := Suc (wr_next_ack w)\<rparr>"
    using assms(1) by (auto simp: send_spans_durable_def spans_flush_step_def)
  have a: "acks_below (wr_next_ack w) (wr_spans w)" using assms(2) by (simp add: writer_ok_def)
  note st = spans.submit_stores[OF s(1) a]
  show "writer_ok w'" using assms(2) st(3) s(2)
    by (auto simp: writer_ok_def acks_below_Suc less_Suc_eq)
  show "set (snd (wr_env w)) \<subseteq> set (snd (wr_env w'))"
    "\<forall>x \<in> set xs. set (span_rows S x) \<subseteq> set (snd (wr_env w'))" using st(1,2) s(2) by simp_all
qed

lemma send_logs_stores:
  assumes "send_logs_durable ch S rj k w xs = Some w'" "writer_ok w"
  shows "writer_ok w'" "set (snd (wr_env w)) \<subseteq> set (snd (wr_env w'))"
    "\<forall>x \<in> set xs. Log_row (log_row_from S x) \<in> set (snd (wr_env w'))"
proof -
  obtain fs s where s: "submit_and_wait (flush_loop_step (retry_until_success (insert_logs ch S rj)) k)
      (wr_logs w, wr_env w) xs (wr_next_ack w) = Some (fs, s)"
    "w' = w\<lparr>wr_logs := fs, wr_env := s, wr_next_ack := Suc (wr_next_ack w)\<rparr>"
    using assms(1) by (auto simp: send_logs_durable_def logs_flush_step_def)
  have a: "acks_below (wr_next_ack w) (wr_logs w)" using assms(2) by (simp add: writer_ok_def)
  note st = logs.submit_stores[OF s(1) a]
  show "writer_ok w'" using assms(2) st(3) s(2)
    by (auto simp: writer_ok_def acks_below_Suc less_Suc_eq)
  show "set (snd (wr_env w)) \<subseteq> set (snd (wr_env w'))"
    "\<forall>x \<in> set xs. Log_row (log_row_from S x) \<in> set (snd (wr_env w'))" using st(1,2) s(2) by simp_all
qed

lemma metrics_flush_covers:
  assumes "metrics_flush_and_ack ch S rj sched mf s = Some (mf', s')"
  shows "set (snd s) \<subseteq> set (snd s')"
    "\<forall>x \<in> set (mf_series mf). Series_row (series_row_from S x) \<in> set (snd s')"
    "\<forall>x \<in> set (mf_points mf). Point_row (point_row_from x) \<in> set (snd s')"
    "mf_acks mf' = []" "mf_acked mf' = mf_acked mf @ mf_acks mf"
proof -
  have f: "flush_metrics (insert_metric_series ch S rj) (insert_metric_points ch rj) sched s
      (Some (mf_series mf)) (Some (mf_points mf)) = Some s'"
    and r: "mf_acks mf' = []" "mf_acked mf' = mf_acked mf @ mf_acks mf"
    using assms by (auto simp: metrics_flush_and_ack_def)
  note facts = flush_metrics_facts[OF series.covering_insert_axioms points.covering_insert_axioms f]
  show "set (snd s) \<subseteq> set (snd s')"
    "\<forall>x \<in> set (mf_series mf). Series_row (series_row_from S x) \<in> set (snd s')"
    "\<forall>x \<in> set (mf_points mf). Point_row (point_row_from x) \<in> set (snd s')"
    using facts by auto
  show "mf_acks mf' = []" "mf_acked mf' = mf_acked mf @ mf_acks mf" by (rule r)+
qed

lemma send_metrics_stores:
  assumes "send_metrics_durable ch S rj sched k w sr pt = Some w'" "writer_ok w"
  shows "writer_ok w'" "set (snd (wr_env w)) \<subseteq> set (snd (wr_env w'))"
    "\<forall>x \<in> set sr. Series_row (series_row_from S x) \<in> set (snd (wr_env w'))"
    "\<forall>x \<in> set pt. Point_row (point_row_from x) \<in> set (snd (wr_env w'))"
proof -
  define mf1 where "mf1 = (wr_metrics w)\<lparr>mf_series := mf_series (wr_metrics w) @ sr,
      mf_points := mf_points (wr_metrics w) @ pt, mf_acks := mf_acks (wr_metrics w) @ [wr_next_ack w]\<rparr>"
  have fresh: "wr_next_ack w \<notin> set (mf_acked mf1)"
    using assms(2) by (auto simp: writer_ok_def mf1_def)
  have answered: "wr_next_ack w \<in> set (mf_acked (fst r))"
    if "metrics_flush_and_ack ch S rj sched mf1 (wr_env w) = Some r" for r
    using that by (auto simp: metrics_flush_and_ack_def mf1_def)
  obtain mf s where f: "metrics_flush_and_ack ch S rj sched mf1 (wr_env w) = Some (mf, s)"
    "w' = w\<lparr>wr_metrics := mf, wr_env := s, wr_next_ack := Suc (wr_next_ack w)\<rparr>"
    using assms(1) fresh
    by (auto dest: answered simp: send_metrics_durable_def metrics_flush_step_def option_list_def mf1_def[symmetric] Let_def
        split: if_splits option.splits)
  note c = metrics_flush_covers[OF f(1)]
  show "writer_ok w'" using assms(2) c(4,5) f(2)
    by (auto simp: writer_ok_def acks_below_Suc less_Suc_eq mf1_def)
  show "set (snd (wr_env w)) \<subseteq> set (snd (wr_env w'))"
    "\<forall>x \<in> set sr. Series_row (series_row_from S x) \<in> set (snd (wr_env w'))"
    "\<forall>x \<in> set pt. Point_row (point_row_from x) \<in> set (snd (wr_env w'))"
    using c(1-3) f(2) by (simp_all add: mf1_def)
qed

text \<open>The rows a normalized batch stands for, and the batch stored.\<close>

definition batch_rows :: "serde \<Rightarrow> normalized_batch \<Rightarrow> stored_row set" where
  "batch_rows S b = (\<Union>x \<in> set (nb_spans b). set (span_rows S x)) \<union>
     (\<lambda>l. Log_row (log_row_from S l)) ` set (nb_logs b) \<union>
     (\<lambda>s. Series_row (series_row_from S s)) ` set (nb_series b) \<union>
     (\<lambda>p. Point_row (point_row_from p)) ` set (nb_points b)"

lemma store_batch_stores:
  assumes "store_batch ch S rj sched k w b = Some w'" "writer_ok w"
  shows "writer_ok w' \<and> set (snd (wr_env w)) \<subseteq> set (snd (wr_env w')) \<and> batch_rows S b \<subseteq> set (snd (wr_env w'))"
proof -
  obtain w1 w2 where
    1: "(if nb_spans b \<noteq> [] then send_spans_durable ch S rj k w (nb_spans b) else Some w) = Some w1" and
    2: "(if nb_logs b \<noteq> [] then send_logs_durable ch S rj k w1 (nb_logs b) else Some w1) = Some w2" and
    3: "(if nb_series b \<noteq> [] \<or> nb_points b \<noteq> []
         then send_metrics_durable ch S rj sched k w2 (nb_series b) (nb_points b) else Some w2) = Some w'"
    using assms(1) by (auto simp: store_batch_def bind_eq_Some_conv)
  have a: "writer_ok w1" "set (snd (wr_env w)) \<subseteq> set (snd (wr_env w1))"
    "\<forall>x \<in> set (nb_spans b). set (span_rows S x) \<subseteq> set (snd (wr_env w1))"
    using 1 assms(2) send_spans_stores[of ch S rj k w "nb_spans b" w1] by (auto split: if_splits)
  have b: "writer_ok w2" "set (snd (wr_env w1)) \<subseteq> set (snd (wr_env w2))"
    "\<forall>x \<in> set (nb_logs b). Log_row (log_row_from S x) \<in> set (snd (wr_env w2))"
    using 2 a(1) send_logs_stores[of ch S rj k w1 "nb_logs b" w2] by (auto split: if_splits)
  have c: "writer_ok w'" "set (snd (wr_env w2)) \<subseteq> set (snd (wr_env w'))"
    "\<forall>x \<in> set (nb_series b). Series_row (series_row_from S x) \<in> set (snd (wr_env w'))"
    "\<forall>x \<in> set (nb_points b). Point_row (point_row_from x) \<in> set (snd (wr_env w'))"
    using 3 b(1) send_metrics_stores[of ch S rj sched k w2 "nb_series b" "nb_points b" w']
    by (auto split: if_splits)
  have "batch_rows S b \<subseteq> set (snd (wr_env w'))"
    unfolding batch_rows_def using a(3) b(2,3) c(2,3,4) by blast
  then show ?thesis using a(2) b(2) c(1,2) by blast
qed

text \<open>Consuming a list of messages.\<close>

fun normalized_run ::
    "('s, 'h, 'e) clickhouse \<Rightarrow> serde \<Rightarrow> (stored_row \<Rightarrow> string option) \<Rightarrow> bool list \<Rightarrow> nat \<Rightarrow>
     ('b \<Rightarrow> normalized_batch option) \<Rightarrow> (partition_id \<times> kafka_offset \<Rightarrow> 'x option) \<Rightarrow>
     's normalized_state \<Rightarrow> (partition_id \<times> kafka_offset \<times> 'b option) list \<Rightarrow>
     ('s normalized_state \<times> 'x control) option" where
  "normalized_run ch S rj sched k parse cr st [] = Some (st, Continue)"
| "normalized_run ch S rj sched k parse cr st (m # ms) =
     (case normalized_step ch S rj sched k parse cr st m of
        None \<Rightarrow> None
      | Some (st', Return e) \<Rightarrow> Some (st', Return e)
      | Some (st', Continue) \<Rightarrow> normalized_run ch S rj sched k parse cr st' ms)"

text \<open>The rows a message must leave in the store.\<close>

definition message_rows :: "serde \<Rightarrow> ('b \<Rightarrow> normalized_batch option) \<Rightarrow> 'b option \<Rightarrow> stored_row set" where
  "message_rows S parse payload =
     (case Option.bind payload parse of None \<Rightarrow> {} | Some b \<Rightarrow> batch_rows S b)"

lemma commit_one_facts:
  assumes "commit_one cr st p off = (st', c)"
  shows "ns_writer st' = ns_writer st"
    "ns_commits st' = ns_commits st @ (if c = Continue then [(p, off + 1)] else [])"
  using assms by (auto simp: commit_one_def split: option.splits)

lemma normalized_step_facts:
  assumes "normalized_step ch S rj sched k parse cr st (p, off, payload) = Some (st', c)"
    and "writer_ok (ns_writer st)"
  shows "writer_ok (ns_writer st')"
    "set (snd (wr_env (ns_writer st))) \<subseteq> set (snd (wr_env (ns_writer st')))"
    "message_rows S parse payload \<subseteq> set (snd (wr_env (ns_writer st')))"
    "ns_commits st' = ns_commits st @ (if c = Continue then [(p, off + 1)] else [])"
proof -
  consider (skip) "Option.bind payload parse = None" "commit_one cr st p off = (st', c)"
    | (store) b w where "Option.bind payload parse = Some b"
        "store_batch ch S rj sched k (ns_writer st) b = Some w"
        "commit_one cr (st\<lparr>ns_writer := w\<rparr>) p off = (st', c)"
    using assms(1) by (auto simp: normalized_step_def split: option.splits)
  then have "writer_ok (ns_writer st') \<and>
    set (snd (wr_env (ns_writer st))) \<subseteq> set (snd (wr_env (ns_writer st'))) \<and>
    message_rows S parse payload \<subseteq> set (snd (wr_env (ns_writer st'))) \<and>
    ns_commits st' = ns_commits st @ (if c = Continue then [(p, off + 1)] else [])"
  proof cases
    case skip
    then show ?thesis using commit_one_facts[OF skip(2)] assms(2) by (simp add: message_rows_def)
  next
    case store
    from store_batch_stores[OF store(2) assms(2)] commit_one_facts[OF store(3)] show ?thesis
      using store(1) by (simp add: message_rows_def)
  qed
  then show "writer_ok (ns_writer st')"
    "set (snd (wr_env (ns_writer st))) \<subseteq> set (snd (wr_env (ns_writer st')))"
    "message_rows S parse payload \<subseteq> set (snd (wr_env (ns_writer st')))"
    "ns_commits st' = ns_commits st @ (if c = Continue then [(p, off + 1)] else [])" by blast+
qed

lemma normalized_run_facts:
  "normalized_run ch S rj sched k parse cr st ms = Some (st', c) \<Longrightarrow> writer_ok (ns_writer st) \<Longrightarrow>
   \<exists>n \<le> length ms. ns_commits st' = ns_commits st @ map (\<lambda>(p, off, _). (p, off + 1)) (take n ms) \<and>
     (c = Continue \<longrightarrow> n = length ms) \<and>
     set (snd (wr_env (ns_writer st))) \<subseteq> set (snd (wr_env (ns_writer st'))) \<and>
     (\<forall>(p, off, pl) \<in> set (take n ms). message_rows S parse pl \<subseteq> set (snd (wr_env (ns_writer st'))))"
proof (induction ms arbitrary: st)
  case (Cons m ms)
  obtain p off pl where m: "m = (p, off, pl)" by (cases m)
  obtain st1 c1 where s: "normalized_step ch S rj sched k parse cr st (p, off, pl) = Some (st1, c1)"
    using Cons.prems(1) m by (auto split: option.splits)
  note f = normalized_step_facts[OF s Cons.prems(2)]
  show ?case
  proof (cases c1)
    case (Return e)
    then have "st' = st1" "c = Return e" using Cons.prems(1) s m by simp_all
    then show ?thesis using f Return by (intro exI[of _ 0]) simp
  next
    case Continue
    then have "normalized_run ch S rj sched k parse cr st1 ms = Some (st', c)"
      using Cons.prems(1) s m by simp
    from Cons.IH[OF this f(1)] obtain n where n: "n \<le> length ms"
      "ns_commits st' = ns_commits st1 @ map (\<lambda>(p, off, _). (p, off + 1)) (take n ms)"
      "c = Continue \<longrightarrow> n = length ms"
      "set (snd (wr_env (ns_writer st1))) \<subseteq> set (snd (wr_env (ns_writer st')))"
      "\<forall>(p, off, pl) \<in> set (take n ms). message_rows S parse pl \<subseteq> set (snd (wr_env (ns_writer st')))"
      by blast
    show ?thesis
      using n f Continue m by (intro exI[of _ "Suc n"]) (auto 0 3)
  qed
qed simp

subsection \<open>The properties\<close>

text \<open>
  C13. A flush loop acknowledges submissions in order and only when ClickHouse has accepted
  all their rows: after any run of the spans loop the acknowledgements sent are those of
  an initial part of the submissions, every span of which has its row and its events' rows
  persisted, and everything else is still in the buffer, so nothing is dropped.
\<close>

theorem spans_acked_only_when_persisted:
  assumes "flush_loop (spans_flush_step ch S rj max_rows) (flush_start, s) evs = Some st"
    and "Channel_closed \<notin> set (butlast evs)"
  shows "\<exists>finished waiting. submissions evs = finished @ waiting \<and>
           fs_acked (fst st) = acks_in finished \<and>
           (\<forall>x \<in> set (rows_in finished). set (span_rows S x) \<subseteq> set (snd (snd st))) \<and>
           fs_buf (fst st) = rows_in waiting"
  using spans.loop_accounts[OF assms(1)[unfolded spans_flush_step_def] spans.start_accounts assms(2)]
  by (auto simp: accounted_def split: prod.splits)

text \<open>A client whose first insert fails, for the witnesses.\<close>

definition flaky_clickhouse :: "(bool, unit, string) clickhouse" where
  "flaky_clickhouse = \<lparr>ch_insert = \<lambda>up t tok. (True, if up then Inr () else Inl ''down''),
     ch_write = \<lambda>up h r. (up, Inr h), ch_end = \<lambda>up h. (up, Inr ())\<rparr>"

lemma write_rows_flaky: "write_rows flaky_clickhouse up h rows = (up, Inr h)"
  by (induction rows) (simp_all add: flaky_clickhouse_def)

lemma insert_flaky:
  "insert_rows flaky_clickhouse rj t (up, done) rows =
     (if up then ((True, done @ rows), Inr ()) else ((True, done), Inl ''down''))"
proof -
  have [simp]: "ch_insert flaky_clickhouse = (\<lambda>up t tok. (True, if up then Inr () else Inl ''down''))"
    "ch_end flaky_clickhouse = (\<lambda>up h. (up, Inr ()))" by (simp_all add: flaky_clickhouse_def)
  show ?thesis by (simp add: insert_rows_def Let_def write_rows_flaky)
qed

lemma deliver_flaky:
  "retry_until_success (insert_spans flaky_clickhouse S rj) (False, []) [sample_span] =
     Some (True, [Span_row (span_row_from S sample_span)])"
proof -
  have e: "sp_events sample_span = []" by (simp add: sample_span_def)
  have i: "insert_spans flaky_clickhouse S rj (up, []) [sample_span] =
     (if up then ((True, [Span_row (span_row_from S sample_span)]), Inr ()) else ((True, []), Inl ''down''))" for up
    by (simp add: insert_spans_def insert_flaky e Let_def)
  show ?thesis
    unfolding retry_until_success_def
    by (subst retry_from.simps, subst retry_from.simps) (simp add: i)
qed

theorem spans_acked_only_when_persisted_witness:
  "\<exists>st. flush_loop (spans_flush_step flaky_clickhouse sample_serde (\<lambda>_. None) 5) (flush_start, False, [])
       [Submitted [sample_span] (Some 3), Flush_tick, Submitted [sample_span] (Some 4)] = Some st \<and>
     fs_acked (fst st) = [3] \<and> set (span_rows sample_serde sample_span) \<subseteq> set (snd (snd st))"
proof -
  define st where "st = (\<lparr>fs_buf = [sample_span], fs_acks = [4], fs_acked = [3]\<rparr>,
      True, [Span_row (span_row_from sample_serde sample_span)])"
  define evs where "evs = [Submitted [sample_span] (Some 3), Flush_tick, Submitted [sample_span] (Some (4::nat))]"
  have r: "flush_loop (spans_flush_step flaky_clickhouse sample_serde (\<lambda>_. None) 5) (flush_start, False, []) evs
      = Some st"
    by (simp add: evs_def st_def spans_flush_step_def flush_loop_step_def flush_start_def option_list_def
        flush_and_ack_def deliver_flaky)
  have c: "Channel_closed \<notin> set (butlast evs)" by (simp add: evs_def)
  obtain fin wait where f: "submissions evs = fin @ wait" "fs_acked (fst st) = acks_in fin"
    "\<forall>x \<in> set (rows_in fin). set (span_rows sample_serde x) \<subseteq> set (snd (snd st))"
    using spans_acked_only_when_persisted[OF r c] by blast
  have "fin \<noteq> []" using f(2) by (auto simp: st_def)
  then have "hd fin = ([sample_span], Some 3)"
    using f(1) by (cases fin) (simp_all add: submissions_def submission_def evs_def)
  then have "sample_span \<in> set (rows_in fin)" using \<open>fin \<noteq> []\<close> by (cases fin) (auto simp: rows_in_def)
  with f(3) r show ?thesis by (auto simp: evs_def st_def)
qed

text \<open>
  C14. At-least-once storage: the storage writer commits the offset of a message of the
  normalized topic only when every span (with its events), log, series and point of that
  message, and of every message before it, has been accepted by ClickHouse. Malformed and
  empty messages are committed past; a message is never skipped.
\<close>

theorem normalized_consumer_at_least_once:
  assumes "normalized_run ch S rj sched k parse cr \<lparr>ns_writer = writer_new s, ns_commits = []\<rparr> ms = Some (st, c)"
  shows "\<exists>n \<le> length ms.
           ns_commits st = map (\<lambda>(p, off, _). (p, off + 1)) (take n ms) \<and>
           (c = Continue \<longrightarrow> n = length ms) \<and>
           (\<forall>(p, off, payload) \<in> set (take n ms).
              message_rows S parse payload \<subseteq> set (snd (wr_env (ns_writer st))))"
  using normalized_run_facts[OF assms] writer_new_ok[of s] by auto

definition sample_batch :: normalized_batch where
  "sample_batch = \<lparr>nb_spans = [sample_span], nb_logs = [], nb_series = [], nb_points = []\<rparr>"

theorem normalized_consumer_at_least_once_witness:
  "\<exists>st. normalized_run flaky_clickhouse sample_serde (\<lambda>_. None) [] 5
       (\<lambda>b. if b = ''batch'' then Some sample_batch else None) (\<lambda>_. None :: string option)
       \<lparr>ns_writer = writer_new False, ns_commits = []\<rparr> [(0, 9, Some ''batch''), (0, 10, Some ''junk'')]
     = Some (st, Continue) \<and>
     ns_commits st = [(0, 10), (0, 11)] \<and>
     batch_rows sample_serde sample_batch \<subseteq> set (snd (wr_env (ns_writer st)))"
proof -
  let ?run = "normalized_run flaky_clickhouse sample_serde (\<lambda>_. None) [] 5
       (\<lambda>b. if b = ''batch'' then Some sample_batch else None) (\<lambda>_. None :: string option)
       \<lparr>ns_writer = writer_new False, ns_commits = []\<rparr> [(0, 9, Some ''batch''), (0, 10, Some ''junk'')]"
  have "\<exists>st. ?run = Some (st, Continue)"
    by (simp add: normalized_step_def store_batch_def sample_batch_def send_spans_durable_def
        submit_and_wait_def spans_flush_step_def flush_loop_step_def writer_new_def flush_start_def
        option_list_def flush_and_ack_def deliver_flaky commit_one_def)
  then obtain st where st: "?run = Some (st, Continue)" by blast
  from normalized_consumer_at_least_once[OF st] st show ?thesis
    by (auto simp: message_rows_def)
qed

end
