(* ===== verification/Clickhouse_Query.thy ===== *)
theory Clickhouse_Query
  imports Storage_Rows "HOL-Library.AList"
begin

section \<open>Parameterised ClickHouse queries\<close>

text \<open>
  What the query handlers share: HTTP statuses, the values bound to the placeholders of a
  query, and the substitution the \<open>clickhouse\<close> client performs (\<open>?\<close> takes the next
  bound value, \<open>?fields\<close> is the column list of the row type). The database is a
  parameter, the record \<open>clickhouse_reader\<close>, with one function per row type that answers
  a query text and its values; how a value is written is the parameter \<open>lit\<close>.
  \<open>DateTime<Utc>\<close> is its count of nanoseconds since the epoch.
\<close>

datatype http_status =
    Status_ok | Created | No_content | Bad_request | Unauthorized | Forbidden | Not_found | Conflict
  | Payload_too_large | Unsupported_media_type | Unprocessable_entity | Too_many_requests | Internal_server_error
  | Bad_gateway | Service_unavailable

type_synonym datetime = int

definition timestamp_nanos_opt :: "datetime \<Rightarrow> i64 option" where
  "timestamp_nanos_opt d = (if - (2 ^ 63) \<le> d \<and> d < 2 ^ 63 then Some (word_of_int d) else None)"

definition to_unix_nano :: "datetime \<Rightarrow> u64" where
  "to_unix_nano d = unwrap_or 0 (timestamp_nanos_opt d)"

definition hour_ns :: u64 where "hour_ns = 3600000000000"

definition map_err :: "'f \<Rightarrow> ('e, 'a) result \<Rightarrow> ('f, 'a) result" where
  "map_err f r = (case r of Inl _ \<Rightarrow> Inl f | Inr x \<Rightarrow> Inr x)"

lemma map_err_Inr [simp]: "map_err f r = Inr x \<longleftrightarrow> r = Inr x"
  by (simp add: map_err_def split: sum.splits)

subsection \<open>Placeholders\<close>

datatype bind =
    Bind_uuid uuid
  | Bind_u64 u64
  | Bind_u32 u32
  | Bind_i32 "32 word"
  | Bind_str string

definition bind_opt :: "('a \<Rightarrow> bind) \<Rightarrow> 'a option \<Rightarrow> bind list" where
  "bind_opt f x = (case x of None \<Rightarrow> [] | Some v \<Rightarrow> [f v])"

fun substitute :: "(bind \<Rightarrow> string) \<Rightarrow> string \<Rightarrow> bind list \<Rightarrow> string" where
  "substitute lit [] bs = []"
| "substitute lit (c # cs) bs =
     (if c = CHR ''?'' \<and> take 6 cs \<noteq> ''fields''
      then (case bs of [] \<Rightarrow> c # substitute lit cs [] | b # bs' \<Rightarrow> lit b @ substitute lit cs bs')
      else c # substitute lit cs bs)"

text \<open>The clause \<open>AND c ?\<close> that a builder appends when a parameter is present.\<close>

definition opt_clause :: "'a option \<Rightarrow> string \<Rightarrow> string" where
  "opt_clause x c = (if x = None then [] else '' AND '' @ c @ '' ?'')"

text \<open>The conditions a query is meant to have, and their text.\<close>

definition cond :: "string \<Rightarrow> bind list \<Rightarrow> (string \<times> bind) list" where
  "cond c bs = map (\<lambda>b. (c, b)) bs"

definition and_clauses :: "(bind \<Rightarrow> string) \<Rightarrow> (string \<times> bind) list \<Rightarrow> string" where
  "and_clauses lit cs = concat (map (\<lambda>(c, b). '' AND '' @ c @ '' '' @ lit b) cs)"

definition clear_start :: "string \<Rightarrow> bool" where
  "clear_start s = (case s of [] \<Rightarrow> True | c # _ \<Rightarrow> c \<noteq> CHR ''f'')"

lemma clear_start_simps [simp]:
  "clear_start []" "clear_start (c # s) \<longleftrightarrow> c \<noteq> CHR ''f''"
  by (simp_all add: clear_start_def)

lemma clear_start_opt [simp]: "clear_start ys \<Longrightarrow> clear_start (opt_clause x c @ ys)"
  by (simp add: opt_clause_def)

lemma clear_start_take: "clear_start ys \<Longrightarrow> take 6 ys \<noteq> ''fields''"
  by (cases ys) auto

lemma substitute_hole [simp]:
  "clear_start ys \<Longrightarrow> substitute lit (CHR ''?'' # ys) (b # bs) = lit b @ substitute lit ys bs"
  using clear_start_take[of ys] by simp

lemma substitute_char [simp]: "c \<noteq> CHR ''?'' \<Longrightarrow> substitute lit (c # ys) bs = c # substitute lit ys bs"
  by simp

lemma substitute_fields [simp]:
  "substitute lit (CHR ''?'' # CHR ''f'' # CHR ''i'' # CHR ''e'' # CHR ''l'' # CHR ''d'' # CHR ''s'' # ys) bs
     = ''?fields'' @ substitute lit ys bs"
  by simp

declare substitute.simps(2) [simp del]

lemma substitute_text: "CHR ''?'' \<notin> set xs \<Longrightarrow> substitute lit (xs @ ys) bs = xs @ substitute lit ys bs"
  by (induction xs) auto

lemma substitute_plain: "CHR ''?'' \<notin> set xs \<Longrightarrow> substitute lit xs bs = xs"
  by (induction xs) auto

lemma substitute_opt_map:
  assumes "CHR ''?'' \<notin> set c" "clear_start ys"
  shows "substitute lit (opt_clause x c @ ys) (bind_opt f (map_option g x) @ bs) =
    and_clauses lit (cond c (bind_opt f (map_option g x))) @ substitute lit ys bs"
proof (cases x)
  case None
  then show ?thesis by (simp add: opt_clause_def bind_opt_def cond_def and_clauses_def)
next
  case (Some v)
  then show ?thesis
    using assms by (simp add: opt_clause_def bind_opt_def cond_def and_clauses_def substitute_text)
qed

lemmas substitute_opt = substitute_opt_map[where g = "\<lambda>x. x", unfolded option.map_ident]

lemma and_clauses_append [simp]: "and_clauses lit (xs @ ys) = and_clauses lit xs @ and_clauses lit ys"
  by (simp add: and_clauses_def)

lemma and_clauses_Nil [simp]: "and_clauses lit [] = []"
  by (simp add: and_clauses_def)

end
