(* ===== verification/Query_Planner.thy ===== *)
theory Query_Planner
  imports Clickhouse_Query Sql_Lexer
begin

section \<open>Query planning\<close>

text \<open>
  \<open>libs/query-core/src/planner.rs\<close> and \<open>params.rs\<close>: the query texts, with placeholders, of
  log search, trace search, topology and the three histograms. A bucket count of zero
  makes the division of the histogram plans panic; the handlers clamp it to at least one.
\<close>

record topology_params =
  tpp_environment :: "string option"
  tpp_from :: "datetime option"
  tpp_to :: "datetime option"
  tpp_service :: "string option"

record log_search_params =
  lsp_service :: "string option"
  lsp_severity :: "32 word option"
  lsp_trace_id :: "string option"
  lsp_span_id :: "string option"
  lsp_limit :: "u32 option"
  lsp_facets :: "string option"
  lsp_from :: "datetime option"
  lsp_to :: "datetime option"

record trace_search_params =
  tsp_service :: "string option"
  tsp_limit :: "u32 option"
  tsp_facets :: "string option"
  tsp_from :: "datetime option"
  tsp_to :: "datetime option"

definition select_cols :: string where
  "select_cols = ''tenant_id, trace_id, span_id, service_name, service_namespace, '' @
     ''service_version, operation_name, span_kind, start_time_unix_nano, '' @
     ''end_time_unix_nano, duration_ns, status_code, status_message, '' @
     ''attributes, resource_attributes, environment, host_id, workload, '' @
     ''deployment_id, parent_span_id''"

record log_query_plan =
  lqp_count_sql :: string
  lqp_facet_plans :: "(string \<times> string) list" \<comment> \<open>field to query text\<close>
  lqp_logs_sql :: string
  lqp_limit :: u32

record trace_search_plan =
  tsl_count_sql :: string
  tsl_spans_sql :: string
  tsl_limit :: u64

record histogram_plan =
  hgp_sql :: string
  hgp_from_ns :: u64
  hgp_interval_ns :: u64

subsection \<open>Search\<close>

definition trace_search_where_clause :: "trace_search_params \<Rightarrow> string" where
  "trace_search_where_clause params =
     ''WHERE tenant_id = ?'' @
     opt_clause (tsp_from params) ''start_time_unix_nano >='' @
     opt_clause (tsp_to params) ''start_time_unix_nano <='' @
     opt_clause (tsp_service params) ''service_name =''"

definition log_search_where_clause :: "log_search_params \<Rightarrow> string" where
  "log_search_where_clause params =
     ''WHERE tenant_id = ?'' @
     opt_clause (lsp_from params) ''timestamp_unix_nano >='' @
     opt_clause (lsp_to params) ''timestamp_unix_nano <='' @
     opt_clause (lsp_service params) ''service_name ='' @
     opt_clause (lsp_severity params) ''severity_number >='' @
     opt_clause (lsp_trace_id params) ''trace_id ='' @
     opt_clause (lsp_span_id params) ''span_id =''"

definition log_facet_fields :: "string list" where
  "log_facet_fields = [''service_name'', ''severity_number'', ''environment'', ''host_id'']"

definition requested_log_facets :: "string \<Rightarrow> string list" where
  "requested_log_facets facets_str =
     filter (\<lambda>field. field \<in> set log_facet_fields) (map trim (split_on (CHR '','') facets_str))"

definition plan_trace_search :: "trace_search_params \<Rightarrow> trace_search_plan" where
  "plan_trace_search params =
     (let where_clause = trace_search_where_clause params;
          latest_trace_ids_sql =
            ''(SELECT tenant_id, trace_id, max(start_time_unix_nano) FROM observable.spans '' @
            where_clause @
            '' GROUP BY tenant_id, trace_id ORDER BY max(start_time_unix_nano) DESC LIMIT ?)''
      in \<lparr>tsl_count_sql = ''SELECT count(DISTINCT trace_id) FROM observable.spans '' @ where_clause,
          tsl_spans_sql = ''SELECT '' @ select_cols @ '' FROM observable.spans '' @
            ''WHERE (tenant_id, trace_id, start_time_unix_nano) IN '' @ latest_trace_ids_sql @
            '' ORDER BY start_time_unix_nano DESC'',
          tsl_limit = ucast (min (unwrap_or 50 (tsp_limit params)) 500)\<rparr>)"

definition log_facet_sql :: "string \<Rightarrow> string \<Rightarrow> string" where
  "log_facet_sql where_clause field =
     ''SELECT toString('' @ field @ '') as value, count() as count FROM observable.logs '' @
     where_clause @ '' GROUP BY '' @ field @ '' ORDER BY count DESC LIMIT 10''"

definition plan_log_search :: "log_search_params \<Rightarrow> log_query_plan" where
  "plan_log_search params =
     (let where_clause = log_search_where_clause params
      in \<lparr>lqp_count_sql = ''SELECT count() FROM observable.logs '' @ where_clause,
          lqp_facet_plans = (case lsp_facets params of None \<Rightarrow> []
            | Some facets_str \<Rightarrow>
                foldl (\<lambda>plans field. AList.update field (log_facet_sql where_clause field) plans) []
                  (requested_log_facets facets_str)),
          lqp_logs_sql = ''SELECT ?fields FROM observable.logs '' @ where_clause @
            '' ORDER BY timestamp_unix_nano DESC LIMIT ?'',
          lqp_limit = min (unwrap_or 50 (lsp_limit params)) 500\<rparr>)"

subsection \<open>Topology\<close>

definition topology_branch1 :: "topology_params \<Rightarrow> string" where
  "topology_branch1 params =
     ''SELECT parent.service_name AS caller, child.service_name AS callee, '' @
     ''count() AS request_count, countIf(child.status_code = '' @ quoted ''ERROR'' @
     '') AS error_count, quantile(0.95)(child.duration_ns) AS p95_latency_ns '' @
     ''FROM observable.spans AS child INNER JOIN spans AS parent '' @
     ''ON child.parent_span_id = parent.span_id AND child.trace_id = parent.trace_id '' @
     ''WHERE child.tenant_id = ? AND parent.tenant_id = ? '' @
     ''AND child.service_name != parent.service_name AND child.start_time_unix_nano >= ?'' @
     (if tpp_environment params \<noteq> None
      then '' AND child.environment = ? AND parent.environment = ?'' else []) @
     (if tpp_service params \<noteq> None
      then '' AND (child.service_name = ? OR parent.service_name = ?)'' else []) @
     '' GROUP BY caller, callee''"

definition topology_branch2 :: "topology_params \<Rightarrow> string" where
  "topology_branch2 params =
     ''SELECT s1.service_name AS caller, s2.service_name AS callee, '' @
     ''count() AS request_count, countIf(s2.status_code = '' @ quoted ''ERROR'' @
     '') AS error_count, quantile(0.95)(s2.duration_ns) AS p95_latency_ns '' @
     ''FROM observable.spans AS s1 INNER JOIN spans AS s2 ON s1.trace_id = s2.trace_id '' @
     ''WHERE s1.tenant_id = ? AND s2.tenant_id = ? '' @
     ''AND s1.service_name != s2.service_name '' @
     ''AND s1.start_time_unix_nano <= s2.start_time_unix_nano AND s1.start_time_unix_nano >= ?'' @
     (if tpp_environment params \<noteq> None
      then '' AND s1.environment = ? AND s2.environment = ?'' else []) @
     (if tpp_service params \<noteq> None
      then '' AND (s1.service_name = ? OR s2.service_name = ?)'' else []) @
     '' GROUP BY caller, callee''"

definition plan_topology :: "topology_params \<Rightarrow> string" where
  "plan_topology params =
     ''SELECT caller, callee, max(request_count) AS request_count, '' @
     ''max(error_count) AS error_count, max(p95_latency_ns) AS p95_latency_ns FROM ('' @
     topology_branch1 params @ '' UNION ALL '' @ topology_branch2 params @
     '') GROUP BY caller, callee ORDER BY request_count DESC''"

subsection \<open>Histograms\<close>

text \<open>The width of a bucket; dividing by a bucket count of zero panics.\<close>

definition bucket_interval :: "u64 \<Rightarrow> u64 \<Rightarrow> u32 \<Rightarrow> u64 outcome" where
  "bucket_interval from_ns to_ns bucket_count =
     (if bucket_count = 0 then Panic
      else Done (max (max (saturating_sub to_ns from_ns) 1 div ucast bucket_count) 1))"

definition plan_with_interval :: "string \<Rightarrow> u64 \<Rightarrow> u64 \<Rightarrow> u32 \<Rightarrow> histogram_plan outcome" where
  "plan_with_interval sql from_ns to_ns bucket_count =
     (case bucket_interval from_ns to_ns bucket_count of
        Panic \<Rightarrow> Panic
      | Done interval_ns \<Rightarrow>
          Done \<lparr>hgp_sql = sql, hgp_from_ns = from_ns, hgp_interval_ns = interval_ns\<rparr>)"

definition log_histogram_sql :: "string option \<Rightarrow> string" where
  "log_histogram_sql service =
     ''SELECT intDiv(timestamp_unix_nano - ?, ?) AS bucket_idx, '' @
     ''severity_number, count() AS cnt FROM observable.logs '' @
     ''WHERE tenant_id = ? AND timestamp_unix_nano >= ? AND timestamp_unix_nano <= ?'' @
     opt_clause service ''service_name ='' @
     '' GROUP BY bucket_idx, severity_number ORDER BY bucket_idx ASC''"

definition plan_log_histogram :: "u64 \<Rightarrow> u64 \<Rightarrow> string option \<Rightarrow> u32 \<Rightarrow> histogram_plan outcome" where
  "plan_log_histogram from_ns to_ns service bucket_count =
     plan_with_interval (log_histogram_sql service) from_ns to_ns bucket_count"

definition trace_histogram_sql :: "string option \<Rightarrow> string" where
  "trace_histogram_sql service =
     ''SELECT intDiv(start_time_unix_nano - ?, ?) AS bucket_idx, '' @
     ''toInt32(1) as dummy_severity, count(DISTINCT trace_id) AS cnt '' @
     ''FROM observable.spans '' @
     ''WHERE tenant_id = ? AND start_time_unix_nano >= ? AND start_time_unix_nano <= ?'' @
     opt_clause service ''service_name ='' @
     '' GROUP BY bucket_idx ORDER BY bucket_idx ASC''"

definition plan_trace_histogram :: "u64 \<Rightarrow> u64 \<Rightarrow> string option \<Rightarrow> u32 \<Rightarrow> histogram_plan outcome" where
  "plan_trace_histogram from_ns to_ns service bucket_count =
     plan_with_interval (trace_histogram_sql service) from_ns to_ns bucket_count"

definition response_time_histogram_sql :: "string" where
  "response_time_histogram_sql =
     ''SELECT intDiv(start_time_unix_nano - ?, ?) AS bucket_idx, '' @
     ''quantile(0.50)(duration_ns) AS p50_ns, quantile(0.95)(duration_ns) AS p95_ns, '' @
     ''count() AS span_count FROM observable.spans '' @
     ''WHERE tenant_id = ? AND service_name = ? AND start_time_unix_nano >= ? '' @
     ''AND start_time_unix_nano <= ? GROUP BY bucket_idx ORDER BY bucket_idx ASC''"

definition plan_response_time_histogram :: "u64 \<Rightarrow> u64 \<Rightarrow> u32 \<Rightarrow> histogram_plan outcome" where
  "plan_response_time_histogram from_ns to_ns bucket_count =
     plan_with_interval response_time_histogram_sql from_ns to_ns bucket_count"

subsection \<open>What a plan says\<close>

lemma bucket_interval_Done:
  assumes "bucket_interval f t n = Done i"
  shows "n \<noteq> 0" "unat i = max (max (unat t - unat f) 1 div unat n) 1"
proof -
  show n: "n \<noteq> 0" using assms by (auto simp: bucket_interval_def)
  have i: "i = max (max (saturating_sub t f) 1 div ucast n) 1"
    using assms n by (simp add: bucket_interval_def)
  have m: "unat (max a b) = max (unat a) (unat b)" for a b :: u64
    by (simp add: max_def word_le_nat_alt)
  have u: "unat (ucast n :: u64) = unat n" 
    using unsigned_less[of n, where 'a = nat] by (simp add: unsigned_ucast_eq take_bit_nat_eq_self)
  show "unat i = max (max (unat t - unat f) 1 div unat n) 1"
    by (simp add: i m unat_div u unat_saturating_sub)
qed

lemma bucket_interval_bounds:
  assumes "bucket_interval f t n = Done i"
  shows "0 < unat i" "unat t - unat f < unat i * unat n + unat n"
    and "unat i = 1 \<or> unat i * unat n \<le> unat t - unat f"
proof -
  let ?r = "max (unat t - unat f) 1"
  have n: "0 < unat n" using bucket_interval_Done(1)[OF assms] by (simp add: unat_gt_0)
  note i = bucket_interval_Done(2)[OF assms]
  show "0 < unat i" by (simp add: i)
  have "?r = ?r div unat n * unat n + ?r mod unat n" by simp
  moreover have "?r mod unat n < unat n" using n by simp
  moreover have "?r div unat n * unat n \<le> unat i * unat n" by (simp add: i)
  ultimately show "unat t - unat f < unat i * unat n + unat n" by linarith
  show "unat i = 1 \<or> unat i * unat n \<le> unat t - unat f"
  proof (cases "unat i = 1")
    case False
    then have "1 < ?r div unat n" "unat i = ?r div unat n"
      using i by linarith+
    have "?r \<noteq> 1"
    proof
      assume "?r = 1"
      then have "?r div unat n \<le> 1" using div_le_dividend[of 1 "unat n"] by simp
      then show False using \<open>1 < ?r div unat n\<close> by simp
    qed
    then have r: "?r = unat t - unat f" by linarith
    have "?r div unat n * unat n \<le> ?r" by simp
    then show ?thesis unfolding r \<open>unat i = ?r div unat n\<close> by simp
  qed simp
qed

end
