(* ===== verification/Query_Handlers.thy ===== *)
theory Query_Handlers
  imports Query_Planner
begin

section \<open>Log and trace queries\<close>

text \<open>
  \<open>services/query-api/src/logs.rs\<close> and \<open>traces.rs\<close>: the handlers behind the query API, from
  the tenant context to the response. The tenant is the one the authentication middleware
  established. A handler that succeeds returns its response with the audit entry it has
  written; writing it cannot fail the request. The database is a parameter and its errors
  become status 500. What the handlers rely on in a row validation is the locale
  \<open>tenant_guard\<close>.
\<close>

record 'e clickhouse_reader =
  rd_count :: "string \<Rightarrow> bind list \<Rightarrow> ('e, u64) result"
  rd_facet :: "string \<Rightarrow> bind list \<Rightarrow> ('e, (string \<times> u64) list) result"
  rd_logs :: "string \<Rightarrow> bind list \<Rightarrow> ('e, log_row list) result"
  rd_log :: "string \<Rightarrow> bind list \<Rightarrow> ('e, log_row option) result" \<comment> \<open>\<open>fetch_optional\<close>\<close>
  rd_spans :: "string \<Rightarrow> bind list \<Rightarrow> ('e, span_row list) result"
  rd_events :: "string \<Rightarrow> bind list \<Rightarrow> ('e, span_event_row list) result"
  rd_buckets :: "string \<Rightarrow> bind list \<Rightarrow> ('e, (i64 \<times> 32 word \<times> u64) list) result"

record query_audit_entry =
  qa_action :: string
  qa_tenant_id :: uuid
  qa_result_count :: i64

type_synonym facets = "(string \<times> (string \<times> u64) list) list"

definition audit :: "string \<Rightarrow> uuid \<Rightarrow> nat \<Rightarrow> query_audit_entry" where
  "audit action tenant n = \<lparr>qa_action = action, qa_tenant_id = tenant, qa_result_count = word_of_nat n\<rparr>"

subsection \<open>Logs\<close>

record log_list_response =
  llr_logs :: "log_record list"
  llr_total :: u64
  llr_facets :: facets

record log_tail_params =
  ltp_service :: "string option"
  ltp_severity :: "32 word option"
  ltp_since_unix_nano :: "u64 option"
  ltp_limit :: "u32 option"

definition validate_log_rows_for_tenant :: "log_row list \<Rightarrow> uuid \<Rightarrow> (http_status, unit) result" where
  "validate_log_rows_for_tenant rows tenant_id =
     (if list_all (\<lambda>row. lgr_tenant_id row = tenant_id) rows then Inr () else Inl Internal_server_error)"

text \<open>The values bound for \<open>log_search_where_clause\<close>, in its order.\<close>

definition log_search_binds :: "uuid \<Rightarrow> log_search_params \<Rightarrow> bind list" where
  "log_search_binds tenant_id params =
     [Bind_uuid tenant_id] @
     bind_opt Bind_u64 (map_option to_unix_nano (lsp_from params)) @
     bind_opt Bind_u64 (map_option to_unix_nano (lsp_to params)) @
     bind_opt Bind_str (lsp_service params) @
     bind_opt Bind_i32 (lsp_severity params) @
     bind_opt Bind_str (lsp_trace_id params) @
     bind_opt Bind_str (lsp_span_id params)"

fun fetch_facets ::
    "'e clickhouse_reader \<Rightarrow> bind list \<Rightarrow> (string \<times> string) list \<Rightarrow> facets \<Rightarrow> (http_status, facets) result" where
  "fetch_facets ch binds [] acc = Inr acc"
| "fetch_facets ch binds ((field, sql) # plans) acc =
     and_then (map_err Internal_server_error (rd_facet ch sql binds)) (\<lambda>values.
     fetch_facets ch binds plans (AList.update field values acc))"

definition search_logs ::
    "'e clickhouse_reader \<Rightarrow> serde \<Rightarrow> uuid \<Rightarrow> log_search_params \<Rightarrow>
     (http_status, log_list_response \<times> query_audit_entry) result" where
  "search_logs ch S tenant_id params =
     (let plan = plan_log_search params; binds = log_search_binds tenant_id params in
      and_then (map_err Internal_server_error (rd_count ch (lqp_count_sql plan) binds)) (\<lambda>total.
      and_then (fetch_facets ch binds (lqp_facet_plans plan) []) (\<lambda>facet_results.
      and_then (map_err Internal_server_error
                 (rd_logs ch (lqp_logs_sql plan) (binds @ [Bind_u32 (lqp_limit plan)]))) (\<lambda>rows.
      and_then (validate_log_rows_for_tenant rows tenant_id) (\<lambda>_.
      Inr (\<lparr>llr_logs = map (log_from_row S) rows, llr_total = total, llr_facets = facet_results\<rparr>,
           audit ''log_search'' tenant_id (length rows)))))))"

definition tail_logs ::
    "'e clickhouse_reader \<Rightarrow> serde \<Rightarrow> uuid \<Rightarrow> log_tail_params \<Rightarrow>
     (http_status, log_list_response \<times> query_audit_entry) result" where
  "tail_logs ch S tenant_id params =
     (let limit = min (unwrap_or 100 (ltp_limit params)) 500;
          query = ''SELECT ?fields FROM observable.logs WHERE tenant_id = ?'' @
            opt_clause (ltp_service params) ''service_name ='' @
            opt_clause (ltp_severity params) ''severity_number >='' @
            opt_clause (ltp_since_unix_nano params) ''timestamp_unix_nano >'' @
            '' ORDER BY timestamp_unix_nano ASC LIMIT ?'';
          binds = [Bind_uuid tenant_id] @ bind_opt Bind_str (ltp_service params) @
            bind_opt Bind_i32 (ltp_severity params) @ bind_opt Bind_u64 (ltp_since_unix_nano params) @
            [Bind_u32 limit]
      in and_then (map_err Internal_server_error (rd_logs ch query binds)) (\<lambda>rows.
         and_then (validate_log_rows_for_tenant rows tenant_id) (\<lambda>_.
         Inr (\<lparr>llr_logs = map (log_from_row S) rows, llr_total = word_of_nat (length rows),
               llr_facets = []\<rparr>,
              audit ''log_live_tail'' tenant_id (length rows)))))"

text \<open>The pivot, the rows before it (fetched newest first and reversed), the rows after it.\<close>

definition get_log_context ::
    "'e clickhouse_reader \<Rightarrow> serde \<Rightarrow> uuid \<Rightarrow> uuid \<Rightarrow> u32 option \<Rightarrow>
     (http_status, log_list_response \<times> query_audit_entry) result" where
  "get_log_context ch S tenant_id log_id window_param =
     (let window = min (unwrap_or 10 window_param) 100 in
      and_then (map_err Internal_server_error
        (rd_log ch ''SELECT ?fields FROM observable.logs WHERE tenant_id = ? AND log_id = ?''
           [Bind_uuid tenant_id, Bind_uuid log_id])) (\<lambda>found.
      and_then (ok_or Not_found found) (\<lambda>pivot_row.
      let binds = [Bind_uuid tenant_id, Bind_str (lgr_service_name pivot_row),
            Bind_str (lgr_host_id pivot_row), Bind_u64 (lgr_timestamp_unix_nano pivot_row),
            Bind_u32 window]
      in
      and_then (map_err Internal_server_error
        (rd_logs ch (''SELECT ?fields FROM observable.logs WHERE tenant_id = ? AND service_name = ? '' @
           ''AND host_id = ? AND timestamp_unix_nano < ? ORDER BY timestamp_unix_nano DESC LIMIT ?'') binds)) (\<lambda>before_rows.
      and_then (map_err Internal_server_error
        (rd_logs ch (''SELECT ?fields FROM observable.logs WHERE tenant_id = ? AND service_name = ? '' @
           ''AND host_id = ? AND timestamp_unix_nano > ? ORDER BY timestamp_unix_nano ASC LIMIT ?'') binds)) (\<lambda>after_rows.
      let all_rows = rev before_rows @ [pivot_row] @ after_rows in
      and_then (validate_log_rows_for_tenant all_rows tenant_id) (\<lambda>_.
      Inr (\<lparr>llr_logs = map (log_from_row S) all_rows, llr_total = word_of_nat (length all_rows),
            llr_facets = []\<rparr>,
           audit ''log_context'' tenant_id (length all_rows))))))))"

text \<open>Repository-level fetches.\<close>

definition fetch_log_rows :: "'e clickhouse_reader \<Rightarrow> uuid \<Rightarrow> ('e, log_row list) result" where
  "fetch_log_rows ch tenant_id =
     rd_logs ch (''SELECT ?fields FROM observable.logs WHERE tenant_id = ? '' @
       ''ORDER BY timestamp_unix_nano LIMIT 1000'') [Bind_uuid tenant_id]"

definition fetch_log_rows_since ::
    "'e clickhouse_reader \<Rightarrow> uuid \<Rightarrow> u64 \<Rightarrow> ('e, log_row list) result" where
  "fetch_log_rows_since ch tenant_id cutoff_unix_nano =
     rd_logs ch (''SELECT ?fields FROM observable.logs WHERE tenant_id = ? '' @
       ''AND timestamp_unix_nano >= ? ORDER BY timestamp_unix_nano LIMIT 1000'')
       [Bind_uuid tenant_id, Bind_u64 cutoff_unix_nano]"

subsection \<open>Traces\<close>

record trace_response =
  trr_trace_id :: string
  trr_spans :: "span list"
  trr_events :: "span_event list"

record trace_list_response =
  tlr_traces :: "trace_response list"
  tlr_total :: u64
  tlr_facets :: facets

definition validate_trace_rows_for_tenant :: "span_row list \<Rightarrow> uuid \<Rightarrow> (http_status, unit) result" where
  "validate_trace_rows_for_tenant rows tenant_id =
     (if list_all (\<lambda>row. spr_tenant_id row = tenant_id) rows then Inr () else Inl Internal_server_error)"

definition trace_spans_sql :: string where
  "trace_spans_sql = ''SELECT '' @ select_cols @ '' FROM observable.spans '' @
     ''WHERE tenant_id = ? AND trace_id = ? ORDER BY start_time_unix_nano LIMIT 1000''"

definition get_trace ::
    "'e clickhouse_reader \<Rightarrow> serde \<Rightarrow> uuid \<Rightarrow> string \<Rightarrow>
     (http_status, trace_response \<times> query_audit_entry) result" where
  "get_trace ch S tenant_id trace_id =
     and_then (map_err Internal_server_error
       (rd_spans ch trace_spans_sql [Bind_uuid tenant_id, Bind_str trace_id])) (\<lambda>rows.
     and_then (validate_trace_rows_for_tenant rows tenant_id) (\<lambda>_.
     if rows = [] then Inl Not_found
     else
     and_then (map_err Internal_server_error
       (rd_events ch (''SELECT tenant_id, trace_id, span_id, event_index, name, '' @
          ''timestamp_unix_nano, attributes FROM observable.span_events '' @
          ''WHERE tenant_id = ? AND trace_id = ? ORDER BY span_id, event_index LIMIT 10000'')
          [Bind_uuid tenant_id, Bind_str trace_id])) (\<lambda>event_rows.
     Inr (\<lparr>trr_trace_id = trace_id, trr_spans = map (span_from_row S) rows,
           trr_events = map (span_event_from_row S) event_rows\<rparr>,
          audit ''trace_get'' tenant_id (length rows)))))"

definition fetch_trace_spans ::
    "'e clickhouse_reader \<Rightarrow> uuid \<Rightarrow> string \<Rightarrow> ('e, span_row list) result" where
  "fetch_trace_spans ch tenant_id trace_id =
     rd_spans ch trace_spans_sql [Bind_uuid tenant_id, Bind_str trace_id]"

text \<open>\<open>bind_common\<close>: the values bound for \<open>trace_search_where_clause\<close>, in its order.\<close>

definition trace_search_binds :: "uuid \<Rightarrow> trace_search_params \<Rightarrow> bind list" where
  "trace_search_binds tenant_id params =
     [Bind_uuid tenant_id] @
     bind_opt Bind_u64 (map_option to_unix_nano (tsp_from params)) @
     bind_opt Bind_u64 (map_option to_unix_nano (tsp_to params)) @
     bind_opt Bind_str (tsp_service params)"

definition trace_search_common_bind_count :: "trace_search_params \<Rightarrow> nat" where
  "trace_search_common_bind_count params =
     1 + (if tsp_from params \<noteq> None then 1 else 0) + (if tsp_to params \<noteq> None then 1 else 0) +
     (if tsp_service params \<noteq> None then 1 else 0)"

definition trace_facet_fields :: "string list" where
  "trace_facet_fields =
     [''service_name'', ''status_code'', ''span_kind'', ''environment'', ''host_id'']"

definition trace_facet_sql :: "trace_search_params \<Rightarrow> string \<Rightarrow> string" where
  "trace_facet_sql params field =
     ''SELECT toString('' @ field @ '') as value, count(DISTINCT trace_id) as count '' @
     ''FROM observable.spans WHERE tenant_id = ?'' @
     opt_clause (tsp_from params) ''start_time_unix_nano >='' @
     opt_clause (tsp_to params) ''start_time_unix_nano <='' @
     opt_clause (tsp_service params) ''service_name ='' @
     '' GROUP BY '' @ field @ '' ORDER BY count DESC LIMIT 10''"

definition trace_facet_plans :: "trace_search_params \<Rightarrow> (string \<times> string) list" where
  "trace_facet_plans params =
     (case tsp_facets params of None \<Rightarrow> []
      | Some facets_str \<Rightarrow>
          map (\<lambda>field. (field, trace_facet_sql params field))
            (filter (\<lambda>field. field \<in> set trace_facet_fields)
              (map trim (split_on (CHR '','') facets_str))))"

text \<open>The first row of each trace, in the order of the rows.\<close>

fun first_per_trace :: "serde \<Rightarrow> string list \<Rightarrow> span_row list \<Rightarrow> trace_response list" where
  "first_per_trace S seen [] = []"
| "first_per_trace S seen (row # rows) =
     (if spr_trace_id row \<in> set seen then first_per_trace S seen rows
      else \<lparr>trr_trace_id = spr_trace_id row, trr_spans = [span_from_row S row], trr_events = []\<rparr>
             # first_per_trace S (spr_trace_id row # seen) rows)"

definition search_traces ::
    "'e clickhouse_reader \<Rightarrow> serde \<Rightarrow> uuid \<Rightarrow> trace_search_params \<Rightarrow>
     (http_status, trace_list_response \<times> query_audit_entry) result" where
  "search_traces ch S tenant_id params =
     (let plan = plan_trace_search params; binds = trace_search_binds tenant_id params in
      and_then (map_err Internal_server_error (rd_count ch (tsl_count_sql plan) binds)) (\<lambda>total.
      and_then (fetch_facets ch binds (trace_facet_plans params) []) (\<lambda>facet_results.
      and_then (map_err Internal_server_error
                 (rd_spans ch (tsl_spans_sql plan) (binds @ [Bind_u64 (tsl_limit plan)]))) (\<lambda>rows.
      and_then (validate_trace_rows_for_tenant rows tenant_id) (\<lambda>_.
      let traces = first_per_trace S [] rows in
      Inr (\<lparr>tlr_traces = traces, tlr_total = total, tlr_facets = facet_results\<rparr>,
           audit ''trace_search'' tenant_id (length traces)))))))"

subsection \<open>Histograms\<close>

record histogram_params =
  hp_service :: "string option"
  hp_from :: "u64 option"
  hp_to :: "u64 option"
  hp_buckets :: "u32 option"

record log_histogram_bucket =
  lhb_start_ms :: u64
  lhb_end_ms :: u64
  lhb_counts :: "32 word \<rightharpoonup> u64"

record trace_histogram_bucket =
  thb_start_ms :: u64
  thb_end_ms :: u64
  thb_count :: u64

definition clamp_buckets :: "u32 option \<Rightarrow> u32 \<Rightarrow> u32" where
  "clamp_buckets requested default_count = max 1 (min 200 (unwrap_or default_count requested))"

definition in_buckets :: "i64 \<Rightarrow> u32 \<Rightarrow> bool" where
  "in_buckets idx n \<longleftrightarrow> 0 \<le> sint idx \<and> sint idx < uint n"

text \<open>The start and the end of bucket \<open>i\<close>; an overflow panics.\<close>

definition bucket_span :: "u64 \<Rightarrow> u64 \<Rightarrow> nat \<Rightarrow> (u64 \<times> u64) option" where
  "bucket_span from_ns interval_ns i =
     Option.bind (checked_mul (word_of_nat i) interval_ns) (\<lambda>off.
     Option.bind (checked_add from_ns off) (\<lambda>start_ns.
     map_option (\<lambda>end_ns. (start_ns, end_ns)) (checked_add start_ns interval_ns)))"

definition histogram_buckets :: "(u64 \<Rightarrow> u64 \<Rightarrow> nat \<Rightarrow> 'b) \<Rightarrow> u64 \<Rightarrow> u64 \<Rightarrow> u32 \<Rightarrow> 'b list outcome" where
  "histogram_buckets mk from_ns interval_ns n =
     (case those (map (\<lambda>i. map_option (\<lambda>(s, e). mk (s div 1000000) (e div 1000000) i)
                  (bucket_span from_ns interval_ns i)) [0..<unat n]) of
        None \<Rightarrow> Panic | Some bs \<Rightarrow> Done bs)"

definition histogram_binds :: "histogram_plan \<Rightarrow> uuid \<Rightarrow> u64 \<Rightarrow> u64 \<Rightarrow> string option \<Rightarrow> bind list" where
  "histogram_binds plan tenant_id from_ns to_ns service =
     [Bind_u64 (hgp_from_ns plan), Bind_u64 (hgp_interval_ns plan), Bind_uuid tenant_id,
      Bind_u64 from_ns, Bind_u64 to_ns] @ bind_opt Bind_str service"

definition add_log_row ::
    "u32 \<Rightarrow> (i64 \<rightharpoonup> (32 word \<rightharpoonup> u64)) \<Rightarrow> i64 \<times> 32 word \<times> u64 \<Rightarrow> (i64 \<rightharpoonup> (32 word \<rightharpoonup> u64))" where
  "add_log_row n raw row = (case row of (idx, severity, count) \<Rightarrow>
     if in_buckets idx n
     then raw(idx \<mapsto> (unwrap_or Map.empty (raw idx))(severity \<mapsto> count)) else raw)"

definition log_histogram ::
    "'e clickhouse_reader \<Rightarrow> u64 \<Rightarrow> uuid \<Rightarrow> histogram_params \<Rightarrow>
     (http_status, log_histogram_bucket list) result outcome" where
  "log_histogram ch now_ns tenant_id params =
     (let from_ns = unwrap_or (saturating_sub now_ns hour_ns) (hp_from params);
          to_ns = unwrap_or now_ns (hp_to params);
          bucket_count = clamp_buckets (hp_buckets params) 30
      in case plan_log_histogram from_ns to_ns (hp_service params) bucket_count of
           Panic \<Rightarrow> Panic
         | Done plan \<Rightarrow>
             (case rd_buckets ch (hgp_sql plan)
                     (histogram_binds plan tenant_id from_ns to_ns (hp_service params)) of
                Inl _ \<Rightarrow> Done (Inl Internal_server_error)
              | Inr rows \<Rightarrow>
                  let raw = foldl (add_log_row bucket_count) Map.empty rows in
                  (case histogram_buckets
                          (\<lambda>s e i. \<lparr>lhb_start_ms = s, lhb_end_ms = e,
                                     lhb_counts = unwrap_or Map.empty (raw (word_of_nat i))\<rparr>)
                          (hgp_from_ns plan) (hgp_interval_ns plan) bucket_count of
                     Panic \<Rightarrow> Panic | Done bs \<Rightarrow> Done (Inr bs))))"

text \<open>The counts of a bucket are added up, and an overflow of the addition panics.\<close>

definition add_trace_row ::
    "u32 \<Rightarrow> (i64 \<rightharpoonup> u64) option \<Rightarrow> i64 \<times> 32 word \<times> u64 \<Rightarrow> (i64 \<rightharpoonup> u64) option" where
  "add_trace_row n raw row = (case row of (idx, _, count) \<Rightarrow>
     Option.bind raw (\<lambda>raw.
     if in_buckets idx n
     then map_option (\<lambda>c. raw(idx \<mapsto> c)) (checked_add (unwrap_or 0 (raw idx)) count) else Some raw))"

definition trace_histogram ::
    "'e clickhouse_reader \<Rightarrow> u64 \<Rightarrow> uuid \<Rightarrow> histogram_params \<Rightarrow>
     (http_status, trace_histogram_bucket list) result outcome" where
  "trace_histogram ch now_ns tenant_id params =
     (let from_ns = unwrap_or (saturating_sub now_ns hour_ns) (hp_from params);
          to_ns = unwrap_or now_ns (hp_to params);
          bucket_count = clamp_buckets (hp_buckets params) 30
      in case plan_trace_histogram from_ns to_ns (hp_service params) bucket_count of
           Panic \<Rightarrow> Panic
         | Done plan \<Rightarrow>
             (case rd_buckets ch (hgp_sql plan)
                     (histogram_binds plan tenant_id from_ns to_ns (hp_service params)) of
                Inl _ \<Rightarrow> Done (Inl Internal_server_error)
              | Inr rows \<Rightarrow>
                  (case foldl (add_trace_row bucket_count) (Some Map.empty) rows of
                     None \<Rightarrow> Panic
                   | Some raw \<Rightarrow>
                       (case histogram_buckets
                               (\<lambda>s e i. \<lparr>thb_start_ms = s, thb_end_ms = e,
                                          thb_count = unwrap_or 0 (raw (word_of_nat i))\<rparr>)
                               (hgp_from_ns plan) (hgp_interval_ns plan) bucket_count of
                          Panic \<Rightarrow> Panic | Done bs \<Rightarrow> Done (Inr bs)))))"

end
