(* ===== verification/Query_Properties.thy ===== *)
theory Query_Properties
  imports Query_Handlers
begin

section \<open>What the query handlers guarantee\<close>

text \<open>
  Every placeholder of a search gets the value of its own condition; whatever the database
  answers, no row of another tenant leaves a handler; the histograms are contiguous and
  hold the counts the database reported.
\<close>

subsection \<open>Placeholders\<close>

definition log_conditions :: "log_search_params \<Rightarrow> (string \<times> bind) list" where
  "log_conditions p =
     cond ''timestamp_unix_nano >='' (bind_opt Bind_u64 (map_option to_unix_nano (lsp_from p))) @
     cond ''timestamp_unix_nano <='' (bind_opt Bind_u64 (map_option to_unix_nano (lsp_to p))) @
     cond ''service_name ='' (bind_opt Bind_str (lsp_service p)) @
     cond ''severity_number >='' (bind_opt Bind_i32 (lsp_severity p)) @
     cond ''trace_id ='' (bind_opt Bind_str (lsp_trace_id p)) @
     cond ''span_id ='' (bind_opt Bind_str (lsp_span_id p))"

definition trace_conditions :: "trace_search_params \<Rightarrow> (string \<times> bind) list" where
  "trace_conditions p =
     cond ''start_time_unix_nano >='' (bind_opt Bind_u64 (map_option to_unix_nano (tsp_from p))) @
     cond ''start_time_unix_nano <='' (bind_opt Bind_u64 (map_option to_unix_nano (tsp_to p))) @
     cond ''service_name ='' (bind_opt Bind_str (tsp_service p))"

lemma log_where_bound:
  assumes "clear_start ys"
  shows "substitute lit (log_search_where_clause p @ ys) (log_search_binds t p @ bs) =
    ''WHERE tenant_id = '' @ lit (Bind_uuid t) @ and_clauses lit (log_conditions p) @ substitute lit ys bs"
  using assms
  by (simp add: log_search_where_clause_def log_search_binds_def log_conditions_def
      substitute_opt substitute_opt_map)

lemma trace_where_bound:
  assumes "clear_start ys"
  shows "substitute lit (trace_search_where_clause p @ ys) (trace_search_binds t p @ bs) =
    ''WHERE tenant_id = '' @ lit (Bind_uuid t) @ and_clauses lit (trace_conditions p) @ substitute lit ys bs"
  using assms
  by (simp add: trace_search_where_clause_def trace_search_binds_def trace_conditions_def
      substitute_opt substitute_opt_map)

lemma no_hole_select_cols: "CHR ''?'' \<notin> set select_cols"
  by (simp add: select_cols_def)

lemma trace_holes:
  "count_list (tsl_spans_sql (plan_trace_search p)) CHR ''?'' = trace_search_common_bind_count p + 1"
  by (simp add: plan_trace_search_def trace_search_where_clause_def Let_def opt_clause_def
      select_cols_def trace_search_common_bind_count_def)

lemma trace_limit: "unat (tsl_limit (plan_trace_search p)) \<le> 500"
proof -
  have "min (unwrap_or 50 (tsp_limit p)) 500 \<le> (500 :: u32)" by simp
  then have "unat (min (unwrap_or 50 (tsp_limit p)) 500) \<le> 500"
    by (simp add: word_le_nat_alt)
  then show ?thesis
    by (simp add: plan_trace_search_def Let_def unsigned_ucast_eq take_bit_nat_eq_self)
qed

lemma trace_spans_bound:
  "substitute lit (tsl_spans_sql (plan_trace_search p))
       (trace_search_binds t p @ [Bind_u64 l]) =
     ''SELECT '' @ select_cols @ '' FROM observable.spans '' @
     ''WHERE (tenant_id, trace_id, start_time_unix_nano) IN '' @
     ''(SELECT tenant_id, trace_id, max(start_time_unix_nano) FROM observable.spans '' @
     ''WHERE tenant_id = '' @ lit (Bind_uuid t) @ and_clauses lit (trace_conditions p) @
     '' GROUP BY tenant_id, trace_id ORDER BY max(start_time_unix_nano) DESC LIMIT '' @
     lit (Bind_u64 l) @ '') ORDER BY start_time_unix_nano DESC''"
  using trace_where_bound[of "'' GROUP BY tenant_id, trace_id ORDER BY max(start_time_unix_nano) DESC LIMIT ?)'' @
      '' ORDER BY start_time_unix_nano DESC''" lit p t "[Bind_u64 l]"]
  by (simp add: plan_trace_search_def Let_def substitute_text no_hole_select_cols)

lemma log_histogram_bound:
  "substitute lit (log_histogram_sql svc)
     (histogram_binds \<lparr>hgp_sql = q, hgp_from_ns = f, hgp_interval_ns = w\<rparr> t f to svc) =
   ''SELECT intDiv(timestamp_unix_nano - '' @ lit (Bind_u64 f) @ '', '' @ lit (Bind_u64 w) @
   '') AS bucket_idx, severity_number, count() AS cnt FROM observable.logs WHERE tenant_id = '' @
   lit (Bind_uuid t) @ '' AND timestamp_unix_nano >= '' @ lit (Bind_u64 f) @
   '' AND timestamp_unix_nano <= '' @ lit (Bind_u64 to) @
   and_clauses lit (cond ''service_name ='' (bind_opt Bind_str svc)) @
   '' GROUP BY bucket_idx, severity_number ORDER BY bucket_idx ASC''"
  using substitute_opt[of "''service_name =''"
      "'' GROUP BY bucket_idx, severity_number ORDER BY bucket_idx ASC''" lit svc Bind_str "[]"]
  by (simp add: log_histogram_sql_def histogram_binds_def)

subsection \<open>Tenants\<close>

locale tenant_guard =
  fixes tenant_of :: "'row \<Rightarrow> uuid"
    and validate :: "'row list \<Rightarrow> uuid \<Rightarrow> (http_status, unit) result"
  assumes accepts: "validate rows t = Inr () \<longleftrightarrow> (\<forall>row \<in> set rows. tenant_of row = t)"
    and rejects: "validate rows t = Inl e \<Longrightarrow> e = Internal_server_error"
begin

lemma guarded:
  assumes "and_then (validate rows t) (\<lambda>_. k) = Inr r"
  shows "k = Inr r" "row \<in> set rows \<Longrightarrow> tenant_of row = t"
  using assms accepts[of rows t] by auto

lemma guarded_map:
  assumes "and_then (validate rows t) (\<lambda>_. k) = Inr r"
    and "\<And>row. new_tenant (convert row) = tenant_of row"
  shows "new_tenant ` set (map convert rows) \<subseteq> {t}"
  using guarded(2)[OF assms(1)] assms(2) by auto

end

interpretation log_guard: tenant_guard lgr_tenant_id validate_log_rows_for_tenant
  by unfold_locales (auto simp: validate_log_rows_for_tenant_def list_all_iff split: if_splits)

interpretation trace_guard: tenant_guard spr_tenant_id validate_trace_rows_for_tenant
  by unfold_locales (auto simp: validate_trace_rows_for_tenant_def list_all_iff split: if_splits)

lemma log_from_row_tenant [simp]: "lg_tenant_id (log_from_row S row) = lgr_tenant_id row"
  by (simp add: log_from_row_def)

lemma span_from_row_tenant [simp]: "sp_tenant_id (span_from_row S row) = spr_tenant_id row"
  by (simp add: span_from_row_def)

definition log_scoped :: "uuid \<Rightarrow> log_list_response \<times> query_audit_entry \<Rightarrow> bool" where
  "log_scoped t r \<longleftrightarrow> lg_tenant_id ` set (llr_logs (fst r)) \<subseteq> {t} \<and> qa_tenant_id (snd r) = t \<and>
     qa_result_count (snd r) = word_of_nat (length (llr_logs (fst r)))"

lemma search_logs_scoped: "search_logs ch S t p = Inr r \<Longrightarrow> log_scoped t r"
  by (auto simp: search_logs_def log_scoped_def audit_def Let_def log_guard.accepts)

lemma tail_logs_scoped: "tail_logs ch S t p = Inr r \<Longrightarrow> log_scoped t r"
  by (auto simp: tail_logs_def log_scoped_def audit_def Let_def log_guard.accepts)

lemma log_context_scoped: "get_log_context ch S t l w = Inr r \<Longrightarrow> log_scoped t r"
  by (auto simp: get_log_context_def log_scoped_def audit_def Let_def log_guard.accepts)

lemma first_per_trace_facts:
  "distinct (map trr_trace_id (first_per_trace S seen rows)) \<and>
   set (map trr_trace_id (first_per_trace S seen rows)) = spr_trace_id ` set rows - set seen \<and>
   (\<forall>r \<in> set (first_per_trace S seen rows). \<exists>row \<in> set rows.
      r = \<lparr>trr_trace_id = spr_trace_id row, trr_spans = [span_from_row S row], trr_events = []\<rparr>)"
  by (induction S seen rows rule: first_per_trace.induct) auto

definition trace_scoped :: "uuid \<Rightarrow> trace_response list \<Rightarrow> query_audit_entry \<Rightarrow> bool" where
  "trace_scoped t traces a \<longleftrightarrow> (\<Union>r \<in> set traces. sp_tenant_id ` set (trr_spans r)) \<subseteq> {t} \<and> qa_tenant_id a = t"

lemma search_traces_scoped:
  assumes "search_traces ch S t p = Inr (resp, a)"
  shows "trace_scoped t (tlr_traces resp) a \<and> distinct (map trr_trace_id (tlr_traces resp)) \<and>
    qa_result_count a = word_of_nat (length (tlr_traces resp))"
proof -
  obtain rows where r: "\<forall>row \<in> set rows. spr_tenant_id row = t" "tlr_traces resp = first_per_trace S [] rows"
    "a = audit ''trace_search'' t (length (tlr_traces resp))"
    using assms by (auto simp: search_traces_def Let_def trace_guard.accepts)
  then show ?thesis
    using first_per_trace_facts[of S "[]" rows] by (fastforce simp: trace_scoped_def audit_def)
qed

lemma get_trace_scoped:
  assumes "get_trace ch S t tr = Inr (resp, a)"
  shows "trace_scoped t [resp] a \<and> trr_spans resp \<noteq> [] \<and> trr_trace_id resp = tr"
  using assms by (auto simp: get_trace_def trace_scoped_def audit_def trace_guard.accepts split: if_splits)

subsection \<open>Histograms\<close>

lemma those_map_Some: "(\<forall>x \<in> set xs. f x = Some (g x)) \<Longrightarrow> those (map f xs) = Some (map g xs)"
  by (induction xs) auto

lemma those_None: "x \<in> set xs \<Longrightarrow> f x = None \<Longrightarrow> those (map f xs) = None"
  by (induction xs) (auto split: option.splits)

lemma bucket_span_fits:
  assumes "i < 2 ^ 64" "unat f + Suc i * unat w < 2 ^ 64"
  shows "bucket_span f w i = Some (f + word_of_nat i * w, f + word_of_nat (Suc i) * w)"
proof -
  have i: "unat (word_of_nat i :: u64) = i"
    using assms(1) by (simp add: unsigned_of_nat take_bit_nat_eq_self)
  have m: "checked_mul (word_of_nat i) w = Some (word_of_nat i * w)"
    using assms(2) by (simp add: checked_mul_def i)
  have um: "unat (word_of_nat i * w) = i * unat w"
    using checked_mul_Some[OF m] i by simp
  have a: "checked_add f (word_of_nat i * w) = Some (f + word_of_nat i * w)"
    using assms(2) by (simp add: checked_add_def um)
  have ua: "unat (f + word_of_nat i * w) = unat f + i * unat w"
    using checked_add_Some[OF a] um by simp
  have c: "checked_add (f + word_of_nat i * w) w = Some (f + word_of_nat i * w + w)"
    using assms(2) by (simp add: checked_add_def ua)
  have e: "f + word_of_nat i * w + w = f + word_of_nat (Suc i) * w"
    by (simp add: distrib_right)
  show ?thesis
    by (simp only: bucket_span_def m a c e bind.bind_lunit option.map)
qed

lemma bucket_span_overflows:
  assumes "i < 2 ^ 64" "2 ^ 64 \<le> unat f + Suc i * unat w"
  shows "bucket_span f w i = None"
proof (rule ccontr)
  assume "bucket_span f w i \<noteq> None"
  then obtain off s e where o: "checked_mul (word_of_nat i) w = Some off" "checked_add f off = Some s"
    "checked_add s w = Some e"
    by (auto simp: bucket_span_def bind_eq_Some_conv)
  have i: "unat (word_of_nat i :: u64) = i"
    using assms(1) by (simp add: unsigned_of_nat take_bit_nat_eq_self)
  have "unat e = unat f + Suc i * unat w"
    using checked_mul_Some[OF o(1)] checked_add_Some[OF o(2)]
      checked_add_Some[OF o(3)] i by simp
  then show False using assms(2) unsigned_less[of e, where 'a = nat] by simp
qed

lemma histogram_buckets_cases:
  assumes "n \<noteq> 0"
  shows "histogram_buckets mk f w n =
    (if unat f + unat n * unat w < 2 ^ 64
     then Done (map (\<lambda>i. mk ((f + word_of_nat i * w) div 1000000)
                        ((f + word_of_nat (Suc i) * w) div 1000000) i) [0..<unat n])
     else Panic)"
proof -
  have n: "0 < unat n" using assms by (simp add: unat_gt_0)
  have n64: "i < 2 ^ 64" if "i < unat n" for i
    using that unsigned_less[of n, where 'a = nat] by simp
  show ?thesis
  proof (cases "unat f + unat n * unat w < 2 ^ 64")
    case True
    have "bucket_span f w i = Some (f + word_of_nat i * w, f + word_of_nat (Suc i) * w)" if "i < unat n" for i
    proof (rule bucket_span_fits[OF n64[OF that]])
      have "Suc i * unat w \<le> unat n * unat w" using that by (intro mult_le_mono1) simp
      then show "unat f + Suc i * unat w < 2 ^ 64" using True by linarith
    qed
    then show ?thesis using True
      by (simp add: histogram_buckets_def those_map_Some[where g = "\<lambda>i. mk ((f + word_of_nat i * w) div 1000000)
                        ((f + word_of_nat (Suc i) * w) div 1000000) i"])
  next
    case False
    have "bucket_span f w (unat n - 1) = None"
      using False n by (intro bucket_span_overflows n64) simp_all
    then have "those (map (\<lambda>i. map_option (\<lambda>(s, e). mk (s div 1000000) (e div 1000000) i)
        (bucket_span f w i)) [0..<unat n]) = None"
      using n by (intro those_None[of "unat n - 1"]) simp_all
    then show ?thesis using False by (simp add: histogram_buckets_def)
  qed
qed

text \<open>The rows that fall on a bucket, the last one of a severity winning.\<close>

definition row_counts :: "(i64 \<times> 32 word \<times> u64) list \<Rightarrow> i64 \<Rightarrow> 32 word \<Rightarrow> u64 option" where
  "row_counts rows idx sev = map_of (rev (map (\<lambda>(i, s, c). ((i, s), c)) rows)) (idx, sev)"

lemma add_log_rows:
  assumes "in_buckets idx n"
  shows "unwrap_or Map.empty (foldl (add_log_row n) Map.empty rows idx) = row_counts rows idx"
proof (induction rows rule: rev_induct)
  case Nil
  then show ?case by (auto simp: row_counts_def)
next
  case (snoc row rows)
  obtain i s c where row: "row = (i, s, c)" by (cases row)
  show ?case
  proof (cases "i = idx")
    case True
    then show ?thesis
      using snoc.IH assms by (auto simp: add_log_row_def row row_counts_def fun_eq_iff)
  next
    case False
    then show ?thesis
      using snoc.IH by (auto simp: add_log_row_def row row_counts_def fun_eq_iff)
  qed
qed

lemma clamp_bounds: "clamp_buckets b d \<noteq> 0" "unat (clamp_buckets b d) \<le> 200"
proof -
  have "1 \<le> clamp_buckets b d" "clamp_buckets b d \<le> 200"
    by (simp_all add: clamp_buckets_def)
  then show "clamp_buckets b d \<noteq> 0" "unat (clamp_buckets b d) \<le> 200"
    by (auto simp: word_le_nat_alt)
qed

lemma in_buckets_index:
  assumes "i < unat n"
  shows "in_buckets (word_of_nat i) n"
proof -
  have "i < 2 ^ 32" using assms unsigned_less[of n, where 'a = nat] by simp
  then have "sint (word_of_nat i :: 64 word) = int i"
    by (simp add: signed_of_nat signed_take_bit_int_eq_self)
  then show ?thesis using assms by (simp add: in_buckets_def) (metis of_nat_less_iff uint_nat)
qed

definition histogram_width :: "u64 \<Rightarrow> u64 \<Rightarrow> u32 \<Rightarrow> u64" where
  "histogram_width f to n = max (max (saturating_sub to f) 1 div ucast n) 1"

lemma bucket_interval_width: "n \<noteq> 0 \<Longrightarrow> bucket_interval f to n = Done (histogram_width f to n)"
  by (simp add: bucket_interval_def histogram_width_def)

subsection \<open>The properties\<close>

text \<open>
  The log search binds the right value to every placeholder, whatever parameters are
  present: with the values substituted, the count query and the row query are exactly the
  query restricted to the tenant and to the conjunction of the conditions requested.
\<close>

theorem log_search_bound:
  "substitute lit (lqp_count_sql (plan_log_search p)) (log_search_binds t p) =
     ''SELECT count() FROM observable.logs WHERE tenant_id = '' @ lit (Bind_uuid t) @
     and_clauses lit (log_conditions p) \<and>
   substitute lit (lqp_logs_sql (plan_log_search p))
       (log_search_binds t p @ [Bind_u32 (lqp_limit (plan_log_search p))]) =
     ''SELECT ?fields FROM observable.logs WHERE tenant_id = '' @ lit (Bind_uuid t) @
     and_clauses lit (log_conditions p) @
     '' ORDER BY timestamp_unix_nano DESC LIMIT '' @ lit (Bind_u32 (lqp_limit (plan_log_search p)))"
  using log_where_bound[of "[]" lit p t "[]"]
    log_where_bound[of "'' ORDER BY timestamp_unix_nano DESC LIMIT ?''" lit p t
      "[Bind_u32 (lqp_limit (plan_log_search p))]"]
  by (simp add: plan_log_search_def Let_def)

text \<open>
  So does the trace search; its row query has exactly one placeholder more than the
  shared values (the assertion in \<open>search_traces\<close> cannot fail), and its limit is at most 500.
\<close>

theorem trace_search_bound:
  "substitute lit (tsl_count_sql (plan_trace_search p)) (trace_search_binds t p) =
     ''SELECT count(DISTINCT trace_id) FROM observable.spans WHERE tenant_id = '' @ lit (Bind_uuid t) @
     and_clauses lit (trace_conditions p) \<and>
   substitute lit (tsl_spans_sql (plan_trace_search p))
       (trace_search_binds t p @ [Bind_u64 (tsl_limit (plan_trace_search p))]) =
     ''SELECT '' @ select_cols @ '' FROM observable.spans '' @
     ''WHERE (tenant_id, trace_id, start_time_unix_nano) IN '' @
     ''(SELECT tenant_id, trace_id, max(start_time_unix_nano) FROM observable.spans '' @
     ''WHERE tenant_id = '' @ lit (Bind_uuid t) @ and_clauses lit (trace_conditions p) @
     '' GROUP BY tenant_id, trace_id ORDER BY max(start_time_unix_nano) DESC LIMIT '' @
     lit (Bind_u64 (tsl_limit (plan_trace_search p))) @ '') ORDER BY start_time_unix_nano DESC'' \<and>
   count_list (tsl_spans_sql (plan_trace_search p)) CHR ''?'' = trace_search_common_bind_count p + 1 \<and>
   length (trace_search_binds t p) = trace_search_common_bind_count p \<and>
   unat (tsl_limit (plan_trace_search p)) \<le> 500"
  using trace_where_bound[of "[]" lit p t "[]"]
  by (simp add: trace_holes trace_limit trace_spans_bound, simp add: plan_trace_search_def Let_def
     trace_search_binds_def trace_search_common_bind_count_def bind_opt_def split: option.splits)

text \<open>
  C15. Tenant isolation of logs: whatever the database answers, a log handler that succeeds
  returns only logs of the caller's tenant, and has written an audit entry with that tenant
  and the number of logs returned.
\<close>

theorem log_handlers_tenant_isolated:
  assumes "search_logs ch S t p = Inr r \<or> tail_logs ch S t q = Inr r \<or> get_log_context ch S t l w = Inr r"
  shows "lg_tenant_id ` set (llr_logs (fst r)) \<subseteq> {t} \<and> qa_tenant_id (snd r) = t \<and>
     qa_result_count (snd r) = word_of_nat (length (llr_logs (fst r)))"
  using assms search_logs_scoped tail_logs_scoped log_context_scoped unfolding log_scoped_def by blast

definition sample_reader :: "unit clickhouse_reader" where
  "sample_reader =
     \<lparr>rd_count = \<lambda>_ _. Inr 2, rd_facet = \<lambda>_ _. Inr [(''cart'', 2)],
      rd_logs = \<lambda>_ _. Inr [log_row_from sample_serde sample_log],
      rd_log = \<lambda>_ _. Inr (Some (log_row_from sample_serde sample_log)),
      rd_spans = \<lambda>_ _. Inr [span_row_from sample_serde sample_span, span_row_from sample_serde sample_span],
      rd_events = \<lambda>_ _. Inr [], rd_buckets = \<lambda>_ _. Inr []\<rparr>"

theorem log_handlers_tenant_isolated_witness:
  "\<exists>r. get_log_context sample_reader sample_serde (lg_tenant_id sample_log) 3 None = Inr r \<and>
     length (llr_logs (fst r)) = 3 \<and> lg_tenant_id ` set (llr_logs (fst r)) \<subseteq> {lg_tenant_id sample_log}"
proof -
  obtain r where r: "get_log_context sample_reader sample_serde (lg_tenant_id sample_log) 3 None = Inr r"
    "length (llr_logs (fst r)) = 3"
    by (simp add: get_log_context_def sample_reader_def map_err_def validate_log_rows_for_tenant_def
        log_row_from_def Let_def)
  then show ?thesis using log_handlers_tenant_isolated by blast
qed

text \<open>
  C16. Tenant isolation of traces: the same of the spans that a trace search and a trace
  lookup return; a search lists each trace once, and a lookup never returns an empty trace.
\<close>

theorem trace_handlers_tenant_isolated:
  shows "(search_traces ch S t p = Inr (resp, a) \<longrightarrow>
       trace_scoped t (tlr_traces resp) a \<and> distinct (map trr_trace_id (tlr_traces resp))) \<and>
     (get_trace ch S t tr = Inr (resp', a') \<longrightarrow>
       trace_scoped t [resp'] a' \<and> trr_spans resp' \<noteq> [] \<and> trr_trace_id resp' = tr)"
  using search_traces_scoped get_trace_scoped by blast

theorem trace_handlers_tenant_isolated_witness:
  "\<exists>resp a. search_traces sample_reader sample_serde (sp_tenant_id sample_span)
       \<lparr>tsp_service = None, tsp_limit = Some 900, tsp_facets = Some ''span_kind, nope'',
        tsp_from = Some 5, tsp_to = None\<rparr> = Inr (resp, a) \<and>
     length (tlr_traces resp) = 1 \<and> trace_scoped (sp_tenant_id sample_span) (tlr_traces resp) a"
proof -
  let ?p = "\<lparr>tsp_service = None, tsp_limit = Some 900, tsp_facets = Some ''span_kind, nope'',
        tsp_from = Some 5, tsp_to = None\<rparr> :: trace_search_params"
  let ?t = "sp_tenant_id sample_span"
  let ?rows = "[span_row_from sample_serde sample_span, span_row_from sample_serde sample_span]"
  have reader: "rd_count sample_reader q b = Inr 2" "rd_spans sample_reader q b = Inr ?rows" for q b
    by (simp_all add: sample_reader_def)
  have "\<exists>f. fetch_facets sample_reader b plans acc = Inr f" for b plans acc
    by (induction sample_reader b plans acc rule: fetch_facets.induct) (simp_all add: sample_reader_def map_err_def)
  then obtain f where f: "fetch_facets sample_reader (trace_search_binds ?t ?p) (trace_facet_plans ?p) [] = Inr f"
    by blast
  have ok: "validate_trace_rows_for_tenant ?rows ?t = Inr ()"
    by (simp add: trace_guard.accepts span_row_from_def)
  obtain resp a where r: "search_traces sample_reader sample_serde ?t ?p = Inr (resp, a)"
    "length (tlr_traces resp) = 1"
    by (simp add: search_traces_def reader f ok map_err_def Let_def)
  then show ?thesis using trace_handlers_tenant_isolated by blast
qed

text \<open>
  C17. The log histogram, completely: a database error is status 500; otherwise the response
  has the clamped number of buckets, each starting where the one before ends, with the counts
  the database reported for its index; the request panics exactly when the last bucket would
  end beyond 64 bits. The buckets miss fewer nanoseconds of the requested range than there
  are buckets.
\<close>

theorem log_histogram_correct:
  fixes ch :: "'e clickhouse_reader" and now :: u64 and p :: histogram_params
  defines "f \<equiv> unwrap_or (saturating_sub now hour_ns) (hp_from p)"
    and "to \<equiv> unwrap_or now (hp_to p)" and "n \<equiv> clamp_buckets (hp_buckets p) 30"
  defines "w \<equiv> histogram_width f to n"
  defines "plan \<equiv> \<lparr>hgp_sql = log_histogram_sql (hp_service p), hgp_from_ns = f, hgp_interval_ns = w\<rparr>"
  shows "log_histogram ch now t p =
      (case rd_buckets ch (hgp_sql plan) (histogram_binds plan t f to (hp_service p)) of
         Inl _ \<Rightarrow> Done (Inl Internal_server_error)
       | Inr rows \<Rightarrow>
           if unat f + unat n * unat w < 2 ^ 64
           then Done (Inr (map (\<lambda>i.
                  \<lparr>lhb_start_ms = (f + word_of_nat i * w) div 1000000,
                   lhb_end_ms = (f + word_of_nat (Suc i) * w) div 1000000,
                   lhb_counts = row_counts rows (word_of_nat i)\<rparr>) [0..<unat n]))
           else Panic) \<and>
    1 \<le> unat n \<and> unat n \<le> 200 \<and> unat to - unat f < unat n * unat w + unat n \<and>
    (unat w = 1 \<or> unat n * unat w \<le> unat to - unat f)"
proof -
  have n: "n \<noteq> 0" "unat n \<le> 200" by (simp_all add: n_def clamp_bounds)
  have w: "bucket_interval f to n = Done w" using n(1) by (simp add: w_def bucket_interval_width)
  have plan: "plan_log_histogram f to (hp_service p) n = Done plan"
    by (simp add: plan_log_histogram_def plan_with_interval_def w plan_def)
  have counts: "map (\<lambda>i. \<lparr>lhb_start_ms = (f + word_of_nat i * w) div 1000000,
          lhb_end_ms = (f + word_of_nat (Suc i) * w) div 1000000,
          lhb_counts = unwrap_or Map.empty (foldl (add_log_row n) Map.empty rows (word_of_nat i))\<rparr>) [0..<unat n] =
      map (\<lambda>i. \<lparr>lhb_start_ms = (f + word_of_nat i * w) div 1000000,
          lhb_end_ms = (f + word_of_nat (Suc i) * w) div 1000000,
          lhb_counts = row_counts rows (word_of_nat i)\<rparr>) [0..<unat n]" for rows
    by (simp add: add_log_rows in_buckets_index)
  have "log_histogram ch now t p =
      (case rd_buckets ch (hgp_sql plan) (histogram_binds plan t f to (hp_service p)) of
         Inl _ \<Rightarrow> Done (Inl Internal_server_error)
       | Inr rows \<Rightarrow>
           if unat f + unat n * unat w < 2 ^ 64
           then Done (Inr (map (\<lambda>i.
                  \<lparr>lhb_start_ms = (f + word_of_nat i * w) div 1000000,
                   lhb_end_ms = (f + word_of_nat (Suc i) * w) div 1000000,
                   lhb_counts = row_counts rows (word_of_nat i)\<rparr>) [0..<unat n]))
           else Panic)"
    unfolding log_histogram_def Let_def f_def[symmetric] to_def[symmetric] n_def[symmetric] plan
    by (simp add: histogram_buckets_cases n(1) counts plan_def split: sum.splits del: of_nat_Suc)
  moreover have "1 \<le> unat n" using n(1) by (simp add: unat_gt_0 Suc_le_eq)
  ultimately show ?thesis
    using n(2) bucket_interval_bounds[OF w] by (auto simp: mult.commute)
qed

end
