(* ===== verification/Alert_Rules.thy ===== *)
theory Alert_Rules
  imports Float64
begin

section \<open>Alert conditions\<close>

text \<open>
  The pure part of \<open>services/alert-evaluator/src/evaluator.rs\<close>: the conditions of the five
  rule types and their evaluation on a value.
\<close>

datatype threshold_operator = Gt | Gte | Lt | Lte | Eq_op

record threshold_condition =
  thc_metric_name :: string
  thc_operator :: threshold_operator
  thc_threshold :: f64

datatype eval_result = Firing | Eval_ok

definition f64_epsilon :: f64 where "f64_epsilon = f64_lit 1 (2 ^ 52)"

definition f64_zero :: f64 where "f64_zero = f64_lit 0 1"

definition f64_of_i64 :: "64 word \<Rightarrow> f64" where
  "f64_of_i64 w = round_f64 (sint w < 0) \<bar>sint w\<bar> 1"

definition fires_if :: "bool \<Rightarrow> eval_result" where
  "fires_if b = (if b then Firing else Eval_ok)"

definition evaluate_threshold :: "f64 \<Rightarrow> threshold_condition \<Rightarrow> eval_result" where
  "evaluate_threshold v condition =
     fires_if (case thc_operator condition of
         Gt \<Rightarrow> f64_lt (thc_threshold condition) v
       | Gte \<Rightarrow> f64_le (thc_threshold condition) v
       | Lt \<Rightarrow> f64_lt v (thc_threshold condition)
       | Lte \<Rightarrow> f64_le v (thc_threshold condition)
       | Eq_op \<Rightarrow> f64_lt (f64_abs (f64_sub v (thc_threshold condition))) f64_epsilon)"

record slo_burn_rate_condition =
  sbc_slo_id :: uuid
  sbc_fast_window_minutes :: u64
  sbc_slow_window_minutes :: u64

record composite_rule_condition =
  crc_left_rule_id :: uuid
  crc_right_rule_id :: uuid

record deadman_condition =
  dmc_service_name :: string
  dmc_window_secs :: i64

definition evaluate_deadman :: "i64 option \<Rightarrow> deadman_condition \<Rightarrow> eval_result" where
  "evaluate_deadman last_seen_secs_ago condition =
     (case last_seen_secs_ago of
        None \<Rightarrow> Firing
      | Some elapsed \<Rightarrow> fires_if (sint (dmc_window_secs condition) \<le> sint elapsed))"

record change_detection_condition =
  cdc_metric_name :: string
  cdc_window_secs :: i64
  cdc_baseline_offset_secs :: i64
  cdc_threshold_percent :: f64

definition evaluate_change_detection ::
    "f64 \<Rightarrow> f64 \<Rightarrow> change_detection_condition \<Rightarrow> eval_result" where
  "evaluate_change_detection current_avg baseline_avg condition =
     (if f64_eq baseline_avg f64_zero
      then if f64_eq current_avg f64_zero then Eval_ok else Firing
      else let percent_change =
             f64_abs (f64_mul (f64_div (f64_sub current_avg baseline_avg) baseline_avg) (f64_lit 100 1))
           in fires_if (f64_le (cdc_threshold_percent condition) percent_change))"

definition calculate_burn_rate :: "u64 \<Rightarrow> u64 \<Rightarrow> f64 \<Rightarrow> f64" where
  "calculate_burn_rate bad_events total_events target =
     (if bad_events = 0 \<or> total_events = 0 then f64_zero
      else let error_budget_fraction = f64_sub (f64_lit 1 1) target;
               observed_error_fraction = f64_div (f64_of_u64 bad_events) (f64_of_u64 total_events)
           in f64_div observed_error_fraction error_budget_fraction)"

definition evaluate_burn_rate :: "f64 \<Rightarrow> f64 \<Rightarrow> f64 \<Rightarrow> f64 \<Rightarrow> eval_result" where
  "evaluate_burn_rate fast_burn_rate slow_burn_rate fast_threshold slow_threshold =
     fires_if (f64_le fast_threshold fast_burn_rate \<and> f64_le slow_threshold slow_burn_rate)"

subsection \<open>What firing means\<close>

lemma fires_if_simps [simp]: "fires_if b = Firing \<longleftrightarrow> b" "fires_if b = Eval_ok \<longleftrightarrow> \<not> b"
  by (simp_all add: fires_if_def)

lemma f64_lit_zero: "f64_lit 0 1 = Finite False 0 0"
  by (simp add: f64_lit_def round_f64_def)

lemma f64_le_NaN [simp]: "\<not> f64_le NaN y" "\<not> f64_le x NaN"
  by (simp_all add: f64_le_def)

lemma f64_add_NaN [simp]: "f64_add x NaN = NaN" "f64_sub NaN y = NaN"
  by (cases x; simp) (simp add: f64_sub_def)

text \<open>
  A threshold rule compares as its operator says: a value that is not a number never
  fires; \<open>gt\<close> and \<open>gte\<close> keep firing as the value grows, \<open>lt\<close> and \<open>lte\<close> as it falls; and
  exactly one of \<open>gt\<close> and \<open>lte\<close> fires on two numbers.
\<close>

theorem threshold_operators:
  shows "evaluate_threshold NaN c = Eval_ok \<and>
    (thc_operator c \<in> {Gt, Gte} \<and> f64_le v w \<and> evaluate_threshold v c = Firing \<longrightarrow>
       evaluate_threshold w c = Firing) \<and>
    (thc_operator c \<in> {Lt, Lte} \<and> f64_le w v \<and> evaluate_threshold v c = Firing \<longrightarrow>
       evaluate_threshold w c = Firing) \<and>
    (v \<noteq> NaN \<and> thc_threshold c \<noteq> NaN \<longrightarrow>
       (evaluate_threshold v (c\<lparr>thc_operator := Gt\<rparr>) = Firing) \<noteq>
       (evaluate_threshold v (c\<lparr>thc_operator := Lte\<rparr>) = Firing))"
  using f64_lt_le_trans[of "thc_threshold c" v w] f64_le_trans[of "thc_threshold c" v w]
    f64_le_trans[of w v "thc_threshold c"] f64_le_lt_trans[of w v "thc_threshold c"]
    f64_not_lt_le[of "thc_threshold c" v]
  by (cases "thc_operator c") (auto simp: evaluate_threshold_def)

theorem threshold_operators_witness:
  "evaluate_threshold (f64_lit 2 1)
     \<lparr>thc_metric_name = ''error_rate'', thc_operator = Gt, thc_threshold = f64_lit 1 1\<rparr> = Firing"
proof -
  let ?c = "\<lparr>thc_metric_name = ''error_rate'', thc_operator = Gt, thc_threshold = f64_lit 1 1\<rparr>"
  have 1: "evaluate_threshold (f64_lit 3 2) ?c = Firing" "f64_le (f64_lit 3 2) (f64_lit 2 1)"
    by code_simp+
  then show ?thesis
    using threshold_operators[where c = ?c and v = "f64_lit 3 2" and w = "f64_lit 2 1"] by simp
qed

end
