(* ===== verification/Alert_Store.thy ===== *)
theory Alert_Store
  imports Alert_Rules Domain
begin

section \<open>The alerting tables and their statements\<close>

text \<open>
  The alerting component keeps its state in Postgres, and the SQL of
  \<open>services/alert-evaluator/src\<close> is its program. A table is the list of its rows. A
  statement is a function of the database that returns it updated with a result or an
  error; it is atomic, so an error leaves the tables as they were. Every statement may
  fail for reasons of its own (\<open>adb_fails\<close>, by the number of the statement); \<open>NOW()\<close> is
  \<open>adb_clock\<close>, in microseconds, and \<open>gen_random_uuid()\<close> is \<open>adb_gen\<close>. The constraints of
  \<open>migrations/postgres\<close> that the statements can violate are part of the model: primary
  keys, the unique index on open firings, the unique notifications and their channel.
\<close>

datatype db_error = Connection_error | Unique_violation | Foreign_key_violation | Panicked

datatype firing_state = Pending | Active | Resolved | Suppressed

record firing =
  fr_firing_id :: uuid
  fr_rule_id :: uuid
  fr_tenant_id :: uuid
  fr_state :: firing_state
  fr_value :: "f64 option"
  fr_occurred_at :: int
  fr_firing_start :: "int option"
  fr_resolved_at :: "int option"
  fr_suppressed_by :: "uuid option"

record alert_rule =
  ar_rule_id :: uuid
  ar_tenant_id :: uuid
  ar_name :: string
  ar_alert_type :: string
  ar_condition :: json
  ar_severity :: string
  ar_for_duration_secs :: "i64 option"
  ar_notification_channels :: "uuid list"
  ar_auto_trigger_incident :: bool
  ar_auto_trigger_delay_secs :: "i64 option"
  ar_runbook_url :: "string option"
  ar_silenced :: bool
  ar_service_name :: "string option"

record slo_definition =
  slo_id :: uuid
  slo_tenant_id :: uuid
  slo_service_name :: string
  slo_environment :: string
  slo_target :: f64
  slo_window_days :: "32 word"
  slo_fast_threshold :: f64
  slo_slow_threshold :: f64

record channel =
  chn_channel_id :: uuid
  chn_tenant_id :: uuid
  chn_name :: string
  chn_config :: json

datatype notification_state = Nt_pending | Nt_sent | Nt_failed

record notification =
  nt_audit_id :: uuid
  nt_tenant_id :: uuid
  nt_firing_id :: uuid
  nt_channel_id :: uuid
  nt_trigger_state :: string
  nt_state :: notification_state
  nt_error_message :: "string option"
  nt_retry_count :: nat
  nt_last_attempt_at :: "int option"

record incident =
  inc_id :: uuid
  inc_tenant_id :: uuid
  inc_title :: string
  inc_severity :: string
  inc_status :: string
  inc_dedup_key :: string
  inc_triggered_by_rule_id :: "uuid option"
  inc_triggered_at :: int
  inc_acknowledged_at :: "int option"
  inc_acknowledged_by :: "string option"
  inc_resolved_at :: "int option"
  inc_resolved_by :: "string option"
  inc_related_deployment_id :: "uuid option"
  inc_runbook_url :: "string option"
  inc_updated_at :: int

record incident_event =
  ie_incident_id :: uuid
  ie_event_time :: int
  ie_event_type :: string
  ie_actor :: string
  ie_message :: "string option"

record alert_db =
  adb_rules :: "alert_rule list"
  adb_slos :: "slo_definition list"
  adb_firings :: "firing list"
  adb_channels :: "channel list"
  adb_notifications :: "notification list"
  adb_incidents :: "incident list"
  adb_events :: "incident_event list"
  adb_steps :: nat
  adb_clock :: "nat \<Rightarrow> int"
  adb_gen :: "nat \<Rightarrow> uuid"
  adb_fails :: "nat \<Rightarrow> bool"

subsection \<open>Statements\<close>

type_synonym 'a stmt = "alert_db \<Rightarrow> alert_db \<times> (db_error, 'a) result"

definition db_return :: "'a \<Rightarrow> 'a stmt" where
  "db_return x db = (db, Inr x)"

definition db_panic :: "'a stmt" where
  "db_panic db = (db, Inl Panicked)"

definition db_fail :: "db_error \<Rightarrow> 'a stmt" where
  "db_fail e db = (db, Inl e)"

text \<open>
  A request to another service takes a step of its own, so that two requests may be
  answered differently.
\<close>

definition ask :: "(nat \<Rightarrow> 'a) \<Rightarrow> 'a stmt" where
  "ask f db = (db\<lparr>adb_steps := Suc (adb_steps db)\<rparr>, Inr (f (adb_steps db)))"

text \<open>\<open>?\<close>: an error ends the function.\<close>

definition db_bind :: "'a stmt \<Rightarrow> ('a \<Rightarrow> 'b stmt) \<Rightarrow> 'b stmt" where
  "db_bind m f db = (case m db of (db', Inl e) \<Rightarrow> (db', Inl e) | (db', Inr x) \<Rightarrow> f x db')"

text \<open>\<open>if let Err(e) = ... { warn }\<close>: an error is logged; a panic is not caught.\<close>

definition db_ignore :: "'a stmt \<Rightarrow> unit stmt" where
  "db_ignore m db = (case m db of
       (db', Inl Panicked) \<Rightarrow> (db', Inl Panicked)
     | (db', _) \<Rightarrow> (db', Inr ()))"

fun db_each :: "('a \<Rightarrow> unit stmt) \<Rightarrow> 'a list \<Rightarrow> unit stmt" where
  "db_each f [] = db_return ()"
| "db_each f (x # xs) = db_bind (f x) (\<lambda>_. db_each f xs)"

text \<open>One statement: its effect gets the time, a fresh UUID and the tables.\<close>

definition execute :: "(int \<Rightarrow> uuid \<Rightarrow> alert_db \<Rightarrow> (db_error, alert_db \<times> 'a) result) \<Rightarrow> 'a stmt" where
  "execute f db =
     (let k = adb_steps db; db1 = db\<lparr>adb_steps := Suc k\<rparr> in
      if adb_fails db k then (db1, Inl Connection_error)
      else case f (adb_clock db k) (adb_gen db k) db1 of
             Inl e \<Rightarrow> (db1, Inl e)
           | Inr (db2, x) \<Rightarrow> (db2, Inr x))"

definition query :: "(alert_db \<Rightarrow> 'a) \<Rightarrow> 'a stmt" where
  "query f = execute (\<lambda>_ _ db. Inr (db, f db))"

definition update :: "(int \<Rightarrow> alert_db \<Rightarrow> alert_db) \<Rightarrow> unit stmt" where
  "update f = execute (\<lambda>now _ db. Inr (f now db, ()))"

subsection \<open>Relations that statements keep\<close>

text \<open>
  A property of a run is a relation between the database before and after it, reflexive
  and transitive, that lets the statement counter advance, and that says nothing of a run
  from a database outside \<open>I\<close>. It holds of a function once it holds of every statement
  in it, whichever of them fail.
\<close>

locale db_relation =
  fixes I :: "alert_db \<Rightarrow> bool" and R :: "alert_db \<Rightarrow> alert_db \<Rightarrow> bool"
  assumes outside: "\<not> I db \<Longrightarrow> R db db'"
    and same: "adb_steps db \<le> n \<Longrightarrow> R db (db\<lparr>adb_steps := n\<rparr>)"
    and same_I: "I (db\<lparr>adb_steps := n\<rparr>) = I db"
    and trans: "R db1 db2 \<Longrightarrow> R db2 db3 \<Longrightarrow> R db1 db3"
begin

definition keeps :: "'a stmt \<Rightarrow> bool" where
  "keeps m \<longleftrightarrow> (\<forall>db. R db (fst (m db)))"

lemma refl: "R db db"
  using same[of db "adb_steps db"] by simp

lemma keepsD: "keeps m \<Longrightarrow> R db (fst (m db))"
  by (simp add: keeps_def)

lemma keeps_return [intro!]: "keeps (db_return x)"
  by (simp add: keeps_def db_return_def refl)

lemma keeps_panic [intro!]: "keeps db_panic"
  by (simp add: keeps_def db_panic_def refl)

lemma keeps_fail [intro!]: "keeps (db_fail e)"
  by (simp add: keeps_def db_fail_def refl)

lemma keeps_ask [intro!]: "keeps (ask f)"
  by (simp add: keeps_def ask_def same)

lemma keeps_bind [intro!]:
  assumes "keeps m" "\<And>x. keeps (f x)"
  shows "keeps (db_bind m f)"
  unfolding keeps_def
proof
  fix db :: alert_db
  obtain db' r where m: "m db = (db', r)" by (cases "m db")
  have 1: "R db db'" using keepsD[OF assms(1), of db] m by simp
  show "R db (fst (db_bind m f db))"
  proof (cases r)
    case (Inl e)
    then show ?thesis using 1 m by (simp add: db_bind_def)
  next
    case (Inr x)
    then show ?thesis using trans[OF 1 keepsD[OF assms(2)]] m by (simp add: db_bind_def)
  qed
qed

lemma keeps_ignore [intro!]: "keeps m \<Longrightarrow> keeps (db_ignore m)"
  unfolding keeps_def db_ignore_def
  by (auto split: prod.splits sum.splits db_error.splits) (metis fst_conv)+

lemma keeps_each: "(\<And>x. x \<in> set xs \<Longrightarrow> keeps (f x)) \<Longrightarrow> keeps (db_each f xs)"
  by (induction xs) auto

text \<open>A statement, with the time it sees; most relations do not look at the time.\<close>

lemma keeps_execute_at:
  assumes "\<And>db db' x. I db \<Longrightarrow>
    f (adb_clock db (adb_steps db)) (adb_gen db (adb_steps db)) (db\<lparr>adb_steps := Suc (adb_steps db)\<rparr>) = Inr (db', x) \<Longrightarrow> R db db'"
  shows "keeps (execute f)"
  unfolding keeps_def
proof
  fix db :: alert_db
  show "R db (fst (execute f db))"
  proof (cases "I db")
    case True
    then show ?thesis
      using same[of db "Suc (adb_steps db)"]
      by (auto simp: execute_def Let_def split: sum.splits dest: assms)
  qed (rule outside)
qed

lemma keeps_execute:
  assumes "\<And>now new db db' x. I db \<Longrightarrow> f now new db = Inr (db', x) \<Longrightarrow> R db db'"
  shows "keeps (execute f)"
proof (rule keeps_execute_at)
  fix db db' :: alert_db and x
  assume "I db" and f: "f (adb_clock db (adb_steps db)) (adb_gen db (adb_steps db)) (db\<lparr>adb_steps := Suc (adb_steps db)\<rparr>) = Inr (db', x)"
  then have "R (db\<lparr>adb_steps := Suc (adb_steps db)\<rparr>) db'" by (intro assms[OF _ f]) (simp add: same_I)
  then show "R db db'" by (rule trans[OF same, rotated]) simp
qed

lemma keeps_query [intro!]: "keeps (query f)"
  unfolding query_def by (rule keeps_execute) (auto intro: refl)

lemma keeps_update: "(\<And>now db. I db \<Longrightarrow> R db (f now db)) \<Longrightarrow> keeps (update f)"
  unfolding update_def by (rule keeps_execute) auto

text \<open>What a query returned is what it saw in a database of \<open>I\<close>.\<close>

lemma keeps_bind_query:
  assumes "\<And>db. I db \<Longrightarrow> keeps (f (g db))"
  shows "keeps (db_bind (query g) f)"
  unfolding keeps_def
proof
  fix db :: alert_db
  let ?db1 = "db\<lparr>adb_steps := Suc (adb_steps db)\<rparr>"
  show "R db (fst (db_bind (query g) f db))"
  proof (cases "I db")
    case True
    have 1: "keeps (f (g ?db1))" by (rule assms) (simp add: same_I True)
    have 2: "R db ?db1" by (rule same) simp
    show ?thesis
      using trans[OF 2 keepsD[OF 1]] 2
      by (simp add: db_bind_def query_def execute_def Let_def)
  qed (rule outside)
qed

lemma keeps_if [intro]: "(b \<Longrightarrow> keeps m) \<Longrightarrow> (\<not> b \<Longrightarrow> keeps n) \<Longrightarrow> keeps (if b then m else n)"
  by simp

lemma keeps_option [intro]:
  "(x = None \<Longrightarrow> keeps m) \<Longrightarrow> (\<And>y. x = Some y \<Longrightarrow> keeps (f y)) \<Longrightarrow>
   keeps (case x of None \<Rightarrow> m | Some y \<Rightarrow> f y)"
  by (cases x) auto

lemma keeps_result [intro!]:
  "keeps m \<Longrightarrow> keeps n \<Longrightarrow> keeps (case r of Firing \<Rightarrow> m | Eval_ok \<Rightarrow> n)"
  by (cases r) auto

end

end
