(* ===== verification/Alert_Firings.thy ===== *)
theory Alert_Firings
  imports Alert_Store
begin

section \<open>Firings, notifications and incidents\<close>

text \<open>
  The part of \<open>evaluator.rs\<close> that writes: \<open>record_firing\<close>, \<open>resolve_open_firing\<close>, the
  incidents they raise and close, \<open>enqueue_notifications\<close> and the suppression pass. How a
  UUID and \<open>{:.2}\<close> are printed is the parameter \<open>text_format\<close>.
\<close>

record text_format =
  tf_uuid :: "uuid \<Rightarrow> string"
  tf_fixed2 :: "f64 \<Rightarrow> string"

definition second :: int where "second = 1000000"

definition is_open :: "firing \<Rightarrow> bool" where
  "is_open f \<longleftrightarrow> fr_state f = Pending \<or> fr_state f = Active"

definition open_for :: "uuid \<Rightarrow> uuid \<Rightarrow> firing \<Rightarrow> bool" where
  "open_for rule tenant f \<longleftrightarrow> fr_rule_id f = rule \<and> fr_tenant_id f = tenant \<and> is_open f"

subsection \<open>Notifications\<close>

text \<open>
  \<open>INSERT ... ON CONFLICT DO NOTHING\<close>; the channel must exist. (Channels are the only rows
  that are ever deleted.)
\<close>

definition insert_notification :: "uuid \<Rightarrow> uuid \<Rightarrow> string \<Rightarrow> uuid \<Rightarrow> unit stmt" where
  "insert_notification tenant firing trigger_state chan = execute (\<lambda>now new db.
     if \<exists>n \<in> set (adb_notifications db). nt_firing_id n = firing \<and> nt_channel_id n = chan \<and>
          nt_trigger_state n = trigger_state
     then Inr (db, ())
     else if new \<in> nt_audit_id ` set (adb_notifications db) then Inl Unique_violation
     else if chan \<notin> chn_channel_id ` set (adb_channels db) then Inl Foreign_key_violation
     else Inr (db\<lparr>adb_notifications := adb_notifications db @
            [\<lparr>nt_audit_id = new, nt_tenant_id = tenant, nt_firing_id = firing, nt_channel_id = chan,
              nt_trigger_state = trigger_state, nt_state = Nt_pending, nt_error_message = None,
              nt_retry_count = 0, nt_last_attempt_at = None\<rparr>]\<rparr>, ()))"

definition enqueue_notifications :: "uuid \<Rightarrow> uuid \<Rightarrow> uuid list \<Rightarrow> string \<Rightarrow> unit stmt" where
  "enqueue_notifications tenant firing channels trigger_state =
     db_each (insert_notification tenant firing trigger_state) channels"

subsection \<open>Incidents\<close>

definition insert_event :: "uuid \<Rightarrow> string \<Rightarrow> string \<Rightarrow> string option \<Rightarrow> unit stmt" where
  "insert_event incident event_type actor message =
     update (\<lambda>now db. db\<lparr>adb_events := adb_events db @
       [\<lparr>ie_incident_id = incident, ie_event_time = now, ie_event_type = event_type,
         ie_actor = actor, ie_message = message\<rparr>]\<rparr>)"

definition closed_status :: "string \<Rightarrow> bool" where
  "closed_status s \<longleftrightarrow> s = ''resolved'' \<or> s = ''post_mortem''"

definition open_incident :: "uuid \<Rightarrow> string \<Rightarrow> alert_db \<Rightarrow> uuid option" where
  "open_incident tenant dedup_key db =
     map_option inc_id (find (\<lambda>i. inc_tenant_id i = tenant \<and> inc_dedup_key i = dedup_key \<and>
       \<not> closed_status (inc_status i)) (adb_incidents db))"

definition insert_incident :: "alert_rule \<Rightarrow> string \<Rightarrow> uuid stmt" where
  "insert_incident rule dedup_key = execute (\<lambda>now new db.
     if new \<in> inc_id ` set (adb_incidents db) then Inl Unique_violation
     else Inr (db\<lparr>adb_incidents := adb_incidents db @
            [\<lparr>inc_id = new, inc_tenant_id = ar_tenant_id rule, inc_title = ar_name rule,
              inc_severity = ar_severity rule, inc_status = ''triggered'', inc_dedup_key = dedup_key,
              inc_triggered_by_rule_id = Some (ar_rule_id rule), inc_triggered_at = now,
              inc_acknowledged_at = None, inc_acknowledged_by = None, inc_resolved_at = None,
              inc_resolved_by = None, inc_related_deployment_id = None,
              inc_runbook_url = ar_runbook_url rule, inc_updated_at = now\<rparr>]\<rparr>, new))"

definition upsert_incident_from_firing :: "text_format \<Rightarrow> alert_rule \<Rightarrow> string \<Rightarrow> f64 \<Rightarrow> unit stmt" where
  "upsert_incident_from_firing tf rule dedup_key v =
     db_bind (query (open_incident (ar_tenant_id rule) dedup_key)) (\<lambda>found.
     db_bind (case found of
         Some i \<Rightarrow> db_return i
       | None \<Rightarrow>
           db_bind (insert_incident rule dedup_key) (\<lambda>i.
           db_bind (insert_event i ''triggered'' ''system''
             (Some ''Alert rule transitioned to active'')) (\<lambda>_.
           db_return i))) (\<lambda>incident_id.
     insert_event incident_id ''alert_fired'' ''system''
       (Some (ar_name rule @ '' fired: value='' @ tf_fixed2 tf v))))"

definition close_incident :: "uuid \<Rightarrow> unit stmt" where
  "close_incident incident_id = update (\<lambda>now db. db\<lparr>adb_incidents := map (\<lambda>i.
     if inc_id i = incident_id
     then i\<lparr>inc_status := ''resolved'', inc_resolved_at := Some now, inc_updated_at := now\<rparr> else i)
     (adb_incidents db)\<rparr>)"

definition resolve_incident_for_firing :: "text_format \<Rightarrow> alert_rule \<Rightarrow> f64 \<Rightarrow> unit stmt" where
  "resolve_incident_for_firing tf rule v =
     db_bind (query (open_incident (ar_tenant_id rule) (tf_uuid tf (ar_rule_id rule)))) (\<lambda>found.
     case found of
       None \<Rightarrow> db_return ()
     | Some incident_id \<Rightarrow>
         db_bind (close_incident incident_id) (\<lambda>_.
         insert_event incident_id ''alert_resolved'' ''system''
           (Some (ar_name rule @ '' resolved: value='' @ tf_fixed2 tf v))))"

subsection \<open>Recording a firing\<close>

text \<open>\<open>ORDER BY occurred_at DESC LIMIT 1\<close> over the open firings of the rule.\<close>

definition latest_open :: "uuid \<Rightarrow> uuid \<Rightarrow> alert_db \<Rightarrow> firing option" where
  "latest_open rule tenant db =
     (case sort_key (\<lambda>f. - fr_occurred_at f) (filter (open_for rule tenant) (adb_firings db)) of
        [] \<Rightarrow> None | f # _ \<Rightarrow> Some f)"

text \<open>The update of the \<open>CASE\<close> expression; a firing without a start is never promoted.\<close>

definition refresh_firing :: "int \<Rightarrow> f64 \<Rightarrow> int \<Rightarrow> firing \<Rightarrow> firing" where
  "refresh_firing now v for_secs f =
     f\<lparr>fr_value := Some v, fr_occurred_at := now,
       fr_state := (if fr_state f = Pending \<and>
                       (case fr_firing_start f of None \<Rightarrow> False | Some t \<Rightarrow> t + for_secs * second \<le> now)
                    then Active else fr_state f)\<rparr>"

definition put_firing :: "firing \<Rightarrow> alert_db \<Rightarrow> alert_db" where
  "put_firing g db = db\<lparr>adb_firings := map (\<lambda>f. if fr_firing_id f = fr_firing_id g then g else f)
     (adb_firings db)\<rparr>"

text \<open>The statement of \<open>record_firing\<close>: update the open firing, or insert one if there is none.\<close>

definition upsert_firing :: "alert_rule \<Rightarrow> f64 \<Rightarrow> int \<Rightarrow> firing_state \<Rightarrow> (uuid \<times> firing_state) stmt" where
  "upsert_firing rule v for_secs initial_state = execute (\<lambda>now new db.
     case latest_open (ar_rule_id rule) (ar_tenant_id rule) db of
       Some f \<Rightarrow>
         (let g = refresh_firing now v for_secs f
          in Inr (put_firing g db, fr_firing_id g, fr_state g))
     | None \<Rightarrow>
         if new \<in> fr_firing_id ` set (adb_firings db) then Inl Unique_violation
         else Inr (db\<lparr>adb_firings := adb_firings db @
                [\<lparr>fr_firing_id = new, fr_rule_id = ar_rule_id rule, fr_tenant_id = ar_tenant_id rule,
                  fr_state = initial_state, fr_value = Some v, fr_occurred_at = now,
                  fr_firing_start = Some now, fr_resolved_at = None, fr_suppressed_by = None\<rparr>]\<rparr>,
              new, initial_state))"

definition hold_secs :: "alert_rule \<Rightarrow> int" where
  "hold_secs rule = max 0 (case ar_for_duration_secs rule of None \<Rightarrow> 0 | Some d \<Rightarrow> sint d)"

definition record_firing :: "text_format \<Rightarrow> alert_rule \<Rightarrow> f64 \<Rightarrow> unit stmt" where
  "record_firing tf rule v =
     (let for_duration_secs = hold_secs rule;
          initial_state = (if for_duration_secs = 0 then Active else Pending) in
      db_bind (upsert_firing rule v for_duration_secs initial_state) (\<lambda>(firing_id, st).
      if st = Active
      then db_bind (enqueue_notifications (ar_tenant_id rule) firing_id
             (ar_notification_channels rule) ''active'') (\<lambda>_.
           if ar_auto_trigger_incident rule
           then db_ignore (upsert_incident_from_firing tf rule (tf_uuid tf (ar_rule_id rule)) v)
           else db_return ())
      else db_return ()))"

subsection \<open>Resolving\<close>

definition resolve_firings :: "alert_rule \<Rightarrow> f64 \<Rightarrow> uuid list stmt" where
  "resolve_firings rule v = execute (\<lambda>now _ db.
     Inr (db\<lparr>adb_firings := map (\<lambda>f.
            if open_for (ar_rule_id rule) (ar_tenant_id rule) f
            then f\<lparr>fr_state := Resolved, fr_resolved_at := Some now, fr_occurred_at := now,
                   fr_value := Some v\<rparr> else f) (adb_firings db)\<rparr>,
          map fr_firing_id (filter (open_for (ar_rule_id rule) (ar_tenant_id rule)) (adb_firings db))))"

definition resolve_open_firing :: "text_format \<Rightarrow> alert_rule \<Rightarrow> f64 \<Rightarrow> unit stmt" where
  "resolve_open_firing tf rule v =
     db_bind (resolve_firings rule v) (\<lambda>firings.
     db_bind (db_each (\<lambda>firing_id. enqueue_notifications (ar_tenant_id rule) firing_id
                (ar_notification_channels rule) ''resolved'') firings) (\<lambda>_.
     if ar_auto_trigger_incident rule
     then db_each (\<lambda>_. db_ignore (resolve_incident_for_firing tf rule v)) firings
     else db_return ()))"

subsection \<open>Suppression\<close>

definition rule_of :: "alert_db \<Rightarrow> uuid \<Rightarrow> alert_rule option" where
  "rule_of db rule_id = find (\<lambda>r. ar_rule_id r = rule_id) (adb_rules db)"

text \<open>
  The join of phase 1: an active firing of a critical rule inhibits an open firing of the
  same tenant whose rule is of lower severity and of the same service.
\<close>

definition inhibits :: "alert_db \<Rightarrow> firing \<Rightarrow> firing \<Rightarrow> bool" where
  "inhibits db inhibitor f \<longleftrightarrow>
     fr_tenant_id inhibitor = fr_tenant_id f \<and> fr_state inhibitor = Active \<and> is_open f \<and>
     fr_firing_id f \<noteq> fr_firing_id inhibitor \<and>
     (case (rule_of db (fr_rule_id inhibitor), rule_of db (fr_rule_id f)) of
        (Some ri, Some rt) \<Rightarrow>
          ar_severity ri = ''critical'' \<and> ar_service_name ri \<noteq> None \<and>
          ar_service_name rt = ar_service_name ri \<and> ar_severity rt \<in> {''warning'', ''info''}
      | _ \<Rightarrow> False)"

definition suppress_inhibited :: "unit stmt" where
  "suppress_inhibited = update (\<lambda>now db. db\<lparr>adb_firings := map (\<lambda>f.
     case find (\<lambda>i. inhibits db i f) (adb_firings db) of
       None \<Rightarrow> f
     | Some i \<Rightarrow> f\<lparr>fr_state := Suppressed, fr_suppressed_by := Some (fr_firing_id i)\<rparr>)
     (adb_firings db)\<rparr>)"

definition covered_by_critical :: "alert_db \<Rightarrow> firing \<Rightarrow> alert_rule \<Rightarrow> bool" where
  "covered_by_critical db f r \<longleftrightarrow>
     (\<exists>f2 \<in> set (adb_firings db). fr_tenant_id f2 = fr_tenant_id f \<and> fr_state f2 = Active \<and>
        (case rule_of db (fr_rule_id f2) of None \<Rightarrow> False
         | Some r2 \<Rightarrow> ar_severity r2 = ''critical'' \<and> ar_service_name r2 \<noteq> None \<and>
             ar_service_name r2 = ar_service_name r))"

text \<open>Phase 2: the suppressed firings whose inhibitor is resolved and that nothing else covers.\<close>

definition releasable :: "alert_db \<Rightarrow> (uuid \<times> uuid \<times> uuid list) list" where
  "releasable db = concat (map (\<lambda>f.
     case (Option.bind (fr_suppressed_by f) (\<lambda>i. find (\<lambda>g. fr_firing_id g = i) (adb_firings db)),
           rule_of db (fr_rule_id f)) of
       (Some inhibitor, Some r) \<Rightarrow>
         if fr_state inhibitor = Resolved \<and> fr_state f = Suppressed \<and> \<not> covered_by_critical db f r
         then [(fr_firing_id f, fr_tenant_id f, ar_notification_channels r)] else []
     | _ \<Rightarrow> []) (adb_firings db))"

text \<open>
  Releasing a firing makes it open again, which the unique index refuses while the rule
  has another open firing.
\<close>

definition release_firing :: "uuid \<Rightarrow> unit stmt" where
  "release_firing firing_id = execute (\<lambda>now _ db.
     let fs = map (\<lambda>f. if fr_firing_id f = firing_id
                        then f\<lparr>fr_state := Active, fr_suppressed_by := None\<rparr> else f) (adb_firings db)
     in if \<exists>f \<in> set (adb_firings db). \<exists>g \<in> set (adb_firings db).
             fr_firing_id f = firing_id \<and> fr_firing_id g \<noteq> firing_id \<and>
             open_for (fr_rule_id f) (fr_tenant_id f) g
        then Inl Unique_violation
        else Inr (db\<lparr>adb_firings := fs\<rparr>, ()))"

definition run_suppression_pass :: "unit stmt" where
  "run_suppression_pass =
     db_bind suppress_inhibited (\<lambda>_.
     db_bind (query releasable) (\<lambda>rows.
     db_each (\<lambda>(firing_id, tenant_id, channels).
       db_bind (release_firing firing_id) (\<lambda>_.
       enqueue_notifications tenant_id firing_id channels ''active'')) rows))"

end
