(* ===== verification/Alert_Evaluator.thy ===== *)
theory Alert_Evaluator
  imports Alert_Firings
begin

section \<open>The evaluation cycle and the notification worker\<close>

text \<open>
  The loops of \<open>services/alert-evaluator/src/evaluator.rs\<close> over the rules of each type, the
  cycle that runs them, and the worker that posts the notifications. ClickHouse, the system
  clock, \<open>serde_json::from_value\<close> on a rule's condition and the HTTP client are parameters:
  each answer may depend on when it is asked (the number of the request) and on what is
  bound in the query. A request that the client refuses to build is an error of the
  function (\<open>map_err(..)?\<close>); a failed fetch only skips the rule.
\<close>

datatype 'a answer = Refused | Fetch_failed | No_row | Row 'a

record eval_env =
  ev_format :: text_format
  ev_now :: "nat \<Rightarrow> u64 option"
  ev_latest_point :: "nat \<Rightarrow> uuid \<Rightarrow> string \<Rightarrow> (f64 option \<times> i64 option) answer"
  ev_span_counts :: "nat \<Rightarrow> uuid \<Rightarrow> string \<Rightarrow> string \<Rightarrow> u64 \<Rightarrow> (u64 \<times> u64) answer"
  ev_last_seen :: "nat \<Rightarrow> uuid \<Rightarrow> string \<Rightarrow> u64 answer"
  ev_window_avg :: "nat \<Rightarrow> uuid \<Rightarrow> string \<Rightarrow> u64 \<Rightarrow> u64 \<Rightarrow> f64 option answer"
  ev_threshold :: "json \<Rightarrow> threshold_condition option"
  ev_slo_burn_rate :: "json \<Rightarrow> slo_burn_rate_condition option"
  ev_composite :: "json \<Rightarrow> composite_rule_condition option"
  ev_deadman :: "json \<Rightarrow> deadman_condition option"
  ev_change_detection :: "json \<Rightarrow> change_detection_condition option"

text \<open>The outcome of \<open>cursor.next().await\<close>, with \<open>None\<close> for an error that skips the rule.\<close>

definition fetch_next :: "(nat \<Rightarrow> 'a answer) \<Rightarrow> 'a option option stmt" where
  "fetch_next f = db_bind (ask f) (\<lambda>a. case a of
       Refused \<Rightarrow> db_fail Connection_error
     | Fetch_failed \<Rightarrow> db_return None
     | No_row \<Rightarrow> db_return (Some None)
     | Row x \<Rightarrow> db_return (Some (Some x)))"

definition system_time :: "eval_env \<Rightarrow> u64 stmt" where
  "system_time env = db_bind (ask (ev_now env)) (\<lambda>t. case t of
       None \<Rightarrow> db_fail Connection_error | Some now \<Rightarrow> db_return now)"

definition rules_of_type :: "string \<Rightarrow> alert_db \<Rightarrow> alert_rule list" where
  "rules_of_type t db = filter (\<lambda>r. ar_alert_type r = t \<and> \<not> ar_silenced r) (adb_rules db)"

subsection \<open>Threshold rules\<close>

definition eval_threshold_rule :: "eval_env \<Rightarrow> alert_rule \<Rightarrow> unit stmt" where
  "eval_threshold_rule env rule =
     (case ev_threshold env (ar_condition rule) of
        None \<Rightarrow> db_return ()
      | Some cond \<Rightarrow>
          db_bind (fetch_next (\<lambda>k. ev_latest_point env k (ar_tenant_id rule) (thc_metric_name cond)))
            (\<lambda>point. case point of
               None \<Rightarrow> db_return ()
             | Some None \<Rightarrow> db_return ()
             | Some (Some (value_double, value_int)) \<Rightarrow>
                 (case (case value_double of Some v \<Rightarrow> Some v | None \<Rightarrow> map_option f64_of_i64 value_int) of
                    None \<Rightarrow> db_return ()
                  | Some v \<Rightarrow>
                      db_ignore (case evaluate_threshold v cond of
                          Firing \<Rightarrow> record_firing (ev_format env) rule v
                        | Eval_ok \<Rightarrow> resolve_open_firing (ev_format env) rule v))))"

definition eval_threshold_rules :: "eval_env \<Rightarrow> unit stmt" where
  "eval_threshold_rules env =
     db_bind (query (rules_of_type ''threshold'')) (db_each (eval_threshold_rule env))"

subsection \<open>Burn-rate rules\<close>

text \<open>
  The multiplications of \<open>window_minutes * 60 * 1_000_000_000\<close> are checked: the workspace's
  release profile sets \<open>overflow-checks\<close>. Every error of this function skips the rule.
\<close>

definition window_ns :: "u64 \<Rightarrow> u64 option" where
  "window_ns window_minutes = Option.bind (checked_mul window_minutes 60) (\<lambda>s. checked_mul s 1000000000)"

definition fetch_span_counts :: "eval_env \<Rightarrow> uuid \<Rightarrow> string \<Rightarrow> string \<Rightarrow> u64 \<Rightarrow> (u64 \<times> u64) option stmt" where
  "fetch_span_counts env tenant_id service_name environment window_minutes =
     db_bind (ask (ev_now env)) (\<lambda>t. case t of
       None \<Rightarrow> db_return None
     | Some now_ns \<Rightarrow>
         (case window_ns window_minutes of
            None \<Rightarrow> db_panic
          | Some w \<Rightarrow>
              db_bind (ask (\<lambda>k. ev_span_counts env k tenant_id service_name environment
                                  (saturating_sub now_ns w)))
                (\<lambda>a. db_return (case a of Row row \<Rightarrow> Some row | No_row \<Rightarrow> Some (0, 0) | _ \<Rightarrow> None))))"

definition find_slo :: "uuid \<Rightarrow> uuid \<Rightarrow> alert_db \<Rightarrow> slo_definition option" where
  "find_slo slo tenant db = find (\<lambda>s. slo_id s = slo \<and> slo_tenant_id s = tenant) (adb_slos db)"

definition eval_slo_burn_rate_rule :: "eval_env \<Rightarrow> alert_rule \<Rightarrow> unit stmt" where
  "eval_slo_burn_rate_rule env rule =
     (case ev_slo_burn_rate env (ar_condition rule) of
        None \<Rightarrow> db_return ()
      | Some cond \<Rightarrow>
          db_bind (query (find_slo (sbc_slo_id cond) (ar_tenant_id rule))) (\<lambda>found. case found of
            None \<Rightarrow> db_return ()
          | Some slo \<Rightarrow>
              db_bind (fetch_span_counts env (slo_tenant_id slo) (slo_service_name slo)
                         (slo_environment slo) (sbc_fast_window_minutes cond)) (\<lambda>fast. case fast of
                None \<Rightarrow> db_return ()
              | Some (fast_total, fast_bad) \<Rightarrow>
                  db_bind (fetch_span_counts env (slo_tenant_id slo) (slo_service_name slo)
                             (slo_environment slo) (sbc_slow_window_minutes cond)) (\<lambda>slow. case slow of
                    None \<Rightarrow> db_return ()
                  | Some (slow_total, slow_bad) \<Rightarrow>
                      (let fast_burn_rate = calculate_burn_rate fast_bad fast_total (slo_target slo);
                           slow_burn_rate = calculate_burn_rate slow_bad slow_total (slo_target slo) in
                       db_ignore (case evaluate_burn_rate fast_burn_rate slow_burn_rate
                                         (slo_fast_threshold slo) (slo_slow_threshold slo) of
                           Firing \<Rightarrow> record_firing (ev_format env) rule fast_burn_rate
                         | Eval_ok \<Rightarrow> resolve_open_firing (ev_format env) rule fast_burn_rate))))))"

definition eval_slo_burn_rate_rules :: "eval_env \<Rightarrow> unit stmt" where
  "eval_slo_burn_rate_rules env =
     db_bind (query (rules_of_type ''slo_burn_rate'')) (db_each (eval_slo_burn_rate_rule env))"

subsection \<open>Composite rules\<close>

definition active_firing :: "uuid \<Rightarrow> uuid \<Rightarrow> alert_db \<Rightarrow> uuid option" where
  "active_firing rule tenant db = map_option fr_firing_id
     (find (\<lambda>f. fr_rule_id f = rule \<and> fr_tenant_id f = tenant \<and> fr_state f = Active) (adb_firings db))"

definition eval_composite_rule :: "eval_env \<Rightarrow> alert_rule \<Rightarrow> unit stmt" where
  "eval_composite_rule env rule =
     (case ev_composite env (ar_condition rule) of
        None \<Rightarrow> db_return ()
      | Some cond \<Rightarrow>
          db_bind (query (active_firing (crc_left_rule_id cond) (ar_tenant_id rule))) (\<lambda>left_active.
          db_bind (query (active_firing (crc_right_rule_id cond) (ar_tenant_id rule))) (\<lambda>right_active.
          db_ignore (if left_active \<noteq> None \<and> right_active \<noteq> None
                     then record_firing (ev_format env) rule (f64_lit 1 1)
                     else resolve_open_firing (ev_format env) rule (f64_lit 0 1)))))"

definition eval_composite_rules :: "eval_env \<Rightarrow> unit stmt" where
  "eval_composite_rules env =
     db_bind (query (rules_of_type ''composite'')) (db_each (eval_composite_rule env))"

subsection \<open>Deadman rules\<close>

definition i64_max :: i64 where "i64_max = 2 ^ 63 - 1"

definition elapsed_secs :: "u64 \<Rightarrow> u64 option \<Rightarrow> i64 option" where
  "elapsed_secs now_ns last_seen = map_option (\<lambda>seen. saturating_sub now_ns seen div 1000000000) last_seen"

definition eval_deadman_rule :: "eval_env \<Rightarrow> alert_rule \<Rightarrow> unit stmt" where
  "eval_deadman_rule env rule =
     (case ev_deadman env (ar_condition rule) of
        None \<Rightarrow> db_return ()
      | Some cond \<Rightarrow>
          db_bind (fetch_next (\<lambda>k. ev_last_seen env k (ar_tenant_id rule) (dmc_service_name cond)))
            (\<lambda>row. case row of
               None \<Rightarrow> db_return ()
             | Some seen \<Rightarrow>
                 db_bind (system_time env) (\<lambda>now_ns.
                   let elapsed = elapsed_secs now_ns
                         (case seen of Some t \<Rightarrow> if 0 < t then Some t else None | None \<Rightarrow> None) in
                   db_ignore (case evaluate_deadman elapsed cond of
                       Firing \<Rightarrow> record_firing (ev_format env) rule (f64_of_i64 (unwrap_or i64_max elapsed))
                     | Eval_ok \<Rightarrow> resolve_open_firing (ev_format env) rule (f64_of_i64 (unwrap_or 0 elapsed))))))"

definition eval_deadman_rules :: "eval_env \<Rightarrow> unit stmt" where
  "eval_deadman_rules env =
     db_bind (query (rules_of_type ''deadman'')) (db_each (eval_deadman_rule env))"

subsection \<open>Change detection rules\<close>

text \<open>\<open>(secs.max(0) as u64) * 1_000_000_000\<close>, checked.\<close>

definition secs_to_ns :: "i64 \<Rightarrow> u64 option" where
  "secs_to_ns secs = checked_mul (if sint secs < 0 then 0 else secs) 1000000000"

definition fetch_window_avg :: "eval_env \<Rightarrow> uuid \<Rightarrow> string \<Rightarrow> u64 \<Rightarrow> u64 \<Rightarrow> f64 option option stmt" where
  "fetch_window_avg env tenant_id metric_name start_ns end_ns =
     db_bind (ask (\<lambda>k. ev_window_avg env k tenant_id metric_name start_ns end_ns))
       (\<lambda>a. db_return (case a of Row avg \<Rightarrow> Some avg | No_row \<Rightarrow> Some None | _ \<Rightarrow> None))"

definition eval_change_detection_rule :: "eval_env \<Rightarrow> alert_rule \<Rightarrow> unit stmt" where
  "eval_change_detection_rule env rule =
     (case ev_change_detection env (ar_condition rule) of
        None \<Rightarrow> db_return ()
      | Some cond \<Rightarrow>
          db_bind (system_time env) (\<lambda>now_ns.
          case (secs_to_ns (cdc_window_secs cond), secs_to_ns (cdc_baseline_offset_secs cond)) of
            (Some window, Some baseline_offset) \<Rightarrow>
              (let baseline_end = saturating_sub now_ns baseline_offset in
               db_bind (fetch_window_avg env (ar_tenant_id rule) (cdc_metric_name cond)
                          (saturating_sub now_ns window) now_ns) (\<lambda>current. case current of
                 Some (Some current_avg) \<Rightarrow>
                   db_bind (fetch_window_avg env (ar_tenant_id rule) (cdc_metric_name cond)
                              (saturating_sub baseline_end window) baseline_end) (\<lambda>baseline. case baseline of
                     Some (Some baseline_avg) \<Rightarrow>
                       db_ignore (case evaluate_change_detection current_avg baseline_avg cond of
                           Firing \<Rightarrow> record_firing (ev_format env) rule current_avg
                         | Eval_ok \<Rightarrow> resolve_open_firing (ev_format env) rule current_avg)
                   | _ \<Rightarrow> db_return ())
               | _ \<Rightarrow> db_return ()))
          | _ \<Rightarrow> db_panic))"

definition eval_change_detection_rules :: "eval_env \<Rightarrow> unit stmt" where
  "eval_change_detection_rules env =
     db_bind (query (rules_of_type ''change_detection'')) (db_each (eval_change_detection_rule env))"

subsection \<open>The cycle and its worker\<close>

definition eval_alert_rules :: "eval_env \<Rightarrow> unit stmt" where
  "eval_alert_rules env =
     db_bind (eval_threshold_rules env) (\<lambda>_.
     db_bind (eval_slo_burn_rate_rules env) (\<lambda>_.
     db_bind (eval_composite_rules env) (\<lambda>_.
     db_bind (eval_deadman_rules env) (\<lambda>_.
     db_bind (eval_change_detection_rules env) (\<lambda>_.
     run_suppression_pass)))))"

text \<open>
  \<open>start_eval_worker\<close>, one environment for each tick: an error is logged and the next
  tick starts a new cycle; a panic ends the task, and with it every later cycle.
\<close>

fun start_eval_worker :: "eval_env list \<Rightarrow> unit stmt" where
  "start_eval_worker [] = db_return ()"
| "start_eval_worker (env # ticks) =
     db_bind (db_ignore (eval_alert_rules env)) (\<lambda>_. start_eval_worker ticks)"

subsection \<open>Notifications\<close>

record webhook_payload =
  wp_version :: string
  wp_firing_id :: uuid
  wp_rule_id :: uuid
  wp_rule_name :: string
  wp_tenant_id :: uuid
  wp_severity :: string
  wp_state :: string
  wp_value :: f64
  wp_occurred_at :: int

datatype http_reply = Http_success | Http_status string | Http_failed string

text \<open>The row of the join: the notification, its firing, the rule and the channel.\<close>

type_synonym pending_notification = "notification \<times> firing \<times> alert_rule \<times> channel"

record notify_env =
  nv_scan :: "nat \<Rightarrow> pending_notification list \<Rightarrow> pending_notification list"
  nv_post :: "nat \<Rightarrow> string \<Rightarrow> webhook_payload \<Rightarrow> http_reply"

definition retry_due :: "int \<Rightarrow> notification \<Rightarrow> bool" where
  "retry_due now n \<longleftrightarrow> (case nt_last_attempt_at n of
     None \<Rightarrow> True | Some t \<Rightarrow> t < now - 2 ^ nt_retry_count n * (10 * second))"

definition joined :: "alert_db \<Rightarrow> notification \<Rightarrow> pending_notification option" where
  "joined db n =
     (case find (\<lambda>f. fr_firing_id f = nt_firing_id n) (adb_firings db) of
        None \<Rightarrow> None
      | Some f \<Rightarrow>
          (case (rule_of db (fr_rule_id f), find (\<lambda>c. chn_channel_id c = nt_channel_id n) (adb_channels db)) of
             (Some r, Some c) \<Rightarrow> Some (n, f, r, c)
           | _ \<Rightarrow> None))"

text \<open>\<open>LIMIT 50\<close> takes the first rows of a scan in an order the statement does not fix.\<close>

definition fetch_pending :: "notify_env \<Rightarrow> pending_notification list stmt" where
  "fetch_pending env = execute (\<lambda>now _ db.
     Inr (db, take 50 (nv_scan env (adb_steps db)
       (List.map_filter (joined db)
         (filter (\<lambda>n. nt_state n = Nt_pending \<and> retry_due now n) (adb_notifications db))))))"

definition update_notification :: "uuid \<Rightarrow> (int \<Rightarrow> notification \<Rightarrow> notification) \<Rightarrow> unit stmt" where
  "update_notification audit_id g = update (\<lambda>now db. db\<lparr>adb_notifications :=
     map (\<lambda>n. if nt_audit_id n = audit_id then g now n else n) (adb_notifications db)\<rparr>)"

definition handle_notification_failure :: "uuid \<Rightarrow> nat \<Rightarrow> string \<Rightarrow> unit stmt" where
  "handle_notification_failure audit_id retry_count error =
     (if 10 \<le> retry_count
      then update_notification audit_id (\<lambda>now n.
             n\<lparr>nt_state := Nt_failed, nt_error_message := Some error, nt_last_attempt_at := Some now\<rparr>)
      else update_notification audit_id (\<lambda>now n.
             n\<lparr>nt_retry_count := Suc (nt_retry_count n), nt_error_message := Some error,
               nt_last_attempt_at := Some now\<rparr>))"

definition webhook_of :: "pending_notification \<Rightarrow> webhook_payload" where
  "webhook_of = (\<lambda>(n, f, r, c).
     \<lparr>wp_version = ''1'', wp_firing_id = nt_firing_id n, wp_rule_id = fr_rule_id f, wp_rule_name = ar_name r,
      wp_tenant_id = nt_tenant_id n, wp_severity = ar_severity r, wp_state = nt_trigger_state n,
      wp_value = unwrap_or (f64_lit 0 1) (fr_value f), wp_occurred_at = fr_occurred_at f\<rparr>)"

text \<open>\<open>config["url"].as_str().unwrap_or("")\<close>\<close>

definition channel_url :: "json \<Rightarrow> string" where
  "channel_url config = (case config of
     JObject entries \<Rightarrow> (case map_of entries ''url'' of Some (JString url) \<Rightarrow> url | _ \<Rightarrow> [])
   | _ \<Rightarrow> [])"

definition process_notification :: "notify_env \<Rightarrow> pending_notification \<Rightarrow> unit stmt" where
  "process_notification env p =
     (let n = fst p; url = channel_url (chn_config (snd (snd (snd p)))) in
      if url = []
      then update_notification (nt_audit_id n) (\<lambda>_ n.
             n\<lparr>nt_state := Nt_failed, nt_error_message := Some ''missing url''\<rparr>)
      else db_bind (ask (\<lambda>k. nv_post env k url (webhook_of p))) (\<lambda>reply. case reply of
          Http_success \<Rightarrow> update_notification (nt_audit_id n) (\<lambda>now n.
            n\<lparr>nt_state := Nt_sent, nt_last_attempt_at := Some now\<rparr>)
        | Http_status status \<Rightarrow>
            handle_notification_failure (nt_audit_id n) (nt_retry_count n) (''HTTP '' @ status)
        | Http_failed error \<Rightarrow>
            handle_notification_failure (nt_audit_id n) (nt_retry_count n) error))"

definition process_pending_notifications :: "notify_env \<Rightarrow> unit stmt" where
  "process_pending_notifications env = db_bind (fetch_pending env) (db_each (process_notification env))"

fun notification_worker :: "notify_env list \<Rightarrow> unit stmt" where
  "notification_worker [] = db_return ()"
| "notification_worker (env # ticks) =
     db_bind (db_ignore (process_pending_notifications env)) (\<lambda>_. notification_worker ticks)"

end
