(* ===== verification/Alert_Lifecycle.thy ===== *)
theory Alert_Lifecycle
  imports Alert_Evaluator
begin

section \<open>What an evaluation cycle does to the alerting tables\<close>

text \<open>
  Two locales carry a relation from the single statements to the whole cycle:
  \<open>firing_relation\<close> to the functions that record and resolve a rule's firing, and
  \<open>alert_relation\<close> to the rule loops, the cycle and the worker. The lifecycle of a firing
  is a step relation of its own, and the cycle refines it.
\<close>

locale firing_relation = db_relation +
  fixes P :: "alert_rule \<Rightarrow> bool"
  assumes upsert: "P r \<Longrightarrow> keeps (upsert_firing r v (hold_secs r)
                              (if hold_secs r = 0 then Active else Pending))"
    and resolve: "P r \<Longrightarrow> keeps (resolve_firings r v)"
    and notify: "P r \<Longrightarrow> keeps (insert_notification (ar_tenant_id r) firing trig chan)"
    and incident: "keeps (insert_incident r key)"
    and event: "keeps (insert_event i t a m)"
    and close: "keeps (close_incident i)"
begin

lemma keeps_enqueue: "P r \<Longrightarrow> keeps (enqueue_notifications (ar_tenant_id r) firing chans trig)"
  unfolding enqueue_notifications_def by (intro keeps_each notify)

lemma keeps_record: "P r \<Longrightarrow> keeps (record_firing tf r v)"
  unfolding record_firing_def Let_def upsert_incident_from_firing_def
  by (intro keeps_bind upsert)
    (auto intro!: keeps_bind keeps_enqueue incident event split: option.splits)

lemma keeps_resolve: "P r \<Longrightarrow> keeps (resolve_open_firing tf r v)"
  unfolding resolve_open_firing_def resolve_incident_for_firing_def
  by (auto intro!: keeps_bind keeps_each keeps_enqueue resolve close event)

end

locale alert_relation = firing_relation +
  assumes rules: "I db \<Longrightarrow> r \<in> set (adb_rules db) \<Longrightarrow> P r"
    and suppress: "keeps run_suppression_pass"
begin

lemma keeps_rules:
  assumes "\<And>r. P r \<Longrightarrow> keeps (f r)"
  shows "keeps (db_bind (query (rules_of_type t)) (db_each f))"
  by (rule keeps_bind_query) (auto intro!: keeps_each assms rules simp: rules_of_type_def)

lemma keeps_fetch_next: "keeps (fetch_next f)"
  unfolding fetch_next_def by (auto intro!: keeps_bind split: answer.splits)

lemma keeps_system_time: "keeps (system_time env)"
  unfolding system_time_def by (auto intro!: keeps_bind)

lemma keeps_span_counts: "keeps (fetch_span_counts env t s e w)"
  unfolding fetch_span_counts_def by (auto intro!: keeps_bind)

lemma keeps_window_avg: "keeps (fetch_window_avg env t m a b)"
  unfolding fetch_window_avg_def by (auto intro!: keeps_bind)

lemma keeps_threshold: "P r \<Longrightarrow> keeps (eval_threshold_rule env r)"
  unfolding eval_threshold_rule_def
  by (auto intro!: keeps_bind keeps_fetch_next keeps_record keeps_resolve split: option.splits)

lemma keeps_slo: "P r \<Longrightarrow> keeps (eval_slo_burn_rate_rule env r)"
  unfolding eval_slo_burn_rate_rule_def Let_def
  by (auto intro!: keeps_bind keeps_span_counts keeps_record keeps_resolve split: option.splits)

lemma keeps_composite: "P r \<Longrightarrow> keeps (eval_composite_rule env r)"
  unfolding eval_composite_rule_def
  by (auto intro!: keeps_bind keeps_record keeps_resolve)

lemma keeps_deadman: "P r \<Longrightarrow> keeps (eval_deadman_rule env r)"
  unfolding eval_deadman_rule_def Let_def
  by (auto intro!: keeps_bind keeps_fetch_next keeps_system_time keeps_record keeps_resolve
      split: option.splits)

lemma keeps_change_detection: "P r \<Longrightarrow> keeps (eval_change_detection_rule env r)"
  unfolding eval_change_detection_rule_def Let_def
  by (auto intro!: keeps_bind keeps_system_time keeps_window_avg keeps_record keeps_resolve
      split: option.splits)

lemma keeps_cycle: "keeps (eval_alert_rules env)"
  unfolding eval_alert_rules_def eval_threshold_rules_def eval_slo_burn_rate_rules_def
    eval_composite_rules_def eval_deadman_rules_def eval_change_detection_rules_def
  by (intro keeps_bind keeps_rules suppress keeps_threshold keeps_slo keeps_composite
      keeps_deadman keeps_change_detection)

lemma keeps_worker: "keeps (start_eval_worker ticks)"
  by (induction ticks) (auto intro!: keeps_bind keeps_cycle)

end

subsection \<open>The invariant of the tables\<close>

definition rule_key :: "firing \<Rightarrow> uuid \<times> uuid" where
  "rule_key f = (fr_rule_id f, fr_tenant_id f)"

definition one_open :: "firing list \<Rightarrow> bool" where
  "one_open fs \<longleftrightarrow> (\<forall>f \<in> set fs. \<forall>g \<in> set fs.
     is_open f \<and> is_open g \<and> rule_key f = rule_key g \<longrightarrow> fr_firing_id f = fr_firing_id g)"

definition notification_key :: "notification \<Rightarrow> uuid \<times> uuid \<times> string" where
  "notification_key n = (nt_firing_id n, nt_channel_id n, nt_trigger_state n)"

definition alert_ok :: "alert_db \<Rightarrow> bool" where
  "alert_ok db \<longleftrightarrow>
     distinct (map fr_firing_id (adb_firings db)) \<and> one_open (adb_firings db) \<and>
     distinct (map nt_audit_id (adb_notifications db)) \<and>
     distinct (map notification_key (adb_notifications db)) \<and>
     distinct (map inc_id (adb_incidents db))"

subsection \<open>The lifecycle of a firing\<close>

text \<open>
  What the alerting contract lets a statement that runs at the time \<open>now\<close> do to one firing,
  given the rules. An open firing is refreshed, and at the first refresh at which the hold
  of its rule has passed since it started, a pending one is promoted; it is resolved; it is
  suppressed, unless its rule is critical; and a suppressed firing is released.
\<close>

definition hold_passed :: "int \<Rightarrow> alert_rule \<Rightarrow> firing \<Rightarrow> bool" where
  "hold_passed now r f \<longleftrightarrow>
     (case fr_firing_start f of None \<Rightarrow> False | Some start \<Rightarrow> start + hold_secs r * second \<le> now)"

inductive lifecycle :: "int \<Rightarrow> alert_rule list \<Rightarrow> firing \<Rightarrow> firing \<Rightarrow> bool" for now rules where
  refresh: "is_open f \<Longrightarrow> r \<in> set rules \<Longrightarrow> rule_key f = (ar_rule_id r, ar_tenant_id r) \<Longrightarrow>
    \<not> (fr_state f = Pending \<and> hold_passed now r f) \<Longrightarrow>
    lifecycle now rules f (f\<lparr>fr_value := Some v, fr_occurred_at := now\<rparr>)"
| promote: "fr_state f = Pending \<Longrightarrow> r \<in> set rules \<Longrightarrow> rule_key f = (ar_rule_id r, ar_tenant_id r) \<Longrightarrow>
    hold_passed now r f \<Longrightarrow>
    lifecycle now rules f (f\<lparr>fr_value := Some v, fr_occurred_at := now, fr_state := Active\<rparr>)"
| resolve: "is_open f \<Longrightarrow>
    lifecycle now rules f (f\<lparr>fr_state := Resolved, fr_resolved_at := Some now, fr_occurred_at := now,
                         fr_value := Some v\<rparr>)"
| suppress: "is_open f \<Longrightarrow> r \<in> set rules \<Longrightarrow> ar_rule_id r = fr_rule_id f \<Longrightarrow>
    ar_severity r \<noteq> ''critical'' \<Longrightarrow>
    lifecycle now rules f (f\<lparr>fr_state := Suppressed, fr_suppressed_by := Some inhibitor\<rparr>)"
| release: "fr_state f = Suppressed \<Longrightarrow>
    lifecycle now rules f (f\<lparr>fr_state := Active, fr_suppressed_by := None\<rparr>)"

inductive_cases lifecycleE: "lifecycle now rules f g"

text \<open>A firing that a statement starts: pending while its rule has a hold, active otherwise.\<close>

definition started :: "int \<Rightarrow> alert_rule list \<Rightarrow> firing \<Rightarrow> bool" where
  "started now rules f \<longleftrightarrow> (\<exists>r \<in> set rules. rule_key f = (ar_rule_id r, ar_tenant_id r) \<and>
     fr_state f = (if hold_secs r = 0 then Active else Pending)) \<and>
     fr_firing_start f = Some now \<and> fr_occurred_at f = now \<and> fr_resolved_at f = None \<and> fr_suppressed_by f = None"

text \<open>
  The way of a firing between the statements \<open>n\<close> and \<open>m\<close> of a run: every change is made by
  one of the statements in between, in their order, at the time that statement reads.
\<close>

inductive moves :: "(nat \<Rightarrow> int) \<Rightarrow> alert_rule list \<Rightarrow> nat \<Rightarrow> firing \<Rightarrow> nat \<Rightarrow> firing \<Rightarrow> bool" for clock rules where
  stay: "n \<le> m \<Longrightarrow> moves clock rules n f m f"
| step: "moves clock rules n f k g \<Longrightarrow> lifecycle (clock k) rules g h \<Longrightarrow> k < m \<Longrightarrow> moves clock rules n f m h"

lemma moves_later: "moves clock rules n f m g \<Longrightarrow> m \<le> m' \<Longrightarrow> moves clock rules n f m' g"
  by (cases rule: moves.cases, assumption) (auto intro: moves.intros)

lemma moves_trans: "moves clock rules k g m h \<Longrightarrow> moves clock rules n f k g \<Longrightarrow> moves clock rules n f m h"
  by (induction rule: moves.induct) (auto intro: moves_later moves.step)

lemma moves_once: "lifecycle (clock n) rules f g \<Longrightarrow> moves clock rules n f (Suc n) g"
  by (rule moves.step[OF moves.stay]) auto

lemma lifecycle_same: "lifecycle now rules f g \<Longrightarrow>
  fr_firing_id g = fr_firing_id f \<and> rule_key g = rule_key f \<and> fr_firing_start g = fr_firing_start f"
  by (auto elim!: lifecycleE simp: rule_key_def)

lemma moves_resolved: "moves clock rules n f m g \<Longrightarrow> fr_state f = Resolved \<Longrightarrow> g = f"
  by (induction rule: moves.induct) (auto elim!: lifecycleE simp: is_open_def)

lemma moves_le: "moves clock rules n f m g \<Longrightarrow> n \<le> m"
  by (induction rule: moves.induct) auto

text \<open>Every firing is kept and moves along its lifecycle; every other one started and moved on.\<close>

definition evolves :: "(nat \<Rightarrow> int) \<Rightarrow> alert_rule list \<Rightarrow> nat \<Rightarrow> firing list \<Rightarrow> nat \<Rightarrow> firing list \<Rightarrow> bool" where
  "evolves clock rules n fs m fs' \<longleftrightarrow>
     (\<forall>f \<in> set fs. \<exists>f' \<in> set fs'. moves clock rules n f m f') \<and>
     (\<forall>f' \<in> set fs'. (\<exists>f \<in> set fs. moves clock rules n f m f') \<or>
        (\<exists>k f. n \<le> k \<and> k < m \<and> started (clock k) rules f \<and> moves clock rules (Suc k) f m f'))"

lemma evolves_refl: "n \<le> m \<Longrightarrow> evolves clock rules n fs m fs"
  unfolding evolves_def by (blast intro: moves.stay)

lemma evolves_trans:
  assumes "evolves clock rules n fs k gs" "evolves clock rules k gs m hs" "n \<le> k" "k \<le> m"
  shows "evolves clock rules n fs m hs"
proof -
  have "\<exists>h \<in> set hs. moves clock rules n f m h" if "f \<in> set fs" for f
    using assms(1,2) that unfolding evolves_def by (meson moves_trans)
  moreover have "(\<exists>f \<in> set fs. moves clock rules n f m h) \<or>
      (\<exists>l f. n \<le> l \<and> l < m \<and> started (clock l) rules f \<and> moves clock rules (Suc l) f m h)" if h: "h \<in> set hs" for h
  proof -
    consider g where "g \<in> set gs" "moves clock rules k g m h"
      | l f where "k \<le> l" "l < m" "started (clock l) rules f" "moves clock rules (Suc l) f m h"
      using assms(2) h unfolding evolves_def by blast
    then show ?thesis
    proof cases
      case 1
      then show ?thesis
        using assms(1,4) unfolding evolves_def by (meson moves_trans order_less_le_trans)
    next
      case 2
      then show ?thesis using assms(3) by (meson order_trans)
    qed
  qed
  ultimately show ?thesis unfolding evolves_def by blast
qed

text \<open>The same for a single statement.\<close>

definition one_step :: "int \<Rightarrow> alert_rule list \<Rightarrow> firing list \<Rightarrow> firing list \<Rightarrow> bool" where
  "one_step now rules fs fs' \<longleftrightarrow>
     (\<forall>f \<in> set fs. \<exists>f' \<in> set fs'. f' = f \<or> lifecycle now rules f f') \<and>
     (\<forall>f' \<in> set fs'. (\<exists>f \<in> set fs. f' = f \<or> lifecycle now rules f f') \<or> started now rules f')"

lemma one_step_refl: "one_step now rules fs fs"
  unfolding one_step_def by blast

lemma one_step_map: "(\<And>f. f \<in> set fs \<Longrightarrow> g f = f \<or> lifecycle now rules f (g f)) \<Longrightarrow> one_step now rules fs (map g fs)"
  unfolding one_step_def by auto

lemma one_step_append: "started now rules f \<Longrightarrow> one_step now rules fs (fs @ [f])"
  unfolding one_step_def by auto

lemma one_step_evolves:
  assumes "one_step (clock n) rules fs fs'"
  shows "evolves clock rules n fs (Suc n) fs'"
proof -
  have one: "moves clock rules n f (Suc n) g" if "g = f \<or> lifecycle (clock n) rules f g" for f g
    using that by (auto intro: moves_once moves.stay)
  have new: "moves clock rules (Suc n) f (Suc n) f" for f by (simp add: moves.stay)
  show ?thesis
    using assms one new unfolding one_step_def evolves_def by (meson lessI order_refl)
qed

end
