(* ===== verification/Alert_Properties.thy ===== *)
theory Alert_Properties
  imports Alert_Lifecycle
begin

section \<open>Properties of the alert evaluator\<close>

text \<open>
  The relation \<open>keeps_lifecycle\<close> for the rules in force and the clock of the database: the
  invariant of the tables is kept and every firing moves along its lifecycle, at the times
  that the statements read. It interprets \<open>alert_relation\<close>, one lemma for
  each statement.
\<close>

definition in_force :: "alert_rule list \<Rightarrow> (nat \<Rightarrow> int) \<Rightarrow> alert_db \<Rightarrow> bool" where
  "in_force rules clock db \<longleftrightarrow> adb_rules db = rules \<and> adb_clock db = clock \<and> alert_ok db"

definition keeps_lifecycle :: "alert_rule list \<Rightarrow> (nat \<Rightarrow> int) \<Rightarrow> alert_db \<Rightarrow> alert_db \<Rightarrow> bool" where
  "keeps_lifecycle rules clock db db' \<longleftrightarrow>
     (in_force rules clock db \<longrightarrow> in_force rules clock db' \<and> adb_steps db \<le> adb_steps db' \<and>
      evolves clock rules (adb_steps db) (adb_firings db) (adb_steps db') (adb_firings db'))"

text \<open>The effect of one statement that runs at the time \<open>now\<close>.\<close>

definition statement_ok :: "int \<Rightarrow> alert_rule list \<Rightarrow> (nat \<Rightarrow> int) \<Rightarrow> alert_db \<Rightarrow> alert_db \<Rightarrow> bool" where
  "statement_ok now rules clock db db' \<longleftrightarrow>
     (in_force rules clock db \<longrightarrow> in_force rules clock db' \<and> adb_steps db' = adb_steps db \<and>
      one_step now rules (adb_firings db) (adb_firings db'))"

lemma in_force_steps [simp]: "in_force rules clock (db\<lparr>adb_steps := n\<rparr>) = in_force rules clock db"
  by (simp add: in_force_def alert_ok_def)

lemma statement_lifecycle:
  assumes "statement_ok (clock (adb_steps db)) rules clock (db\<lparr>adb_steps := Suc (adb_steps db)\<rparr>) db'"
  shows "keeps_lifecycle rules clock db db'"
  using assms one_step_evolves[of clock "adb_steps db"] by (simp add: keeps_lifecycle_def statement_ok_def)

subsection \<open>Updates of the firings\<close>

lemma alert_ok_firings:
  assumes "alert_ok db" "distinct (map fr_firing_id fs)" "one_open fs"
  shows "alert_ok (db\<lparr>adb_firings := fs\<rparr>)"
  using assms by (simp add: alert_ok_def)

lemma statement_map:
  assumes "in_force rules clock db"
    and "\<And>f. f \<in> set (adb_firings db) \<Longrightarrow> g f = f \<or> lifecycle now rules f (g f)"
    and "\<And>f. f \<in> set (adb_firings db) \<Longrightarrow> is_open (g f) \<Longrightarrow> is_open f"
  shows "statement_ok now rules clock db (db\<lparr>adb_firings := map g (adb_firings db)\<rparr>)"
proof -
  let ?fs = "adb_firings db"
  have same: "fr_firing_id (g f) = fr_firing_id f \<and> rule_key (g f) = rule_key f" if "f \<in> set ?fs" for f
    using assms(2)[OF that] lifecycle_same[of now rules f "g f"] by metis
  then have ids: "map fr_firing_id (map g ?fs) = map fr_firing_id ?fs" by simp
  have "one_open ?fs" using assms(1) by (simp add: in_force_def alert_ok_def)
  then have open_one: "one_open (map g ?fs)"
    using assms(3) same unfolding one_open_def set_map ball_simps by metis
  from ids open_one have "alert_ok (db\<lparr>adb_firings := map g ?fs\<rparr>)"
    using assms(1) by (intro alert_ok_firings) (simp_all add: in_force_def alert_ok_def del: map_map)
  then show ?thesis
    using assms(1) one_step_map[OF assms(2)] by (simp add: statement_ok_def in_force_def)
qed

lemma latest_open_Some:
  assumes "latest_open r t db = Some f"
  shows "f \<in> set (adb_firings db) \<and> open_for r t f"
proof -
  from assms obtain xs where "sort_key (\<lambda>f. - fr_occurred_at f) (filter (open_for r t) (adb_firings db)) = f # xs"
    by (auto simp: latest_open_def split: list.splits)
  then have "f \<in> set (sort_key (\<lambda>f. - fr_occurred_at f) (filter (open_for r t) (adb_firings db)))"
    by (simp only: list.set_intros)
  then show ?thesis by (simp only: set_sort set_filter mem_Collect_eq)
qed

lemma latest_open_None:
  assumes "latest_open r t db = None" "f \<in> set (adb_firings db)"
  shows "\<not> open_for r t f"
proof -
  have "sort_key (\<lambda>f. - fr_occurred_at f) (filter (open_for r t) (adb_firings db)) = []"
    using assms(1) by (auto simp: latest_open_def split: list.splits)
  then have "set (sort_key (\<lambda>f. - fr_occurred_at f) (filter (open_for r t) (adb_firings db))) = {}"
    by (simp only: list.set)
  then have "{f \<in> set (adb_firings db). open_for r t f} = {}" by (simp only: set_sort set_filter)
  then show ?thesis using assms(2) by blast
qed

lemma open_for_key: "open_for r t f \<longleftrightarrow> rule_key f = (r, t) \<and> is_open f"
  by (auto simp: open_for_def rule_key_def)

lemma refresh_lifecycle:
  assumes "r \<in> set rules" "open_for (ar_rule_id r) (ar_tenant_id r) f"
  shows "lifecycle now rules f (refresh_firing now v (hold_secs r) f)"
proof (cases "fr_state f = Pending \<and> hold_passed now r f")
  case True
  then show ?thesis
    using assms lifecycle.promote[where f = f and r = r and rules = rules and now = now and v = v]
    by (simp add: refresh_firing_def open_for_key hold_passed_def)
next
  case False
  then show ?thesis
    using lifecycle.refresh[where f = f and r = r and rules = rules and v = v and now = now] assms
    by (auto simp: refresh_firing_def open_for_key hold_passed_def)
qed

lemma refresh_open: "is_open (refresh_firing now v h f) \<longleftrightarrow> is_open f"
  by (auto simp: refresh_firing_def is_open_def)

lemma one_open_append:
  assumes "one_open fs" "\<And>f. f \<in> set fs \<Longrightarrow> rule_key f = rule_key n \<Longrightarrow> \<not> is_open f"
  shows "one_open (fs @ [n])"
proof -
  have "fr_firing_id f = fr_firing_id g"
    if "f \<in> set fs \<or> f = n" "g \<in> set fs \<or> g = n" "is_open f" "is_open g" "rule_key f = rule_key g" for f g
    using that assms(2)[of f] assms(2)[of g] assms(1)[unfolded one_open_def] by metis
  then show ?thesis unfolding one_open_def set_append list.set by blast
qed

lemma upsert_keeps:
  assumes "in_force rules clock db" "r \<in> set rules"
    and "(case latest_open (ar_rule_id r) (ar_tenant_id r) db of
       Some f \<Rightarrow>
         (let g = refresh_firing now v (hold_secs r) f in Inr (put_firing g db, fr_firing_id g, fr_state g))
     | None \<Rightarrow>
         if new \<in> fr_firing_id ` set (adb_firings db) then Inl Unique_violation
         else Inr (db\<lparr>adb_firings := adb_firings db @
                [\<lparr>fr_firing_id = new, fr_rule_id = ar_rule_id r, fr_tenant_id = ar_tenant_id r,
                  fr_state = (if hold_secs r = 0 then Active else Pending), fr_value = Some v,
                  fr_occurred_at = now, fr_firing_start = Some now, fr_resolved_at = None,
                  fr_suppressed_by = None\<rparr>]\<rparr>, new, (if hold_secs r = 0 then Active else Pending)))
      = Inr (db', x)"
  shows "statement_ok now rules clock db db'"
proof (cases "latest_open (ar_rule_id r) (ar_tenant_id r) db")
  case None
  let ?new = "\<lparr>fr_firing_id = new, fr_rule_id = ar_rule_id r, fr_tenant_id = ar_tenant_id r,
    fr_state = (if hold_secs r = 0 then Active else Pending), fr_value = Some v, fr_occurred_at = now,
    fr_firing_start = Some now, fr_resolved_at = None, fr_suppressed_by = None\<rparr>"
  have fresh: "new \<notin> fr_firing_id ` set (adb_firings db)"
    and db': "db' = db\<lparr>adb_firings := adb_firings db @ [?new]\<rparr>"
    using assms(3) None by (auto split: if_splits)
  have "started now rules ?new" using assms(2) by (auto simp: started_def rule_key_def)
  then have one: "one_step now rules (adb_firings db) (adb_firings db @ [?new])" by (rule one_step_append)
  have ok: "alert_ok db" using assms(1) by (simp add: in_force_def)
  have "rule_key ?new = (ar_rule_id r, ar_tenant_id r)" by (simp add: rule_key_def)
  then have "one_open (adb_firings db @ [?new])"
    using latest_open_None[OF None] ok
    by (intro one_open_append) (auto simp: open_for_key alert_ok_def)
  then have "alert_ok db'"
    unfolding db' using ok fresh by (intro alert_ok_firings) (simp_all add: alert_ok_def)
  then show ?thesis
    using assms(1) one by (simp add: db' statement_ok_def in_force_def)
next
  case (Some f)
  let ?g = "refresh_firing now v (hold_secs r) f"
  have f: "f \<in> set (adb_firings db)" "open_for (ar_rule_id r) (ar_tenant_id r) f"
    using latest_open_Some[OF Some] by auto
  have id: "fr_firing_id ?g = fr_firing_id f" by (simp add: refresh_firing_def)
  have only: "h = f" if "h \<in> set (adb_firings db)" "fr_firing_id h = fr_firing_id f" for h
    using that f(1) assms(1) by (auto simp: in_force_def alert_ok_def distinct_map inj_on_def)
  have db': "db' = db\<lparr>adb_firings := map (\<lambda>h. if fr_firing_id h = fr_firing_id ?g then ?g else h) (adb_firings db)\<rparr>"
    using assms(3) Some by (simp add: put_firing_def Let_def)
  show ?thesis
    unfolding db'
    using only refresh_lifecycle[OF assms(2) f(2)] f(2)
    by (intro statement_map[OF assms(1)]) (auto simp: id refresh_open open_for_key split: if_splits)
qed

lemma resolve_step:
  assumes "in_force rules clock db"
  shows "statement_ok now rules clock db (db\<lparr>adb_firings := map (\<lambda>f. if open_for r t f
     then f\<lparr>fr_state := Resolved, fr_resolved_at := Some now, fr_occurred_at := now, fr_value := Some v\<rparr>
     else f) (adb_firings db)\<rparr>)"
  by (rule statement_map[OF assms])
    (auto simp: open_for_key is_open_def intro!: lifecycle.resolve split: if_splits)

subsection \<open>Statements on the other tables\<close>

lemma statement_frame:
  assumes "in_force rules clock db \<Longrightarrow> alert_ok db'" "adb_rules db' = adb_rules db" "adb_firings db' = adb_firings db"
    and "adb_clock db' = adb_clock db" "adb_steps db' = adb_steps db"
  shows "statement_ok now rules clock db db'"
  using assms by (simp add: statement_ok_def in_force_def one_step_refl)

lemma notification_step:
  assumes "(if \<exists>n \<in> set (adb_notifications db). nt_firing_id n = firing \<and> nt_channel_id n = chan \<and>
          nt_trigger_state n = trigger_state
     then Inr (db, ())
     else if new \<in> nt_audit_id ` set (adb_notifications db) then Inl Unique_violation
     else if chan \<notin> chn_channel_id ` set (adb_channels db) then Inl Foreign_key_violation
     else Inr (db\<lparr>adb_notifications := adb_notifications db @
            [\<lparr>nt_audit_id = new, nt_tenant_id = tenant, nt_firing_id = firing, nt_channel_id = chan,
              nt_trigger_state = trigger_state, nt_state = Nt_pending, nt_error_message = None,
              nt_retry_count = 0, nt_last_attempt_at = None\<rparr>]\<rparr>, ())) = Inr (db', x)"
  shows "statement_ok now rules clock db db'"
  using assms
  by (intro statement_frame)
    (force simp: in_force_def alert_ok_def notification_key_def split: if_splits)+

lemma incident_step:
  assumes "(if new \<in> inc_id ` set (adb_incidents db) then Inl Unique_violation
     else Inr (db\<lparr>adb_incidents := adb_incidents db @ [i]\<rparr>, new)) = Inr (db', x)" "inc_id i = new"
  shows "statement_ok now rules clock db db'"
  using assms by (intro statement_frame) (auto simp: in_force_def alert_ok_def split: if_splits)

lemma close_step:
  "statement_ok now rules clock db (db\<lparr>adb_incidents := map (\<lambda>i. if inc_id i = j
     then i\<lparr>inc_status := s, inc_resolved_at := t, inc_updated_at := u\<rparr> else i) (adb_incidents db)\<rparr>)"
proof -
  have "inc_id \<circ> (\<lambda>i :: incident. if inc_id i = j then i\<lparr>inc_status := s, inc_resolved_at := t,
     inc_updated_at := u\<rparr> else i) = inc_id" by (rule ext) simp
  then show ?thesis
    by (intro statement_frame) (simp_all add: in_force_def alert_ok_def)
qed

interpretation lc_db: db_relation "in_force rules clock" "keeps_lifecycle rules clock" for rules clock
proof
  show "keeps_lifecycle rules clock db db'" if "\<not> in_force rules clock db" for db db'
    using that by (simp add: keeps_lifecycle_def)
  show "keeps_lifecycle rules clock db (db\<lparr>adb_steps := n\<rparr>)" if "adb_steps db \<le> n" for db n
    using that by (simp add: keeps_lifecycle_def evolves_refl)
  show "keeps_lifecycle rules clock db1 db3"
    if "keeps_lifecycle rules clock db1 db2" "keeps_lifecycle rules clock db2 db3" for db1 db2 db3
    using that evolves_trans by (auto simp: keeps_lifecycle_def)
qed simp

lemma keeps_statement:
  assumes "\<And>now new db db' x. in_force rules clock db \<Longrightarrow> f now new db = Inr (db', x) \<Longrightarrow> statement_ok now rules clock db db'"
  shows "lc_db.keeps rules clock (execute f)"
proof (rule lc_db.keeps_execute_at)
  fix db db' :: alert_db and x
  assume i: "in_force rules clock db"
    and f: "f (adb_clock db (adb_steps db)) (adb_gen db (adb_steps db)) (db\<lparr>adb_steps := Suc (adb_steps db)\<rparr>) = Inr (db', x)"
  have "statement_ok (adb_clock db (adb_steps db)) rules clock (db\<lparr>adb_steps := Suc (adb_steps db)\<rparr>) db'"
    by (rule assms[OF _ f]) (simp add: i)
  then show "keeps_lifecycle rules clock db db'"
    using i by (intro statement_lifecycle) (simp add: in_force_def)
qed

lemma keeps_statement_update:
  "(\<And>now db. in_force rules clock db \<Longrightarrow> statement_ok now rules clock db (f now db)) \<Longrightarrow> lc_db.keeps rules clock (update f)"
  unfolding update_def by (rule keeps_statement) auto

interpretation lc_firing: firing_relation "in_force rules clock" "keeps_lifecycle rules clock" "\<lambda>r. r \<in> set rules" for rules clock
proof
  show "lc_db.keeps rules clock (upsert_firing r v (hold_secs r) (if hold_secs r = 0 then Active else Pending))"
    if "r \<in> set rules" for r v
    unfolding upsert_firing_def by (rule keeps_statement) (erule upsert_keeps[OF _ that])
  show "lc_db.keeps rules clock (resolve_firings r v)" if "r \<in> set rules" for r v
    unfolding resolve_firings_def by (rule keeps_statement) (auto intro: resolve_step)
  show "lc_db.keeps rules clock (insert_notification (ar_tenant_id r) firing trig chan)" for r firing trig chan
    unfolding insert_notification_def by (rule keeps_statement) (erule notification_step)
  show "lc_db.keeps rules clock (insert_incident r key)" for r key
    unfolding insert_incident_def by (rule keeps_statement) (erule incident_step, simp)
  show "lc_db.keeps rules clock (insert_event i t a m)" for i t a m
    unfolding insert_event_def
    by (rule keeps_statement_update) (rule statement_frame, simp_all add: in_force_def alert_ok_def)
  show "lc_db.keeps rules clock (close_incident i)" for i
    unfolding close_incident_def by (rule keeps_statement_update) (rule close_step)
qed

subsection \<open>The suppression pass\<close>

lemma fst_db_bind: "fst (db_bind m f db) = (case snd (m db) of Inl e \<Rightarrow> fst (m db) | Inr x \<Rightarrow> fst (f x (fst (m db))))"
  by (simp add: db_bind_def split: prod.splits sum.splits)

lemma rule_of_Some: "rule_of db i = Some r \<Longrightarrow> r \<in> set (adb_rules db) \<and> ar_rule_id r = i"
  by (auto simp: rule_of_def find_Some_iff)

lemma inhibits_target:
  "inhibits db i f \<Longrightarrow> is_open f \<and> (\<exists>r \<in> set (adb_rules db). ar_rule_id r = fr_rule_id f \<and> ar_severity r \<noteq> ''critical'')"
  by (auto simp: inhibits_def dest!: rule_of_Some split: option.splits)

lemma suppress_step:
  assumes "in_force rules clock db"
  shows "statement_ok now rules clock db (db\<lparr>adb_firings := map (\<lambda>f.
     case find (\<lambda>i. inhibits db i f) (adb_firings db) of
       None \<Rightarrow> f
     | Some i \<Rightarrow> f\<lparr>fr_state := Suppressed, fr_suppressed_by := Some (fr_firing_id i)\<rparr>)
     (adb_firings db)\<rparr>)"
proof (rule statement_map[OF assms])
  let ?g = "\<lambda>f. case find (\<lambda>i. inhibits db i f) (adb_firings db) of None \<Rightarrow> f
     | Some i \<Rightarrow> f\<lparr>fr_state := Suppressed, fr_suppressed_by := Some (fr_firing_id i)\<rparr>"
  fix f assume "f \<in> set (adb_firings db)"
  show "?g f = f \<or> lifecycle now rules f (?g f)"
  proof (cases "find (\<lambda>i. inhibits db i f) (adb_firings db)")
    case (Some i)
    then have "inhibits db i f" by (auto simp: find_Some_iff)
    then obtain r where "is_open f" "r \<in> set rules" "ar_rule_id r = fr_rule_id f" "ar_severity r \<noteq> ''critical''"
      using inhibits_target assms by (force simp: in_force_def)
    then show ?thesis using lifecycle.suppress Some by auto
  qed simp
  show "is_open f" if "is_open (?g f)"
    using that by (auto simp: is_open_def split: option.splits)
qed

lemma open_for_rule_key: "open_for (fr_rule_id f) (fr_tenant_id f) g \<longleftrightarrow> rule_key g = rule_key f \<and> is_open g"
  by (auto simp: open_for_def rule_key_def)

abbreviation released :: "uuid \<Rightarrow> firing \<Rightarrow> firing" where
  "released i f \<equiv> (if fr_firing_id f = i then f\<lparr>fr_state := Active, fr_suppressed_by := None\<rparr> else f)"

lemma released_same:
  "fr_firing_id (released i f) = fr_firing_id f" "rule_key (released i f) = rule_key f"
  "is_open (released i f) \<longleftrightarrow> fr_firing_id f = i \<or> is_open f"
  by (simp_all add: rule_key_def is_open_def)

lemma release_firing_result:
  "(adb_firings (fst (release_firing i db)) = adb_firings db \<or>
    adb_firings (fst (release_firing i db)) = map (released i) (adb_firings db)) \<and>
   adb_rules (fst (release_firing i db)) = adb_rules db"
  by (simp add: release_firing_def execute_def Let_def split: sum.splits if_splits prod.splits)

lemma release_step:
  assumes "\<And>f. f \<in> set (adb_firings db) \<Longrightarrow> fr_firing_id f = i \<Longrightarrow> fr_state f = Suppressed"
  shows "keeps_lifecycle rules clock db (fst (release_firing i db))"
proof (cases "in_force rules clock db")
  case True
  let ?fs = "adb_firings db" and ?db1 = "db\<lparr>adb_steps := Suc (adb_steps db)\<rparr>"
  let ?db2 = "?db1\<lparr>adb_firings := map (released i) ?fs\<rparr>"
  have same: "keeps_lifecycle rules clock db ?db1" by (rule lc_db.same) simp
  show ?thesis
  proof (cases "adb_fails db (adb_steps db) \<or> (\<exists>f \<in> set ?fs. \<exists>g \<in> set ?fs.
             fr_firing_id f = i \<and> fr_firing_id g \<noteq> i \<and> open_for (fr_rule_id f) (fr_tenant_id f) g)")
    case True
    then have "fst (release_firing i db) = ?db1"
      by (auto simp: release_firing_def execute_def Let_def)
    then show ?thesis using same by simp
  next
    case False
    then have db2: "fst (release_firing i db) = ?db2"
      by (auto simp: release_firing_def execute_def Let_def)
    have clear: "\<not> (rule_key g = rule_key f \<and> is_open g)"
      if "f \<in> set ?fs" "g \<in> set ?fs" "fr_firing_id f = i" "fr_firing_id g \<noteq> i" for f g
      using False that unfolding open_for_rule_key by blast
    have "alert_ok db" using True by (simp add: in_force_def)
    then have "one_open ?fs" by (simp add: alert_ok_def)
    then have "one_open (map (released i) ?fs)"
      using clear unfolding one_open_def set_map ball_simps released_same by metis
    moreover have "map fr_firing_id (map (released i) ?fs) = map fr_firing_id ?fs" by simp
    ultimately have "alert_ok ?db2"
      using \<open>alert_ok db\<close> by (simp add: alert_ok_def del: map_map)
    moreover have "one_step now rules ?fs (map (released i) ?fs)" for now
      using assms by (intro one_step_map) (auto intro: lifecycle.release)
    ultimately have "statement_ok (clock (adb_steps db)) rules clock ?db1 ?db2"
      using True by (simp add: statement_ok_def in_force_def)
    then show ?thesis unfolding db2 by (rule statement_lifecycle)
  qed
qed (rule lc_db.outside)

definition same_firings :: "alert_db \<Rightarrow> alert_db \<Rightarrow> bool" where
  "same_firings db db' \<longleftrightarrow> adb_firings db' = adb_firings db"

interpretation sf: db_relation "\<lambda>_. True" same_firings
  by unfold_locales (simp_all add: same_firings_def)

lemma insert_notification_same_firings: "sf.keeps (insert_notification t f s c)"
  unfolding insert_notification_def
  by (rule sf.keeps_execute) (auto simp: same_firings_def split: if_splits)

lemma enqueue_same_firings: "adb_firings (fst (enqueue_notifications t f cs s db)) = adb_firings db"
proof -
  have "sf.keeps (enqueue_notifications t f cs s)"
    unfolding enqueue_notifications_def by (intro sf.keeps_each insert_notification_same_firings)
  then show ?thesis using sf.keepsD[of _ db] by (simp add: same_firings_def)
qed

lemma enqueue_keeps: "lc_db.keeps rules clock (enqueue_notifications t f cs s)"
  unfolding enqueue_notifications_def insert_notification_def
  by (intro lc_db.keeps_each, rule keeps_statement) (erule notification_step)

lemma release_loop:
  assumes "distinct (map fst rows)"
    and "\<And>f. f \<in> set (adb_firings db) \<Longrightarrow> fr_firing_id f \<in> fst ` set rows \<Longrightarrow> fr_state f = Suppressed"
  shows "keeps_lifecycle rules clock db (fst (db_each (\<lambda>(i, t, cs).
           db_bind (release_firing i) (\<lambda>_. enqueue_notifications t i cs ''active'')) rows db))"
  using assms
proof (induction rows arbitrary: db)
  case Nil
  then show ?case by (simp add: db_return_def lc_db.refl)
next
  case (Cons row rows)
  obtain i t cs where row: "row = (i, t, cs)" by (cases row) auto
  let ?body = "db_bind (release_firing i) (\<lambda>_. enqueue_notifications t i cs ''active'')"
  let ?db1 = "fst (release_firing i db)" and ?db2 = "fst (?body db)"
  have 1: "keeps_lifecycle rules clock db ?db1"
    using Cons.prems(2) row by (intro release_step) auto
  have "keeps_lifecycle rules clock ?db1 ?db2 \<and> adb_firings ?db2 = adb_firings ?db1"
    using lc_db.keepsD[OF enqueue_keeps] enqueue_same_firings
    by (simp add: fst_db_bind lc_db.refl split: sum.splits)
  then have 2: "keeps_lifecycle rules clock db ?db2" and fs: "adb_firings ?db2 = adb_firings ?db1"
    using lc_db.trans[OF 1] by auto
  have "fr_state f = Suppressed" if f: "f \<in> set (adb_firings ?db2)" "fr_firing_id f \<in> fst ` set rows" for f
  proof -
    have "i \<notin> fst ` set rows" using Cons.prems(1) row by simp
    with f(2) have "fr_firing_id f \<noteq> i" by blast
    with f(1) have "f \<in> set (adb_firings db)"
      using release_firing_result[of i db] unfolding fs by (auto split: if_splits)
    then show ?thesis using f(2) Cons.prems(2)[of f] by simp
  qed
  then have "keeps_lifecycle rules clock ?db2 (fst (db_each (\<lambda>(i, t, cs).
           db_bind (release_firing i) (\<lambda>_. enqueue_notifications t i cs ''active'')) rows ?db2))"
    using Cons.prems(1) by (intro Cons.IH) auto
  then show ?case
    using 2 lc_db.trans[OF 2]
    by (simp add: row fst_db_bind[of ?body] split: sum.splits)
qed

lemma releasable_Suppressed:
  "row \<in> set (releasable db) \<Longrightarrow> \<exists>f \<in> set (adb_firings db). fr_firing_id f = fst row \<and> fr_state f = Suppressed"
  by (auto simp: releasable_def split: option.splits if_splits)

lemma distinct_map_concat:
  assumes "distinct (map key xs)" "\<And>x. h x = [] \<or> map k (h x) = [key x]"
  shows "distinct (map k (concat (map h xs)))"
  using assms(1)
proof (induction xs)
  case (Cons x xs)
  have "k ` set (concat (map h xs)) \<subseteq> key ` set xs"
  proof
    fix y assume "y \<in> k ` set (concat (map h xs))"
    then obtain z where z: "z \<in> set xs" "y \<in> set (map k (h z))" by auto
    then show "y \<in> key ` set xs" using assms(2)[of z] by (cases "h z = []") auto
  qed
  then show ?case using Cons assms(2)[of x] by (cases "h x = []") auto
qed simp

lemma distinct_releasable:
  "distinct (map fr_firing_id (adb_firings db)) \<Longrightarrow> distinct (map fst (releasable db))"
  unfolding releasable_def by (erule distinct_map_concat) (auto split: option.splits)

lemma suppression_keeps: "lc_db.keeps rules clock run_suppression_pass"
proof -
  have 1: "lc_db.keeps rules clock suppress_inhibited"
    unfolding suppress_inhibited_def by (rule keeps_statement_update) (rule suppress_step)
  let ?loop = "db_each (\<lambda>(i, t, cs). db_bind (release_firing i) (\<lambda>_. enqueue_notifications t i cs ''active''))"
  have 2: "keeps_lifecycle rules clock db (fst (db_bind (query releasable) ?loop db))" for db
  proof (cases "in_force rules clock db")
    case True
    let ?db1 = "db\<lparr>adb_steps := Suc (adb_steps db)\<rparr>"
    have rows: "releasable ?db1 = releasable db"
      by (simp add: releasable_def covered_by_critical_def rule_of_def cong: option.case_cong)
    have ids: "distinct (map fr_firing_id (adb_firings db))" using True by (simp add: in_force_def alert_ok_def)
    have "fr_state f = Suppressed" if "f \<in> set (adb_firings db)" "fr_firing_id f \<in> fst ` set (releasable db)" for f
    proof -
      from that(2) obtain row where "row \<in> set (releasable db)" "fr_firing_id f = fst row" by blast
      then obtain g where "g \<in> set (adb_firings db)" "fr_firing_id g = fr_firing_id f" "fr_state g = Suppressed"
        using releasable_Suppressed by metis
      moreover from this that(1) ids have "g = f" unfolding distinct_map inj_on_def by blast
      ultimately show ?thesis by simp
    qed
    then have "keeps_lifecycle rules clock ?db1 (fst (?loop (releasable ?db1) ?db1))"
      using ids by (intro release_loop) (simp_all add: distinct_releasable rows)
    then show ?thesis
      using lc_db.trans[OF lc_db.same[of db "Suc (adb_steps db)" rules clock]] lc_db.same[of db "Suc (adb_steps db)" rules clock]
      by (simp add: fst_db_bind query_def execute_def Let_def)
  qed (rule lc_db.outside)
  show ?thesis
    unfolding run_suppression_pass_def
    by (rule lc_db.keeps_bind[OF 1]) (simp only: lc_db.keeps_def 2 simp_thms)
qed

interpretation lc: alert_relation "in_force rules clock" "keeps_lifecycle rules clock" "\<lambda>r. r \<in> set rules" for rules clock
proof
  show "r \<in> set rules" if "in_force rules clock db" "r \<in> set (adb_rules db)" for db r
    using that by (simp add: in_force_def)
qed (rule suppression_keeps)

end
