(* ===== verification/Alert_Claims.thy ===== *)
theory Alert_Claims
  imports Alert_Properties
begin

section \<open>What the evaluation worker guarantees\<close>

subsection \<open>An example\<close>

text \<open>
  One tenant with a warning and a critical threshold rule of the same service, one channel,
  and a metric that exceeds both thresholds.
\<close>

definition example_rule :: "uuid \<Rightarrow> string \<Rightarrow> alert_rule" where
  "example_rule i severity = \<lparr>ar_rule_id = i, ar_tenant_id = 7, ar_name = ''High error rate'',
     ar_alert_type = ''threshold'', ar_condition = JNull, ar_severity = severity,
     ar_for_duration_secs = None, ar_notification_channels = [5], ar_auto_trigger_incident = False,
     ar_auto_trigger_delay_secs = None, ar_runbook_url = None, ar_silenced = False,
     ar_service_name = Some ''checkout''\<rparr>"

definition example_db :: alert_db where
  "example_db = \<lparr>adb_rules = [example_rule 1 ''warning'', example_rule 2 ''critical''], adb_slos = [],
     adb_firings = [], adb_channels = [\<lparr>chn_channel_id = 5, chn_tenant_id = 7, chn_name = ''ops'',
       chn_config = JObject [(''url'', JString ''http://ops'')]\<rparr>],
     adb_notifications = [], adb_incidents = [], adb_events = [], adb_steps = 0,
     adb_clock = int, adb_gen = of_nat, adb_fails = (\<lambda>_. False)\<rparr>"

definition example_env :: eval_env where
  "example_env = \<lparr>ev_format = \<lparr>tf_uuid = (\<lambda>_. []), tf_fixed2 = (\<lambda>_. [])\<rparr>, ev_now = (\<lambda>_. Some 0),
     ev_latest_point = (\<lambda>_ _ _. Row (Some (f64_lit 2 1), None)),
     ev_span_counts = (\<lambda>_ _ _ _ _. No_row), ev_last_seen = (\<lambda>_ _ _. No_row),
     ev_window_avg = (\<lambda>_ _ _ _ _. No_row),
     ev_threshold = (\<lambda>_. Some \<lparr>thc_metric_name = ''error_rate'', thc_operator = Gt, thc_threshold = f64_lit 1 1\<rparr>),
     ev_slo_burn_rate = (\<lambda>_. None), ev_composite = (\<lambda>_. None), ev_deadman = (\<lambda>_. None),
     ev_change_detection = (\<lambda>_. None)\<rparr>"

lemma example_db_ok: "alert_ok example_db"
  by (simp add: alert_ok_def example_db_def one_open_def)

subsection \<open>The tables\<close>

text \<open>
  C18. Whatever ClickHouse answers and whichever statements fail, the evaluation worker keeps
  the invariant of the alerting tables: a rule has at most one open firing, and a firing
  notifies a channel of one transition at most once. It never changes the rules.
\<close>

theorem eval_worker_keeps_tables:
  assumes "alert_ok db"
  shows "alert_ok (fst (start_eval_worker ticks db)) \<and> adb_rules (fst (start_eval_worker ticks db)) = adb_rules db"
  using lc_db.keepsD[OF lc.keeps_worker, of "adb_rules db" "adb_clock db" db ticks] assms
  by (simp add: keeps_lifecycle_def in_force_def)

theorem eval_worker_keeps_tables_witness:
  "alert_ok (fst (start_eval_worker [example_env, example_env] example_db)) \<and>
   length (adb_firings (fst (start_eval_worker [example_env, example_env] example_db))) = 3"
proof
  show "alert_ok (fst (start_eval_worker [example_env, example_env] example_db))"
    using eval_worker_keeps_tables[OF example_db_ok] by blast
  show "length (adb_firings (fst (start_eval_worker [example_env, example_env] example_db))) = 3"
    by code_simp
qed

text \<open>
  C19. The worker refines the lifecycle of alert firings. Every firing is kept, and between
  the first and the last statement of the run it changes only by a statement of the run, at
  the time that this statement reads: it is refreshed, it is promoted from pending exactly
  when the hold of its rule has passed since its start by then, it is resolved, suppressed
  or released. Every other firing was started by a statement of the run for a rule in force,
  pending if the rule has a hold, and moved on in the same way. A resolved firing never
  changes again.
\<close>

theorem eval_worker_refines_lifecycle:
  assumes "alert_ok db" "db' = fst (start_eval_worker ticks db)"
  shows "evolves (adb_clock db) (adb_rules db) (adb_steps db) (adb_firings db) (adb_steps db') (adb_firings db') \<and>
    set (filter (\<lambda>f. fr_state f = Resolved) (adb_firings db)) \<subseteq> set (adb_firings db')"
proof -
  have "evolves (adb_clock db) (adb_rules db) (adb_steps db) (adb_firings db) (adb_steps db') (adb_firings db')"
    using lc_db.keepsD[OF lc.keeps_worker, of "adb_rules db" "adb_clock db" db ticks] assms
    by (simp add: keeps_lifecycle_def in_force_def)
  then show ?thesis unfolding evolves_def using moves_resolved by fastforce
qed

theorem eval_worker_refines_lifecycle_witness:
  "evolves int (adb_rules example_db) 0 [] (adb_steps (fst (start_eval_worker [example_env] example_db)))
     (adb_firings (fst (start_eval_worker [example_env] example_db)))"
  using eval_worker_refines_lifecycle[OF example_db_ok HOL.refl, of "[example_env]"] by (simp add: example_db_def)

subsection \<open>Recording and resolving\<close>

definition notified :: "alert_db \<Rightarrow> alert_db \<Rightarrow> bool" where
  "notified db db' \<longleftrightarrow> adb_firings db' = adb_firings db \<and>
     notification_key ` set (adb_notifications db) \<subseteq> notification_key ` set (adb_notifications db')"

interpretation nt: db_relation "\<lambda>_. True" notified
  by unfold_locales (auto simp: notified_def)

lemma notified_statements:
  "nt.keeps (insert_notification t f s c)" "nt.keeps (insert_incident r key)"
  "nt.keeps (insert_event i e a m)" "nt.keeps (close_incident i)"
  unfolding insert_notification_def insert_incident_def insert_event_def close_incident_def
  by (rule nt.keeps_execute nt.keeps_update; auto simp: notified_def split: if_splits)+

lemma notified_upsert_incident: "nt.keeps (upsert_incident_from_firing tf r key v)"
  unfolding upsert_incident_from_firing_def
  by (auto intro!: nt.keeps_bind notified_statements)

lemma notified_resolve_incident: "nt.keeps (resolve_incident_for_firing tf r v)"
  unfolding resolve_incident_for_firing_def
  by (auto intro!: nt.keeps_bind notified_statements)

lemma notified_enqueue: "nt.keeps (enqueue_notifications t f cs s)"
  unfolding enqueue_notifications_def by (intro nt.keeps_each notified_statements)

lemma db_bind_Inr:
  assumes "db_bind m f db = (db', Inr y)"
  obtains db1 x where "m db = (db1, Inr x)" "f x db1 = (db', Inr y)"
  using assms by (auto simp: db_bind_def split: prod.splits sum.splits)

lemma insert_notification_ok:
  "insert_notification t f s c db = (db', Inr ()) \<Longrightarrow> (f, c, s) \<in> notification_key ` set (adb_notifications db')"
  by (force simp: insert_notification_def execute_def Let_def notification_key_def image_iff
      split: if_splits sum.splits)

lemma enqueue_ok:
  "enqueue_notifications t f cs s db = (db', Inr ()) \<Longrightarrow> c \<in> set cs \<Longrightarrow>
   (f, c, s) \<in> notification_key ` set (adb_notifications db')"
proof (induction cs arbitrary: db)
  case (Cons d cs)
  from Cons.prems(1) obtain db1 where 1: "insert_notification t f s d db = (db1, Inr ())"
      and 2: "enqueue_notifications t f cs s db1 = (db', Inr ())"
    by (auto simp: enqueue_notifications_def elim!: db_bind_Inr)
  have "notified db1 db'" using nt.keepsD[OF notified_enqueue, of db1] 2 by (metis fst_conv)
  then show ?case
    using Cons.IH[OF 2] Cons.prems(2) insert_notification_ok[OF 1] by (auto simp: notified_def)
qed simp

lemma distinct_singleton:
  assumes "set xs = {g}" "distinct xs"
  shows "xs = [g]"
proof -
  have "length xs = card {g}" using distinct_card[OF assms(2)] unfolding assms(1) by (rule sym)
  then have "length xs = Suc 0" by simp
  then obtain y where "xs = [y]" unfolding length_Suc_conv by blast
  then show ?thesis using assms(1) by simp
qed

lemma only_open:
  assumes "alert_ok db" "g \<in> set (adb_firings db)" "open_for r t g"
  shows "filter (open_for r t) (adb_firings db) = [g]"
proof -
  let ?xs = "filter (open_for r t) (adb_firings db)"
  have "f = g" if f: "f \<in> set ?xs" for f
  proof -
    from f assms(2,3) have "f \<in> set (adb_firings db)" "rule_key f = rule_key g" "is_open f" "is_open g"
      by (simp_all add: open_for_key)
    moreover from this assms(1,2) have "fr_firing_id f = fr_firing_id g"
      unfolding alert_ok_def one_open_def by blast
    ultimately show ?thesis
      using assms(1,2) unfolding alert_ok_def distinct_map inj_on_def by blast
  qed
  moreover have "g \<in> set ?xs" using assms(2,3) by simp
  ultimately have "set ?xs = {g}" by blast
  moreover have "distinct ?xs" using assms(1) by (simp add: alert_ok_def distinct_map)
  ultimately show ?thesis by (rule distinct_singleton)
qed

lemma one_notification:
  assumes "alert_ok db" "k \<in> notification_key ` set (adb_notifications db)"
  shows "length (filter (\<lambda>n. notification_key n = k) (adb_notifications db)) = 1"
proof -
  have "length (filter (\<lambda>n. key n = k) xs) = 1" if "distinct (map key xs)" "k \<in> key ` set xs"
    for key :: "notification \<Rightarrow> uuid \<times> uuid \<times> string" and xs
    using that
  proof (induction xs)
    case (Cons x xs)
    then show ?case
      by (cases "key x = k") (auto simp: filter_empty_conv image_iff)
  qed simp
  then show ?thesis using assms by (simp add: alert_ok_def)
qed

lemma execute_Inr:
  assumes "execute f db = (db', Inr x)"
  shows "f (adb_clock db (adb_steps db)) (adb_gen db (adb_steps db))
           (db\<lparr>adb_steps := Suc (adb_steps db)\<rparr>) = Inr (db', x)"
  using assms by (auto simp: execute_def Let_def split: if_splits sum.splits)

lemma keeps_ok: "lc_db.keeps (adb_rules db) (adb_clock db) m \<Longrightarrow> alert_ok db \<Longrightarrow> m db = (db', y) \<Longrightarrow> alert_ok db'"
  using lc_db.keepsD[of "adb_rules db" "adb_clock db" m db] by (simp add: keeps_lifecycle_def in_force_def)

lemma upsert_firing_ok:
  assumes "alert_ok db" "r \<in> set (adb_rules db)"
    and run: "upsert_firing r v (hold_secs r) (if hold_secs r = 0 then Active else Pending) db = (db', Inr (i, st))"
  obtains g where "filter (open_for (ar_rule_id r) (ar_tenant_id r)) (adb_firings db') = [g]"
    "fr_firing_id g = i" "fr_state g = st" "fr_value g = Some v"
proof -
  let ?open = "open_for (ar_rule_id r) (ar_tenant_id r)"
  let ?db1 = "db\<lparr>adb_steps := Suc (adb_steps db)\<rparr>"
  have ok: "alert_ok db'" using keeps_ok[OF lc_firing.upsert[OF assms(2)] assms(1) run] .
  have "\<exists>g \<in> set (adb_firings db'). ?open g \<and> fr_firing_id g = i \<and> fr_state g = st \<and> fr_value g = Some v"
  proof (cases "latest_open (ar_rule_id r) (ar_tenant_id r) ?db1")
    case None
    then show ?thesis
      using execute_Inr[OF run[unfolded upsert_firing_def]]
      by (auto simp: Let_def open_for_def is_open_def split: if_splits)
  next
    case (Some f)
    let ?g = "refresh_firing (adb_clock db (adb_steps db)) v (hold_secs r) f"
    have f: "f \<in> set (adb_firings db)" "?open f" using latest_open_Some[OF Some] by auto
    have "?open ?g" using f(2) refresh_open by (auto simp: open_for_def refresh_firing_def is_open_def)
    moreover have "db' = put_firing ?g ?db1" "i = fr_firing_id ?g" "st = fr_state ?g"
      using execute_Inr[OF run[unfolded upsert_firing_def]] Some by (simp_all add: Let_def)
    moreover from this f(1) have "?g \<in> set (adb_firings db')"
      by (force simp: put_firing_def refresh_firing_def image_iff)
    ultimately show ?thesis by (auto simp: refresh_firing_def)
  qed
  then obtain g where g: "g \<in> set (adb_firings db')" "?open g" "fr_firing_id g = i" "fr_state g = st" "fr_value g = Some v"
    by blast
  show thesis by (rule that[OF only_open[OF ok g(1,2)] g(3,4,5)])
qed

lemma record_firing_runs:
  assumes "record_firing tf r v db = (db', Inr ())"
  obtains db1 i st where
    "upsert_firing r v (hold_secs r) (if hold_secs r = 0 then Active else Pending) db = (db1, Inr (i, st))"
    "adb_firings db' = adb_firings db1"
    "st = Active \<longrightarrow> (\<lambda>c. (i, c, ''active'')) ` set (ar_notification_channels r)
       \<subseteq> notification_key ` set (adb_notifications db')"
proof -
  let ?rest = "\<lambda>(i, st). if st = Active
      then db_bind (enqueue_notifications (ar_tenant_id r) i (ar_notification_channels r) ''active'') (\<lambda>_.
           if ar_auto_trigger_incident r
           then db_ignore (upsert_incident_from_firing tf r (tf_uuid tf (ar_rule_id r)) v)
           else db_return ())
      else db_return ()"
  obtain db1 i st where 1:
      "upsert_firing r v (hold_secs r) (if hold_secs r = 0 then Active else Pending) db = (db1, Inr (i, st))"
    and 2: "?rest (i, st) db1 = (db', Inr ())"
    using assms by (auto simp: record_firing_def Let_def elim!: db_bind_Inr)
  show thesis
  proof (cases "st = Active")
    case False
    then show thesis using that[OF 1] 2 by (simp add: db_return_def)
  next
    case True
    let ?last = "if ar_auto_trigger_incident r
      then db_ignore (upsert_incident_from_firing tf r (tf_uuid tf (ar_rule_id r)) v) else db_return ()"
    from 2 True obtain db2 where
      3: "enqueue_notifications (ar_tenant_id r) i (ar_notification_channels r) ''active'' db1 = (db2, Inr ())"
      and 4: "?last db2 = (db', Inr ())"
      by (auto elim!: db_bind_Inr)
    have "nt.keeps ?last" using notified_upsert_incident by auto
    then have "notified db2 db'" using nt.keepsD[of ?last db2] 4 by simp
    moreover have "notified db1 db2" using nt.keepsD[OF notified_enqueue, of db1] 3 by (metis fst_conv)
    ultimately show thesis
      using that[OF 1] enqueue_ok[OF 3] by (auto simp: notified_def)
  qed
qed

text \<open>
  C20. When recording a firing succeeds, the rule has exactly one open firing with the
  recorded value, and once that firing is active each channel of the rule has exactly one
  notification of it, however often it is recorded again.
\<close>

theorem record_firing_notifies_once:
  assumes "alert_ok db" "r \<in> set (adb_rules db)" "record_firing tf r v db = (db', Inr ())"
  shows "\<exists>g. filter (open_for (ar_rule_id r) (ar_tenant_id r)) (adb_firings db') = [g] \<and> fr_value g = Some v \<and>
    (fr_state g = Active \<longrightarrow> list_all (\<lambda>c. length (filter (\<lambda>n. notification_key n =
       (fr_firing_id g, c, ''active'')) (adb_notifications db')) = 1) (ar_notification_channels r))"
proof -
  let ?open = "open_for (ar_rule_id r) (ar_tenant_id r)"
  obtain db1 i st where 1:
      "upsert_firing r v (hold_secs r) (if hold_secs r = 0 then Active else Pending) db = (db1, Inr (i, st))"
    and fs: "adb_firings db' = adb_firings db1"
    and ns: "st = Active \<longrightarrow> (\<lambda>c. (i, c, ''active'')) ` set (ar_notification_channels r)
       \<subseteq> notification_key ` set (adb_notifications db')"
    by (rule record_firing_runs[OF assms(3)]) blast
  obtain g where g: "filter ?open (adb_firings db1) = [g]" "fr_firing_id g = i" "fr_state g = st" "fr_value g = Some v"
    using upsert_firing_ok[OF assms(1,2) 1] .
  have ok: "alert_ok db'" using keeps_ok[OF lc_firing.keeps_record[OF assms(2)] assms(1,3)] .
  have "length (filter (\<lambda>n. notification_key n = (i, c, ''active'')) (adb_notifications db')) = 1"
    if "st = Active" "c \<in> set (ar_notification_channels r)" for c
    using ns that by (intro one_notification[OF ok]) blast
  then show ?thesis using g fs by (auto simp: list_all_iff)
qed

theorem record_firing_notifies_once_witness:
  "\<exists>g. filter (open_for 1 7) (adb_firings (fst (record_firing (ev_format example_env)
     (example_rule 1 ''warning'') (f64_lit 2 1) example_db))) = [g] \<and> fr_value g = Some (f64_lit 2 1)"
proof -
  let ?run = "record_firing (ev_format example_env) (example_rule 1 ''warning'') (f64_lit 2 1) example_db"
  have "snd ?run = Inr ()" by code_simp
  then have "?run = (fst ?run, Inr ())" by (metis prod.collapse)
  then show ?thesis
    using record_firing_notifies_once[OF example_db_ok, of "example_rule 1 ''warning''" "ev_format example_env"
        "f64_lit 2 1" "fst ?run"]
    by (auto simp: example_db_def example_rule_def)
qed

lemma resolve_firing_runs:
  assumes "resolve_open_firing tf r v db = (db', Inr ())"
  shows "adb_firings db' = map (\<lambda>f. if open_for (ar_rule_id r) (ar_tenant_id r) f
      then f\<lparr>fr_state := Resolved, fr_resolved_at := Some (adb_clock db (adb_steps db)),
             fr_occurred_at := adb_clock db (adb_steps db), fr_value := Some v\<rparr> else f) (adb_firings db)"
    and "f \<in> set (adb_firings db) \<Longrightarrow> open_for (ar_rule_id r) (ar_tenant_id r) f \<Longrightarrow>
      c \<in> set (ar_notification_channels r) \<Longrightarrow>
      (fr_firing_id f, c, ''resolved'') \<in> notification_key ` set (adb_notifications db')"
proof -
  let ?open = "open_for (ar_rule_id r) (ar_tenant_id r)"
  let ?ids = "map fr_firing_id (filter ?open (adb_firings db))"
  let ?send = "\<lambda>i. enqueue_notifications (ar_tenant_id r) i (ar_notification_channels r) ''resolved''"
  let ?last = "if ar_auto_trigger_incident r
     then db_each (\<lambda>_. db_ignore (resolve_incident_for_firing tf r v)) ?ids else db_return ()"
  obtain db1 x db2 y where 1: "resolve_firings r v db = (db1, Inr x)"
    and 2: "db_each ?send x db1 = (db2, Inr y)"
    and 3: "(if ar_auto_trigger_incident r
       then db_each (\<lambda>_. db_ignore (resolve_incident_for_firing tf r v)) x else db_return ()) db2 = (db', Inr ())"
    using assms unfolding resolve_open_firing_def by (elim db_bind_Inr) blast
  have x: "x = ?ids"
    using execute_Inr[OF 1[unfolded resolve_firings_def]] by auto
  have fs: "adb_firings db1 = map (\<lambda>f. if ?open f
      then f\<lparr>fr_state := Resolved, fr_resolved_at := Some (adb_clock db (adb_steps db)),
             fr_occurred_at := adb_clock db (adb_steps db), fr_value := Some v\<rparr> else f) (adb_firings db)"
    using execute_Inr[OF 1[unfolded resolve_firings_def]] by auto
  have 2: "db_each ?send ?ids db1 = (db2, Inr ())" using 2 unfolding x by (cases y) blast
  have 3: "?last db2 = (db', Inr ())" using 3 unfolding x .
  have sends: "nt.keeps (db_each ?send xs)" for xs by (intro nt.keeps_each notified_enqueue)
  have "nt.keeps ?last" by (auto intro!: nt.keeps_each notified_resolve_incident)
  then have last: "notified db2 db'" using nt.keepsD[of ?last db2] 3 by simp
  moreover have "notified db1 db2" using nt.keepsD[OF sends, of db1] 2 by (metis fst_conv)
  ultimately show "adb_firings db' = map (\<lambda>f. if ?open f
      then f\<lparr>fr_state := Resolved, fr_resolved_at := Some (adb_clock db (adb_steps db)),
             fr_occurred_at := adb_clock db (adb_steps db), fr_value := Some v\<rparr> else f) (adb_firings db)"
    using fs by (simp add: notified_def)
  have "(i, c, ''resolved'') \<in> notification_key ` set (adb_notifications db2)"
    if "db_each ?send xs dbx = (db2, Inr ())" "i \<in> set xs" "c \<in> set (ar_notification_channels r)" for i xs dbx
    using that
  proof (induction xs arbitrary: dbx)
    case (Cons j js)
    from Cons.prems(1) obtain dby where j: "?send j dbx = (dby, Inr ())" and js: "db_each ?send js dby = (db2, Inr ())"
      by (auto elim!: db_bind_Inr)
    have "notified dby db2" using nt.keepsD[OF sends, of dby] js by (metis fst_conv)
    then show ?case
      using Cons.IH[OF js] Cons.prems(2,3) enqueue_ok[OF j] by (auto simp: notified_def)
  qed simp
  from this[OF 2] last show "(fr_firing_id f, c, ''resolved'') \<in> notification_key ` set (adb_notifications db')"
    if "f \<in> set (adb_firings db)" "?open f" "c \<in> set (ar_notification_channels r)"
    using that by (auto simp: notified_def)
qed

text \<open>
  C21. When resolving succeeds, the rule has no open firing, every firing it had open is
  resolved with the value, and each channel of the rule has exactly one notification of
  that.
\<close>

theorem resolve_firing_notifies_once:
  assumes "alert_ok db" "r \<in> set (adb_rules db)" "resolve_open_firing tf r v db = (db', Inr ())"
  shows "filter (open_for (ar_rule_id r) (ar_tenant_id r)) (adb_firings db') = [] \<and>
    list_all (\<lambda>f. list_all (\<lambda>c. length (filter (\<lambda>n. notification_key n =
         (fr_firing_id f, c, ''resolved'')) (adb_notifications db')) = 1) (ar_notification_channels r))
      (filter (open_for (ar_rule_id r) (ar_tenant_id r)) (adb_firings db))"
proof -
  have ok: "alert_ok db'" using keeps_ok[OF lc_firing.keeps_resolve[OF assms(2)] assms(1,3)] .
  have "filter (open_for (ar_rule_id r) (ar_tenant_id r)) (adb_firings db') = []"
    unfolding resolve_firing_runs(1)[OF assms(3)] by (auto simp: filter_empty_conv open_for_def is_open_def)
  then show ?thesis
    using one_notification[OF ok resolve_firing_runs(2)[OF assms(3)]] by (simp add: list_all_iff)
qed

text \<open>Example: the state after one cycle, in which the critical rule has an active firing.\<close>

definition fired_db :: alert_db where
  "fired_db = fst (start_eval_worker [example_env] example_db)"

lemma fired_db_ok: "alert_ok fired_db"
proof -
  have "lc_db.keeps (adb_rules example_db) (adb_clock example_db) (start_eval_worker [example_env])" by (rule lc.keeps_worker)
  from keeps_ok[OF this example_db_ok] show ?thesis unfolding fired_db_def by (metis prod.collapse)
qed

lemma fired_db_rules: "adb_rules fired_db = [example_rule 1 ''warning'', example_rule 2 ''critical'']"
  by code_simp

theorem resolve_firing_notifies_once_witness:
  "filter (open_for 2 7) (adb_firings (fst (resolve_open_firing (ev_format example_env)
     (example_rule 2 ''critical'') (f64_lit 0 1) fired_db))) = [] \<and>
   map fr_state (filter (open_for 2 7) (adb_firings fired_db)) = [Active]"
proof
  let ?run = "resolve_open_firing (ev_format example_env) (example_rule 2 ''critical'') (f64_lit 0 1) fired_db"
  have "snd ?run = Inr ()" by code_simp
  then have "?run = (fst ?run, Inr ())" by (metis prod.collapse)
  then show "filter (open_for 2 7) (adb_firings (fst ?run)) = []"
    using resolve_firing_notifies_once[OF fired_db_ok, of "example_rule 2 ''critical''" "ev_format example_env"
        "f64_lit 0 1" "fst ?run"]
    by (simp add: fired_db_rules) (simp add: example_rule_def)
  show "map fr_state (filter (open_for 2 7) (adb_firings fired_db)) = [Active]" by code_simp
qed

subsection \<open>Suppression\<close>

text \<open>
  A suppressed firing does not keep its rule silent: recording the rule again starts
  another firing, active at once when the rule has no hold, and notifies every channel of
  the rule of it.
\<close>

theorem suppressed_rule_notifies_again:
  assumes "alert_ok db" "r \<in> set (adb_rules db)" "record_firing tf r v db = (db', Inr ())"
    and "hold_secs r = 0" "filter (open_for (ar_rule_id r) (ar_tenant_id r)) (adb_firings db) = []"
    and "f \<in> set (adb_firings db)" "rule_key f = (ar_rule_id r, ar_tenant_id r)" "fr_state f = Suppressed"
  shows "\<exists>g. g \<in> set (adb_firings db') \<and> fr_firing_id g \<noteq> fr_firing_id f \<and> fr_state g = Active \<and>
    list_all (\<lambda>c. length (filter (\<lambda>n. notification_key n = (fr_firing_id g, c, ''active''))
      (adb_notifications db')) = 1) (ar_notification_channels r)"
proof -
  let ?new = "\<lambda>i t. \<lparr>fr_firing_id = i, fr_rule_id = ar_rule_id r, fr_tenant_id = ar_tenant_id r,
    fr_state = Active, fr_value = Some v, fr_occurred_at = t, fr_firing_start = Some t,
    fr_resolved_at = None, fr_suppressed_by = None\<rparr>"
  let ?db1 = "db\<lparr>adb_steps := Suc (adb_steps db)\<rparr>"
  obtain db1 i st where 1: "upsert_firing r v (hold_secs r) (if hold_secs r = 0 then Active else Pending) db
      = (db1, Inr (i, st))"
    and fs: "adb_firings db' = adb_firings db1"
    and ns: "st = Active \<longrightarrow> (\<lambda>c. (i, c, ''active'')) ` set (ar_notification_channels r)
       \<subseteq> notification_key ` set (adb_notifications db')"
    by (rule record_firing_runs[OF assms(3)]) blast
  have "latest_open (ar_rule_id r) (ar_tenant_id r) ?db1 = None"
    using assms(5) by (simp add: latest_open_def)
  then have new: "i \<notin> fr_firing_id ` set (adb_firings db)" "st = Active"
      "\<exists>t. adb_firings db1 = adb_firings db @ [?new i t]"
    using execute_Inr[OF 1[unfolded upsert_firing_def]] assms(4) by (auto split: if_splits)
  have "alert_ok db'" using keeps_ok[OF lc_firing.keeps_record[OF assms(2)] assms(1,3)] .
  then have "length (filter (\<lambda>n. notification_key n = (i, c, ''active'')) (adb_notifications db')) = 1"
    if "c \<in> set (ar_notification_channels r)" for c
    using ns new(2) that by (intro one_notification) auto
  moreover obtain t where "adb_firings db1 = adb_firings db @ [?new i t]" using new(3) by blast
  then have "?new i t \<in> set (adb_firings db')" by (simp add: fs)
  moreover have "fr_firing_id f \<noteq> i" using new(1) assms(6) by auto
  ultimately show ?thesis by (intro exI[of _ "?new i t"]) (auto simp: list_all_iff)
qed

theorem suppressed_rule_notifies_again_witness:
  "\<exists>g. g \<in> set (adb_firings (fst (record_firing (ev_format example_env) (example_rule 1 ''warning'')
     (f64_lit 2 1) fired_db))) \<and> fr_state g = Active \<and> fr_firing_id g \<noteq> fr_firing_id (hd (adb_firings fired_db))"
proof -
  let ?run = "record_firing (ev_format example_env) (example_rule 1 ''warning'') (f64_lit 2 1) fired_db"
  let ?f = "hd (adb_firings fired_db)"
  have "snd ?run = Inr ()" by code_simp
  then have 1: "?run = (fst ?run, Inr ())" by (metis prod.collapse)
  have 2: "filter (open_for 1 7) (adb_firings fired_db) = []" by code_simp
  have 3: "rule_key ?f = (1, 7)" "fr_state ?f = Suppressed" "adb_firings fired_db \<noteq> []" by code_simp+
  have 4: "hold_secs (example_rule 1 ''warning'') = 0" by code_simp
  show ?thesis
    using suppressed_rule_notifies_again[OF fired_db_ok _ 1 4, of ?f] 2 3
    by (simp add: fired_db_rules) (auto simp: example_rule_def)
qed

end
