(* ===== verification/Alert_Worker.thy ===== *)
theory Alert_Worker
  imports Alert_Claims
begin

section \<open>The worker survives; notifications are tried a bounded number of times\<close>

subsection \<open>Panics\<close>

text \<open>\<open>calm rules m\<close>: under these rules \<open>m\<close> never panics, whatever fails, and keeps the rules.\<close>

definition calm :: "alert_rule list \<Rightarrow> 'a stmt \<Rightarrow> bool" where
  "calm rules m \<longleftrightarrow> (\<forall>db. adb_rules db = rules \<longrightarrow>
     adb_rules (fst (m db)) = rules \<and> snd (m db) \<noteq> Inl Panicked)"

lemma calm_bind [intro!]:
  assumes "calm rules m" "\<And>x. calm rules (f x)"
  shows "calm rules (db_bind m f)"
  using assms unfolding calm_def db_bind_def
  by (auto split: prod.splits sum.splits)

lemma calm_simple [intro!]:
  "calm rules (db_return x)" "calm rules (ask g)" "e \<noteq> Panicked \<Longrightarrow> calm rules (db_fail e)"
  by (simp_all add: calm_def db_return_def ask_def db_fail_def)

lemma calm_ignore [intro!]: "calm rules m \<Longrightarrow> calm rules (db_ignore m)"
  unfolding calm_def db_ignore_def
  by (auto split: prod.splits sum.splits db_error.splits)

lemma calm_each: "(\<And>x. x \<in> set xs \<Longrightarrow> calm rules (f x)) \<Longrightarrow> calm rules (db_each f xs)"
  by (induction xs) auto

lemma calm_option [intro!]:
  "(x = None \<Longrightarrow> calm rules m) \<Longrightarrow> (\<And>y. x = Some y \<Longrightarrow> calm rules (f y)) \<Longrightarrow>
   calm rules (case x of None \<Rightarrow> m | Some y \<Rightarrow> f y)"
  by (cases x) auto

lemma calm_if [intro!]: "calm rules m \<Longrightarrow> calm rules n \<Longrightarrow> calm rules (if b then m else n)"
  by simp

lemma calm_result [intro!]: "calm rules m \<Longrightarrow> calm rules n \<Longrightarrow> calm rules (case r of Firing \<Rightarrow> m | Eval_ok \<Rightarrow> n)"
  by (cases r) auto

lemma calm_execute:
  assumes "\<And>now new db e. f now new db = Inl e \<Longrightarrow> e \<noteq> Panicked"
    and "\<And>now new db db' x. f now new db = Inr (db', x) \<Longrightarrow> adb_rules db' = adb_rules db"
  shows "calm rules (execute f)"
  unfolding calm_def execute_def Let_def
  by (auto split: sum.splits dest: assms(1) dest!: assms(2))

lemma calm_query [intro!]: "calm rules (query f)"
  unfolding query_def by (rule calm_execute) auto

lemma calm_update: "(\<And>now db. adb_rules (f now db) = adb_rules db) \<Longrightarrow> calm rules (update f)"
  unfolding update_def by (rule calm_execute) auto

lemma calm_statements [intro!]:
  "calm rules (upsert_firing r v h s)" "calm rules (resolve_firings r v)"
  "calm rules (insert_notification t f s' c)" "calm rules (insert_incident r key)"
  "calm rules (insert_event i e a m)" "calm rules (close_incident i)"
  "calm rules suppress_inhibited" "calm rules (release_firing i)"
  unfolding upsert_firing_def resolve_firings_def insert_notification_def insert_incident_def
    insert_event_def close_incident_def suppress_inhibited_def release_firing_def
  by (rule calm_execute calm_update; auto simp: Let_def put_firing_def split: if_splits option.splits)+

lemma calm_record [intro!]: "calm rules (record_firing tf r v)"
  unfolding record_firing_def Let_def enqueue_notifications_def upsert_incident_from_firing_def
  by (auto intro!: calm_each)

lemma calm_resolve [intro!]: "calm rules (resolve_open_firing tf r v)"
  unfolding resolve_open_firing_def enqueue_notifications_def resolve_incident_for_firing_def
  by (auto intro!: calm_each)

lemma calm_suppression [intro!]: "calm rules run_suppression_pass"
  unfolding run_suppression_pass_def enqueue_notifications_def
  by (auto intro!: calm_each)

text \<open>The windows of a condition are representable in nanoseconds.\<close>

definition windows_fit :: "eval_env \<Rightarrow> alert_rule \<Rightarrow> bool" where
  "windows_fit env r \<longleftrightarrow>
     (case ev_slo_burn_rate env (ar_condition r) of None \<Rightarrow> True
      | Some c \<Rightarrow> window_ns (sbc_fast_window_minutes c) \<noteq> None \<and> window_ns (sbc_slow_window_minutes c) \<noteq> None) \<and>
     (case ev_change_detection env (ar_condition r) of None \<Rightarrow> True
      | Some c \<Rightarrow> secs_to_ns (cdc_window_secs c) \<noteq> None \<and> secs_to_ns (cdc_baseline_offset_secs c) \<noteq> None)"

lemma calm_fetch:
  "calm rules (fetch_next g)" "calm rules (system_time env)" "calm rules (fetch_window_avg env t m a b)"
  "window_ns w \<noteq> None \<Longrightarrow> calm rules (fetch_span_counts env t s e w)"
  unfolding fetch_next_def system_time_def fetch_window_avg_def fetch_span_counts_def
  by (auto split: answer.splits)

lemma calm_rules_of:
  assumes "list_all (windows_fit env) rules" "\<And>r. windows_fit env r \<Longrightarrow> calm rules (f r)"
  shows "calm rules (db_bind (query (rules_of_type t)) (db_each f))"
  unfolding calm_def
proof (intro allI impI)
  fix db :: alert_db
  assume db: "adb_rules db = rules"
  let ?db1 = "db\<lparr>adb_steps := Suc (adb_steps db)\<rparr>"
  have "calm rules (db_each f (rules_of_type t ?db1))"
    using assms db by (intro calm_each) (auto simp: rules_of_type_def list_all_iff)
  then show "adb_rules (fst (db_bind (query (rules_of_type t)) (db_each f) db)) = rules \<and>
    snd (db_bind (query (rules_of_type t)) (db_each f) db) \<noteq> Inl Panicked"
    using db by (auto simp: calm_def db_bind_def query_def execute_def Let_def)
qed

lemma calm_threshold: "calm rules (eval_threshold_rule env r)"
  unfolding eval_threshold_rule_def
  by (auto intro!: calm_fetch split: option.splits)

lemma calm_slo: "windows_fit env r \<Longrightarrow> calm rules (eval_slo_burn_rate_rule env r)"
  unfolding eval_slo_burn_rate_rule_def Let_def windows_fit_def
  by (auto intro!: calm_fetch split: option.splits)

lemma calm_composite: "calm rules (eval_composite_rule env r)"
  unfolding eval_composite_rule_def by auto

lemma calm_deadman: "calm rules (eval_deadman_rule env r)"
  unfolding eval_deadman_rule_def Let_def
  by (auto intro!: calm_fetch split: option.splits)

lemma calm_change_condition:
  assumes "\<And>c. ev_change_detection env (ar_condition r) = Some c \<Longrightarrow>
    secs_to_ns (cdc_window_secs c) \<noteq> None \<and> secs_to_ns (cdc_baseline_offset_secs c) \<noteq> None"
  shows "calm rules (eval_change_detection_rule env r)"
  using assms unfolding eval_change_detection_rule_def Let_def
  by (auto intro!: calm_fetch split: option.splits)

lemma calm_change_detection: "windows_fit env r \<Longrightarrow> calm rules (eval_change_detection_rule env r)"
  by (rule calm_change_condition) (simp add: windows_fit_def split: option.splits)

lemma calm_cycle: "list_all (windows_fit env) rules \<Longrightarrow> calm rules (eval_alert_rules env)"
  unfolding eval_alert_rules_def eval_threshold_rules_def eval_slo_burn_rate_rules_def
    eval_composite_rules_def eval_deadman_rules_def eval_change_detection_rules_def
  by (intro calm_bind calm_rules_of calm_suppression calm_threshold calm_slo calm_composite
      calm_deadman calm_change_detection)

lemma ignore_no_error: "snd (m db) \<noteq> Inl Panicked \<Longrightarrow> snd (db_ignore m db) = Inr ()"
  by (auto simp: db_ignore_def split: prod.splits sum.splits db_error.splits)

text \<open>
  C22. As long as the windows of every rule are representable in nanoseconds, the
  evaluation worker never stops: it gets through any number of ticks, whatever ClickHouse
  answers and whichever database statements fail.
\<close>

theorem eval_worker_survives:
  assumes "list_all (\<lambda>env. list_all (windows_fit env) (adb_rules db)) ticks"
  shows "snd (start_eval_worker ticks db) = Inr ()"
  using assms
proof (induction ticks arbitrary: db)
  case Nil
  then show ?case by (simp add: db_return_def)
next
  case (Cons env ticks)
  let ?m = "db_ignore (eval_alert_rules env)"
  have calm: "calm (adb_rules db) (eval_alert_rules env)" using Cons.prems by (intro calm_cycle) simp
  then have 1: "snd (?m db) = Inr ()" by (intro ignore_no_error) (simp add: calm_def)
  have 2: "adb_rules (fst (?m db)) = adb_rules db" using calm_ignore[OF calm] by (simp add: calm_def)
  have "snd (start_eval_worker ticks (fst (?m db))) = Inr ()" using Cons.prems 2 by (intro Cons.IH) simp
  then show ?case using 1 by (cases "?m db") (simp add: db_bind_def)
qed

theorem eval_worker_survives_witness:
  "snd (start_eval_worker [example_env, example_env, example_env] example_db) = Inr ()"
  by (rule eval_worker_survives) code_simp

lemma window_ns_None: "window_ns w = None \<longleftrightarrow> 307445734 < unat w"
proof (cases "unat w * 60 < 2 ^ 64")
  case True
  then have "unat (w * 60) = unat w * 60" by (simp add: unat_word_ariths)
  then show ?thesis using True by (simp add: window_ns_def checked_mul_def)
next
  case False
  then show ?thesis by (simp add: window_ns_def checked_mul_def)
qed

lemma secs_to_ns_None: "secs_to_ns s = None \<longleftrightarrow> 18446744073 < sint s"
proof (cases "sint s < 0")
  case False
  have "sint s < 2 ^ 63" using sint_lt[of s] by simp
  with False have "uint s = sint s"
    unfolding uint_sint by (intro take_bit_int_eq_self) simp_all
  define n where "n = unat s"
  have n: "sint s = int n" using \<open>uint s = sint s\<close> by (simp add: n_def)
  then show ?thesis using False by (simp add: secs_to_ns_def checked_mul_def n_def[symmetric])
qed (simp add: secs_to_ns_def checked_mul_def)

text \<open>
  The windows that stop the worker, exactly: a burn-rate window of more than 307445734
  minutes has no representation in nanoseconds, and a change-detection rule panics if and
  only if its window or its baseline offset exceeds 18446744073 seconds.
\<close>

theorem wide_window_panics:
  assumes "ev_change_detection env (ar_condition r) = Some c" "ev_now env (adb_steps db) = Some now"
  shows "(snd (eval_change_detection_rule env r db) = Inl Panicked \<longleftrightarrow>
      18446744073 < sint (cdc_window_secs c) \<or> 18446744073 < sint (cdc_baseline_offset_secs c)) \<and>
    (window_ns w = None \<longleftrightarrow> 307445734 < unat w)"
proof -
  let ?fit = "secs_to_ns (cdc_window_secs c) \<noteq> None \<and> secs_to_ns (cdc_baseline_offset_secs c) \<noteq> None"
  have "snd (eval_change_detection_rule env r db) = Inl Panicked \<longleftrightarrow> \<not> ?fit"
  proof
    assume "snd (eval_change_detection_rule env r db) = Inl Panicked"
    moreover have "calm (adb_rules db) (eval_change_detection_rule env r)" if "?fit"
      using that assms(1) by (intro calm_change_condition) simp
    ultimately show "\<not> ?fit" unfolding calm_def by blast
  next
    assume "\<not> ?fit"
    then show "snd (eval_change_detection_rule env r db) = Inl Panicked"
      using assms
      by (auto simp: eval_change_detection_rule_def system_time_def db_bind_def ask_def db_return_def
          db_panic_def split: option.splits)
  qed
  then show ?thesis unfolding window_ns_None secs_to_ns_None by blast
qed

text \<open>The example rule as a change-detection rule over 18446744074 seconds.\<close>

definition wide_env :: eval_env where
  "wide_env = example_env\<lparr>ev_change_detection := (\<lambda>_. Some \<lparr>cdc_metric_name = ''latency'',
     cdc_window_secs = 18446744074, cdc_baseline_offset_secs = 60, cdc_threshold_percent = f64_lit 10 1\<rparr>)\<rparr>"

theorem wide_window_panics_witness:
  "snd (eval_change_detection_rule wide_env (example_rule 3 ''info'') example_db) = Inl Panicked"
  using wide_window_panics[of wide_env "example_rule 3 ''info''" _ example_db 0]
  by (simp add: wide_env_def example_env_def)

subsection \<open>Notifications\<close>

text \<open>
  One attempt at a notification: only a pending one is attempted; it is sent, put off with
  its count of retries increased, or failed.
\<close>

inductive delivery :: "notification \<Rightarrow> notification \<Rightarrow> bool" where
  no_url: "nt_state n = Nt_pending \<Longrightarrow> delivery n (n\<lparr>nt_state := Nt_failed, nt_error_message := Some e\<rparr>)"
| sent: "nt_state n = Nt_pending \<Longrightarrow> delivery n (n\<lparr>nt_state := Nt_sent, nt_last_attempt_at := Some now\<rparr>)"
| again: "nt_state n = Nt_pending \<Longrightarrow> nt_retry_count n < 10 \<Longrightarrow>
    delivery n (n\<lparr>nt_retry_count := Suc (nt_retry_count n), nt_error_message := Some e,
                  nt_last_attempt_at := Some now\<rparr>)"
| given_up: "nt_state n = Nt_pending \<Longrightarrow> 10 \<le> nt_retry_count n \<Longrightarrow>
    delivery n (n\<lparr>nt_state := Nt_failed, nt_error_message := Some e, nt_last_attempt_at := Some now\<rparr>)"

inductive_cases deliveryE: "delivery n n'"

definition attempts_left :: "notification \<Rightarrow> nat" where
  "attempts_left n = (if nt_state n = Nt_pending then 11 - nt_retry_count n else 0)"

definition scans :: "notify_env \<Rightarrow> bool" where
  "scans env \<longleftrightarrow> (\<forall>k xs. distinct (map (nt_audit_id \<circ> fst) xs) \<longrightarrow>
     distinct (map (nt_audit_id \<circ> fst) (nv_scan env k xs)) \<and> set (nv_scan env k xs) \<subseteq> set xs)"

definition delivers :: "alert_db \<Rightarrow> alert_db \<Rightarrow> bool" where
  "delivers db db' \<longleftrightarrow> list_all2 delivery\<^sup>*\<^sup>* (adb_notifications db) (adb_notifications db')"

lemma delivery_same: "delivery\<^sup>*\<^sup>* n n' \<Longrightarrow> nt_audit_id n' = nt_audit_id n \<and> notification_key n' = notification_key n"
  by (induction rule: rtranclp_induct) (auto elim!: deliveryE simp: notification_key_def)

lemma delivery_final: "delivery\<^sup>*\<^sup>* n n' \<Longrightarrow> nt_state n \<noteq> Nt_pending \<Longrightarrow> n' = n"
  by (induction rule: rtranclp_induct) (auto elim!: deliveryE)

lemma delivery_retries: "delivery\<^sup>*\<^sup>* n n' \<Longrightarrow> nt_retry_count n \<le> 10 \<Longrightarrow> nt_retry_count n' \<le> 10"
  by (induction rule: rtranclp_induct) (auto elim!: deliveryE)

lemma delivers_refl: "delivers db db"
  by (simp add: delivers_def list_all2_refl)

lemma delivers_trans: "delivers db1 db2 \<Longrightarrow> delivers db2 db3 \<Longrightarrow> delivers db1 db3"
  unfolding delivers_def by (rule list_all2_trans[of "delivery\<^sup>*\<^sup>*"]) (auto intro: rtranclp_trans)

lemma delivers_ids: "delivers db db' \<Longrightarrow> map nt_audit_id (adb_notifications db') = map nt_audit_id (adb_notifications db)"
  unfolding delivers_def
  by (induction rule: list_all2_induct) (simp_all add: delivery_same)

text \<open>
  Processing a row changes the notification of its id only, and by an attempt if that is
  still what was fetched.
\<close>

definition attempts :: "notification \<Rightarrow> unit stmt \<Rightarrow> bool" where
  "attempts n m \<longleftrightarrow> (\<forall>db. \<exists>n'. (nt_state n = Nt_pending \<longrightarrow> n' = n \<or> delivery n n') \<and>
     (n \<in> set (adb_notifications db) \<and> distinct (map nt_audit_id (adb_notifications db)) \<longrightarrow>
      adb_notifications (fst (m db)) =
        map (\<lambda>x. if nt_audit_id x = nt_audit_id n then n' else x) (adb_notifications db)))"

lemma map_at_id:
  assumes "n \<in> set ns" "distinct (map nt_audit_id ns)"
  shows "map (\<lambda>x. if nt_audit_id x = nt_audit_id n then g x else x) ns =
         map (\<lambda>x. if nt_audit_id x = nt_audit_id n then g n else x) ns"
  using assms by (auto simp: distinct_map dest: inj_onD)

lemma attempts_update:
  assumes "\<And>now. nt_state n = Nt_pending \<Longrightarrow> delivery n (g now n)"
  shows "attempts n (update_notification (nt_audit_id n) g)"
  unfolding attempts_def
proof
  fix db :: alert_db
  let ?now = "adb_clock db (adb_steps db)" and ?ns = "adb_notifications db"
  let ?n' = "if adb_fails db (adb_steps db) then n else g ?now n"
  have "adb_notifications (fst (update_notification (nt_audit_id n) g db)) =
      map (\<lambda>x. if nt_audit_id x = nt_audit_id n then ?n' else x) ?ns"
    if "n \<in> set ?ns" "distinct (map nt_audit_id ?ns)"
    using map_at_id[OF that, of "g ?now"] map_at_id[OF that, of "\<lambda>x. x"]
    by (simp add: update_notification_def update_def execute_def Let_def)
  then show "\<exists>n'. (nt_state n = Nt_pending \<longrightarrow> n' = n \<or> delivery n n') \<and>
     (n \<in> set ?ns \<and> distinct (map nt_audit_id ?ns) \<longrightarrow>
      adb_notifications (fst (update_notification (nt_audit_id n) g db)) =
        map (\<lambda>x. if nt_audit_id x = nt_audit_id n then n' else x) ?ns)"
    using assms by (intro exI[of _ ?n']) auto
qed

lemma attempts_ask: "(\<And>x. attempts n (f x)) \<Longrightarrow> attempts n (db_bind (ask g) f)"
  unfolding attempts_def
proof
  fix db :: alert_db
  assume "\<And>x. \<forall>db. \<exists>n'. (nt_state n = Nt_pending \<longrightarrow> n' = n \<or> delivery n n') \<and>
     (n \<in> set (adb_notifications db) \<and> distinct (map nt_audit_id (adb_notifications db)) \<longrightarrow>
      adb_notifications (fst (f x db)) =
        map (\<lambda>x. if nt_audit_id x = nt_audit_id n then n' else x) (adb_notifications db))"
  from this[of "g (adb_steps db)", rule_format, of "db\<lparr>adb_steps := Suc (adb_steps db)\<rparr>"]
  show "\<exists>n'. (nt_state n = Nt_pending \<longrightarrow> n' = n \<or> delivery n n') \<and>
     (n \<in> set (adb_notifications db) \<and> distinct (map nt_audit_id (adb_notifications db)) \<longrightarrow>
      adb_notifications (fst (db_bind (ask g) f db)) =
        map (\<lambda>x. if nt_audit_id x = nt_audit_id n then n' else x) (adb_notifications db))"
    by (simp add: fst_db_bind ask_def)
qed

lemma attempts_failure: "attempts n (handle_notification_failure (nt_audit_id n) (nt_retry_count n) e)"
  unfolding handle_notification_failure_def
  by (auto intro!: attempts_update delivery.again delivery.given_up)

lemma attempts_process: "attempts (fst p) (process_notification env p)"
  unfolding process_notification_def Let_def
  by (auto intro!: attempts_ask attempts_update attempts_failure delivery.no_url delivery.sent
      split: http_reply.splits)

lemma process_loop:
  assumes "distinct (map nt_audit_id (adb_notifications db))" "distinct (map (nt_audit_id \<circ> fst) rows)"
    and "\<And>p. p \<in> set rows \<Longrightarrow> fst p \<in> set (adb_notifications db) \<and> nt_state (fst p) = Nt_pending"
  shows "delivers db (fst (db_each (process_notification env) rows db))"
  using assms
proof (induction rows arbitrary: db)
  case Nil
  then show ?case by (simp add: db_return_def delivers_refl)
next
  case (Cons p rows)
  let ?n = "fst p" and ?ns = "adb_notifications db" and ?db1 = "fst (process_notification env p db)"
  obtain n' where n': "n' = ?n \<or> delivery ?n n'"
      and ns: "adb_notifications ?db1 = map (\<lambda>x. if nt_audit_id x = nt_audit_id ?n then n' else x) ?ns"
    using attempts_process[of p env] Cons.prems(1,3) unfolding attempts_def by fastforce
  have "x = ?n" if "x \<in> set ?ns" "nt_audit_id x = nt_audit_id ?n" for x
    using that Cons.prems(1) Cons.prems(3)[of p] by (simp add: distinct_map inj_on_def)
  then have "delivery\<^sup>*\<^sup>* x (if nt_audit_id x = nt_audit_id ?n then n' else x)" if "x \<in> set ?ns" for x
    using n' that by (cases "nt_audit_id x = nt_audit_id ?n") auto
  then have 1: "delivers db ?db1"
    unfolding delivers_def ns by (simp add: list_all2_map2 list_all2_same)
  have "fst q \<in> set (adb_notifications ?db1) \<and> nt_state (fst q) = Nt_pending" if "q \<in> set rows" for q
  proof -
    have "nt_audit_id (fst q) \<noteq> nt_audit_id ?n" using Cons.prems(2) that by (auto simp: image_iff)
    then show ?thesis using Cons.prems(3)[of q] that unfolding ns by force
  qed
  then have "delivers ?db1 (fst (db_each (process_notification env) rows ?db1))"
    using Cons.prems(1,2) delivers_ids[OF 1] by (intro Cons.IH) auto
  with delivers_trans[OF 1] 1 show ?case
    by (simp add: fst_db_bind split: sum.splits)
qed

lemma fetch_pending_rows:
  assumes "fetch_pending env db = (db', Inr rows)" "scans env" "distinct (map nt_audit_id (adb_notifications db))"
  shows "adb_notifications db' = adb_notifications db \<and> distinct (map (nt_audit_id \<circ> fst) rows) \<and>
    (\<forall>p \<in> set rows. fst p \<in> set (adb_notifications db) \<and> nt_state (fst p) = Nt_pending)"
proof -
  let ?db1 = "db\<lparr>adb_steps := Suc (adb_steps db)\<rparr>"
  define due where "due = filter (\<lambda>n. nt_state n = Nt_pending \<and> retry_due (adb_clock db (adb_steps db)) n) (adb_notifications db)"
  have due: "distinct (map nt_audit_id due)" "set due \<subseteq> {n \<in> set (adb_notifications db). nt_state n = Nt_pending}"
    using assms(3) by (auto simp: due_def distinct_map_filter)
  define xs where "xs = List.map_filter (joined ?db1) due"
  have db': "db' = ?db1" "rows = take 50 (nv_scan env (Suc (adb_steps db)) xs)"
    using execute_Inr[OF assms(1)[unfolded fetch_pending_def]] by (auto simp: xs_def due_def)
  have joined: "fst p = n" if "joined ?db1 n = Some p" for n p
    using that by (auto simp: joined_def split: option.splits)
  then have sub: "fst ` set xs \<subseteq> set due"
    by (auto simp: xs_def List.map_filter_def) (metis joined option.sel option.distinct(1))
  have "distinct (map (nt_audit_id \<circ> fst) (List.map_filter (joined ?db1) ys))" if "distinct (map nt_audit_id ys)" for ys
    using that
  proof (induction ys)
    case (Cons y ys)
    have "(nt_audit_id \<circ> fst) ` set (List.map_filter (joined ?db1) ys) \<subseteq> nt_audit_id ` set ys"
      using joined by (force simp: List.map_filter_def)
    then show ?case using Cons joined[of y]
      by (auto simp: List.map_filter_simps split: option.splits)
  qed (simp add: List.map_filter_simps)
  then have "distinct (map (nt_audit_id \<circ> fst) xs)" using due(1) by (simp add: xs_def)
  then have scan: "distinct (map (nt_audit_id \<circ> fst) (nv_scan env (Suc (adb_steps db)) xs))"
      "set (nv_scan env (Suc (adb_steps db)) xs) \<subseteq> set xs"
    using assms(2) unfolding scans_def by blast+
  have "distinct (map (nt_audit_id \<circ> fst) rows)"
    using scan(1) unfolding db'(2) take_map[symmetric] by (rule distinct_take)
  moreover have "fst p \<in> set due" if "p \<in> set rows" for p
    using that scan(2) sub unfolding db'(2) by (auto dest!: in_set_takeD)
  moreover have "adb_notifications db' = adb_notifications db" using db'(1) by simp
  ultimately show ?thesis using due(2) by blast
qed

lemma fst_ignore: "fst (db_ignore m db) = fst (m db)"
  by (simp add: db_ignore_def split: prod.splits sum.splits db_error.splits)

lemma pending_delivers:
  assumes "scans env" "distinct (map nt_audit_id (adb_notifications db))"
  shows "delivers db (fst (process_pending_notifications env db))"
proof (cases "snd (fetch_pending env db)")
  case (Inl e)
  then have "adb_notifications (fst (fetch_pending env db)) = adb_notifications db"
    by (auto simp: fetch_pending_def execute_def Let_def split: if_splits)
  then show ?thesis
    using Inl by (simp add: process_pending_notifications_def fst_db_bind delivers_def list_all2_same)
next
  case (Inr rows)
  let ?db1 = "fst (fetch_pending env db)"
  have "fetch_pending env db = (?db1, Inr rows)" using Inr by (metis prod.collapse)
  from fetch_pending_rows[OF this assms]
  have ns: "adb_notifications ?db1 = adb_notifications db"
    and "delivers ?db1 (fst (db_each (process_notification env) rows ?db1))"
    using assms(2) by (auto intro!: process_loop)
  then show ?thesis
    using Inr by (simp add: process_pending_notifications_def fst_db_bind delivers_def)
qed

lemma worker_delivers:
  assumes "list_all scans ticks" "distinct (map nt_audit_id (adb_notifications db))"
  shows "delivers db (fst (notification_worker ticks db))"
  using assms
proof (induction ticks arbitrary: db)
  case Nil
  then show ?case by (simp add: db_return_def delivers_refl)
next
  case (Cons env ticks)
  let ?db1 = "fst (process_pending_notifications env db)"
  have 1: "delivers db ?db1" using Cons.prems by (intro pending_delivers) simp_all
  then have "delivers ?db1 (fst (notification_worker ticks ?db1))"
    using Cons.prems by (intro Cons.IH) (simp_all add: delivers_ids)
  with 1 delivers_trans[OF 1] show ?case
    by (simp add: fst_db_bind fst_ignore split: sum.splits)
qed

text \<open>
  C23. The notification worker loses and duplicates no notification: row by row, each one
  only moves by attempts (a sent or a failed one never again), and its count of retries
  never exceeds ten.
\<close>

theorem notification_worker_delivers:
  assumes "list_all scans ticks" "distinct (map nt_audit_id (adb_notifications db))"
  shows "list_all2 (\<lambda>n n'. delivery\<^sup>*\<^sup>* n n' \<and> (nt_state n \<noteq> Nt_pending \<longrightarrow> n' = n) \<and>
      (nt_retry_count n \<le> 10 \<longrightarrow> nt_retry_count n' \<le> 10))
    (adb_notifications db) (adb_notifications (fst (notification_worker ticks db)))"
  using worker_delivers[OF assms] unfolding delivers_def
  by (rule list_all2_mono) (blast intro: delivery_final delivery_retries)

definition failing_env :: notify_env where
  "failing_env = \<lparr>nv_scan = (\<lambda>_ xs. xs), nv_post = (\<lambda>_ _ _. Http_failed ''timeout'')\<rparr>"

lemma scans_failing_env: "scans failing_env"
  by (simp add: scans_def failing_env_def)

theorem notification_worker_delivers_witness:
  "list_all2 delivery\<^sup>*\<^sup>* (adb_notifications fired_db)
     (adb_notifications (fst (notification_worker [failing_env, failing_env] fired_db))) \<and>
   map nt_retry_count (adb_notifications (fst (notification_worker [failing_env, failing_env] fired_db))) = [1, 1]"
proof
  show "list_all2 delivery\<^sup>*\<^sup>* (adb_notifications fired_db)
     (adb_notifications (fst (notification_worker [failing_env, failing_env] fired_db)))"
    using notification_worker_delivers[of "[failing_env, failing_env]" fired_db] fired_db_ok
    by (auto simp: scans_failing_env alert_ok_def elim: list_all2_mono)
  show "map nt_retry_count (adb_notifications (fst (notification_worker [failing_env, failing_env] fired_db))) = [1, 1]"
    by code_simp
qed

text \<open>
  A database with one pending notification, whose endpoint fails every time and whose
  statements succeed.
\<close>

definition unreachable :: "notify_env \<Rightarrow> notification \<Rightarrow> alert_db \<Rightarrow> bool" where
  "unreachable env n db \<longleftrightarrow> adb_notifications db = [n] \<and> nt_state n = Nt_pending \<and>
     (case joined db n of None \<Rightarrow> False | Some p \<Rightarrow> channel_url (chn_config (snd (snd (snd p)))) \<noteq> []) \<and>
     adb_fails db = (\<lambda>_. False) \<and>
     (\<forall>k xs. nv_scan env k xs = xs) \<and> (\<forall>k url w. \<exists>e. nv_post env k url w = Http_failed e)"

lemma joined_tables:
  assumes "adb_firings db' = adb_firings db" "adb_rules db' = adb_rules db" "adb_channels db' = adb_channels db"
  shows "joined db' = joined db"
  unfolding joined_def rule_of_def by (rule ext) (simp only: assms)

lemma joined_key:
  assumes "joined db n = Some (n, f, r, c)" "nt_firing_id n' = nt_firing_id n" "nt_channel_id n' = nt_channel_id n"
  shows "joined db n' = Some (n', f, r, c)"
  using assms(1) unfolding joined_def assms(2,3) by (auto split: option.splits)

lemma unreachable_tick:
  assumes "unreachable env n db" "retry_due (adb_clock db (adb_steps db)) n" "nt_retry_count n \<le> 10"
  obtains n' t where "db_ignore (process_pending_notifications env) db =
      (db\<lparr>adb_steps := Suc t, adb_notifications := [n']\<rparr>, Inr ())"
    "nt_state n' = (if nt_retry_count n = 10 then Nt_failed else Nt_pending)"
    "nt_retry_count n' = (if nt_retry_count n = 10 then 10 else Suc (nt_retry_count n))"
    "nt_last_attempt_at n' = Some (adb_clock db t)" "nt_audit_id n' = nt_audit_id n"
    "nt_firing_id n' = nt_firing_id n" "nt_channel_id n' = nt_channel_id n"
proof -
  obtain f r c where p: "joined db n = Some (n, f, r, c)" "channel_url (chn_config c) \<noteq> []"
    using assms(1) by (auto simp: unreachable_def joined_def split: option.splits)
  then have p': "joined (db\<lparr>adb_steps := k\<rparr>) n = Some (n, f, r, c)" for k
    by (simp add: joined_tables[of db "db\<lparr>adb_steps := k\<rparr>"])
  have db: "adb_notifications db = [n]" "nt_state n = Nt_pending" "adb_fails db = (\<lambda>_. False)"
      "nv_scan env k xs = xs" for k xs
    using assms(1) by (auto simp: unreachable_def)
  obtain e where e: "nv_post env (Suc (adb_steps db)) (channel_url (chn_config c)) (webhook_of (n, f, r, c)) = Http_failed e"
    using assms(1) unfolding unreachable_def by blast
  let ?now = "adb_clock db (Suc (Suc (adb_steps db)))"
  let ?n' = "if nt_retry_count n = 10
     then n\<lparr>nt_state := Nt_failed, nt_error_message := Some e, nt_last_attempt_at := Some ?now\<rparr>
     else n\<lparr>nt_retry_count := Suc (nt_retry_count n), nt_error_message := Some e, nt_last_attempt_at := Some ?now\<rparr>"
  have "db_ignore (process_pending_notifications env) db =
      (db\<lparr>adb_steps := Suc (Suc (Suc (adb_steps db))), adb_notifications := [?n']\<rparr>, Inr ())"
    using assms(2,3) p p' e db
    by (simp add: process_pending_notifications_def fetch_pending_def execute_def Let_def db_bind_def
        List.map_filter_simps process_notification_def ask_def handle_notification_failure_def
        update_notification_def update_def db_ignore_def db_return_def)
  then show thesis
    by (rule that) (auto simp: db(2))
qed

text \<open>A tick at which the notification is not due only reads.\<close>

lemma idle_tick:
  assumes "unreachable env n db" "\<not> retry_due (adb_clock db (adb_steps db)) n"
  shows "db_ignore (process_pending_notifications env) db = (db\<lparr>adb_steps := Suc (adb_steps db)\<rparr>, Inr ())"
  using assms
  by (simp add: unreachable_def process_pending_notifications_def fetch_pending_def execute_def Let_def db_bind_def
      List.map_filter_simps db_ignore_def db_return_def)

lemma unreachable_later: "unreachable env n (db\<lparr>adb_steps := k\<rparr>) = unreachable env n db"
  by (simp add: unreachable_def joined_tables[of "db\<lparr>adb_steps := k\<rparr>" db])

lemma failed_stays:
  assumes "adb_notifications db = [n]" "nt_state n \<noteq> Nt_pending" "scans env"
  shows "adb_notifications (fst (notification_worker (replicate k env) db)) = [n]"
proof -
  have "delivers db (fst (notification_worker (replicate k env) db))"
    using assms(1,3) by (intro worker_delivers) (auto simp: list_all_iff)
  then obtain n' where "adb_notifications (fst (notification_worker (replicate k env) db)) = [n']" "delivery\<^sup>*\<^sup>* n n'"
    using assms(1) by (auto simp: delivers_def list_all2_Cons1)
  then show ?thesis using delivery_final[OF _ assms(2)] by auto
qed

text \<open>The worker's interval: every tick starts at least ten seconds after the one before.\<close>

fun every_ten_seconds :: "nat \<Rightarrow> notify_env \<Rightarrow> alert_db \<Rightarrow> bool" where
  "every_ten_seconds 0 env db \<longleftrightarrow> True"
| "every_ten_seconds (Suc k) env db \<longleftrightarrow>
     (let db' = fst (db_ignore (process_pending_notifications env) db) in
      adb_clock db (adb_steps db) + 10 * second \<le> adb_clock db' (adb_steps db') \<and> every_ten_seconds k env db')"

definition attempts_end :: "notify_env \<Rightarrow> nat \<Rightarrow> alert_db \<Rightarrow> (notification_state \<times> nat) list" where
  "attempts_end env k db =
     map (\<lambda>n. (nt_state n, nt_retry_count n)) (adb_notifications (fst (notification_worker (replicate k env) db)))"

lemma attempts_end_tick:
  "db_ignore (process_pending_notifications env) db = (db', Inr ()) \<Longrightarrow> attempts_end env (Suc k) db = attempts_end env k db'"
  by (simp add: attempts_end_def db_bind_def)

text \<open>The ticks that the waits after the retries \<open>r + 1, \<dots>, 10\<close> may take.\<close>

definition waits :: "nat \<Rightarrow> nat" where
  "waits r = (\<Sum>i \<in> {r<..10}. 2 ^ i + 2)"

lemma waits_Suc: "r < 10 \<Longrightarrow> waits r = 2 ^ Suc r + 2 + waits (Suc r)"
proof -
  assume "r < 10"
  then have "{r<..10} = insert (Suc r) {Suc r<..10}" by auto
  then show ?thesis by (simp add: waits_def)
qed

lemma unreachable_waits:
  assumes "unreachable env n db" "nt_retry_count n \<le> 10" "mono (adb_clock db)" "every_ten_seconds k env db"
    and "\<And>t. nt_last_attempt_at n = Some t \<Longrightarrow>
      t + 2 ^ nt_retry_count n * (10 * second) < adb_clock db (adb_steps db) + int w * (10 * second)"
    and "w + 1 + waits (nt_retry_count n) \<le> k"
  shows "attempts_end env k db = [(Nt_failed, 10)]"
  using assms
proof (induction k arbitrary: n db w)
  case (Suc k)
  let ?now = "adb_clock db (adb_steps db)" and ?r = "nt_retry_count n"
  show ?case
  proof (cases "retry_due ?now n")
    case True
    obtain n' t where tick: "db_ignore (process_pending_notifications env) db =
        (db\<lparr>adb_steps := Suc t, adb_notifications := [n']\<rparr>, Inr ())"
      and n': "nt_state n' = (if ?r = 10 then Nt_failed else Nt_pending)" "nt_retry_count n' = (if ?r = 10 then 10 else Suc ?r)"
        "nt_last_attempt_at n' = Some (adb_clock db t)"
        "nt_firing_id n' = nt_firing_id n" "nt_channel_id n' = nt_channel_id n"
      using unreachable_tick[OF Suc.prems(1) True Suc.prems(2)] by metis
    let ?db' = "db\<lparr>adb_steps := Suc t, adb_notifications := [n']\<rparr>"
    show ?thesis
    proof (cases "?r = 10")
      case True
      have "scans env" using Suc.prems(1) by (simp add: unreachable_def scans_def)
      then have "adb_notifications (fst (notification_worker (replicate k env) ?db')) = [n']"
        using True n'(1) by (intro failed_stays) simp_all
      then show ?thesis using True n'(1,2) by (simp add: attempts_end_tick[OF tick]) (simp add: attempts_end_def)
    next
      case False
      obtain f r c where j: "joined db n = Some (n, f, r, c)" and "channel_url (chn_config c) \<noteq> []"
        using Suc.prems(1) by (auto simp: unreachable_def joined_def split: option.splits)
      moreover have "joined ?db' = joined db" by (rule joined_tables) simp_all
      then have "joined ?db' n' = Some (n', f, r, c)" using joined_key[OF j n'(4,5)] by simp
      ultimately have u: "unreachable env n' ?db'"
        using Suc.prems(1) n'(1) False by (simp add: unreachable_def)
      have "adb_clock db t \<le> adb_clock db (Suc t)" using Suc.prems(3) by (simp add: mono_def)
      then have w: "adb_clock db t + 2 ^ Suc ?r * (10 * second) < adb_clock db (Suc t) + int (2 ^ Suc ?r + 1) * (10 * second)"
        by (simp add: second_def algebra_simps)
      have "attempts_end env k ?db' = [(Nt_failed, 10)]"
        by (rule Suc.IH[OF u, of "2 ^ Suc ?r + 1"])
           (use Suc.prems(2-4,6) tick False n'(2,3) w waits_Suc[of ?r] in auto)
      then show ?thesis by (simp add: attempts_end_tick[OF tick])
    qed
  next
    case False
    let ?db' = "db\<lparr>adb_steps := Suc (adb_steps db)\<rparr>"
    note tick = idle_tick[OF Suc.prems(1) False]
    obtain t where t: "nt_last_attempt_at n = Some t" "?now \<le> t + 2 ^ ?r * (10 * second)"
      using False by (auto simp: retry_due_def split: option.splits)
    have "0 < w" using Suc.prems(5)[OF t(1)] t(2) by (cases w) auto
    then obtain v where v: "w = Suc v" by (cases w) auto
    have "?now + 10 * second \<le> adb_clock db (Suc (adb_steps db))" using Suc.prems(4) tick by (simp add: Let_def)
    then have "t + 2 ^ ?r * (10 * second) < adb_clock db (Suc (adb_steps db)) + int v * (10 * second)"
      using Suc.prems(5)[OF t(1)] v by (simp add: second_def algebra_simps)
    then have "attempts_end env k ?db' = [(Nt_failed, 10)]"
      by (intro Suc.IH[of n ?db' v]) (use Suc.prems tick t(1) v in \<open>auto simp: unreachable_later Let_def\<close>)
    then show ?thesis by (simp add: attempts_end_tick[OF tick])
  qed
qed simp


definition one_notification_db :: alert_db where
  "one_notification_db = fired_db\<lparr>adb_notifications := [hd (adb_notifications fired_db)],
     adb_clock := (\<lambda>k. int k * (10 * second)), adb_fails := (\<lambda>_. False)\<rparr>"

text \<open>A run only lets the counter of statements advance, and a tick has a statement.\<close>

definition advances :: "alert_db \<Rightarrow> alert_db \<Rightarrow> bool" where
  "advances db db' \<longleftrightarrow> adb_clock db' = adb_clock db \<and> adb_steps db \<le> adb_steps db'"

interpretation adv: db_relation "\<lambda>_. True" advances
  by unfold_locales (auto simp: advances_def)

lemma advances_process: "adv.keeps (process_notification env p)"
proof -
  have "adv.keeps (update_notification i g)" for i g
    unfolding update_notification_def by (rule adv.keeps_update) (simp add: advances_def)
  then show ?thesis
    unfolding process_notification_def Let_def handle_notification_failure_def
    by (auto intro!: adv.keeps_bind split: http_reply.splits)
qed

lemma tick_advances:
  "adb_clock (fst (process_pending_notifications env db)) = adb_clock db \<and>
   adb_steps db < adb_steps (fst (process_pending_notifications env db))"
proof -
  let ?db1 = "fst (fetch_pending env db)"
  have 1: "adb_clock ?db1 = adb_clock db" "adb_steps db < adb_steps ?db1"
    by (auto simp: fetch_pending_def execute_def Let_def)
  have 2: "adb_clock (fst (db_each (process_notification env) rows ?db1)) = adb_clock db \<and>
      adb_steps db < adb_steps (fst (db_each (process_notification env) rows ?db1))" for rows
  proof -
    have "advances ?db1 (fst (db_each (process_notification env) rows ?db1))"
      by (rule adv.keepsD, rule adv.keeps_each, rule advances_process)
    then show ?thesis using 1 order_less_le_trans[OF 1(2)] unfolding advances_def by simp
  qed
  show ?thesis
  proof (cases "snd (fetch_pending env db)")
    case (Inl e)
    then show ?thesis using 1 by (simp add: process_pending_notifications_def fst_db_bind)
  next
    case (Inr rows)
    then show ?thesis using 2[of rows] by (simp add: process_pending_notifications_def fst_db_bind)
  qed
qed

lemma ten_second_clock: "adb_clock db = (\<lambda>k. int k * (10 * second)) \<Longrightarrow> every_ten_seconds k env db"
proof (induction k arbitrary: db)
  case (Suc k)
  let ?db' = "fst (db_ignore (process_pending_notifications env) db)"
  have "adb_clock ?db' = adb_clock db" "adb_steps db < adb_steps ?db'" using tick_advances[of env db] by (simp_all add: fst_ignore)
  moreover from this have "(int (adb_steps db) + 1) * (10 * second) \<le> int (adb_steps ?db') * (10 * second)"
    by (intro mult_right_mono) (auto simp: second_def)
  ultimately show ?case using Suc by (simp add: Let_def algebra_simps)
qed simp


end
