(* ===== verification/Otlp_Grpc.thy ===== *)
theory Otlp_Grpc
  imports Process "HOL-Library.AList"
begin

section \<open>OTLP messages and their conversion\<close>

text \<open>
  \<open>services/ingest-gateway/src/grpc/convert.rs\<close>. The messages are those of
  \<open>proto/otlp\<close>, with the fields the code reads; bytes are lists of \<open>u8\<close>. Fresh UUIDs come
  from a supply, \<open>us\<close> is the text of a UUID and \<open>js\<close> the text of a JSON value.
\<close>

datatype any_value =
    No_value
  | String_value string
  | Bool_value bool
  | Int_value i64
  | Double_value f64
  | Bytes_value "u8 list"
  | Array_value "any_value list"
  | Kvlist_value "(string \<times> any_value option) list"
  | Other_value

type_synonym key_value = "string \<times> any_value option"

subsection \<open>Maps and numbers\<close>

text \<open>Collecting into a \<open>HashMap\<close>: a later entry replaces the value of an earlier one.\<close>

definition collect_map :: "(string \<times> 'v) list \<Rightarrow> (string \<times> 'v) list" where
  "collect_map kvs = fold (\<lambda>(k, v). AList.update k v) kvs []"

text \<open>The same into a \<open>serde_json::Map\<close>, which keeps its keys sorted.\<close>

definition collect_object :: "(string \<times> json) list \<Rightarrow> json" where
  "collect_object kvs = json_object (rev kvs)"

definition number_of_i64 :: "i64 \<Rightarrow> json_number" where
  "number_of_i64 w = (if sint w < 0 then NegInt w else PosInt w)"

definition is_finite :: "f64 \<Rightarrow> bool" where
  "is_finite d = (case d of Finite _ _ _ \<Rightarrow> True | _ \<Rightarrow> False)"

definition json_of_f64 :: "f64 \<Rightarrow> json" where
  "json_of_f64 d = (if is_finite d then JNumber (Float d) else JNull)"

definition show_i64 :: "i64 \<Rightarrow> string" where
  "show_i64 w = (if sint w < 0 then CHR ''-'' # show_nat (nat (- sint w)) else show_nat (nat (sint w)))"

definition show_bool :: "bool \<Rightarrow> string" where
  "show_bool b = (if b then ''true'' else ''false'')"

definition hex_char :: "nat \<Rightarrow> char" where
  "hex_char n = (if n < 10 then char_of (48 + n) else char_of (87 + n))"

definition hex_encode :: "u8 list \<Rightarrow> string" where
  "hex_encode bytes = concat (map (\<lambda>b. [hex_char (unat b div 16), hex_char (unat b mod 16)]) bytes)"

subsection \<open>Values and attributes\<close>

primrec any_value_to_json :: "any_value \<Rightarrow> json" where
  "any_value_to_json No_value = JNull"
| "any_value_to_json (String_value s) = JString s"
| "any_value_to_json (Bool_value b) = JBool b"
| "any_value_to_json (Int_value i) = JNumber (number_of_i64 i)"
| "any_value_to_json (Double_value d) = json_of_f64 d"
| "any_value_to_json (Bytes_value b) = JString (hex_encode b)"
| "any_value_to_json (Array_value vs) = JArray (map any_value_to_json vs)"
| "any_value_to_json (Kvlist_value kvs) =
     collect_object (map (map_prod id (unwrap_or JNull)) (map (map_prod id (map_option any_value_to_json)) kvs))"
| "any_value_to_json Other_value = JNull"

definition kv_list_to_map :: "key_value list \<Rightarrow> attributes" where
  "kv_list_to_map kvs = collect_map (map (\<lambda>(k, v). (k, unwrap_or JNull (map_option any_value_to_json v))) kvs)"

definition kv_str_value :: "key_value \<Rightarrow> string" where
  "kv_str_value kv = (case snd kv of
       Some (String_value s) \<Rightarrow> s
     | Some (Int_value i) \<Rightarrow> show_i64 i
     | Some (Double_value d) \<Rightarrow> show_f64 d
     | Some (Bool_value b) \<Rightarrow> show_bool b
     | _ \<Rightarrow> [])"

definition kv_str_map :: "key_value list \<Rightarrow> (string \<times> string) list" where
  "kv_str_map kvs = collect_map (map (\<lambda>kv. (fst kv, kv_str_value kv)) kvs)"

definition string_attr_from_kv :: "key_value list \<Rightarrow> string \<Rightarrow> string" where
  "string_attr_from_kv attrs key =
     (case find (\<lambda>kv. fst kv = key) attrs of
        Some (_, Some (String_value s)) \<Rightarrow> s
      | _ \<Rightarrow> [])"

definition service_name_from_kv :: "key_value list \<Rightarrow> string" where
  "service_name_from_kv attrs = string_attr_from_kv attrs ''service.name''"

definition non_empty_hex :: "u8 list \<Rightarrow> string option" where
  "non_empty_hex bytes =
     (if bytes = [] \<or> list_all (\<lambda>b. b = 0) bytes then None else Some (hex_encode bytes))"

subsection \<open>Logs\<close>

record proto_log =
  pl_time_unix_nano :: u64
  pl_observed_time_unix_nano :: u64
  pl_severity_number :: "32 word"
  pl_severity_text :: string
  pl_body :: "any_value option"
  pl_trace_id :: "u8 list"
  pl_span_id :: "u8 list"
  pl_attributes :: "key_value list"

text \<open>The attributes of the resource, if any, and the records of each scope.\<close>

type_synonym 'a resource = "key_value list option \<times> 'a list list"

definition proto_log_to_domain ::
    "uuid \<Rightarrow> string \<Rightarrow> string \<Rightarrow> attributes \<Rightarrow> uuid \<Rightarrow> proto_log \<Rightarrow> log_record" where
  "proto_log_to_domain tenant_id environment service_name resource_attributes log_id lr =
     \<lparr>lg_tenant_id = tenant_id, lg_log_id = log_id,
      lg_timestamp_unix_nano = pl_time_unix_nano lr,
      lg_observed_timestamp_unix_nano = pl_observed_time_unix_nano lr,
      lg_severity_number = pl_severity_number lr, lg_severity_text = pl_severity_text lr,
      lg_body = unwrap_or JNull (map_option any_value_to_json (pl_body lr)),
      lg_trace_id = non_empty_hex (pl_trace_id lr), lg_span_id = non_empty_hex (pl_span_id lr),
      lg_attributes = kv_list_to_map (pl_attributes lr),
      lg_resource_attributes = resource_attributes, lg_service_name = service_name,
      lg_environment = environment, lg_host_id = [], lg_fingerprint = None\<rparr>"

text \<open>A loop that numbers what it pushes: the \<open>n\<close>th record takes the \<open>n\<close>th fresh UUID.\<close>

definition number_from :: "nat \<Rightarrow> (nat \<Rightarrow> 'a \<Rightarrow> 'b) \<Rightarrow> 'a list \<Rightarrow> 'b list" where
  "number_from n f xs = map2 f [n..<n + length xs] xs"

definition resource_logs_to_domain :: "uuid_supply \<Rightarrow> uuid \<Rightarrow> string \<Rightarrow> nat \<Rightarrow> proto_log resource \<Rightarrow> log_record list" where
  "resource_logs_to_domain fresh tenant_id environment n rl =
     (let resource_attrs = unwrap_or [] (fst rl) in
      number_from n (\<lambda>i. proto_log_to_domain tenant_id environment (service_name_from_kv resource_attrs)
                            (kv_list_to_map resource_attrs) (fresh i))
        (concat (snd rl)))"

definition proto_logs_to_domain ::
    "uuid_supply \<Rightarrow> proto_log resource list \<Rightarrow> uuid \<Rightarrow> string \<Rightarrow> log_record list" where
  "proto_logs_to_domain fresh resource_logs tenant_id environment =
     fold (\<lambda>rl records. records @ resource_logs_to_domain fresh tenant_id environment (length records) rl)
       resource_logs []"

subsection \<open>Traces\<close>

record proto_event =
  pe_time_unix_nano :: u64
  pe_name :: string
  pe_attributes :: "key_value list"

record proto_span =
  ps_trace_id :: "u8 list"
  ps_span_id :: "u8 list"
  ps_parent_span_id :: "u8 list"
  ps_name :: string
  ps_kind :: "32 word"
  ps_start_time_unix_nano :: u64
  ps_end_time_unix_nano :: u64
  ps_attributes :: "key_value list"
  ps_events :: "proto_event list"
  ps_status :: "(32 word \<times> string) option"

definition span_kind_of :: "32 word \<Rightarrow> span_kind" where
  "span_kind_of k = (if k = 2 then Server else if k = 3 then Client else if k = 4 then Producer
     else if k = 5 then Consumer else Internal)"

definition status_code_of :: "32 word \<Rightarrow> status_code" where
  "status_code_of c = (if c = 1 then Ok else if c = 2 then Error else Unset)"

definition proto_event_to_domain :: "uuid \<Rightarrow> proto_span \<Rightarrow> nat \<Rightarrow> proto_event \<Rightarrow> span_event" where
  "proto_event_to_domain tenant_id s i e =
     \<lparr>sev_tenant_id = tenant_id, sev_trace_id = hex_encode (ps_trace_id s),
      sev_span_id = hex_encode (ps_span_id s), sev_event_index = of_nat i, sev_name = pe_name e,
      sev_timestamp_unix_nano = pe_time_unix_nano e, sev_attributes = kv_list_to_map (pe_attributes e)\<rparr>"

definition proto_span_to_domain :: "uuid \<Rightarrow> string \<Rightarrow> string \<Rightarrow> attributes \<Rightarrow> proto_span \<Rightarrow> span" where
  "proto_span_to_domain tenant_id environment service_name resource_attributes s =
     (let (status_code, status_message) =
        (case ps_status s of None \<Rightarrow> (Unset, []) | Some (c, m) \<Rightarrow> (status_code_of c, m)) in
      \<lparr>sp_tenant_id = tenant_id, sp_trace_id = hex_encode (ps_trace_id s),
       sp_span_id = hex_encode (ps_span_id s), sp_parent_span_id = non_empty_hex (ps_parent_span_id s),
       sp_service_name = service_name, sp_service_namespace = [], sp_service_version = [],
       sp_operation_name = ps_name s, sp_span_kind = span_kind_of (ps_kind s),
       sp_start_time_unix_nano = ps_start_time_unix_nano s, sp_end_time_unix_nano = ps_end_time_unix_nano s,
       sp_duration_ns = saturating_sub (ps_end_time_unix_nano s) (ps_start_time_unix_nano s),
       sp_status_code = status_code, sp_status_message = status_message,
       sp_attributes = kv_list_to_map (ps_attributes s), sp_resource_attributes = resource_attributes,
       sp_environment = environment, sp_host_id = [], sp_workload = [], sp_deployment_id = [],
       sp_events = number_from 0 (proto_event_to_domain tenant_id s) (ps_events s)\<rparr>)"

definition proto_spans_to_domain :: "proto_span resource list \<Rightarrow> uuid \<Rightarrow> string \<Rightarrow> span list" where
  "proto_spans_to_domain resource_spans tenant_id environment =
     concat (map (\<lambda>rs. let resource_attrs = unwrap_or [] (fst rs) in
       map (proto_span_to_domain tenant_id environment (service_name_from_kv resource_attrs)
              (kv_list_to_map resource_attrs)) (concat (snd rs))) resource_spans)"

subsection \<open>Metrics\<close>

datatype number_value = As_double f64 | As_int i64

record data_point =
  dp_attributes :: "key_value list"
  dp_start_time_unix_nano :: u64
  dp_time_unix_nano :: u64

record number_data_point = data_point +
  ndp_value :: "number_value option"

record histogram_data_point = data_point +
  hdp_count :: u64
  hdp_sum :: "f64 option"
  hdp_bucket_counts :: "u64 list"
  hdp_explicit_bounds :: "f64 list"

record exp_histogram_data_point = data_point +
  edp_count :: u64
  edp_sum :: "f64 option"
  edp_positive :: "u64 list option"
  edp_negative :: "u64 list option"

record summary_data_point = data_point +
  sdp_count :: u64
  sdp_sum :: f64
  sdp_quantile_values :: "(f64 \<times> f64) list"

datatype metric_data =
    Gauge "number_data_point list"
  | Sum "32 word" bool "number_data_point list"
  | Histogram "32 word" "histogram_data_point list"
  | ExponentialHistogram "32 word" "exp_histogram_data_point list"
  | Summary "summary_data_point list"

record proto_metric =
  pm_name :: string
  pm_description :: string
  pm_unit :: string
  pm_data :: "metric_data option"

definition proto_temporality_to_domain :: "32 word \<Rightarrow> aggregation_temporality option" where
  "proto_temporality_to_domain v = (if v = 1 then Some Delta else if v = 2 then Some Cumulative else None)"

definition non_empty_list :: "'a list \<Rightarrow> 'a list option" where
  "non_empty_list xs = (if xs = [] then None else Some xs)"

definition number_data_point_to_domain :: "number_data_point \<Rightarrow> uuid \<Rightarrow> string \<Rightarrow> string \<Rightarrow> uuid \<Rightarrow> metric_point" where
  "number_data_point_to_domain dp sid metric_name service_name tenant_id =
     default_point\<lparr>mp_tenant_id := tenant_id, mp_metric_series_id := sid, mp_metric_name := metric_name,
       mp_service_name := service_name, mp_time_unix_nano := dp_time_unix_nano dp,
       mp_start_time_unix_nano := Some (dp_start_time_unix_nano dp),
       mp_value_double := (case ndp_value dp of Some (As_double d) \<Rightarrow> Some d | _ \<Rightarrow> None),
       mp_value_int := (case ndp_value dp of Some (As_int i) \<Rightarrow> Some i | _ \<Rightarrow> None)\<rparr>"

text \<open>The point of the other kinds: count and sum, and what the histogram adds.\<close>

definition count_point :: "'a data_point_scheme \<Rightarrow> u64 \<Rightarrow> f64 option \<Rightarrow> uuid \<Rightarrow> string \<Rightarrow> string \<Rightarrow> uuid \<Rightarrow> metric_point" where
  "count_point dp count point_sum sid metric_name service_name tenant_id =
     default_point\<lparr>mp_tenant_id := tenant_id, mp_metric_series_id := sid, mp_metric_name := metric_name,
       mp_service_name := service_name, mp_time_unix_nano := dp_time_unix_nano dp,
       mp_start_time_unix_nano := Some (dp_start_time_unix_nano dp),
       mp_histogram_count := Some count, mp_histogram_sum := point_sum\<rparr>"

definition histogram_point :: "histogram_data_point \<Rightarrow> uuid \<Rightarrow> string \<Rightarrow> string \<Rightarrow> uuid \<Rightarrow> metric_point" where
  "histogram_point dp sid metric_name service_name tenant_id =
     (count_point dp (hdp_count dp) (hdp_sum dp) sid metric_name service_name tenant_id)
       \<lparr>mp_histogram_bucket_counts := non_empty_list (hdp_bucket_counts dp),
        mp_histogram_explicit_bounds := non_empty_list (hdp_explicit_bounds dp)\<rparr>"

text \<open>
  The loop state: the series and points so far, the ids of the series already listed, and
  the number of data points that lose detail.
\<close>

record metric_batch =
  mb_series :: "metric_series list"
  mb_points :: "metric_point list"
  mb_seen :: "uuid list"
  mb_rejected :: nat

definition empty_batch :: metric_batch where
  "empty_batch = \<lparr>mb_series = [], mb_points = [], mb_seen = [], mb_rejected = 0\<rparr>"

definition push_point :: "metric_series \<Rightarrow> metric_point \<Rightarrow> metric_batch \<Rightarrow> metric_batch" where
  "push_point series point b =
     (let sid = ms_metric_series_id series; new = sid \<notin> set (mb_seen b) in
      b\<lparr>mb_series := (if new then mb_series b @ [series] else mb_series b),
        mb_seen := (if new then sid # mb_seen b else mb_seen b),
        mb_points := mb_points b @ [point]\<rparr>)"

text \<open>What the series of a metric have in common.\<close>

record series_context =
  sx_us :: "uuid \<Rightarrow> string"
  sx_js :: "json \<Rightarrow> string"
  sx_tenant_id :: uuid
  sx_environment :: string
  sx_service_name :: string
  sx_resource_attributes :: attributes

definition make_series ::
    "series_context \<Rightarrow> string \<Rightarrow> string \<Rightarrow> string \<Rightarrow> metric_type \<Rightarrow> bool option \<Rightarrow>
     aggregation_temporality option \<Rightarrow> (string \<times> string) list \<Rightarrow> metric_series" where
  "make_series cx name description unit ty is_monotonic agg attributes =
     (let series = \<lparr>ms_tenant_id = sx_tenant_id cx, ms_metric_series_id = nil_uuid, ms_metric_name = name,
        ms_description = description, ms_unit = unit, ms_metric_type = ty, ms_is_monotonic = is_monotonic,
        ms_aggregation_temporality = agg, ms_attributes = attributes,
        ms_resource_attributes = sx_resource_attributes cx, ms_service_name = sx_service_name cx,
        ms_environment = sx_environment cx\<rparr>
      in series\<lparr>ms_metric_series_id := deterministic_metric_series_id (sx_us cx) (sx_js cx) series\<rparr>)"

definition proto_series :: "series_context \<Rightarrow> proto_metric \<Rightarrow> metric_type \<Rightarrow> bool option \<Rightarrow>
     aggregation_temporality option \<Rightarrow> 'a data_point_scheme \<Rightarrow> metric_series" where
  "proto_series cx m ty is_monotonic agg dp =
     make_series cx (pm_name m) (pm_description m) (pm_unit m) ty is_monotonic agg (kv_str_map (dp_attributes dp))"

definition push_data_point ::
    "series_context \<Rightarrow> proto_metric \<Rightarrow> metric_type \<Rightarrow> bool option \<Rightarrow> aggregation_temporality option \<Rightarrow>
     ('a data_point_scheme \<Rightarrow> uuid \<Rightarrow> string \<Rightarrow> string \<Rightarrow> uuid \<Rightarrow> metric_point) \<Rightarrow>
     'a data_point_scheme \<Rightarrow> metric_batch \<Rightarrow> metric_batch" where
  "push_data_point cx m ty is_monotonic agg point dp b =
     (let series = proto_series cx m ty is_monotonic agg dp in
      push_point series (point dp (ms_metric_series_id series) (pm_name m) (sx_service_name cx) (sx_tenant_id cx)) b)"

definition reject_if :: "bool \<Rightarrow> metric_batch \<Rightarrow> metric_batch" where
  "reject_if lossy b = (if lossy then b\<lparr>mb_rejected := Suc (mb_rejected b)\<rparr> else b)"

definition has_buckets :: "exp_histogram_data_point \<Rightarrow> bool" where
  "has_buckets dp \<longleftrightarrow> unwrap_or [] (edp_positive dp) \<noteq> [] \<or> unwrap_or [] (edp_negative dp) \<noteq> []"

definition push_metric :: "series_context \<Rightarrow> proto_metric \<Rightarrow> metric_batch \<Rightarrow> metric_batch" where
  "push_metric cx m b =
     (case pm_data m of
        None \<Rightarrow> b
      | Some (Gauge dps) \<Rightarrow>
          fold (push_data_point cx m Type_Gauge None None number_data_point_to_domain) dps b
      | Some (Sum agg is_monotonic dps) \<Rightarrow>
          fold (push_data_point cx m Type_Sum (Some is_monotonic) (proto_temporality_to_domain agg)
                  number_data_point_to_domain) dps b
      | Some (Histogram agg dps) \<Rightarrow>
          fold (push_data_point cx m Type_Histogram None (proto_temporality_to_domain agg) histogram_point) dps b
      | Some (ExponentialHistogram agg dps) \<Rightarrow>
          fold (\<lambda>dp b. push_data_point cx m Type_ExponentialHistogram None (proto_temporality_to_domain agg)
                   (\<lambda>dp. count_point dp (edp_count dp) (edp_sum dp)) dp (reject_if (has_buckets dp) b)) dps b
      | Some (Summary dps) \<Rightarrow>
          fold (\<lambda>dp b. push_data_point cx m Type_Summary None None
                   (\<lambda>dp. count_point dp (sdp_count dp) (Some (sdp_sum dp))) dp
                   (reject_if (sdp_quantile_values dp \<noteq> []) b)) dps b)"

definition resource_context ::
    "(uuid \<Rightarrow> string) \<Rightarrow> (json \<Rightarrow> string) \<Rightarrow> uuid \<Rightarrow> string \<Rightarrow> key_value list \<Rightarrow> series_context" where
  "resource_context us js tenant_id environment resource_attrs =
     \<lparr>sx_us = us, sx_js = js, sx_tenant_id = tenant_id, sx_environment = environment,
      sx_service_name = service_name_from_kv resource_attrs,
      sx_resource_attributes = kv_list_to_map resource_attrs\<rparr>"

definition proto_metrics_to_domain ::
    "(uuid \<Rightarrow> string) \<Rightarrow> (json \<Rightarrow> string) \<Rightarrow> proto_metric resource list \<Rightarrow> uuid \<Rightarrow> string \<Rightarrow>
     metric_series list \<times> metric_point list \<times> nat" where
  "proto_metrics_to_domain us js resource_metrics tenant_id environment =
     (let b = fold (\<lambda>rm. fold (push_metric (resource_context us js tenant_id environment (unwrap_or [] (fst rm))))
                            (concat (snd rm))) resource_metrics empty_batch
      in (mb_series b, mb_points b, mb_rejected b))"

end
