(* ===== verification/Otlp_Json.thy ===== *)
theory Otlp_Json
  imports Otlp_Grpc Clickhouse_Query
begin

section \<open>OTLP in JSON\<close>

text \<open>
  \<open>services/ingest-gateway/src/http-json/convert.rs\<close>: the same messages read from their
  JSON encoding, with the accessors of \<open>serde_json::Value\<close> that the code uses. \<open>js\<close> is
  how a JSON value is printed.
\<close>

subsection \<open>Accessors\<close>

definition jget :: "string \<Rightarrow> json \<Rightarrow> json option" where
  "jget key v = (case v of JObject entries \<Rightarrow> map_of entries key | _ \<Rightarrow> None)"

definition as_array :: "json \<Rightarrow> json list option" where
  "as_array v = (case v of JArray xs \<Rightarrow> Some xs | _ \<Rightarrow> None)"

definition as_str :: "json \<Rightarrow> string option" where
  "as_str v = (case v of JString s \<Rightarrow> Some s | _ \<Rightarrow> None)"

definition as_bool :: "json \<Rightarrow> bool option" where
  "as_bool v = (case v of JBool b \<Rightarrow> Some b | _ \<Rightarrow> None)"

definition as_u64 :: "json \<Rightarrow> u64 option" where
  "as_u64 v = (case v of JNumber (PosInt n) \<Rightarrow> Some n | _ \<Rightarrow> None)"

definition as_i64 :: "json \<Rightarrow> i64 option" where
  "as_i64 v = (case v of JNumber (PosInt n) \<Rightarrow> if unat n < 2 ^ 63 then Some n else None
     | JNumber (NegInt n) \<Rightarrow> Some n | _ \<Rightarrow> None)"

definition as_f64 :: "json \<Rightarrow> f64 option" where
  "as_f64 v = (case v of JNumber (PosInt n) \<Rightarrow> Some (f64_of_u64 n)
     | JNumber (NegInt n) \<Rightarrow> Some (round_f64 True \<bar>sint n\<bar> 1)
     | JNumber (Float d) \<Rightarrow> Some d | _ \<Rightarrow> None)"

text \<open>\<open>s.parse::<u64>()\<close> and \<open>s.parse::<i64>()\<close>\<close>

definition parse_u64 :: "string \<Rightarrow> u64 option" where
  "parse_u64 s = map_option of_nat (parse_unsigned 64 s)"

definition parse_i64 :: "string \<Rightarrow> i64 option" where
  "parse_i64 s = (case s of
       c # d # cs \<Rightarrow>
         if c = CHR ''-'' then
           (case digits_value 0 (d # cs) of None \<Rightarrow> None
            | Some n \<Rightarrow> if n \<le> 2 ^ 63 then Some (- of_nat n) else None)
         else map_option of_nat (parse_unsigned 63 s)
     | _ \<Rightarrow> map_option of_nat (parse_unsigned 63 s))"

definition or_else :: "'a option \<Rightarrow> 'a option \<Rightarrow> 'a option" where
  "or_else x y = (case x of None \<Rightarrow> y | Some _ \<Rightarrow> x)"

definition get_str :: "string \<Rightarrow> json \<Rightarrow> string option" where
  "get_str key v = Option.bind (jget key v) as_str"

definition get_array :: "string \<Rightarrow> json \<Rightarrow> json list option" where
  "get_array key v = Option.bind (jget key v) as_array"

subsection \<open>Values and attributes\<close>

definition extract_string_attr :: "json \<Rightarrow> string \<Rightarrow> string option" where
  "extract_string_attr attrs key =
     Option.bind (as_array attrs) (\<lambda>xs.
     Option.bind (find (\<lambda>a. get_str ''key'' a = Some key) xs) (\<lambda>a.
     Option.bind (jget ''value'' a) (\<lambda>v.
     Option.bind (jget ''stringValue'' v) as_str)))"

definition parse_nano_timestamp :: "json \<Rightarrow> u64" where
  "parse_nano_timestamp v =
     (case Option.bind (as_str v) parse_u64 of Some n \<Rightarrow> n | None \<Rightarrow> unwrap_or 0 (as_u64 v))"

definition parse_i64_value :: "json \<Rightarrow> i64 option" where
  "parse_i64_value v = or_else (as_i64 v) (Option.bind (as_str v) parse_i64)"

definition parse_u64_value :: "json \<Rightarrow> u64 option" where
  "parse_u64_value v = or_else (as_u64 v) (Option.bind (as_str v) parse_u64)"

definition scalar_value :: "json \<Rightarrow> json option" where
  "scalar_value v =
     (case get_str ''stringValue'' v of Some s \<Rightarrow> Some (JString s) | None \<Rightarrow>
     (case Option.bind (jget ''intValue'' v) (\<lambda>i. or_else (Option.bind (as_str i) parse_i64) (as_i64 i)) of
        Some n \<Rightarrow> Some (JNumber (number_of_i64 n)) | None \<Rightarrow>
     (case Option.bind (jget ''doubleValue'' v) as_f64 of
        Some d \<Rightarrow> if is_finite d then Some (JNumber (Float d))
                  else map_option JBool (Option.bind (jget ''boolValue'' v) as_bool)
      | None \<Rightarrow> map_option JBool (Option.bind (jget ''boolValue'' v) as_bool))))"

definition list_value :: "string \<Rightarrow> json \<Rightarrow> json list option" where
  "list_value key v = Option.bind (jget key v) (get_array ''values'')"

lemma size_map_of: "map_of kvs k = Some w \<Longrightarrow> size w < size_list (size_prod (\<lambda>_. 0) size) kvs"
  by (induction kvs) (auto split: if_splits)

lemma size_jget: "jget k v = Some w \<Longrightarrow> size w < size v"
  by (auto simp: jget_def split: json.splits dest: size_map_of)

lemma size_as_array: "as_array v = Some xs \<Longrightarrow> x \<in> set xs \<Longrightarrow> size x < size v"
  by (auto simp: as_array_def split: json.splits) (metis not_less_eq size_list_estimation less_irrefl less_Suc_eq)

lemma size_list_value: "list_value k v = Some xs \<Longrightarrow> x \<in> set xs \<Longrightarrow> size x < size v"
  unfolding list_value_def get_array_def
  by (auto simp: bind_eq_Some_conv dest!: size_jget dest: size_as_array intro: less_trans)

function extract_otlp_any_value :: "json \<Rightarrow> json" where
  "extract_otlp_any_value v =
     (case scalar_value v of Some x \<Rightarrow> x | None \<Rightarrow>
     (case list_value ''arrayValue'' v of Some arr \<Rightarrow> JArray (map extract_otlp_any_value arr) | None \<Rightarrow>
     (case list_value ''kvlistValue'' v of
        Some kvlist \<Rightarrow> collect_object (concat (map (\<lambda>kv.
          case get_str ''key'' kv of None \<Rightarrow> [] | Some k \<Rightarrow>
            (case jget ''value'' kv of None \<Rightarrow> [] | Some val \<Rightarrow> [(k, extract_otlp_any_value val)])) kvlist))
      | None \<Rightarrow> JNull)))"
  by pat_completeness auto
termination
  by (relation "measure size") (auto dest: size_list_value dest!: size_jget intro: less_trans)

declare extract_otlp_any_value.simps [simp del]

definition attr_entries :: "(json \<Rightarrow> 'v) \<Rightarrow> json \<Rightarrow> (string \<times> 'v) list" where
  "attr_entries f attrs = concat (map (\<lambda>kv.
     case (get_str ''key'' kv, jget ''value'' kv) of (Some k, Some val) \<Rightarrow> [(k, f val)] | _ \<Rightarrow> [])
     (unwrap_or [] (as_array attrs)))"

definition otlp_attrs_to_map :: "json \<Rightarrow> attributes" where
  "otlp_attrs_to_map attrs = collect_map (attr_entries extract_otlp_any_value attrs)"

definition json_text :: "(json \<Rightarrow> string) \<Rightarrow> json \<Rightarrow> string" where
  "json_text js v = (case v of JString s \<Rightarrow> s | JBool b \<Rightarrow> show_bool b | JNull \<Rightarrow> [] | _ \<Rightarrow> js v)"

definition otlp_attrs_to_string_map :: "(json \<Rightarrow> string) \<Rightarrow> json \<Rightarrow> (string \<times> string) list" where
  "otlp_attrs_to_string_map js attrs =
     collect_map (attr_entries (\<lambda>val. json_text js (extract_otlp_any_value val)) attrs)"

text \<open>The attributes of the resource; \<open>Value::default()\<close> is null.\<close>

definition resource_attrs :: "json \<Rightarrow> json" where
  "resource_attrs r = unwrap_or JNull (Option.bind (jget ''resource'' r) (jget ''attributes''))"

definition resource_string :: "string \<Rightarrow> json \<Rightarrow> string" where
  "resource_string key r = unwrap_or [] (extract_string_attr (resource_attrs r) key)"

text \<open>The items of every scope of a resource, in order.\<close>

definition scope_items :: "string \<Rightarrow> string \<Rightarrow> json \<Rightarrow> json list" where
  "scope_items scopes items r =
     concat (map (\<lambda>scope. unwrap_or [] (get_array items scope)) (unwrap_or [] (get_array scopes r)))"

definition get_nanos :: "string \<Rightarrow> json \<Rightarrow> u64 option" where
  "get_nanos key v = map_option parse_nano_timestamp (jget key v)"

definition get_attrs :: "json \<Rightarrow> attributes" where
  "get_attrs v = unwrap_or [] (map_option otlp_attrs_to_map (jget ''attributes'' v))"

definition non_empty_str :: "string \<Rightarrow> json \<Rightarrow> string option" where
  "non_empty_str key v = (case get_str key v of Some s \<Rightarrow> if s = [] then None else Some s | None \<Rightarrow> None)"

subsection \<open>Logs\<close>

definition json_log_to_domain ::
    "uuid \<Rightarrow> string \<Rightarrow> string \<Rightarrow> attributes \<Rightarrow> uuid \<Rightarrow> json \<Rightarrow> log_record" where
  "json_log_to_domain tenant_id environment service_name resource_attributes log_id lr =
     (let timestamp = unwrap_or 0 (get_nanos ''timeUnixNano'' lr) in
      \<lparr>lg_tenant_id = tenant_id, lg_log_id = log_id, lg_timestamp_unix_nano = timestamp,
       lg_observed_timestamp_unix_nano = unwrap_or timestamp (get_nanos ''observedTimeUnixNano'' lr),
       lg_severity_number = ucast (unwrap_or 0 (Option.bind (jget ''severityNumber'' lr) as_i64)),
       lg_severity_text = unwrap_or [] (get_str ''severityText'' lr),
       lg_body = unwrap_or JNull (map_option extract_otlp_any_value (jget ''body'' lr)),
       lg_trace_id = non_empty_str ''traceId'' lr, lg_span_id = non_empty_str ''spanId'' lr,
       lg_attributes = get_attrs lr, lg_resource_attributes = resource_attributes,
       lg_service_name = service_name, lg_environment = environment, lg_host_id = [],
       lg_fingerprint = None\<rparr>)"

definition json_resource_logs :: "uuid_supply \<Rightarrow> uuid \<Rightarrow> string \<Rightarrow> nat \<Rightarrow> json \<Rightarrow> log_record list" where
  "json_resource_logs fresh tenant_id environment n rl =
     number_from n (\<lambda>i. json_log_to_domain tenant_id environment (resource_string ''service.name'' rl)
                          (otlp_attrs_to_map (resource_attrs rl)) (fresh i))
       (scope_items ''scopeLogs'' ''logRecords'' rl)"

definition parse_otlp_logs :: "uuid_supply \<Rightarrow> json \<Rightarrow> uuid \<Rightarrow> string \<Rightarrow> (http_status, log_record list) result" where
  "parse_otlp_logs fresh body tenant_id environment =
     (case get_array ''resourceLogs'' body of
        None \<Rightarrow> Inl Bad_request
      | Some resource_logs \<Rightarrow> Inr (fold (\<lambda>rl logs.
          logs @ json_resource_logs fresh tenant_id environment (length logs) rl) resource_logs []))"

subsection \<open>Traces\<close>

definition span_kind_from_json :: "json \<Rightarrow> span_kind" where
  "span_kind_from_json v =
     (case parse_i64_value v of
        Some n \<Rightarrow> if n = 2 then Server else if n = 3 then Client else if n = 4 then Producer
                  else if n = 5 then Consumer else Internal
      | None \<Rightarrow> Internal)"

definition status_from_json :: "json option \<Rightarrow> status_code \<times> string" where
  "status_from_json status =
     (case status of
        None \<Rightarrow> (Unset, [])
      | Some st \<Rightarrow>
          (let code = unwrap_or 0 (Option.bind (jget ''code'' st) parse_i64_value) in
           (if code = 1 then Ok else if code = 2 then Error else Unset,
            unwrap_or [] (get_str ''message'' st))))"

definition json_event_to_domain :: "uuid \<Rightarrow> json \<Rightarrow> nat \<Rightarrow> json \<Rightarrow> span_event" where
  "json_event_to_domain tenant_id s i e =
     \<lparr>sev_tenant_id = tenant_id, sev_trace_id = unwrap_or [] (get_str ''traceId'' s),
      sev_span_id = unwrap_or [] (get_str ''spanId'' s), sev_event_index = of_nat i,
      sev_name = unwrap_or [] (get_str ''name'' e),
      sev_timestamp_unix_nano = unwrap_or 0 (get_nanos ''timeUnixNano'' e), sev_attributes = get_attrs e\<rparr>"

definition json_span_to_domain :: "uuid \<Rightarrow> string \<Rightarrow> json \<Rightarrow> json \<Rightarrow> span" where
  "json_span_to_domain tenant_id environment rs s =
     (let start = unwrap_or 0 (get_nanos ''startTimeUnixNano'' s);
          finish = unwrap_or 0 (get_nanos ''endTimeUnixNano'' s);
          (status_code, status_message) = status_from_json (jget ''status'' s) in
      \<lparr>sp_tenant_id = tenant_id, sp_trace_id = unwrap_or [] (get_str ''traceId'' s),
       sp_span_id = unwrap_or [] (get_str ''spanId'' s), sp_parent_span_id = non_empty_str ''parentSpanId'' s,
       sp_service_name = resource_string ''service.name'' rs, sp_service_namespace = [],
       sp_service_version = resource_string ''service.version'' rs,
       sp_operation_name = unwrap_or [] (get_str ''name'' s),
       sp_span_kind = unwrap_or Internal (map_option span_kind_from_json (jget ''kind'' s)),
       sp_start_time_unix_nano = start, sp_end_time_unix_nano = finish,
       sp_duration_ns = saturating_sub finish start,
       sp_status_code = status_code, sp_status_message = status_message,
       sp_attributes = get_attrs s, sp_resource_attributes = otlp_attrs_to_map (resource_attrs rs),
       sp_environment = environment, sp_host_id = [], sp_workload = [], sp_deployment_id = [],
       sp_events = number_from 0 (json_event_to_domain tenant_id s) (unwrap_or [] (get_array ''events'' s))\<rparr>)"

definition parse_otlp_traces :: "json \<Rightarrow> uuid \<Rightarrow> string \<Rightarrow> (http_status, span list) result" where
  "parse_otlp_traces body tenant_id environment =
     (case get_array ''resourceSpans'' body of
        None \<Rightarrow> Inl Bad_request
      | Some resource_spans \<Rightarrow> Inr (concat (map (\<lambda>rs.
          map (json_span_to_domain tenant_id environment rs) (scope_items ''scopeSpans'' ''spans'' rs))
          resource_spans)))"

subsection \<open>Metrics\<close>

definition parse_aggregation_temporality :: "json \<Rightarrow> aggregation_temporality option" where
  "parse_aggregation_temporality v =
     (case v of
        JNumber _ \<Rightarrow> (if as_i64 v = Some 1 then Some Delta else if as_i64 v = Some 2 then Some Cumulative else None)
      | JString s \<Rightarrow>
          (if s = ''AGGREGATION_TEMPORALITY_DELTA'' \<or> map to_ascii_lowercase s = ''delta'' then Some Delta
           else if s = ''AGGREGATION_TEMPORALITY_CUMULATIVE'' \<or> map to_ascii_lowercase s = ''cumulative''
           then Some Cumulative else None)
      | _ \<Rightarrow> None)"

text \<open>The data of a metric, with its type, monotonicity and temporality.\<close>

definition json_metric_data ::
    "json \<Rightarrow> (json \<times> metric_type \<times> bool option \<times> aggregation_temporality option) option" where
  "json_metric_data metric =
     (let temporality = (\<lambda>d. Option.bind (jget ''aggregationTemporality'' d) parse_aggregation_temporality) in
      case jget ''sum'' metric of
        Some d \<Rightarrow> Some (d, Type_Sum, Option.bind (jget ''isMonotonic'' d) as_bool, temporality d)
      | None \<Rightarrow> (case jget ''gauge'' metric of
          Some d \<Rightarrow> Some (d, Type_Gauge, None, None)
        | None \<Rightarrow> (case jget ''histogram'' metric of
            Some d \<Rightarrow> Some (d, Type_Histogram, None, temporality d)
          | None \<Rightarrow> None)))"

definition json_list :: "(json \<Rightarrow> 'a option) \<Rightarrow> string \<Rightarrow> json \<Rightarrow> 'a list option" where
  "json_list f key dp = Option.bind (map_option (List.map_filter f) (get_array key dp)) non_empty_list"

definition json_data_point :: "json \<Rightarrow> metric_type \<Rightarrow> uuid \<Rightarrow> string \<Rightarrow> string \<Rightarrow> uuid \<Rightarrow> metric_point" where
  "json_data_point dp ty sid metric_name service_name tenant_id =
     (let point = default_point\<lparr>mp_tenant_id := tenant_id, mp_metric_series_id := sid,
        mp_metric_name := metric_name, mp_service_name := service_name,
        mp_time_unix_nano := unwrap_or 0 (get_nanos ''timeUnixNano'' dp),
        mp_start_time_unix_nano := get_nanos ''startTimeUnixNano'' dp,
        mp_value_double := Option.bind (jget ''asDouble'' dp) as_f64,
        mp_value_int := Option.bind (jget ''asInt'' dp) parse_i64_value\<rparr> in
      if ty = Type_Histogram
      then point\<lparr>mp_histogram_count := Option.bind (jget ''count'' dp) parse_u64_value,
             mp_histogram_sum := Option.bind (jget ''sum'' dp) as_f64,
             mp_histogram_bucket_counts := json_list parse_u64_value ''bucketCounts'' dp,
             mp_histogram_explicit_bounds := json_list as_f64 ''explicitBounds'' dp\<rparr>
      else point)"

definition push_json_metric :: "series_context \<Rightarrow> json \<Rightarrow> metric_batch \<Rightarrow> metric_batch" where
  "push_json_metric cx metric b =
     (case json_metric_data metric of
        None \<Rightarrow> b
      | Some (d, ty, is_monotonic, agg) \<Rightarrow>
          (let name = unwrap_or [] (get_str ''name'' metric) in
           fold (\<lambda>dp. let series = make_series cx name (unwrap_or [] (get_str ''description'' metric))
                           (unwrap_or [] (get_str ''unit'' metric)) ty is_monotonic agg
                           (unwrap_or [] (map_option (otlp_attrs_to_string_map (sx_js cx)) (jget ''attributes'' dp)))
                     in push_point series (json_data_point dp ty (ms_metric_series_id series) name
                          (sx_service_name cx) (sx_tenant_id cx)))
             (unwrap_or [] (get_array ''dataPoints'' d)) b))"

definition json_context :: "(uuid \<Rightarrow> string) \<Rightarrow> (json \<Rightarrow> string) \<Rightarrow> uuid \<Rightarrow> string \<Rightarrow> json \<Rightarrow> series_context" where
  "json_context us js tenant_id environment rm =
     \<lparr>sx_us = us, sx_js = js, sx_tenant_id = tenant_id, sx_environment = environment,
      sx_service_name = resource_string ''service.name'' rm,
      sx_resource_attributes = otlp_attrs_to_map (resource_attrs rm)\<rparr>"

definition parse_otlp_metrics ::
    "(uuid \<Rightarrow> string) \<Rightarrow> (json \<Rightarrow> string) \<Rightarrow> json \<Rightarrow> uuid \<Rightarrow> string \<Rightarrow>
     (http_status, metric_series list \<times> metric_point list) result" where
  "parse_otlp_metrics us js body tenant_id environment =
     (case get_array ''resourceMetrics'' body of
        None \<Rightarrow> Inl Bad_request
      | Some resource_metrics \<Rightarrow>
          (let b = fold (\<lambda>rm. fold (push_json_metric (json_context us js tenant_id environment rm))
                            (scope_items ''scopeMetrics'' ''metrics'' rm)) resource_metrics empty_batch
           in Inr (mb_series b, mb_points b)))"

end
