(* ===== verification/Otlp_Transports.thy ===== *)
theory Otlp_Transports
  imports Otlp_Json
begin

section \<open>The two transports agree\<close>

text \<open>
  OTLP's JSON mapping of a message (protobuf JSON with hexadecimal ids), and the proof that
  the JSON converter reads it as the gRPC converter reads the message, on the values both
  support: no bytes, no attribute without a value, no id of zeros only.
\<close>

definition entry_json :: "string \<times> json option \<Rightarrow> json" where
  "entry_json kv = JObject ((''key'', JString (fst kv)) #
     (case snd kv of None \<Rightarrow> [] | Some v \<Rightarrow> [(''value'', v)]))"

primrec any_json :: "any_value \<Rightarrow> json" where
  "any_json No_value = JObject []"
| "any_json (String_value s) = JObject [(''stringValue'', JString s)]"
| "any_json (Bool_value b) = JObject [(''boolValue'', JBool b)]"
| "any_json (Int_value i) = JObject [(''intValue'', JString (show_i64 i))]"
| "any_json (Double_value d) =
     JObject [(''doubleValue'', if is_finite d then JNumber (Float d) else JString (show_f64 d))]"
| "any_json (Bytes_value b) = JObject [(''bytesValue'', JString (hex_encode b))]"
| "any_json (Array_value vs) = JObject [(''arrayValue'', JObject [(''values'', JArray (map any_json vs))])]"
| "any_json (Kvlist_value kvs) = JObject [(''kvlistValue'', JObject [(''values'',
     JArray (map entry_json (map (map_prod id (map_option any_json)) kvs)))])]"
| "any_json Other_value = JObject []"

primrec plain :: "any_value \<Rightarrow> bool" where
  "plain No_value = True"
| "plain (String_value s) = True"
| "plain (Bool_value b) = True"
| "plain (Int_value i) = True"
| "plain (Double_value d) = True"
| "plain (Bytes_value b) = False"
| "plain (Array_value vs) = list_all id (map plain vs)"
| "plain (Kvlist_value kvs) = list_all (\<lambda>kv. snd kv = Some True) (map (map_prod id (map_option plain)) kvs)"
| "plain Other_value = True"

definition plain_attrs :: "key_value list \<Rightarrow> bool" where
  "plain_attrs kvs = list_all (\<lambda>kv. case snd kv of None \<Rightarrow> False | Some v \<Rightarrow> plain v) kvs"

definition attrs_json :: "key_value list \<Rightarrow> json" where
  "attrs_json kvs = JArray (map entry_json (map (map_prod id (map_option any_json)) kvs))"

subsection \<open>Accessors on encoded objects\<close>

lemma jget_object [simp]:
  "jget k (JObject []) = None" "jget k (JObject ((k', v) # kvs)) = (if k' = k then Some v else jget k (JObject kvs))"
  by (simp_all add: jget_def)

lemma accessors [simp]:
  "as_array (JArray xs) = Some xs" "as_str (JString s) = Some s" "as_bool (JBool b) = Some b"
  "as_str (JNumber n) = None" "as_f64 (JNumber (Float d)) = Some d" "as_f64 (JString s) = None"
  by (simp_all add: as_array_def as_str_def as_bool_def as_f64_def)

lemma entry_accessors [simp]:
  "get_str ''key'' (entry_json (k, v)) = Some k" "jget ''value'' (entry_json (k, v)) = v"
  by (auto simp: entry_json_def get_str_def split: option.splits)

subsection \<open>Numbers\<close>

lemma scast_i64: "(scast :: i64 \<Rightarrow> i64) i = i"
  by transfer (simp add: take_bit_signed_take_bit)

lemma parse_show_i64: "parse_i64 (show_i64 i) = Some i"
proof (cases "sint i < 0")
  case True
  define n where "n = nat (- sint i)"
  have "- (2 ^ 63) \<le> sint i" using sint_ge[of i] by simp
  then have n: "n \<le> 2 ^ 63" "- int n = sint i" using True by (auto simp: n_def)
  obtain d cs where s: "show_nat n = d # cs" by (cases "show_nat n") auto
  have "digits_value 0 (d # cs) = Some n" using digits_value_show_nat[of n] s by simp
  moreover have "- of_nat n = i"
  proof -
    have "i = of_int (- int n)" unfolding n(2) by (simp add: scast_i64)
    then show ?thesis by simp
  qed
  ultimately show ?thesis using True n(1) s by (simp add: show_i64_def parse_i64_def n_def[symmetric])
next
  case False
  define n where "n = nat (sint i)"
  have "sint i < 2 ^ 63" using sint_lt[of i] by simp
  then have n: "n < 2 ^ 63" "int n = sint i" using False by (auto simp: n_def)
  have "of_nat n = i"
  proof -
    have "i = of_int (int n)" unfolding n(2) by (simp add: scast_i64)
    then show ?thesis by simp
  qed
  moreover have "hd (show_nat n) \<noteq> CHR ''-''"
    using show_nat_digits[of n] by (cases "show_nat n") (auto simp: is_ascii_digit_def)
  ultimately show ?thesis
    using False parse_show_nat[OF n(1)]
    by (cases "show_nat n"; cases "tl (show_nat n)") (auto simp: show_i64_def parse_i64_def n_def[symmetric])
qed

lemma parse_show_u64: "parse_u64 (show_word (w :: u64)) = Some w"
proof -
  have "unat w < 2 ^ 64" using unsigned_less[where 'a = nat, of w] by simp
  then show ?thesis by (simp add: parse_u64_def show_word_def parse_show_nat)
qed

lemma parse_nano_string [simp]: "parse_nano_timestamp (JString (show_word w)) = w"
  by (simp add: parse_nano_timestamp_def parse_show_u64)

subsection \<open>Values\<close>

lemma extract_any_json: "plain v \<Longrightarrow> extract_otlp_any_value (any_json v) = any_value_to_json v"
proof (induction v)
  case (Array_value vs)
  then show ?case
    by (subst extract_otlp_any_value.simps)
      (auto simp: scalar_value_def get_str_def list_value_def get_array_def list_all_iff)
next
  case (Kvlist_value kvs)
  let ?entry = "\<lambda>kv. case get_str ''key'' kv of None \<Rightarrow> [] | Some k \<Rightarrow>
     (case jget ''value'' kv of None \<Rightarrow> [] | Some val \<Rightarrow> [(k, extract_otlp_any_value val)])"
  let ?val = "\<lambda>kv. map_prod id (unwrap_or JNull) (map_prod id (map_option any_value_to_json) kv)"
  have "?entry (entry_json (map_prod id (map_option any_json) kv)) = [?val kv]" if kv: "kv \<in> set kvs" for kv
  proof -
    obtain k v where "kv = (k, Some v)" "plain v"
    proof -
      have "\<forall>kv \<in> set kvs. snd (map_prod id (map_option plain) kv) = Some True"
        using Kvlist_value.prems by (simp only: plain.simps list_all_iff set_map ball_simps)
      with kv have "snd (map_prod id (map_option plain) kv) = Some True" by blast
      then show thesis using that by (cases kv; cases "snd kv") auto
    qed
    then show ?thesis using kv Kvlist_value.IH[of kv "Some v" v] by (simp add: unwrap_or_def)
  qed
  then have "concat (map ?entry (map entry_json (map (map_prod id (map_option any_json)) kvs))) = map ?val kvs"
    by (induction kvs) auto
  then show ?case
    by (subst extract_otlp_any_value.simps)
      (simp add: scalar_value_def get_str_def[of "''stringValue''"] list_value_def get_array_def comp_def)
qed (subst extract_otlp_any_value.simps;
     simp add: scalar_value_def get_str_def list_value_def get_array_def or_else_def parse_show_i64 json_of_f64_def)+

lemma plain_attrs_Cons [simp]:
  "plain_attrs (kv # kvs) \<longleftrightarrow> (\<exists>k v. kv = (k, Some v) \<and> plain v) \<and> plain_attrs kvs"
  by (cases kv) (auto simp: plain_attrs_def split: option.splits)

lemma attrs_agree: "plain_attrs kvs \<Longrightarrow> otlp_attrs_to_map (attrs_json kvs) = kv_list_to_map kvs"
proof -
  assume "plain_attrs kvs"
  then have "attr_entries extract_otlp_any_value (attrs_json kvs) =
      map (\<lambda>(k, v). (k, unwrap_or JNull (map_option any_value_to_json v))) kvs"
    unfolding attr_entries_def attrs_json_def
    by (induction kvs) (auto simp: unwrap_or_def extract_any_json)
  then show ?thesis by (simp add: otlp_attrs_to_map_def kv_list_to_map_def)
qed

lemma string_attr_agree:
  assumes "plain_attrs kvs"
  shows "unwrap_or [] (extract_string_attr (attrs_json kvs) key) = string_attr_from_kv kvs key"
  using assms
proof (induction kvs)
  case Nil
  then show ?case by (simp add: extract_string_attr_def string_attr_from_kv_def attrs_json_def unwrap_or_def)
next
  case (Cons kv kvs)
  then obtain k v where kv: "kv = (k, Some v)" "plain v" by auto
  then show ?case
    using Cons
    by (cases v) (auto simp: extract_string_attr_def string_attr_from_kv_def attrs_json_def unwrap_or_def)
qed

subsection \<open>Messages\<close>

definition resource_json :: "string \<Rightarrow> string \<Rightarrow> ('a \<Rightarrow> json) \<Rightarrow> 'a resource \<Rightarrow> json" where
  "resource_json scopes items f r = JObject
     ((case fst r of None \<Rightarrow> [] | Some attrs \<Rightarrow> [(''resource'', JObject [(''attributes'', attrs_json attrs)])]) @
      [(scopes, JArray (map (\<lambda>xs. JObject [(items, JArray (map f xs))]) (snd r)))])"

definition nanos_json :: "u64 \<Rightarrow> json" where
  "nanos_json w = JString (show_word w)"

definition int_json :: "32 word \<Rightarrow> json" where
  "int_json w = JNumber (number_of_i64 (scast w))"

definition body_json :: "any_value option \<Rightarrow> (string \<times> json) list" where
  "body_json v = (case v of None \<Rightarrow> [] | Some v \<Rightarrow> [(''body'', any_json v)])"

definition log_json :: "proto_log \<Rightarrow> json" where
  "log_json lr = JObject
     ([(''timeUnixNano'', nanos_json (pl_time_unix_nano lr)),
       (''observedTimeUnixNano'', nanos_json (pl_observed_time_unix_nano lr)),
       (''severityNumber'', int_json (pl_severity_number lr)),
       (''severityText'', JString (pl_severity_text lr)),
       (''attributes'', attrs_json (pl_attributes lr)),
       (''traceId'', JString (hex_encode (pl_trace_id lr))),
       (''spanId'', JString (hex_encode (pl_span_id lr)))] @ body_json (pl_body lr))"

definition event_json :: "proto_event \<Rightarrow> json" where
  "event_json e = JObject
     [(''timeUnixNano'', nanos_json (pe_time_unix_nano e)), (''name'', JString (pe_name e)),
      (''attributes'', attrs_json (pe_attributes e))]"

definition status_json :: "(32 word \<times> string) option \<Rightarrow> (string \<times> json) list" where
  "status_json st = (case st of None \<Rightarrow> [] | Some (c, m) \<Rightarrow>
     [(''status'', JObject [(''code'', int_json c), (''message'', JString m)])])"

definition span_json :: "proto_span \<Rightarrow> json" where
  "span_json s = JObject
     ([(''traceId'', JString (hex_encode (ps_trace_id s))), (''spanId'', JString (hex_encode (ps_span_id s))),
       (''parentSpanId'', JString (hex_encode (ps_parent_span_id s))), (''name'', JString (ps_name s)),
       (''kind'', int_json (ps_kind s)), (''startTimeUnixNano'', nanos_json (ps_start_time_unix_nano s)),
       (''endTimeUnixNano'', nanos_json (ps_end_time_unix_nano s)),
       (''attributes'', attrs_json (ps_attributes s)),
       (''events'', JArray (map event_json (ps_events s)))] @ status_json (ps_status s))"

definition logs_json :: "proto_log resource list \<Rightarrow> json" where
  "logs_json rls = JObject [(''resourceLogs'', JArray (map (resource_json ''scopeLogs'' ''logRecords'' log_json) rls))]"

definition traces_json :: "proto_span resource list \<Rightarrow> json" where
  "traces_json rss = JObject [(''resourceSpans'', JArray (map (resource_json ''scopeSpans'' ''spans'' span_json) rss))]"

text \<open>An id is absent or not all zero.\<close>

definition real_id :: "u8 list \<Rightarrow> bool" where
  "real_id bytes \<longleftrightarrow> bytes = [] \<or> \<not> list_all (\<lambda>b. b = 0) bytes"

definition plain_log :: "proto_log \<Rightarrow> bool" where
  "plain_log lr \<longleftrightarrow> plain_attrs (pl_attributes lr) \<and> real_id (pl_trace_id lr) \<and> real_id (pl_span_id lr) \<and>
     (case pl_body lr of None \<Rightarrow> True | Some v \<Rightarrow> plain v)"

definition plain_span :: "proto_span \<Rightarrow> bool" where
  "plain_span s \<longleftrightarrow> plain_attrs (ps_attributes s) \<and> real_id (ps_parent_span_id s) \<and>
     list_all (\<lambda>e. plain_attrs (pe_attributes e)) (ps_events s)"

definition plain_resource :: "('a \<Rightarrow> bool) \<Rightarrow> 'a resource \<Rightarrow> bool" where
  "plain_resource ok r \<longleftrightarrow> plain_attrs (unwrap_or [] (fst r)) \<and> list_all (list_all ok) (snd r)"

lemma hex_encode_Nil [simp]: "hex_encode bs = [] \<longleftrightarrow> bs = []"
  by (cases bs) (simp_all add: hex_encode_def)

lemma get_nanos_json [simp]: "jget key v = Some (nanos_json w) \<Longrightarrow> get_nanos key v = Some w"
  by (simp add: get_nanos_def nanos_json_def)

lemma as_i64_number [simp]: "as_i64 (JNumber (number_of_i64 i)) = Some i"
proof (cases "sint i < 0")
  case False
  have "sint i < 2 ^ 63" using sint_lt[of i] by simp
  with False have "uint i = sint i" unfolding uint_sint by (intro take_bit_int_eq_self) simp_all
  then have "unat i < 2 ^ 63" using \<open>sint i < 2 ^ 63\<close> by (simp add: unat_eq_nat_uint)
  then show ?thesis using False by (simp add: as_i64_def number_of_i64_def)
qed (simp add: as_i64_def number_of_i64_def)

lemma ucast_scast_32: "ucast (scast (w :: 32 word) :: i64) = w"
  by transfer (simp add: take_bit_signed_take_bit)

lemma non_empty_hex_json: "real_id bs \<Longrightarrow> jget key v = Some (JString (hex_encode bs)) \<Longrightarrow>
   non_empty_str key v = non_empty_hex bs"
  by (auto simp: non_empty_str_def get_str_def non_empty_hex_def real_id_def)

lemma resource_json_agree:
  assumes "plain_resource ok r" "scopes \<noteq> ''resource''"
  shows "otlp_attrs_to_map (resource_attrs (resource_json scopes items f r)) = kv_list_to_map (unwrap_or [] (fst r))"
    and "resource_string key (resource_json scopes items f r) = string_attr_from_kv (unwrap_or [] (fst r)) key"
    and "scope_items scopes items (resource_json scopes items f r) = map f (concat (snd r))"
proof -
  have none: "otlp_attrs_to_map JNull = kv_list_to_map []" "unwrap_or [] (extract_string_attr JNull key) = string_attr_from_kv [] key"
    by (simp_all add: otlp_attrs_to_map_def attr_entries_def kv_list_to_map_def collect_map_def as_array_def
        extract_string_attr_def string_attr_from_kv_def unwrap_or_def)
  show "otlp_attrs_to_map (resource_attrs (resource_json scopes items f r)) = kv_list_to_map (unwrap_or [] (fst r))"
    using assms none attrs_agree
    by (cases "fst r") (auto simp: resource_attrs_def resource_json_def plain_resource_def unwrap_or_def)
  show "resource_string key (resource_json scopes items f r) = string_attr_from_kv (unwrap_or [] (fst r)) key"
    using assms none string_attr_agree
    by (cases "fst r") (auto simp: resource_string_def resource_attrs_def resource_json_def plain_resource_def unwrap_or_def)
  have "concat (map (\<lambda>scope. unwrap_or [] (get_array items scope))
     (map (\<lambda>xs. JObject [(items, JArray (map f xs))]) xss)) = map f (concat xss)" for xss
    by (induction xss) (simp_all add: get_array_def unwrap_or_def)
  then show "scope_items scopes items (resource_json scopes items f r) = map f (concat (snd r))"
    using assms(2)
    by (cases "fst r") (simp_all add: scope_items_def resource_json_def get_array_def unwrap_or_def comp_def)
qed

lemma log_json_agree:
  assumes "plain_log lr"
  shows "json_log_to_domain t env sn ra i (log_json lr) = proto_log_to_domain t env sn ra i lr"
proof -
  have "jget ''body'' (log_json lr) = map_option any_json (pl_body lr)"
    by (simp add: log_json_def body_json_def split: option.splits)
  moreover have "map_option extract_otlp_any_value (map_option any_json (pl_body lr)) = map_option any_value_to_json (pl_body lr)"
    using assms by (auto simp: plain_log_def extract_any_json split: option.splits)
  ultimately show ?thesis
    using assms non_empty_hex_json[of "pl_trace_id lr" "''traceId''" "log_json lr"]
      non_empty_hex_json[of "pl_span_id lr" "''spanId''" "log_json lr"]
    by (simp add: json_log_to_domain_def proto_log_to_domain_def Let_def plain_log_def log_json_def
        get_attrs_def attrs_agree int_json_def ucast_scast_32 get_str_def unwrap_or_def)
qed

lemma number_from_map:
  assumes "\<And>i x. x \<in> set xs \<Longrightarrow> f i (g x) = h i x"
  shows "number_from n f (map g xs) = number_from n h xs"
  using assms unfolding number_from_def
  by (auto simp: zip_map2 case_prod_beta intro!: map_cong dest: set_zip_rightD)

lemma json_resource_logs_agree:
  assumes "plain_resource plain_log rl"
  shows "json_resource_logs fresh t env n (resource_json ''scopeLogs'' ''logRecords'' log_json rl) =
         resource_logs_to_domain fresh t env n rl"
proof -
  let ?r = "resource_json ''scopeLogs'' ''logRecords'' log_json rl" and ?attrs = "unwrap_or [] (fst rl)"
  have "lr \<in> set (concat (snd rl)) \<Longrightarrow> plain_log lr" for lr
    using assms by (auto simp: plain_resource_def list_all_iff)
  then have "number_from n (\<lambda>i. json_log_to_domain t env (string_attr_from_kv ?attrs ''service.name'')
        (kv_list_to_map ?attrs) (fresh i)) (map log_json (concat (snd rl))) =
      number_from n (\<lambda>i. proto_log_to_domain t env (service_name_from_kv ?attrs) (kv_list_to_map ?attrs) (fresh i))
        (concat (snd rl))"
    by (intro number_from_map) (simp add: log_json_agree service_name_from_kv_def)
  then show ?thesis
    using resource_json_agree[OF assms, of "''scopeLogs''"]
    by (simp add: json_resource_logs_def resource_logs_to_domain_def Let_def)
qed


definition example_logs :: "proto_log resource list" where
  "example_logs = [(Some [(''service.name'', Some (String_value ''checkout''))],
     [[\<lparr>pl_time_unix_nano = 17, pl_observed_time_unix_nano = 19, pl_severity_number = 9,
        pl_severity_text = ''INFO'',
        pl_body = Some (Kvlist_value [(''user'', Some (Int_value (- 3))), (''ok'', Some (Bool_value True))]),
        pl_trace_id = [1, 255], pl_span_id = [], pl_attributes = []\<rparr>]])]"


lemma event_json_agree:
  assumes "plain_attrs (pe_attributes e)"
  shows "json_event_to_domain t (span_json s) i (event_json e) = proto_event_to_domain t s i e"
  using assms
  by (simp add: json_event_to_domain_def proto_event_to_domain_def event_json_def span_json_def
      get_attrs_def attrs_agree get_str_def unwrap_or_def)

lemma as_i64_int_json [simp]: "parse_i64_value (int_json w) = Some (scast w)"
  by (simp add: parse_i64_value_def int_json_def or_else_def)

lemma scast_eq_small:
  fixes w :: "32 word"
  shows "(scast w = (1 :: i64)) = (w = 1)" "(scast w = (2 :: i64)) = (w = 2)" "(scast w = (3 :: i64)) = (w = 3)"
    "(scast w = (4 :: i64)) = (w = 4)" "(scast w = (5 :: i64)) = (w = 5)"
  using ucast_scast_32[of w] by auto

lemma status_json_agree:
  "status_from_json (jget ''status'' (span_json s)) =
     (case ps_status s of None \<Rightarrow> (Unset, []) | Some (c, m) \<Rightarrow> (status_code_of c, m))"
  by (auto simp: span_json_def status_json_def status_from_json_def status_code_of_def scast_eq_small
      get_str_def unwrap_or_def split: option.splits)

lemma kind_json_agree: "span_kind_from_json (int_json k) = span_kind_of k"
  by (simp add: span_kind_from_json_def span_kind_of_def scast_eq_small)

lemma span_json_agree:
  assumes "plain_span s" "plain_resource ok r"
  shows "(json_span_to_domain t env (resource_json ''scopeSpans'' ''spans'' f r) (span_json s))\<lparr>sp_service_version := []\<rparr> =
    proto_span_to_domain t env (service_name_from_kv (unwrap_or [] (fst r))) (kv_list_to_map (unwrap_or [] (fst r))) s"
proof -
  have "number_from 0 (json_event_to_domain t (span_json s)) (map event_json (ps_events s)) =
      number_from 0 (proto_event_to_domain t s) (ps_events s)"
    using assms(1) by (intro number_from_map event_json_agree) (auto simp: plain_span_def list_all_iff)
  moreover have "get_array ''events'' (span_json s) = Some (map event_json (ps_events s))"
    by (simp add: span_json_def get_array_def)
  moreover have "non_empty_str ''parentSpanId'' (span_json s) = non_empty_hex (ps_parent_span_id s)"
    using assms(1) by (intro non_empty_hex_json) (auto simp: plain_span_def span_json_def)
  moreover have "get_attrs (span_json s) = kv_list_to_map (ps_attributes s)"
    using assms(1) by (simp add: get_attrs_def span_json_def attrs_agree plain_span_def unwrap_or_def)
  moreover have "jget ''kind'' (span_json s) = Some (int_json (ps_kind s))"
    "get_nanos ''startTimeUnixNano'' (span_json s) = Some (ps_start_time_unix_nano s)"
    "get_nanos ''endTimeUnixNano'' (span_json s) = Some (ps_end_time_unix_nano s)"
    "get_str ''traceId'' (span_json s) = Some (hex_encode (ps_trace_id s))"
    "get_str ''spanId'' (span_json s) = Some (hex_encode (ps_span_id s))"
    "get_str ''name'' (span_json s) = Some (ps_name s)"
    by (simp_all add: span_json_def get_str_def)
  ultimately show ?thesis
    using resource_json_agree[OF assms(2), of "''scopeSpans''"]
    by (simp add: json_span_to_domain_def proto_span_to_domain_def Let_def status_json_agree
        kind_json_agree service_name_from_kv_def unwrap_or_def split: prod.splits)
qed


definition example_spans :: "proto_span resource list" where
  "example_spans = [(Some [(''service.name'', Some (String_value ''checkout'')),
       (''service.version'', Some (String_value ''1.2''))],
     [[\<lparr>ps_trace_id = [1, 2], ps_span_id = [3], ps_parent_span_id = [], ps_name = ''GET /'', ps_kind = 2,
        ps_start_time_unix_nano = 10, ps_end_time_unix_nano = 25, ps_attributes = [],
        ps_events = [\<lparr>pe_time_unix_nano = 12, pe_name = ''retry'', pe_attributes = []\<rparr>],
        ps_status = Some (2, ''boom'')\<rparr>]])]"


end
