(* ===== verification/Prometheus_Rw.thy ===== *)
theory Prometheus_Rw
  imports Otlp_Grpc Float64
begin

section \<open>Prometheus remote write\<close>

text \<open>
  \<open>prometheus_rw/convert.rs\<close>: the time series of a write request become metric series
  and points. \<open>us\<close> and \<open>js\<close> are the texts of UUIDs and JSON values in the series id. The
  order in which the \<open>HashMap\<close> of the histogram groups is iterated is the parameter
  \<open>order\<close>; the standard library leaves the order of \<open>sort_by\<close> open, and may panic, when
  the comparison is not a total order, which here means when a bucket bound is not a
  number: then the parameter \<open>unordered\<close> says what it does. Arithmetic on timestamps
  panics on overflow.
\<close>

subsection \<open>Panics\<close>

fun done_then :: "'a outcome \<Rightarrow> ('a \<Rightarrow> 'b outcome) \<Rightarrow> 'b outcome" where
  "done_then Panic f = Panic"
| "done_then (Done x) f = f x"

fun each_done :: "('a \<Rightarrow> 'b outcome) \<Rightarrow> 'a list \<Rightarrow> 'b list outcome" where
  "each_done f [] = Done []"
| "each_done f (x # xs) = done_then (f x) (\<lambda>y. done_then (each_done f xs) (\<lambda>ys. Done (y # ys)))"

definition no_panic :: "'a option \<Rightarrow> 'a outcome" where
  "no_panic x = (case x of None \<Rightarrow> Panic | Some y \<Rightarrow> Done y)"

lemma done_then_Done [simp]: "done_then r f = Done y \<longleftrightarrow> (\<exists>x. r = Done x \<and> f x = Done y)"
  by (cases r) auto

lemma done_then_Panic [simp]: "done_then r f = Panic \<longleftrightarrow> r = Panic \<or> (\<exists>x. r = Done x \<and> f x = Panic)"
  by (cases r) auto

lemma each_done_Panic [simp]: "each_done f xs = Panic \<longleftrightarrow> (\<exists>x \<in> set xs. f x = Panic)"
proof (induction xs)
  case (Cons x xs)
  then show ?case by (cases "f x"; cases "each_done f xs") auto
qed simp

lemma each_done_Done: "each_done f xs = Done ys \<longleftrightarrow> map f xs = map Done ys"
proof (induction xs arbitrary: ys)
  case (Cons x xs)
  then show ?case by (cases ys) auto
qed auto

subsection \<open>Labels\<close>

record sample =
  sm_value :: f64
  sm_timestamp :: i64

record time_series =
  ts_labels :: "(string \<times> string) list"
  ts_samples :: "sample list"

definition ends_with :: "string \<Rightarrow> string \<Rightarrow> bool" where
  "ends_with name suffix \<longleftrightarrow> strip_suffix suffix name \<noteq> None"

definition labels_to_map :: "(string \<times> string) list \<Rightarrow> (string \<times> string) list" where
  "labels_to_map labels = collect_map labels"

definition name_of_labels :: "(string \<times> string) list \<Rightarrow> string" where
  "name_of_labels label_map = unwrap_or [] (map_of label_map ''__name__'')"

definition is_bucket :: "string \<Rightarrow> bool" where "is_bucket name \<longleftrightarrow> ends_with name ''_bucket''"
definition is_count :: "string \<Rightarrow> bool" where "is_count name \<longleftrightarrow> ends_with name ''_count''"
definition is_sum :: "string \<Rightarrow> bool" where "is_sum name \<longleftrightarrow> ends_with name ''_sum''"

fun strip_first :: "string list \<Rightarrow> string \<Rightarrow> string" where
  "strip_first [] name = name"
| "strip_first (suffix # ss) name =
     (case strip_suffix suffix name of Some base \<Rightarrow> base | None \<Rightarrow> strip_first ss name)"

definition base_name :: "string \<Rightarrow> string" where
  "base_name name = strip_first [''_bucket'', ''_count'', ''_sum'', ''_created'', ''_total''] name"

definition build_series ::
    "(string \<times> string) list \<Rightarrow> string \<Rightarrow> metric_type \<Rightarrow> bool option \<Rightarrow> aggregation_temporality option \<Rightarrow>
     uuid \<Rightarrow> string \<Rightarrow> metric_series" where
  "build_series label_map metric_name ty is_monotonic agg tenant_id environment =
     default_series\<lparr>ms_tenant_id := tenant_id, ms_metric_name := metric_name, ms_metric_type := ty,
       ms_is_monotonic := is_monotonic, ms_aggregation_temporality := agg,
       ms_attributes := filter (\<lambda>(k, _). k \<notin> {''__name__'', ''job'', ''instance'', ''le'', ''observable.service_name''}) label_map,
       ms_resource_attributes :=
         (''observable.ingest_source'', JString ''prometheus_remote_write'') #
         (case map_of label_map ''instance'' of None \<Rightarrow> [] | Some i \<Rightarrow> [(''host.name'', JString i)]),
       ms_service_name :=
         (case map_of label_map ''observable.service_name'' of Some s \<Rightarrow> s
          | None \<Rightarrow> unwrap_or ''unknown'' (map_of label_map ''job'')),
       ms_environment := environment\<rparr>"

text \<open>\<open>series.metric_series_id = deterministic_metric_series_id(&series)\<close>.\<close>

definition identified :: "(uuid \<Rightarrow> string) \<Rightarrow> (json \<Rightarrow> string) \<Rightarrow> metric_series \<Rightarrow> metric_series" where
  "identified us js series = series\<lparr>ms_metric_series_id := deterministic_metric_series_id us js series\<rparr>"

subsection \<open>Gauges and counters\<close>

definition millis_to_nanos :: "i64 \<Rightarrow> u64 outcome" where
  "millis_to_nanos timestamp = no_panic (checked_mul timestamp 1000000)"

definition simple_point :: "metric_series \<Rightarrow> string \<Rightarrow> uuid \<Rightarrow> sample \<Rightarrow> metric_point outcome" where
  "simple_point series metric_name tenant_id s =
     done_then (millis_to_nanos (sm_timestamp s)) (\<lambda>t.
       Done (default_point\<lparr>mp_tenant_id := tenant_id, mp_metric_series_id := ms_metric_series_id series,
         mp_metric_name := metric_name, mp_service_name := ms_service_name series,
         mp_time_unix_nano := t, mp_value_double := Some (sm_value s)\<rparr>))"

definition convert_simple ::
    "(uuid \<Rightarrow> string) \<Rightarrow> (json \<Rightarrow> string) \<Rightarrow> time_series \<Rightarrow> uuid \<Rightarrow> string \<Rightarrow>
     (metric_series \<times> metric_point list) option outcome" where
  "convert_simple us js ts tenant_id environment =
     (let label_map = labels_to_map (ts_labels ts) in
      case map_of label_map ''__name__'' of
        None \<Rightarrow> Done None
      | Some metric_name \<Rightarrow>
          (let (ty, is_monotonic, agg) =
                 (if ends_with metric_name ''_total'' then (Type_Sum, Some True, Some Cumulative)
                  else (Type_Gauge, None, None));
               series = identified us js
                 (build_series label_map metric_name ty is_monotonic agg tenant_id environment)
           in done_then (each_done (simple_point series metric_name tenant_id) (ts_samples ts)) (\<lambda>points.
                Done (Some (series, points)))))"

subsection \<open>Histograms\<close>

text \<open>\<open>v as u64\<close> for a double: truncation towards zero, saturating, 0 for not-a-number.\<close>

definition u64_of_f64 :: "f64 \<Rightarrow> u64" where
  "u64_of_f64 d =
     (case d of
        NaN \<Rightarrow> 0
      | Infinity neg \<Rightarrow> if neg then 0 else - 1
      | Finite neg m e \<Rightarrow>
          if neg then 0
          else let v = (if 0 \<le> e then m * 2 ^ nat e else m div 2 ^ nat (- e))
               in if 2 ^ 64 \<le> v then - 1 else word_of_int v)"

definition is_infinite :: "f64 \<Rightarrow> bool" where
  "is_infinite d = (case d of Infinity _ \<Rightarrow> True | _ \<Rightarrow> False)"

text \<open>What the samples of a group say, by timestamp.\<close>

record histogram_samples =
  hs_buckets :: "(i64 \<times> (f64 \<times> f64) list) list"
  hs_count :: "(i64 \<times> f64) list"
  hs_sum :: "(i64 \<times> f64) list"

definition bound_of_labels :: "(string \<times> string) list \<Rightarrow> f64" where
  "bound_of_labels label_map = unwrap_or (Infinity False) (Option.bind (map_of label_map ''le'') parse_f64)"

definition add_sample :: "(string \<times> string) list \<Rightarrow> sample \<Rightarrow> histogram_samples \<Rightarrow> histogram_samples" where
  "add_sample label_map s hs =
     (let name = name_of_labels label_map; t = sm_timestamp s in
      if is_bucket name then
        hs\<lparr>hs_buckets := AList.update t (unwrap_or [] (map_of (hs_buckets hs) t) @ [(bound_of_labels label_map, sm_value s)])
                        (hs_buckets hs)\<rparr>
      else if is_count name then hs\<lparr>hs_count := AList.update t (sm_value s) (hs_count hs)\<rparr>
      else if is_sum name then hs\<lparr>hs_sum := AList.update t (sm_value s) (hs_sum hs)\<rparr>
      else hs)"

definition collect_samples :: "time_series list \<Rightarrow> histogram_samples" where
  "collect_samples group_ts =
     fold (\<lambda>ts. fold (add_sample (labels_to_map (ts_labels ts))) (ts_samples ts)) group_ts
       \<lparr>hs_buckets = [], hs_count = [], hs_sum = []\<rparr>"

definition has_inf :: "histogram_samples \<Rightarrow> bool" where
  "has_inf hs \<longleftrightarrow> list_ex (\<lambda>(_, bkts). list_ex (\<lambda>(le, _). is_infinite le) bkts) (hs_buckets hs)"

text \<open>Without a bucket for infinity, each bucket series becomes a gauge.\<close>

definition bucket_gauge ::
    "(uuid \<Rightarrow> string) \<Rightarrow> (json \<Rightarrow> string) \<Rightarrow> uuid \<Rightarrow> string \<Rightarrow> time_series \<Rightarrow>
     (metric_series \<times> metric_point list) outcome" where
  "bucket_gauge us js tenant_id environment ts =
     (let label_map = labels_to_map (ts_labels ts);
          name = name_of_labels label_map;
          plain = build_series label_map name Type_Gauge None None tenant_id environment;
          series = identified us js (case map_of label_map ''le'' of
              None \<Rightarrow> plain | Some le \<Rightarrow> plain\<lparr>ms_attributes := AList.update ''le'' le (ms_attributes plain)\<rparr>)
      in done_then (each_done (simple_point series name tenant_id) (ts_samples ts)) (\<lambda>pts. Done (series, pts)))"

text \<open>A stable sort by the bound, as \<open>sort_by\<close> is when all the bounds compare.\<close>

fun insert_bucket :: "f64 \<times> f64 \<Rightarrow> (f64 \<times> f64) list \<Rightarrow> (f64 \<times> f64) list" where
  "insert_bucket b [] = [b]"
| "insert_bucket b (c # cs) = (if f64_lt (fst c) (fst b) then c # insert_bucket b cs else b # c # cs)"

definition sort_buckets ::
    "((f64 \<times> f64) list \<Rightarrow> (f64 \<times> f64) list outcome) \<Rightarrow> (f64 \<times> f64) list \<Rightarrow> (f64 \<times> f64) list outcome" where
  "sort_buckets unordered bkts =
     (if list_ex (\<lambda>(le, _). le = NaN) bkts then unordered bkts else Done (foldr insert_bucket bkts []))"

fun interval_counts :: "u64 \<Rightarrow> u64 list \<Rightarrow> u64 list" where
  "interval_counts prev [] = []"
| "interval_counts prev (c # cs) = saturating_sub c prev # interval_counts c cs"

definition bucket_point ::
    "((f64 \<times> f64) list \<Rightarrow> (f64 \<times> f64) list outcome) \<Rightarrow> histogram_samples \<Rightarrow> metric_series \<Rightarrow> string \<Rightarrow> uuid \<Rightarrow>
     i64 \<Rightarrow> metric_point outcome" where
  "bucket_point unordered hs series base tenant_id t =
     done_then (sort_buckets unordered (unwrap_or [] (map_of (hs_buckets hs) t))) (\<lambda>bkts.
     done_then (millis_to_nanos t) (\<lambda>nanos.
       Done (default_point\<lparr>mp_tenant_id := tenant_id, mp_metric_series_id := ms_metric_series_id series,
         mp_metric_name := base, mp_service_name := ms_service_name series, mp_time_unix_nano := nanos,
         mp_histogram_explicit_bounds := non_empty_list (filter (\<lambda>le. \<not> is_infinite le) (map fst bkts)),
         mp_histogram_bucket_counts := non_empty_list (interval_counts 0 (map (\<lambda>(_, v). u64_of_f64 v) bkts)),
         mp_histogram_count := map_option u64_of_f64 (map_of (hs_count hs) t),
         mp_histogram_sum := map_of (hs_sum hs) t\<rparr>)))"

definition convert_histogram_group ::
    "(uuid \<Rightarrow> string) \<Rightarrow> (json \<Rightarrow> string) \<Rightarrow> ((f64 \<times> f64) list \<Rightarrow> (f64 \<times> f64) list outcome) \<Rightarrow> string \<Rightarrow> time_series list \<Rightarrow>
     uuid \<Rightarrow> string \<Rightarrow> (metric_series list \<times> metric_point list) outcome" where
  "convert_histogram_group us js unordered base group_ts tenant_id environment =
     (let hs = collect_samples group_ts in
      if \<not> has_inf hs \<and> hs_buckets hs \<noteq> []
      then done_then (each_done (bucket_gauge us js tenant_id environment)
             (filter (\<lambda>ts. is_bucket (name_of_labels (labels_to_map (ts_labels ts)))) group_ts)) (\<lambda>gauges.
           Done (map fst gauges, concat (map snd gauges)))
      else (case group_ts of
          [] \<Rightarrow> Done ([], [])
        | ts # _ \<Rightarrow>
            (let series = identified us js (build_series (labels_to_map (ts_labels ts)) base Type_Histogram None
                   (Some Cumulative) tenant_id environment)
             in done_then (each_done (bucket_point unordered hs series base tenant_id)
                  (sort_key sint (map fst (hs_buckets hs)))) (\<lambda>points.
                Done ([series], points)))))"

subsection \<open>Write requests\<close>

type_synonym histogram_groups = "((string \<times> (string \<times> string) list) \<times> time_series list) list"

definition group_key :: "time_series \<Rightarrow> string \<times> (string \<times> string) list" where
  "group_key ts =
     (base_name (name_of_labels (labels_to_map (ts_labels ts))),
      sorted_entries (collect_map (filter (\<lambda>(k, _). k \<noteq> ''__name__'' \<and> k \<noteq> ''le'') (ts_labels ts))))"

definition split_step :: "time_series \<Rightarrow> time_series list \<times> histogram_groups \<Rightarrow> time_series list \<times> histogram_groups" where
  "split_step ts st =
     (let (simple, groups) = st; name = name_of_labels (labels_to_map (ts_labels ts)) in
      if ends_with name ''_created'' then st
      else if is_bucket name \<or> is_count name \<or> is_sum name
      then (simple, AList.update (group_key ts) (unwrap_or [] (map_of groups (group_key ts)) @ [ts]) groups)
      else (simple @ [ts], groups))"

definition write_request_to_metrics ::
    "(uuid \<Rightarrow> string) \<Rightarrow> (json \<Rightarrow> string) \<Rightarrow> ((f64 \<times> f64) list \<Rightarrow> (f64 \<times> f64) list outcome) \<Rightarrow>
     (histogram_groups \<Rightarrow> histogram_groups) \<Rightarrow> time_series list \<Rightarrow> uuid \<Rightarrow> string \<Rightarrow>
     (metric_series list \<times> metric_point list) outcome" where
  "write_request_to_metrics us js unordered order timeseries tenant_id environment =
     (let (simple, groups) = fold split_step timeseries ([], []) in
      done_then (each_done (\<lambda>ts. convert_simple us js ts tenant_id environment) simple) (\<lambda>simples.
      done_then (each_done (\<lambda>((base, _), group_ts).
        convert_histogram_group us js unordered base group_ts tenant_id environment) (order groups)) (\<lambda>histograms.
      let converted = List.map_filter id simples in
      Done (map fst converted @ concat (map fst histograms),
            concat (map snd converted) @ concat (map snd histograms)))))"

end
