(* ===== verification/Auth_Client.thy ===== *)
theory Auth_Client
  imports Clickhouse_Query
begin

section \<open>Verification of credentials\<close>

text \<open>
  \<open>libs/observable-auth\<close>: what the services do with the answers of the authentication
  service and with the headers of a request. The HTTP client is the parameter \<open>post\<close>,
  which answers a credential by nothing (unreachable) or by a status and a body, itself
  absent when it does not deserialise; \<open>parse_uuid\<close> is the parser of the \<open>uuid\<close> crate. The
  headers of a request are a function of the lower-case header name.
\<close>

datatype auth_error =
    Auth_unauthorized | Auth_forbidden | Auth_service_unavailable | Auth_internal | Auth_bad_request

fun status_of_auth_error :: "auth_error \<Rightarrow> http_status" where
  "status_of_auth_error Auth_unauthorized = Unauthorized"
| "status_of_auth_error Auth_forbidden = Forbidden"
| "status_of_auth_error Auth_service_unavailable = Service_unavailable"
| "status_of_auth_error Auth_internal = Internal_server_error"
| "status_of_auth_error Auth_bad_request = Bad_request"

record api_key_context =
  ak_tenant_id :: uuid
  ak_role :: string
  ak_environment :: string

record session_context =
  sc_tenant_id :: uuid
  sc_user_id :: uuid
  sc_role :: string

record validate_api_key_response =
  vk_tenant_id :: uuid
  vk_role :: string
  vk_environment :: string

record validate_session_response =
  vs_user_id :: string
  vs_tenant_id :: string
  vs_role :: string

datatype 'b http_answer = Unreachable | Answer nat "'b option"

definition is_success :: "nat \<Rightarrow> bool" where
  "is_success status \<longleftrightarrow> 200 \<le> status \<and> status < 300"

definition verify_api_key ::
    "(string \<Rightarrow> validate_api_key_response http_answer) \<Rightarrow> string \<Rightarrow> (auth_error, api_key_context) result" where
  "verify_api_key post api_key =
     (case post api_key of
        Unreachable \<Rightarrow> Inl Auth_service_unavailable
      | Answer status body \<Rightarrow>
          if \<not> is_success status then Inl Auth_unauthorized
          else and_then (ok_or Auth_internal body) (\<lambda>body.
            Inr \<lparr>ak_tenant_id = vk_tenant_id body, ak_role = vk_role body, ak_environment = vk_environment body\<rparr>))"

definition verify_session_with_tenant ::
    "(string \<Rightarrow> uuid option) \<Rightarrow> (string \<Rightarrow> uuid option \<Rightarrow> validate_session_response http_answer) \<Rightarrow>
     string \<Rightarrow> uuid option \<Rightarrow> (auth_error, session_context) result" where
  "verify_session_with_tenant parse_uuid post session_token requested_tenant_id =
     (case post session_token requested_tenant_id of
        Unreachable \<Rightarrow> Inl Auth_service_unavailable
      | Answer status body \<Rightarrow>
          if status = 403 then Inl Auth_forbidden
          else if \<not> is_success status then Inl Auth_unauthorized
          else and_then (ok_or Auth_internal body) (\<lambda>body.
            and_then (ok_or Auth_internal (parse_uuid (vs_tenant_id body))) (\<lambda>tenant_id.
            and_then (ok_or Auth_internal (parse_uuid (vs_user_id body))) (\<lambda>user_id.
            Inr \<lparr>sc_tenant_id = tenant_id, sc_user_id = user_id, sc_role = vs_role body\<rparr>))))"

definition verify_session ::
    "(string \<Rightarrow> uuid option) \<Rightarrow> (string \<Rightarrow> uuid option \<Rightarrow> validate_session_response http_answer) \<Rightarrow>
     string \<Rightarrow> (auth_error, session_context) result" where
  "verify_session parse_uuid post session_token = verify_session_with_tenant parse_uuid post session_token None"

subsection \<open>Headers\<close>

datatype header_value = Text string | Opaque

type_synonym headers = "string \<Rightarrow> header_value option"

definition to_str :: "header_value \<Rightarrow> string option" where
  "to_str v = (case v of Text s \<Rightarrow> Some s | Opaque \<Rightarrow> None)"

definition extract_bearer_token :: "headers \<Rightarrow> (auth_error, string option) result" where
  "extract_bearer_token headers =
     (case headers ''authorization'' of
        None \<Rightarrow> Inr None
      | Some v \<Rightarrow> ok_or Auth_unauthorized
          (map_option Some (Option.bind (to_str v) (strip_prefix ''Bearer ''))))"

definition split_once :: "char \<Rightarrow> string \<Rightarrow> (string \<times> string) option" where
  "split_once c s = (case dropWhile (\<lambda>x. x \<noteq> c) s of [] \<Rightarrow> None | _ # v \<Rightarrow> Some (takeWhile (\<lambda>x. x \<noteq> c) s, v))"

fun find_map :: "('a \<Rightarrow> 'b option) \<Rightarrow> 'a list \<Rightarrow> 'b option" where
  "find_map f [] = None"
| "find_map f (x # xs) = (case f x of None \<Rightarrow> find_map f xs | Some y \<Rightarrow> Some y)"

definition session_part :: "string \<Rightarrow> string option" where
  "session_part part =
     Option.bind (split_once (CHR ''='') part) (\<lambda>(k, v). if trim k = ''session'' then Some (trim v) else None)"

definition extract_session_cookie :: "headers \<Rightarrow> string option" where
  "extract_session_cookie headers =
     Option.bind (headers ''cookie'') (\<lambda>v. Option.bind (to_str v) (\<lambda>cookie.
       find_map session_part (map trim (split_on (CHR '';'') cookie))))"

definition extract_tenant_id_header :: "(string \<Rightarrow> uuid option) \<Rightarrow> headers \<Rightarrow> (auth_error, uuid) result" where
  "extract_tenant_id_header parse_uuid headers =
     and_then (ok_or Auth_unauthorized (headers ''x-tenant-id'')) (\<lambda>v.
       ok_or Auth_bad_request (Option.bind (to_str v) parse_uuid))"

subsection \<open>The internal token\<close>

definition constant_time_eq :: "u8 list \<Rightarrow> u8 list \<Rightarrow> bool" where
  "constant_time_eq a b =
     (if length a \<noteq> length b then False
      else fold (\<lambda>(x, y) diff. or diff (xor x y)) (zip a b) (0 :: u8) = 0)"

definition as_bytes :: "string \<Rightarrow> u8 list" where
  "as_bytes s = map (\<lambda>c. word_of_nat (byte c)) s"

definition verify_internal_token :: "headers \<Rightarrow> string \<Rightarrow> (auth_error, unit) result" where
  "verify_internal_token headers expected_token =
     and_then (ok_or Auth_unauthorized (case headers ''x-internal-token'' of None \<Rightarrow> None | Some v \<Rightarrow> to_str v)) (\<lambda>provided.
       if constant_time_eq (as_bytes provided) (as_bytes expected_token) then Inr () else Inl Auth_unauthorized)"

lemma or_word_eq_0: "or a b = 0 \<longleftrightarrow> a = 0 \<and> b = (0 :: 'l::len word)"
  by (auto simp: bit_eq_iff bit_or_iff)

lemma xor_word_eq_0: "xor a b = 0 \<longleftrightarrow> a = (b :: 'l::len word)"
  by (auto simp: bit_eq_iff bit_xor_iff)

lemma fold_diff_0:
  "length a = length b \<Longrightarrow>
   fold (\<lambda>(x, y) diff. or diff (xor x y)) (zip a b) d = 0 \<longleftrightarrow> d = 0 \<and> a = (b :: 'l::len word list)"
proof (induction a b arbitrary: d rule: list_induct2)
  case Nil
  show ?case by simp
next
  case (Cons x xs y ys)
  show ?case by (simp add: Cons.IH or_word_eq_0 xor_word_eq_0)
qed

lemma constant_time_eq_iff [simp]: "constant_time_eq a b \<longleftrightarrow> a = b"
  by (auto simp: constant_time_eq_def fold_diff_0)

lemma as_bytes_inject [simp]: "as_bytes a = as_bytes b \<longleftrightarrow> a = b"
proof -
  have "inj (\<lambda>c. word_of_nat (byte c) :: u8)"
  proof (rule injI)
    fix x y :: char
    assume "(word_of_nat (byte x) :: u8) = word_of_nat (byte y)"
    then have "unat (word_of_nat (byte x) :: u8) = unat (word_of_nat (byte y) :: u8)" by simp
    then have "byte x = byte y" by (simp add: unsigned_of_nat take_bit_eq_mod)
    then show "x = y" by simp
  qed
  then show ?thesis by (simp add: as_bytes_def inj_map_eq_map)
qed

text \<open>The internal endpoints open to exactly the shared secret.\<close>

lemma verify_internal_token_iff:
  "verify_internal_token headers t = Inr () \<longleftrightarrow> headers ''x-internal-token'' = Some (Text t)"
  by (auto simp: verify_internal_token_def ok_or_def to_str_def split: option.splits header_value.splits)

text \<open>A context comes from a successful answer only, and is the answer's.\<close>

lemma verify_api_key_Inr:
  "verify_api_key post key = Inr ctx \<longleftrightarrow>
     (\<exists>status body. post key = Answer status (Some body) \<and> is_success status \<and>
        ctx = \<lparr>ak_tenant_id = vk_tenant_id body, ak_role = vk_role body, ak_environment = vk_environment body\<rparr>)"
  by (auto simp: verify_api_key_def ok_or_def split: http_answer.splits option.splits)

lemma verify_session_Inr:
  "verify_session_with_tenant parse_uuid post token requested = Inr ctx \<Longrightarrow>
   \<exists>status body. post token requested = Answer status (Some body) \<and> is_success status \<and>
     parse_uuid (vs_tenant_id body) = Some (sc_tenant_id ctx) \<and> parse_uuid (vs_user_id body) = Some (sc_user_id ctx) \<and>
     sc_role ctx = vs_role body"
  by (auto simp: verify_session_with_tenant_def ok_or_def split: http_answer.splits option.splits if_splits)

end
