(* ===== verification/Ingest_State.thy ===== *)
theory Ingest_State
  imports Domain "HOL-Library.AList"
begin

section \<open>The state the ingest gateway keeps\<close>

text \<open>
  The cardinality budget (\<open>cardinality.rs\<close>), the rate limiter (\<open>rate_limiter.rs\<close>) and the
  registry of deployments (\<open>deployment_registry.rs\<close>). Each call holds the lock of its map
  from its first read to its last write, so a call is one step of the state.
\<close>

subsection \<open>Cardinality budget\<close>

record cardinality_exceeded =
  ce_tenant_id :: uuid
  ce_budget :: u64
  ce_current_count :: u64
  ce_requested_series :: u64

record cardinality_budget =
  cb_counts :: "uuid \<rightharpoonup> u64"
  cb_tenant_budgets :: "uuid \<rightharpoonup> u64"
  cb_default_budget :: u64
  cb_enforce :: bool

definition with_enforce :: "u64 \<Rightarrow> bool \<Rightarrow> cardinality_budget" where
  "with_enforce budget enforce =
     \<lparr>cb_counts = Map.empty, cb_tenant_budgets = Map.empty, cb_default_budget = budget, cb_enforce = enforce\<rparr>"

definition set_tenant_budget :: "uuid \<Rightarrow> u64 \<Rightarrow> cardinality_budget \<Rightarrow> cardinality_budget" where
  "set_tenant_budget tenant_id budget b = b\<lparr>cb_tenant_budgets := (cb_tenant_budgets b)(tenant_id \<mapsto> budget)\<rparr>"

definition budget_for :: "cardinality_budget \<Rightarrow> uuid \<Rightarrow> u64" where
  "budget_for b tenant_id = unwrap_or (cb_default_budget b) (cb_tenant_budgets b tenant_id)"

definition current_count :: "cardinality_budget \<Rightarrow> uuid \<Rightarrow> u64" where
  "current_count b tenant_id = unwrap_or 0 (cb_counts b tenant_id)"

definition check_and_observe ::
    "uuid \<Rightarrow> u64 \<Rightarrow> cardinality_budget \<Rightarrow> (cardinality_exceeded, u64) result \<times> cardinality_budget" where
  "check_and_observe tenant_id series_count b =
     (if series_count = 0 then (Inr (current_count b tenant_id), b)
      else
        let effective_budget = budget_for b tenant_id;
            current = current_count b tenant_id;
            new_total = saturating_add current series_count
        in if cb_enforce b \<and> effective_budget < new_total
           then (Inl \<lparr>ce_tenant_id = tenant_id, ce_budget = effective_budget, ce_current_count = current,
                      ce_requested_series = series_count\<rparr>,
                 b\<lparr>cb_counts := (cb_counts b)(tenant_id \<mapsto> current)\<rparr>)
           else (Inr new_total, b\<lparr>cb_counts := (cb_counts b)(tenant_id \<mapsto> new_total)\<rparr>))"

definition observe :: "uuid \<Rightarrow> u64 \<Rightarrow> cardinality_budget \<Rightarrow> cardinality_budget" where
  "observe tenant_id series_count b = snd (check_and_observe tenant_id series_count b)"

definition reset :: "uuid \<Rightarrow> cardinality_budget \<Rightarrow> cardinality_budget" where
  "reset tenant_id b = b\<lparr>cb_counts := (cb_counts b)(tenant_id := None)\<rparr>"

abbreviation isr :: "'a + 'b \<Rightarrow> bool" where "isr r \<equiv> \<not> isl r"

text \<open>A sequence of submissions, and the greedy admission of one tenant that specifies it.\<close>

fun submit_all :: "(uuid \<times> u64) list \<Rightarrow> cardinality_budget \<Rightarrow> bool list \<times> cardinality_budget" where
  "submit_all [] b = ([], b)"
| "submit_all ((t, n) # ss) b =
     (let (r, b') = check_and_observe t n b; (rs, b'') = submit_all ss b' in (isr r # rs, b''))"

definition u64_max :: nat where "u64_max = 2 ^ 64 - 1"

fun admit :: "nat \<Rightarrow> nat \<Rightarrow> nat list \<Rightarrow> bool list" where
  "admit budget used [] = []"
| "admit budget used (n # ns) =
     (let new = min (used + n) u64_max in
      if n = 0 \<or> new \<le> budget then True # admit budget new ns else False # admit budget used ns)"

fun admitted :: "nat \<Rightarrow> nat \<Rightarrow> nat list \<Rightarrow> nat" where
  "admitted budget used [] = used"
| "admitted budget used (n # ns) =
     (let new = min (used + n) u64_max in
      admitted budget (if n = 0 \<or> new \<le> budget then new else used) ns)"

definition of_tenant :: "uuid \<Rightarrow> (uuid \<times> 'a) list \<Rightarrow> 'a list" where
  "of_tenant t xs = map snd (filter (\<lambda>(t', _). t' = t) xs)"

lemma of_tenant_Nil [simp]: "of_tenant t [] = []"
  by (simp add: of_tenant_def)

lemma of_tenant_Cons [simp]: "of_tenant t ((t', x) # xs) = (if t' = t then x # of_tenant t xs else of_tenant t xs)"
  by (simp add: of_tenant_def)

lemma unat_le_max: "unat (w :: u64) \<le> u64_max"
  using unsigned_less[where 'a = nat, of w] by (simp add: u64_max_def)

lemma unat_saturating_add_u64: "unat (saturating_add a (b :: u64)) = min (unat a + unat b) u64_max"
  by (simp add: unat_saturating_add u64_max_def)

lemma budget_for_check [simp]:
  "budget_for (snd (check_and_observe t n b)) = budget_for b"
  "cb_enforce (snd (check_and_observe t n b)) = cb_enforce b"
  by (auto simp: check_and_observe_def budget_for_def fun_eq_iff Let_def)

lemma current_count_other:
  "t' \<noteq> t \<Longrightarrow> current_count (snd (check_and_observe t n b)) t' = current_count b t'"
  by (simp add: check_and_observe_def current_count_def Let_def)

lemma check_enforced:
  fixes t :: uuid and n :: u64
  assumes "cb_enforce b"
  defines "new \<equiv> min (unat (current_count b t) + unat n) u64_max"
  shows "isr (fst (check_and_observe t n b)) \<longleftrightarrow> unat n = 0 \<or> new \<le> unat (budget_for b t)"
    and "unat (current_count (snd (check_and_observe t n b)) t) =
           (if unat n = 0 \<or> new \<le> unat (budget_for b t) then new else unat (current_count b t))"
  using assms unat_le_max[of "current_count b t"]
  by (auto simp: check_and_observe_def Let_def word_less_nat_alt unat_saturating_add_u64 unat_eq_0
      not_less current_count_def unwrap_or_def split: option.splits)

lemma submit_all_enforced:
  assumes "cb_enforce b"
  shows "of_tenant t (zip (map fst ss) (fst (submit_all ss b))) =
           admit (unat (budget_for b t)) (unat (current_count b t)) (map unat (of_tenant t ss)) \<and>
         unat (current_count (snd (submit_all ss b)) t) =
           admitted (unat (budget_for b t)) (unat (current_count b t)) (map unat (of_tenant t ss))"
  using assms
proof (induction ss arbitrary: b)
  case Nil
  then show ?case by (simp add: of_tenant_def)
next
  case (Cons s ss)
  obtain t' n where s: "s = (t', n)" by force
  let ?b = "snd (check_and_observe t' n b)"
  have IH: "of_tenant t (zip (map fst ss) (fst (submit_all ss ?b))) =
      admit (unat (budget_for b t)) (unat (current_count ?b t)) (map unat (of_tenant t ss))"
    "unat (current_count (snd (submit_all ss ?b)) t) =
      admitted (unat (budget_for b t)) (unat (current_count ?b t)) (map unat (of_tenant t ss))"
    using Cons.IH[of ?b] Cons.prems by simp_all
  have run: "submit_all (s # ss) b =
      (isr (fst (check_and_observe t' n b)) # fst (submit_all ss ?b), snd (submit_all ss ?b))"
    by (simp add: s split: prod.splits)
  show ?case
  proof (cases "t' = t")
    case True
    then show ?thesis
      unfolding run using IH check_enforced[OF Cons.prems, of t n] by (simp add: s Let_def)
  next
    case False
    then show ?thesis
      unfolding run using IH current_count_other[of t t' n b] by (simp add: s)
  qed
qed

lemma admitted_le:
  "used \<le> budget \<Longrightarrow> admitted budget used ns \<le> budget"
  by (induction ns arbitrary: used) (auto simp: Let_def)

text \<open>Observation mode never refuses.\<close>

lemma observation_never_rejects:
  "\<not> cb_enforce b \<Longrightarrow> isr (fst (check_and_observe t n b))"
  by (simp add: check_and_observe_def Let_def)

subsection \<open>Deployments\<close>

record deployment_state =
  ds_deployment_id :: uuid
  ds_tenant_id :: uuid
  ds_service_name :: string
  ds_environment :: string
  ds_service_version :: string
  ds_status :: string
  ds_started_at_unix_nano :: u64

definition active_statuses :: "string list" where
  "active_statuses = [''in_progress'', ''success'']"

text \<open>
  The registry is the association list of the \<open>HashMap\<close>; the order in which \<open>values\<close>
  lists it is the parameter \<open>order\<close> of a lookup.
\<close>

type_synonym registry = "(uuid \<times> deployment_state) list"

definition state_of_event :: "deployment_marker_event \<Rightarrow> deployment_state" where
  "state_of_event event =
     \<lparr>ds_deployment_id = dme_deployment_id event, ds_tenant_id = dme_tenant_id event,
      ds_service_name = dme_service_name event, ds_environment = dme_environment event,
      ds_service_version = dme_service_version event, ds_status = dme_status event,
      ds_started_at_unix_nano = dme_started_at_unix_nano event\<rparr>"

definition apply_event :: "deployment_marker_event \<Rightarrow> registry \<Rightarrow> registry" where
  "apply_event event deployments = AList.update (dme_deployment_id event) (state_of_event event) deployments"

definition deployment_matches :: "uuid \<Rightarrow> string \<Rightarrow> string \<Rightarrow> string \<Rightarrow> deployment_state \<Rightarrow> bool" where
  "deployment_matches tenant_id service_name environment service_version d \<longleftrightarrow>
     ds_tenant_id d = tenant_id \<and> ds_service_name d = service_name \<and> ds_environment d = environment \<and>
     (service_version = [] \<or> ds_service_version d = service_version) \<and> ds_status d \<in> set active_statuses"

text \<open>\<open>max_by_key\<close> keeps the last of the greatest elements.\<close>

definition later :: "('a \<Rightarrow> u64) \<Rightarrow> 'a \<Rightarrow> 'a option \<Rightarrow> 'a option" where
  "later key x best = (case best of None \<Rightarrow> Some x | Some y \<Rightarrow> if key x < key y then Some y else Some x)"

definition max_by_key :: "('a \<Rightarrow> u64) \<Rightarrow> 'a list \<Rightarrow> 'a option" where
  "max_by_key key xs = fold (later key) xs None"

definition lookup ::
    "(deployment_state list \<Rightarrow> deployment_state list) \<Rightarrow> (uuid \<Rightarrow> string) \<Rightarrow> registry \<Rightarrow>
     uuid \<Rightarrow> string \<Rightarrow> string \<Rightarrow> string \<Rightarrow> string" where
  "lookup order us deployments tenant_id service_name environment service_version =
     unwrap_or [] (map_option (\<lambda>d. us (ds_deployment_id d))
       (max_by_key ds_started_at_unix_nano
         (filter (deployment_matches tenant_id service_name environment service_version)
           (order (map snd deployments)))))"

text \<open>
  The consumer: a failed receive ends it, a message without payload or with one that does
  not deserialise (\<open>de\<close>) is skipped.
\<close>

fun run_consumer ::
    "('p \<Rightarrow> deployment_marker_event option) \<Rightarrow> ('e, 'p option) result list \<Rightarrow> registry \<Rightarrow> registry \<times> 'e option" where
  "run_consumer de [] reg = (reg, None)"
| "run_consumer de (Inl e # ms) reg = (reg, Some e)"
| "run_consumer de (Inr None # ms) reg = run_consumer de ms reg"
| "run_consumer de (Inr (Some payload) # ms) reg =
     run_consumer de ms (case de payload of None \<Rightarrow> reg | Some event \<Rightarrow> apply_event event reg)"

text \<open>What the events say: the last event of each deployment.\<close>

fun latest_events :: "deployment_marker_event list \<Rightarrow> deployment_marker_event list" where
  "latest_events [] = []"
| "latest_events (e # es) =
     (if dme_deployment_id e \<in> dme_deployment_id ` set es then latest_events es else e # latest_events es)"

definition received_events :: "('p \<Rightarrow> deployment_marker_event option) \<Rightarrow> ('e, 'p option) result list \<Rightarrow> deployment_marker_event list" where
  "received_events de ms =
     List.map_filter (\<lambda>m. case m of Inr (Some p) \<Rightarrow> de p | _ \<Rightarrow> None) (takeWhile (\<lambda>m. \<not> isl m) ms)"

lemma fold_later:
  "fold (later key) xs m = None \<longleftrightarrow> xs = [] \<and> m = None"
  "fold (later key) xs m = Some x \<Longrightarrow>
     x \<in> set xs \<union> set_option m \<and> (\<forall>y \<in> set xs \<union> set_option m. key y \<le> key x)"
proof (induction xs arbitrary: m)
  case Nil
  { case 1 then show ?case by simp }
  { case 2 then show ?case by auto }
next
  case (Cons a xs)
  { case 1 then show ?case using Cons.IH(1) by (auto simp: later_def split: option.splits) }
  { case 2
    then have "fold (later key) xs (later key a m) = Some x" by simp
    from Cons.IH(2)[OF this] show ?case
      by (auto simp: later_def not_less split: option.splits if_splits) }
qed

lemma max_by_key_None [simp]: "max_by_key key xs = None \<longleftrightarrow> xs = []"
  by (simp add: max_by_key_def fold_later(1))

lemma max_by_key_Nil [simp]: "max_by_key key [] = None"
  by simp

lemma max_by_key_Some: "max_by_key key xs = Some x \<Longrightarrow> x \<in> set xs \<and> (\<forall>y \<in> set xs. key y \<le> key x)"
  unfolding max_by_key_def by (drule fold_later(2)) simp

lemma latest_events_keep: "dme_deployment_id ` set (latest_events es) = dme_deployment_id ` set es"
  by (induction es) auto

lemma map_of_apply_event:
  "map_of (apply_event e reg) i = (if i = dme_deployment_id e then Some (state_of_event e) else map_of reg i)"
  by (simp add: apply_event_def update_conv')

lemma map_of_apply_all:
  "map_of (fold apply_event es reg) i =
     (case find (\<lambda>e. dme_deployment_id e = i) (latest_events es) of
        Some e \<Rightarrow> Some (state_of_event e) | None \<Rightarrow> map_of reg i)"
proof (induction es arbitrary: reg i)
  case Nil
  then show ?case by simp
next
  case (Cons e es)
  have unlisted: "find (\<lambda>e'. dme_deployment_id e' = dme_deployment_id e) (latest_events es) = None \<longleftrightarrow>
      dme_deployment_id e \<notin> dme_deployment_id ` set es"
    unfolding find_None_iff latest_events_keep[of es, symmetric] image_iff by (auto simp: eq_commute)
  show ?case
  proof (cases "i = dme_deployment_id e")
    case True
    then show ?thesis
      using unlisted by (auto simp: Cons.IH map_of_apply_event split: option.split)
  next
    case False
    then show ?thesis by (simp add: Cons.IH map_of_apply_event split: option.split)
  qed
qed

lemma distinct_apply_all:
  "distinct (map fst reg) \<Longrightarrow> distinct (map fst (fold apply_event es reg))"
  by (induction es arbitrary: reg) (simp_all add: apply_event_def distinct_update)

lemma distinct_latest: "distinct (map dme_deployment_id (latest_events es))"
proof (induction es)
  case (Cons e es)
  then show ?case using latest_events_keep[of es] by auto
qed simp

lemma registry_states: "snd ` set (fold apply_event es []) = state_of_event ` set (latest_events es)"
proof -
  have "(i, s) \<in> set (fold apply_event es []) \<longleftrightarrow> (\<exists>e \<in> set (latest_events es). dme_deployment_id e = i \<and> s = state_of_event e)"
    for i s
  proof -
    have "(i, s) \<in> set (fold apply_event es []) \<longleftrightarrow> map_of (fold apply_event es []) i = Some s"
      using distinct_apply_all[of "[]" es] by simp
    also have "\<dots> \<longleftrightarrow> (\<exists>e. find (\<lambda>e. dme_deployment_id e = i) (latest_events es) = Some e \<and> s = state_of_event e)"
      by (auto simp: map_of_apply_all split: option.splits)
    also have "\<dots> \<longleftrightarrow> (\<exists>e \<in> set (latest_events es). dme_deployment_id e = i \<and> s = state_of_event e)"
    proof -
      have "find (\<lambda>e. dme_deployment_id e = i) es' = Some e \<longleftrightarrow> e \<in> set es' \<and> dme_deployment_id e = i"
        if "distinct (map dme_deployment_id es')" for es' e
        using that by (induction es') auto
      from this[OF distinct_latest] show ?thesis by blast
    qed
    finally show ?thesis .
  qed
  then show ?thesis by force
qed

lemma run_consumer_events:
  "fst (run_consumer de ms reg) = fold apply_event (received_events de ms) reg"
  by (induction de ms reg rule: run_consumer.induct)
     (simp_all add: received_events_def List.map_filter_simps split: option.splits)

subsection \<open>Rate limiter\<close>

text \<open>
  The limiters of the \<open>governor\<close> crate are parameters: a keyed one and a direct one, each
  made from a quota per second and asked at an instant, which changes its state.
\<close>

record ('k, 'l) governor =
  gv_keyed :: "u32 \<Rightarrow> 'k"
  gv_direct :: "u32 \<Rightarrow> 'l"
  gv_check_key :: "u64 \<Rightarrow> uuid \<Rightarrow> 'k \<Rightarrow> bool \<times> 'k"
  gv_check :: "u64 \<Rightarrow> 'l \<Rightarrow> bool \<times> 'l"

record ('k, 'l) tenant_rate_limiter =
  rl_default_limiter :: 'k
  rl_custom_limiters :: "uuid \<rightharpoonup> 'l"
  rl_default_per_second :: u32

text \<open>\<open>NonZeroU32::new(per_second).expect(..)\<close> panics on 0.\<close>

definition rate_limiter_new :: "('k, 'l) governor \<Rightarrow> u32 \<Rightarrow> ('k, 'l) tenant_rate_limiter outcome" where
  "rate_limiter_new gv per_second =
     (if per_second = 0 then Panic
      else Done \<lparr>rl_default_limiter = gv_keyed gv per_second, rl_custom_limiters = Map.empty,
                 rl_default_per_second = per_second\<rparr>)"

definition set_tenant_limit ::
    "('k, 'l) governor \<Rightarrow> uuid \<Rightarrow> u32 \<Rightarrow> ('k, 'l) tenant_rate_limiter \<Rightarrow> ('k, 'l) tenant_rate_limiter outcome" where
  "set_tenant_limit gv tenant_id per_second rl =
     (if per_second = 0 then Panic
      else Done (rl\<lparr>rl_custom_limiters := (rl_custom_limiters rl)(tenant_id \<mapsto> gv_direct gv per_second)\<rparr>))"

definition check_key ::
    "('k, 'l) governor \<Rightarrow> u64 \<Rightarrow> uuid \<Rightarrow> ('k, 'l) tenant_rate_limiter \<Rightarrow> bool \<times> ('k, 'l) tenant_rate_limiter" where
  "check_key gv now tenant_id rl =
     (case rl_custom_limiters rl tenant_id of
        Some limiter \<Rightarrow>
          (let (ok, limiter') = gv_check gv now limiter in
           (ok, rl\<lparr>rl_custom_limiters := (rl_custom_limiters rl)(tenant_id \<mapsto> limiter')\<rparr>))
      | None \<Rightarrow>
          (let (ok, limiter') = gv_check_key gv now tenant_id (rl_default_limiter rl) in
           (ok, rl\<lparr>rl_default_limiter := limiter'\<rparr>)))"

text \<open>A tenant with a quota of its own does not touch the default limiter, nor the others'.\<close>

lemma check_key_custom:
  "rl_custom_limiters rl t \<noteq> None \<Longrightarrow> rl_default_limiter (snd (check_key gv now t rl)) = rl_default_limiter rl"
  by (auto simp: check_key_def split: prod.splits)

lemma check_key_others:
  "t' \<noteq> t \<Longrightarrow> rl_custom_limiters (snd (check_key gv now t rl)) t' = rl_custom_limiters rl t'"
  by (auto simp: check_key_def split: prod.splits option.splits)

end
