(* ===== verification/Ingest_Gateway.thy ===== *)
theory Ingest_Gateway
  imports Otlp_Json Prometheus_Rw Auth_Client Ingest_State
begin

section \<open>The ingest gateway\<close>

text \<open>
  \<open>services/ingest-gateway\<close>: authentication, the OTLP/HTTP, OTLP/gRPC and Prometheus
  endpoints, and the producer. A request is one step of the state. What the gateway only
  calls is a field of \<open>gateway_env\<close>: the authentication service, the governor's limiters
  and the instant, the broker, the fresh ids and the clock, the decoders of compressed,
  JSON and protobuf bytes, and the parameters of the converters. Log lines and trace spans
  do not change the state and are omitted; the counters are kept.
\<close>

subsection \<open>State and environment\<close>

text \<open>
  A message is delivered, lost with an error, or delivered although the producer saw an
  error (its acknowledgement came too late).
\<close>

datatype delivery = Delivered | Lost | Unconfirmed

record ('k, 'l) gateway_env =
  ge_post :: "string \<Rightarrow> validate_api_key_response http_answer"
  ge_governor :: "('k, 'l) governor"
  ge_instant :: u64
  ge_received_at :: u64
  ge_envelope_id :: uuid
  ge_log_ids :: uuid_supply
  ge_producer :: "(telemetry_envelope \<Rightarrow> delivery) option"
  ge_us :: "uuid \<Rightarrow> string"
  ge_js :: "json \<Rightarrow> string"
  ge_from_slice :: "u8 list \<Rightarrow> json option"
  ge_gunzip :: "u8 list \<Rightarrow> u8 list option"
  ge_unzstd :: "u8 list \<Rightarrow> u8 list option"
  ge_decode_traces :: "u8 list \<Rightarrow> proto_span resource list option"
  ge_decode_logs :: "u8 list \<Rightarrow> proto_log resource list option"
  ge_decode_metrics :: "u8 list \<Rightarrow> proto_metric resource list option"
  ge_decompress_len :: "u8 list \<Rightarrow> nat option"
  ge_decompress_vec :: "u8 list \<Rightarrow> u8 list option"
  ge_decode_write :: "u8 list \<Rightarrow> time_series list option"
  ge_unordered :: "(f64 \<times> f64) list \<Rightarrow> (f64 \<times> f64) list outcome"
  ge_group_order :: "histogram_groups \<Rightarrow> histogram_groups"
  ge_deployment_order :: "deployment_state list \<Rightarrow> deployment_state list"

text \<open>
  \<open>gw_queue\<close> is what the broker holds. The received totals are 64-bit gauges.
\<close>

record ('k, 'l) gateway =
  gw_trace_rate_limiter :: "('k, 'l) tenant_rate_limiter"
  gw_log_rate_limiter :: "('k, 'l) tenant_rate_limiter"
  gw_metric_rate_limiter :: "('k, 'l) tenant_rate_limiter"
  gw_metric_cardinality :: cardinality_budget
  gw_deployment_registry :: registry
  gw_requests_total :: "string \<times> string \<Rightarrow> nat"
  gw_rejections_total :: "string \<times> string \<Rightarrow> nat"
  gw_spans_received_total :: i64
  gw_logs_received_total :: i64
  gw_metrics_received_total :: i64
  gw_queue :: "telemetry_envelope list"

text \<open>
  A handler changes the state and either goes on with a value or ends with its reply.
\<close>

type_synonym ('k, 'l, 'r, 'a) handler = "('k, 'l) gateway \<Rightarrow> ('r, 'a) result \<times> ('k, 'l) gateway"

definition proceed :: "'a \<Rightarrow> ('k, 'l, 'r, 'a) handler" where
  "proceed x s = (Inr x, s)"

definition reply :: "'r \<Rightarrow> ('k, 'l, 'r, 'a) handler" where
  "reply r s = (Inl r, s)"

definition h_bind :: "('k, 'l, 'r, 'a) handler \<Rightarrow> ('a \<Rightarrow> ('k, 'l, 'r, 'b) handler) \<Rightarrow> ('k, 'l, 'r, 'b) handler" where
  "h_bind h f s = (case h s of (Inl r, s') \<Rightarrow> (Inl r, s') | (Inr x, s') \<Rightarrow> f x s')"

definition h_modify :: "(('k, 'l) gateway \<Rightarrow> ('k, 'l) gateway) \<Rightarrow> ('k, 'l, 'r, unit) handler" where
  "h_modify f s = (Inr (), f s)"

definition count_request :: "string \<Rightarrow> string \<Rightarrow> ('k, 'l, 'r, unit) handler" where
  "count_request signal protocol = h_modify (\<lambda>s.
     s\<lparr>gw_requests_total := (gw_requests_total s)((signal, protocol) := Suc (gw_requests_total s (signal, protocol)))\<rparr>)"

definition reject :: "string \<Rightarrow> string \<Rightarrow> 'r \<Rightarrow> ('k, 'l, 'r, 'a) handler" where
  "reject signal reason r s =
     (Inl r, s\<lparr>gw_rejections_total := (gw_rejections_total s)((signal, reason) := Suc (gw_rejections_total s (signal, reason)))\<rparr>)"

subsection \<open>Rate limits\<close>

datatype signal = Traces | Logs | Metrics

fun signal_name :: "signal \<Rightarrow> string" where
  "signal_name Traces = ''traces''"
| "signal_name Logs = ''logs''"
| "signal_name Metrics = ''metrics''"

fun limiter_of :: "signal \<Rightarrow> ('k, 'l) gateway \<Rightarrow> ('k, 'l) tenant_rate_limiter" where
  "limiter_of Traces s = gw_trace_rate_limiter s"
| "limiter_of Logs s = gw_log_rate_limiter s"
| "limiter_of Metrics s = gw_metric_rate_limiter s"

fun set_limiter :: "signal \<Rightarrow> ('k, 'l) tenant_rate_limiter \<Rightarrow> ('k, 'l) gateway \<Rightarrow> ('k, 'l) gateway" where
  "set_limiter Traces rl s = s\<lparr>gw_trace_rate_limiter := rl\<rparr>"
| "set_limiter Logs rl s = s\<lparr>gw_log_rate_limiter := rl\<rparr>"
| "set_limiter Metrics rl s = s\<lparr>gw_metric_rate_limiter := rl\<rparr>"

definition rate_limit :: "('k, 'l) gateway_env \<Rightarrow> signal \<Rightarrow> uuid \<Rightarrow> 'r \<Rightarrow> ('k, 'l, 'r, unit) handler" where
  "rate_limit env signal tenant_id r s =
     (let (ok, rl) = check_key (ge_governor env) (ge_instant env) tenant_id (limiter_of signal s);
          s' = set_limiter signal rl s
      in if ok then (Inr (), s') else reject (signal_name signal) ''rate_limit_exceeded'' r s')"

definition observe_series ::
    "uuid \<Rightarrow> metric_series list \<Rightarrow> (cardinality_exceeded \<Rightarrow> 'r) \<Rightarrow> ('k, 'l, 'r, unit) handler" where
  "observe_series tenant_id series r s =
     (case check_and_observe tenant_id (of_nat (length series)) (gw_metric_cardinality s) of
        (Inl exceeded, b) \<Rightarrow>
          reject ''metrics'' ''cardinality_budget_exceeded'' (r exceeded) (s\<lparr>gw_metric_cardinality := b\<rparr>)
      | (Inr _, b) \<Rightarrow> (Inr (), s\<lparr>gw_metric_cardinality := b\<rparr>))"

definition received :: "signal \<Rightarrow> nat \<Rightarrow> ('k, 'l, 'r, unit) handler" where
  "received signal n = h_modify (\<lambda>s. case signal of
     Traces \<Rightarrow> s\<lparr>gw_spans_received_total := gw_spans_received_total s + of_nat n\<rparr>
   | Logs \<Rightarrow> s\<lparr>gw_logs_received_total := gw_logs_received_total s + of_nat n\<rparr>
   | Metrics \<Rightarrow> s\<lparr>gw_metrics_received_total := gw_metrics_received_total s + of_nat n\<rparr>)"

subsection \<open>The producer\<close>

definition build_envelope :: "('k, 'l) gateway_env \<Rightarrow> uuid \<Rightarrow> string \<Rightarrow> envelope_payload \<Rightarrow> telemetry_envelope" where
  "build_envelope env tenant_id environment payload =
     \<lparr>env_envelope_id = ge_envelope_id env, env_tenant_id = tenant_id, env_environment = environment,
      env_received_at_unix_nano = ge_received_at env, env_payload = payload\<rparr>"

text \<open>The broker is told to send; an error ends the request with the reply \<open>r\<close>.\<close>

definition publish ::
    "('k, 'l) gateway_env \<Rightarrow> uuid \<Rightarrow> string \<Rightarrow> envelope_payload \<Rightarrow> 'r \<Rightarrow> ('k, 'l, 'r, unit) handler" where
  "publish env tenant_id environment payload r s =
     (case ge_producer env of
        None \<Rightarrow> (Inr (), s)
      | Some send \<Rightarrow>
          (let envelope = build_envelope env tenant_id environment payload;
               s' = s\<lparr>gw_queue := gw_queue s @ [envelope]\<rparr>
           in case send envelope of
                Delivered \<Rightarrow> (Inr (), s')
              | Lost \<Rightarrow> (Inl r, s)
              | Unconfirmed \<Rightarrow> (Inl r, s')))"

subsection \<open>HTTP\<close>

record http_response =
  rs_status :: http_status
  rs_headers :: "(string \<times> string) list"
  rs_body :: "json option"

definition status_only :: "http_status \<Rightarrow> http_response outcome" where
  "status_only status = Done \<lparr>rs_status = status, rs_headers = [], rs_body = None\<rparr>"

definition json_reply :: "http_status \<Rightarrow> (string \<times> string) list \<Rightarrow> (string \<times> json) list \<Rightarrow> http_response outcome" where
  "json_reply status hs body = Done \<lparr>rs_status = status, rs_headers = hs, rs_body = Some (collect_object body)\<rparr>"

record tenant_context =
  tc_tenant_id :: uuid
  tc_role :: string
  tc_environment :: string

definition can_ingest :: "tenant_context \<Rightarrow> bool" where
  "can_ingest ctx \<longleftrightarrow> tc_role ctx \<in> {''member'', ''admin''}"

text \<open>The bearer token of the middleware: absent and malformed headers are treated alike.\<close>

definition bearer :: "headers \<Rightarrow> string option" where
  "bearer headers = (case extract_bearer_token headers of Inr (Some token) \<Rightarrow> Some token | _ \<Rightarrow> None)"

definition auth_middleware ::
    "('k, 'l) gateway_env \<Rightarrow> headers \<Rightarrow> (tenant_context \<Rightarrow> ('k, 'l, http_response outcome, 'a) handler) \<Rightarrow>
     ('k, 'l, http_response outcome, 'a) handler" where
  "auth_middleware env headers next =
     (case bearer headers of
        None \<Rightarrow> reject ''http'' ''unauthorized'' (status_only Unauthorized)
      | Some token \<Rightarrow>
          (case verify_api_key (ge_post env) token of
             Inl err \<Rightarrow> reject ''http'' ''unauthorized'' (status_only (status_of_auth_error err))
           | Inr key \<Rightarrow>
               (let ctx = \<lparr>tc_tenant_id = ak_tenant_id key, tc_role = ak_role key,
                           tc_environment = ak_environment key\<rparr>
                in if can_ingest ctx then next ctx
                   else reject ''http'' ''permission_denied'' (status_only Forbidden))))"

datatype decoded_body = Json json | Protobuf "u8 list"

definition header_text :: "string \<Rightarrow> headers \<Rightarrow> string" where
  "header_text name headers = unwrap_or [] (map_option trim (Option.bind (headers name) to_str))"

definition matches_content_type :: "string \<Rightarrow> string \<Rightarrow> bool" where
  "matches_content_type actual expected \<longleftrightarrow>
     (case split_on (CHR '';'') actual of
        [] \<Rightarrow> False
      | value # _ \<Rightarrow> map to_ascii_lowercase (trim value) = map to_ascii_lowercase expected)"

definition decode_request_body :: "('k, 'l) gateway_env \<Rightarrow> headers \<Rightarrow> u8 list \<Rightarrow> (http_status, u8 list) result" where
  "decode_request_body env headers body =
     (let encoding = header_text ''content-encoding'' headers in
      if encoding = [] \<or> encoding = ''identity'' then Inr body
      else if encoding = ''gzip'' then ok_or Bad_request (ge_gunzip env body)
      else if encoding = ''zstd'' then ok_or Bad_request (ge_unzstd env body)
      else Inl Unsupported_media_type)"

definition decode_otlp_request :: "('k, 'l) gateway_env \<Rightarrow> headers \<Rightarrow> u8 list \<Rightarrow> (http_status, decoded_body) result" where
  "decode_otlp_request env headers body =
     (let content_type = header_text ''content-type'' headers in
      and_then (decode_request_body env headers body) (\<lambda>body_bytes.
        if matches_content_type content_type ''application/json''
        then map_ok Json (ok_or Bad_request (ge_from_slice env body_bytes))
        else if matches_content_type content_type ''application/x-protobuf'' then Inr (Protobuf body_bytes)
        else Inl Unsupported_media_type))"

definition rate_limited :: "('k, 'l) gateway_env \<Rightarrow> string \<Rightarrow> uuid \<Rightarrow> http_response outcome" where
  "rate_limited env title tenant_id =
     json_reply Too_many_requests [(''retry-after'', ''1'')]
       [(''error'', JString ''rate_limit_exceeded''),
        (''message'', JString (title @ '' ingest rate limit exceeded'')),
        (''tenant_id'', JString (ge_us env tenant_id)),
        (''retry_after_seconds'', JNumber (PosInt 1))]"

definition malformed :: "signal \<Rightarrow> (http_status, 'a) result \<Rightarrow> ('k, 'l, http_response outcome, 'a) handler" where
  "malformed signal r =
     (case r of Inr x \<Rightarrow> proceed x
      | Inl status \<Rightarrow> reject (signal_name signal) ''malformed_request'' (status_only status))"

text \<open>The spans, logs and metrics of a body; any error rejects it as malformed.\<close>

definition http_spans :: "('k, 'l) gateway_env \<Rightarrow> tenant_context \<Rightarrow> headers \<Rightarrow> u8 list \<Rightarrow> (http_status, span list) result" where
  "http_spans env ctx headers body =
     and_then (decode_otlp_request env headers body) (\<lambda>decoded. case decoded of
         Json json \<Rightarrow> and_then (ok_or Bad_request (get_array ''resourceSpans'' json)) (\<lambda>_.
           parse_otlp_traces json (tc_tenant_id ctx) (tc_environment ctx))
       | Protobuf bytes \<Rightarrow> map_ok (\<lambda>req. proto_spans_to_domain req (tc_tenant_id ctx) (tc_environment ctx))
           (ok_or Bad_request (ge_decode_traces env bytes)))"

definition http_logs :: "('k, 'l) gateway_env \<Rightarrow> tenant_context \<Rightarrow> headers \<Rightarrow> u8 list \<Rightarrow> (http_status, log_record list) result" where
  "http_logs env ctx headers body =
     and_then (decode_otlp_request env headers body) (\<lambda>decoded. case decoded of
         Json json \<Rightarrow> and_then (ok_or Bad_request (get_array ''resourceLogs'' json)) (\<lambda>_.
           parse_otlp_logs (ge_log_ids env) json (tc_tenant_id ctx) (tc_environment ctx))
       | Protobuf bytes \<Rightarrow> map_ok (\<lambda>req. proto_logs_to_domain (ge_log_ids env) req (tc_tenant_id ctx) (tc_environment ctx))
           (ok_or Bad_request (ge_decode_logs env bytes)))"

definition http_metrics ::
    "('k, 'l) gateway_env \<Rightarrow> tenant_context \<Rightarrow> headers \<Rightarrow> u8 list \<Rightarrow>
     (http_status, metric_series list \<times> metric_point list) result" where
  "http_metrics env ctx headers body =
     and_then (decode_otlp_request env headers body) (\<lambda>decoded. case decoded of
         Json json \<Rightarrow> and_then (ok_or Bad_request (get_array ''resourceMetrics'' json)) (\<lambda>_.
           parse_otlp_metrics (ge_us env) (ge_js env) json (tc_tenant_id ctx) (tc_environment ctx))
       | Protobuf bytes \<Rightarrow> map_ok (\<lambda>req.
             let (series, points, _) = proto_metrics_to_domain (ge_us env) (ge_js env) req (tc_tenant_id ctx) (tc_environment ctx)
             in (series, points))
           (ok_or Bad_request (ge_decode_metrics env bytes)))"

definition stamp_deployment :: "('k, 'l) gateway_env \<Rightarrow> registry \<Rightarrow> uuid \<Rightarrow> span \<Rightarrow> span" where
  "stamp_deployment env deployments tenant_id s =
     (if sp_deployment_id s = []
      then s\<lparr>sp_deployment_id := lookup (ge_deployment_order env) (ge_us env) deployments tenant_id
               (sp_service_name s) (sp_environment s) (sp_service_version s)\<rparr>
      else s)"

definition stamp_deployments :: "('k, 'l) gateway_env \<Rightarrow> uuid \<Rightarrow> span list \<Rightarrow> ('k, 'l, 'r, span list) handler" where
  "stamp_deployments env tenant_id spans s =
     (Inr (map (stamp_deployment env (gw_deployment_registry s) tenant_id) spans), s)"

type_synonym ('k, 'l) http_handler = "('k, 'l, http_response outcome, http_response outcome) handler"

definition export_traces ::
    "('k, 'l) gateway_env \<Rightarrow> headers \<Rightarrow> u8 list \<Rightarrow> tenant_context \<Rightarrow> ('k, 'l) http_handler" where
  "export_traces env headers body ctx =
     h_bind (count_request ''traces'' ''http'') (\<lambda>_.
     h_bind (rate_limit env Traces (tc_tenant_id ctx) (rate_limited env ''Trace'' (tc_tenant_id ctx))) (\<lambda>_.
     h_bind (malformed Traces (http_spans env ctx headers body)) (\<lambda>spans.
     h_bind (stamp_deployments env (tc_tenant_id ctx) spans) (\<lambda>spans.
     h_bind (received Traces (length spans)) (\<lambda>_.
     h_bind (publish env (tc_tenant_id ctx) (tc_environment ctx) (Spans spans) (status_only Internal_server_error)) (\<lambda>_.
     proceed (json_reply Status_ok [] [(''partialSuccess'', JObject [])])))))))"

definition export_logs ::
    "('k, 'l) gateway_env \<Rightarrow> headers \<Rightarrow> u8 list \<Rightarrow> tenant_context \<Rightarrow> ('k, 'l) http_handler" where
  "export_logs env headers body ctx =
     h_bind (count_request ''logs'' ''http'') (\<lambda>_.
     h_bind (rate_limit env Logs (tc_tenant_id ctx) (rate_limited env ''Log'' (tc_tenant_id ctx))) (\<lambda>_.
     h_bind (malformed Logs (http_logs env ctx headers body)) (\<lambda>logs.
     h_bind (received Logs (length logs)) (\<lambda>_.
     h_bind (publish env (tc_tenant_id ctx) (tc_environment ctx) (LogRecords logs) (status_only Internal_server_error)) (\<lambda>_.
     proceed (json_reply Status_ok [] []))))))"

definition cardinality_reply :: "('k, 'l) gateway_env \<Rightarrow> uuid \<Rightarrow> cardinality_exceeded \<Rightarrow> http_response outcome" where
  "cardinality_reply env tenant_id exceeded =
     json_reply Too_many_requests [(''retry-after'', ''60'')]
       [(''error'', JString ''cardinality_budget_exceeded''),
        (''message'', JString ''Metric cardinality budget exceeded for tenant''),
        (''tenant_id'', JString (ge_us env tenant_id)),
        (''budget'', JNumber (PosInt (ce_budget exceeded))),
        (''current_count'', JNumber (PosInt (ce_current_count exceeded))),
        (''requested_series'', JNumber (PosInt (ce_requested_series exceeded))),
        (''retry_after_seconds'', JNumber (PosInt 60))]"

definition export_metrics ::
    "('k, 'l) gateway_env \<Rightarrow> headers \<Rightarrow> u8 list \<Rightarrow> tenant_context \<Rightarrow> ('k, 'l) http_handler" where
  "export_metrics env headers body ctx =
     h_bind (count_request ''metrics'' ''http'') (\<lambda>_.
     h_bind (rate_limit env Metrics (tc_tenant_id ctx) (rate_limited env ''Metric'' (tc_tenant_id ctx))) (\<lambda>_.
     h_bind (malformed Metrics (http_metrics env ctx headers body)) (\<lambda>(series, points).
     h_bind (observe_series (tc_tenant_id ctx) series (cardinality_reply env (tc_tenant_id ctx))) (\<lambda>_.
     h_bind (received Metrics (length points)) (\<lambda>_.
     h_bind (publish env (tc_tenant_id ctx) (tc_environment ctx) (MetricData series points) (status_only Internal_server_error)) (\<lambda>_.
     proceed (json_reply Status_ok [] [])))))))"

subsection \<open>Prometheus remote write\<close>

definition max_compressed_body_bytes :: nat where "max_compressed_body_bytes = 4 * 1024 * 1024"
definition max_decompressed_bytes :: nat where "max_decompressed_bytes = 32 * 1024 * 1024"

text \<open>The content type is not trimmed before it is split, unlike the one of the OTLP endpoints.\<close>

definition protobuf_content :: "headers \<Rightarrow> bool" where
  "protobuf_content headers \<longleftrightarrow>
     matches_content_type (unwrap_or [] (Option.bind (headers ''content-type'') to_str)) ''application/x-protobuf''"

definition read_write_request ::
    "('k, 'l) gateway_env \<Rightarrow> headers \<Rightarrow> u8 list \<Rightarrow> ('k, 'l, http_response outcome, time_series list) handler" where
  "read_write_request env headers body =
     (if \<not> protobuf_content headers
      then reject ''metrics'' ''unsupported_media_type'' (status_only Unsupported_media_type)
      else if max_compressed_body_bytes < length body \<or>
              max_decompressed_bytes < unwrap_or 0 (ge_decompress_len env body)
      then reject ''metrics'' ''payload_too_large'' (status_only Payload_too_large)
      else malformed Metrics (and_then (ok_or Bad_request (ge_decompress_vec env body)) (\<lambda>proto_bytes.
             ok_or Bad_request (ge_decode_write env proto_bytes))))"

definition translate ::
    "('k, 'l) gateway_env \<Rightarrow> tenant_context \<Rightarrow> time_series list \<Rightarrow>
     ('k, 'l, http_response outcome, metric_series list \<times> metric_point list) handler" where
  "translate env ctx timeseries =
     (case write_request_to_metrics (ge_us env) (ge_js env) (ge_unordered env) (ge_group_order env) timeseries
             (tc_tenant_id ctx) (tc_environment ctx) of
        Panic \<Rightarrow> reply Panic
      | Done converted \<Rightarrow> proceed converted)"

definition remote_write ::
    "('k, 'l) gateway_env \<Rightarrow> headers \<Rightarrow> u8 list \<Rightarrow> tenant_context \<Rightarrow> ('k, 'l) http_handler" where
  "remote_write env headers body ctx =
     h_bind (count_request ''metrics'' ''prometheus_rw'') (\<lambda>_.
     h_bind (read_write_request env headers body) (\<lambda>timeseries.
     if timeseries = [] then proceed (status_only No_content) else
     h_bind (rate_limit env Metrics (tc_tenant_id ctx)
       (Done \<lparr>rs_status = Too_many_requests, rs_headers = [(''retry-after'', ''1'')], rs_body = None\<rparr>)) (\<lambda>_.
     h_bind (translate env ctx timeseries) (\<lambda>(series, points).
     h_bind (observe_series (tc_tenant_id ctx) series (\<lambda>_.
       Done \<lparr>rs_status = Too_many_requests,
             rs_headers = [(''retry-after'', ''60''), (''x-observable-error'', ''cardinality_budget_exceeded'')],
             rs_body = None\<rparr>)) (\<lambda>_.
     h_bind (received Metrics (length points)) (\<lambda>_.
     h_bind (publish env (tc_tenant_id ctx) (tc_environment ctx) (MetricData series points) (status_only Internal_server_error)) (\<lambda>_.
     proceed (status_only No_content))))))))"

subsection \<open>gRPC\<close>

datatype grpc_code = Unauthenticated | Permission_denied | Resource_exhausted | Code_internal

record grpc_status =
  gs_code :: grpc_code
  gs_message :: string

record partial_success =
  ps_rejected_data_points :: i64
  ps_error_message :: string

type_synonym grpc_reply = "(grpc_status, partial_success option) result"
type_synonym ('k, 'l) grpc_handler = "('k, 'l, grpc_reply, grpc_reply) handler"

definition status :: "grpc_code \<Rightarrow> string \<Rightarrow> grpc_reply" where
  "status code message = Inl \<lparr>gs_code = code, gs_message = message\<rparr>"

text \<open>What the three services do before they convert: token, key, role and rate.\<close>

definition grpc_auth ::
    "('k, 'l) gateway_env \<Rightarrow> signal \<Rightarrow> string \<Rightarrow> headers \<Rightarrow> ('k, 'l, grpc_reply, api_key_context) handler" where
  "grpc_auth env signal title metadata =
     h_bind (count_request (signal_name signal) ''grpc'') (\<lambda>_.
     case Option.bind (Option.bind (metadata ''authorization'') to_str) (strip_prefix ''Bearer '') of
       None \<Rightarrow> reject (signal_name signal) ''unauthorized'' (status Unauthenticated ''missing authorization token'')
     | Some token \<Rightarrow>
         (case verify_api_key (ge_post env) token of
            Inl _ \<Rightarrow> reject (signal_name signal) ''unauthorized'' (status Unauthenticated ''invalid authorization token'')
          | Inr key \<Rightarrow>
              if ak_role key = ''viewer''
              then reject (signal_name signal) ''permission_denied''
                     (status Permission_denied (''viewer role cannot ingest '' @ signal_name signal))
              else h_bind (rate_limit env signal (ak_tenant_id key)
                     (status Resource_exhausted (title @ '' ingest rate limit exceeded''))) (\<lambda>_. proceed key)))"

definition grpc_export_traces :: "('k, 'l) gateway_env \<Rightarrow> headers \<Rightarrow> proto_span resource list \<Rightarrow> ('k, 'l) grpc_handler" where
  "grpc_export_traces env metadata inner =
     h_bind (grpc_auth env Traces ''trace'' metadata) (\<lambda>key.
     let spans = proto_spans_to_domain inner (ak_tenant_id key) (ak_environment key) in
     h_bind (received Traces (length spans)) (\<lambda>_.
     h_bind (publish env (ak_tenant_id key) (ak_environment key) (Spans spans)
       (status Code_internal ''failed to publish spans'')) (\<lambda>_.
     proceed (Inr None))))"

definition grpc_export_logs :: "('k, 'l) gateway_env \<Rightarrow> headers \<Rightarrow> proto_log resource list \<Rightarrow> ('k, 'l) grpc_handler" where
  "grpc_export_logs env metadata inner =
     h_bind (grpc_auth env Logs ''log'' metadata) (\<lambda>key.
     let logs = proto_logs_to_domain (ge_log_ids env) inner (ak_tenant_id key) (ak_environment key) in
     h_bind (received Logs (length logs)) (\<lambda>_.
     h_bind (publish env (ak_tenant_id key) (ak_environment key) (LogRecords logs)
       (status Code_internal ''failed to publish log records'')) (\<lambda>_.
     proceed (Inr None))))"

definition budget_message :: "('k, 'l) gateway_env \<Rightarrow> uuid \<Rightarrow> cardinality_exceeded \<Rightarrow> string" where
  "budget_message env tenant_id exceeded =
     ''metric cardinality budget exceeded for tenant '' @ ge_us env tenant_id @ '' (budget: '' @
     show_word (ce_budget exceeded) @ '', current: '' @ show_word (ce_current_count exceeded) @ '')''"

definition grpc_send_metrics :: "('k, 'l) gateway_env \<Rightarrow> proto_metric resource list \<Rightarrow> api_key_context \<Rightarrow> ('k, 'l) grpc_handler" where
  "grpc_send_metrics env inner key =
     (let (series, points, rejected_data_points) =
           proto_metrics_to_domain (ge_us env) (ge_js env) inner (ak_tenant_id key) (ak_environment key) in
     h_bind (observe_series (ak_tenant_id key) series (\<lambda>exceeded.
       status Resource_exhausted (budget_message env (ak_tenant_id key) exceeded))) (\<lambda>_.
     h_bind (received Metrics (length points)) (\<lambda>_.
     h_bind (publish env (ak_tenant_id key) (ak_environment key) (MetricData series points)
       (status Code_internal ''failed to publish metrics'')) (\<lambda>_.
     proceed (Inr (if 0 < rejected_data_points
       then Some \<lparr>ps_rejected_data_points = of_nat rejected_data_points,
                  ps_error_message = ''ExponentialHistogram bucket detail and Summary quantile values not stored''\<rparr>
       else None))))))"

definition grpc_export_metrics :: "('k, 'l) gateway_env \<Rightarrow> headers \<Rightarrow> proto_metric resource list \<Rightarrow> ('k, 'l) grpc_handler" where
  "grpc_export_metrics env metadata inner = h_bind (grpc_auth env Metrics ''metric'' metadata) (grpc_send_metrics env inner)"

subsection \<open>Requests\<close>

datatype request =
    Http_export signal headers "u8 list"
  | Http_write headers "u8 list"
  | Grpc_traces headers "proto_span resource list"
  | Grpc_logs headers "proto_log resource list"
  | Grpc_metrics headers "proto_metric resource list"

datatype gateway_reply = Http_reply "http_response outcome" | Grpc_reply grpc_reply

definition run_handler :: "('r \<Rightarrow> gateway_reply) \<Rightarrow> ('k, 'l, 'r, 'r) handler \<Rightarrow> ('k, 'l) gateway \<Rightarrow> gateway_reply \<times> ('k, 'l) gateway" where
  "run_handler c h s = (case h s of (Inl r, s') \<Rightarrow> (c r, s') | (Inr r, s') \<Rightarrow> (c r, s'))"

fun http_handler :: "('k, 'l) gateway_env \<Rightarrow> signal \<Rightarrow> headers \<Rightarrow> u8 list \<Rightarrow> tenant_context \<Rightarrow> ('k, 'l) http_handler" where
  "http_handler env Traces = export_traces env"
| "http_handler env Logs = export_logs env"
| "http_handler env Metrics = export_metrics env"

fun serve :: "('k, 'l) gateway_env \<Rightarrow> request \<Rightarrow> ('k, 'l) gateway \<Rightarrow> gateway_reply \<times> ('k, 'l) gateway" where
  "serve env (Http_export signal headers body) =
     run_handler Http_reply (auth_middleware env headers (http_handler env signal headers body))"
| "serve env (Http_write headers body) =
     run_handler Http_reply (auth_middleware env headers (remote_write env headers body))"
| "serve env (Grpc_traces metadata inner) = run_handler Grpc_reply (grpc_export_traces env metadata inner)"
| "serve env (Grpc_logs metadata inner) = run_handler Grpc_reply (grpc_export_logs env metadata inner)"
| "serve env (Grpc_metrics metadata inner) = run_handler Grpc_reply (grpc_export_metrics env metadata inner)"

end
