(* ===== verification/Ingest_Rows.thy ===== *)
theory Ingest_Rows
  imports Otlp_Json Prometheus_Rw
begin

section \<open>The tenant of converted rows\<close>

text \<open>
  Every converter of the gateway writes the tenant and the environment it is given in every
  row it makes, whatever the request says.
\<close>

definition span_of :: "uuid \<Rightarrow> string \<Rightarrow> span \<Rightarrow> bool" where
  "span_of t e s \<longleftrightarrow> sp_tenant_id s = t \<and> sp_environment s = e \<and> list_all (\<lambda>ev. sev_tenant_id ev = t) (sp_events s)"

definition log_of :: "uuid \<Rightarrow> string \<Rightarrow> log_record \<Rightarrow> bool" where
  "log_of t e l \<longleftrightarrow> lg_tenant_id l = t \<and> lg_environment l = e"

definition series_of_tenant :: "uuid \<Rightarrow> string \<Rightarrow> metric_series \<Rightarrow> bool" where
  "series_of_tenant t e m \<longleftrightarrow> ms_tenant_id m = t \<and> ms_environment m = e"

definition point_of :: "uuid \<Rightarrow> metric_point \<Rightarrow> bool" where
  "point_of t p \<longleftrightarrow> mp_tenant_id p = t"

fun payload_of :: "uuid \<Rightarrow> string \<Rightarrow> envelope_payload \<Rightarrow> bool" where
  "payload_of t e (Spans ss) = list_all (span_of t e) ss"
| "payload_of t e (LogRecords ls) = list_all (log_of t e) ls"
| "payload_of t e (MetricData ms ps) = (list_all (series_of_tenant t e) ms \<and> list_all (point_of t) ps)"

lemma fold_keeps: "(\<And>x b. x \<in> set xs \<Longrightarrow> P b \<Longrightarrow> P (f x b)) \<Longrightarrow> P b \<Longrightarrow> P (fold f xs b)"
  by (induction xs arbitrary: b) auto

lemma list_all_number_from: "(\<And>i x. P (f i x)) \<Longrightarrow> list_all P (number_from n f xs)"
  unfolding number_from_def by (auto simp: list_all_iff)

subsection \<open>Spans and logs\<close>

lemma proto_span_of: "span_of t e (proto_span_to_domain t e sv ra s)"
  by (auto simp: span_of_def proto_span_to_domain_def proto_event_to_domain_def Let_def
      intro!: list_all_number_from split: prod.split)

lemma json_span_of: "span_of t e (json_span_to_domain t e rs s)"
  by (auto simp: span_of_def json_span_to_domain_def json_event_to_domain_def Let_def
      intro!: list_all_number_from split: prod.split)

lemma proto_spans_of: "list_all (span_of t e) (proto_spans_to_domain rss t e)"
  by (auto simp: proto_spans_to_domain_def list_all_iff Let_def proto_span_of)

lemma json_spans_of: "parse_otlp_traces body t e = Inr ss \<Longrightarrow> list_all (span_of t e) ss"
  by (auto simp: parse_otlp_traces_def list_all_iff json_span_of split: option.splits)

lemma proto_logs_of: "list_all (log_of t e) (proto_logs_to_domain fresh rls t e)"
  unfolding proto_logs_to_domain_def
  by (rule fold_keeps) (auto simp: resource_logs_to_domain_def proto_log_to_domain_def log_of_def Let_def
      intro!: list_all_number_from)

lemma json_logs_of: "parse_otlp_logs fresh body t e = Inr ls \<Longrightarrow> list_all (log_of t e) ls"
proof -
  assume parsed: "parse_otlp_logs fresh body t e = Inr ls"
  have "list_all (log_of t e) (fold (\<lambda>rl records. records @ json_resource_logs fresh t e (length records) rl) rls [])" for rls
    by (rule fold_keeps) (auto simp: json_resource_logs_def json_log_to_domain_def log_of_def Let_def
        intro!: list_all_number_from)
  with parsed show ?thesis by (auto simp: parse_otlp_logs_def split: option.splits)
qed

subsection \<open>Metrics\<close>

definition batch_of :: "uuid \<Rightarrow> string \<Rightarrow> metric_batch \<Rightarrow> bool" where
  "batch_of t e b \<longleftrightarrow> list_all (series_of_tenant t e) (mb_series b) \<and> list_all (point_of t) (mb_points b)"

lemma batch_of_push:
  "batch_of t e b \<Longrightarrow> series_of_tenant t e m \<Longrightarrow> point_of t p \<Longrightarrow> batch_of t e (push_point m p b)"
  by (simp add: batch_of_def push_point_def Let_def)

lemma batch_of_fold:
  "(\<And>x b. batch_of t e b \<Longrightarrow> batch_of t e (f x b)) \<Longrightarrow> batch_of t e b \<Longrightarrow> batch_of t e (fold f xs b)"
  by (rule fold_keeps)

lemma batch_of_empty: "batch_of t e empty_batch"
  by (simp add: batch_of_def empty_batch_def)

lemma make_series_of: "series_of_tenant (sx_tenant_id cx) (sx_environment cx) (make_series cx n d u ty m a as)"
  by (simp add: series_of_tenant_def make_series_def Let_def)

lemma push_data_point_of:
  assumes "batch_of (sx_tenant_id cx) (sx_environment cx) b"
    and "\<And>sid n sv. point_of (sx_tenant_id cx) (point dp sid n sv (sx_tenant_id cx))"
  shows "batch_of (sx_tenant_id cx) (sx_environment cx) (push_data_point cx m ty im agg point dp b)"
  using assms by (auto simp: push_data_point_def proto_series_def Let_def intro!: batch_of_push make_series_of)

lemma points_of_tenant:
  "point_of t (number_data_point_to_domain ndp sid n sv t)" "point_of t (count_point dp c su sid n sv t)"
  "point_of t (histogram_point hdp sid n sv t)" "point_of t (json_data_point j ty sid n sv t)"
  by (simp_all add: point_of_def number_data_point_to_domain_def count_point_def histogram_point_def
      json_data_point_def Let_def)

lemma reject_if_of: "batch_of t e b \<Longrightarrow> batch_of t e (reject_if l b)"
  by (simp add: batch_of_def reject_if_def)

lemma push_metric_of:
  assumes "batch_of (sx_tenant_id cx) (sx_environment cx) b"
  shows "batch_of (sx_tenant_id cx) (sx_environment cx) (push_metric cx m b)"
proof (cases "pm_data m")
  case None
  then show ?thesis using assms by (simp add: push_metric_def)
next
  case (Some d)
  then show ?thesis
    using assms
    by (cases d)
      (simp_all add: push_metric_def batch_of_fold push_data_point_of points_of_tenant reject_if_of)
qed

lemma push_json_metric_of:
  assumes "batch_of (sx_tenant_id cx) (sx_environment cx) b"
  shows "batch_of (sx_tenant_id cx) (sx_environment cx) (push_json_metric cx m b)"
proof (cases "json_metric_data m")
  case None
  then show ?thesis using assms by (simp add: push_json_metric_def)
next
  case (Some d)
  then show ?thesis
    using assms
    by (cases d)
      (simp add: push_json_metric_def Let_def batch_of_fold batch_of_push points_of_tenant make_series_of)
qed

lemma proto_metrics_of:
  assumes "proto_metrics_to_domain us js rms t e = (ms, ps, n)"
  shows "payload_of t e (MetricData ms ps)"
proof -
  have "batch_of t e b \<Longrightarrow> batch_of t e (push_metric (resource_context us js t e r) m b)" for r m b
    using push_metric_of[of "resource_context us js t e r" b m] by (simp add: resource_context_def)
  then have "batch_of t e (fold (\<lambda>rm. fold (push_metric (resource_context us js t e (unwrap_or [] (fst rm)))) (concat (snd rm)))
      rms empty_batch)"
    by (simp add: batch_of_fold batch_of_empty)
  with assms show ?thesis by (auto simp: proto_metrics_to_domain_def batch_of_def Let_def)
qed

lemma json_metrics_of:
  assumes "parse_otlp_metrics us js body t e = Inr (ms, ps)"
  shows "payload_of t e (MetricData ms ps)"
proof -
  have "batch_of t e b \<Longrightarrow> batch_of t e (push_json_metric (json_context us js t e r) m b)" for r m b
    using push_json_metric_of[of "json_context us js t e r" b m] by (simp add: json_context_def)
  then have "batch_of t e (fold (\<lambda>rm. fold (push_json_metric (json_context us js t e rm)) (scope_items ''scopeMetrics'' ''metrics'' rm))
      rms empty_batch)" for rms
    by (simp add: batch_of_fold batch_of_empty)
  with assms show ?thesis by (auto simp: parse_otlp_metrics_def batch_of_def Let_def split: option.splits)
qed

subsection \<open>Remote write\<close>

lemma build_series_of: "series_of_tenant t e (identified us js (build_series lm n ty m a t e))"
  by (simp add: series_of_tenant_def identified_def build_series_def)

lemma simple_points_of: "each_done (simple_point m n t) ss = Done ps \<Longrightarrow> list_all (point_of t) ps"
  by (induction ss arbitrary: ps) (auto simp: simple_point_def point_of_def)

lemma each_done_all: "each_done f xs = Done ys \<Longrightarrow> (\<And>x y. f x = Done y \<Longrightarrow> P y) \<Longrightarrow> list_all P ys"
  by (induction xs arbitrary: ys) auto

lemma convert_simple_of:
  "convert_simple us js ts t e = Done (Some (m, ps)) \<Longrightarrow> series_of_tenant t e m \<and> list_all (point_of t) ps"
  by (auto simp: convert_simple_def Let_def intro: build_series_of simple_points_of split: option.splits prod.splits)

lemma bucket_gauge_of:
  "bucket_gauge us js t e ts = Done (m, ps) \<Longrightarrow> series_of_tenant t e m \<and> list_all (point_of t) ps"
  by (auto simp: bucket_gauge_def Let_def series_of_tenant_def identified_def build_series_def
      intro: simple_points_of split: option.splits)

lemma bucket_point_of: "bucket_point un hs m base t ts = Done p \<Longrightarrow> point_of t p"
  by (auto simp: bucket_point_def point_of_def)

lemma convert_histogram_group_of:
  assumes "convert_histogram_group us js un base g t e = Done (ms, ps)"
  shows "list_all (series_of_tenant t e) ms \<and> list_all (point_of t) ps"
proof -
  have gauges: "list_all (\<lambda>(m, ps). series_of_tenant t e m \<and> list_all (point_of t) ps) gs"
    if "each_done (bucket_gauge us js t e) xs = Done gs" for xs gs
    using that by (rule each_done_all) (auto dest: bucket_gauge_of)
  have points: "list_all (point_of t) ps" if "each_done (bucket_point un hs m base t) xs = Done ps" for hs m xs ps
    using that by (rule each_done_all) (rule bucket_point_of)
  have unzip: "list_all (series_of_tenant t e) (map fst gs) \<and> list_all (point_of t) (concat (map snd gs))"
    if "list_all (\<lambda>(m, ps). series_of_tenant t e m \<and> list_all (point_of t) ps) gs" for gs
    using that by (induction gs) auto
  from assms show ?thesis
    by (auto simp: convert_histogram_group_def Let_def build_series_of split: if_splits list.splits
        dest!: gauges points unzip)
qed

lemma remote_write_of:
  assumes "write_request_to_metrics us js un order ts t e = Done (ms, ps)"
  shows "payload_of t e (MetricData ms ps)"
proof -
  obtain simple groups where split: "fold split_step ts ([], []) = (simple, groups)" by force
  with assms obtain simples histograms where
    s: "each_done (\<lambda>ts. convert_simple us js ts t e) simple = Done simples" and
    h: "each_done (\<lambda>((base, _), g). convert_histogram_group us js un base g t e) (order groups) = Done histograms" and
    m: "ms = map fst (List.map_filter id simples) @ concat (map fst histograms)"
       "ps = concat (map snd (List.map_filter id simples)) @ concat (map snd histograms)"
    by (auto simp: write_request_to_metrics_def Let_def)
  have "list_all (\<lambda>x. case x of None \<Rightarrow> True | Some (m, ps) \<Rightarrow> series_of_tenant t e m \<and> list_all (point_of t) ps) simples"
    using s by (rule each_done_all) (auto split: option.split dest: convert_simple_of)
  moreover have "list_all (\<lambda>(ms, ps). list_all (series_of_tenant t e) ms \<and> list_all (point_of t) ps) histograms"
    using h by (rule each_done_all) (auto dest: convert_histogram_group_of)
  ultimately show ?thesis
    by (auto simp: m list_all_iff List.map_filter_def split: option.splits)
qed

end
