(* ===== verification/Ingest_Claims.thy ===== *)
theory Ingest_Claims
  imports Ingest_Gateway Ingest_Rows Process
begin

section \<open>What the ingest gateway guarantees\<close>

subsection \<open>Relations that handlers keep\<close>

text \<open>
  A reflexive and transitive relation between states that every step of a handler
  respects is respected by the handler.
\<close>

locale handler_relation =
  fixes R :: "('k, 'l) gateway \<Rightarrow> ('k, 'l) gateway \<Rightarrow> bool"
  assumes R_refl: "R s s"
    and R_trans: "R s t \<Longrightarrow> R t u \<Longrightarrow> R s u"
begin

definition keeps :: "('k, 'l, 'r, 'a) handler \<Rightarrow> bool" where
  "keeps h \<longleftrightarrow> (\<forall>s. R s (snd (h s)))"

lemma keepsD: "keeps h \<Longrightarrow> h s = (r, s') \<Longrightarrow> R s s'"
  unfolding keeps_def by (drule spec[of _ s]) simp

lemma keeps_proceed: "keeps (proceed x)"
  by (simp add: keeps_def proceed_def R_refl)

lemma keeps_reply: "keeps (reply r)"
  by (simp add: keeps_def reply_def R_refl)

lemma keeps_bind: "keeps h \<Longrightarrow> (\<And>x. keeps (f x)) \<Longrightarrow> keeps (h_bind h f)"
  unfolding keeps_def h_bind_def
  by (auto split: prod.split sum.split) (metis R_trans snd_conv)+

lemma keeps_then: "keeps h \<Longrightarrow> (\<And>s x s'. h s = (Inr x, s') \<Longrightarrow> keeps (f x)) \<Longrightarrow> keeps (h_bind h f)"
  unfolding keeps_def h_bind_def
  by (auto split: prod.split sum.split) (metis R_trans snd_conv)+

lemma keeps_stamp: "keeps (stamp_deployments env t spans)"
  by (simp add: keeps_def stamp_deployments_def R_refl)

lemma keeps_translate: "keeps (translate env ctx ts)"
  unfolding translate_def by (auto split: outcome.split intro: keeps_reply keeps_proceed)

lemma keeps_malformed:
  fixes x :: "(http_status, 'a) result"
  assumes "\<And>reason r. keeps (reject (signal_name sg) reason r :: ('k, 'l, http_response outcome, 'a) handler)"
  shows "keeps (malformed sg x)"
  using assms by (auto simp: malformed_def split: sum.split intro: keeps_proceed)

lemma keeps_middleware:
  fixes "next" :: "tenant_context \<Rightarrow> ('k, 'l, http_response outcome, 'a) handler"
  assumes "\<And>reason r. keeps (reject ''http'' reason r :: ('k, 'l, http_response outcome, 'a) handler)"
    and "\<And>ctx. keeps (next ctx)"
  shows "keeps (auth_middleware env hs next)"
  using assms by (auto simp: auth_middleware_def Let_def split: option.split sum.split)

end

text \<open>The queue and the deployments: only a publication changes the queue.\<close>

interpretation quiet: handler_relation
  "\<lambda>s s'. gw_queue s' = gw_queue s \<and> gw_deployment_registry s' = gw_deployment_registry s"
  by unfold_locales simp_all

lemma set_limiter_frame [simp]:
  "gw_queue (set_limiter sg rl s) = gw_queue s"
  "gw_deployment_registry (set_limiter sg rl s) = gw_deployment_registry s"
  "gw_metric_cardinality (set_limiter sg rl s) = gw_metric_cardinality s"
  by (cases sg; simp)+

lemma rate_limit_frame:
  "gw_queue (snd (rate_limit env sg t r s)) = gw_queue s"
  "gw_deployment_registry (snd (rate_limit env sg t r s)) = gw_deployment_registry s"
  "gw_metric_cardinality (snd (rate_limit env sg t r s)) = gw_metric_cardinality s"
  by (simp_all add: rate_limit_def reject_def Let_def split: prod.split)

lemma quiet_steps:
  "quiet.keeps (count_request a b)" "quiet.keeps (reject c d r)" "quiet.keeps (received sg n)"
  "quiet.keeps (rate_limit env sg t r')" "quiet.keeps (observe_series t ss g)"
  by (simp_all add: quiet.keeps_def count_request_def h_modify_def reject_def received_def rate_limit_frame
      observe_series_def split: signal.split prod.split sum.split)

lemma quiet_malformed: "quiet.keeps (malformed sg x)"
  by (rule quiet.keeps_malformed) (rule quiet_steps)

lemma quiet_read_write: "quiet.keeps (read_write_request env hs body)"
  by (simp add: read_write_request_def quiet_steps quiet_malformed)

lemma quiet_grpc_auth: "quiet.keeps (grpc_auth env sg title md)"
  unfolding grpc_auth_def
  by (auto intro!: quiet.keeps_bind quiet_steps quiet.keeps_proceed split: option.split sum.split)

lemmas quiet_rules = quiet_steps quiet_malformed quiet_read_write quiet_grpc_auth quiet.keeps_proceed
  quiet.keeps_reply quiet.keeps_stamp quiet.keeps_translate

text \<open>Everything but the counters.\<close>

interpretation counting: handler_relation
  "\<lambda>s s'. gw_queue s' = gw_queue s \<and> gw_deployment_registry s' = gw_deployment_registry s \<and>
     gw_metric_cardinality s' = gw_metric_cardinality s \<and> gw_trace_rate_limiter s' = gw_trace_rate_limiter s \<and>
     gw_log_rate_limiter s' = gw_log_rate_limiter s \<and> gw_metric_rate_limiter s' = gw_metric_rate_limiter s"
  by unfold_locales simp_all

lemma counting_steps: "counting.keeps (count_request a b)" "counting.keeps (reject c d r)"
  by (simp_all add: counting.keeps_def count_request_def h_modify_def reject_def)

text \<open>
  A polite handler leaves the queue alone and, when it ends with a reply, refuses. A sending
  one appends at most one envelope, which satisfies \<open>P\<close>, and exactly one when it goes on
  although it must send.
\<close>

definition polite :: "('r \<Rightarrow> bool) \<Rightarrow> ('k, 'l, 'r, 'a) handler \<Rightarrow> bool" where
  "polite ok h \<longleftrightarrow> quiet.keeps h \<and> (\<forall>s r s'. h s = (Inl r, s') \<longrightarrow> \<not> ok r)"

definition sends :: "bool \<Rightarrow> (telemetry_envelope \<Rightarrow> bool) \<Rightarrow> ('r \<Rightarrow> bool) \<Rightarrow> ('k, 'l, 'r, 'a) handler \<Rightarrow> bool" where
  "sends must P ok h \<longleftrightarrow> (\<forall>s r s'. h s = (r, s') \<longrightarrow>
     (\<exists>es. gw_queue s' = gw_queue s @ es \<and> length es \<le> 1 \<and> list_all P es \<and>
        (case r of Inl x \<Rightarrow> \<not> ok x | Inr _ \<Rightarrow> must \<longrightarrow> es \<noteq> [])))"

lemma sendsI:
  assumes "\<And>s x s'. h s = (Inl x, s') \<Longrightarrow> \<exists>es. gw_queue s' = gw_queue s @ es \<and> length es \<le> 1 \<and> list_all P es \<and> \<not> ok x"
    and "\<And>s y s'. h s = (Inr y, s') \<Longrightarrow>
      \<exists>es. gw_queue s' = gw_queue s @ es \<and> length es \<le> 1 \<and> list_all P es \<and> (must \<longrightarrow> es \<noteq> [])"
  shows "sends must P ok h"
  unfolding sends_def
proof (intro allI impI)
  fix s r s'
  assume "h s = (r, s')"
  then show "\<exists>es. gw_queue s' = gw_queue s @ es \<and> length es \<le> 1 \<and> list_all P es \<and>
      (case r of Inl x \<Rightarrow> \<not> ok x | Inr _ \<Rightarrow> must \<longrightarrow> es \<noteq> [])"
    using assms by (cases r) simp_all
qed

lemma politeD: "polite ok h \<Longrightarrow> h s = (Inl r, s') \<Longrightarrow> \<not> ok r"
  unfolding polite_def by blast

lemma politeQ: "polite ok h \<Longrightarrow> h s = (r, s') \<Longrightarrow> gw_queue s' = gw_queue s"
  unfolding polite_def using quiet.keepsD by blast

lemma politeI: "quiet.keeps h \<Longrightarrow> (\<And>s r s'. h s = (Inl r, s') \<Longrightarrow> \<not> ok r) \<Longrightarrow> polite ok h"
  unfolding polite_def by blast

lemma sends_polite: "polite ok h \<Longrightarrow> \<not> must \<Longrightarrow> sends must P ok h"
  by (intro sendsI exI[of _ "[]"]) (auto dest: politeD politeQ)

lemma sends_after:
  assumes polite: "polite ok h" and f: "\<And>s x s'. h s = (Inr x, s') \<Longrightarrow> sends must P ok (f x)"
  shows "sends must P ok (h_bind h f)"
  unfolding sends_def
proof (intro allI impI)
  fix s r s'
  assume run: "h_bind h f s = (r, s')"
  obtain r1 s1 where h: "h s = (r1, s1)" by force
  then have q: "gw_queue s1 = gw_queue s" using politeQ[OF polite] by blast
  show "\<exists>es. gw_queue s' = gw_queue s @ es \<and> length es \<le> 1 \<and> list_all P es \<and>
      (case r of Inl x \<Rightarrow> \<not> ok x | Inr _ \<Rightarrow> must \<longrightarrow> es \<noteq> [])"
  proof (cases r1)
    case (Inl e)
    then show ?thesis using h q run politeD[OF polite] by (intro exI[of _ "[]"]) (auto simp: h_bind_def)
  next
    case (Inr x)
    then have "f x s1 = (r, s')" using run h by (simp add: h_bind_def)
    moreover have "sends must P ok (f x)" using h Inr f by blast
    ultimately show ?thesis using q unfolding sends_def by metis
  qed
qed

lemma sends_publish:
  assumes "P (build_envelope env t e payload)" "\<not> ok r" "must \<Longrightarrow> ge_producer env \<noteq> None"
  shows "sends must P ok (h_bind (publish env t e payload r) (\<lambda>_. proceed y))"
  using assms
  by (intro sendsI) (auto simp: h_bind_def publish_def Let_def proceed_def split: option.splits delivery.splits)

lemma polite_bind:
  assumes "polite ok h" "\<And>x. polite ok (f x)"
  shows "polite ok (h_bind h f)"
proof (rule politeI)
  show "quiet.keeps (h_bind h f)" using assms unfolding polite_def by (intro quiet.keeps_bind) auto
  show "\<not> ok r" if "h_bind h f s = (Inl r, s')" for s r s'
    using that politeD[OF assms(1)] politeD[OF assms(2)] by (auto simp: h_bind_def split: prod.splits sum.splits)
qed

lemma polite_proceed: "polite ok (proceed x)"
  unfolding polite_def by (simp add: quiet.keeps_proceed) (simp add: proceed_def)

lemma polite_going_on: "polite ok (count_request a b)" "polite ok (received sg n)" "polite ok (stamp_deployments env t ss)"
  unfolding polite_def
  by (simp_all add: quiet_rules) (auto simp: count_request_def received_def h_modify_def stamp_deployments_def)

lemma polite_reject: "\<not> ok r \<Longrightarrow> polite ok (reject a b r)"
  unfolding polite_def by (simp add: quiet_rules) (simp add: reject_def)

lemma polite_rate_limit: "\<not> ok r \<Longrightarrow> polite ok (rate_limit env sg t r)"
  unfolding polite_def
  by (simp add: quiet_rules) (auto simp: rate_limit_def reject_def Let_def split: prod.splits if_splits)

lemma polite_observe: "(\<And>e. \<not> ok (g e)) \<Longrightarrow> polite ok (observe_series t ss g)"
  unfolding polite_def
  by (simp add: quiet_rules) (auto simp: observe_series_def reject_def split: prod.splits sum.splits)

definition sent_for :: "api_key_context \<Rightarrow> telemetry_envelope \<Rightarrow> bool" where
  "sent_for key e \<longleftrightarrow> env_tenant_id e = ak_tenant_id key \<and> env_environment e = ak_environment key \<and>
     payload_of (ak_tenant_id key) (ak_environment key) (env_payload e)"

subsection \<open>Every endpoint\<close>

fun accepted :: "gateway_reply \<Rightarrow> bool" where
  "accepted (Http_reply (Done r)) \<longleftrightarrow> rs_status r = Status_ok \<or> rs_status r = No_content"
| "accepted (Http_reply Panic) \<longleftrightarrow> False"
| "accepted (Grpc_reply r) \<longleftrightarrow> \<not> isl r"

fun credentials :: "request \<Rightarrow> headers" where
  "credentials (Http_export _ hs _) = hs"
| "credentials (Http_write hs _) = hs"
| "credentials (Grpc_traces hs _) = hs"
| "credentials (Grpc_logs hs _) = hs"
| "credentials (Grpc_metrics hs _) = hs"

fun role_allowed :: "request \<Rightarrow> string \<Rightarrow> bool" where
  "role_allowed (Http_export _ _ _) role \<longleftrightarrow> role = ''member'' \<or> role = ''admin''"
| "role_allowed (Http_write _ _) role \<longleftrightarrow> role = ''member'' \<or> role = ''admin''"
| "role_allowed (Grpc_traces _ _) role \<longleftrightarrow> role \<noteq> ''viewer''"
| "role_allowed (Grpc_logs _ _) role \<longleftrightarrow> role \<noteq> ''viewer''"
| "role_allowed (Grpc_metrics _ _) role \<longleftrightarrow> role \<noteq> ''viewer''"

text \<open>The key a request is served for, if any.\<close>

definition caller :: "('k, 'l) gateway_env \<Rightarrow> request \<Rightarrow> api_key_context option" where
  "caller env req =
     (case bearer (credentials req) of None \<Rightarrow> None
      | Some token \<Rightarrow> (case verify_api_key (ge_post env) token of Inl _ \<Rightarrow> None
          | Inr key \<Rightarrow> if role_allowed req (ak_role key) then Some key else None))"

lemma bearer_is_grpc_token:
  "Option.bind (Option.bind (hs ''authorization'') to_str) (strip_prefix ''Bearer '') = bearer hs"
proof -
  have "(case map_option Some x of None \<Rightarrow> None | Some y \<Rightarrow> y) = x" for x :: "string option"
    by (cases x) simp_all
  then show ?thesis
    by (auto simp: bearer_def extract_bearer_token_def ok_or_def split: option.splits)
qed

definition context_of_key :: "api_key_context \<Rightarrow> tenant_context" where
  "context_of_key key = \<lparr>tc_tenant_id = ak_tenant_id key, tc_role = ak_role key, tc_environment = ak_environment key\<rparr>"

lemma context_of_key_simps [simp]:
  "tc_tenant_id (context_of_key key) = ak_tenant_id key" "tc_role (context_of_key key) = ak_role key"
  "tc_environment (context_of_key key) = ak_environment key"
  by (simp_all add: context_of_key_def)

text \<open>A write request whose body is empty of time series has nothing to send.\<close>

fun has_telemetry :: "('k, 'l) gateway_env \<Rightarrow> request \<Rightarrow> bool" where
  "has_telemetry env (Http_write _ body) \<longleftrightarrow>
     Option.bind (ge_decompress_vec env body) (ge_decode_write env) \<noteq> Some []"
| "has_telemetry env _ \<longleftrightarrow> True"

abbreviation http_ok :: "http_response outcome \<Rightarrow> bool" where "http_ok r \<equiv> accepted (Http_reply r)"
abbreviation grpc_ok :: "grpc_reply \<Rightarrow> bool" where "grpc_ok r \<equiv> accepted (Grpc_reply r)"

lemma sent_for_build:
  "payload_of (ak_tenant_id key) (ak_environment key) payload \<Longrightarrow>
   sent_for key (build_envelope env (ak_tenant_id key) (ak_environment key) payload)"
  by (simp add: sent_for_def build_envelope_def)

lemma decode_errors:
  "decode_otlp_request env hs body = Inl st \<Longrightarrow> st = Bad_request \<or> st = Unsupported_media_type"
  by (auto simp: decode_otlp_request_def decode_request_body_def Let_def and_then_Inl_conv map_ok_def ok_or_def
      split: if_splits option.splits)

lemma and_then_decoded:
  "and_then r (\<lambda>d. case d of Json j \<Rightarrow> f j | Protobuf b \<Rightarrow> g b) =
     (case r of Inl e \<Rightarrow> Inl e | Inr d \<Rightarrow> (case d of Json j \<Rightarrow> f j | Protobuf b \<Rightarrow> g b))"
  by (cases r) simp_all

lemma export_errors:
  "http_spans env ctx hs body = Inl st \<Longrightarrow> st = Bad_request \<or> st = Unsupported_media_type"
  "http_logs env ctx hs body = Inl st \<Longrightarrow> st = Bad_request \<or> st = Unsupported_media_type"
  "http_metrics env ctx hs body = Inl st \<Longrightarrow> st = Bad_request \<or> st = Unsupported_media_type"
  by (auto simp: http_spans_def http_logs_def http_metrics_def and_then_decoded map_ok_def ok_or_def
      parse_otlp_traces_def parse_otlp_logs_def parse_otlp_metrics_def Let_def
      dest!: decode_errors split: sum.splits decoded_body.splits option.splits)

lemma polite_malformed:
  "(\<And>st. x = Inl st \<Longrightarrow> st = Bad_request \<or> st = Unsupported_media_type) \<Longrightarrow> polite http_ok (malformed sg x)"
  by (rule politeI, rule quiet_malformed)
    (auto simp: malformed_def proceed_def reject_def status_only_def split: sum.splits)

lemma malformed_Inr: "malformed sg x s = (Inr y, s') \<longleftrightarrow> x = Inr y \<and> s' = s"
  by (auto simp: malformed_def proceed_def reject_def split: sum.splits)

lemmas replies = status_only_def json_reply_def rate_limited_def cardinality_reply_def status_def

lemma http_spans_of: "http_spans env ctx hs body = Inr ss \<Longrightarrow> list_all (span_of (tc_tenant_id ctx) (tc_environment ctx)) ss"
  by (auto simp: http_spans_def and_then_decoded proto_spans_of split: sum.splits decoded_body.splits dest: json_spans_of)

lemma http_logs_of: "http_logs env ctx hs body = Inr ls \<Longrightarrow> list_all (log_of (tc_tenant_id ctx) (tc_environment ctx)) ls"
  by (auto simp: http_logs_def and_then_decoded proto_logs_of split: sum.splits decoded_body.splits dest: json_logs_of)

lemma proto_metrics_of_fst:
  "payload_of t e (MetricData (fst (proto_metrics_to_domain us js rms t e)) (fst (snd (proto_metrics_to_domain us js rms t e))))"
  by (rule proto_metrics_of) (simp add: prod_eq_iff)

lemma http_metrics_of:
  "http_metrics env ctx hs body = Inr (ms, ps) \<Longrightarrow> payload_of (tc_tenant_id ctx) (tc_environment ctx) (MetricData ms ps)"
  by (auto simp: http_metrics_def and_then_decoded Let_def case_prod_beta proto_metrics_of_fst
      split: sum.splits decoded_body.splits dest: json_metrics_of simp del: payload_of.simps)

lemma stamp_span_of: "span_of t e (stamp_deployment env reg t s) = span_of t e s"
  by (simp add: span_of_def stamp_deployment_def)

lemma sends_export_traces:
  "(must \<Longrightarrow> ge_producer env \<noteq> None) \<Longrightarrow>
   sends must (sent_for key) http_ok (export_traces env hs body (context_of_key key))"
  unfolding export_traces_def
  by (intro sends_after polite_going_on polite_rate_limit polite_malformed sends_publish)
    (auto simp: replies malformed_Inr stamp_deployments_def list_all_iff stamp_span_of
      dest: export_errors http_spans_of intro!: sent_for_build)

lemma sends_export_logs:
  "(must \<Longrightarrow> ge_producer env \<noteq> None) \<Longrightarrow>
   sends must (sent_for key) http_ok (export_logs env hs body (context_of_key key))"
  unfolding export_logs_def
  by (intro sends_after polite_going_on polite_rate_limit polite_malformed sends_publish)
    (auto simp: replies malformed_Inr dest: export_errors http_logs_of intro!: sent_for_build)

lemma polite_auth:
  "polite grpc_ok (grpc_auth env sg title md)"
  unfolding grpc_auth_def
  by (intro polite_bind polite_going_on)
    (auto simp: replies intro!: polite_reject polite_bind polite_rate_limit polite_proceed split: option.split sum.split)

lemma grpc_auth_Inr:
  assumes "grpc_auth env sg title md s = (Inr key, s')"
  shows "\<exists>token. bearer md = Some token \<and> verify_api_key (ge_post env) token = Inr key \<and> ak_role key \<noteq> ''viewer''"
  using assms
  by (auto simp: grpc_auth_def bearer_is_grpc_token[symmetric] h_bind_def count_request_def h_modify_def reject_def proceed_def
      split: option.splits sum.splits if_splits prod.splits)

lemma sends_export_metrics:
  "(must \<Longrightarrow> ge_producer env \<noteq> None) \<Longrightarrow>
   sends must (sent_for key) http_ok (export_metrics env hs body (context_of_key key))"
  unfolding export_metrics_def split_def
  by (intro sends_after polite_going_on polite_rate_limit polite_malformed polite_observe sends_publish)
    (auto simp: replies malformed_Inr simp del: payload_of.simps
      dest: export_errors http_metrics_of[where ctx = "context_of_key key"] intro!: sent_for_build)

lemma polite_read_write: "polite http_ok (read_write_request env hs body)"
  unfolding read_write_request_def
  by (auto simp: replies ok_or_def and_then_Inl_conv intro!: polite_reject polite_malformed split: option.splits)

lemma read_write_Inr:
  "read_write_request env hs body s = (Inr ts, s') \<Longrightarrow>
   Option.bind (ge_decompress_vec env body) (ge_decode_write env) = Some ts"
  by (auto simp: read_write_request_def reject_def malformed_Inr ok_or_def split: if_splits option.splits)

lemma polite_translate: "polite http_ok (translate env ctx ts)"
  by (rule politeI, rule quiet.keeps_translate) (auto simp: translate_def reply_def proceed_def split: outcome.splits)

lemma translate_Inr:
  "translate env ctx ts s = (Inr (ms, ps), s') \<Longrightarrow>
   payload_of (tc_tenant_id ctx) (tc_environment ctx) (MetricData ms ps)"
  by (rule remote_write_of) (auto simp: translate_def reply_def proceed_def split: outcome.splits)

lemma sends_if: "(b \<Longrightarrow> sends m P ok h) \<Longrightarrow> (\<not> b \<Longrightarrow> sends m P ok g) \<Longrightarrow> sends m P ok (if b then h else g)"
  by simp

lemma sends_remote_write:
  assumes "must \<Longrightarrow> ge_producer env \<noteq> None"
    and "must \<Longrightarrow> Option.bind (ge_decompress_vec env body) (ge_decode_write env) \<noteq> Some []"
  shows "sends must (sent_for key) http_ok (remote_write env hs body (context_of_key key))"
  unfolding remote_write_def split_def
  using assms
  by (intro sends_after sends_if polite_going_on polite_rate_limit polite_read_write polite_translate polite_observe sends_publish
      sends_polite polite_proceed)
    (auto simp: replies simp del: payload_of.simps dest: read_write_Inr translate_Inr[where ctx = "context_of_key key"]
      intro!: sent_for_build)

lemma sends_grpc_traces:
  "(must \<Longrightarrow> ge_producer env \<noteq> None) \<Longrightarrow> P = (\<lambda>e. \<exists>key. caller env (Grpc_traces md inner) = Some key \<and> sent_for key e) \<Longrightarrow>
   sends must P grpc_ok (grpc_export_traces env md inner)"
  unfolding grpc_export_traces_def Let_def
  by (intro sends_publish sends_after polite_going_on polite_auth)
    (auto simp: replies caller_def proto_spans_of dest!: grpc_auth_Inr intro!: sent_for_build)

lemma sends_grpc_logs:
  "(must \<Longrightarrow> ge_producer env \<noteq> None) \<Longrightarrow> P = (\<lambda>e. \<exists>key. caller env (Grpc_logs md inner) = Some key \<and> sent_for key e) \<Longrightarrow>
   sends must P grpc_ok (grpc_export_logs env md inner)"
  unfolding grpc_export_logs_def Let_def
  by (intro sends_publish sends_after polite_going_on polite_auth)
    (auto simp: replies caller_def proto_logs_of dest!: grpc_auth_Inr intro!: sent_for_build)

lemma sends_grpc_metrics:
  "(must \<Longrightarrow> ge_producer env \<noteq> None) \<Longrightarrow> P = (\<lambda>e. \<exists>key. caller env (Grpc_metrics md inner) = Some key \<and> sent_for key e) \<Longrightarrow>
   sends must P grpc_ok (grpc_export_metrics env md inner)"
  unfolding grpc_export_metrics_def grpc_send_metrics_def Let_def split_def
  by (intro sends_publish sends_after polite_going_on polite_auth polite_observe)
    (auto simp: replies caller_def proto_metrics_of_fst simp del: payload_of.simps
      dest!: grpc_auth_Inr intro!: sent_for_build)

text \<open>The registry of deployments and the series counts of all tenants but one.\<close>

interpretation others: handler_relation
  "\<lambda>s s'. gw_deployment_registry s' = gw_deployment_registry s \<and>
     (\<forall>t'. t' = t \<or> current_count (gw_metric_cardinality s') t' = current_count (gw_metric_cardinality s) t')" for t
proof unfold_locales
  fix s1 s2 s3 :: "('a, 'b) gateway"
  assume "gw_deployment_registry s2 = gw_deployment_registry s1 \<and>
     (\<forall>t'. t' = t \<or> current_count (gw_metric_cardinality s2) t' = current_count (gw_metric_cardinality s1) t')"
    "gw_deployment_registry s3 = gw_deployment_registry s2 \<and>
     (\<forall>t'. t' = t \<or> current_count (gw_metric_cardinality s3) t' = current_count (gw_metric_cardinality s2) t')"
  then show "gw_deployment_registry s3 = gw_deployment_registry s1 \<and>
     (\<forall>t'. t' = t \<or> current_count (gw_metric_cardinality s3) t' = current_count (gw_metric_cardinality s1) t')"
    by metis
qed simp

lemma others_steps:
  "others.keeps t (count_request a b)" "others.keeps t (reject c d r)" "others.keeps t (received sg n)"
  "others.keeps t (rate_limit env sg t'' r')" "others.keeps t (publish env t'' e p r'')"
  by (auto simp: others.keeps_def count_request_def h_modify_def reject_def received_def rate_limit_frame
      publish_def Let_def split: signal.split option.split delivery.split)

lemma others_observe: "others.keeps t (observe_series t ss g)"
  using current_count_other[of _ t "of_nat (length ss)"]
  by (auto simp: others.keeps_def observe_series_def reject_def split: prod.split sum.split) (metis snd_conv)+

lemma others_malformed: "others.keeps t (malformed sg x)"
  by (rule others.keeps_malformed) (rule others_steps)

lemma others_read_write: "others.keeps t (read_write_request env hs body)"
  by (simp add: read_write_request_def others_steps others_malformed)

lemma others_grpc_auth: "others.keeps t (grpc_auth env sg title md)"
  unfolding grpc_auth_def
  by (auto intro!: others.keeps_bind others_steps others.keeps_proceed split: option.split sum.split)

lemmas others_rules = others.keeps_bind others_steps others_malformed others_read_write others_grpc_auth
  others.keeps_proceed others.keeps_reply others.keeps_stamp others.keeps_translate others_observe

lemma others_http:
  "others.keeps (ak_tenant_id key) (http_handler env sg hs body (context_of_key key))"
  by (cases sg) (auto simp: export_traces_def export_logs_def export_metrics_def split_def intro!: others_rules)

lemma others_remote_write:
  "others.keeps (ak_tenant_id key) (remote_write env hs body (context_of_key key))"
  by (auto simp: remote_write_def split_def intro!: others_rules)

lemma others_grpc:
  "caller env (Grpc_traces md ss) = Some key \<Longrightarrow> others.keeps (ak_tenant_id key) (grpc_export_traces env md ss)"
  "caller env (Grpc_logs md ls) = Some key \<Longrightarrow> others.keeps (ak_tenant_id key) (grpc_export_logs env md ls)"
  "caller env (Grpc_metrics md ms) = Some key \<Longrightarrow> others.keeps (ak_tenant_id key) (grpc_export_metrics env md ms)"
proof -
  show "caller env (Grpc_traces md ss) = Some key \<Longrightarrow> others.keeps (ak_tenant_id key) (grpc_export_traces env md ss)"
    unfolding grpc_export_traces_def Let_def
    by (intro others.keeps_then others_rules)
  show "caller env (Grpc_logs md ls) = Some key \<Longrightarrow> others.keeps (ak_tenant_id key) (grpc_export_logs env md ls)"
    unfolding grpc_export_logs_def Let_def
    by (intro others.keeps_then others_rules)
  show "caller env (Grpc_metrics md ms) = Some key \<Longrightarrow> others.keeps (ak_tenant_id key) (grpc_export_metrics env md ms)"
    unfolding grpc_export_metrics_def
  proof (rule others.keeps_then[OF others_grpc_auth])
    fix s x s'
    assume "caller env (Grpc_metrics md ms) = Some key" "grpc_auth env Metrics ''metric'' md s = (Inr x, s')"
    then have "x = key" by (auto simp: caller_def dest!: grpc_auth_Inr split: option.splits sum.splits if_splits)
    then show "others.keeps (ak_tenant_id key) (grpc_send_metrics env ms x)"
      by (auto simp: grpc_send_metrics_def split_def Let_def intro!: others_rules)
  qed
qed

subsection \<open>Requests\<close>

definition same_but_counters :: "('k, 'l) gateway \<Rightarrow> ('k, 'l) gateway \<Rightarrow> bool" where
  "same_but_counters s s' \<longleftrightarrow>
     s' = s\<lparr>gw_requests_total := gw_requests_total s', gw_rejections_total := gw_rejections_total s'\<rparr>"

lemma run_handler_eq: "run_handler c h s = (c (case fst (h s) of Inl r \<Rightarrow> r | Inr r \<Rightarrow> r), snd (h s))"
  by (simp add: run_handler_def split: prod.split sum.split)

lemma middleware_known:
  assumes "bearer hs = Some token" "verify_api_key (ge_post env) token = Inr key" "ak_role key = ''member'' \<or> ak_role key = ''admin''"
  shows "auth_middleware env hs next = next (context_of_key key)"
  using assms by (auto simp: auth_middleware_def Let_def can_ingest_def context_of_key_def)

lemma middleware_unknown:
  assumes "\<And>token key. bearer hs = Some token \<Longrightarrow> verify_api_key (ge_post env) token = Inr key \<Longrightarrow>
      ak_role key \<noteq> ''member'' \<and> ak_role key \<noteq> ''admin''"
  shows "\<exists>reason st. auth_middleware env hs next = reject ''http'' reason (status_only st) \<and> st \<noteq> Status_ok \<and> st \<noteq> No_content"
proof (cases "bearer hs")
  case None
  then show ?thesis by (auto simp: auth_middleware_def)
next
  case (Some token)
  show ?thesis
  proof (cases "verify_api_key (ge_post env) token")
    case (Inl err)
    then show ?thesis using Some by (cases err) (force simp: auth_middleware_def)+
  next
    case (Inr key)
    then show ?thesis using Some assms[OF Some Inr] by (auto simp: auth_middleware_def can_ingest_def)
  qed
qed

lemma reject_same: "same_but_counters s (snd (reject a b r s))"
  by (simp add: same_but_counters_def reject_def)

lemma serve_unknown:
  assumes "caller env req = None"
  shows "\<not> accepted (fst (serve env req s)) \<and> same_but_counters s (snd (serve env req s))"
proof -
  have http: "\<not> accepted (fst (run_handler Http_reply (auth_middleware env hs next) s)) \<and>
      same_but_counters s (snd (run_handler Http_reply (auth_middleware env hs next) s))"
    if "\<And>token key. bearer hs = Some token \<Longrightarrow> verify_api_key (ge_post env) token = Inr key \<Longrightarrow>
        ak_role key \<noteq> ''member'' \<and> ak_role key \<noteq> ''admin''" for hs "next"
    using middleware_unknown[of hs env "next"] that
    by (auto simp: run_handler_eq reject_same) (auto simp: reject_def status_only_def)
  have grpc: "\<not> accepted (fst (run_handler Grpc_reply (h_bind (grpc_auth env sg title md) f) s)) \<and>
      same_but_counters s (snd (run_handler Grpc_reply (h_bind (grpc_auth env sg title md) f) s))"
    if "\<And>token key. bearer md = Some token \<Longrightarrow> verify_api_key (ge_post env) token = Inr key \<Longrightarrow> ak_role key = ''viewer''"
    for sg title md and f :: "api_key_context \<Rightarrow> ('a, 'b) grpc_handler"
  proof -
    have "\<exists>reason c m. h_bind (grpc_auth env sg title md) f s =
        reject (signal_name sg) reason (status c m) (snd (count_request (signal_name sg) ''grpc'' s))"
      using that
      by (auto simp: grpc_auth_def bearer_is_grpc_token[symmetric] h_bind_def count_request_def h_modify_def reject_def
          split: option.splits sum.splits)
    then show ?thesis
      by (auto simp: run_handler_eq) (auto simp: reject_def status_def same_but_counters_def count_request_def h_modify_def)
  qed
  note caller = assms[unfolded caller_def]
  show ?thesis
  proof (cases req)
    case (Http_export sg hs body)
    show ?thesis unfolding Http_export serve.simps by (rule http) (use caller Http_export in \<open>auto split: if_splits\<close>)
  next
    case (Http_write hs body)
    show ?thesis unfolding Http_write serve.simps by (rule http) (use caller Http_write in \<open>auto split: if_splits\<close>)
  next
    case (Grpc_traces md ss)
    show ?thesis unfolding Grpc_traces serve.simps grpc_export_traces_def
      by (rule grpc) (use caller Grpc_traces in \<open>auto split: if_splits\<close>)
  next
    case (Grpc_logs md ls)
    show ?thesis unfolding Grpc_logs serve.simps grpc_export_logs_def
      by (rule grpc) (use caller Grpc_logs in \<open>auto split: if_splits\<close>)
  next
    case (Grpc_metrics md ms)
    show ?thesis unfolding Grpc_metrics serve.simps grpc_export_metrics_def
      by (rule grpc) (use caller Grpc_metrics in \<open>auto split: if_splits\<close>)
  qed
qed

lemma sends_run:
  assumes "sends must P (\<lambda>r. accepted (c r)) h"
  shows "\<exists>es. gw_queue (snd (run_handler c h s)) = gw_queue s @ es \<and> length es \<le> 1 \<and> list_all P es \<and>
      (accepted (fst (run_handler c h s)) \<longrightarrow> must \<longrightarrow> es \<noteq> [])"
proof -
  obtain r s' where h: "h s = (r, s')" by force
  with assms obtain es where "gw_queue s' = gw_queue s @ es" "length es \<le> 1" "list_all P es"
    "case r of Inl x \<Rightarrow> \<not> accepted (c x) | Inr _ \<Rightarrow> must \<longrightarrow> es \<noteq> []"
    unfolding sends_def by blast
  then show ?thesis by (intro exI[of _ es]) (auto simp: run_handler_eq h split: sum.splits)
qed

lemma sends_weaken:
  assumes "sends must P ok h" "\<And>e. P e \<Longrightarrow> Q e"
  shows "sends must Q ok h"
proof -
  have "list_all P es \<Longrightarrow> list_all Q es" for es using assms(2) by (simp add: list_all_iff)
  then show ?thesis using assms(1) unfolding sends_def by blast
qed

lemma caller_http:
  "caller env (Http_export sg hs body) = Some key \<Longrightarrow> auth_middleware env hs next = next (context_of_key key)"
  "caller env (Http_write hs body) = Some key \<Longrightarrow> auth_middleware env hs next = next (context_of_key key)"
  by (auto simp: caller_def intro: middleware_known split: option.splits sum.splits if_splits)

lemma serve_known:
  assumes key: "caller env req = Some key"
  shows "\<exists>es. gw_queue (snd (serve env req s)) = gw_queue s @ es \<and> length es \<le> 1 \<and> list_all (sent_for key) es \<and>
      (accepted (fst (serve env req s)) \<longrightarrow> ge_producer env \<noteq> None \<and> has_telemetry env req \<longrightarrow> es \<noteq> [])"
proof (cases req)
  case (Http_export sg hs body)
  have "sends (ge_producer env \<noteq> None \<and> has_telemetry env req) (sent_for key) http_ok
      (http_handler env sg hs body (context_of_key key))"
    by (cases sg) (simp_all add: sends_export_traces sends_export_logs sends_export_metrics)
  moreover have "auth_middleware env hs (http_handler env sg hs body) = http_handler env sg hs body (context_of_key key)"
    using key Http_export by (simp add: caller_http)
  ultimately show ?thesis using Http_export sends_run[where c = Http_reply, of _ _ _ s] by simp
next
  case (Http_write hs body)
  have "sends (ge_producer env \<noteq> None \<and> has_telemetry env req) (sent_for key) http_ok
      (remote_write env hs body (context_of_key key))"
    using Http_write by (intro sends_remote_write) simp_all
  moreover have "auth_middleware env hs (remote_write env hs body) = remote_write env hs body (context_of_key key)"
    using key Http_write by (simp add: caller_http)
  ultimately show ?thesis using Http_write sends_run[where c = Http_reply, of _ _ _ s] by simp
next
  case (Grpc_traces md ss)
  have "sends (ge_producer env \<noteq> None \<and> has_telemetry env req) (sent_for key) grpc_ok (grpc_export_traces env md ss)"
    using key Grpc_traces by (intro sends_weaken[OF sends_grpc_traces[OF _ refl]]) auto
  from sends_run[where c = Grpc_reply, OF this, of s] show ?thesis using Grpc_traces by simp
next
  case (Grpc_logs md ls)
  have "sends (ge_producer env \<noteq> None \<and> has_telemetry env req) (sent_for key) grpc_ok (grpc_export_logs env md ls)"
    using key Grpc_logs by (intro sends_weaken[OF sends_grpc_logs[OF _ refl]]) auto
  from sends_run[where c = Grpc_reply, OF this, of s] show ?thesis using Grpc_logs by simp
next
  case (Grpc_metrics md ms)
  have "sends (ge_producer env \<noteq> None \<and> has_telemetry env req) (sent_for key) grpc_ok (grpc_export_metrics env md ms)"
    using key Grpc_metrics by (intro sends_weaken[OF sends_grpc_metrics[OF _ refl]]) auto
  from sends_run[where c = Grpc_reply, OF this, of s] show ?thesis using Grpc_metrics by simp
qed

lemma serve_others:
  assumes key: "caller env req = Some key"
  shows "gw_deployment_registry (snd (serve env req s)) = gw_deployment_registry s \<and>
      (\<forall>t. t = ak_tenant_id key \<or> current_count (gw_metric_cardinality (snd (serve env req s))) t =
         current_count (gw_metric_cardinality s) t)"
proof -
  have run: "gw_deployment_registry (snd (run_handler c h s)) = gw_deployment_registry s \<and>
      (\<forall>t. t = ak_tenant_id key \<or> current_count (gw_metric_cardinality (snd (run_handler c h s))) t =
         current_count (gw_metric_cardinality s) t)"
    if "others.keeps (ak_tenant_id key) h" for c and h :: "('a, 'b, 'r, 'r) handler"
    using that by (simp add: run_handler_eq others.keeps_def)
  show ?thesis
    using key by (cases req) (simp_all add: run others_grpc others_http others_remote_write caller_http)
qed

fun serve_all :: "(('k, 'l) gateway_env \<times> request) list \<Rightarrow> ('k, 'l) gateway \<Rightarrow> ('k, 'l) gateway" where
  "serve_all [] s = s"
| "serve_all ((env, req) # rs) s = serve_all rs (snd (serve env req s))"

definition sent_by_some :: "(('k, 'l) gateway_env \<times> request) list \<Rightarrow> telemetry_envelope \<Rightarrow> bool" where
  "sent_by_some rs e \<longleftrightarrow> (\<exists>(env, req) \<in> set rs. \<exists>key. caller env req = Some key \<and> sent_for key e)"

lemma serve_queue:
  "\<exists>es. gw_queue (snd (serve env req s)) = gw_queue s @ es \<and> list_all (sent_by_some [(env, req)]) es"
proof (cases "caller env req")
  case None
  then have "gw_queue (snd (serve env req s)) = gw_queue s"
    using serve_unknown[OF None, of s] by (simp add: same_but_counters_def) (metis gateway.select_convs(11) gateway.surjective gateway.update_convs(6,7))
  then show ?thesis by (intro exI[of _ "[]"]) simp
next
  case (Some key)
  from serve_known[OF Some, of s] show ?thesis
    using Some by (fastforce simp: sent_by_some_def list_all_iff)
qed

lemma serve_all_queue:
  "\<exists>es. gw_queue (serve_all rs s) = gw_queue s @ es \<and> list_all (sent_by_some rs) es"
proof (induction rs s rule: serve_all.induct)
  case (1 s)
  show ?case by (intro exI[of _ "[]"]) simp
next
  case (2 env req rs s)
  then obtain es where es: "gw_queue (serve_all rs (snd (serve env req s))) = gw_queue (snd (serve env req s)) @ es"
    "list_all (sent_by_some rs) es" by blast
  obtain es1 where es1: "gw_queue (snd (serve env req s)) = gw_queue s @ es1" "list_all (sent_by_some [(env, req)]) es1"
    using serve_queue by blast
  show ?case
    using es es1 by (intro exI[of _ "es1 @ es"]) (auto simp: sent_by_some_def list_all_iff)
qed

subsection \<open>The properties\<close>

text \<open>
  C27. The gateway serves its caller only. A request without a valid key, or with a key
  whose role may not ingest, is refused and changes nothing but the counters. Any other
  request sends at most one envelope, in which the tenant and the environment of the
  envelope and of every row are those of the key, whatever the request says; it sends one
  when it is accepted and there is telemetry to send. The deployments and the series
  counts of all other tenants stay as they are.
\<close>

theorem gateway_serves_its_caller:
  "case (caller env req, serve env req s) of
     (None, r, s') \<Rightarrow> \<not> accepted r \<and> same_but_counters s s'
   | (Some key, r, s') \<Rightarrow>
       (\<exists>es. gw_queue s' = gw_queue s @ es \<and> length es \<le> 1 \<and> list_all (sent_for key) es \<and>
          (accepted r \<longrightarrow> ge_producer env \<noteq> None \<and> has_telemetry env req \<longrightarrow> es \<noteq> [])) \<and>
       gw_deployment_registry s' = gw_deployment_registry s \<and>
       (\<forall>t. t = ak_tenant_id key \<or>
          current_count (gw_metric_cardinality s') t = current_count (gw_metric_cardinality s) t)"
  using serve_unknown[of env req s] serve_known[of env req _ s] serve_others[of env req _ s]
  by (cases "caller env req") (simp_all add: split_def)

definition example_env :: "(unit, unit) gateway_env" where
  "example_env =
     \<lparr>ge_post = (\<lambda>key. if key = ''k1'' then Answer 200 (Some \<lparr>vk_tenant_id = 7, vk_role = ''member'', vk_environment = ''prod''\<rparr>)
                       else Answer 401 None),
      ge_governor = \<lparr>gv_keyed = (\<lambda>_. ()), gv_direct = (\<lambda>_. ()), gv_check_key = (\<lambda>_ _ _. (True, ())), gv_check = (\<lambda>_ _. (True, ()))\<rparr>,
      ge_instant = 0, ge_received_at = 100, ge_envelope_id = 1, ge_log_ids = of_nat,
      ge_producer = Some (\<lambda>_. Delivered), ge_us = (\<lambda>_. []), ge_js = (\<lambda>_. []), ge_from_slice = (\<lambda>_. None),
      ge_gunzip = (\<lambda>_. None), ge_unzstd = (\<lambda>_. None), ge_decode_traces = (\<lambda>_. None), ge_decode_logs = (\<lambda>_. None),
      ge_decode_metrics = (\<lambda>_. None), ge_decompress_len = (\<lambda>_. None), ge_decompress_vec = (\<lambda>_. None),
      ge_decode_write = (\<lambda>_. None), ge_unordered = Done, ge_group_order = id, ge_deployment_order = id\<rparr>"

definition example_gateway :: "(unit, unit) gateway" where
  "example_gateway =
     (let rl = \<lparr>rl_default_limiter = (), rl_custom_limiters = Map.empty, rl_default_per_second = 100\<rparr> in
      \<lparr>gw_trace_rate_limiter = rl, gw_log_rate_limiter = rl, gw_metric_rate_limiter = rl,
       gw_metric_cardinality = with_enforce 10 True, gw_deployment_registry = [],
       gw_requests_total = (\<lambda>_. 0), gw_rejections_total = (\<lambda>_. 0), gw_spans_received_total = 0,
       gw_logs_received_total = 0, gw_metrics_received_total = 0, gw_queue = []\<rparr>)"

definition example_log_request :: request where
  "example_log_request = Grpc_logs (\<lambda>h. if h = ''authorization'' then Some (Text ''Bearer k1'') else None)
     [(None, [[\<lparr>pl_time_unix_nano = 5, pl_observed_time_unix_nano = 6, pl_severity_number = 9, pl_severity_text = ''INFO'',
        pl_body = Some (String_value ''hello''), pl_trace_id = [], pl_span_id = [], pl_attributes = []\<rparr>]])]"

lemma example_caller:
  "caller example_env example_log_request = Some \<lparr>ak_tenant_id = 7, ak_role = ''member'', ak_environment = ''prod''\<rparr>"
  by (simp add: caller_def example_env_def example_log_request_def bearer_def extract_bearer_token_def to_str_def
      ok_or_def verify_api_key_def is_success_def)

theorem gateway_serves_its_caller_witness:
  "accepted (fst (serve example_env example_log_request example_gateway)) \<and>
   (\<exists>e. gw_queue (snd (serve example_env example_log_request example_gateway)) = [e] \<and> env_tenant_id e = 7)"
proof -
  have ok: "accepted (fst (serve example_env example_log_request example_gateway))"
    by code_simp
  have start: "gw_queue example_gateway = []" by (simp add: example_gateway_def Let_def)
  have producer: "ge_producer example_env \<noteq> None" by (simp add: example_env_def)
  have telemetry: "has_telemetry example_env example_log_request" by (simp add: example_log_request_def)
  from gateway_serves_its_caller[where env = example_env and req = example_log_request and s = example_gateway] ok start producer telemetry
  show ?thesis
    by (auto simp: example_caller sent_for_def le_Suc_eq length_Suc_conv split_def)
qed

text \<open>
  C28. An enforced cardinality budget admits greedily, per tenant: among any interleaving of
  submissions, those of a tenant are accepted exactly while its series, with the new ones,
  stay within its budget (a submission of no series always is), a refused one leaves its
  count, and no other tenant matters. So the count never exceeds the budget.
\<close>

theorem budget_admits_greedily:
  assumes "cb_enforce b"
  shows "case submit_all ss b of (answers, b') \<Rightarrow>
    let budget = unat (budget_for b t); used = unat (current_count b t); mine = map unat (of_tenant t ss) in
    of_tenant t (zip (map fst ss) answers) = admit budget used mine \<and>
    unat (current_count b' t) = admitted budget used mine \<and>
    (used \<le> budget \<longrightarrow> unat (current_count b' t) \<le> budget)"
  using submit_all_enforced[OF assms, of t ss] admitted_le[of "unat (current_count b t)" "unat (budget_for b t)"]
  by (simp add: split_def Let_def)

theorem budget_admits_greedily_witness:
  "of_tenant 1 (zip [1, 2, 1, 1] (fst (submit_all [(1, 6), (2, 9), (1, 5), (1, 4)] (with_enforce 10 True)))) = [True, False, True]"
  using budget_admits_greedily[where b = "with_enforce 10 True" and ss = "[(1, 6), (2, 9), (1, 5), (1, 4)]" and t = 1]
  by (simp add: split_def Let_def with_enforce_def budget_for_def current_count_def unwrap_or_def u64_max_def)

text \<open>
  C29. After any messages, a deployment is found by what was said of it last: the lookup
  answers a deployment whose last event has an active status and matches the tenant, the
  service, the environment and the version (any version, when none is asked for), and that
  none of the others with such a last event started after; it answers nothing when there is
  none. Messages without payload or that do not deserialise do not matter, and the order
  in which the map is iterated only decides between equal start times.
\<close>

theorem deployment_lookup_latest:
  assumes "\<And>xs. set (order xs) = set xs"
  shows "let registry = fst (run_consumer de ms []);
           candidates = filter (\<lambda>e. deployment_matches t service environment version (state_of_event e))
             (latest_events (received_events de ms));
           answer = lookup order us registry t service environment version
         in if candidates = [] then answer = []
            else \<exists>d \<in> set candidates. answer = us (dme_deployment_id d) \<and>
              (\<forall>d' \<in> set candidates. dme_started_at_unix_nano d' \<le> dme_started_at_unix_nano d)"
proof -
  let ?m = "deployment_matches t service environment version"
  let ?es = "latest_events (received_events de ms)"
  let ?found = "filter ?m (order (map snd (fst (run_consumer de ms []))))"
  have found: "set ?found = state_of_event ` {e \<in> set ?es. ?m (state_of_event e)}"
    using assms by (auto simp: run_consumer_events registry_states image_iff)
  show ?thesis
  proof (cases "max_by_key ds_started_at_unix_nano ?found")
    case None
    then show ?thesis using found by (auto simp: Let_def lookup_def unwrap_or_def filter_empty_conv)
  next
    case (Some d)
    note best = max_by_key_Some[OF this]
    then have "d \<in> state_of_event ` {e \<in> set ?es. ?m (state_of_event e)}" unfolding found by blast
    then obtain e where e: "e \<in> set ?es" "?m (state_of_event e)" "d = state_of_event e" by blast
    have "\<forall>e' \<in> set (filter (\<lambda>e. ?m (state_of_event e)) ?es). dme_started_at_unix_nano e' \<le> dme_started_at_unix_nano e"
      using best e(3) unfolding found by (auto simp: state_of_event_def)
    then show ?thesis using e Some
      by (auto simp: Let_def lookup_def unwrap_or_def filter_empty_conv state_of_event_def intro!: bexI[of _ e])
  qed
qed

definition example_event :: "uuid \<Rightarrow> string \<Rightarrow> u64 \<Rightarrow> deployment_marker_event" where
  "example_event i st t = \<lparr>dme_deployment_id = i, dme_tenant_id = 7, dme_service_name = ''api'', dme_environment = ''prod'',
     dme_service_version = ''v1'', dme_status = st, dme_started_at_unix_nano = t\<rparr>"

theorem deployment_lookup_latest_witness:
  "lookup id (\<lambda>i. if i = 1 then ''one'' else ''two'')
     (fst (run_consumer Some [Inr (Some (example_event 1 ''success'' 5)), Inr None, Inr (Some (example_event 2 ''in_progress'' 9)),
        Inr (Some (example_event 2 ''failed'' 9))] [])) 7 ''api'' ''prod'' [] = ''one''"
  using deployment_lookup_latest[where order = id and de = Some and ms = "[Inr (Some (example_event 1 ''success'' 5)), Inr None,
      Inr (Some (example_event 2 ''in_progress'' 9)), Inr (Some (example_event 2 ''failed'' 9))]" and t = 7 and service = "''api''" and environment = "''prod''" and version = "[]"
      and us = "\<lambda>i. if i = 1 then ''one'' else ''two''"]
  by (simp add: Let_def received_events_def List.map_filter_simps example_event_def deployment_matches_def state_of_event_def
      active_statuses_def)

text \<open>
  C30. From the endpoint to the normalised batch: when the stream processor merges what the
  gateway queued, every span, log, series and point of the batch belongs to the tenant of a
  key that was presented, and verified, with one of the requests.
\<close>

theorem ingest_pipeline_authentic:
  assumes "gw_queue s = []" "merge_batch fresh n (gw_queue (serve_all rs s)) = (m, n')"
  defines "tenants \<equiv> {ak_tenant_id key | key. \<exists>(env, req) \<in> set rs. caller env req = Some key}"
  shows "sp_tenant_id ` set (mt_spans m) \<subseteq> tenants \<and> lg_tenant_id ` set (mt_logs m) \<subseteq> tenants \<and>
    ms_tenant_id ` set (mt_series m) \<subseteq> tenants \<and> mp_tenant_id ` set (mt_points m) \<subseteq> tenants"
proof -
  obtain es where es: "gw_queue (serve_all rs s) = es" "list_all (sent_by_some rs) es"
    using serve_all_queue[of rs s] assms(1) by auto
  have "env_tenant_id e \<in> tenants" if "e \<in> set es" for e
    using es(2) that unfolding tenants_def by (fastforce simp: list_all_iff sent_by_some_def sent_for_def)
  moreover note parts = merge_telemetry_parts[OF assms(2)[unfolded merge_batch_eq es(1)]]
  moreover have "lg_tenant_id ` set (mt_logs m) = fst ` set (all_logs es)"
    unfolding parts(4)[symmetric] by (simp add: image_image tagged_log_def)
  ultimately show ?thesis
    by (auto simp: all_spans_def all_series_def all_points_def all_logs_def)
qed

definition example_merged :: "merged_telemetry \<times> nat" where
  "example_merged = merge_batch of_nat 0 (gw_queue (serve_all [(example_env, example_log_request)] example_gateway))"

theorem ingest_pipeline_authentic_witness:
  "map lg_tenant_id (mt_logs (fst example_merged)) = [7] \<and> lg_tenant_id ` set (mt_logs (fst example_merged)) \<subseteq> {7}"
proof
  show "map lg_tenant_id (mt_logs (fst example_merged)) = [7]" by code_simp
  have "gw_queue example_gateway = []" by (simp add: example_gateway_def Let_def)
  from ingest_pipeline_authentic[OF this, where fresh = of_nat and n = 0 and rs = "[(example_env, example_log_request)]"
      and m = "fst example_merged" and n' = "snd example_merged"]
  show "lg_tenant_id ` set (mt_logs (fst example_merged)) \<subseteq> {7}"
    by (auto simp: example_merged_def example_caller)
qed

end
