(* ===== verification/Service_Db.thy ===== *)
theory Service_Db
  imports Prelude
begin

section \<open>Programs over the tables of a service\<close>

text \<open>
  The handlers of the account services are programs that run SQL statements one after
  the other. A statement is a function of the tables and is atomic. What can go wrong is
  the parameter \<open>db_fails\<close>, by the number of the statement: the statement may not be
  applied, or it may be applied and its reply lost; either way the program sees an error.
  A transaction is a statement that begins it, a body, and a commit; when the body ends
  early, or the commit is not applied, the tables are those before it. \<open>now()\<close> is
  \<open>db_clock\<close>, in microseconds, and \<open>gen_random_uuid()\<close> is \<open>db_gen\<close>.
\<close>

datatype sql_error = Sql_connection | Sql_unique | Sql_foreign_key | Sql_check | Sql_no_row

datatype failure = Not_applied | Reply_lost

record 't database =
  db_tables :: 't
  db_steps :: nat
  db_clock :: "nat \<Rightarrow> int"
  db_gen :: "nat \<Rightarrow> uuid"
  db_fails :: "nat \<Rightarrow> failure option"

type_synonym ('t, 'e, 'a) program = "'t database \<Rightarrow> 't database \<times> ('e, 'a) result"

definition p_return :: "'a \<Rightarrow> ('t, 'e, 'a) program" where
  "p_return x db = (db, Inr x)"

definition p_fail :: "'e \<Rightarrow> ('t, 'e, 'a) program" where
  "p_fail e db = (db, Inl e)"

definition p_bind :: "('t, 'e, 'a) program \<Rightarrow> ('a \<Rightarrow> ('t, 'e, 'b) program) \<Rightarrow> ('t, 'e, 'b) program" where
  "p_bind m f db = (case m db of (db', Inl e) \<Rightarrow> (db', Inl e) | (db', Inr x) \<Rightarrow> f x db')"

text \<open>\<open>map_err\<close>, and a result that is looked at instead of being passed on.\<close>

definition p_map_err :: "('e \<Rightarrow> 'f) \<Rightarrow> ('t, 'e, 'a) program \<Rightarrow> ('t, 'f, 'a) program" where
  "p_map_err g m db = (case m db of (db', Inl e) \<Rightarrow> (db', Inl (g e)) | (db', Inr x) \<Rightarrow> (db', Inr x))"

definition p_try :: "('t, 'e, 'a) program \<Rightarrow> ('t, 'f, ('e, 'a) result) program" where
  "p_try m db = (case m db of (db', r) \<Rightarrow> (db', Inr r))"

definition p_lift :: "('e, 'a) result \<Rightarrow> ('t, 'e, 'a) program" where
  "p_lift r db = (db, r)"

definition p_guard :: "bool \<Rightarrow> 'e \<Rightarrow> ('t, 'e, unit) program" where
  "p_guard b e = (if b then p_return () else p_fail e)"

fun p_each :: "('a \<Rightarrow> ('t, 'e, unit) program) \<Rightarrow> 'a list \<Rightarrow> ('t, 'e, unit) program" where
  "p_each f [] = p_return ()"
| "p_each f (x # xs) = p_bind (f x) (\<lambda>_. p_each f xs)"

text \<open>One statement: its effect gets the time, a fresh UUID and the tables.\<close>

definition tick :: "'t database \<Rightarrow> 't database" where
  "tick db = db\<lparr>db_steps := Suc (db_steps db)\<rparr>"

definition sql :: "(int \<Rightarrow> uuid \<Rightarrow> 't \<Rightarrow> (sql_error, 't \<times> 'a) result) \<Rightarrow> ('t, sql_error, 'a) program" where
  "sql f db =
     (let k = db_steps db; done = (case f (db_clock db k) (db_gen db k) (db_tables db) of
            Inl e \<Rightarrow> (tick db, Inl e)
          | Inr (t, x) \<Rightarrow> ((tick db)\<lparr>db_tables := t\<rparr>, Inr x)) in
      case db_fails db k of
        Some Not_applied \<Rightarrow> (tick db, Inl Sql_connection)
      | Some Reply_lost \<Rightarrow> (fst done, Inl Sql_connection)
      | None \<Rightarrow> done)"

definition sql_select :: "('t \<Rightarrow> 'a) \<Rightarrow> ('t, sql_error, 'a) program" where
  "sql_select f = sql (\<lambda>_ _ t. Inr (t, f t))"

definition sql_update :: "(int \<Rightarrow> 't \<Rightarrow> 't \<times> 'a) \<Rightarrow> ('t, sql_error, 'a) program" where
  "sql_update f = sql (\<lambda>now _ t. Inr (f now t))"

text \<open>\<open>begin\<close>, a body on the transaction, \<open>commit\<close>; leaving the body early rolls back.\<close>

definition transaction :: "(sql_error \<Rightarrow> 'e) \<Rightarrow> ('t, 'e, 'a) program \<Rightarrow> ('t, 'e, 'a) program" where
  "transaction g body db =
     (if db_fails db (db_steps db) \<noteq> None then (tick db, Inl (g Sql_connection))
      else case body (tick db) of
             (db', Inl e) \<Rightarrow> (db'\<lparr>db_tables := db_tables db\<rparr>, Inl e)
           | (db', Inr x) \<Rightarrow>
               (case db_fails db' (db_steps db') of
                  None \<Rightarrow> (tick db', Inr x)
                | Some Not_applied \<Rightarrow> ((tick db')\<lparr>db_tables := db_tables db\<rparr>, Inl (g Sql_connection))
                | Some Reply_lost \<Rightarrow> (tick db', Inl (g Sql_connection))))"

text \<open>No statement fails for reasons of its own.\<close>

definition reliable :: "'t database \<Rightarrow> bool" where
  "reliable db \<longleftrightarrow> db_fails db = (\<lambda>_. None)"

subsection \<open>Evaluation\<close>

named_theorems program_simps \<open>how programs compute\<close>

lemma tick_simps [simp]:
  "db_tables (tick db) = db_tables db" "db_steps (tick db) = Suc (db_steps db)"
  "db_clock (tick db) = db_clock db" "db_gen (tick db) = db_gen db" "db_fails (tick db) = db_fails db"
  by (simp_all add: tick_def)

lemma tick_tables [simp]: "(tick db)\<lparr>db_tables := db_tables db\<rparr> = tick db"
  by (cases db) (simp add: tick_def)

lemma fst_p_map_err [simp]: "fst (p_map_err g m db) = fst (m db)"
  by (auto simp: p_map_err_def split: prod.splits sum.splits)

lemma fst_p_try [simp]: "fst (p_try m db) = fst (m db)"
  by (auto simp: p_try_def split: prod.splits)

lemma p_return_apply [simp]: "p_return x db = (db, Inr x)"
  by (simp add: p_return_def)

lemma p_fail_apply [simp]: "p_fail e db = (db, Inl e)"
  by (simp add: p_fail_def)

lemma p_lift_apply [simp]: "p_lift r db = (db, r)"
  by (simp add: p_lift_def)

lemma p_guard_simps [simp]: "p_guard True e = p_return ()" "p_guard False e = p_fail e"
  by (simp_all add: p_guard_def)

text \<open>A program that ends well passed through all its parts.\<close>

lemma p_bind_Inr:
  "p_bind m f db = (db', Inr y) \<longleftrightarrow> (\<exists>db1 x. m db = (db1, Inr x) \<and> f x db1 = (db', Inr y))"
  by (auto simp: p_bind_def split: prod.splits sum.splits)

lemma p_bind_apply:
  "m db = (db1, Inr x) \<Longrightarrow> p_bind m f db = f x db1"
  "m db = (db1, Inl e) \<Longrightarrow> p_bind m f db = (db1, Inl e)"
  by (simp_all add: p_bind_def)

lemma p_bind_try: "m db = (db1, r) \<Longrightarrow> p_bind (p_try m) f db = f r db1"
  by (simp add: p_bind_def p_try_def)

lemma p_map_err_Inr: "p_map_err g m db = (db', Inr x) \<longleftrightarrow> m db = (db', Inr x)"
  by (auto simp: p_map_err_def split: prod.splits sum.splits)

lemma p_try_Inr: "p_try m db = (db', Inr r) \<longleftrightarrow> m db = (db', r)"
  by (auto simp: p_try_def split: prod.splits)

lemma p_try_not_Inl: "p_try m db \<noteq> (db', Inl e)"
  by (auto simp: p_try_def split: prod.splits)

lemma p_guard_Inr: "p_guard b e db = (db', Inr x) \<longleftrightarrow> b \<and> db' = db"
  by (auto simp: p_guard_def)

lemma sql_Inr:
  "sql f db = (db', Inr x) \<longleftrightarrow>
     db_fails db (db_steps db) = None \<and>
     (\<exists>t. f (db_clock db (db_steps db)) (db_gen db (db_steps db)) (db_tables db) = Inr (t, x) \<and>
          db' = (tick db)\<lparr>db_tables := t\<rparr>)"
  by (auto simp: sql_def Let_def split: option.splits failure.splits sum.splits)

lemma sql_select_Inr:
  "sql_select f db = (db', Inr x) \<longleftrightarrow> db_fails db (db_steps db) = None \<and> x = f (db_tables db) \<and> db' = tick db"
  by (auto simp: sql_select_def sql_Inr tick_def)

lemma sql_update_Inr:
  "sql_update f db = (db', Inr x) \<longleftrightarrow>
     db_fails db (db_steps db) = None \<and>
     (\<exists>t. f (db_clock db (db_steps db)) (db_tables db) = (t, x) \<and> db' = (tick db)\<lparr>db_tables := t\<rparr>)"
  by (auto simp: sql_update_def sql_Inr)

lemma transaction_Inr:
  "transaction g m db = (db', Inr x) \<longleftrightarrow>
     db_fails db (db_steps db) = None \<and>
     (\<exists>db1. m (tick db) = (db1, Inr x) \<and> db_fails db1 (db_steps db1) = None \<and> db' = tick db1)"
  by (auto simp: transaction_def split: prod.splits sum.splits option.splits failure.splits)

lemmas program_Inr = p_bind_Inr p_map_err_Inr transaction_Inr p_try_Inr p_guard_Inr sql_Inr sql_select_Inr sql_update_Inr

text \<open>With a reliable database a statement does what it says.\<close>

lemma reliable_simps [simp]:
  "reliable (tick db) = reliable db" "reliable (db\<lparr>db_tables := t\<rparr>) = reliable db"
  by (simp_all add: reliable_def)

lemma reliable_sql:
  "reliable db \<Longrightarrow> sql f db =
     (case f (db_clock db (db_steps db)) (db_gen db (db_steps db)) (db_tables db) of
        Inl e \<Rightarrow> (tick db, Inl e) | Inr (t, x) \<Rightarrow> ((tick db)\<lparr>db_tables := t\<rparr>, Inr x))"
  by (simp add: sql_def reliable_def Let_def)

lemma reliable_select: "reliable db \<Longrightarrow> sql_select f db = (tick db, Inr (f (db_tables db)))"
  by (simp add: sql_select_def reliable_sql tick_def)

lemma reliable_update:
  "reliable db \<Longrightarrow> sql_update f db =
     (case f (db_clock db (db_steps db)) (db_tables db) of (t, x) \<Rightarrow> ((tick db)\<lparr>db_tables := t\<rparr>, Inr x))"
  by (simp add: sql_update_def reliable_sql split: prod.splits)

text \<open>The parameters of a run do not change, and the statements are counted.\<close>

definition same_world :: "'t database \<Rightarrow> 't database \<Rightarrow> bool" where
  "same_world db db' \<longleftrightarrow> db_clock db' = db_clock db \<and> db_gen db' = db_gen db \<and> db_fails db' = db_fails db \<and>
     db_steps db \<le> db_steps db'"

lemma same_world_refl [simp]: "same_world db db"
  by (simp add: same_world_def)

lemma same_world_trans: "same_world db1 db2 \<Longrightarrow> same_world db2 db3 \<Longrightarrow> same_world db1 db3"
  by (auto simp: same_world_def)

lemma same_world_tick [simp]: "same_world db (tick db)" "same_world db ((tick db)\<lparr>db_tables := t\<rparr>)"
  by (simp_all add: same_world_def)

subsection \<open>Relations that programs keep\<close>

text \<open>
  A relation between the tables before and after, reflexive and transitive, that says
  nothing of tables outside \<open>I\<close>. It holds of a program once it holds of every statement in
  it, whichever of them fail, lose their reply or are rolled back. \<open>keeps_at\<close> is the same
  for a program that starts from given tables. Only runs from the statement \<open>start\<close> on count.
\<close>

locale table_relation =
  fixes I :: "'t \<Rightarrow> bool" and R :: "'t \<Rightarrow> 't \<Rightarrow> bool" and start :: nat
  assumes outside: "\<not> I t \<Longrightarrow> R t t'"
    and refl: "R t t"
    and trans: "R t1 t2 \<Longrightarrow> R t2 t3 \<Longrightarrow> R t1 t3"
begin

definition keeps_at :: "'t \<Rightarrow> ('t, 'e, 'a) program \<Rightarrow> bool" where
  "keeps_at t m \<longleftrightarrow> (\<forall>db. db_tables db = t \<and> start \<le> db_steps db \<longrightarrow>
     R t (db_tables (fst (m db))) \<and> same_world db (fst (m db)))"

definition keeps :: "('t, 'e, 'a) program \<Rightarrow> bool" where
  "keeps m \<longleftrightarrow> (\<forall>t. keeps_at t m)"

lemma keepsD: "keeps m \<Longrightarrow> start \<le> db_steps db \<Longrightarrow> R (db_tables db) (db_tables (fst (m db)))"
  by (simp add: keeps_def keeps_at_def)

lemma keeps_world: "keeps m \<Longrightarrow> start \<le> db_steps db \<Longrightarrow> same_world db (fst (m db))"
  by (simp add: keeps_def keeps_at_def)

lemma keepsI: "(\<And>t. keeps_at t m) \<Longrightarrow> keeps m"
  by (simp add: keeps_def)

lemma keeps_at_keeps: "keeps m \<Longrightarrow> keeps_at t m"
  by (simp add: keeps_def)

lemma keeps_return [intro!]: "keeps (p_return x)"
  by (simp add: keeps_def keeps_at_def refl)

lemma keeps_fail [intro!]: "keeps (p_fail e)"
  by (simp add: keeps_def keeps_at_def refl)

lemma keeps_lift [intro!]: "keeps (p_lift r)"
  by (simp add: keeps_def keeps_at_def refl)

lemma keeps_guard [intro!]: "keeps (p_guard b e)"
  by (simp add: keeps_def keeps_at_def p_guard_def refl)

lemma keeps_at_bind:
  assumes "keeps_at t m" "\<And>x. keeps (f x)"
  shows "keeps_at t (p_bind m f)"
  unfolding keeps_at_def
proof (intro allI impI)
  fix db :: "'t database"
  assume db: "db_tables db = t \<and> start \<le> db_steps db"
  then have t: "db_tables db = t" by simp
  obtain db' r where m: "m db = (db', r)" by (cases "m db")
  have 1: "R t (db_tables db')" "same_world db db'" using assms(1) db m by (auto simp: keeps_at_def)
  have 2: "start \<le> db_steps db'" using 1(2) db by (simp add: same_world_def)
  show "R t (db_tables (fst (p_bind m f db))) \<and> same_world db (fst (p_bind m f db))"
  proof (cases r)
    case (Inl e)
    then show ?thesis using 1 m by (simp add: p_bind_def)
  next
    case (Inr x)
    then show ?thesis
      using trans[OF 1(1) keepsD[OF assms(2) 2]] same_world_trans[OF 1(2) keeps_world[OF assms(2) 2]] m
      by (simp add: p_bind_def)
  qed
qed

lemma keeps_bind [intro!]: "keeps m \<Longrightarrow> (\<And>x. keeps (f x)) \<Longrightarrow> keeps (p_bind m f)"
  by (rule keepsI, rule keeps_at_bind) (simp_all add: keeps_at_keeps)

text \<open>What follows a query knows what it saw.\<close>

lemma keeps_at_bind_select:
  assumes "keeps_at t (f (g t))"
  shows "keeps_at t (p_bind (p_map_err h (sql_select g)) f)"
  unfolding keeps_at_def
proof (intro allI impI)
  fix db :: "'t database"
  assume db: "db_tables db = t \<and> start \<le> db_steps db"
  then have t: "db_tables db = t" by simp
  let ?db = "fst (f (g t) (tick db))"
  have 1: "R t (db_tables ?db)" "same_world (tick db) ?db"
    using assms db by (simp_all add: keeps_at_def)
  have 2: "same_world db ?db" using same_world_trans[OF same_world_tick(1) 1(2)] .
  have "fst (p_bind (p_map_err h (sql_select g)) f db) \<in> {?db, tick db}"
    using t by (auto simp: p_bind_def p_map_err_def sql_select_def sql_def Let_def split: option.splits failure.splits)
  then show "R t (db_tables (fst (p_bind (p_map_err h (sql_select g)) f db))) \<and>
      same_world db (fst (p_bind (p_map_err h (sql_select g)) f db))"
    using 1 2 t refl by auto
qed

lemma keeps_map_err [intro!]: "keeps m \<Longrightarrow> keeps (p_map_err g m)"
  by (simp add: keeps_def keeps_at_def)

lemma keeps_try [intro!]: "keeps m \<Longrightarrow> keeps (p_try m)"
  by (simp add: keeps_def keeps_at_def)

lemma keeps_each: "(\<And>x. x \<in> set xs \<Longrightarrow> keeps (f x)) \<Longrightarrow> keeps (p_each f xs)"
  by (induction xs) auto

lemma keeps_at_sql:
  assumes "\<And>now new t' x. I t \<Longrightarrow> f now new t = Inr (t', x) \<Longrightarrow> R t t'"
  shows "keeps_at t (sql f)"
  unfolding keeps_at_def
proof (intro allI impI)
  fix db :: "'t database"
  assume db: "db_tables db = t \<and> start \<le> db_steps db"
  then have t: "db_tables db = t" by simp
  have 1: "same_world db (fst (sql f db))"
    by (auto simp: sql_def Let_def split: option.splits failure.splits sum.splits)
  show "R t (db_tables (fst (sql f db))) \<and> same_world db (fst (sql f db))"
  proof (cases "I t")
    case True
    show ?thesis using 1 assms[OF True]
      by (auto simp: sql_def Let_def refl t split: option.splits failure.splits sum.splits)
  qed (use 1 in \<open>simp add: outside\<close>)
qed

lemma keeps_sql: "(\<And>now new t t' x. I t \<Longrightarrow> f now new t = Inr (t', x) \<Longrightarrow> R t t') \<Longrightarrow> keeps (sql f)"
  by (rule keepsI, rule keeps_at_sql)

lemma keeps_select [intro!]: "keeps (sql_select f)"
  unfolding sql_select_def by (rule keeps_sql) (auto intro: refl)

lemma keeps_update:
  assumes "\<And>now t. I t \<Longrightarrow> R t (fst (f now t))"
  shows "keeps (sql_update f)"
  unfolding sql_update_def
  using assms by (intro keeps_sql) (metis Inr_inject fst_conv)

lemma keeps_transaction [intro!]:
  assumes "keeps m"
  shows "keeps (transaction g m)"
  unfolding keeps_def keeps_at_def
proof (intro allI impI)
  fix db :: "'t database" and t
  assume db: "db_tables db = t \<and> start \<le> db_steps db"
  then have t: "db_tables db = t" by simp
  obtain db' r where m: "m (tick db) = (db', r)" by (cases "m (tick db)")
  have 1: "R t (db_tables db')" "same_world (tick db) db'"
    using keepsD[OF assms, of "tick db"] keeps_world[OF assms, of "tick db"] m db by simp_all
  have "same_world db db'" using same_world_trans[OF _ 1(2), of db] by simp
  then have "same_world db (tick db')" "same_world db (db'\<lparr>db_tables := t\<rparr>)" "same_world db ((tick db')\<lparr>db_tables := t\<rparr>)"
    by (auto simp: same_world_def)
  then show "R t (db_tables (fst (transaction g m db))) \<and> same_world db (fst (transaction g m db))"
    using 1 m t refl
    by (auto simp: transaction_def split: prod.splits sum.splits option.splits failure.splits)
qed

lemma keeps_if [intro]: "(b \<Longrightarrow> keeps m) \<Longrightarrow> (\<not> b \<Longrightarrow> keeps n) \<Longrightarrow> keeps (if b then m else n)"
  by simp

lemma keeps_option [intro]:
  "(x = None \<Longrightarrow> keeps m) \<Longrightarrow> (\<And>y. x = Some y \<Longrightarrow> keeps (f y)) \<Longrightarrow>
   keeps (case x of None \<Rightarrow> m | Some y \<Rightarrow> f y)"
  by (cases x) auto

end

end
