(* ===== verification/Identity_Store.thy ===== *)
theory Identity_Store
  imports Service_Db Auth_Client
begin

section \<open>The tables of accounts, keys and tenants\<close>

text \<open>
  The tables of \<open>migrations/postgres\<close> that the authentication service and the
  administration service share, and the statements of the two services over them. The
  constraints that a statement can violate are part of the model: primary keys, the
  unique key hash, the unique subject of a user, one role per user and tenant, the
  permitted roles of keys and members, and the user that a session belongs to.
\<close>

record tenant_row =
  tn_id :: uuid
  tn_name :: string
  tn_retention_days :: "32 word"
  tn_ingest_quota_per_sec :: "32 word"
  tn_updated_at :: int

record api_key_row =
  key_id :: uuid
  key_tenant_id :: uuid
  key_hash :: string
  key_name :: string
  key_created_at :: int
  key_revoked_at :: "int option"
  key_role :: string
  key_environment :: string

record user_row =
  us_id :: uuid
  us_idp_subject :: string
  us_email :: string
  us_name :: "string option"

record role_row =
  rl_user_id :: uuid
  rl_tenant_id :: uuid
  rl_role :: string
  rl_created_at :: int

record session_row =
  ss_id :: uuid
  ss_user_id :: uuid
  ss_tenant_id :: uuid
  ss_environment :: string
  ss_expires_at :: int
  ss_revoked_at :: "int option"

record audit_entry =
  au_action :: string
  au_credential_hash :: string
  au_tenant_id :: "uuid option"
  au_outcome :: string
  au_denial_reason :: "string option"
  au_auth_method :: "string option"

record identity =
  id_tenants :: "tenant_row list"
  id_keys :: "api_key_row list"
  id_users :: "user_row list"
  id_roles :: "role_row list"
  id_sessions :: "session_row list"
  id_audit :: "audit_entry list"

definition key_roles :: "string list" where
  "key_roles = [''viewer'', ''member'', ''admin'']"

definition member_roles :: "string list" where
  "member_roles = [''tenant_admin'', ''member'', ''viewer'']"

subsection \<open>Updates of rows\<close>

text \<open>\<open>UPDATE ... SET ... WHERE\<close> and \<open>DELETE ... WHERE\<close>, with the number of rows affected.\<close>

definition update_where :: "('r \<Rightarrow> bool) \<Rightarrow> ('r \<Rightarrow> 'r) \<Rightarrow> 'r list \<Rightarrow> 'r list" where
  "update_where p f rows = map (\<lambda>r. if p r then f r else r) rows"

definition delete_where :: "('r \<Rightarrow> bool) \<Rightarrow> 'r list \<Rightarrow> 'r list" where
  "delete_where p rows = filter (\<lambda>r. \<not> p r) rows"

definition rows_affected :: "('r \<Rightarrow> bool) \<Rightarrow> 'r list \<Rightarrow> nat" where
  "rows_affected p rows = length (filter p rows)"

subsection \<open>Statements on users, roles and sessions\<close>

definition same_role_row :: "uuid \<Rightarrow> uuid \<Rightarrow> role_row \<Rightarrow> bool" where
  "same_role_row user_id tenant_id r \<longleftrightarrow> rl_user_id r = user_id \<and> rl_tenant_id r = tenant_id"

definition role_of :: "uuid \<Rightarrow> uuid \<Rightarrow> identity \<Rightarrow> string option" where
  "role_of user_id tenant_id t = map_option rl_role (find (same_role_row user_id tenant_id) (id_roles t))"

definition user_exists :: "uuid \<Rightarrow> identity \<Rightarrow> bool" where
  "user_exists user_id t \<longleftrightarrow> user_id \<in> us_id ` set (id_users t)"

text \<open>\<open>INSERT INTO users ... ON CONFLICT (idp_subject) DO UPDATE ... RETURNING id\<close>\<close>

definition put_user :: "string \<Rightarrow> string \<Rightarrow> string option \<Rightarrow> int \<Rightarrow> uuid \<Rightarrow> identity \<Rightarrow> (sql_error, identity \<times> uuid) result" where
  "put_user subject email name now new t =
     (case find (\<lambda>u. us_idp_subject u = subject) (id_users t) of
        Some u \<Rightarrow> Inr (t\<lparr>id_users := update_where (\<lambda>u. us_idp_subject u = subject)
                          (\<lambda>u. u\<lparr>us_email := email, us_name := name\<rparr>) (id_users t)\<rparr>, us_id u)
      | None \<Rightarrow>
          if user_exists new t then Inl Sql_unique
          else Inr (t\<lparr>id_users := id_users t @
                 [\<lparr>us_id = new, us_idp_subject = subject, us_email = email, us_name = name\<rparr>]\<rparr>, new))"

text \<open>
  \<open>INSERT INTO user_tenant_roles ... ON CONFLICT (user_id, tenant_id)\<close>, which either
  updates the role or does nothing; it answers when the member joined.
\<close>

definition put_role :: "bool \<Rightarrow> uuid \<Rightarrow> uuid \<Rightarrow> string \<Rightarrow> int \<Rightarrow> uuid \<Rightarrow> identity \<Rightarrow> (sql_error, identity \<times> int) result" where
  "put_role update_on_conflict user_id tenant_id role now new t =
     (if role \<notin> set member_roles then Inl Sql_check
      else case find (same_role_row user_id tenant_id) (id_roles t) of
        Some r \<Rightarrow> Inr (if update_on_conflict
            then t\<lparr>id_roles := update_where (same_role_row user_id tenant_id) (\<lambda>r. r\<lparr>rl_role := role\<rparr>) (id_roles t)\<rparr>
            else t, rl_created_at r)
      | None \<Rightarrow>
          if \<not> user_exists user_id t then Inl Sql_foreign_key
          else Inr (t\<lparr>id_roles := id_roles t @
                 [\<lparr>rl_user_id = user_id, rl_tenant_id = tenant_id, rl_role = role, rl_created_at = now\<rparr>]\<rparr>, now))"

definition put_session :: "uuid \<Rightarrow> uuid \<Rightarrow> string \<Rightarrow> int \<Rightarrow> int \<Rightarrow> uuid \<Rightarrow> identity \<Rightarrow> (sql_error, identity \<times> uuid) result" where
  "put_session user_id tenant_id environment expires_at now new t =
     (if \<not> user_exists user_id t then Inl Sql_foreign_key
      else if new \<in> ss_id ` set (id_sessions t) then Inl Sql_unique
      else Inr (t\<lparr>id_sessions := id_sessions t @
             [\<lparr>ss_id = new, ss_user_id = user_id, ss_tenant_id = tenant_id, ss_environment = environment,
               ss_expires_at = expires_at, ss_revoked_at = None\<rparr>]\<rparr>, new))"

text \<open>Revoking the sessions of a user in a tenant, all the open ones or those not yet expired.\<close>

definition revoke_sessions_where :: "(session_row \<Rightarrow> bool) \<Rightarrow> int \<Rightarrow> identity \<Rightarrow> identity" where
  "revoke_sessions_where p now t =
     t\<lparr>id_sessions := update_where p (\<lambda>s. s\<lparr>ss_revoked_at := Some now\<rparr>) (id_sessions t)\<rparr>"

definition open_session_of :: "uuid \<Rightarrow> uuid \<Rightarrow> session_row \<Rightarrow> bool" where
  "open_session_of user_id tenant_id s \<longleftrightarrow>
     ss_user_id s = user_id \<and> ss_tenant_id s = tenant_id \<and> ss_revoked_at s = None"

text \<open>\<open>WHERE id = $1 AND user_id = $2 AND revoked_at IS NULL AND expires_at > now()\<close>\<close>

definition session_active :: "uuid \<Rightarrow> uuid \<Rightarrow> int \<Rightarrow> identity \<Rightarrow> bool" where
  "session_active nonce user_id now t \<longleftrightarrow>
     (\<exists>s \<in> set (id_sessions t). ss_id s = nonce \<and> ss_user_id s = user_id \<and> ss_revoked_at s = None \<and> now < ss_expires_at s)"

subsection \<open>Statements on keys\<close>

definition find_key :: "string \<Rightarrow> identity \<Rightarrow> api_key_row option" where
  "find_key hash t = find (\<lambda>k. key_hash k = hash) (id_keys t)"

definition key_of_tenant :: "uuid \<Rightarrow> uuid \<Rightarrow> api_key_row \<Rightarrow> bool" where
  "key_of_tenant i tenant_id k \<longleftrightarrow> key_id k = i \<and> key_tenant_id k = tenant_id"

definition put_key :: "api_key_row \<Rightarrow> identity \<Rightarrow> (sql_error, identity \<times> api_key_row) result" where
  "put_key k t =
     (if key_role k \<notin> set key_roles then Inl Sql_check
      else if key_id k \<in> key_id ` set (id_keys t) \<or> key_hash k \<in> key_hash ` set (id_keys t) then Inl Sql_unique
      else Inr (t\<lparr>id_keys := id_keys t @ [k]\<rparr>, k))"

text \<open>\<open>UPDATE api_keys SET key_hash = $3, revoked_at = NULL ... RETURNING\<close>\<close>

definition rekey :: "uuid \<Rightarrow> uuid \<Rightarrow> string \<Rightarrow> identity \<Rightarrow> (sql_error, identity \<times> api_key_row option) result" where
  "rekey i tenant_id hash t =
     (case find (key_of_tenant i tenant_id) (id_keys t) of
        None \<Rightarrow> Inr (t, None)
      | Some k \<Rightarrow>
          if \<exists>k' \<in> set (id_keys t). key_id k' \<noteq> i \<and> key_hash k' = hash then Inl Sql_unique
          else Inr (t\<lparr>id_keys := update_where (key_of_tenant i tenant_id)
                      (\<lambda>k. k\<lparr>key_hash := hash, key_revoked_at := None\<rparr>) (id_keys t)\<rparr>,
                    Some (k\<lparr>key_hash := hash, key_revoked_at := None\<rparr>)))"

subsection \<open>The audit log of credentials\<close>

definition audit_allow :: "string \<Rightarrow> uuid \<Rightarrow> audit_entry" where
  "audit_allow credential_hash tenant_id =
     \<lparr>au_action = ''credential_validate'', au_credential_hash = credential_hash, au_tenant_id = Some tenant_id,
      au_outcome = ''allow'', au_denial_reason = None, au_auth_method = Some ''api_key''\<rparr>"

definition audit_deny_not_found :: "string \<Rightarrow> audit_entry" where
  "audit_deny_not_found credential_hash =
     \<lparr>au_action = ''credential_validate'', au_credential_hash = credential_hash, au_tenant_id = None,
      au_outcome = ''deny'', au_denial_reason = Some ''not_found'', au_auth_method = Some ''api_key''\<rparr>"

definition audit_deny :: "string \<Rightarrow> uuid \<Rightarrow> string \<Rightarrow> audit_entry" where
  "audit_deny credential_hash tenant_id reason =
     \<lparr>au_action = ''credential_validate'', au_credential_hash = credential_hash, au_tenant_id = Some tenant_id,
      au_outcome = ''deny'', au_denial_reason = Some reason, au_auth_method = Some ''api_key''\<rparr>"

definition audit_login :: "string \<Rightarrow> uuid \<Rightarrow> audit_entry" where
  "audit_login credential_hash tenant_id =
     \<lparr>au_action = ''login'', au_credential_hash = credential_hash, au_tenant_id = Some tenant_id,
      au_outcome = ''allow'', au_denial_reason = None, au_auth_method = Some ''oidc_session''\<rparr>"

definition audit_logout :: "string \<Rightarrow> uuid \<Rightarrow> audit_entry" where
  "audit_logout credential_hash tenant_id =
     \<lparr>au_action = ''logout'', au_credential_hash = credential_hash, au_tenant_id = Some tenant_id,
      au_outcome = ''allow'', au_denial_reason = None, au_auth_method = Some ''oidc_session''\<rparr>"

definition audit_insert :: "audit_entry \<Rightarrow> (identity, sql_error, unit) program" where
  "audit_insert entry = sql_update (\<lambda>_ t. (t\<lparr>id_audit := id_audit t @ [entry]\<rparr>, ()))"

text \<open>A failure to write the log is only logged.\<close>

definition audit_write :: "audit_entry \<Rightarrow> (identity, 'e, unit) program" where
  "audit_write entry = p_bind (p_try (audit_insert entry)) (\<lambda>_. p_return ())"

subsection \<open>Well-formed tables\<close>

definition role_key :: "role_row \<Rightarrow> uuid \<times> uuid" where
  "role_key r = (rl_user_id r, rl_tenant_id r)"

definition identity_ok :: "identity \<Rightarrow> bool" where
  "identity_ok t \<longleftrightarrow>
     distinct (map us_id (id_users t)) \<and> distinct (map us_idp_subject (id_users t)) \<and>
     distinct (map role_key (id_roles t)) \<and> distinct (map ss_id (id_sessions t)) \<and>
     distinct (map key_id (id_keys t)) \<and> distinct (map key_hash (id_keys t)) \<and>
     (\<forall>k \<in> set (id_keys t). key_role k \<in> set key_roles) \<and>
     (\<forall>r \<in> set (id_roles t). rl_role r \<in> set member_roles)"

lemma set_update_where: "set (update_where p f rows) = (\<lambda>r. if p r then f r else r) ` set rows"
  by (simp add: update_where_def)

lemma map_update_where [simp]:
  "(\<And>r. p r \<Longrightarrow> g (f r) = g r) \<Longrightarrow> map g (update_where p f rows) = map g rows"
  by (simp add: update_where_def)

lemma image_update_where [simp]:
  "(\<And>r. p r \<Longrightarrow> g (f r) = g r) \<Longrightarrow> g ` set (update_where p f rows) = g ` set rows"
  by (metis map_update_where list.set_map)

lemma distinct_map_delete_where [simp]: "distinct (map g rows) \<Longrightarrow> distinct (map g (delete_where p rows))"
  by (simp add: delete_where_def distinct_map_filter)

lemma set_delete_where [simp]: "set (delete_where p rows) = {r \<in> set rows. \<not> p r}"
  by (simp add: delete_where_def)

lemma rows_affected_0 [simp]: "rows_affected p rows = 0 \<longleftrightarrow> (\<forall>r \<in> set rows. \<not> p r)"
  by (simp add: rows_affected_def filter_empty_conv)

lemma rows_affected_pos [simp]: "0 < rows_affected p rows \<longleftrightarrow> (\<exists>r \<in> set rows. p r)"
  using rows_affected_0[of p rows] by (auto simp del: rows_affected_0)

lemma find_Some_set: "find p xs = Some x \<Longrightarrow> x \<in> set xs \<and> p x"
  by (induction xs) (auto split: if_splits)

text \<open>A key column determines the row.\<close>

lemma find_unique:
  assumes "distinct (map g xs)" "x \<in> set xs"
  shows "find (\<lambda>y. g y = g x) xs = Some x"
  using assms
proof (induction xs)
  case Nil
  then show ?case by simp
next
  case (Cons y ys)
  show ?case
  proof (cases "y = x")
    case True
    then show ?thesis by simp
  next
    case False
    then have x: "x \<in> set ys" using Cons.prems by simp
    then have "g y \<noteq> g x" using Cons.prems by (metis distinct.simps(2) list.set_map list.simps(9) imageI)
    then show ?thesis using Cons x by simp
  qed
qed

lemma role_of_iff:
  assumes "identity_ok t"
  shows "role_of u tn t = Some r \<longleftrightarrow> (\<exists>x \<in> set (id_roles t). rl_user_id x = u \<and> rl_tenant_id x = tn \<and> rl_role x = r)"
proof
  assume "role_of u tn t = Some r"
  then show "\<exists>x \<in> set (id_roles t). rl_user_id x = u \<and> rl_tenant_id x = tn \<and> rl_role x = r"
    by (auto simp: role_of_def same_role_row_def dest!: find_Some_set)
next
  assume "\<exists>x \<in> set (id_roles t). rl_user_id x = u \<and> rl_tenant_id x = tn \<and> rl_role x = r"
  then obtain x where x: "x \<in> set (id_roles t)" "rl_user_id x = u" "rl_tenant_id x = tn" "rl_role x = r" by blast
  have "find (\<lambda>y. role_key y = role_key x) (id_roles t) = Some x"
    using assms x(1) by (intro find_unique) (auto simp: identity_ok_def)
  moreover have "(\<lambda>y. role_key y = role_key x) = same_role_row u tn"
    using x by (auto simp: role_key_def same_role_row_def)
  ultimately show "role_of u tn t = Some r" using x by (simp add: role_of_def)
qed

lemma find_key_iff:
  assumes "identity_ok t"
  shows "find_key h t = Some k \<longleftrightarrow> k \<in> set (id_keys t) \<and> key_hash k = h"
proof
  show "find_key h t = Some k \<Longrightarrow> k \<in> set (id_keys t) \<and> key_hash k = h"
    by (auto simp: find_key_def dest: find_Some_set)
  show "k \<in> set (id_keys t) \<and> key_hash k = h \<Longrightarrow> find_key h t = Some k"
    using assms find_unique[of key_hash "id_keys t" k] by (auto simp: find_key_def identity_ok_def)
qed

end
