(* ===== verification/Auth_Service.thy ===== *)
theory Auth_Service
  imports Identity_Store Otlp_Json
begin

section \<open>The authentication service\<close>

text \<open>
  \<open>services/auth-service/src\<close>: validation of API keys (\<open>lib.rs\<close>, \<open>validate.rs\<close>), the
  session tokens (\<open>session.rs\<close>), login, callback, logout and validation of sessions
  (\<open>oidc.rs\<close>), and the roles seeded for development (\<open>dev_bootstrap.rs\<close>). SHA-256,
  base64, the random bytes, the \<open>uuid\<close> and \<open>jsonwebtoken\<close> crates, the clock and the
  identity provider are parameters; a parameter that is asked during a request gets the
  number of the step.
\<close>

subsection \<open>Session claims and the environment\<close>

record session_claims =
  cl_iss :: string
  cl_aud :: string
  cl_sub :: string
  cl_tid :: string
  cl_role :: string
  cl_env :: string
  cl_nonce :: string
  cl_iat :: int
  cl_exp :: int

text \<open>What the service sets on the library's \<open>Validation\<close>.\<close>

record jwt_validation =
  jv_leeway :: nat
  jv_issuers :: "string list"
  jv_audiences :: "string list"

datatype json_answer = No_answer | Not_json | Json_body json

record provider_request =
  pr_url :: string
  pr_host :: string
  pr_bearer :: "string option"
  pr_form :: "(string \<times> string) list"

record auth_env =
  ae_issuer :: string
  ae_api_base :: string
  ae_client_id :: string
  ae_redirect_uri :: string
  ae_session_secret :: string
  ae_dev_mode :: bool
  ae_sha256 :: "u8 list \<Rightarrow> u8 list"
  ae_base64 :: "u8 list \<Rightarrow> string"
  ae_random :: "nat \<Rightarrow> u8 list"
  ae_clock :: "nat \<Rightarrow> int"
  ae_parse_uuid :: "string \<Rightarrow> uuid option"
  ae_show_uuid :: "uuid \<Rightarrow> string"
  ae_jwt_encode :: "session_claims \<Rightarrow> string \<Rightarrow> string option"
  ae_jwt_decode :: "int \<Rightarrow> string \<Rightarrow> string \<Rightarrow> jwt_validation \<Rightarrow> session_claims option"
  ae_provider :: "nat \<Rightarrow> provider_request \<Rightarrow> json_answer"
  ae_sql_error_text :: "sql_error \<Rightarrow> string"

text \<open>What a program asks from outside takes a step.\<close>

definition p_ask :: "(nat \<Rightarrow> 'a) \<Rightarrow> ('t, 'e, 'a) program" where
  "p_ask f db = (tick db, Inr (f (db_steps db)))"

text \<open>\<open>chrono::Utc::now().timestamp()\<close>, from microseconds.\<close>

definition unix_seconds :: "auth_env \<Rightarrow> nat \<Rightarrow> int" where
  "unix_seconds env k = ae_clock env k div 1000000"

definition session_issuer :: string where "session_issuer = ''observable-auth-service''"
definition session_audience :: string where "session_audience = ''observable-services''"
definition session_ttl_secs :: int where "session_ttl_secs = 604800"

definition sign_session_jwt ::
    "auth_env \<Rightarrow> uuid \<Rightarrow> uuid \<Rightarrow> string \<Rightarrow> string \<Rightarrow> uuid \<Rightarrow> int \<Rightarrow> string option" where
  "sign_session_jwt env user_id tenant_id role environment session_id now =
     ae_jwt_encode env
       \<lparr>cl_iss = session_issuer, cl_aud = session_audience, cl_sub = ae_show_uuid env user_id,
        cl_tid = ae_show_uuid env tenant_id, cl_role = role, cl_env = environment,
        cl_nonce = ae_show_uuid env session_id, cl_iat = now, cl_exp = now + session_ttl_secs\<rparr>
       (ae_session_secret env)"

definition session_validation :: jwt_validation where
  "session_validation = \<lparr>jv_leeway = 0, jv_issuers = [session_issuer], jv_audiences = [session_audience]\<rparr>"

definition verify_session_jwt :: "auth_env \<Rightarrow> int \<Rightarrow> string \<Rightarrow> session_claims option" where
  "verify_session_jwt env now token = ae_jwt_decode env now token (ae_session_secret env) session_validation"

text \<open>The code verifier and the S256 challenge.\<close>

definition generate_code_verifier :: "auth_env \<Rightarrow> nat \<Rightarrow> string" where
  "generate_code_verifier env k = ae_base64 env (ae_random env k)"

definition pkce_challenge :: "auth_env \<Rightarrow> string \<Rightarrow> string" where
  "pkce_challenge env verifier = ae_base64 env (ae_sha256 env (as_bytes verifier))"

subsection \<open>API keys\<close>

definition hex_digit :: "nat \<Rightarrow> char" where
  "hex_digit n = (if n < 10 then char_of (48 + n) else char_of (87 + n))"

definition hex :: "u8 list \<Rightarrow> string" where
  "hex bytes = concat (map (\<lambda>b. [hex_digit (unat b div 16), hex_digit (unat b mod 16)]) bytes)"

definition sha256_hex :: "auth_env \<Rightarrow> string \<Rightarrow> string" where
  "sha256_hex env key = hex (ae_sha256 env (as_bytes key))"

record api_key_entry =
  ke_tenant_id :: uuid
  ke_key_hash :: string
  ke_revoked_at :: "int option"
  ke_role :: string

definition validate_key_against_entry :: "auth_env \<Rightarrow> string \<Rightarrow> api_key_entry \<Rightarrow> (string, uuid \<times> string) result" where
  "validate_key_against_entry env key entry =
     (if ke_revoked_at entry \<noteq> None then Inl ''API key has been revoked''
      else if sha256_hex env key \<noteq> ke_key_hash entry then Inl ''Invalid API key''
      else Inr (ke_tenant_id entry, ke_role entry))"

definition lookup_api_key :: "auth_env \<Rightarrow> string \<Rightarrow> (identity, string, uuid \<times> string \<times> string) program" where
  "lookup_api_key env key =
     (let hash = sha256_hex env key in
      p_bind (p_map_err (ae_sql_error_text env) (sql_select (find_key hash))) (\<lambda>row.
      case row of
        None \<Rightarrow> p_fail ''API key not found''
      | Some row \<Rightarrow>
          p_bind (p_lift (validate_key_against_entry env key
             \<lparr>ke_tenant_id = key_tenant_id row, ke_key_hash = hash, ke_revoked_at = key_revoked_at row,
              ke_role = key_role row\<rparr>)) (\<lambda>(tenant_id, role).
          p_return (tenant_id, role, key_environment row))))"

text \<open>\<open>str::contains\<close>\<close>

fun contains :: "string \<Rightarrow> string \<Rightarrow> bool" where
  "contains p [] \<longleftrightarrow> p = []"
| "contains p (c # cs) \<longleftrightarrow> strip_prefix p (c # cs) \<noteq> None \<or> contains p cs"

definition validate_handler :: "auth_env \<Rightarrow> string \<Rightarrow> (identity, http_status, validate_api_key_response) program" where
  "validate_handler env api_key =
     (let hash = sha256_hex env api_key in
      p_bind (p_try (lookup_api_key env api_key)) (\<lambda>r.
      case r of
        Inr (tenant_id, role, environment) \<Rightarrow>
          p_bind (audit_write (audit_allow hash tenant_id)) (\<lambda>_.
          p_return \<lparr>vk_tenant_id = tenant_id, vk_role = role, vk_environment = environment\<rparr>)
      | Inl e \<Rightarrow>
          if contains ''revoked'' e then
            p_bind (audit_write (audit_deny hash nil_uuid ''revoked'')) (\<lambda>_. p_fail Unauthorized)
          else if contains ''not found'' e then
            p_bind (audit_write (audit_deny_not_found hash)) (\<lambda>_. p_fail Unauthorized)
          else
            p_bind (audit_write (audit_deny hash nil_uuid ''hash_mismatch'')) (\<lambda>_. p_fail Unauthorized)))"

definition resolve_session_secret :: "string option \<Rightarrow> bool \<Rightarrow> (string, string) result" where
  "resolve_session_secret env_value dev_mode =
     (case env_value of
        Some secret \<Rightarrow>
          if secret \<noteq> [] then Inr secret
          else if dev_mode then Inr ''dev-session-secret-change-in-prod!!''
          else Inl ''SESSION_SECRET must be set (OBSERVABLE_ENV is not \"dev\"); refusing to start with a default session-signing secret''
      | None \<Rightarrow>
          if dev_mode then Inr ''dev-session-secret-change-in-prod!!''
          else Inl ''SESSION_SECRET must be set (OBSERVABLE_ENV is not \"dev\"); refusing to start with a default session-signing secret'')"

subsection \<open>Users, roles and sessions\<close>

definition upsert_user :: "string \<Rightarrow> string \<Rightarrow> string option \<Rightarrow> (identity, sql_error, uuid) program" where
  "upsert_user idp_subject email name = sql (put_user idp_subject email name)"

definition upsert_user_tenant_role :: "uuid \<Rightarrow> uuid \<Rightarrow> string \<Rightarrow> (identity, sql_error, unit) program" where
  "upsert_user_tenant_role user_id tenant_id role =
     p_bind (sql (put_role True user_id tenant_id role)) (\<lambda>_. p_return ())"

definition days_7 :: int where "days_7 = 7 * 86400 * 1000000"

definition create_session :: "auth_env \<Rightarrow> uuid \<Rightarrow> uuid \<Rightarrow> string \<Rightarrow> (identity, sql_error, uuid) program" where
  "create_session env user_id tenant_id environment =
     p_bind (p_ask (ae_clock env)) (\<lambda>now.
     sql (put_session user_id tenant_id environment (now + days_7)))"

definition list_user_tenants :: "uuid \<Rightarrow> (identity, sql_error, (uuid \<times> string) list) program" where
  "list_user_tenants user_id =
     sql_select (\<lambda>t. map (\<lambda>r. (rl_tenant_id r, rl_role r)) (filter (\<lambda>r. rl_user_id r = user_id) (id_roles t)))"

definition seed_role :: "auth_env \<Rightarrow> uuid \<Rightarrow> string \<Rightarrow> (identity, unit, unit) program" where
  "seed_role env user_id tenant_str =
     (case ae_parse_uuid env tenant_str of
        None \<Rightarrow> p_fail ()
      | Some tenant_id \<Rightarrow>
          p_bind (p_map_err (\<lambda>_. ()) (sql (put_role False user_id tenant_id ''tenant_admin''))) (\<lambda>_. p_return ()))"

definition seed_dev_admin_role :: "auth_env \<Rightarrow> string \<Rightarrow> (identity, unit, unit) program" where
  "seed_dev_admin_role env dev_admin_email =
     p_bind (p_map_err (\<lambda>_. ()) (sql_select (\<lambda>t. map_option us_id (find (\<lambda>u. us_email u = dev_admin_email) (id_users t)))))
       (\<lambda>user_id. case user_id of
          None \<Rightarrow> p_return ()
        | Some uid \<Rightarrow> p_each (seed_role env uid)
            [''00000000-0000-0000-0000-000000000001'', ''00000000-0000-0000-0000-000000000002'',
             ''00000000-0000-0000-0000-000000000004''])"

end
