(* ===== verification/Auth_Sessions.thy ===== *)
theory Auth_Sessions
  imports Auth_Service
begin

section \<open>Login, sessions and their validation\<close>

text \<open>
  \<open>services/auth-service/src/oidc.rs\<close>. The response builders of the handlers end in
  \<open>unwrap\<close>, which panics when a header holds a control character; a response is therefore
  an \<open>outcome\<close>. An early return of a redirect is the failure of the program.
\<close>

subsection \<open>Cookies and redirects\<close>

definition cookie_part :: "string \<Rightarrow> string \<Rightarrow> string option" where
  "cookie_part name part =
     Option.bind (split_once (CHR ''='') part) (\<lambda>(k, v). if trim k = name then Some (trim v) else None)"

definition extract_cookie :: "headers \<Rightarrow> string \<Rightarrow> string option" where
  "extract_cookie headers name =
     Option.bind (headers ''cookie'') (\<lambda>v. Option.bind (to_str v) (\<lambda>cookie.
       find_map (cookie_part name) (map trim (split_on (CHR '';'') cookie))))"

text \<open>The characters of a UTF-8 string as numbers, and \<open>{:02X}\<close>.\<close>

fun code_points :: "nat list \<Rightarrow> nat list" where
  "code_points [] = []"
| "code_points (a # r) =
     (if a < 128 then a # code_points r
      else case r of
        [] \<Rightarrow> []
      | b # r1 \<Rightarrow>
          if a < 224 then ((a - 192) * 64 + (b - 128)) # code_points r1
          else case r1 of
            [] \<Rightarrow> []
          | c # r2 \<Rightarrow>
              if a < 240 then ((a - 224) * 4096 + (b - 128) * 64 + (c - 128)) # code_points r2
              else case r2 of
                [] \<Rightarrow> []
              | d # r3 \<Rightarrow>
                  ((a - 240) * 262144 + (b - 128) * 4096 + (c - 128) * 64 + (d - 128)) # code_points r3)"

definition upper_hex_digit :: "nat \<Rightarrow> char" where
  "upper_hex_digit n = (if n < 10 then char_of (48 + n) else char_of (55 + n))"

fun upper_hex :: "nat \<Rightarrow> string" where
  "upper_hex n = (if n < 16 then [upper_hex_digit n] else upper_hex (n div 16) @ [upper_hex_digit (n mod 16)])"

declare upper_hex.simps [simp del]

definition upper_hex2 :: "nat \<Rightarrow> string" where
  "upper_hex2 n = (if n < 16 then CHR ''0'' # upper_hex n else upper_hex n)"

definition unreserved :: "char \<Rightarrow> bool" where
  "unreserved c \<longleftrightarrow> is_ascii_alphanumeric c \<or> c \<in> {CHR ''-'', CHR ''_'', CHR ''.'', CHR ''~''}"

definition encode_point :: "nat \<Rightarrow> string" where
  "encode_point n = (if n < 128 \<and> unreserved (char_of n) then [char_of n] else CHR ''%'' # upper_hex2 n)"

definition urlencoding :: "string \<Rightarrow> string" where
  "urlencoding s = concat (map encode_point (code_points (map byte s)))"

record redirect =
  rd_location :: string
  rd_set_cookies :: "string list"

definition header_safe :: "string \<Rightarrow> bool" where
  "header_safe s \<longleftrightarrow> (\<forall>c \<in> set s. 32 \<le> byte c \<and> byte c \<noteq> 127 \<or> byte c = 9)"

definition found :: "string \<Rightarrow> string list \<Rightarrow> redirect outcome" where
  "found location cookies =
     (if header_safe location \<and> list_all header_safe cookies
      then Done \<lparr>rd_location = location, rd_set_cookies = cookies\<rparr> else Panic)"

definition secure_attr :: "auth_env \<Rightarrow> string" where
  "secure_attr env = (if ae_dev_mode env then [] else ''; Secure'')"

subsection \<open>Login and callback\<close>

definition login_handler :: "auth_env \<Rightarrow> (identity, redirect outcome, redirect outcome) program" where
  "login_handler env =
     p_bind (p_ask (generate_code_verifier env)) (\<lambda>verifier.
     p_bind (p_ask (generate_code_verifier env)) (\<lambda>state_param.
     p_return (found
       (ae_issuer env @ ''/oauth/v2/authorize'' @ ''?client_id='' @ urlencoding (ae_client_id env) @
        ''&redirect_uri='' @ urlencoding (ae_redirect_uri env) @ ''&response_type=code'' @
        ''&scope=openid+profile+email'' @ ''&code_challenge='' @ urlencoding (pkce_challenge env verifier) @
        ''&code_challenge_method=S256'' @ ''&state='' @ urlencoding state_param)
       [''pkce_cv='' @ verifier @ ''; HttpOnly; SameSite=Lax; Path=/; Max-Age=300'' @ secure_attr env,
        ''oauth_state='' @ state_param @ ''; HttpOnly; SameSite=Lax; Path=/; Max-Age=300'' @ secure_attr env])))"

definition login_error_redirect :: "auth_env \<Rightarrow> string \<Rightarrow> redirect outcome" where
  "login_error_redirect env code =
     found (''/login?error='' @ urlencoding code)
       [''pkce_cv=; Max-Age=0; Path=/'' @ secure_attr env, ''oauth_state=; Max-Age=0; Path=/'' @ secure_attr env]"

record callback_params =
  cp_code :: string
  cp_state :: string

text \<open>\<open>trim_start_matches\<close>; every round drops the pattern, so the length is enough rounds.\<close>

fun drop_pattern :: "nat \<Rightarrow> string \<Rightarrow> string \<Rightarrow> string" where
  "drop_pattern 0 p s = s"
| "drop_pattern (Suc n) p s = (case strip_prefix p s of None \<Rightarrow> s | Some r \<Rightarrow> drop_pattern n p r)"

definition trim_start_matches :: "string \<Rightarrow> string \<Rightarrow> string" where
  "trim_start_matches p s = drop_pattern (length s) p s"

definition zitadel_host :: "auth_env \<Rightarrow> string" where
  "zitadel_host env =
     hd (split_on (CHR '':'') (trim_start_matches ''https://'' (trim_start_matches ''http://'' (ae_issuer env))))"

text \<open>One exchange with the provider: an answer that is no JSON is an error of the provider.\<close>

definition ask_provider :: "auth_env \<Rightarrow> provider_request \<Rightarrow> (identity, redirect outcome, json) program" where
  "ask_provider env r =
     p_bind (p_ask (\<lambda>k. ae_provider env k r)) (\<lambda>answer.
     case answer of
       Json_body v \<Rightarrow> p_return v
     | _ \<Rightarrow> p_fail (login_error_redirect env ''provider_error''))"

definition seed_tenants :: "auth_env \<Rightarrow> uuid \<Rightarrow> (identity, redirect outcome, unit) program" where
  "seed_tenants env user_id =
     p_each (\<lambda>tenant_str. case ae_parse_uuid env tenant_str of
         None \<Rightarrow> p_fail (login_error_redirect env ''server_error'')
       | Some tid \<Rightarrow>
           p_map_err (\<lambda>_. login_error_redirect env ''server_error'') (upsert_user_tenant_role user_id tid ''tenant_admin''))
       [''00000000-0000-0000-0000-000000000001'', ''00000000-0000-0000-0000-000000000002'']"

text \<open>\<open>SELECT DISTINCT environment ... LIMIT 1\<close> answers any one of them; here, the first.\<close>

definition tenant_environment :: "uuid \<Rightarrow> identity \<Rightarrow> string option" where
  "tenant_environment tenant_id t =
     map_option key_environment (find (\<lambda>k. key_tenant_id k = tenant_id \<and> key_environment k \<noteq> []) (id_keys t))"

definition callback_identity ::
    "auth_env \<Rightarrow> callback_params \<Rightarrow> headers \<Rightarrow> (identity, redirect outcome, string \<times> string \<times> string option) program" where
  "callback_identity env params headers =
     p_bind (p_lift (ok_or (login_error_redirect env ''session_expired'') (extract_cookie headers ''pkce_cv''))) (\<lambda>verifier.
     p_bind (p_lift (ok_or (login_error_redirect env ''session_expired'') (extract_cookie headers ''oauth_state''))) (\<lambda>cookie_state.
     p_bind (p_guard (cookie_state = cp_state params) (login_error_redirect env ''session_expired'')) (\<lambda>_.
     p_bind (ask_provider env \<lparr>pr_url = ae_api_base env @ ''/oauth/v2/token'', pr_host = zitadel_host env, pr_bearer = None,
        pr_form = [(''grant_type'', ''authorization_code''), (''code'', cp_code params),
          (''redirect_uri'', ae_redirect_uri env), (''client_id'', ae_client_id env), (''code_verifier'', verifier)]\<rparr>) (\<lambda>token_resp.
     p_bind (p_lift (ok_or (login_error_redirect env ''auth_failed'') (get_str ''access_token'' token_resp))) (\<lambda>access_token.
     p_bind (ask_provider env \<lparr>pr_url = ae_api_base env @ ''/oidc/v1/userinfo'', pr_host = zitadel_host env,
        pr_bearer = Some access_token, pr_form = []\<rparr>) (\<lambda>userinfo.
     p_bind (p_lift (ok_or (login_error_redirect env ''auth_failed'') (get_str ''sub'' userinfo))) (\<lambda>sub.
     p_return (sub, unwrap_or [] (get_str ''email'' userinfo), get_str ''name'' userinfo))))))))"

text \<open>The session of the first membership, and its token.\<close>

definition callback_session ::
    "auth_env \<Rightarrow> string \<Rightarrow> uuid \<Rightarrow> (uuid \<times> string) list \<Rightarrow> (identity, redirect outcome, redirect outcome) program" where
  "callback_session env sub user_id tenants =
     (let server_error = (\<lambda>_. login_error_redirect env ''server_error'') in
     case tenants of
       [] \<Rightarrow> p_fail (login_error_redirect env ''no_access'')
     | (tenant_id, role) # _ \<Rightarrow>
     p_bind (p_map_err server_error (sql_select (tenant_environment tenant_id))) (\<lambda>env_row.
     p_bind (p_map_err server_error (create_session env user_id tenant_id (unwrap_or ''default'' env_row))) (\<lambda>session_id.
     p_bind (audit_write (audit_login sub tenant_id)) (\<lambda>_.
     p_bind (p_ask (unix_seconds env)) (\<lambda>now.
     p_bind (p_lift (ok_or (login_error_redirect env ''server_error'')
        (sign_session_jwt env user_id tenant_id role (unwrap_or ''default'' env_row) session_id now))) (\<lambda>jwt.
     p_return (found ''/''
       [''session='' @ jwt @ ''; HttpOnly'' @ secure_attr env @ ''; SameSite=Lax; Path=/; Max-Age=604800'',
        ''pkce_cv=; Max-Age=0; Path=/'', ''oauth_state=; Max-Age=0; Path=/''])))))))"

definition callback_handler ::
    "auth_env \<Rightarrow> callback_params \<Rightarrow> headers \<Rightarrow> (identity, redirect outcome, redirect outcome) program" where
  "callback_handler env params headers =
     (let server_error = (\<lambda>_. login_error_redirect env ''server_error'') in
     p_bind (callback_identity env params headers) (\<lambda>(sub, email, name).
     p_bind (p_map_err server_error (upsert_user sub email name)) (\<lambda>user_id.
     p_bind (p_map_err server_error (list_user_tenants user_id)) (\<lambda>tenants.
     if tenants = [] \<and> ae_dev_mode env then
       p_bind (seed_tenants env user_id) (\<lambda>_.
       p_bind (p_map_err server_error (list_user_tenants user_id)) (callback_session env sub user_id))
     else callback_session env sub user_id tenants))))"

subsection \<open>Logout and the current user\<close>

definition logout_credentials :: "auth_env \<Rightarrow> headers \<Rightarrow> int \<Rightarrow> (session_claims \<times> uuid \<times> uuid) option" where
  "logout_credentials env headers now =
     Option.bind (extract_cookie headers ''session'') (\<lambda>token.
     Option.bind (verify_session_jwt env now token) (\<lambda>claims.
     Option.bind (ae_parse_uuid env (cl_sub claims)) (\<lambda>user_id.
     Option.bind (ae_parse_uuid env (cl_tid claims)) (\<lambda>tenant_id. Some (claims, user_id, tenant_id)))))"

definition logout_handler :: "auth_env \<Rightarrow> headers \<Rightarrow> (identity, redirect outcome, redirect outcome) program" where
  "logout_handler env headers =
     p_bind (p_ask (unix_seconds env)) (\<lambda>now.
     p_bind (case logout_credentials env headers now of
         None \<Rightarrow> p_return ()
       | Some (claims, user_id, tenant_id) \<Rightarrow>
           p_bind (p_try (sql_update (\<lambda>now t. (revoke_sessions_where (open_session_of user_id tenant_id) now t, ())))) (\<lambda>_.
           audit_write (audit_logout (cl_sub claims) tenant_id))) (\<lambda>_.
     p_return (found ''/login'' [''session=; Max-Age=0; Path=/; HttpOnly; SameSite=Lax'' @ secure_attr env])))"

record tenant_membership =
  tm_tenant_id :: string
  tm_role :: string

record me_response =
  me_user_id :: string
  me_email :: string
  me_tenants :: "tenant_membership list"

definition me_handler :: "auth_env \<Rightarrow> headers \<Rightarrow> (identity, http_status, me_response) program" where
  "me_handler env headers =
     p_bind (p_lift (ok_or Unauthorized (extract_cookie headers ''session''))) (\<lambda>token.
     p_bind (p_ask (unix_seconds env)) (\<lambda>now.
     p_bind (p_lift (ok_or Unauthorized (verify_session_jwt env now token))) (\<lambda>claims.
     p_bind (p_lift (ok_or Unauthorized (ae_parse_uuid env (cl_sub claims)))) (\<lambda>user_id.
     p_bind (p_map_err (\<lambda>_. Internal_server_error)
       (sql_select (\<lambda>t. map_option us_email (find (\<lambda>u. us_id u = user_id) (id_users t))))) (\<lambda>email.
     p_bind (p_lift (ok_or Unauthorized email)) (\<lambda>email.
     p_bind (p_map_err (\<lambda>_. Internal_server_error) (list_user_tenants user_id)) (\<lambda>tenants.
     p_return \<lparr>me_user_id = cl_sub claims, me_email = email,
       me_tenants = map (\<lambda>(tid, role). \<lparr>tm_tenant_id = ae_show_uuid env tid, tm_role = role\<rparr>) tenants\<rparr>)))))))"

subsection \<open>Validation of a session\<close>

record validated_session =
  vd_user_id :: string
  vd_tenant_id :: string
  vd_role :: string
  vd_environment :: string

definition tenant_select_entry :: "string \<Rightarrow> uuid \<Rightarrow> bool \<Rightarrow> audit_entry" where
  "tenant_select_entry sub tenant_id allowed =
     \<lparr>au_action = ''tenant_select'', au_credential_hash = sub, au_tenant_id = Some tenant_id,
      au_outcome = (if allowed then ''allow'' else ''deny''),
      au_denial_reason = (if allowed then None else Some ''unauthorized_tenant''),
      au_auth_method = Some ''oidc_session''\<rparr>"

text \<open>The tenant and the role the session acts with.\<close>

definition session_scope ::
    "auth_env \<Rightarrow> session_claims \<Rightarrow> uuid \<Rightarrow> uuid option \<Rightarrow> (identity, http_status, string \<times> string) program" where
  "session_scope env claims user_id requested =
     (case requested of
        None \<Rightarrow> p_return (cl_tid claims, cl_role claims)
      | Some req_tid \<Rightarrow>
          p_bind (p_lift (ok_or Unauthorized (ae_parse_uuid env (cl_tid claims)))) (\<lambda>session_tid.
          if req_tid \<noteq> session_tid then
            p_bind (p_map_err (\<lambda>_. Internal_server_error) (sql_select (role_of user_id req_tid))) (\<lambda>role_opt.
            case role_opt of
              Some r \<Rightarrow>
                p_bind (audit_write (tenant_select_entry (cl_sub claims) req_tid True)) (\<lambda>_.
                p_return (ae_show_uuid env req_tid, r))
            | None \<Rightarrow>
                p_bind (audit_write (tenant_select_entry (cl_sub claims) req_tid False)) (\<lambda>_. p_fail Forbidden))
          else p_return (cl_tid claims, cl_role claims)))"

definition validate_session_handler ::
    "auth_env \<Rightarrow> string \<Rightarrow> uuid option \<Rightarrow> (identity, http_status, validated_session) program" where
  "validate_session_handler env session_token requested =
     p_bind (p_ask (unix_seconds env)) (\<lambda>now.
     p_bind (p_lift (ok_or Unauthorized (verify_session_jwt env now session_token))) (\<lambda>claims.
     p_bind (p_lift (ok_or Unauthorized (ae_parse_uuid env (cl_nonce claims)))) (\<lambda>nonce.
     p_bind (p_lift (ok_or Unauthorized (ae_parse_uuid env (cl_sub claims)))) (\<lambda>user_id.
     p_bind (p_lift (ok_or Unauthorized (ae_parse_uuid env (cl_tid claims)))) (\<lambda>_.
     p_bind (p_map_err (\<lambda>_. Internal_server_error)
       (sql (\<lambda>now _ t. Inr (t, session_active nonce user_id now t)))) (\<lambda>active.
     p_bind (if active then p_return ()
             else p_bind (audit_write (audit_deny (cl_nonce claims) user_id ''session_revoked_or_expired'')) (\<lambda>_. p_fail Unauthorized)) (\<lambda>_.
     p_bind (session_scope env claims user_id requested) (\<lambda>(tenant_id, role).
     p_return \<lparr>vd_user_id = cl_sub claims, vd_tenant_id = tenant_id, vd_role = role, vd_environment = cl_env claims\<rparr>))))))))"

end
