(* ===== verification/Auth_Middleware.thy ===== *)
theory Auth_Middleware
  imports Auth_Sessions
begin

section \<open>The authentication middleware of the services\<close>

text \<open>
  \<open>middleware/auth.rs\<close> of the administration service and the alert evaluator, which are
  the same text, and of the query service, which lacks the path of a key alone. The
  authentication service is reached through \<open>post_key\<close> and \<open>post_session\<close>; \<open>url\<close> is
  the extension with its address.
\<close>

record caller_context =
  cc_tenant_id :: uuid
  cc_user_id :: "uuid option"
  cc_role :: string

definition require_admin :: "caller_context \<Rightarrow> (http_status, unit) result" where
  "require_admin ctx = (if cc_role ctx \<noteq> ''tenant_admin'' then Inl Forbidden else Inr ())"

definition require_internal_service :: "string option \<Rightarrow> headers \<Rightarrow> (http_status, unit) result" where
  "require_internal_service token headers =
     and_then (ok_or Internal_server_error token) (\<lambda>expected.
       case verify_internal_token headers expected of
         Inl e \<Rightarrow> Inl (status_of_auth_error e)
       | Inr _ \<Rightarrow> Inr ())"

record auth_client =
  ac_url :: "string option"
  ac_parse_uuid :: "string \<Rightarrow> uuid option"
  ac_post_key :: "string \<Rightarrow> string \<Rightarrow> validate_api_key_response http_answer"
  ac_post_session :: "string \<Rightarrow> string \<Rightarrow> uuid option \<Rightarrow> validate_session_response http_answer"

definition with_status :: "(auth_error, 'a) result \<Rightarrow> (http_status, 'a) result" where
  "with_status r = (case r of Inl e \<Rightarrow> Inl (status_of_auth_error e) | Inr x \<Rightarrow> Inr x)"

definition mw_validate_session ::
    "auth_client \<Rightarrow> string \<Rightarrow> string \<Rightarrow> uuid option \<Rightarrow> (http_status, caller_context) result" where
  "mw_validate_session c auth_url token requested =
     and_then (with_status (verify_session_with_tenant (ac_parse_uuid c) (ac_post_session c auth_url) token requested)) (\<lambda>session.
     Inr \<lparr>cc_tenant_id = sc_tenant_id session, cc_user_id = Some (sc_user_id session), cc_role = sc_role session\<rparr>)"

definition verify_credentials ::
    "auth_client \<Rightarrow> string \<Rightarrow> uuid \<Rightarrow> string \<Rightarrow> (http_status, caller_context) result" where
  "verify_credentials c token tenant_id auth_url =
     and_then (with_status (verify_api_key (ac_post_key c auth_url) token)) (\<lambda>ctx.
     if ak_tenant_id ctx \<noteq> tenant_id then Inl Forbidden
     else Inr \<lparr>cc_tenant_id = tenant_id, cc_user_id = None, cc_role = ak_role ctx\<rparr>)"

definition verify_api_key_only ::
    "auth_client \<Rightarrow> string \<Rightarrow> string \<Rightarrow> (http_status, caller_context) result" where
  "verify_api_key_only c token auth_url =
     and_then (with_status (verify_api_key (ac_post_key c auth_url) token)) (\<lambda>ctx.
     Inr \<lparr>cc_tenant_id = ak_tenant_id ctx, cc_user_id = None, cc_role = ak_role ctx\<rparr>)"

text \<open>An unauthorized key falls through to the session; another answer is final.\<close>

definition unless_unauthorized ::
    "(http_status, 'a) result \<Rightarrow> (http_status, 'a) result \<Rightarrow> (http_status, 'a) result" where
  "unless_unauthorized r next = (case r of Inl Unauthorized \<Rightarrow> next | _ \<Rightarrow> r)"

definition first_of :: "'a option \<Rightarrow> 'a option \<Rightarrow> 'a option" where
  "first_of a b = (case a of None \<Rightarrow> b | Some _ \<Rightarrow> a)"

definition asserted_tenant :: "(auth_error, uuid) result \<Rightarrow> uuid option" where
  "asserted_tenant r = (case r of Inl _ \<Rightarrow> None | Inr t \<Rightarrow> Some t)"

definition session_path ::
    "auth_client \<Rightarrow> string option \<Rightarrow> string option \<Rightarrow> uuid option \<Rightarrow> (http_status, caller_context) result" where
  "session_path c session_cookie bearer requested =
     and_then (ok_or Unauthorized (first_of session_cookie bearer)) (\<lambda>session_token.
     and_then (ok_or Internal_server_error (ac_url c)) (\<lambda>auth_url.
     mw_validate_session c auth_url session_token requested))"

definition require_tenant :: "auth_client \<Rightarrow> headers \<Rightarrow> (http_status, caller_context) result" where
  "require_tenant c headers =
     and_then (with_status (extract_bearer_token headers)) (\<lambda>bearer.
     let session_cookie = extract_session_cookie headers;
         tenant_id_res = extract_tenant_id_header (ac_parse_uuid c) headers;
         tenant_id_hdr = asserted_tenant tenant_id_res;
         session = session_path c session_cookie bearer tenant_id_hdr in
     case (bearer, tenant_id_hdr) of
       (Some token, Some tenant_id) \<Rightarrow>
         and_then (ok_or Internal_server_error (ac_url c)) (\<lambda>auth_url.
         unless_unauthorized (verify_credentials c token tenant_id auth_url) session)
     | _ \<Rightarrow>
         if tenant_id_res = Inl Auth_bad_request then Inl Bad_request
         else case (bearer, session_cookie) of
           (Some token, None) \<Rightarrow>
             and_then (ok_or Internal_server_error (ac_url c)) (\<lambda>auth_url.
             unless_unauthorized (verify_api_key_only c token auth_url) session)
         | _ \<Rightarrow> session)"

definition query_require_tenant :: "auth_client \<Rightarrow> headers \<Rightarrow> (http_status, caller_context) result" where
  "query_require_tenant c headers =
     and_then (with_status (extract_bearer_token headers)) (\<lambda>bearer.
     let session_cookie = extract_session_cookie headers;
         tenant_id_res = extract_tenant_id_header (ac_parse_uuid c) headers;
         tenant_id_hdr = asserted_tenant tenant_id_res;
         session = session_path c session_cookie bearer tenant_id_hdr in
     case (bearer, tenant_id_hdr) of
       (Some token, Some tenant_id) \<Rightarrow>
         and_then (ok_or Internal_server_error (ac_url c)) (\<lambda>auth_url.
         unless_unauthorized (verify_credentials c token tenant_id auth_url) session)
     | _ \<Rightarrow> if tenant_id_res = Inl Auth_bad_request then Inl Bad_request else session)"

subsection \<open>The middleware in front of the authentication service\<close>

text \<open>The answer that a client of the service gets for a handler's result.\<close>

fun status_number :: "http_status \<Rightarrow> nat" where
  "status_number Status_ok = 200"
| "status_number Created = 201"
| "status_number No_content = 204"
| "status_number Bad_request = 400"
| "status_number Unauthorized = 401"
| "status_number Forbidden = 403"
| "status_number Not_found = 404"
| "status_number Conflict = 409"
| "status_number Payload_too_large = 413"
| "status_number Unsupported_media_type = 415"
| "status_number Unprocessable_entity = 422"
| "status_number Too_many_requests = 429"
| "status_number Internal_server_error = 500"
| "status_number Bad_gateway = 502"
| "status_number Service_unavailable = 503"

definition http_reply :: "('a \<Rightarrow> 'b) \<Rightarrow> (http_status, 'a) result \<Rightarrow> 'b http_answer" where
  "http_reply f r = (case r of Inl s \<Rightarrow> Answer (status_number s) None | Inr x \<Rightarrow> Answer 200 (Some (f x)))"

definition session_body :: "validated_session \<Rightarrow> validate_session_response" where
  "session_body v = \<lparr>vs_user_id = vd_user_id v, vs_tenant_id = vd_tenant_id v, vs_role = vd_role v\<rparr>"

definition auth_service_client :: "auth_env \<Rightarrow> identity database \<Rightarrow> auth_client" where
  "auth_service_client env db =
     \<lparr>ac_url = Some ''http://auth-service'', ac_parse_uuid = ae_parse_uuid env,
      ac_post_key = (\<lambda>_ key. http_reply (\<lambda>r. r) (snd (validate_handler env key db))),
      ac_post_session = (\<lambda>_ token requested. http_reply session_body (snd (validate_session_handler env token requested db)))\<rparr>"

lemma http_reply_success:
  "http_reply f r = Answer n (Some b) \<longleftrightarrow> n = 200 \<and> (\<exists>x. r = Inr x \<and> b = f x)"
  by (auto simp: http_reply_def split: sum.splits)

lemma verify_api_key_reply:
  "verify_api_key (\<lambda>key. http_reply (\<lambda>r. r) (r key)) token = Inr ctx \<longleftrightarrow>
   (\<exists>x. r token = Inr x \<and> ctx = \<lparr>ak_tenant_id = vk_tenant_id x, ak_role = vk_role x, ak_environment = vk_environment x\<rparr>)"
  by (auto simp: verify_api_key_Inr http_reply_success is_success_def)

lemma verify_session_reply:
  assumes "verify_session_with_tenant parse (\<lambda>token requested. http_reply session_body (r token requested)) token requested = Inr s"
  shows "\<exists>v. r token requested = Inr v \<and> parse (vd_tenant_id v) = Some (sc_tenant_id s) \<and>
     parse (vd_user_id v) = Some (sc_user_id s) \<and> sc_role s = vd_role v"
  using verify_session_Inr[OF assms] by (auto simp: http_reply_success session_body_def)

lemma with_status_Inr [simp]: "with_status r = Inr x \<longleftrightarrow> r = Inr x"
  by (auto simp: with_status_def split: sum.splits)

lemma unless_unauthorized_Inr: "unless_unauthorized r next = Inr x \<Longrightarrow> r = Inr x \<or> next = Inr x"
  by (auto simp: unless_unauthorized_def split: sum.splits http_status.splits)

text \<open>A context comes from a key that was accepted or from a session that was accepted.\<close>

lemma session_path_Inr:
  "session_path c cookie bearer requested = Inr ctx \<Longrightarrow>
   \<exists>token url s. first_of cookie bearer = Some token \<and> ac_url c = Some url \<and>
     verify_session_with_tenant (ac_parse_uuid c) (ac_post_session c url) token requested = Inr s \<and>
     ctx = \<lparr>cc_tenant_id = sc_tenant_id s, cc_user_id = Some (sc_user_id s), cc_role = sc_role s\<rparr>"
  by (auto simp: session_path_def mw_validate_session_def)

lemma verify_credentials_Inr:
  "verify_credentials c token tenant_id url = Inr ctx \<longleftrightarrow>
   (\<exists>k. verify_api_key (ac_post_key c url) token = Inr k \<and> ak_tenant_id k = tenant_id \<and>
     ctx = \<lparr>cc_tenant_id = tenant_id, cc_user_id = None, cc_role = ak_role k\<rparr>)"
  by (auto simp: verify_credentials_def)

lemma verify_api_key_only_Inr:
  "verify_api_key_only c token url = Inr ctx \<longleftrightarrow>
   (\<exists>k. verify_api_key (ac_post_key c url) token = Inr k \<and>
     ctx = \<lparr>cc_tenant_id = ak_tenant_id k, cc_user_id = None, cc_role = ak_role k\<rparr>)"
  by (auto simp: verify_api_key_only_def)

definition context_of_key :: "auth_client \<Rightarrow> string \<Rightarrow> caller_context \<Rightarrow> bool" where
  "context_of_key c token ctx \<longleftrightarrow> cc_user_id ctx = None \<and>
     (\<exists>url k. ac_url c = Some url \<and> verify_api_key (ac_post_key c url) token = Inr k \<and>
        cc_tenant_id ctx = ak_tenant_id k \<and> cc_role ctx = ak_role k)"

definition context_of_session :: "auth_client \<Rightarrow> string \<Rightarrow> uuid option \<Rightarrow> caller_context \<Rightarrow> bool" where
  "context_of_session c token requested ctx \<longleftrightarrow>
     (\<exists>url s. ac_url c = Some url \<and>
        verify_session_with_tenant (ac_parse_uuid c) (ac_post_session c url) token requested = Inr s \<and>
        cc_user_id ctx = Some (sc_user_id s) \<and> cc_tenant_id ctx = sc_tenant_id s \<and> cc_role ctx = sc_role s)"

text \<open>
  What a request presented: a bearer token that is a key, of the tenant in the header if
  there is one, or the token of a session, in the cookie or else in the bearer header.
\<close>

definition presented_context :: "auth_client \<Rightarrow> headers \<Rightarrow> string option \<Rightarrow> caller_context \<Rightarrow> bool" where
  "presented_context c headers bearer ctx \<longleftrightarrow>
     (let asserted = asserted_tenant (extract_tenant_id_header (ac_parse_uuid c) headers) in
      (\<exists>token. bearer = Some token \<and> context_of_key c token ctx \<and> (\<forall>q. asserted = Some q \<longrightarrow> cc_tenant_id ctx = q)) \<or>
      (\<exists>token. first_of (extract_session_cookie headers) bearer = Some token \<and> context_of_session c token asserted ctx))"

lemma presented_session:
  "session_path c (extract_session_cookie headers) bearer
     (asserted_tenant (extract_tenant_id_header (ac_parse_uuid c) headers)) = Inr ctx \<Longrightarrow>
   presented_context c headers bearer ctx"
  by (fastforce simp: presented_context_def context_of_session_def Let_def dest!: session_path_Inr)

lemma presented_key_of_tenant:
  "ac_url c = Some url \<Longrightarrow> verify_credentials c token tenant_id url = Inr ctx \<Longrightarrow>
   asserted_tenant (extract_tenant_id_header (ac_parse_uuid c) headers) = Some tenant_id \<Longrightarrow>
   presented_context c headers (Some token) ctx"
  by (fastforce simp: presented_context_def context_of_key_def verify_credentials_Inr Let_def)

lemma presented_key:
  "ac_url c = Some url \<Longrightarrow> verify_api_key_only c token url = Inr ctx \<Longrightarrow>
   asserted_tenant (extract_tenant_id_header (ac_parse_uuid c) headers) = None \<Longrightarrow>
   presented_context c headers (Some token) ctx"
  by (fastforce simp: presented_context_def context_of_key_def verify_api_key_only_Inr Let_def)

lemmas context_sources = presented_session presented_key_of_tenant presented_key

lemma require_tenant_sound:
  assumes "require_tenant c headers = Inr ctx"
  shows "\<exists>bearer. extract_bearer_token headers = Inr bearer \<and> presented_context c headers bearer ctx"
proof -
  obtain bearer where b: "extract_bearer_token headers = Inr bearer"
    using assms by (auto simp: require_tenant_def)
  have "presented_context c headers bearer ctx"
    using assms unfolding require_tenant_def Let_def b with_status_def sum.case and_then.simps
    by (cases bearer; cases "asserted_tenant (extract_tenant_id_header (ac_parse_uuid c) headers)";
        cases "extract_session_cookie headers")
       (auto split: if_splits dest!: unless_unauthorized_Inr intro: context_sources)
  then show ?thesis using b by blast
qed

lemma query_require_tenant_sound:
  assumes "query_require_tenant c headers = Inr ctx"
  shows "\<exists>bearer. extract_bearer_token headers = Inr bearer \<and> presented_context c headers bearer ctx"
proof -
  obtain bearer where b: "extract_bearer_token headers = Inr bearer"
    using assms by (auto simp: query_require_tenant_def)
  have "presented_context c headers bearer ctx"
    using assms unfolding query_require_tenant_def Let_def b with_status_def sum.case and_then.simps
    by (cases bearer; cases "asserted_tenant (extract_tenant_id_header (ac_parse_uuid c) headers)")
       (auto split: if_splits dest!: unless_unauthorized_Inr intro: context_sources)
  then show ?thesis using b by blast
qed

end
