(* ===== verification/Admin_Accounts.thy ===== *)
theory Admin_Accounts
  imports Auth_Middleware
begin

section \<open>Tokens and members\<close>

text \<open>
  \<open>services/admin-service/src/tokens.rs\<close> and \<open>admin_members.rs\<close>. Every handler gets the
  context of its caller from the middleware. An error of the database becomes the same
  status everywhere; a failure to write the audit log is dropped.
\<close>

definition server_error :: "('t, sql_error, 'a) program \<Rightarrow> ('t, http_status, 'a) program" where
  "server_error m = p_map_err (\<lambda>_. Internal_server_error) m"

subsection \<open>Tokens\<close>

record token_record =
  tk_id :: uuid
  tk_name :: string
  tk_tenant_name :: string
  tk_environment :: string
  tk_created_at :: int
  tk_revoked :: bool

record create_token_request =
  ct_name :: string
  ct_environment :: string

record create_token_response =
  cr_token :: token_record
  cr_plaintext :: string

definition tenant_name_of :: "uuid \<Rightarrow> identity \<Rightarrow> string option" where
  "tenant_name_of tenant_id t = map_option tn_name (find (\<lambda>r. tn_id r = tenant_id) (id_tenants t))"

text \<open>\<open>JOIN tenants\<close> keeps the keys whose tenant exists; \<open>ORDER BY created_at DESC\<close>.\<close>

definition token_rows :: "uuid \<Rightarrow> identity \<Rightarrow> token_record list" where
  "token_rows tenant_id t =
     concat (map (\<lambda>k. case tenant_name_of (key_tenant_id k) t of
          None \<Rightarrow> []
        | Some n \<Rightarrow> [\<lparr>tk_id = key_id k, tk_name = key_name k, tk_tenant_name = n, tk_environment = key_environment k,
                     tk_created_at = key_created_at k, tk_revoked = (key_revoked_at k \<noteq> None)\<rparr>])
       (sort_key (\<lambda>k. - key_created_at k) (filter (\<lambda>k. key_tenant_id k = tenant_id) (id_keys t))))"

definition list_tokens :: "caller_context \<Rightarrow> (identity, http_status, token_record list) program" where
  "list_tokens ctx =
     p_bind (p_lift (require_admin ctx)) (\<lambda>_.
     server_error (sql_select (token_rows (cc_tenant_id ctx))))"

definition audit_actor :: "auth_env \<Rightarrow> caller_context \<Rightarrow> string" where
  "audit_actor env ctx = (case cc_user_id ctx of None \<Rightarrow> ''admin_api'' | Some u \<Rightarrow> ae_show_uuid env u)"

definition admin_entry :: "auth_env \<Rightarrow> caller_context \<Rightarrow> string \<Rightarrow> audit_entry" where
  "admin_entry env ctx action =
     \<lparr>au_action = action, au_credential_hash = audit_actor env ctx, au_tenant_id = Some (cc_tenant_id ctx),
      au_outcome = ''allow'', au_denial_reason = None, au_auth_method = Some ''tenant_admin''\<rparr>"

text \<open>The tenant's name for the response, or its id when it cannot be read.\<close>

definition response_tenant_name :: "auth_env \<Rightarrow> caller_context \<Rightarrow> (identity, http_status, string) program" where
  "response_tenant_name env ctx =
     p_bind (p_try (sql_select (tenant_name_of (cc_tenant_id ctx)))) (\<lambda>r.
     p_return (case r of Inr (Some n) \<Rightarrow> n | _ \<Rightarrow> ae_show_uuid env (cc_tenant_id ctx)))"

definition token_response :: "auth_env \<Rightarrow> caller_context \<Rightarrow> api_key_row \<Rightarrow> string \<Rightarrow> (identity, http_status, create_token_response) program" where
  "token_response env ctx row plaintext =
     p_bind (response_tenant_name env ctx) (\<lambda>tenant_name.
     p_return \<lparr>cr_token = \<lparr>tk_id = key_id row, tk_name = key_name row, tk_tenant_name = tenant_name,
         tk_environment = key_environment row, tk_created_at = key_created_at row, tk_revoked = False\<rparr>,
       cr_plaintext = plaintext\<rparr>)"

definition create_token ::
    "auth_env \<Rightarrow> caller_context \<Rightarrow> create_token_request \<Rightarrow> (identity, http_status, create_token_response) program" where
  "create_token env ctx body =
     p_bind (p_lift (require_admin ctx)) (\<lambda>_.
     p_bind (p_guard (trim (ct_name body) \<noteq> [] \<and> trim (ct_environment body) \<noteq> []) Unprocessable_entity) (\<lambda>_.
     p_bind (p_ask (\<lambda>k. hex (ae_random env k))) (\<lambda>plaintext.
     p_bind (server_error (sql (\<lambda>now new t. put_key
         \<lparr>key_id = new, key_tenant_id = cc_tenant_id ctx, key_hash = sha256_hex env plaintext,
          key_name = trim (ct_name body), key_created_at = now, key_revoked_at = None, key_role = ''member'',
          key_environment = trim (ct_environment body)\<rparr> t))) (\<lambda>row.
     p_bind (audit_write (admin_entry env ctx ''token_create'')) (\<lambda>_.
     token_response env ctx row plaintext)))))"

text \<open>An update of one of the tenant's tokens that must affect a row.\<close>

definition change_token ::
    "auth_env \<Rightarrow> caller_context \<Rightarrow> string \<Rightarrow> (int \<Rightarrow> api_key_row list \<Rightarrow> api_key_row list) \<Rightarrow> (api_key_row \<Rightarrow> bool) \<Rightarrow>
     (identity, http_status, http_status) program" where
  "change_token env ctx action f p =
     p_bind (p_lift (require_admin ctx)) (\<lambda>_.
     p_bind (server_error (sql_update (\<lambda>now t. (t\<lparr>id_keys := f now (id_keys t)\<rparr>, rows_affected p (id_keys t))))) (\<lambda>n.
     p_bind (p_guard (n \<noteq> 0) Not_found) (\<lambda>_.
     p_bind (audit_write (admin_entry env ctx action)) (\<lambda>_.
     p_return No_content))))"

definition live_key :: "caller_context \<Rightarrow> uuid \<Rightarrow> api_key_row \<Rightarrow> bool" where
  "live_key ctx i k \<longleftrightarrow> key_of_tenant i (cc_tenant_id ctx) k \<and> key_revoked_at k = None"

definition revoked_key :: "caller_context \<Rightarrow> uuid \<Rightarrow> api_key_row \<Rightarrow> bool" where
  "revoked_key ctx i k \<longleftrightarrow> key_of_tenant i (cc_tenant_id ctx) k \<and> key_revoked_at k \<noteq> None"

definition revoke_token :: "auth_env \<Rightarrow> caller_context \<Rightarrow> uuid \<Rightarrow> (identity, http_status, http_status) program" where
  "revoke_token env ctx i =
     change_token env ctx ''token_revoke''
       (\<lambda>now. update_where (live_key ctx i) (\<lambda>k. k\<lparr>key_revoked_at := Some now\<rparr>)) (live_key ctx i)"

definition renew_token :: "auth_env \<Rightarrow> caller_context \<Rightarrow> uuid \<Rightarrow> (identity, http_status, create_token_response) program" where
  "renew_token env ctx i =
     p_bind (p_lift (require_admin ctx)) (\<lambda>_.
     p_bind (p_ask (\<lambda>k. hex (ae_random env k))) (\<lambda>plaintext.
     p_bind (server_error (sql (\<lambda>_ _. rekey i (cc_tenant_id ctx) (sha256_hex env plaintext)))) (\<lambda>row.
     p_bind (p_lift (ok_or Not_found row)) (\<lambda>row.
     p_bind (audit_write (admin_entry env ctx ''token_renew'')) (\<lambda>_.
     token_response env ctx row plaintext)))))"

definition restore_token :: "auth_env \<Rightarrow> caller_context \<Rightarrow> uuid \<Rightarrow> (identity, http_status, http_status) program" where
  "restore_token env ctx i =
     change_token env ctx ''token_restore''
       (\<lambda>_. update_where (revoked_key ctx i) (\<lambda>k. k\<lparr>key_revoked_at := None\<rparr>)) (revoked_key ctx i)"

definition delete_token :: "auth_env \<Rightarrow> caller_context \<Rightarrow> uuid \<Rightarrow> (identity, http_status, http_status) program" where
  "delete_token env ctx i =
     change_token env ctx ''token_delete'' (\<lambda>_. delete_where (revoked_key ctx i)) (revoked_key ctx i)"

subsection \<open>Members\<close>

record member_record =
  mr_user_id :: uuid
  mr_email :: string
  mr_name :: "string option"
  mr_role :: string
  mr_joined_at :: int

record add_member_request =
  am_email :: string
  am_role :: string

definition member_rows :: "uuid \<Rightarrow> identity \<Rightarrow> member_record list" where
  "member_rows tenant_id t =
     concat (map (\<lambda>r. case find (\<lambda>u. us_id u = rl_user_id r) (id_users t) of
          None \<Rightarrow> []
        | Some u \<Rightarrow> [\<lparr>mr_user_id = us_id u, mr_email = us_email u, mr_name = us_name u, mr_role = rl_role r,
                     mr_joined_at = rl_created_at r\<rparr>])
       (sort_key rl_created_at (filter (\<lambda>r. rl_tenant_id r = tenant_id) (id_roles t))))"

definition handle_list_members :: "caller_context \<Rightarrow> (identity, http_status, member_record list) program" where
  "handle_list_members ctx =
     p_bind (p_lift (require_admin ctx)) (\<lambda>_. server_error (sql_select (member_rows (cc_tenant_id ctx))))"

definition handle_add_member ::
    "caller_context \<Rightarrow> add_member_request \<Rightarrow> (identity, http_status, http_status \<times> member_record) program" where
  "handle_add_member ctx body =
     p_bind (p_lift (require_admin ctx)) (\<lambda>_.
     p_bind (server_error (sql_select (\<lambda>t. find (\<lambda>u. us_email u = am_email body) (id_users t)))) (\<lambda>user.
     p_bind (p_lift (ok_or Not_found user)) (\<lambda>user.
     p_bind (server_error (sql (put_role True (us_id user) (cc_tenant_id ctx) (am_role body)))) (\<lambda>joined_at.
     p_return (Created, \<lparr>mr_user_id = us_id user, mr_email = us_email user, mr_name = us_name user,
       mr_role = am_role body, mr_joined_at = joined_at\<rparr>)))))"

text \<open>\<open>UPDATE user_tenant_roles SET role = $1 WHERE ...\<close>, under the check on the roles.\<close>

definition set_role :: "uuid \<Rightarrow> uuid \<Rightarrow> string \<Rightarrow> identity \<Rightarrow> (sql_error, identity \<times> nat) result" where
  "set_role user_id tenant_id role t =
     (if rows_affected (same_role_row user_id tenant_id) (id_roles t) \<noteq> 0 \<and> role \<notin> set member_roles then Inl Sql_check
      else Inr (t\<lparr>id_roles := update_where (same_role_row user_id tenant_id) (\<lambda>r. r\<lparr>rl_role := role\<rparr>) (id_roles t)\<rparr>,
                rows_affected (same_role_row user_id tenant_id) (id_roles t)))"

definition handle_update_role ::
    "caller_context \<Rightarrow> uuid \<Rightarrow> string \<Rightarrow> (identity, http_status, http_status) program" where
  "handle_update_role ctx user_id role =
     p_bind (p_lift (require_admin ctx)) (\<lambda>_.
     p_bind (p_guard (cc_user_id ctx \<noteq> Some user_id) Forbidden) (\<lambda>_.
     p_bind (server_error (sql (\<lambda>_ _. set_role user_id (cc_tenant_id ctx) role))) (\<lambda>n.
     p_bind (p_guard (n \<noteq> 0) Not_found) (\<lambda>_. p_return No_content))))"

definition admins :: "uuid \<Rightarrow> identity \<Rightarrow> role_row list" where
  "admins tenant_id t = filter (\<lambda>r. rl_tenant_id r = tenant_id \<and> rl_role r = ''tenant_admin'') (id_roles t)"

text \<open>\<open>revoked_at IS NULL AND expires_at > now()\<close>\<close>

definition revoke_live_sessions :: "uuid \<Rightarrow> uuid \<Rightarrow> (identity, sql_error, unit) program" where
  "revoke_live_sessions user_id tenant_id =
     sql_update (\<lambda>now t. (revoke_sessions_where
       (\<lambda>s. open_session_of user_id tenant_id s \<and> now < ss_expires_at s) now t, ()))"

definition handle_remove_member :: "caller_context \<Rightarrow> uuid \<Rightarrow> (identity, http_status, http_status) program" where
  "handle_remove_member ctx user_id =
     p_bind (p_lift (require_admin ctx)) (\<lambda>_.
     p_bind (server_error (sql_select (\<lambda>t. length (admins (cc_tenant_id ctx) t)))) (\<lambda>admin_count.
     p_bind (server_error (sql_select (\<lambda>t. role_of user_id (cc_tenant_id ctx) t = Some ''tenant_admin''))) (\<lambda>target_is_admin.
     p_bind (p_guard (\<not> (target_is_admin \<and> admin_count \<le> 1)) Forbidden) (\<lambda>_.
     p_bind (transaction (\<lambda>_. Internal_server_error)
       (p_bind (server_error (revoke_live_sessions user_id (cc_tenant_id ctx))) (\<lambda>_.
        server_error (sql_update (\<lambda>_ t. (t\<lparr>id_roles := delete_where (same_role_row user_id (cc_tenant_id ctx)) (id_roles t)\<rparr>,
          rows_affected (same_role_row user_id (cc_tenant_id ctx)) (id_roles t))))))) (\<lambda>rows.
     p_bind (p_guard (rows \<noteq> 0) Not_found) (\<lambda>_. p_return No_content))))))"

definition handle_revoke_sessions :: "caller_context \<Rightarrow> uuid \<Rightarrow> (identity, http_status, http_status) program" where
  "handle_revoke_sessions ctx user_id =
     p_bind (p_lift (require_admin ctx)) (\<lambda>_.
     p_bind (server_error (revoke_live_sessions user_id (cc_tenant_id ctx))) (\<lambda>_. p_return No_content))"

end
