(* ===== verification/Admin_Tenants.thy ===== *)
theory Admin_Tenants
  imports Admin_Accounts
begin

section \<open>Tenants: listing, configuration and purge\<close>

text \<open>
  \<open>services/admin-service/src/tenants.rs\<close>. The purge reaches tables of every component;
  of those that the account services do not use only the columns it selects by are kept:
  an id, and the owner, which is the tenant or the row of the parent table. The mutations
  of ClickHouse are run asynchronously by the server; what the model keeps is that they
  have been accepted.
\<close>

subsection \<open>Listing\<close>

record tenant_record =
  tr_id :: uuid
  tr_name :: string

definition tenant_summary :: "tenant_row \<Rightarrow> tenant_record" where
  "tenant_summary r = \<lparr>tr_id = tn_id r, tr_name = tn_name r\<rparr>"

text \<open>\<open>ORDER BY\<close> on text, by the bytes.\<close>

definition string_key :: "string \<Rightarrow> nat list" where
  "string_key s = map byte s"

fun bytes_le :: "nat list \<Rightarrow> nat list \<Rightarrow> bool" where
  "bytes_le [] ys \<longleftrightarrow> True"
| "bytes_le (x # xs) [] \<longleftrightarrow> False"
| "bytes_le (x # xs) (y # ys) \<longleftrightarrow> x < y \<or> x = y \<and> bytes_le xs ys"

fun insert_by_text :: "('a \<Rightarrow> string) \<Rightarrow> 'a \<Rightarrow> 'a list \<Rightarrow> 'a list" where
  "insert_by_text f x [] = [x]"
| "insert_by_text f x (y # ys) =
     (if bytes_le (string_key (f x)) (string_key (f y)) then x # y # ys else y # insert_by_text f x ys)"

definition order_by_text :: "('a \<Rightarrow> string) \<Rightarrow> 'a list \<Rightarrow> 'a list" where
  "order_by_text f xs = foldr (insert_by_text f) xs []"

definition request_session :: "headers \<Rightarrow> (http_status, string option) result" where
  "request_session headers =
     (case extract_session_cookie headers of
        Some cookie \<Rightarrow> Inr (Some cookie)
      | None \<Rightarrow> with_status (extract_bearer_token headers))"

definition client_session :: "auth_client \<Rightarrow> string \<Rightarrow> string \<Rightarrow> (http_status, session_context) result" where
  "client_session c auth_url token =
     with_status (verify_session (ac_parse_uuid c) (ac_post_session c auth_url) token)"

definition tenants_of_user :: "uuid \<Rightarrow> identity \<Rightarrow> tenant_row list" where
  "tenants_of_user user_id t =
     concat (map (\<lambda>r. map (\<lambda>_. r) (filter (same_role_row user_id (tn_id r)) (id_roles t))) (id_tenants t))"

definition list_tenants ::
    "auth_client \<Rightarrow> string \<Rightarrow> headers \<Rightarrow> (identity, http_status, tenant_record list) program" where
  "list_tenants c auth_url headers =
     p_bind (p_lift (request_session headers)) (\<lambda>session_token.
     case session_token of
       Some token \<Rightarrow>
         p_bind (p_lift (client_session c auth_url token)) (\<lambda>session.
         server_error (sql_select (\<lambda>t. map tenant_summary (order_by_text tn_name (tenants_of_user (sc_user_id session) t)))))
     | None \<Rightarrow> server_error (sql_select (\<lambda>t. map tenant_summary (order_by_text tn_name (id_tenants t)))))"

definition environments_of :: "uuid \<Rightarrow> identity \<Rightarrow> string list" where
  "environments_of tenant_id t =
     order_by_text (\<lambda>e. e) (remdups (map key_environment
       (filter (\<lambda>k. key_tenant_id k = tenant_id \<and> key_revoked_at k = None \<and> key_environment k \<noteq> []) (id_keys t))))"

definition list_tenant_environments ::
    "auth_client \<Rightarrow> string \<Rightarrow> uuid \<Rightarrow> headers \<Rightarrow> (identity, http_status, string list) program" where
  "list_tenant_environments c auth_url tenant_id headers =
     p_bind (p_lift (request_session headers)) (\<lambda>session_token.
     p_bind (case session_token of
         None \<Rightarrow> p_return ()
       | Some token \<Rightarrow>
           p_bind (p_lift (client_session c auth_url token)) (\<lambda>session.
           p_bind (server_error (sql_select (\<lambda>t. rows_affected (same_role_row (sc_user_id session) tenant_id) (id_roles t)))) (\<lambda>has_access.
           p_guard (has_access \<noteq> 0) Forbidden))) (\<lambda>_.
     server_error (sql_select (environments_of tenant_id))))"

subsection \<open>Retention and quota\<close>

record tenant_config =
  tc_tenant_id :: uuid
  tc_retention_days :: "16 word"
  tc_ingest_quota_per_sec :: u32

text \<open>The columns are 32-bit integers; the casts between the widths are the code's \<open>as\<close>.\<close>

definition tenant_config_of :: "uuid \<Rightarrow> tenant_row \<Rightarrow> tenant_config" where
  "tenant_config_of tenant_id r =
     \<lparr>tc_tenant_id = tenant_id, tc_retention_days = ucast (tn_retention_days r),
      tc_ingest_quota_per_sec = tn_ingest_quota_per_sec r\<rparr>"

definition own_tenant :: "caller_context \<Rightarrow> uuid \<Rightarrow> (http_status, unit) result" where
  "own_tenant ctx tenant_id =
     and_then (require_admin ctx) (\<lambda>_. if cc_tenant_id ctx \<noteq> tenant_id then Inl Forbidden else Inr ())"

definition find_tenant :: "uuid \<Rightarrow> identity \<Rightarrow> tenant_row option" where
  "find_tenant tenant_id t = find (\<lambda>r. tn_id r = tenant_id) (id_tenants t)"

definition handle_get_tenant_config ::
    "caller_context \<Rightarrow> uuid \<Rightarrow> (identity, http_status, tenant_config) program" where
  "handle_get_tenant_config ctx tenant_id =
     p_bind (p_lift (own_tenant ctx tenant_id)) (\<lambda>_.
     p_bind (server_error (sql_select (find_tenant tenant_id))) (\<lambda>row.
     p_bind (p_lift (ok_or Not_found row)) (\<lambda>row.
     p_return (tenant_config_of tenant_id row))))"

definition set_config :: "uuid \<Rightarrow> 16 word \<Rightarrow> u32 \<Rightarrow> int \<Rightarrow> identity \<Rightarrow> identity \<times> tenant_row option" where
  "set_config tenant_id retention_days quota now t =
     (let t' = t\<lparr>id_tenants := update_where (\<lambda>r. tn_id r = tenant_id)
          (\<lambda>r. r\<lparr>tn_retention_days := ucast retention_days, tn_ingest_quota_per_sec := quota, tn_updated_at := now\<rparr>)
          (id_tenants t)\<rparr>
      in (t', find_tenant tenant_id t'))"

definition handle_update_tenant_config ::
    "caller_context \<Rightarrow> uuid \<Rightarrow> 16 word \<Rightarrow> u32 \<Rightarrow> (identity, http_status, tenant_config) program" where
  "handle_update_tenant_config ctx tenant_id retention_days quota =
     p_bind (p_lift (own_tenant ctx tenant_id)) (\<lambda>_.
     p_bind (server_error (sql_update (set_config tenant_id retention_days quota))) (\<lambda>row.
     p_bind (p_lift (ok_or Not_found row)) (\<lambda>row.
     p_return (tenant_config_of tenant_id row))))"

subsection \<open>Purge\<close>

record owned_row =
  ow_id :: uuid
  ow_owner :: uuid

record platform =
  pl_identity :: identity
  pl_owned :: "string \<Rightarrow> owned_row list"
  pl_mutations :: "string list"

datatype purge_scope = Of_tenant | Of_rows string

text \<open>The deletes, in the order they run; the second component is what the row is owned by.\<close>

definition purge_plan :: "(string \<times> purge_scope) list" where
  "purge_plan =
     [(''notification_audit_log'', Of_tenant), (''notification_channels'', Of_tenant),
      (''incident_events'', Of_rows ''incidents''), (''incidents'', Of_tenant),
      (''alert_firings'', Of_tenant), (''alert_rules'', Of_tenant), (''slo_definitions'', Of_tenant),
      (''deployment_markers'', Of_tenant), (''change_events'', Of_tenant), (''semantic_annotations'', Of_tenant),
      (''saved_view_grants'', Of_rows ''saved_views''), (''saved_views'', Of_tenant),
      (''dashboard_grants'', Of_rows ''dashboards''), (''dashboard_panels'', Of_rows ''dashboards''), (''dashboards'', Of_tenant),
      (''user_sessions'', Of_tenant), (''user_tenant_roles'', Of_tenant), (''api_keys'', Of_tenant), (''projects'', Of_tenant)]"

text \<open>The tables that the response reports as purged.\<close>

definition purge_tables :: "string list" where
  "purge_tables =
     [''notification_audit_log'', ''notification_channels'', ''incident_events'', ''incidents'', ''alert_firings'',
      ''alert_rules'', ''slo_definitions'', ''deployment_markers'', ''change_events'', ''semantic_annotations'',
      ''saved_view_grants'', ''saved_views'', ''dashboard_grants'', ''dashboard_panels'', ''dashboards'',
      ''user_sessions'', ''user_tenant_roles'', ''api_keys'', ''projects'', ''tenants'']"

definition ch_tables :: "string list" where
  "ch_tables = [''observable.spans'', ''observable.span_events'', ''observable.logs'',
     ''observable.metric_points'', ''observable.metric_series'']"

definition purge_mutation :: "auth_env \<Rightarrow> uuid \<Rightarrow> string \<Rightarrow> string" where
  "purge_mutation env tenant_id table =
     ''ALTER TABLE '' @ table @ '' DELETE WHERE tenant_id = '' @ [quote] @ ae_show_uuid env tenant_id @ [quote]"

definition owned_by :: "uuid \<Rightarrow> purge_scope \<Rightarrow> platform \<Rightarrow> owned_row \<Rightarrow> bool" where
  "owned_by tenant_id scope p r =
     (case scope of
        Of_tenant \<Rightarrow> ow_owner r = tenant_id
      | Of_rows parent \<Rightarrow> (\<exists>q \<in> set (pl_owned p parent). ow_owner q = tenant_id \<and> ow_id q = ow_owner r))"

definition delete_rows :: "uuid \<Rightarrow> string \<times> purge_scope \<Rightarrow> platform \<Rightarrow> platform" where
  "delete_rows tenant_id step p =
     (case step of (table, scope) \<Rightarrow>
        if table = ''user_sessions'' then
          p\<lparr>pl_identity := (pl_identity p)\<lparr>id_sessions := delete_where (\<lambda>s. ss_tenant_id s = tenant_id) (id_sessions (pl_identity p))\<rparr>\<rparr>
        else if table = ''user_tenant_roles'' then
          p\<lparr>pl_identity := (pl_identity p)\<lparr>id_roles := delete_where (\<lambda>r. rl_tenant_id r = tenant_id) (id_roles (pl_identity p))\<rparr>\<rparr>
        else if table = ''api_keys'' then
          p\<lparr>pl_identity := (pl_identity p)\<lparr>id_keys := delete_where (\<lambda>k. key_tenant_id k = tenant_id) (id_keys (pl_identity p))\<rparr>\<rparr>
        else p\<lparr>pl_owned := (pl_owned p)(table := delete_where (owned_by tenant_id scope p) (pl_owned p table))\<rparr>)"

definition run_delete :: "uuid \<Rightarrow> string \<times> purge_scope \<Rightarrow> (platform, http_status, unit) program" where
  "run_delete tenant_id step = server_error (sql_update (\<lambda>_ p. (delete_rows tenant_id step p, ())))"

definition on_identity :: "(identity \<Rightarrow> identity) \<Rightarrow> platform \<Rightarrow> platform" where
  "on_identity f p = p\<lparr>pl_identity := f (pl_identity p)\<rparr>"

text \<open>One mutation of ClickHouse: a failure is logged and the table is not listed.\<close>

fun run_mutations :: "auth_env \<Rightarrow> uuid \<Rightarrow> string list \<Rightarrow> (platform, http_status, string list) program" where
  "run_mutations env tenant_id [] = p_return []"
| "run_mutations env tenant_id (table # tables) =
     p_bind (p_try (sql_update (\<lambda>_ p. (p\<lparr>pl_mutations := pl_mutations p @ [purge_mutation env tenant_id table]\<rparr>, ())))) (\<lambda>r.
     p_bind (run_mutations env tenant_id tables) (\<lambda>purged.
     p_return (case r of Inl _ \<Rightarrow> purged | Inr _ \<Rightarrow> table # purged)))"

record purge_response =
  pu_status :: string
  pu_tenant_id :: uuid
  pu_postgres :: "string list"
  pu_clickhouse :: "string list"

definition purge_transaction :: "auth_env \<Rightarrow> caller_context \<Rightarrow> uuid \<Rightarrow> (platform, http_status, unit) program" where
  "purge_transaction env ctx tenant_id =
     p_bind (p_each (run_delete tenant_id) purge_plan) (\<lambda>_.
     p_bind (server_error (sql_update (\<lambda>_ p. (on_identity (\<lambda>t. t\<lparr>id_tenants := delete_where (\<lambda>r. tn_id r = tenant_id) (id_tenants t)\<rparr>) p,
        rows_affected (\<lambda>r. tn_id r = tenant_id) (id_tenants (pl_identity p)))))) (\<lambda>n.
     p_bind (p_guard (n \<noteq> 0) Not_found) (\<lambda>_.
     server_error (sql_update (\<lambda>_ p. (on_identity (\<lambda>t. t\<lparr>id_audit := id_audit t @ [admin_entry env ctx ''tenant_purge'']\<rparr>) p, ()))))))"

definition handle_purge_tenant ::
    "auth_env \<Rightarrow> caller_context \<Rightarrow> uuid \<Rightarrow> (platform, http_status, purge_response) program" where
  "handle_purge_tenant env ctx tenant_id =
     p_bind (p_lift (own_tenant ctx tenant_id)) (\<lambda>_.
     p_bind (run_mutations env tenant_id ch_tables) (\<lambda>purged_ch.
     p_bind (transaction (\<lambda>_. Internal_server_error) (purge_transaction env ctx tenant_id)) (\<lambda>_.
     p_return \<lparr>pu_status = ''purged'', pu_tenant_id = tenant_id, pu_postgres = purge_tables, pu_clickhouse = purged_ch\<rparr>)))"

end
