(* ===== verification/Identity_Requests.thy ===== *)
theory Identity_Requests
  imports Admin_Tenants
begin

section \<open>Sequences of requests to the account services\<close>

text \<open>
  A request to the authentication service or to the administration service is a value of
  \<open>identity_request\<close>; \<open>run_request\<close> runs its handler and drops the response. The purge,
  which reaches other tables too, is treated on its own. The locale \<open>identity_relation\<close>
  proves once that what each statement keeps is kept by every request.
\<close>

datatype identity_request =
    Validate_key string
  | Validate_session string "uuid option"
  | Login
  | Callback callback_params headers
  | Logout headers
  | Me headers
  | Seed_admin string
  | List_tokens caller_context
  | Create_token caller_context create_token_request
  | Revoke_token caller_context uuid
  | Renew_token caller_context uuid
  | Restore_token caller_context uuid
  | Delete_token caller_context uuid
  | List_members caller_context
  | Add_member caller_context add_member_request
  | Update_role caller_context uuid string
  | Remove_member caller_context uuid
  | Revoke_sessions caller_context uuid
  | Get_config caller_context uuid
  | Update_config caller_context uuid "16 word" u32

definition run :: "('t, 'e, 'a) program \<Rightarrow> 't database \<Rightarrow> 't database" where
  "run m db = fst (m db)"

primrec run_request :: "auth_env \<Rightarrow> identity_request \<Rightarrow> identity database \<Rightarrow> identity database" where
  "run_request env (Validate_key key) = run (validate_handler env key)"
| "run_request env (Validate_session token requested) = run (validate_session_handler env token requested)"
| "run_request env Login = run (login_handler env)"
| "run_request env (Callback params hs) = run (callback_handler env params hs)"
| "run_request env (Logout hs) = run (logout_handler env hs)"
| "run_request env (Me hs) = run (me_handler env hs)"
| "run_request env (Seed_admin email) = run (seed_dev_admin_role env email)"
| "run_request env (List_tokens ctx) = run (list_tokens ctx)"
| "run_request env (Create_token ctx body) = run (create_token env ctx body)"
| "run_request env (Revoke_token ctx i) = run (revoke_token env ctx i)"
| "run_request env (Renew_token ctx i) = run (renew_token env ctx i)"
| "run_request env (Restore_token ctx i) = run (restore_token env ctx i)"
| "run_request env (Delete_token ctx i) = run (delete_token env ctx i)"
| "run_request env (List_members ctx) = run (handle_list_members ctx)"
| "run_request env (Add_member ctx body) = run (handle_add_member ctx body)"
| "run_request env (Update_role ctx u role) = run (handle_update_role ctx u role)"
| "run_request env (Remove_member ctx u) = run (handle_remove_member ctx u)"
| "run_request env (Revoke_sessions ctx u) = run (handle_revoke_sessions ctx u)"
| "run_request env (Get_config ctx i) = run (handle_get_tenant_config ctx i)"
| "run_request env (Update_config ctx i days quota) = run (handle_update_tenant_config ctx i days quota)"

definition run_requests :: "auth_env \<Rightarrow> identity_request list \<Rightarrow> identity database \<Rightarrow> identity database" where
  "run_requests env rs db = fold (run_request env) rs db"

text \<open>
  What a relation on the tables has to keep, statement by statement. A statement that only
  some requests run is asked for only when such a request is allowed by \<open>ok\<close>, and one
  behind an authorization check only for a caller that passes it.
\<close>

definition fresh_hash :: "auth_env \<Rightarrow> nat \<Rightarrow> string \<Rightarrow> bool" where
  "fresh_hash env start h \<longleftrightarrow> (\<exists>n \<ge> start. h = sha256_hex env (hex (ae_random env n)))"

locale identity_relation = table_relation I R start
  for I :: "identity \<Rightarrow> bool" and R :: "identity \<Rightarrow> identity \<Rightarrow> bool" and start :: nat +
  fixes env :: auth_env and ok :: "identity_request \<Rightarrow> bool"
  assumes audit: "I t \<Longrightarrow> R t (t\<lparr>id_audit := id_audit t @ [e]\<rparr>)"
    and config: "ok (Update_config ctx i days quota) \<Longrightarrow> own_tenant ctx i = Inr () \<Longrightarrow> I t \<Longrightarrow> R t (fst (set_config i days quota now t))"
    and user: "ok (Callback params hs) \<Longrightarrow> I t \<Longrightarrow> put_user subject email name now new t = Inr (t', x) \<Longrightarrow> R t t'"
    and session: "ok (Callback params hs) \<Longrightarrow> I t \<Longrightarrow> (\<exists>r \<in> set (id_roles t). same_role_row u tn r) \<Longrightarrow>
      put_session u tn en until now new t = Inr (t', x) \<Longrightarrow> R t t'"
    and role: "ok (Callback params hs) \<and> ae_dev_mode env \<or> ok (Seed_admin s) \<or>
        ok (Add_member ctx b) \<and> require_admin ctx = Inr () \<and> tn = cc_tenant_id ctx \<and> r = am_role b \<Longrightarrow> I t \<Longrightarrow>
      put_role c u tn r now new t = Inr (t', y) \<Longrightarrow> R t t'"
    and set_role: "ok (Update_role ctx u r) \<Longrightarrow> require_admin ctx = Inr () \<Longrightarrow> I t \<Longrightarrow> set_role u (cc_tenant_id ctx) r t = Inr (t', n) \<Longrightarrow> R t t'"
    and remove_role: "ok (Remove_member ctx u) \<Longrightarrow> require_admin ctx = Inr () \<Longrightarrow> I t \<Longrightarrow>
      R t (t\<lparr>id_roles := delete_where (same_role_row u (cc_tenant_id ctx)) (id_roles t)\<rparr>)"
    and revoke: "I t \<Longrightarrow> R t (revoke_sessions_where p now t)"
    and new_key: "ok (Create_token ctx cb) \<Longrightarrow> require_admin ctx = Inr () \<Longrightarrow> I t \<Longrightarrow> fresh_hash env start (key_hash k) \<Longrightarrow>
      key_tenant_id k = cc_tenant_id ctx \<Longrightarrow> put_key k t = Inr (t', k') \<Longrightarrow> R t t'"
    and renew_key: "ok (Renew_token ctx i) \<Longrightarrow> require_admin ctx = Inr () \<Longrightarrow> I t \<Longrightarrow> fresh_hash env start h \<Longrightarrow> rekey i (cc_tenant_id ctx) h t = Inr (t', ko) \<Longrightarrow> R t t'"
    and revoke_key: "ok (Revoke_token ctx i) \<Longrightarrow> require_admin ctx = Inr () \<Longrightarrow> I t \<Longrightarrow>
      R t (t\<lparr>id_keys := update_where (live_key ctx i) (\<lambda>k. k\<lparr>key_revoked_at := Some now\<rparr>) (id_keys t)\<rparr>)"
    and restore_key: "ok (Restore_token ctx i) \<Longrightarrow> require_admin ctx = Inr () \<Longrightarrow> I t \<Longrightarrow>
      R t (t\<lparr>id_keys := update_where (revoked_key ctx i) (\<lambda>k. k\<lparr>key_revoked_at := None\<rparr>) (id_keys t)\<rparr>)"
    and delete_key: "ok (Delete_token ctx i) \<Longrightarrow> require_admin ctx = Inr () \<Longrightarrow> I t \<Longrightarrow> R t (t\<lparr>id_keys := delete_where (revoked_key ctx i) (id_keys t)\<rparr>)"
begin

lemma keeps_at_bind_ask:
  assumes "\<And>k. start \<le> k \<Longrightarrow> keeps_at t (g (f k))"
  shows "keeps_at t (p_bind (p_ask f) g)"
  unfolding keeps_at_def
proof (intro allI impI)
  fix db :: "identity database"
  assume t: "db_tables db = t \<and> start \<le> db_steps db"
  let ?db = "fst (g (f (db_steps db)) (tick db))"
  have 1: "R t (db_tables ?db) \<and> same_world (tick db) ?db"
    using assms[of "db_steps db"] t by (simp add: keeps_at_def)
  then have "same_world db ?db" using same_world_trans[of db "tick db"] by simp
  then show "R t (db_tables (fst (p_bind (p_ask f) g db))) \<and> same_world db (fst (p_bind (p_ask f) g db))"
    using 1 by (simp add: p_bind_def p_ask_def)
qed

lemma keeps_bind_ask: "(\<And>k. start \<le> k \<Longrightarrow> keeps (g (f k))) \<Longrightarrow> keeps (p_bind (p_ask f) g)"
  by (rule keepsI, rule keeps_at_bind_ask) (simp add: keeps_at_keeps)

lemma keeps_ask [intro!]: "keeps (p_ask f)"
  by (simp add: keeps_def keeps_at_def p_ask_def refl)

text \<open>What follows a check is run only when it passes.\<close>

lemma keeps_bind_lift: "(\<And>x. r = Inr x \<Longrightarrow> keeps (f x)) \<Longrightarrow> keeps (p_bind (p_lift r) f)"
  by (cases r) (auto simp: p_bind_def p_lift_def keeps_def keeps_at_def refl)

lemma keeps_server_error [intro!]: "keeps m \<Longrightarrow> keeps (server_error m)"
  by (simp add: server_error_def keeps_map_err)

lemma keeps_audit [intro!]: "keeps (audit_write e)"
  by (auto simp: audit_write_def audit_insert_def intro!: keeps_update audit)

lemma keeps_sql_read [intro!]: "keeps (sql (\<lambda>now new t. Inr (t, f now t)))"
  by (rule keeps_sql) (auto intro: refl)

lemma keeps_session_path [intro!]: "keeps (session_scope env claims user_id requested)"
  by (auto simp: session_scope_def split: option.splits)

lemma keeps_lookup [intro!]: "keeps (lookup_api_key env key)"
  by (auto simp: lookup_api_key_def Let_def split: option.splits prod.splits)

lemma keeps_validate: "keeps (validate_handler env key)"
  by (auto simp: validate_handler_def Let_def split: sum.splits prod.splits)

lemma keeps_validate_session: "keeps (validate_session_handler env token requested)"
  by (auto simp: validate_session_handler_def split: prod.splits)

lemma keeps_login: "keeps (login_handler env)"
  by (auto simp: login_handler_def)

lemma keeps_me: "keeps (me_handler env hs)"
  by (auto simp: me_handler_def list_user_tenants_def)

lemma keeps_logout: "keeps (logout_handler env hs)"
  by (auto simp: logout_handler_def revoke split: option.splits prod.splits intro!: keeps_update)

lemma keeps_callback_identity [intro!]: "keeps (callback_identity env params hs)"
  by (auto simp: callback_identity_def ask_provider_def split: json_answer.splits)

lemma keeps_seed_tenants:
  assumes "ok (Callback params hs)" "ae_dev_mode env"
  shows "keeps (seed_tenants env u)"
  unfolding seed_tenants_def
  using assms by (intro keeps_each)
     (auto simp: upsert_user_tenant_role_def split: option.splits intro!: keeps_sql intro: role)

lemma keeps_at_map_err: "keeps_at t m \<Longrightarrow> keeps_at t (p_map_err g m)"
  by (simp add: keeps_at_def)

text \<open>The session that a callback opens belongs to a membership that it has just read.\<close>

lemma keeps_at_callback_session:
  assumes "ok (Callback params hs)" and "tenants = map (\<lambda>r. (rl_tenant_id r, rl_role r)) (filter (\<lambda>r. rl_user_id r = u) (id_roles t))"
  shows "keeps_at t (callback_session env sub u tenants)"
proof (cases tenants)
  case Nil
  then show ?thesis by (auto simp: callback_session_def intro: keeps_at_keeps)
next
  case (Cons p ps)
  obtain tn r where p: "p = (tn, r)" by (cases p)
  have "(tn, r) \<in> set tenants" using Cons p by simp
  then have "\<exists>x \<in> set (id_roles t). same_role_row u tn x"
    by (auto simp: assms(2) same_role_row_def)
  then have "keeps_at t (create_session env u tn en)" for en
    unfolding create_session_def
    by (intro keeps_at_bind_ask keeps_at_sql) (auto intro: session[OF assms(1)])
  then show ?thesis
    unfolding callback_session_def Let_def Cons p list.case prod.case
    by (intro keeps_at_bind_select keeps_at_bind keeps_at_map_err) auto
qed

lemma keeps_callback:
  assumes ok: "ok (Callback params hs)"
  shows "keeps (callback_handler env params hs)"
proof -
  have list: "keeps (p_bind (p_map_err g (list_user_tenants u)) (callback_session env sub u))" for g u sub
    unfolding list_user_tenants_def
    by (intro keepsI keeps_at_bind_select keeps_at_callback_session[OF ok] HOL.refl)
  have tail: "keeps (p_bind (p_map_err g (list_user_tenants u)) (\<lambda>tenants.
       if tenants = [] \<and> ae_dev_mode env then p_bind (seed_tenants env u) (\<lambda>_. p_bind (p_map_err g (list_user_tenants u)) (callback_session env sub u))
       else callback_session env sub u tenants))" for g u sub
  proof (rule keepsI)
    fix t :: identity
    let ?ts = "map (\<lambda>r. (rl_tenant_id r, rl_role r)) (filter (\<lambda>r. rl_user_id r = u) (id_roles t))"
    have seeded: "keeps (p_bind (seed_tenants env u) (\<lambda>_. p_bind (p_map_err g (list_user_tenants u)) (callback_session env sub u)))"
      if "ae_dev_mode env"
      using keeps_seed_tenants[OF ok that] list by (rule keeps_bind)
    have "keeps_at t (if ?ts = [] \<and> ae_dev_mode env
       then p_bind (seed_tenants env u) (\<lambda>_. p_bind (p_map_err g (list_user_tenants u)) (callback_session env sub u))
       else callback_session env sub u ?ts)"
      using keeps_at_keeps[OF seeded] keeps_at_callback_session[OF ok HOL.refl] by auto
    then show "keeps_at t (p_bind (p_map_err g (list_user_tenants u)) (\<lambda>tenants.
       if tenants = [] \<and> ae_dev_mode env then p_bind (seed_tenants env u) (\<lambda>_. p_bind (p_map_err g (list_user_tenants u)) (callback_session env sub u))
       else callback_session env sub u tenants))"
      unfolding list_user_tenants_def by (rule keeps_at_bind_select)
  qed
  show ?thesis
    unfolding callback_handler_def Let_def upsert_user_def
    by (auto intro!: tail keeps_sql intro: user[OF ok] split: prod.splits)
qed

lemma keeps_seed_admin:
  assumes "ok (Seed_admin email)"
  shows "keeps (seed_dev_admin_role env email)"
  unfolding seed_dev_admin_role_def
  using role[OF disjI2[OF disjI1[OF assms]]]
  by (auto simp: seed_role_def split: option.splits intro!: keeps_sql keeps_each)

lemma keeps_token_response [intro!]: "keeps (token_response env ctx row plaintext)"
  by (auto simp: token_response_def response_tenant_name_def)

lemma new_random_key:
  assumes "ok (Create_token ctx cb)" "require_admin ctx = Inr ()" "I t" "start \<le> n"
    "put_key \<lparr>key_id = i, key_tenant_id = cc_tenant_id ctx, key_hash = sha256_hex env (hex (ae_random env n)), key_name = a,
       key_created_at = now, key_revoked_at = None, key_role = r, key_environment = b\<rparr> t = Inr (t', k')"
  shows "R t t'"
  by (rule new_key[OF assms(1-3) _ _ assms(5)]) (use assms(4) in \<open>auto simp: fresh_hash_def\<close>)

lemma renew_random_key:
  assumes "ok (Renew_token ctx i)" "require_admin ctx = Inr ()" "I t" "start \<le> n" "rekey i (cc_tenant_id ctx) (sha256_hex env (hex (ae_random env n))) t = Inr (t', ko)"
  shows "R t t'"
  by (rule renew_key[OF assms(1-3) _ assms(5)]) (use assms(4) in \<open>auto simp: fresh_hash_def\<close>)

lemma keeps_create_token: "ok (Create_token ctx body) \<Longrightarrow> keeps (create_token env ctx body)"
  unfolding create_token_def
  by (rule keeps_bind_lift, rule keeps_bind, rule keeps_guard, rule keeps_bind_ask)
     (auto intro!: keeps_sql intro: new_random_key)

lemma keeps_renew_token: "ok (Renew_token ctx i) \<Longrightarrow> keeps (renew_token env ctx i)"
  unfolding renew_token_def
  by (rule keeps_bind_lift, rule keeps_bind_ask)
     (auto intro!: keeps_sql intro: renew_random_key)

lemma keeps_change_token:
  "(\<And>now t. require_admin ctx = Inr () \<Longrightarrow> I t \<Longrightarrow> R t (t\<lparr>id_keys := f now (id_keys t)\<rparr>)) \<Longrightarrow>
   keeps (change_token env ctx action f p)"
  unfolding change_token_def by (rule keeps_bind_lift) (auto intro!: keeps_update)

lemma keeps_revoke_token: "ok (Revoke_token ctx i) \<Longrightarrow> keeps (revoke_token env ctx i)"
  by (auto simp: revoke_token_def intro!: keeps_change_token revoke_key)

lemma keeps_restore_token: "ok (Restore_token ctx i) \<Longrightarrow> keeps (restore_token env ctx i)"
  by (auto simp: restore_token_def intro!: keeps_change_token restore_key)

lemma keeps_delete_token: "ok (Delete_token ctx i) \<Longrightarrow> keeps (delete_token env ctx i)"
  by (auto simp: delete_token_def intro!: keeps_change_token delete_key)

lemma keeps_list_tokens: "keeps (list_tokens ctx)"
  by (auto simp: list_tokens_def)

lemma keeps_list_members: "keeps (handle_list_members ctx)"
  by (auto simp: handle_list_members_def)

lemma keeps_add_member: "ok (Add_member ctx body) \<Longrightarrow> keeps (handle_add_member ctx body)"
  unfolding handle_add_member_def
  by (rule keeps_bind_lift) (auto intro!: keeps_sql intro: role)

lemma keeps_update_role: "ok (Update_role ctx u r) \<Longrightarrow> keeps (handle_update_role ctx u r)"
  unfolding handle_update_role_def
  by (rule keeps_bind_lift) (auto intro!: keeps_sql intro: set_role)

lemma keeps_revoke_live [intro!]: "keeps (revoke_live_sessions u tn)"
  by (auto simp: revoke_live_sessions_def intro!: keeps_update revoke)

lemma keeps_remove_member: "ok (Remove_member ctx u) \<Longrightarrow> keeps (handle_remove_member ctx u)"
  unfolding handle_remove_member_def
  by (rule keeps_bind_lift) (auto intro!: keeps_update remove_role)

lemma keeps_revoke_sessions: "keeps (handle_revoke_sessions ctx u)"
  by (auto simp: handle_revoke_sessions_def)

lemma keeps_get_config: "keeps (handle_get_tenant_config ctx i)"
  by (auto simp: handle_get_tenant_config_def)

lemma keeps_update_config: "ok (Update_config ctx i days quota) \<Longrightarrow> keeps (handle_update_tenant_config ctx i days quota)"
  unfolding handle_update_tenant_config_def
  by (rule keeps_bind_lift) (auto intro!: keeps_update config)

lemmas keeps_handlers =
  keeps_validate keeps_validate_session keeps_login keeps_callback keeps_logout keeps_me keeps_seed_admin keeps_list_tokens
  keeps_create_token keeps_revoke_token keeps_renew_token keeps_restore_token keeps_delete_token keeps_list_members
  keeps_add_member keeps_update_role keeps_remove_member keeps_revoke_sessions keeps_get_config keeps_update_config

lemma keeps_request:
  "ok r \<Longrightarrow> start \<le> db_steps db \<Longrightarrow>
   R (db_tables db) (db_tables (run_request env r db)) \<and> same_world db (run_request env r db)"
  by (cases r) (simp_all add: run_def keepsD keeps_world keeps_handlers)

lemma requests_kept:
  "(\<forall>r \<in> set rs. ok r) \<Longrightarrow> start \<le> db_steps db \<Longrightarrow>
   R (db_tables db) (db_tables (run_requests env rs db)) \<and> same_world db (run_requests env rs db)"
proof (induction rs arbitrary: db)
  case Nil
  then show ?case by (simp add: run_requests_def refl)
next
  case (Cons r rs)
  let ?db = "run_request env r db"
  have 1: "R (db_tables db) (db_tables ?db)" "same_world db ?db" using keeps_request[of r db] Cons.prems by auto
  then have "start \<le> db_steps ?db" using Cons.prems by (simp add: same_world_def)
  then have 2: "R (db_tables ?db) (db_tables (run_requests env rs ?db))" "same_world ?db (run_requests env rs ?db)"
    using Cons.IH[of ?db] Cons.prems by auto
  show ?case
    using trans[OF 1(1) 2(1)] same_world_trans[OF 1(2) 2(2)] by (simp add: run_requests_def)
qed

end

end
