(* ===== verification/Identity_Invariants.thy ===== *)
theory Identity_Invariants
  imports Identity_Requests
begin

section \<open>Relations that the account services keep\<close>

text \<open>
  Five interpretations of \<open>identity_relation\<close>: every request keeps the tables
  well-formed; only an administrator's requests change what a tenant has; only a request
  for a role makes a member hold it; once a member is removed, no request but a new grant
  lets the member back in; once a token is revoked, no request but its restoration revives
  it.
\<close>

subsection \<open>Every request keeps the tables well-formed\<close>

lemma put_user_ok: "identity_ok t \<Longrightarrow> put_user s em nm now new t = Inr (t', x) \<Longrightarrow> identity_ok t'"
  by (auto simp: put_user_def identity_ok_def user_exists_def find_None_iff split: option.splits if_splits)

lemma put_session_ok: "identity_ok t \<Longrightarrow> put_session u tn en until now new t = Inr (t', x) \<Longrightarrow> identity_ok t'"
  by (auto simp: put_session_def identity_ok_def split: if_splits)

lemma role_key_other: "(\<And>x. x \<in> set rows \<Longrightarrow> \<not> same_role_row u tn x) \<Longrightarrow> (u, tn) \<notin> role_key ` set rows"
  by (auto simp: role_key_def same_role_row_def)

lemma update_role_ok:
  "identity_ok t \<Longrightarrow> r \<in> set member_roles \<Longrightarrow>
   identity_ok (t\<lparr>id_roles := update_where (same_role_row u tn) (\<lambda>x. x\<lparr>rl_role := r\<rparr>) (id_roles t)\<rparr>)"
  by (auto simp: identity_ok_def role_key_def set_update_where)

lemma put_role_ok:
  assumes "identity_ok t" "put_role c u tn r now new t = Inr (t', x)"
  shows "identity_ok t'"
proof (cases "find (same_role_row u tn) (id_roles t)")
  case None
  then have "(u, tn) \<notin> role_key ` set (id_roles t)" by (intro role_key_other) (auto simp: find_None_iff)
  then show ?thesis using assms None
    by (auto simp: put_role_def identity_ok_def role_key_def split: if_splits)
next
  case (Some r')
  then show ?thesis using assms by (auto simp: put_role_def update_role_ok split: if_splits)
qed

lemma set_role_ok: "identity_ok t \<Longrightarrow> set_role u tn r t = Inr (t', n) \<Longrightarrow> identity_ok t'"
proof -
  assume ok: "identity_ok t" and s: "set_role u tn r t = Inr (t', n)"
  show ?thesis
  proof (cases "r \<in> set member_roles")
    case True
    then show ?thesis using ok s by (auto simp: set_role_def update_role_ok split: if_splits)
  next
    case False
    then have "\<forall>x \<in> set (id_roles t). \<not> same_role_row u tn x" using s by (auto simp: set_role_def split: if_splits)
    then have "update_where (same_role_row u tn) (\<lambda>x. x\<lparr>rl_role := r\<rparr>) (id_roles t) = id_roles t"
      by (auto simp: update_where_def intro!: map_idI)
    then show ?thesis using ok s by (auto simp: set_role_def split: if_splits)
  qed
qed

lemma put_key_ok: "identity_ok t \<Longrightarrow> put_key k t = Inr (t', x) \<Longrightarrow> identity_ok t'"
  by (auto simp: put_key_def identity_ok_def split: if_splits)

lemma key_update_ok:
  "identity_ok t \<Longrightarrow> (\<And>k. key_id (f k) = key_id k \<and> key_hash (f k) = key_hash k \<and> key_role (f k) = key_role k) \<Longrightarrow>
   identity_ok (t\<lparr>id_keys := update_where p f (id_keys t)\<rparr>)"
  by (auto simp: identity_ok_def set_update_where)

text \<open>A renewed key has a hash that no other key has.\<close>

lemma distinct_update_one:
  assumes "distinct (map g xs)" "distinct (map h xs)" "\<And>x. x \<in> set xs \<Longrightarrow> h x \<noteq> i \<Longrightarrow> g x \<noteq> v"
    "\<And>x. p x \<Longrightarrow> h x = i" "\<And>x. g (f x) = v"
  shows "distinct (map g (update_where p f xs))"
  using assms
proof (induction xs)
  case Nil
  then show ?case by (simp add: update_where_def)
next
  case (Cons y ys)
  have tail: "distinct (map g (update_where p f ys))" using Cons by auto
  have others: "g z \<noteq> v" if "z \<in> set ys" "h y = i" for z
  proof -
    have "h z \<noteq> i" using Cons.prems(2) that by (metis distinct.simps(2) list.set_map list.simps(9) imageI)
    then show ?thesis using Cons.prems(3) that by simp
  qed
  have "g y' \<notin> g ` set (update_where p f ys)" if y': "y' = (if p y then f y else y)" for y'
  proof (cases "p y")
    case True
    then have "h y = i" using Cons.prems(4) by simp
    moreover have "\<not> p z" if "z \<in> set ys" for z
      using Cons.prems(2,4) that \<open>h y = i\<close> by (metis distinct.simps(2) list.set_map list.simps(9) imageI)
    ultimately show ?thesis using others True y' Cons.prems(5) by (auto simp: set_update_where)
  next
    case False
    have "g y \<noteq> v" if "z \<in> set ys" "p z" for z
      using Cons.prems(2,3,4) that by (metis distinct.simps(2) list.set_intros(1) list.set_map list.simps(9) imageI)
    then show ?thesis using False y' Cons.prems(1,5) by (auto simp: set_update_where)
  qed
  then show ?case using tail by (auto simp: update_where_def)
qed

lemma rekey_ok:
  assumes ok: "identity_ok t" and r: "rekey i tn h t = Inr (t', x)"
  shows "identity_ok t'"
proof (cases "find (key_of_tenant i tn) (id_keys t)")
  case None
  then show ?thesis using assms by (auto simp: rekey_def)
next
  case (Some k)
  let ?f = "\<lambda>k. k\<lparr>key_hash := h, key_revoked_at := None\<rparr>"
  have new: "\<forall>k' \<in> set (id_keys t). key_id k' \<noteq> i \<longrightarrow> key_hash k' \<noteq> h"
    and t': "t' = t\<lparr>id_keys := update_where (key_of_tenant i tn) ?f (id_keys t)\<rparr>"
    using r Some by (auto simp: rekey_def split: if_splits)
  have "distinct (map key_hash (update_where (key_of_tenant i tn) ?f (id_keys t)))"
    by (rule distinct_update_one[where h = key_id and i = i and v = h])
       (use ok new in \<open>auto simp: identity_ok_def key_of_tenant_def\<close>)
  then show ?thesis using ok by (auto simp: t' identity_ok_def set_update_where)
qed

lemma delete_ok:
  "identity_ok t \<Longrightarrow> identity_ok (t\<lparr>id_roles := delete_where p (id_roles t)\<rparr>)"
  "identity_ok t \<Longrightarrow> identity_ok (t\<lparr>id_keys := delete_where q (id_keys t)\<rparr>)"
  by (simp_all add: identity_ok_def)

lemma same_identity_ok:
  "identity_ok (t\<lparr>id_audit := a\<rparr>) = identity_ok t"
  "identity_ok (t\<lparr>id_tenants := b\<rparr>) = identity_ok t"
  "identity_ok (revoke_sessions_where p now t) = identity_ok t"
  "identity_ok (fst (set_config i days quota now t)) = identity_ok t"
  by (simp_all add: identity_ok_def revoke_sessions_where_def set_config_def Let_def)

lemmas statements_ok = put_user_ok put_session_ok put_role_ok set_role_ok put_key_ok rekey_ok

interpretation well_formed: identity_relation identity_ok "\<lambda>t t'. identity_ok t \<longrightarrow> identity_ok t'" 0 env "\<lambda>_. True" for env
proof (unfold_locales, goal_cases)
  case (6 params hs t s em nm now new t' x)
  then show ?case using put_user_ok by blast
next
  case (7 params hs t u tn en until now new t' x)
  then show ?case using put_session_ok by blast
next
  case (8 params hs s ctx b tn r t c u now new t' y)
  then show ?case using put_role_ok by blast
next
  case (9 ctx u r t t' n)
  then show ?case using set_role_ok by blast
next
  case (12 ctx cb t k t' k')
  then show ?case using put_key_ok by blast
next
  case (13 ctx i t h t' ko)
  then show ?case using rekey_ok by blast
qed (simp_all add: same_identity_ok delete_ok key_update_ok)

subsection \<open>What a statement leaves alone\<close>

lemma put_user_frame:
  "put_user sb em nm now new t = Inr (t', x) \<Longrightarrow>
   id_roles t' = id_roles t \<and> id_sessions t' = id_sessions t \<and> id_keys t' = id_keys t"
  by (auto simp: put_user_def split: option.splits if_splits)

lemma put_session_frame:
  "put_session u tn en until now new t = Inr (t', x) \<Longrightarrow>
   id_roles t' = id_roles t \<and> id_keys t' = id_keys t \<and>
   (\<exists>s. id_sessions t' = id_sessions t @ [s] \<and> ss_user_id s = u \<and> ss_tenant_id s = tn)"
  by (auto simp: put_session_def split: if_splits)

lemma put_role_frame:
  "put_role c u tn r now new t = Inr (t', y) \<Longrightarrow>
   id_sessions t' = id_sessions t \<and> id_keys t' = id_keys t \<and>
   (\<forall>x' \<in> set (id_roles t'). role_key x' = (u, tn) \<or> x' \<in> set (id_roles t))"
  by (auto simp: put_role_def set_update_where same_role_row_def role_key_def split: option.splits if_splits)

lemma role_key_set [simp]:
  "role_key ` set (update_where p (\<lambda>x. x\<lparr>rl_role := r\<rparr>) rows) = role_key ` set rows"
  by (rule image_update_where) (simp add: role_key_def)

lemma set_role_frame:
  assumes "set_role u tn r t = Inr (t', n)"
  shows "id_sessions t' = id_sessions t \<and> id_keys t' = id_keys t \<and> role_key ` set (id_roles t') = role_key ` set (id_roles t)"
proof -
  have "t' = t\<lparr>id_roles := update_where (same_role_row u tn) (\<lambda>x. x\<lparr>rl_role := r\<rparr>) (id_roles t)\<rparr>"
    using assms by (simp add: set_role_def split: if_splits)
  then show ?thesis by simp
qed

lemma put_key_frame:
  "put_key k t = Inr (t', x) \<Longrightarrow>
   id_roles t' = id_roles t \<and> id_sessions t' = id_sessions t \<and> id_keys t' = id_keys t @ [k]"
  by (auto simp: put_key_def split: if_splits)

lemma rekey_frame:
  "rekey i tn h t = Inr (t', x) \<Longrightarrow>
   id_roles t' = id_roles t \<and> id_sessions t' = id_sessions t \<and>
   (\<forall>k' \<in> set (id_keys t'). k' \<in> set (id_keys t) \<or> key_hash k' = h)"
  by (auto simp: rekey_def set_update_where split: option.splits if_splits)

lemma set_config_frame:
  "id_roles (fst (set_config i days quota now t)) = id_roles t"
  "id_sessions (fst (set_config i days quota now t)) = id_sessions t"
  "id_keys (fst (set_config i days quota now t)) = id_keys t"
  by (simp_all add: set_config_def Let_def)

subsection \<open>Only administrators change a tenant\<close>

text \<open>The caller that the middleware has put into the request.\<close>

fun asked_by :: "identity_request \<Rightarrow> caller_context option" where
  "asked_by (List_tokens ctx) = Some ctx"
| "asked_by (Create_token ctx _) = Some ctx"
| "asked_by (Revoke_token ctx _) = Some ctx"
| "asked_by (Renew_token ctx _) = Some ctx"
| "asked_by (Restore_token ctx _) = Some ctx"
| "asked_by (Delete_token ctx _) = Some ctx"
| "asked_by (List_members ctx) = Some ctx"
| "asked_by (Add_member ctx _) = Some ctx"
| "asked_by (Update_role ctx _ _) = Some ctx"
| "asked_by (Remove_member ctx _) = Some ctx"
| "asked_by (Revoke_sessions ctx _) = Some ctx"
| "asked_by (Get_config ctx _) = Some ctx"
| "asked_by (Update_config ctx _ _ _) = Some ctx"
| "asked_by _ = None"

definition admin_of :: "uuid \<Rightarrow> caller_context \<Rightarrow> bool" where
  "admin_of tn ctx \<longleftrightarrow> cc_tenant_id ctx = tn \<and> cc_role ctx = ''tenant_admin''"

text \<open>The seeding of the development mode acts without a caller.\<close>

definition seeds_roles :: "auth_env \<Rightarrow> identity_request \<Rightarrow> bool" where
  "seeds_roles env r = (case r of Callback _ _ \<Rightarrow> ae_dev_mode env | Seed_admin _ \<Rightarrow> True | _ \<Rightarrow> False)"

definition asked_by_admin :: "uuid \<Rightarrow> identity_request \<Rightarrow> bool" where
  "asked_by_admin tn r \<longleftrightarrow> (\<exists>ctx. asked_by r = Some ctx \<and> admin_of tn ctx)"

definition tenant_accounts :: "uuid \<Rightarrow> identity \<Rightarrow> role_row list \<times> api_key_row list \<times> tenant_row list" where
  "tenant_accounts tn t =
     (filter (\<lambda>r. rl_tenant_id r = tn) (id_roles t), filter (\<lambda>k. key_tenant_id k = tn) (id_keys t),
      filter (\<lambda>r. tn_id r = tn) (id_tenants t))"

lemma require_admin_admin_of: "require_admin ctx = Inr () \<Longrightarrow> \<not> admin_of tn ctx \<Longrightarrow> cc_tenant_id ctx \<noteq> tn"
  by (auto simp: require_admin_def admin_of_def split: if_splits)

lemma own_tenant_admin_of: "own_tenant ctx i = Inr () \<Longrightarrow> \<not> admin_of tn ctx \<Longrightarrow> i \<noteq> tn"
  by (auto simp: own_tenant_def require_admin_def admin_of_def split: if_splits)

lemma filter_update_other:
  "(\<And>x. p x \<Longrightarrow> \<not> q x \<and> \<not> q (f x)) \<Longrightarrow> filter q (update_where p f xs) = filter q xs"
  by (induction xs) (auto simp: update_where_def)

lemma filter_delete_other: "(\<And>x. p x \<Longrightarrow> \<not> q x) \<Longrightarrow> filter q (delete_where p xs) = filter q xs"
  by (induction xs) (auto simp: delete_where_def)

text \<open>The statements select rows of one tenant.\<close>

lemma of_other_tenant:
  "tn' \<noteq> tn \<Longrightarrow> filter (\<lambda>r. rl_tenant_id r = tn) (update_where (same_role_row u tn') (rl_role_update g) rows) =
     filter (\<lambda>r. rl_tenant_id r = tn) rows"
  "tn' \<noteq> tn \<Longrightarrow> filter (\<lambda>r. rl_tenant_id r = tn) (delete_where (same_role_row u tn') rows) = filter (\<lambda>r. rl_tenant_id r = tn) rows"
  by (auto intro!: filter_update_other filter_delete_other simp: same_role_row_def)

lemma keys_of_other_tenant:
  assumes "\<And>k. p k \<Longrightarrow> key_tenant_id k = tn'" "tn' \<noteq> tn" "\<And>k. key_tenant_id (f k) = key_tenant_id k"
  shows "filter (\<lambda>k. key_tenant_id k = tn) (update_where p f rows) = filter (\<lambda>k. key_tenant_id k = tn) rows"
    and "filter (\<lambda>k. key_tenant_id k = tn) (delete_where p rows) = filter (\<lambda>k. key_tenant_id k = tn) rows"
  using assms by (auto intro!: filter_update_other filter_delete_other)

lemma changed_keys_other:
  "cc_tenant_id ctx \<noteq> tn \<Longrightarrow>
   filter (\<lambda>k. key_tenant_id k = tn) (update_where (live_key ctx i) (key_revoked_at_update g) rows) = filter (\<lambda>k. key_tenant_id k = tn) rows"
  "cc_tenant_id ctx \<noteq> tn \<Longrightarrow>
   filter (\<lambda>k. key_tenant_id k = tn) (update_where (revoked_key ctx i) (key_revoked_at_update g) rows) = filter (\<lambda>k. key_tenant_id k = tn) rows"
  "cc_tenant_id ctx \<noteq> tn \<Longrightarrow>
   filter (\<lambda>k. key_tenant_id k = tn) (delete_where (revoked_key ctx i) rows) = filter (\<lambda>k. key_tenant_id k = tn) rows"
  by (rule keys_of_other_tenant; auto simp: live_key_def revoked_key_def key_of_tenant_def)+

lemma rekeyed_other:
  "tn' \<noteq> tn \<Longrightarrow> filter (\<lambda>k. key_tenant_id k = tn)
     (update_where (key_of_tenant i tn') (\<lambda>k. k\<lparr>key_hash := h, key_revoked_at := None\<rparr>) rows) =
   filter (\<lambda>k. key_tenant_id k = tn) rows"
  by (rule keys_of_other_tenant) (auto simp: key_of_tenant_def)

lemma config_other:
  "i \<noteq> tn \<Longrightarrow> (\<And>x. tn_id (f x) = tn_id x) \<Longrightarrow>
   filter (\<lambda>r. tn_id r = tn) (update_where (\<lambda>r. tn_id r = i) f rows) = filter (\<lambda>r. tn_id r = tn) rows"
  by (rule filter_update_other) auto

lemmas other_rows = of_other_tenant changed_keys_other rekeyed_other config_other

lemma put_role_other:
  "put_role c u tn' r now new t = Inr (t', y) \<Longrightarrow> tn' \<noteq> tn \<Longrightarrow> tenant_accounts tn t' = tenant_accounts tn t"
  by (auto simp: put_role_def tenant_accounts_def other_rows split: option.splits if_splits)

lemma set_role_other:
  "set_role u tn' r t = Inr (t', y) \<Longrightarrow> tn' \<noteq> tn \<Longrightarrow> tenant_accounts tn t' = tenant_accounts tn t"
  by (auto simp: set_role_def tenant_accounts_def other_rows split: if_splits)

lemma put_key_other:
  "put_key k t = Inr (t', x) \<Longrightarrow> key_tenant_id k \<noteq> tn \<Longrightarrow> tenant_accounts tn t' = tenant_accounts tn t"
  by (auto simp: put_key_def tenant_accounts_def split: if_splits)

lemma rekey_other:
  "rekey i tn' h t = Inr (t', x) \<Longrightarrow> tn' \<noteq> tn \<Longrightarrow> tenant_accounts tn t' = tenant_accounts tn t"
  by (auto simp: rekey_def tenant_accounts_def other_rows split: option.splits if_splits)

lemma set_config_other: "i \<noteq> tn \<Longrightarrow> tenant_accounts tn (fst (set_config i days quota now t)) = tenant_accounts tn t"
  by (auto simp: set_config_def tenant_accounts_def other_rows Let_def)

lemma put_user_tenants: "put_user sb em nm now new t = Inr (t', x) \<Longrightarrow> id_tenants t' = id_tenants t"
  by (auto simp: put_user_def split: option.splits if_splits)

lemma put_session_tenants: "put_session u tn en until now new t = Inr (t', x) \<Longrightarrow> id_tenants t' = id_tenants t"
  by (auto simp: put_session_def split: if_splits)

lemmas no_authority = asked_by_admin_def seeds_roles_def require_admin_admin_of own_tenant_admin_of

interpretation administered: identity_relation "\<lambda>_. True" "\<lambda>t t'. tenant_accounts tn t' = tenant_accounts tn t" 0 env
  "\<lambda>r. \<not> asked_by_admin tn r \<and> \<not> seeds_roles env r" for env tn
proof (unfold_locales, goal_cases)
  case (5 ctx i days quota t now)
  then show ?case by (auto simp: no_authority intro!: set_config_other dest: own_tenant_admin_of[where tn = tn])
next
  case (6 params hs t s em nm now new t' x)
  then show ?case using put_user_frame[OF 6(3)] put_user_tenants[OF 6(3)] by (simp add: tenant_accounts_def)
next
  case (7 params hs t u tn' en until now new t' x)
  then show ?case using put_session_frame[OF 7(4)] put_session_tenants[OF 7(4)] by (simp add: tenant_accounts_def)
next
  case (8 params hs s ctx b tn' r t c u now new t' y)
  then have "tn' \<noteq> tn" by (auto simp: no_authority)
  then show ?case using put_role_other[OF 8(3)] by simp
next
  case (9 ctx u r t t' n)
  then have "cc_tenant_id ctx \<noteq> tn" by (auto simp: no_authority)
  then show ?case using set_role_other[OF 9(4)] by simp
next
  case (10 ctx u t)
  then have "cc_tenant_id ctx \<noteq> tn" by (auto simp: no_authority)
  then show ?case by (auto simp: tenant_accounts_def other_rows)
next
  case (12 ctx cb t k t' k')
  then have "cc_tenant_id ctx \<noteq> tn" by (auto simp: no_authority)
  then show ?case using put_key_other[OF 12(6)] 12(5) by simp
next
  case (13 ctx i t h t' ko)
  then have "cc_tenant_id ctx \<noteq> tn" by (auto simp: no_authority)
  then show ?case using rekey_other[OF 13(5)] by simp
next
  case (14 ctx i t now)
  then have "cc_tenant_id ctx \<noteq> tn" by (auto simp: no_authority)
  then show ?case by (auto simp: tenant_accounts_def other_rows)
next
  case (15 ctx i t)
  then have "cc_tenant_id ctx \<noteq> tn" by (auto simp: no_authority)
  then show ?case by (auto simp: tenant_accounts_def other_rows)
next
  case (16 ctx i t)
  then have "cc_tenant_id ctx \<noteq> tn" by (auto simp: no_authority)
  then show ?case by (auto simp: tenant_accounts_def other_rows)
qed (simp_all add: tenant_accounts_def revoke_sessions_where_def)

text \<open>Who holds a role, and the requests by which a role of a tenant may come to be held.\<close>

definition holders :: "uuid \<Rightarrow> string \<Rightarrow> identity \<Rightarrow> uuid set" where
  "holders tn role t = {u. \<exists>x \<in> set (id_roles t). rl_user_id x = u \<and> rl_tenant_id x = tn \<and> rl_role x = role}"

definition asks_for_role :: "uuid \<Rightarrow> string \<Rightarrow> identity_request \<Rightarrow> bool" where
  "asks_for_role tn role r =
     (case r of
        Add_member ctx body \<Rightarrow> admin_of tn ctx \<and> am_role body = role
      | Update_role ctx _ role' \<Rightarrow> admin_of tn ctx \<and> role' = role
      | _ \<Rightarrow> False)"

lemma put_role_holders:
  "put_role c u tn' r now new t = Inr (t', y) \<Longrightarrow> tn' \<noteq> tn \<or> r \<noteq> role \<Longrightarrow> holders tn role t' \<subseteq> holders tn role t"
  by (fastforce simp: put_role_def holders_def set_update_where same_role_row_def split: option.splits if_splits)

lemma set_role_holders:
  "set_role u tn' r t = Inr (t', y) \<Longrightarrow> tn' \<noteq> tn \<or> r \<noteq> role \<Longrightarrow> holders tn role t' \<subseteq> holders tn role t"
  by (fastforce simp: set_role_def holders_def set_update_where same_role_row_def split: if_splits)

lemma same_roles_holders: "id_roles t' = id_roles t \<Longrightarrow> holders tn role t' \<subseteq> holders tn role t"
  by (simp add: holders_def)

interpretation asked_roles: identity_relation "\<lambda>_. True" "\<lambda>t t'. holders tn role t' \<subseteq> holders tn role t" 0 env
  "\<lambda>r. \<not> asks_for_role tn role r \<and> \<not> seeds_roles env r" for env tn role
proof (unfold_locales, goal_cases)
  case (3 t1 t2 t3)
  then show ?case by blast
next
  case (5 ctx i days quota t now)
  show ?case by (rule same_roles_holders) (simp add: set_config_frame)
next
  case (6 params hs t s em nm now new t' x)
  show ?case using put_user_frame[OF 6(3)] by (intro same_roles_holders) simp
next
  case (7 params hs t u tn' en until now new t' x)
  show ?case using put_session_frame[OF 7(4)] by (intro same_roles_holders) simp
next
  case (8 params hs s ctx b tn' r t c u now new t' y)
  then have "tn' \<noteq> tn \<or> r \<noteq> role" by (auto simp: asks_for_role_def seeds_roles_def dest: require_admin_admin_of)
  then show ?case by (rule put_role_holders[OF 8(3)])
next
  case (9 ctx u r t t' n)
  then have "cc_tenant_id ctx \<noteq> tn \<or> r \<noteq> role" by (auto simp: asks_for_role_def dest: require_admin_admin_of)
  then show ?case by (rule set_role_holders[OF 9(4)])
next
  case (12 ctx cb t k t' k')
  show ?case using put_key_frame[OF 12(6)] by (intro same_roles_holders) simp
next
  case (13 ctx i t h t' ko)
  show ?case using rekey_frame[OF 13(5)] by (intro same_roles_holders) simp
qed (auto simp: holders_def revoke_sessions_where_def delete_where_def)

subsection \<open>A removed member stays out\<close>

text \<open>No role in the tenant, and no session of it that is open after \<open>T\<close>.\<close>

definition locked_out :: "uuid \<Rightarrow> uuid \<Rightarrow> int \<Rightarrow> identity \<Rightarrow> bool" where
  "locked_out u tn T t \<longleftrightarrow>
     (u, tn) \<notin> role_key ` set (id_roles t) \<and>
     (\<forall>s \<in> set (id_sessions t). ss_user_id s = u \<and> ss_tenant_id s = tn \<longrightarrow> ss_revoked_at s \<noteq> None \<or> ss_expires_at s \<le> T)"

lemma locked_out_keep:
  "locked_out u tn T t \<Longrightarrow> role_key ` set (id_roles t') \<subseteq> role_key ` set (id_roles t) \<Longrightarrow> id_sessions t' = id_sessions t \<Longrightarrow>
   locked_out u tn T t'"
  by (auto simp: locked_out_def)

lemma locked_out_revoke: "locked_out u tn T t \<Longrightarrow> locked_out u tn T (revoke_sessions_where p now t)"
  by (auto simp: locked_out_def revoke_sessions_where_def set_update_where)

text \<open>The requests that may grant a role in the tenant.\<close>

definition may_grant :: "auth_env \<Rightarrow> uuid \<Rightarrow> identity_request \<Rightarrow> bool" where
  "may_grant env tn r =
     (case r of Callback _ _ \<Rightarrow> ae_dev_mode env | Seed_admin _ \<Rightarrow> True | Add_member ctx _ \<Rightarrow> cc_tenant_id ctx = tn | _ \<Rightarrow> False)"

interpretation lockout: identity_relation "\<lambda>_. True" "\<lambda>t t'. locked_out u tn T t \<longrightarrow> locked_out u tn T t'" 0 env
  "\<lambda>r. \<not> may_grant env tn r" for env u tn T
proof (unfold_locales, goal_cases)
  case (3 t1 t2 t3)
  then show ?case by blast
next
  case (5 ctx i days quota t now)
  show ?case using locked_out_keep[of u tn T t "fst (set_config i days quota now t)"] by (simp add: set_config_frame)
next
  case (6 params hs t s em nm now new t' x)
  show ?case using locked_out_keep[of u tn T t t'] put_user_frame[OF 6(3)] by simp
next
  case (7 params hs t u' tn' en until now new t' x)
  have row: "(u', tn') \<in> role_key ` set (id_roles t)"
    using 7(3) by (force simp: same_role_row_def role_key_def)
  obtain s where s: "id_roles t' = id_roles t" "id_sessions t' = id_sessions t @ [s]" "ss_user_id s = u'" "ss_tenant_id s = tn'"
    using put_session_frame[OF 7(4)] by blast
  show ?case
  proof
    assume l: "locked_out u tn T t"
    then have "\<not> (ss_user_id s = u \<and> ss_tenant_id s = tn)" using row s by (auto simp: locked_out_def)
    then show "locked_out u tn T t'" using l s by (auto simp: locked_out_def)
  qed
next
  case (8 params hs s ctx b tn' r t c u' now new t' y)
  then have "(u, tn) \<noteq> (u', tn')" by (auto simp: may_grant_def)
  moreover have "id_sessions t' = id_sessions t" "\<forall>x' \<in> set (id_roles t'). role_key x' = (u', tn') \<or> x' \<in> set (id_roles t)"
    using put_role_frame[OF 8(3)] by auto
  ultimately show ?case by (auto simp: locked_out_def)
next
  case (9 ctx u' r t t' n)
  show ?case using locked_out_keep[of u tn T t t'] set_role_frame[OF 9(4)] by simp
next
  case (10 ctx u' t)
  show ?case by (auto intro: locked_out_keep[of u tn T t])
next
  case (12 ctx cb t k t' k')
  show ?case using locked_out_keep[of u tn T t t'] put_key_frame[OF 12(6)] by simp
next
  case (13 ctx i t h t' ko)
  show ?case using locked_out_keep[of u tn T t t'] rekey_frame[OF 13(5)] by simp
next
  case (11 t p now)
  show ?case by (simp add: locked_out_revoke)
qed (simp_all add: locked_out_def)

subsection \<open>A revoked token stays revoked\<close>

definition dead_hash :: "string \<Rightarrow> uuid \<Rightarrow> identity \<Rightarrow> bool" where
  "dead_hash h i t \<longleftrightarrow> (\<forall>k \<in> set (id_keys t). key_hash k = h \<longrightarrow> key_id k = i \<and> key_revoked_at k \<noteq> None)"

definition may_revive :: "uuid \<Rightarrow> identity_request \<Rightarrow> bool" where
  "may_revive i r = (case r of Restore_token _ j \<Rightarrow> j = i | _ \<Rightarrow> False)"

lemma dead_hash_fewer:
  "(\<forall>k \<in> set (id_keys t'). k \<in> set (id_keys t) \<or> key_hash k \<noteq> h) \<Longrightarrow> dead_hash h i t \<Longrightarrow> dead_hash h i t'"
  by (auto simp: dead_hash_def)

interpretation dead: identity_relation "\<lambda>_. True" "\<lambda>t t'. dead_hash h i t \<longrightarrow> dead_hash h i t'" start env
  "\<lambda>r. \<not> may_revive i r \<and> \<not> fresh_hash env start h" for env h i start
proof (unfold_locales, goal_cases)
  case (3 t1 t2 t3)
  then show ?case by blast
next
  case (4 t en)
  show ?case by (simp add: dead_hash_def)
next
  case (5 ctx j days quota t now)
  show ?case by (simp add: dead_hash_def set_config_frame)
next
  case (6 params hs t s em nm now new t' x)
  show ?case using put_user_frame[OF 6(3)] by (simp add: dead_hash_def)
next
  case (7 params hs t u' tn' en until now new t' x)
  show ?case using put_session_frame[OF 7(4)] by (auto simp: dead_hash_def)
next
  case (8 params hs s ctx b tn' r t c u' now new t' y)
  show ?case using put_role_frame[OF 8(3)] by (simp add: dead_hash_def)
next
  case (9 ctx u' r t t' n)
  show ?case using set_role_frame[OF 9(4)] by (simp add: dead_hash_def)
next
  case (12 ctx cb t k t' k')
  then have "id_keys t' = id_keys t @ [k]" "key_hash k \<noteq> h" using put_key_frame[OF 12(6)] by auto
  then show ?case by (auto intro: dead_hash_fewer[of t' t h i])
next
  case (13 ctx j t h' t' ko)
  then have "h' \<noteq> h" "\<forall>k' \<in> set (id_keys t'). k' \<in> set (id_keys t) \<or> key_hash k' = h'" using rekey_frame[OF 13(5)] by auto
  then show ?case by (auto intro: dead_hash_fewer[of t' t h i])
next
  case (14 ctx j t now)
  then show ?case by (auto simp: dead_hash_def set_update_where)
next
  case (15 ctx j t)
  then have "j \<noteq> i" by (simp add: may_revive_def)
  then show ?case by (auto simp: dead_hash_def set_update_where revoked_key_def key_of_tenant_def)
next
  case (16 ctx j t)
  then show ?case by (simp add: dead_hash_def)
next
  case (11 t p now)
  show ?case by (simp add: dead_hash_def revoke_sessions_where_def)
qed (simp_all add: dead_hash_def)

text \<open>What the validation of a key answers.\<close>

lemma audit_write_cases:
  fixes m :: "(identity, 'e, unit) program"
  assumes "m = audit_write e"
  shows "fst (m db) = tick db \<or> fst (m db) = (tick db)\<lparr>db_tables := (db_tables db)\<lparr>id_audit := id_audit (db_tables db) @ [e]\<rparr>\<rparr>"
proof -
  have "fst (m db) = fst (audit_insert e db)"
    by (auto simp: assms audit_write_def p_bind_def p_try_def split: prod.splits)
  then show ?thesis
    by (auto simp: audit_insert_def sql_update_def sql_def Let_def split: option.splits failure.splits)
qed

lemma audit_write_facts:
  fixes m :: "(identity, 'e, unit) program"
  assumes "m = audit_write e"
  shows "id_keys (db_tables (fst (m db))) = id_keys (db_tables db)"
    and "id_roles (db_tables (fst (m db))) = id_roles (db_tables db)"
    and "id_sessions (db_tables (fst (m db))) = id_sessions (db_tables db)"
    and "same_world db (fst (m db))"
  using audit_write_cases[OF assms, of db] by auto

lemmas audit_write_same [simp] = audit_write_facts[OF HOL.refl]

lemma audit_write_Inl: "audit_write e db \<noteq> (db', Inl x)"
  by (auto simp: audit_write_def p_bind_def p_try_def split: prod.splits)

lemma audit_then_fail: "p_bind (audit_write e) (\<lambda>_. p_fail x) db = (db', r) \<Longrightarrow> r = Inl x"
  by (auto simp: p_bind_def audit_write_Inl split: prod.splits sum.splits)

lemma lookup_api_key_Inr:
  assumes "lookup_api_key env key db = (db', Inr r)"
  shows "\<exists>k \<in> set (id_keys (db_tables db)). key_hash k = sha256_hex env key \<and> key_revoked_at k = None \<and>
    r = (key_tenant_id k, key_role k, key_environment k)"
proof -
  obtain row where "find_key (sha256_hex env key) (db_tables db) = row"
    "(case row of None \<Rightarrow> p_fail ''API key not found''
      | Some row \<Rightarrow> p_bind (p_lift (validate_key_against_entry env key
         \<lparr>ke_tenant_id = key_tenant_id row, ke_key_hash = sha256_hex env key, ke_revoked_at = key_revoked_at row,
          ke_role = key_role row\<rparr>)) (\<lambda>(tenant_id, role). p_return (tenant_id, role, key_environment row))) (tick db) = (db', Inr r)"
    using assms by (auto simp: lookup_api_key_def Let_def program_Inr)
  then show ?thesis
    by (auto simp: p_bind_Inr validate_key_against_entry_def find_key_def split: option.splits if_splits dest!: find_Some_set)
qed

lemma validate_handler_Inr:
  assumes "validate_handler env key db = (db', Inr r)"
  shows "\<exists>k \<in> set (id_keys (db_tables db)). key_hash k = sha256_hex env key \<and> key_revoked_at k = None \<and>
    vk_tenant_id r = key_tenant_id k \<and> vk_role r = key_role k \<and> vk_environment r = key_environment k"
proof -
  obtain db1 q where q: "lookup_api_key env key db = (db1, q)" by (cases "lookup_api_key env key db")
  show ?thesis
  proof (cases q)
    case (Inl e)
    then show ?thesis using assms q
      by (auto simp: validate_handler_def Let_def p_bind_try[where m = "lookup_api_key env key" and db = db, OF q] split: if_splits dest!: audit_then_fail)
  next
    case (Inr x)
    obtain tn role en where x: "x = (tn, role, en)" by (cases x)
    have "r = \<lparr>vk_tenant_id = tn, vk_role = role, vk_environment = en\<rparr>"
      using assms q Inr x
      by (auto simp: validate_handler_def Let_def p_bind_try[where m = "lookup_api_key env key" and db = db, OF q] p_bind_Inr)
    then show ?thesis using lookup_api_key_Inr[of env key db db1 x] q Inr x by auto
  qed
qed

lemma validate_handler_Inl:
  assumes "validate_handler env key db = (db', Inl e)"
  shows "e = Unauthorized"
proof -
  obtain db1 q where q: "lookup_api_key env key db = (db1, q)" by (cases "lookup_api_key env key db")
  show ?thesis
    using assms
    by (cases q) (auto simp: validate_handler_def Let_def p_bind_try[where m = "lookup_api_key env key" and db = db, OF q] split: prod.splits if_splits
      dest!: audit_then_fail, auto simp: p_bind_def audit_write_Inl split: prod.splits sum.splits)
qed

lemma dead_key_rejected:
  assumes "dead_hash (sha256_hex env key) i (db_tables db)"
  shows "snd (validate_handler env key db) = Inl Unauthorized"
proof -
  obtain db' r where v: "validate_handler env key db = (db', r)" by (cases "validate_handler env key db")
  show ?thesis
  proof (cases r)
    case (Inl e)
    then show ?thesis using v validate_handler_Inl by simp
  next
    case (Inr x)
    then show ?thesis using assms validate_handler_Inr[of env key db db' x] v by (auto simp: dead_hash_def)
  qed
qed

lemma verify_api_key_rejected:
  "snd (validate_handler env key db) = Inl Unauthorized \<Longrightarrow>
   verify_api_key (ac_post_key (auth_service_client env db) url) key = Inl Auth_unauthorized"
  by (simp add: auth_service_client_def verify_api_key_def http_reply_def is_success_def)

lemma change_token_Inr:
  assumes "change_token env ctx action f p db = (db', Inr x)"
  shows "require_admin ctx = Inr () \<and> (\<exists>k \<in> set (id_keys (db_tables db)). p k) \<and>
    (\<exists>db1. db_tables db1 = (db_tables db)\<lparr>id_keys := f (db_clock db (db_steps db)) (id_keys (db_tables db))\<rparr> \<and>
       same_world db db1 \<and> db' = fst (audit_write (admin_entry env ctx action) db1 :: _ \<times> (http_status, unit) result) \<and>
       x = No_content)"
proof -
  let ?db1 = "(tick db)\<lparr>db_tables := (db_tables db)\<lparr>id_keys := f (db_clock db (db_steps db)) (id_keys (db_tables db))\<rparr>\<rparr>"
  have "require_admin ctx = Inr ()" "\<exists>k \<in> set (id_keys (db_tables db)). p k"
    "(audit_write (admin_entry env ctx action) ?db1 :: _ \<times> (http_status, unit) result) = (db', Inr ())" "x = No_content"
    using assms by (auto simp: change_token_def program_Inr server_error_def)
  moreover have "db' = fst (audit_write (admin_entry env ctx action) ?db1 :: _ \<times> (http_status, unit) result)"
    using calculation(3) by simp
  moreover have "same_world db ?db1" by simp
  moreover have "db_tables ?db1 = (db_tables db)\<lparr>id_keys := f (db_clock db (db_steps db)) (id_keys (db_tables db))\<rparr>" by simp
  ultimately show ?thesis by blast
qed

lemma revoke_kills:
  assumes ok: "identity_ok (db_tables db)"
    and k: "k \<in> set (id_keys (db_tables db))" "key_id k = i" "key_hash k = h"
    and r: "revoke_token env ctx i db = (db', Inr x)"
  shows "dead_hash h i (db_tables db') \<and> same_world db db'"
proof -
  let ?t = "db_tables db"
  obtain k' db1 where k': "k' \<in> set (id_keys ?t)" "live_key ctx i k'"
    and db1: "db_tables db1 = ?t\<lparr>id_keys := update_where (live_key ctx i)
      (\<lambda>k. k\<lparr>key_revoked_at := Some (db_clock db (db_steps db))\<rparr>) (id_keys ?t)\<rparr>" "same_world db db1"
    and a: "db' = fst (audit_write (admin_entry env ctx ''token_revoke'') db1 :: _ \<times> (http_status, unit) result)"
    using change_token_Inr[OF r[unfolded revoke_token_def]] by blast
  have "find (\<lambda>y. key_id y = key_id k) (id_keys ?t) = Some k"
    "find (\<lambda>y. key_id y = key_id k') (id_keys ?t) = Some k'"
    using ok k(1) k'(1) by (auto simp: identity_ok_def intro: find_unique)
  then have "k' = k" using k(2) k'(2) by (simp add: live_key_def key_of_tenant_def)
  have "x = k" if "x \<in> set (id_keys ?t)" "key_hash x = h" for x
  proof -
    have "find (\<lambda>y. key_hash y = key_hash k) (id_keys ?t) = Some k"
      "find (\<lambda>y. key_hash y = key_hash x) (id_keys ?t) = Some x"
      using ok k(1) that by (auto simp: identity_ok_def intro: find_unique)
    then show ?thesis using that k(3) by simp
  qed
  then have "dead_hash h i (db_tables db1)"
    using k'(2) k(2) \<open>k' = k\<close> by (auto simp: dead_hash_def db1(1) set_update_where)
  then show ?thesis
    unfolding a dead_hash_def using same_world_trans[OF db1(2) audit_write_same(4)] by simp
qed

end
