(* ===== verification/Identity_Claims.thy ===== *)
theory Identity_Claims
  imports Identity_Invariants
begin

section \<open>What the account services guarantee\<close>

text \<open>
  The properties of the authentication and administration services: over any sequence of
  requests, whichever statements fail, the tables stay well-formed, a revoked token is
  never accepted again and a removed member is not let in; the context that the middleware
  establishes stands for a live key or a live session; a tenant keeps an administrator;
  the callback opens a session of a membership; a purge is all or nothing.
\<close>

subsection \<open>Sessions\<close>

lemma p_ask_Inr: "p_ask f db = (db', Inr x) \<longleftrightarrow> db' = tick db \<and> x = f (db_steps db)"
  by (auto simp: p_ask_def)

lemma audit_write_Inr:
  fixes m :: "(identity, 'e, unit) program"
  assumes "m = audit_write e" "m db = (db', Inr x)"
  shows "id_roles (db_tables db') = id_roles (db_tables db)" "id_sessions (db_tables db') = id_sessions (db_tables db)"
  using audit_write_facts(2,3)[OF assms(1), of db] assms(2) by simp_all

lemma session_scope_Inr:
  assumes "session_scope env c uid requested db = (db', Inr (tn, r))"
  shows "tn = cl_tid c \<and> r = cl_role c \<and> (\<forall>q. requested = Some q \<longrightarrow> ae_parse_uuid env (cl_tid c) = Some q) \<or>
    (\<exists>q. requested = Some q \<and> ae_parse_uuid env (cl_tid c) \<noteq> Some q \<and> tn = ae_show_uuid env q \<and>
      role_of uid q (db_tables db) = Some r)"
proof (cases requested)
  case None
  then show ?thesis using assms by (simp add: session_scope_def)
next
  case (Some q)
  obtain tid where tid: "ae_parse_uuid env (cl_tid c) = Some tid"
    using assms Some by (auto simp: session_scope_def p_bind_Inr)
  show ?thesis
  proof (cases "q = tid")
    case True
    then show ?thesis using assms Some tid by (auto simp: session_scope_def p_bind_Inr)
  next
    case False
    show ?thesis
    proof (cases "role_of uid q (db_tables db)")
      case None
      then show ?thesis using assms Some tid False by (auto simp: session_scope_def program_Inr)
    next
      case r: (Some r')
      then show ?thesis using assms Some tid False by (auto simp: session_scope_def program_Inr)
    qed
  qed
qed

text \<open>
  A session that was validated: the token, at the time of the request, the row it names,
  active at the time of the statement, and what it may act with.
\<close>

definition session_accepted :: "auth_env \<Rightarrow> string \<Rightarrow> uuid option \<Rightarrow> identity database \<Rightarrow> validated_session \<Rightarrow> bool" where
  "session_accepted env token requested db v \<longleftrightarrow>
     (\<exists>c nonce uid. verify_session_jwt env (unix_seconds env (db_steps db)) token = Some c \<and> vd_user_id v = cl_sub c \<and>
        ae_parse_uuid env (cl_nonce c) = Some nonce \<and> ae_parse_uuid env (cl_sub c) = Some uid \<and>
        session_active nonce uid (db_clock db (Suc (db_steps db))) (db_tables db) \<and>
        (vd_tenant_id v = cl_tid c \<and> vd_role v = cl_role c \<and> (\<forall>q. requested = Some q \<longrightarrow> ae_parse_uuid env (cl_tid c) = Some q) \<or>
         (\<exists>q. requested = Some q \<and> ae_parse_uuid env (cl_tid c) \<noteq> Some q \<and> vd_tenant_id v = ae_show_uuid env q \<and>
            role_of uid q (db_tables db) = Some (vd_role v))))"

lemma validate_session_Inr:
  assumes "validate_session_handler env token requested db = (db', Inr v)"
  shows "session_accepted env token requested db v"
proof -
  let ?now = "unix_seconds env (db_steps db)"
  obtain c where c: "verify_session_jwt env ?now token = Some c"
    using assms by (auto simp: validate_session_handler_def p_bind_Inr p_ask_Inr)
  obtain nonce where nonce: "ae_parse_uuid env (cl_nonce c) = Some nonce"
    using assms c by (auto simp: validate_session_handler_def p_bind_Inr p_ask_Inr)
  obtain uid where uid: "ae_parse_uuid env (cl_sub c) = Some uid"
    using assms c nonce by (auto simp: validate_session_handler_def p_bind_Inr p_ask_Inr)
  let ?k = "Suc (db_steps db)"
  let ?a = "session_active nonce uid (db_clock db ?k) (db_tables db)"
  have a: ?a and s: "\<exists>tn r. session_scope env c uid requested (tick (tick db)) = (db', Inr (tn, r)) \<and>
     v = \<lparr>vd_user_id = cl_sub c, vd_tenant_id = tn, vd_role = r, vd_environment = cl_env c\<rparr>"
    using assms c nonce uid
    by (cases ?a; fastforce simp: validate_session_handler_def program_Inr p_ask_Inr dest: audit_then_fail)+
  obtain tn r where tr: "session_scope env c uid requested (tick (tick db)) = (db', Inr (tn, r))"
     "v = \<lparr>vd_user_id = cl_sub c, vd_tenant_id = tn, vd_role = r, vd_environment = cl_env c\<rparr>"
    using s by blast
  show ?thesis
    unfolding session_accepted_def
    using c nonce uid a session_scope_Inr[OF tr(1)] tr(2)
    by (intro exI[of _ c] exI[of _ nonce] exI[of _ uid]) auto
qed

subsection \<open>A concrete service\<close>

text \<open>
  The witnesses run on a small instance: UUIDs are written in decimal, SHA-256 is the
  identity, and two tokens are known to the token library.
\<close>

definition demo_claims :: session_claims where
  "demo_claims =
     \<lparr>cl_iss = session_issuer, cl_aud = session_audience, cl_sub = ''7'', cl_tid = ''1'', cl_role = ''tenant_admin'',
      cl_env = ''default'', cl_nonce = ''20'', cl_iat = 0, cl_exp = session_ttl_secs\<rparr>"

definition demo_claims_8 :: session_claims where
  "demo_claims_8 = demo_claims\<lparr>cl_sub := ''8'', cl_tid := ''2'', cl_role := ''member'', cl_nonce := ''21''\<rparr>"

definition demo_env :: auth_env where
  "demo_env =
     \<lparr>ae_issuer = ''http://localhost:8082'', ae_api_base = ''http://zitadel:8080'', ae_client_id = ''c'',
      ae_redirect_uri = ''r'', ae_session_secret = ''s'', ae_dev_mode = False, ae_sha256 = (\<lambda>b. b),
      ae_base64 = map (\<lambda>b. char_of (65 + unat b mod 26)), ae_random = (\<lambda>n. [word_of_nat n]), ae_clock = (\<lambda>n. int n),
      ae_parse_uuid = (\<lambda>s. map_option word_of_nat (digits_value 0 s)), ae_show_uuid = show_word,
      ae_jwt_encode = (\<lambda>c secret. if c = demo_claims then Some ''token'' else None),
      ae_jwt_decode = (\<lambda>now token secret v. if cl_exp demo_claims < now then None
         else if token = ''token'' then Some demo_claims else if token = ''token8'' then Some demo_claims_8 else None),
      ae_provider = (\<lambda>n r. if pr_bearer r = None then Json_body (JObject [(''access_token'', JString ''a'')])
                           else Json_body (JObject [(''sub'', JString ''s7''), (''email'', JString ''u7'')])),
      ae_sql_error_text = (\<lambda>e. ''database error'')\<rparr>"

definition demo_tables :: identity where
  "demo_tables =
     \<lparr>id_tenants = [\<lparr>tn_id = 1, tn_name = ''one'', tn_retention_days = 30, tn_ingest_quota_per_sec = 100, tn_updated_at = 0\<rparr>,
                    \<lparr>tn_id = 2, tn_name = ''two'', tn_retention_days = 30, tn_ingest_quota_per_sec = 100, tn_updated_at = 0\<rparr>],
      id_keys = [\<lparr>key_id = 11, key_tenant_id = 1, key_hash = hex (as_bytes ''key''), key_name = ''k'', key_created_at = 0,
                  key_revoked_at = None, key_role = ''member'', key_environment = ''prod''\<rparr>],
      id_users = [\<lparr>us_id = 7, us_idp_subject = ''s7'', us_email = ''u7'', us_name = None\<rparr>,
                  \<lparr>us_id = 8, us_idp_subject = ''s8'', us_email = ''u8'', us_name = None\<rparr>],
      id_roles = [\<lparr>rl_user_id = 7, rl_tenant_id = 1, rl_role = ''tenant_admin'', rl_created_at = 0\<rparr>,
                  \<lparr>rl_user_id = 8, rl_tenant_id = 1, rl_role = ''member'', rl_created_at = 0\<rparr>],
      id_sessions = [\<lparr>ss_id = 20, ss_user_id = 7, ss_tenant_id = 1, ss_environment = ''default'', ss_expires_at = days_7,
                      ss_revoked_at = None\<rparr>,
                     \<lparr>ss_id = 21, ss_user_id = 8, ss_tenant_id = 2, ss_environment = ''default'', ss_expires_at = days_7,
                      ss_revoked_at = None\<rparr>],
      id_audit = []\<rparr>"

definition demo_db :: "identity database" where
  "demo_db = \<lparr>db_tables = demo_tables, db_steps = 0, db_clock = (\<lambda>n. int n), db_gen = (\<lambda>n. word_of_nat (100 + n)), db_fails = (\<lambda>_. None)\<rparr>"

definition demo_admin :: caller_context where
  "demo_admin = \<lparr>cc_tenant_id = 1, cc_user_id = Some 7, cc_role = ''tenant_admin''\<rparr>"

lemma demo_tables_ok: "identity_ok (db_tables demo_db)"
  by code_simp

lemma parse_show_uuid: "ae_parse_uuid demo_env (ae_show_uuid demo_env u) = Some u"
  by (simp add: demo_env_def show_word_def digits_value_show_nat)

lemma removed_tables_locked:
  "locked_out u tn T ((revoke_sessions_where (\<lambda>s. open_session_of u tn s \<and> T < ss_expires_at s) T t)
     \<lparr>id_roles := delete_where (same_role_row u tn) rows\<rparr>)"
proof -
  let ?p = "\<lambda>s. open_session_of u tn s \<and> T < ss_expires_at s" and ?f = "\<lambda>s. s\<lparr>ss_revoked_at := Some T\<rparr>"
  have "(u, tn) \<notin> role_key ` set (delete_where (same_role_row u tn) rows)"
    by (auto simp: role_key_def same_role_row_def)
  moreover have "ss_revoked_at s \<noteq> None \<or> ss_expires_at s \<le> T"
    if s: "s \<in> set (update_where ?p ?f (id_sessions t))" "ss_user_id s = u" "ss_tenant_id s = tn" for s
  proof -
    obtain r where r: "s = (if ?p r then ?f r else r)" using s(1) unfolding update_where_def set_map by blast
    show ?thesis using r s(2,3) by (cases "?p r") (auto simp: open_session_of_def)
  qed
  ultimately show ?thesis by (simp add: locked_out_def revoke_sessions_where_def del: set_update_where)
qed

lemma remove_member_locks:
  assumes "handle_remove_member ctx u db = (db', Inr x)"
  shows "\<exists>k < db_steps db'. locked_out u (cc_tenant_id ctx) (db_clock db k) (db_tables db') \<and> same_world db db'"
proof -
  let ?tn = "cc_tenant_id ctx" and ?k = "Suc (Suc (Suc (db_steps db)))"
  let ?p = "\<lambda>s. open_session_of u ?tn s \<and> db_clock db ?k < ss_expires_at s"
  let ?body = "p_bind (server_error (revoke_live_sessions u ?tn)) (\<lambda>_.
      server_error (sql_update (\<lambda>_ t. (t\<lparr>id_roles := delete_where (same_role_row u ?tn) (id_roles t)\<rparr>,
        rows_affected (same_role_row u ?tn) (id_roles t)))))"
  have "\<exists>n. transaction (\<lambda>_. Internal_server_error) ?body (tick (tick db)) = (db', Inr n)"
    using assms by (auto simp: handle_remove_member_def p_bind_Inr server_error_def p_map_err_Inr sql_select_Inr p_guard_Inr)
  then obtain n db1 where body: "?body (tick (tick (tick db))) = (db1, Inr n)" and db': "db' = tick db1"
    by (auto simp: transaction_Inr)
  obtain db0 where r: "revoke_live_sessions u ?tn (tick (tick (tick db))) = (db0, Inr ())"
    and d: "db1 = (tick db0)\<lparr>db_tables := (db_tables db0)\<lparr>id_roles := delete_where (same_role_row u ?tn) (id_roles (db_tables db0))\<rparr>\<rparr>"
    using body by (auto simp: p_bind_Inr server_error_def p_map_err_Inr sql_update_Inr)
  have "db0 = (tick (tick (tick (tick db))))\<lparr>db_tables := revoke_sessions_where ?p (db_clock db ?k) (db_tables db)\<rparr>"
    using r by (auto simp: revoke_live_sessions_def sql_update_Inr)
  then have "db_tables db' = (revoke_sessions_where ?p (db_clock db ?k) (db_tables db))
      \<lparr>id_roles := delete_where (same_role_row u ?tn) (id_roles (revoke_sessions_where ?p (db_clock db ?k) (db_tables db)))\<rparr>"
    "db_steps db' = Suc (Suc (Suc ?k))" "same_world db db'"
    by (simp_all add: d db' same_world_def)
  moreover from this have "locked_out u ?tn (db_clock db ?k) (db_tables db')"
    by (simp only: removed_tables_locked)
  ultimately show ?thesis by (intro exI[of _ ?k]) simp
qed

subsection \<open>Properties\<close>

text \<open>
  C31: whatever the requests, and whichever of their statements fail, lose their reply or
  are rolled back, the tables keep their keys: one user per subject, one role per user and
  tenant, one token per hash, and only the roles that exist. The members, tokens and
  configuration of a tenant change only by a request whose caller is an administrator of
  that tenant, and a member comes to hold a role only by such an administrator's request
  for that role; the seeding of the development mode is the one exception to both.
\<close>

theorem identity_requests_keep_tables:
  assumes "identity_ok (db_tables db)" and "db' = run_requests env rs db"
  shows "identity_ok (db_tables db') \<and>
    (\<forall>tn. (\<forall>r \<in> set rs. \<not> asked_by_admin tn r \<and> \<not> seeds_roles env r) \<longrightarrow>
       tenant_accounts tn (db_tables db') = tenant_accounts tn (db_tables db)) \<and>
    (\<forall>tn role u. u \<in> holders tn role (db_tables db') \<longrightarrow>
       u \<in> holders tn role (db_tables db) \<or> (\<exists>r \<in> set rs. asks_for_role tn role r \<or> seeds_roles env r))"
proof (intro conjI allI impI)
  show "identity_ok (db_tables db')"
    using well_formed.requests_kept[of rs db env] assms by simp
  show "tenant_accounts tn (db_tables db') = tenant_accounts tn (db_tables db)"
    if "\<forall>r \<in> set rs. \<not> asked_by_admin tn r \<and> \<not> seeds_roles env r" for tn
    using administered.requests_kept[of rs tn env db] that assms(2) by simp
  show "u \<in> holders tn role (db_tables db) \<or> (\<exists>r \<in> set rs. asks_for_role tn role r \<or> seeds_roles env r)"
    if "u \<in> holders tn role (db_tables db')" for tn role u
    using asked_roles.requests_kept[of rs tn role env db] that assms(2) by auto
qed

text \<open>A member of tenant 1 and an administrator of tenant 2 cannot change tenant 1.\<close>

definition demo_strangers :: "identity_request list" where
  "demo_strangers =
     (let member = \<lparr>cc_tenant_id = 1, cc_user_id = Some 8, cc_role = ''member''\<rparr>;
          other = \<lparr>cc_tenant_id = 2, cc_user_id = Some 9, cc_role = ''tenant_admin''\<rparr> in
      [Create_token member \<lparr>ct_name = ''n'', ct_environment = ''e''\<rparr>, Update_role member 8 ''tenant_admin'',
       Remove_member member 7, Revoke_token other 11, Add_member other \<lparr>am_email = ''u8'', am_role = ''tenant_admin''\<rparr>])"

theorem identity_requests_keep_tables_witness:
  "identity_ok (db_tables (run_requests demo_env demo_strangers demo_db)) \<and>
   tenant_accounts 1 (db_tables (run_requests demo_env demo_strangers demo_db)) = tenant_accounts 1 demo_tables \<and>
   8 \<in> holders 2 ''tenant_admin'' (db_tables (run_requests demo_env demo_strangers demo_db))"
proof -
  have r: "\<forall>r \<in> set demo_strangers. \<not> asked_by_admin 1 r \<and> \<not> seeds_roles demo_env r"
    by (simp add: demo_strangers_def Let_def asked_by_admin_def admin_of_def seeds_roles_def)
  have h: "8 \<in> holders 2 ''tenant_admin'' (db_tables (run_requests demo_env demo_strangers demo_db))"
    unfolding holders_def mem_Collect_eq by code_simp
  show ?thesis
    using identity_requests_keep_tables[OF demo_tables_ok HOL.refl, of demo_env demo_strangers] r h
    by (simp add: demo_db_def)
qed

text \<open>
  C32: once a token has been revoked, neither the authentication service nor any service
  that asks it accepts the key again, whatever requests follow and whichever statements
  fail, until the token is restored; this needs only that the random bytes drawn from then
  on do not repeat the key.
\<close>

theorem revoked_token_rejected:
  fixes rs :: "identity_request list"
  assumes "identity_ok (db_tables db)"
    and "k \<in> set (id_keys (db_tables db))" "key_id k = i" "key_hash k = sha256_hex env key"
    and "snd (revoke_token env ctx i db) = Inr status"
    and "\<forall>r \<in> set rs. \<not> may_revive i r"
    and "\<not> fresh_hash env (db_steps db) (sha256_hex env key)"
    and "db' = run_requests env rs (run_request env (Revoke_token ctx i) db)"
  shows "snd (validate_handler env key db') = Inl Unauthorized \<and>
    verify_api_key (ac_post_key (auth_service_client env db') url) key = Inl Auth_unauthorized"
proof -
  let ?db1 = "run_request env (Revoke_token ctx i) db"
  have "revoke_token env ctx i db = (?db1, Inr status)"
    using assms(5) by (cases "revoke_token env ctx i db") (simp add: run_def)
  then have "dead_hash (sha256_hex env key) i (db_tables ?db1)" "db_steps db \<le> db_steps ?db1"
    using revoke_kills[OF assms(1-4)] by (simp_all add: same_world_def)
  then have "dead_hash (sha256_hex env key) i (db_tables db')"
    using dead.requests_kept[of rs i env "db_steps db" "sha256_hex env key" ?db1] assms(6-8) by simp
  then show ?thesis using dead_key_rejected verify_api_key_rejected by blast
qed

theorem revoked_token_rejected_witness:
  "snd (validate_handler demo_env ''key''
     (run_requests demo_env [Renew_token demo_admin 12] (run_request demo_env (Revoke_token demo_admin 11) demo_db))) = Inl Unauthorized"
proof -
  let ?k = "hd (id_keys demo_tables)"
  have 1: "?k \<in> set (id_keys (db_tables demo_db))" "key_id ?k = 11" by code_simp+
  have 2: "key_hash ?k = sha256_hex demo_env ''key''" by code_simp
  have 3: "snd (revoke_token demo_env demo_admin 11 demo_db) = Inr No_content" by code_simp
  have 4: "\<not> fresh_hash demo_env (db_steps demo_db) (sha256_hex demo_env ''key'')"
  proof
    assume "fresh_hash demo_env (db_steps demo_db) (sha256_hex demo_env ''key'')"
    then obtain n where "sha256_hex demo_env ''key'' = sha256_hex demo_env (hex (ae_random demo_env n))"
      by (auto simp: fresh_hash_def)
    then have "length (sha256_hex demo_env ''key'') = length (sha256_hex demo_env (hex (ae_random demo_env n)))"
      by (rule arg_cong)
    then show False by (simp add: sha256_hex_def demo_env_def hex_def as_bytes_def)
  qed
  have 5: "\<forall>r \<in> set [Renew_token demo_admin 12]. \<not> may_revive 11 r" by (simp add: may_revive_def)
  show ?thesis
    using revoked_token_rejected[OF demo_tables_ok 1 2 3 5 4 HOL.refl] by blast
qed

text \<open>
  C33: when a member has been removed, no token whose claims agree with its session gets
  that user into that tenant, whatever requests follow and whichever of their statements
  fail, unless a request grants a role in the tenant again.
\<close>

theorem removed_member_locked_out:
  fixes rs :: "identity_request list"
  assumes "snd (handle_remove_member ctx u db) = Inr status"
    and "mono (db_clock db)"
    and "\<forall>r \<in> set rs. \<not> may_grant env (cc_tenant_id ctx) r"
    and "db' = run_requests env rs (run_request env (Remove_member ctx u) db)"
    and "\<And>v. ae_parse_uuid env (ae_show_uuid env v) = Some v"
    and "\<And>now c s. verify_session_jwt env now token = Some c \<Longrightarrow> s \<in> set (id_sessions (db_tables db')) \<Longrightarrow>
      ae_parse_uuid env (cl_nonce c) = Some (ss_id s) \<Longrightarrow> ae_parse_uuid env (cl_tid c) = Some (ss_tenant_id s)"
    and "snd (validate_session_handler env token requested db') = Inr v"
  shows "ae_parse_uuid env (vd_user_id v) \<noteq> Some u \<or> ae_parse_uuid env (vd_tenant_id v) \<noteq> Some (cc_tenant_id ctx)"
proof (rule ccontr)
  let ?tn = "cc_tenant_id ctx" and ?db1 = "run_request env (Remove_member ctx u) db"
  assume "\<not> ?thesis"
  then have v: "ae_parse_uuid env (vd_user_id v) = Some u" "ae_parse_uuid env (vd_tenant_id v) = Some ?tn" by auto
  have "handle_remove_member ctx u db = (?db1, Inr status)"
    using assms(1) by (cases "handle_remove_member ctx u db") (simp add: run_def)
  then obtain k where k: "k < db_steps ?db1" "locked_out u ?tn (db_clock db k) (db_tables ?db1)" "same_world db ?db1"
    using remove_member_locks by blast
  define T where "T = db_clock db k"
  then have T: "T = db_clock db k" "k < db_steps ?db1" "locked_out u ?tn T (db_tables ?db1)" "same_world db ?db1"
    using k by simp_all
  then have l: "locked_out u ?tn T (db_tables db')" "same_world ?db1 db'"
    using lockout.requests_kept[of rs env ?tn ?db1 u T] assms(3,4) by simp_all
  obtain db2 where "validate_session_handler env token requested db' = (db2, Inr v)"
    using assms(7) by (cases "validate_session_handler env token requested db'") simp
  define now k' where "now = unix_seconds env (db_steps db')" and "k' = Suc (db_steps db')"
  with validate_session_Inr[OF \<open>validate_session_handler env token requested db' = (db2, Inr v)\<close>] obtain c nonce
    where c: "verify_session_jwt env now token = Some c" "ae_parse_uuid env (cl_nonce c) = Some nonce"
      and k': "db_steps db' \<le> k'" "session_active nonce u (db_clock db' k') (db_tables db')"
      and scope: "vd_tenant_id v = cl_tid c \<or>
        (\<exists>q. requested = Some q \<and> vd_tenant_id v = ae_show_uuid env q \<and> role_of u q (db_tables db') = Some (vd_role v))"
    unfolding session_accepted_def using v(1) by auto
  obtain s where s: "s \<in> set (id_sessions (db_tables db'))" "ss_id s = nonce" "ss_user_id s = u" "ss_revoked_at s = None"
      "db_clock db' k' < ss_expires_at s"
    using k'(2) by (auto simp: session_active_def)
  have "k \<le> k'" "db_clock db' = db_clock db" using T(2,4) l(2) k'(1) by (simp_all add: same_world_def)
  then have "T < ss_expires_at s" using assms(2) s(5) T(1) by (metis monoD le_less_trans)
  then have "ss_tenant_id s \<noteq> ?tn" using l(1) s by (auto simp: locked_out_def)
  moreover have "ae_parse_uuid env (cl_tid c) = Some (ss_tenant_id s)"
    using assms(6)[OF c(1) s(1)] c(2) s(2) by simp
  moreover have "role_of u ?tn (db_tables db') = None"
  proof (rule ccontr)
    assume "role_of u ?tn (db_tables db') \<noteq> None"
    then have "(u, ?tn) \<in> role_key ` set (id_roles (db_tables db'))"
      by (force simp: role_of_def same_role_row_def role_key_def dest!: find_Some_set)
    then show False using l(1) by (simp add: locked_out_def)
  qed
  ultimately show False using scope v(2) assms(5) by auto
qed

theorem removed_member_locked_out_witness:
  "\<exists>v. snd (validate_session_handler demo_env ''token8'' None (run_requests demo_env [Validate_key ''key''] (run_request demo_env (Remove_member demo_admin 8) demo_db)))
      = Inr v \<and> ae_parse_uuid demo_env (vd_user_id v) = Some 8 \<and> ae_parse_uuid demo_env (vd_tenant_id v) \<noteq> Some 1"
proof -
  let ?db' = "run_requests demo_env [Validate_key ''key''] (run_request demo_env (Remove_member demo_admin 8) demo_db)"
  let ?v = "\<lparr>vd_user_id = ''8'', vd_tenant_id = ''2'', vd_role = ''member'', vd_environment = ''default''\<rparr>"
  have r: "snd (handle_remove_member demo_admin 8 demo_db) = Inr No_content" by code_simp
  have v: "snd (validate_session_handler demo_env ''token8'' None ?db') = Inr ?v" by code_simp
  have s: "map (\<lambda>s. (ss_id s, ss_tenant_id s)) (id_sessions (db_tables ?db')) = [(20, 1), (21, 2)]" by code_simp
  have p: "ae_parse_uuid demo_env ''21'' = Some 21" "ae_parse_uuid demo_env ''2'' = Some 2" "ae_parse_uuid demo_env ''8'' = Some 8"
    by code_simp+
  have "ae_parse_uuid demo_env (vd_user_id ?v) \<noteq> Some 8 \<or> ae_parse_uuid demo_env (vd_tenant_id ?v) \<noteq> Some (cc_tenant_id demo_admin)"
  proof (rule removed_member_locked_out[OF r _ _ HOL.refl parse_show_uuid _ v])
    show "mono (db_clock demo_db)" by (simp add: demo_db_def mono_def)
    show "\<forall>r \<in> set [Validate_key ''key'']. \<not> may_grant demo_env (cc_tenant_id demo_admin) r" by (simp add: may_grant_def)
    fix now c s
    assume c: "verify_session_jwt demo_env now ''token8'' = Some c" and sm: "s \<in> set (id_sessions (db_tables ?db'))"
      and n: "ae_parse_uuid demo_env (cl_nonce c) = Some (ss_id s)"
    have c: "c = demo_claims_8" using c by (simp add: verify_session_jwt_def demo_env_def split: if_splits)
    then have i: "ss_id s = 21" using n p(1) by (simp add: demo_claims_8_def)
    have "(ss_id s, ss_tenant_id s) \<in> set (map (\<lambda>s. (ss_id s, ss_tenant_id s)) (id_sessions (db_tables ?db')))" using sm by auto
    then have "ss_tenant_id s = 2" using i unfolding s by auto
    then show "ae_parse_uuid demo_env (cl_tid c) = Some (ss_tenant_id s)" using c p(2) by (simp add: demo_claims_8_def)
  qed
  then have "ae_parse_uuid demo_env (vd_tenant_id ?v) \<noteq> Some 1" using p(3) by (simp add: demo_admin_def)
  then show ?thesis using v p(3) by (intro exI[of _ ?v]) simp
qed

text \<open>
  What a context stands for: the row of a token, by the hash of the token that was
  presented; or the claims of the presented session token, the session they name, and the
  tenant asked for, with the role of the claims in their own tenant and the user's present
  role in another.
\<close>

definition key_authentic :: "auth_env \<Rightarrow> identity database \<Rightarrow> string \<Rightarrow> caller_context \<Rightarrow> bool" where
  "key_authentic env db token ctx \<longleftrightarrow> cc_user_id ctx = None \<and>
     (\<exists>k \<in> set (id_keys (db_tables db)). key_hash k = sha256_hex env token \<and> key_revoked_at k = None \<and>
        cc_tenant_id ctx = key_tenant_id k \<and> cc_role ctx = key_role k)"

definition session_authentic :: "auth_env \<Rightarrow> identity database \<Rightarrow> string \<Rightarrow> uuid option \<Rightarrow> caller_context \<Rightarrow> bool" where
  "session_authentic env db token requested ctx \<longleftrightarrow>
     (\<exists>uid c nonce tid. cc_user_id ctx = Some uid \<and> verify_session_jwt env (unix_seconds env (db_steps db)) token = Some c \<and>
        ae_parse_uuid env (cl_sub c) = Some uid \<and> ae_parse_uuid env (cl_nonce c) = Some nonce \<and>
        ae_parse_uuid env (cl_tid c) = tid \<and>
        session_active nonce uid (db_clock db (Suc (db_steps db))) (db_tables db) \<and>
        (if requested = None \<or> requested = tid
         then tid = Some (cc_tenant_id ctx) \<and> cc_role ctx = cl_role c
         else requested = Some (cc_tenant_id ctx) \<and> role_of uid (cc_tenant_id ctx) (db_tables db) = Some (cc_role ctx)))"

lemma key_context_authentic:
  assumes "context_of_key (auth_service_client env db) token ctx"
  shows "key_authentic env db token ctx"
proof -
  obtain x where v: "snd (validate_handler env token db) = Inr x" "cc_user_id ctx = None"
      "cc_tenant_id ctx = vk_tenant_id x" "cc_role ctx = vk_role x"
    using assms by (auto simp: context_of_key_def auth_service_client_def verify_api_key_reply)
  obtain db' where "validate_handler env token db = (db', Inr x)" using v(1) by (cases "validate_handler env token db") simp
  from validate_handler_Inr[OF this] show ?thesis using v(2-4) by (auto simp: key_authentic_def)
qed

lemma session_context_authentic:
  assumes "context_of_session (auth_service_client env db) token requested ctx"
    and "\<And>u. ae_parse_uuid env (ae_show_uuid env u) = Some u"
  shows "session_authentic env db token requested ctx"
proof -
  obtain s where s: "verify_session_with_tenant (ae_parse_uuid env)
       (\<lambda>token requested. http_reply session_body (snd (validate_session_handler env token requested db))) token requested = Inr s"
      "cc_user_id ctx = Some (sc_user_id s)" "cc_tenant_id ctx = sc_tenant_id s" "cc_role ctx = sc_role s"
    using assms(1) by (auto simp: context_of_session_def auth_service_client_def)
  obtain v where v: "snd (validate_session_handler env token requested db) = Inr v"
      "ae_parse_uuid env (vd_tenant_id v) = Some (cc_tenant_id ctx)" "ae_parse_uuid env (vd_user_id v) = Some (sc_user_id s)"
      "cc_role ctx = vd_role v"
    using verify_session_reply[OF s(1)] s(3,4) by auto
  obtain db' where "validate_session_handler env token requested db = (db', Inr v)"
    using v(1) by (cases "validate_session_handler env token requested db") simp
  from validate_session_Inr[OF this] obtain c nonce
    where c: "verify_session_jwt env (unix_seconds env (db_steps db)) token = Some c" "ae_parse_uuid env (cl_sub c) = Some (sc_user_id s)"
        "ae_parse_uuid env (cl_nonce c) = Some nonce"
        "session_active nonce (sc_user_id s) (db_clock db (Suc (db_steps db))) (db_tables db)"
      and scope: "vd_tenant_id v = cl_tid c \<and> vd_role v = cl_role c \<and> (\<forall>q. requested = Some q \<longrightarrow> ae_parse_uuid env (cl_tid c) = Some q) \<or>
         (\<exists>q. requested = Some q \<and> ae_parse_uuid env (cl_tid c) \<noteq> Some q \<and> vd_tenant_id v = ae_show_uuid env q \<and>
            role_of (sc_user_id s) q (db_tables db) = Some (vd_role v))"
    unfolding session_accepted_def using v(3) by auto
  have "if requested = None \<or> requested = ae_parse_uuid env (cl_tid c)
      then ae_parse_uuid env (cl_tid c) = Some (cc_tenant_id ctx) \<and> cc_role ctx = cl_role c
      else requested = Some (cc_tenant_id ctx) \<and> role_of (sc_user_id s) (cc_tenant_id ctx) (db_tables db) = Some (cc_role ctx)"
    using scope
  proof
    assume "vd_tenant_id v = cl_tid c \<and> vd_role v = cl_role c \<and> (\<forall>q. requested = Some q \<longrightarrow> ae_parse_uuid env (cl_tid c) = Some q)"
    then show ?thesis using v(2,4) by (cases requested) simp_all
  next
    assume "\<exists>q. requested = Some q \<and> ae_parse_uuid env (cl_tid c) \<noteq> Some q \<and> vd_tenant_id v = ae_show_uuid env q \<and>
      role_of (sc_user_id s) q (db_tables db) = Some (vd_role v)"
    then obtain q where q: "requested = Some q" "ae_parse_uuid env (cl_tid c) \<noteq> Some q" "vd_tenant_id v = ae_show_uuid env q"
      "role_of (sc_user_id s) q (db_tables db) = Some (vd_role v)" by blast
    have "q = cc_tenant_id ctx" using v(2) q(3) assms(2) by simp
    then show ?thesis using q(1,2,4) v(4) by simp
  qed
  then show ?thesis
    unfolding session_authentic_def using c s(2) by blast
qed

lemma session_authentic_tenant:
  "session_authentic env db token requested ctx \<Longrightarrow> requested = Some q \<Longrightarrow> cc_tenant_id ctx = q"
  by (auto simp: session_authentic_def split: if_splits)

lemma key_authentic_no_admin:
  "identity_ok (db_tables db) \<Longrightarrow> key_authentic env db token ctx \<Longrightarrow> require_admin ctx \<noteq> Inr ()"
  by (auto simp: key_authentic_def identity_ok_def require_admin_def key_roles_def)

text \<open>
  C34: the context that the middleware of a service establishes, when it asks the
  authentication service, is that of the credential the request presents: either its
  bearer token is a key, whose hash a row has that is not revoked, and the context has
  that row's tenant and role; or the token in its cookie, or else its bearer token, is a
  session token whose signature and claims are valid at the time of the request, it names
  an active session of its user, and the context has its tenant and role, or those of the
  user's present membership when the request asks for another tenant. The context is of
  the tenant in the request's header if it has one, and an administrator is always a
  user, never a key. The tables are well-formed, and UUIDs are parsed as they are printed.
\<close>

theorem middleware_context_authentic:
  assumes "identity_ok (db_tables db)"
    and "\<And>u. ae_parse_uuid env (ae_show_uuid env u) = Some u"
    and "require_tenant (auth_service_client env db) headers = Inr ctx \<or>
      query_require_tenant (auth_service_client env db) headers = Inr ctx"
    and "asserted = asserted_tenant (extract_tenant_id_header (ae_parse_uuid env) headers)"
  shows "(\<exists>bearer. extract_bearer_token headers = Inr bearer \<and>
      ((\<exists>token. bearer = Some token \<and> key_authentic env db token ctx) \<or>
       (\<exists>token. first_of (extract_session_cookie headers) bearer = Some token \<and> session_authentic env db token asserted ctx))) \<and>
    (\<forall>q. asserted = Some q \<longrightarrow> cc_tenant_id ctx = q) \<and>
    (require_admin ctx = Inr () \<longrightarrow> cc_user_id ctx \<noteq> None)"
proof -
  let ?c = "auth_service_client env db"
  have p: "ac_parse_uuid ?c = ae_parse_uuid env" by (simp add: auth_service_client_def)
  obtain bearer where b: "extract_bearer_token headers = Inr bearer" "presented_context ?c headers bearer ctx"
    using assms(3) require_tenant_sound[of ?c headers ctx] query_require_tenant_sound[of ?c headers ctx] by blast
  have from_key: "key_authentic env db token ctx" if "context_of_key ?c token ctx" for token
    by (rule key_context_authentic[OF that])
  have from_session: "session_authentic env db token asserted ctx" if "context_of_session ?c token asserted ctx" for token
    by (rule session_context_authentic[OF that assms(2)])
  have sources: "(\<exists>token. bearer = Some token \<and> key_authentic env db token ctx \<and> (\<forall>q. asserted = Some q \<longrightarrow> cc_tenant_id ctx = q)) \<or>
      (\<exists>token. first_of (extract_session_cookie headers) bearer = Some token \<and> session_authentic env db token asserted ctx)"
    using b(2) from_key from_session unfolding presented_context_def Let_def p assms(4)[symmetric] by blast
  then have "\<forall>q. asserted = Some q \<longrightarrow> cc_tenant_id ctx = q"
    using session_authentic_tenant by blast
  moreover have "require_admin ctx = Inr () \<longrightarrow> cc_user_id ctx \<noteq> None"
    using sources key_authentic_no_admin[OF assms(1)] by (auto simp: session_authentic_def)
  ultimately show ?thesis using sources b(1) by blast
qed

definition demo_headers :: headers where
  "demo_headers = (\<lambda>n. if n = ''cookie'' then Some (Text ''session=token'') else None)"

theorem middleware_context_authentic_witness:
  "require_tenant (auth_service_client demo_env demo_db) demo_headers = Inr demo_admin \<and>
   require_admin demo_admin = Inr () \<and> cc_user_id demo_admin \<noteq> None \<and>
   session_authentic demo_env demo_db ''token'' None demo_admin"
proof -
  have r: "require_tenant (auth_service_client demo_env demo_db) demo_headers = Inr demo_admin" by code_simp
  have h: "extract_bearer_token demo_headers = Inr None" "extract_session_cookie demo_headers = Some ''token''"
    "None = asserted_tenant (extract_tenant_id_header (ae_parse_uuid demo_env) demo_headers)" by code_simp+
  show ?thesis
    using middleware_context_authentic[OF demo_tables_ok parse_show_uuid disjI1[OF r] h(3)] r h
    by (auto simp: require_admin_def demo_admin_def first_of_def)
qed

end
