(* ===== verification/Identity_Admins.thy ===== *)
theory Identity_Admins
  imports Identity_Claims
begin

section \<open>Administrators and the purge of a tenant\<close>

text \<open>
  A tenant keeps an administrator whatever an administrator does to its members, with one
  exception that is in the code; and the purge of a tenant removes everything of the
  tenant that it lists and nothing else, or leaves Postgres as it was.
\<close>

subsection \<open>Administrators\<close>

lemma bind_known [simp]:
  "p_bind (p_lift (Inr x)) f = f x" "p_bind (p_lift (Inl e)) f = p_fail e"
  "p_bind (p_return y) f = f y" "p_bind (p_fail e) f = p_fail e"
  by (auto simp: p_bind_def fun_eq_iff)

lemma admins_mem: "x \<in> set (admins tn t) \<longleftrightarrow> x \<in> set (id_roles t) \<and> rl_tenant_id x = tn \<and> rl_role x = ''tenant_admin''"
  by (auto simp: admins_def)

lemma admins_after_delete:
  assumes "identity_ok t" "admins tn t \<noteq> []"
    and "\<not> (role_of u tn t = Some ''tenant_admin'' \<and> length (admins tn t) \<le> 1)"
    and "id_roles t' = delete_where (same_role_row u tn) (id_roles t)"
  shows "admins tn t' \<noteq> []"
proof (cases "role_of u tn t = Some ''tenant_admin''")
  case True
  have d: "distinct (map role_key (admins tn t))"
    using assms(1) by (auto simp: identity_ok_def admins_def distinct_map_filter)
  obtain x y zs where xy: "admins tn t = x # y # zs"
    using True assms(3) by (cases "admins tn t"; cases "tl (admins tn t)") auto
  then have "role_key x \<noteq> role_key y" using d by auto
  then have "\<not> same_role_row u tn x \<or> \<not> same_role_row u tn y"
    by (auto simp: role_key_def same_role_row_def)
  moreover have "x \<in> set (admins tn t)" "y \<in> set (admins tn t)" using xy by auto
  ultimately obtain z where "z \<in> set (admins tn t)" "\<not> same_role_row u tn z" by blast
  then have "z \<in> set (admins tn t')" by (simp add: admins_mem assms(4))
  then show ?thesis by auto
next
  case False
  obtain x where x: "x \<in> set (admins tn t)" using assms(2) by (cases "admins tn t") auto
  then have "\<not> same_role_row u tn x"
    using False role_of_iff[OF assms(1), of u tn "''tenant_admin''"] by (auto simp: admins_mem same_role_row_def)
  then have "x \<in> set (admins tn t')" using x by (simp add: admins_mem assms(4))
  then show ?thesis by auto
qed

text \<open>What the three handlers do to the roles: nothing, a deletion, or a row of another user.\<close>

interpretation same_roles: table_relation "\<lambda>_. True" "\<lambda>t t'. id_roles t' = id_roles t" 0
  by unfold_locales auto

interpretation deleted: table_relation "\<lambda>_. True"
    "\<lambda>t t'. id_roles t' = id_roles t \<or> id_roles t' = delete_where (same_role_row u tn) (id_roles t)" 0 for u tn
  by unfold_locales (auto simp: delete_where_def)

interpretation staying: table_relation "\<lambda>_. True"
    "\<lambda>t t'. \<forall>x \<in> set (id_roles t). rl_user_id x = me \<longrightarrow> x \<in> set (id_roles t')" 0 for me
  by unfold_locales auto

lemma update_other_role: "u \<noteq> me \<Longrightarrow> x \<in> set rows \<Longrightarrow> rl_user_id x = me \<Longrightarrow> x \<in> set (update_where (same_role_row u tn) f rows)"
  by (force simp: set_update_where same_role_row_def)

lemma staying_update_role: "cc_user_id ctx = Some me \<Longrightarrow> staying.keeps me (handle_update_role ctx u r)"
proof (cases "u = me")
  case True
  moreover assume "cc_user_id ctx = Some me"
  ultimately show ?thesis by (auto simp: handle_update_role_def p_guard_def)
next
  case False
  then show ?thesis
    by (auto simp: handle_update_role_def server_error_def set_role_def intro!: staying.keeps_sql update_other_role split: if_splits)
qed

lemma staying_add_member:
  assumes "\<forall>x \<in> set (id_users t). us_email x = am_email body \<longrightarrow> us_id x \<noteq> me"
  shows "staying.keeps_at me t (handle_add_member ctx body)"
proof -
  have put: "staying.keeps me (sql (put_role True u tn r))" if "u \<noteq> me" for u tn r
    using that by (auto simp: put_role_def intro!: staying.keeps_sql update_other_role split: if_splits option.splits)
  have "staying.keeps_at me t (p_bind (server_error (sql_select (\<lambda>t. find (\<lambda>u. us_email u = am_email body) (id_users t)))) (\<lambda>user.
     p_bind (p_lift (ok_or Not_found user)) (\<lambda>user.
     p_bind (server_error (sql (put_role True (us_id user) (cc_tenant_id ctx) (am_role body)))) (\<lambda>joined_at.
     p_return (Created, \<lparr>mr_user_id = us_id user, mr_email = us_email user, mr_name = us_name user,
       mr_role = am_role body, mr_joined_at = joined_at\<rparr>)))))"
    unfolding server_error_def
  proof (rule staying.keeps_at_bind_select, rule staying.keeps_at_keeps, cases "find (\<lambda>u. us_email u = am_email body) (id_users t)")
    case (Some user)
    then have "us_id user \<noteq> me" using assms by (auto dest: find_Some_set)
    then show "staying.keeps me (p_bind (p_lift (ok_or Not_found (find (\<lambda>u. us_email u = am_email body) (id_users t)))) (\<lambda>user.
       p_bind (p_map_err (\<lambda>_. Internal_server_error) (sql (put_role True (us_id user) (cc_tenant_id ctx) (am_role body)))) (\<lambda>joined_at.
       p_return (Created, \<lparr>mr_user_id = us_id user, mr_email = us_email user, mr_name = us_name user,
         mr_role = am_role body, mr_joined_at = joined_at\<rparr>))))"
      using Some put by auto
  qed auto
  then show ?thesis
    by (cases "require_admin ctx") (auto simp: handle_add_member_def intro: staying.keeps_at_keeps)
qed

lemma deleted_remove_member: "deleted.keeps u (cc_tenant_id ctx) (handle_remove_member ctx u)"
  by (auto simp: handle_remove_member_def server_error_def revoke_live_sessions_def revoke_sessions_where_def
      intro!: deleted.keeps_update)

lemma same_roles_refused:
  assumes "role_of u (cc_tenant_id ctx) t = Some ''tenant_admin''" "length (admins (cc_tenant_id ctx) t) \<le> 1"
  shows "same_roles.keeps_at t (handle_remove_member ctx u)"
  using assms
  by (cases "require_admin ctx")
     (auto simp: handle_remove_member_def server_error_def p_guard_def intro!: same_roles.keeps_at_bind_select intro: same_roles.keeps_at_keeps)

text \<open>
  C35: an administrator who is one still when the request runs cannot leave the tenant
  without an administrator by changing roles or by removing members, the own membership
  included, nor by adding a member, as long as that is not the administrator's own address.
\<close>

theorem tenant_keeps_an_admin:
  assumes "identity_ok (db_tables db)"
    and "cc_user_id ctx = Some me" "role_of me (cc_tenant_id ctx) (db_tables db) = Some ''tenant_admin''"
    and "r = Update_role ctx u role \<or> r = Remove_member ctx u \<or>
      r = Add_member ctx body \<and> (\<forall>x \<in> set (id_users (db_tables db)). us_email x = am_email body \<longrightarrow> us_id x \<noteq> me)"
  shows "admins (cc_tenant_id ctx) (db_tables (run_request env r db)) \<noteq> []"
proof -
  let ?t = "db_tables db" and ?tn = "cc_tenant_id ctx"
  obtain x where x: "x \<in> set (id_roles ?t)" "rl_user_id x = me" "x \<in> set (admins ?tn ?t)"
    using role_of_iff[OF assms(1), of me ?tn "''tenant_admin''"] assms(3) by (auto simp: admins_mem)
  have stay: "admins ?tn t' \<noteq> []" if "\<forall>x \<in> set (id_roles ?t). rl_user_id x = me \<longrightarrow> x \<in> set (id_roles t')" for t'
  proof -
    have "x \<in> set (admins ?tn t')" using that x by (simp add: admins_mem)
    then show ?thesis by auto
  qed
  consider "r = Update_role ctx u role" | "r = Remove_member ctx u"
    | "r = Add_member ctx body" "\<forall>x \<in> set (id_users ?t). us_email x = am_email body \<longrightarrow> us_id x \<noteq> me"
    using assms(4) by blast
  then show ?thesis
  proof cases
    case 1
    show ?thesis using staying.keepsD[OF staying_update_role[OF assms(2)], of db u role] 1 by (simp add: run_def stay)
  next
    case 2
    have "admins ?tn ?t \<noteq> []" using x(3) by auto
    show ?thesis
    proof (cases "role_of u ?tn ?t = Some ''tenant_admin'' \<and> length (admins ?tn ?t) \<le> 1")
      case True
      then have "id_roles (db_tables (run_request env r db)) = id_roles ?t"
        using same_roles_refused[of u ctx ?t] 2 by (simp add: same_roles.keeps_at_def run_def)
      then show ?thesis using x(3) by (auto simp: admins_def filter_empty_conv)
    next
      case False
      have "id_roles (db_tables (run_request env r db)) = id_roles ?t \<or>
          id_roles (db_tables (run_request env r db)) = delete_where (same_role_row u ?tn) (id_roles ?t)"
        using deleted.keepsD[OF deleted_remove_member[of u ctx], of db] 2 by (simp add: run_def)
      then show ?thesis
        using admins_after_delete[OF assms(1) \<open>admins ?tn ?t \<noteq> []\<close> False] x(3) by (auto simp: admins_def filter_empty_conv)
    qed
  next
    case 3
    then show ?thesis using staying_add_member[of ?t body me ctx] by (simp add: staying.keeps_at_def run_def stay)
  qed
qed

theorem tenant_keeps_an_admin_witness:
  "admins 1 (db_tables (run_request demo_env (Remove_member demo_admin 7) demo_db)) \<noteq> []"
proof -
  have r: "role_of 7 (cc_tenant_id demo_admin) (db_tables demo_db) = Some ''tenant_admin''" by code_simp
  show ?thesis
    using tenant_keeps_an_admin[where u = 7 and env = demo_env, OF demo_tables_ok _ r disjI2[OF disjI1[OF HOL.refl]]]
    by (simp add: demo_admin_def)
qed

text \<open>
  The exception is there in the code: an administrator who adds the own address again as a
  viewer leaves the tenant without one.
\<close>

lemma add_member_demotes_last_admin:
  "admins 1 (db_tables (run_request demo_env (Add_member demo_admin \<lparr>am_email = ''u7'', am_role = ''viewer''\<rparr>) demo_db)) = []"
  by code_simp

subsection \<open>The purge\<close>

lemma transaction_cases:
  "db_tables (fst (transaction g m db)) = db_tables db \<or>
   (\<exists>db1 x. m (tick db) = (db1, Inr x) \<and> db_tables (fst (transaction g m db)) = db_tables db1)"
  by (auto simp: transaction_def split: prod.splits sum.splits option.splits failure.splits)

lemma run_delete_Inr: "run_delete tn step db = (db', Inr x) \<Longrightarrow> db_tables db' = delete_rows tn step (db_tables db)"
  by (auto simp: run_delete_def server_error_def program_Inr)

lemma p_each_deletes:
  "p_each (run_delete tn) plan db = (db', Inr x) \<Longrightarrow> db_tables db' = fold (delete_rows tn) plan (db_tables db)"
proof (induction plan arbitrary: db)
  case (Cons step plan)
  then obtain db1 where "run_delete tn step db = (db1, Inr ())" "p_each (run_delete tn) plan db1 = (db', Inr x)"
    by (auto simp: p_bind_Inr)
  then show ?case using Cons.IH run_delete_Inr by fastforce
qed simp

definition identity_tables :: "string list" where
  "identity_tables = [''user_sessions'', ''user_tenant_roles'', ''api_keys'']"

text \<open>No delete looks at a table whose rows are already gone.\<close>

fun parents_last :: "(string \<times> purge_scope) list \<Rightarrow> bool" where
  "parents_last [] \<longleftrightarrow> True"
| "parents_last ((t, s) # steps) \<longleftrightarrow> Of_rows t \<notin> snd ` set steps \<and> parents_last steps"

lemma purge_plan_ordered: "parents_last purge_plan \<and> distinct (map fst purge_plan)"
  by code_simp

lemma delete_rows_owned:
  "pl_owned (delete_rows tn (t, s) p) =
     (if t \<in> set identity_tables then pl_owned p else (pl_owned p)(t := delete_where (owned_by tn s p) (pl_owned p t)))"
  by (auto simp: delete_rows_def identity_tables_def)

lemma owned_by_other: "s \<noteq> Of_rows t \<Longrightarrow> owned_by tn s (delete_rows tn (t, s') p) = owned_by tn s p"
  by (auto simp: owned_by_def delete_rows_owned fun_eq_iff split: purge_scope.splits)

lemma fold_deletes:
  "parents_last plan \<Longrightarrow> distinct (map fst plan) \<Longrightarrow>
   pl_owned (fold (delete_rows tn) plan p) t =
     (case map_of plan t of
        None \<Rightarrow> pl_owned p t
      | Some s \<Rightarrow> if t \<in> set identity_tables then pl_owned p t else delete_where (owned_by tn s p) (pl_owned p t))"
proof (induction plan arbitrary: p)
  case Nil
  then show ?case by simp
next
  case (Cons step plan)
  obtain t' s' where step: "step = (t', s')" by (cases step)
  have rest: "owned_by tn s (delete_rows tn step p) = owned_by tn s p" if "(t, s) \<in> set plan" for s
    unfolding step by (rule owned_by_other) (use Cons.prems(1) that step in force)
  have prems: "parents_last plan" "distinct (map fst plan)" using Cons.prems by (simp_all add: step)
  have IH: "pl_owned (fold (delete_rows tn) plan (delete_rows tn step p)) t =
     (case map_of plan t of
        None \<Rightarrow> pl_owned (delete_rows tn step p) t
      | Some s \<Rightarrow> if t \<in> set identity_tables then pl_owned (delete_rows tn step p) t
          else delete_where (owned_by tn s (delete_rows tn step p)) (pl_owned (delete_rows tn step p) t))"
    by (rule Cons.IH[OF prems])
  show ?case
  proof (cases "t = t'")
    case True
    then have "map_of plan t = None" using Cons.prems(2) by (simp add: step map_of_eq_None_iff)
    then show ?thesis using IH True by (simp add: step delete_rows_owned del: fun_upd_apply) simp
  next
    case False
    then show ?thesis using IH rest by (auto simp: step delete_rows_owned dest: map_of_SomeD split: option.splits)
  qed
qed

lemma delete_rows_identity:
  "pl_identity (delete_rows tn (t, s) p) =
     (if t = ''user_sessions'' then (pl_identity p)\<lparr>id_sessions := delete_where (\<lambda>s. ss_tenant_id s = tn) (id_sessions (pl_identity p))\<rparr>
      else if t = ''user_tenant_roles'' then (pl_identity p)\<lparr>id_roles := delete_where (\<lambda>r. rl_tenant_id r = tn) (id_roles (pl_identity p))\<rparr>
      else if t = ''api_keys'' then (pl_identity p)\<lparr>id_keys := delete_where (\<lambda>k. key_tenant_id k = tn) (id_keys (pl_identity p))\<rparr>
      else pl_identity p)"
  by (simp add: delete_rows_def)

lemma fold_deletes_identity:
  "pl_identity (fold (delete_rows tn) purge_plan p) =
     (pl_identity p)\<lparr>id_sessions := delete_where (\<lambda>s. ss_tenant_id s = tn) (id_sessions (pl_identity p)),
       id_roles := delete_where (\<lambda>r. rl_tenant_id r = tn) (id_roles (pl_identity p)),
       id_keys := delete_where (\<lambda>k. key_tenant_id k = tn) (id_keys (pl_identity p))\<rparr>"
  unfolding purge_plan_def by (simp add: delete_rows_identity)

text \<open>
  The platform without a tenant: of the tables that the response lists, the rows of the
  tenant, and those whose incident, saved view or dashboard is the tenant's, are gone.
\<close>

definition rows_of :: "uuid \<Rightarrow> string \<Rightarrow> platform \<Rightarrow> uuid set" where
  "rows_of tn parent p = ow_id ` {q \<in> set (pl_owned p parent). ow_owner q = tn}"

definition belongs :: "uuid \<Rightarrow> platform \<Rightarrow> string \<Rightarrow> owned_row \<Rightarrow> bool" where
  "belongs tn p t r \<longleftrightarrow>
     (if t = ''incident_events'' then ow_owner r \<in> rows_of tn ''incidents'' p
      else if t = ''saved_view_grants'' then ow_owner r \<in> rows_of tn ''saved_views'' p
      else if t \<in> {''dashboard_grants'', ''dashboard_panels''} then ow_owner r \<in> rows_of tn ''dashboards'' p
      else ow_owner r = tn)"

definition purged :: "auth_env \<Rightarrow> caller_context \<Rightarrow> uuid \<Rightarrow> platform \<Rightarrow> platform \<Rightarrow> bool" where
  "purged env ctx tn p p' \<longleftrightarrow>
     pl_identity p' = (pl_identity p)\<lparr>
       id_sessions := filter (\<lambda>s. ss_tenant_id s \<noteq> tn) (id_sessions (pl_identity p)),
       id_roles := filter (\<lambda>r. rl_tenant_id r \<noteq> tn) (id_roles (pl_identity p)),
       id_keys := filter (\<lambda>k. key_tenant_id k \<noteq> tn) (id_keys (pl_identity p)),
       id_tenants := filter (\<lambda>r. tn_id r \<noteq> tn) (id_tenants (pl_identity p)),
       id_audit := id_audit (pl_identity p) @ [admin_entry env ctx ''tenant_purge'']\<rparr> \<and>
     (\<forall>t. pl_owned p' t =
        (if t \<in> set purge_tables - set (''tenants'' # identity_tables) then filter (\<lambda>r. \<not> belongs tn p t r) (pl_owned p t)
         else pl_owned p t))"

lemma owned_by_rows: "owned_by tn (Of_rows par) p r \<longleftrightarrow> ow_owner r \<in> rows_of tn par p"
  by (force simp: owned_by_def rows_of_def)

lemma owned_by_tenant: "owned_by tn Of_tenant p r \<longleftrightarrow> ow_owner r = tn"
  by (simp add: owned_by_def)

lemma owned_by_belongs:
  "map_of purge_plan t = Some s \<Longrightarrow> owned_by tn s p r = belongs tn p t r"
  by (auto simp: purge_plan_def belongs_def owned_by_rows owned_by_tenant split: if_splits)

lemma plan_tables: "t \<in> set purge_tables - {''tenants''} \<longleftrightarrow> map_of purge_plan t \<noteq> None"
proof -
  have "set purge_tables - {''tenants''} = set (map fst purge_plan)" by code_simp
  then show ?thesis by (simp add: map_of_eq_None_iff)
qed

lemma fold_purge_plan:
  "pl_owned (fold (delete_rows tn) purge_plan p) t =
     (if t \<in> set purge_tables - set (''tenants'' # identity_tables) then filter (\<lambda>r. \<not> belongs tn p t r) (pl_owned p t)
      else pl_owned p t)"
proof (cases "map_of purge_plan t")
  case None
  then have out: "\<not> t \<in> set purge_tables - set (''tenants'' # identity_tables)" using plan_tables[of t] by auto
  have "pl_owned (fold (delete_rows tn) purge_plan p) t = pl_owned p t"
    using fold_deletes[of purge_plan tn p t] purge_plan_ordered None by simp
  then show ?thesis by (simp only: out if_False)
next
  case (Some s)
  then have "t \<in> set purge_tables - {''tenants''}" using plan_tables by simp
  moreover have "owned_by tn s p = belongs tn p t" using owned_by_belongs[OF Some] by (simp add: fun_eq_iff)
  ultimately show ?thesis
    using fold_deletes[of purge_plan tn p t] purge_plan_ordered Some by (auto simp: delete_where_def)
qed

lemma purged_cong:
  "pl_identity p1 = pl_identity p \<Longrightarrow> pl_owned p1 = pl_owned p \<Longrightarrow> purged env ctx tn p1 q = purged env ctx tn p q"
  by (simp only: purged_def belongs_def rows_of_def)

lemma purge_transaction_Inr:
  assumes "purge_transaction env ctx tn db = (db', Inr x)"
  shows "purged env ctx tn (db_tables db) (db_tables db')"
proof -
  obtain db1 where d: "p_each (run_delete tn) purge_plan db = (db1, Inr ())"
    and t: "db_tables db' = on_identity (\<lambda>t. t\<lparr>id_audit := id_audit t @ [admin_entry env ctx ''tenant_purge'']\<rparr>)
      (on_identity (\<lambda>t. t\<lparr>id_tenants := delete_where (\<lambda>r. tn_id r = tn) (id_tenants t)\<rparr>) (db_tables db1))"
    using assms by (auto simp: purge_transaction_def program_Inr server_error_def)
  have d1: "db_tables db1 = fold (delete_rows tn) purge_plan (db_tables db)" using p_each_deletes[OF d] .
  have "pl_owned (db_tables db') = pl_owned (fold (delete_rows tn) purge_plan (db_tables db))"
    by (simp add: t d1 on_identity_def)
  then show ?thesis
    by (simp add: purged_def t d1 on_identity_def fold_deletes_identity fold_purge_plan delete_where_def)
qed

lemma run_mutations_frame:
  "\<exists>x. run_mutations env tn tables db = (fst (run_mutations env tn tables db), Inr x) \<and>
     pl_identity (db_tables (fst (run_mutations env tn tables db))) = pl_identity (db_tables db) \<and>
     pl_owned (db_tables (fst (run_mutations env tn tables db))) = pl_owned (db_tables db)"
proof (induction tables arbitrary: db)
  case Nil
  then show ?case by simp
next
  case (Cons a tables)
  let ?m = "sql_update (\<lambda>_ p. (p\<lparr>pl_mutations := pl_mutations p @ [purge_mutation env tn a]\<rparr>, ())) :: (platform, sql_error, unit) program"
  obtain db1 r where m: "?m db = (db1, r)" by (cases "?m db")
  then have "pl_identity (db_tables db1) = pl_identity (db_tables db)" "pl_owned (db_tables db1) = pl_owned (db_tables db)"
    by (auto simp: sql_update_def sql_def Let_def split: option.splits failure.splits)
  moreover have "run_mutations env tn (a # tables) db =
      p_bind (run_mutations env tn tables) (\<lambda>purged. p_return (case r of Inl _ \<Rightarrow> purged | Inr _ \<Rightarrow> a # purged)) db1"
    by (simp add: p_bind_try[where m = ?m and db = db, OF m])
  moreover obtain x where "run_mutations env tn tables db1 = (fst (run_mutations env tn tables db1), Inr x)"
    using Cons.IH[of db1] by blast
  ultimately show ?case
    using Cons.IH[of db1] by (simp add: p_bind_apply(1))
qed

lemma purge_cases:
  assumes "handle_purge_tenant env ctx tn db = (db', r)"
  shows "(pl_identity (db_tables db') = pl_identity (db_tables db) \<and> pl_owned (db_tables db') = pl_owned (db_tables db) \<and> isl r) \<or>
    (purged env ctx tn (db_tables db) (db_tables db') \<and> require_admin ctx = Inr () \<and> cc_tenant_id ctx = tn)"
proof (cases "own_tenant ctx tn")
  case (Inl e)
  then show ?thesis using assms by (simp add: handle_purge_tenant_def p_bind_def) auto
next
  case (Inr u)
  then have own: "require_admin ctx = Inr ()" "cc_tenant_id ctx = tn"
    by (auto simp: own_tenant_def split: if_splits)
  let ?db1 = "fst (run_mutations env tn ch_tables db)"
  let ?tx = "transaction (\<lambda>_. Internal_server_error) (purge_transaction env ctx tn)"
  obtain x where x: "run_mutations env tn ch_tables db = (?db1, Inr x)"
    and same: "pl_identity (db_tables ?db1) = pl_identity (db_tables db)" "pl_owned (db_tables ?db1) = pl_owned (db_tables db)"
    using run_mutations_frame[of env tn ch_tables db] by blast
  have "handle_purge_tenant env ctx tn db = p_bind ?tx (\<lambda>_. p_return \<lparr>pu_status = ''purged'', pu_tenant_id = tn,
      pu_postgres = purge_tables, pu_clickhouse = x\<rparr>) ?db1"
    using Inr by (simp add: handle_purge_tenant_def p_bind_apply(1)[where m = "run_mutations env tn ch_tables", OF x])
  then have db': "db' = fst (?tx ?db1)" and res: "isl r \<or> (\<exists>y db2. ?tx ?db1 = (db2, Inr y))"
    using assms by (auto simp: p_bind_def split: prod.splits sum.splits)
  have same_purged: "purged env ctx tn (db_tables ?db1) p \<Longrightarrow> purged env ctx tn (db_tables db) p" for p
    using purged_cong[OF same] by simp
  show ?thesis
  proof (cases "\<exists>y db2. purge_transaction env ctx tn (tick ?db1) = (db2, Inr y) \<and> db_tables db' = db_tables db2")
    case True
    then show ?thesis using purge_transaction_Inr same_purged own db' by fastforce
  next
    case False
    then have "db_tables db' = db_tables ?db1"
      using transaction_cases[of "\<lambda>_. Internal_server_error" "purge_transaction env ctx tn" ?db1] db' by auto
    moreover have "isl r"
    proof (rule ccontr)
      assume "\<not> isl r"
      then obtain y db2 where y: "?tx ?db1 = (db2, Inr y)" using res by blast
      then obtain db3 where "purge_transaction env ctx tn (tick ?db1) = (db3, Inr y)" "db2 = tick db3"
        by (auto simp: transaction_Inr)
      then show False using False db' y by auto
    qed
    ultimately show ?thesis using same by simp
  qed
qed

text \<open>
  C36: the purge of a tenant is for an administrator of that tenant, and in Postgres it is
  all or nothing, whichever statement fails: either nothing has changed, or every row of
  the tenant in the listed tables is gone, with the rows that hang on its incidents, views
  and dashboards, every other row of every table is as it was, and the purge is in the
  audit log. A purge that is reported as done is the second.
\<close>

theorem purge_all_or_nothing:
  "(pl_identity (db_tables (fst (handle_purge_tenant env ctx tn db))) = pl_identity (db_tables db) \<and>
    pl_owned (db_tables (fst (handle_purge_tenant env ctx tn db))) = pl_owned (db_tables db) \<and>
    isl (snd (handle_purge_tenant env ctx tn db))) \<or>
   (purged env ctx tn (db_tables db) (db_tables (fst (handle_purge_tenant env ctx tn db))) \<and>
    require_admin ctx = Inr () \<and> cc_tenant_id ctx = tn)"
  using purge_cases[OF surjective_pairing] .

text \<open>With a database that does not fail, the purge of a tenant that exists is done.\<close>

lemma reliable_run_mutations:
  "reliable db \<Longrightarrow> reliable (fst (run_mutations env tn tables db))"
proof (induction tables arbitrary: db)
  case (Cons a tables)
  let ?m = "sql_update (\<lambda>_ p. (p\<lparr>pl_mutations := pl_mutations p @ [purge_mutation env tn a]\<rparr>, ())) :: (platform, sql_error, unit) program"
  obtain db1 r where m: "?m db = (db1, r)" by (cases "?m db")
  then have "reliable db1" using Cons.prems by (auto simp: reliable_update)
  moreover have "run_mutations env tn (a # tables) db =
      p_bind (run_mutations env tn tables) (\<lambda>purged. p_return (case r of Inl _ \<Rightarrow> purged | Inr _ \<Rightarrow> a # purged)) db1"
    by (simp add: p_bind_try[where m = ?m and db = db, OF m])
  moreover obtain x where "run_mutations env tn tables db1 = (fst (run_mutations env tn tables db1), Inr x)"
    using run_mutations_frame[of env tn tables db1] by blast
  ultimately show ?case using Cons.IH[of db1] by (simp add: p_bind_apply(1))
qed simp

lemma reliable_deletes:
  "reliable db \<Longrightarrow> \<exists>db'. p_each (run_delete tn) plan db = (db', Inr ()) \<and> reliable db'"
proof (induction plan arbitrary: db)
  case (Cons step plan)
  let ?db1 = "(tick db)\<lparr>db_tables := delete_rows tn step (db_tables db)\<rparr>"
  have "run_delete tn step db = (?db1, Inr ())"
    using Cons.prems by (simp add: run_delete_def server_error_def p_map_err_def reliable_update)
  then show ?case using Cons.IH[of ?db1] Cons.prems by (simp add: p_bind_def)
qed simp

lemma purge_succeeds:
  assumes "reliable db" "require_admin ctx = Inr ()" "cc_tenant_id ctx = tn"
    and "tn \<in> tn_id ` set (id_tenants (pl_identity (db_tables db)))"
  shows "\<not> isl (snd (handle_purge_tenant env ctx tn db))"
proof -
  let ?db1 = "fst (run_mutations env tn ch_tables db)"
  obtain x where x: "run_mutations env tn ch_tables db = (?db1, Inr x)"
    and same: "pl_identity (db_tables ?db1) = pl_identity (db_tables db)"
    using run_mutations_frame[of env tn ch_tables db] by blast
  have rel: "reliable ?db1" using reliable_run_mutations[OF assms(1)] .
  obtain db2 where d: "p_each (run_delete tn) purge_plan (tick ?db1) = (db2, Inr ())" "reliable db2"
    using reliable_deletes[of "tick ?db1" tn purge_plan] rel by auto
  have "id_tenants (pl_identity (db_tables db2)) = id_tenants (pl_identity (db_tables db))"
    using p_each_deletes[OF d(1)] by (simp add: fold_deletes_identity same)
  then have "\<exists>r \<in> set (id_tenants (pl_identity (db_tables db2))). tn_id r = tn" using assms(4) by auto
  then have "\<exists>db3. purge_transaction env ctx tn (tick ?db1) = (db3, Inr ()) \<and> reliable db3"
    using d by (simp add: purge_transaction_def p_bind_def server_error_def p_map_err_def reliable_update p_guard_def)
  then have "\<not> isl (snd (transaction (\<lambda>_. Internal_server_error) (purge_transaction env ctx tn) ?db1))"
    using rel by (auto simp: transaction_def reliable_def)
  moreover have "own_tenant ctx tn = Inr ()" using assms(2,3) by (simp add: own_tenant_def)
  ultimately show ?thesis
    by (simp add: handle_purge_tenant_def p_bind_apply(1)[where m = "run_mutations env tn ch_tables", OF x])
       (auto simp: p_bind_def split: prod.splits sum.splits)
qed

end
