(* ===== verification/Identity_Login.thy ===== *)
theory Identity_Login
  imports Identity_Admins
begin

section \<open>From the callback to a validated session\<close>

text \<open>
  What a callback that succeeds has done, and that the token it hands out is accepted by
  the validation of sessions, with the role it was issued for.
\<close>

definition callback_reply :: "auth_env \<Rightarrow> string \<Rightarrow> redirect outcome" where
  "callback_reply env jwt =
     found ''/''
       [''session='' @ jwt @ ''; HttpOnly'' @ secure_attr env @ ''; SameSite=Lax; Path=/; Max-Age=604800'',
        ''pkce_cv=; Max-Age=0; Path=/'', ''oauth_state=; Max-Age=0; Path=/'']"

lemma create_session_Inr:
  assumes "create_session env u tn en db = (db', Inr sid)"
  shows "\<exists>k. \<lparr>ss_id = sid, ss_user_id = u, ss_tenant_id = tn, ss_environment = en, ss_expires_at = ae_clock env k + days_7,
      ss_revoked_at = None\<rparr> \<in> set (id_sessions (db_tables db')) \<and> id_roles (db_tables db') = id_roles (db_tables db) \<and>
    same_world db db'"
proof -
  let ?now = "ae_clock env (db_steps db)"
  obtain t where "put_session u tn en (?now + days_7) (db_clock db (Suc (db_steps db))) (db_gen db (Suc (db_steps db))) (db_tables db) = Inr (t, sid)"
    and db': "db' = (tick (tick db))\<lparr>db_tables := t\<rparr>"
    using assms by (auto simp: create_session_def p_bind_Inr p_ask_Inr sql_Inr)
  then show ?thesis
    by (intro exI[of _ "db_steps db"]) (auto simp: put_session_def same_world_def split: if_splits)
qed

text \<open>The session and the token of a callback, as one predicate.\<close>

definition opened_session :: "auth_env \<Rightarrow> uuid \<Rightarrow> uuid \<Rightarrow> string \<Rightarrow> string \<Rightarrow> uuid \<Rightarrow> string \<Rightarrow> identity \<Rightarrow> bool" where
  "opened_session env u tn role en sid jwt t \<longleftrightarrow>
     (\<exists>k k'. \<lparr>ss_id = sid, ss_user_id = u, ss_tenant_id = tn, ss_environment = en, ss_expires_at = ae_clock env k + days_7,
        ss_revoked_at = None\<rparr> \<in> set (id_sessions t) \<and>
      sign_session_jwt env u tn role en sid (unix_seconds env k') = Some jwt)"

lemma callback_session_Inr:
  assumes "callback_session env sub u tenants db = (db', Inr r)"
  shows "\<exists>tn role en sid jwt. (tn, role) \<in> set tenants \<and> opened_session env u tn role en sid jwt (db_tables db') \<and>
    r = callback_reply env jwt \<and> id_roles (db_tables db') = id_roles (db_tables db)"
proof (cases tenants)
  case Nil
  then show ?thesis using assms by (simp add: callback_session_def)
next
  case (Cons p rest)
  obtain tn role where p: "p = (tn, role)" by (cases p)
  define en where "en = unwrap_or ''default'' (tenant_environment tn (db_tables db))"
  obtain sid db1 db2 where c: "create_session env u tn en (tick db) = (db1, Inr sid)"
    and a: "(audit_write (audit_login sub tn) :: (identity, redirect outcome, unit) program) db1 = (db2, Inr ())"
    and j: "\<exists>jwt. sign_session_jwt env u tn role en sid (unix_seconds env (db_steps db2)) = Some jwt \<and>
        r = callback_reply env jwt" and db': "db' = tick db2"
    using assms unfolding Cons p callback_session_def Let_def list.case prod.case callback_reply_def en_def
    by (auto simp: p_bind_Inr p_ask_Inr p_map_err_Inr sql_select_Inr)
  have same: "id_roles (db_tables db2) = id_roles (db_tables db1)" "id_sessions (db_tables db2) = id_sessions (db_tables db1)"
    using audit_write_Inr[OF HOL.refl a] by simp_all
  obtain k where k: "\<lparr>ss_id = sid, ss_user_id = u, ss_tenant_id = tn, ss_environment = en, ss_expires_at = ae_clock env k + days_7,
      ss_revoked_at = None\<rparr> \<in> set (id_sessions (db_tables db1))" "id_roles (db_tables db1) = id_roles (db_tables db)"
    using create_session_Inr[OF c] by auto
  obtain jwt where jwt: "sign_session_jwt env u tn role en sid (unix_seconds env (db_steps db2)) = Some jwt" "r = callback_reply env jwt"
    using j by blast
  have "opened_session env u tn role en sid jwt (db_tables db')"
    unfolding opened_session_def using k(1) same(2) jwt(1) by (auto simp: db')
  moreover have "id_roles (db_tables db') = id_roles (db_tables db)" using k(2) same(1) by (simp add: db')
  moreover have "(tn, role) \<in> set tenants" by (simp add: Cons p)
  ultimately show ?thesis using jwt(2) by blast
qed

lemma bind_list_Inr:
  "p_bind (p_map_err g (list_user_tenants u)) f db = (db', Inr r) \<Longrightarrow>
   f (map (\<lambda>r. (rl_tenant_id r, rl_role r)) (filter (\<lambda>r. rl_user_id r = u) (id_roles (db_tables db)))) (tick db) = (db', Inr r)"
  by (auto simp: p_bind_Inr p_map_err_Inr list_user_tenants_def sql_select_Inr)

lemma callback_handler_Inr:
  assumes "callback_handler env params hs db = (db', Inr r)"
  shows "\<exists>db1 u sub. extract_cookie hs ''oauth_state'' = Some (cp_state params) \<and>
    callback_session env sub u (map (\<lambda>r. (rl_tenant_id r, rl_role r)) (filter (\<lambda>r. rl_user_id r = u) (id_roles (db_tables db1)))) db1 = (db', Inr r)"
proof -
  let ?rows = "\<lambda>u t. map (\<lambda>r. (rl_tenant_id r, rl_role r)) (filter (\<lambda>r. rl_user_id r = u) (id_roles t))"
  let ?se = "\<lambda>_ :: sql_error. login_error_redirect env ''server_error''"
  let ?list = "\<lambda>u. p_map_err ?se (list_user_tenants u)"
  let ?tail = "\<lambda>sub u tenants. if tenants = [] \<and> ae_dev_mode env then
       p_bind (seed_tenants env u) (\<lambda>_. p_bind (?list u) (callback_session env sub u))
     else callback_session env sub u tenants"
  obtain dbA x where A: "callback_identity env params hs db = (dbA, Inr x)"
    and B: "(case x of (sub, email, nm) \<Rightarrow>
       p_bind (p_map_err ?se (upsert_user sub email nm)) (\<lambda>u. p_bind (?list u) (?tail sub u))) dbA = (db', Inr r)"
    using assms unfolding callback_handler_def Let_def p_bind_Inr[where m = "callback_identity env params hs"] by blast
  have state: "extract_cookie hs ''oauth_state'' = Some (cp_state params)"
    using A by (auto simp: callback_identity_def p_bind_Inr p_guard_Inr)
  obtain sub email nm where x: "x = (sub, email, nm)" by (cases x)
  obtain db2 u where C: "p_bind (?list u) (?tail sub u) db2 = (db', Inr r)"
    using B unfolding x prod.case p_bind_Inr[where m = "p_map_err ?se (upsert_user sub email nm)"] by blast
  have rest: "?tail sub u (?rows u (db_tables db2)) (tick db2) = (db', Inr r)"
    by (rule bind_list_Inr[OF C])
  show ?thesis
  proof (cases "?rows u (db_tables db2) = [] \<and> ae_dev_mode env")
    case True
    then obtain db3 where "callback_session env sub u (?rows u (db_tables db3)) (tick db3) = (db', Inr r)"
      using rest by (auto simp: p_bind_Inr[where m = "seed_tenants env u"] dest: bind_list_Inr)
    then show ?thesis using state by (intro exI[of _ "tick db3"]) auto
  next
    case False
    then have "callback_session env sub u (?rows u (db_tables db2)) (tick db2) = (db', Inr r)" using rest by (simp only: if_False)
    then show ?thesis using state by (intro exI[of _ "tick db2"]) auto
  qed
qed

text \<open>Every reading of the two clocks is within the seven days that a session lasts.\<close>

definition within_session_life :: "auth_env \<Rightarrow> identity database \<Rightarrow> bool" where
  "within_session_life env db \<longleftrightarrow>
     (\<forall>i j. db_clock db i < ae_clock env j + days_7 \<and> unix_seconds env i \<le> unix_seconds env j + session_ttl_secs)"

text \<open>What the code relies on of the token library: a token it signed is read back while it has not expired.\<close>

definition jwt_reads_back :: "auth_env \<Rightarrow> bool" where
  "jwt_reads_back env \<longleftrightarrow>
     (\<forall>c secret token now v. ae_jwt_encode env c secret = Some token \<and> now \<le> cl_exp c \<and>
        cl_iss c \<in> set (jv_issuers v) \<and> cl_aud c \<in> set (jv_audiences v) \<longrightarrow>
        ae_jwt_decode env now token secret v = Some c)"

lemma validate_session_fresh:
  assumes "reliable db" "verify_session_jwt env (unix_seconds env (db_steps db)) token = Some c"
    and "ae_parse_uuid env (cl_nonce c) = Some nonce" "ae_parse_uuid env (cl_sub c) = Some uid" "ae_parse_uuid env (cl_tid c) = Some tid"
    and "session_active nonce uid (db_clock db (Suc (db_steps db))) (db_tables db)"
  shows "snd (validate_session_handler env token None db) =
    Inr \<lparr>vd_user_id = cl_sub c, vd_tenant_id = cl_tid c, vd_role = cl_role c, vd_environment = cl_env c\<rparr>"
  using assms
  by (simp add: validate_session_handler_def p_ask_def p_bind_def p_map_err_def reliable_sql session_scope_def)

text \<open>
  C37: a callback that succeeds answers the browser that began the login (the state matches
  its cookie), and the token in the cookie it sets is accepted by the validation of
  sessions for as long as the session lasts: for a user and a tenant in which the user is a
  member, with the role of that membership.
\<close>

theorem callback_token_validates:
  assumes "snd (callback_handler env params hs db) = Inr r"
    and "db' = fst (callback_handler env params hs db)"
    and "identity_ok (db_tables db)" "reliable db'"
    and "within_session_life env db'" "jwt_reads_back env"
    and "\<And>u. ae_parse_uuid env (ae_show_uuid env u) = Some u"
  shows "extract_cookie hs ''oauth_state'' = Some (cp_state params) \<and>
    (\<exists>u tn role en jwt. r = callback_reply env jwt \<and> role_of u tn (db_tables db') = Some role \<and>
       snd (validate_session_handler env jwt None db') =
         Inr \<lparr>vd_user_id = ae_show_uuid env u, vd_tenant_id = ae_show_uuid env tn, vd_role = role, vd_environment = en\<rparr>)"
proof -
  have c: "callback_handler env params hs db = (db', Inr r)" using assms(1,2) by (cases "callback_handler env params hs db") simp
  obtain db1 u sub where state: "extract_cookie hs ''oauth_state'' = Some (cp_state params)"
    and s: "callback_session env sub u (map (\<lambda>r. (rl_tenant_id r, rl_role r)) (filter (\<lambda>r. rl_user_id r = u) (id_roles (db_tables db1)))) db1 = (db', Inr r)"
    using callback_handler_Inr[OF c] by blast
  let ?rows = "map (\<lambda>r. (rl_tenant_id r, rl_role r)) (filter (\<lambda>r. rl_user_id r = u) (id_roles (db_tables db1)))"
  obtain tn role en sid jwt where h: "(tn, role) \<in> set ?rows"
    and o: "opened_session env u tn role en sid jwt (db_tables db')"
    and j: "r = callback_reply env jwt" and roles: "id_roles (db_tables db') = id_roles (db_tables db1)"
    using callback_session_Inr[OF s] by blast
  obtain k k' where row: "\<lparr>ss_id = sid, ss_user_id = u, ss_tenant_id = tn, ss_environment = en, ss_expires_at = ae_clock env k + days_7,
      ss_revoked_at = None\<rparr> \<in> set (id_sessions (db_tables db'))"
    and sign: "sign_session_jwt env u tn role en sid (unix_seconds env k') = Some jwt"
    using o unfolding opened_session_def by blast
  have ok: "identity_ok (db_tables db')"
    using well_formed.keepsD[OF well_formed.keeps_callback, of db env params hs] assms(2,3) by simp
  have r: "role_of u tn (db_tables db') = Some role" using h role_of_iff[OF ok] roles by auto
  let ?c = "\<lparr>cl_iss = session_issuer, cl_aud = session_audience, cl_sub = ae_show_uuid env u,
        cl_tid = ae_show_uuid env tn, cl_role = role, cl_env = en,
        cl_nonce = ae_show_uuid env sid, cl_iat = unix_seconds env k', cl_exp = unix_seconds env k' + session_ttl_secs\<rparr>"
  have d: "verify_session_jwt env (unix_seconds env (db_steps db')) jwt = Some ?c"
    using assms(5,6) sign
    by (simp add: verify_session_jwt_def sign_session_jwt_def jwt_reads_back_def session_validation_def within_session_life_def)
  have "session_active sid u (db_clock db' (Suc (db_steps db'))) (db_tables db')"
    using row assms(5) unfolding session_active_def within_session_life_def by force
  then have "snd (validate_session_handler env jwt None db') =
      Inr \<lparr>vd_user_id = cl_sub ?c, vd_tenant_id = cl_tid ?c, vd_role = cl_role ?c, vd_environment = cl_env ?c\<rparr>"
    by (intro validate_session_fresh[OF assms(4) d]) (simp_all add: assms(7))
  then have "snd (validate_session_handler env jwt None db') =
      Inr \<lparr>vd_user_id = ae_show_uuid env u, vd_tenant_id = ae_show_uuid env tn, vd_role = role, vd_environment = en\<rparr>" by simp
  then show ?thesis using state j r by blast
qed

definition login_claims :: session_claims where
  "login_claims =
     \<lparr>cl_iss = session_issuer, cl_aud = session_audience, cl_sub = ''7'', cl_tid = ''1'', cl_role = ''tenant_admin'',
      cl_env = ''prod'', cl_nonce = ''106'', cl_iat = 0, cl_exp = session_ttl_secs\<rparr>"

definition login_env :: auth_env where
  "login_env = demo_env\<lparr>
     ae_jwt_encode := (\<lambda>c secret. if c = login_claims then Some ''token'' else None),
     ae_jwt_decode := (\<lambda>now token secret v. if token = ''token'' \<and> now \<le> cl_exp login_claims then Some login_claims else None),
     ae_clock := (\<lambda>n. 0)\<rparr>"

definition login_headers :: headers where
  "login_headers = (\<lambda>n. if n = ''cookie'' then Some (Text ''pkce_cv=v; oauth_state=s'') else None)"

definition login_params :: callback_params where
  "login_params = \<lparr>cp_code = ''c'', cp_state = ''s''\<rparr>"

definition login_db :: "identity database" where
  "login_db = demo_db\<lparr>db_clock := (\<lambda>n. 0)\<rparr>"

lemma login_steps:
  "extract_cookie login_headers ''pkce_cv'' = Some ''v''" "extract_cookie login_headers ''oauth_state'' = Some ''s''"
  "cp_state login_params = ''s''" "cp_code login_params = ''c''"
  "get_str ''access_token'' (JObject [(''access_token'', JString ''a'')]) = Some ''a''"
  "get_str ''sub'' (JObject [(''sub'', JString ''s7''), (''email'', JString ''u7'')]) = Some ''s7''"
  "get_str ''email'' (JObject [(''sub'', JString ''s7''), (''email'', JString ''u7'')]) = Some ''u7''"
  "get_str ''name'' (JObject [(''sub'', JString ''s7''), (''email'', JString ''u7'')]) = None"
  "put_user ''s7'' ''u7'' None now new demo_tables = Inr (demo_tables, 7)"
  "map (\<lambda>r. (rl_tenant_id r, rl_role r)) (filter (\<lambda>r. rl_user_id r = 7) (id_roles demo_tables)) = [(1, ''tenant_admin'')]"
  "tenant_environment 1 demo_tables = Some ''prod''"
  "filter (\<lambda>r. rl_user_id r = 7) (id_roles demo_tables) \<noteq> []"
  "user_exists 7 demo_tables" "106 \<notin> ss_id ` set (id_sessions demo_tables)"
  by code_simp+

lemma login_provider:
  "ae_provider login_env k r = (if pr_bearer r = None then Json_body (JObject [(''access_token'', JString ''a'')])
     else Json_body (JObject [(''sub'', JString ''s7''), (''email'', JString ''u7'')]))"
  by (simp add: login_env_def demo_env_def)

lemma login_db_simps:
  "reliable login_db" "db_tables login_db = demo_tables" "db_steps login_db = 0" "db_clock login_db = (\<lambda>_. 0)"
  "db_gen login_db n = word_of_nat (100 + n)"
  by (simp_all add: login_db_def demo_db_def reliable_def)

lemma login_clock: "ae_clock login_env k = 0" "unix_seconds login_env k = 0"
  by (simp_all add: login_env_def unix_seconds_def)

lemma login_signs:
  "sign_session_jwt login_env 7 1 ''tenant_admin'' ''prod'' 106 0 = Some ''token''"
  by code_simp

lemma login_session:
  "reliable db \<Longrightarrow> db_tables db = demo_tables \<Longrightarrow> db_gen db = db_gen login_db \<Longrightarrow> db_steps db = 4 \<Longrightarrow>
   \<not> isl (snd (callback_session login_env ''s7'' 7 [(1, ''tenant_admin'')] db))"
  by (simp add: callback_session_def Let_def create_session_def put_session_def p_bind_def p_ask_def p_map_err_def p_try_def
      audit_write_def audit_insert_def login_steps login_db_simps login_clock login_signs reliable_sql reliable_select reliable_update)

lemma login_succeeds: "\<not> isl (snd (callback_handler login_env login_params login_headers login_db))"
  by (simp add: callback_handler_def Let_def callback_identity_def ask_provider_def p_bind_def p_ask_def p_map_err_def p_guard_def
      login_steps login_provider login_db_simps upsert_user_def reliable_sql list_user_tenants_def reliable_select login_session)

theorem callback_token_validates_witness:
  "\<exists>r. snd (callback_handler login_env login_params login_headers login_db) = Inr r \<and>
     (\<exists>u tn role en jwt. r = callback_reply login_env jwt \<and>
        snd (validate_session_handler login_env jwt None (fst (callback_handler login_env login_params login_headers login_db))) =
          Inr \<lparr>vd_user_id = ae_show_uuid login_env u, vd_tenant_id = ae_show_uuid login_env tn, vd_role = role, vd_environment = en\<rparr>)"
proof -
  let ?h = "callback_handler login_env login_params login_headers login_db"
  obtain r where r: "snd ?h = Inr r" using login_succeeds by (cases "snd ?h") auto
  have w: "same_world login_db (fst ?h)"
    by (rule well_formed.keeps_world[OF well_formed.keeps_callback]) simp_all
  then have "reliable (fst ?h)" by (simp add: reliable_def same_world_def login_db_def demo_db_def)
  moreover have "within_session_life login_env (fst ?h)"
    using w by (simp add: within_session_life_def same_world_def login_db_def login_env_def unix_seconds_def days_7_def session_ttl_secs_def)
  moreover have "jwt_reads_back login_env" by (auto simp: jwt_reads_back_def login_env_def split: if_splits)
  moreover have "identity_ok (db_tables login_db)" using demo_tables_ok by (simp add: login_db_def)
  moreover have "ae_parse_uuid login_env (ae_show_uuid login_env u) = Some u" for u
    using parse_show_uuid by (simp add: login_env_def)
  ultimately show ?thesis
    using callback_token_validates[OF r HOL.refl] r by blast
qed

subsection \<open>Redirects that cannot panic\<close>

lemma upper_hex_digit_safe: "n < 16 \<Longrightarrow> header_safe [upper_hex_digit n]"
  by (auto simp: header_safe_def upper_hex_digit_def)

lemma upper_hex_safe: "header_safe (upper_hex n)"
proof (induction n rule: upper_hex.induct)
  case (1 n)
  show ?case
  proof (cases "n < 16")
    case True
    then show ?thesis using upper_hex_digit_safe by (simp add: upper_hex.simps[of n])
  next
    case False
    then show ?thesis using 1 upper_hex_digit_safe[of "n mod 16"] by (auto simp: upper_hex.simps[of n] header_safe_def)
  qed
qed

lemma unreserved_safe: "unreserved c \<Longrightarrow> header_safe [c]"
  by (auto simp: header_safe_def unreserved_def is_ascii_alphanumeric_def is_ascii_digit_def is_ascii_alphabetic_def)

lemma encode_point_safe: "header_safe (encode_point n)"
  using upper_hex_safe[of n] unreserved_safe[of "char_of n"]
  by (simp add: encode_point_def upper_hex2_def) (simp add: header_safe_def)

lemma urlencoding_safe: "header_safe (urlencoding s)"
  using encode_point_safe by (auto simp: urlencoding_def header_safe_def)

text \<open>The redirect to the login page with an error code never panics.\<close>

lemma login_error_redirect_done: "login_error_redirect env code \<noteq> Panic"
proof -
  have "header_safe (''/login?error='' @ urlencoding code)"
    using urlencoding_safe[of code] by (auto simp: header_safe_def)
  then show ?thesis by (simp add: login_error_redirect_def found_def secure_attr_def header_safe_def)
qed

end
