(* ===== verification/Object_Grants.thy ===== *)
theory Object_Grants
  imports Admin_Accounts
begin

section \<open>Objects with grants\<close>

text \<open>
  Dashboards and saved views (\<open>services/admin-service/src/dashboards.rs\<close> and
  \<open>saved_views.rs\<close>) are objects of a tenant that their creator owns and shares with
  grants. The two files have the same checks and the same three handlers for grants over
  tables of their own; here they are defined once, over an \<open>object_access\<close> that says which
  tables, and the two files instantiate it.
\<close>

lemma p_bind_assoc: "p_bind (p_bind m f) g = p_bind m (\<lambda>x. p_bind (f x) g)"
  by (rule ext) (auto simp: p_bind_def split: prod.splits sum.splits)

lemma p_map_err_bind: "p_map_err h (p_bind m f) = p_bind (p_map_err h m) (\<lambda>x. p_map_err h (f x))"
  by (rule ext) (auto simp: p_bind_def p_map_err_def split: prod.splits sum.splits)

lemma p_map_err_twice: "p_map_err h (p_map_err g m) = p_map_err (\<lambda>e. h (g e)) m"
  by (rule ext) (auto simp: p_map_err_def split: prod.splits sum.splits)

lemma p_bind_simple [simp]:
  "p_bind (p_return x) f = f x" "p_bind (p_fail e) f = p_fail e"
  "p_bind (p_lift (Inr x)) f = f x" "p_bind (p_lift (Inl e)) f = p_fail e"
  by (rule ext, simp add: p_bind_def)+

lemma p_map_err_simple [simp]:
  "p_map_err h (p_return x) = p_return x" "p_map_err h (p_fail e) = p_fail (h e)"
  by (rule ext, simp add: p_map_err_def)+

record grant_row =
  gr_object :: uuid
  gr_user_id :: uuid
  gr_relation :: string
  gr_granted_at :: int

subsection \<open>What a relation allows\<close>

definition grant_satisfies_read :: "string \<Rightarrow> string option \<Rightarrow> bool" where
  "grant_satisfies_read visibility relation \<longleftrightarrow>
     visibility = ''public'' \<or> relation \<in> {Some ''owner'', Some ''editor'', Some ''viewer''}"

definition grant_satisfies_write :: "string \<Rightarrow> string option \<Rightarrow> bool" where
  "grant_satisfies_write tenant_role relation \<longleftrightarrow>
     tenant_role = ''tenant_admin'' \<or> relation \<in> {Some ''owner'', Some ''editor''}"

definition grant_satisfies_delete :: "string \<Rightarrow> string option \<Rightarrow> bool" where
  "grant_satisfies_delete tenant_role relation \<longleftrightarrow>
     tenant_role = ''tenant_admin'' \<or> relation = Some ''owner''"

definition relations :: "string list" where
  "relations = [''owner'', ''editor'', ''viewer'']"

subsection \<open>The tables of a kind of objects\<close>

record 't object_access =
  oa_tenant :: "uuid \<Rightarrow> 't \<Rightarrow> uuid option"
  oa_grants :: "'t \<Rightarrow> grant_row list"
  oa_set_grants :: "grant_row list \<Rightarrow> 't \<Rightarrow> 't"
  oa_roles :: "'t \<Rightarrow> role_row list"

definition grant_of :: "uuid \<Rightarrow> uuid \<Rightarrow> grant_row \<Rightarrow> bool" where
  "grant_of user_id i g \<longleftrightarrow> gr_object g = i \<and> gr_user_id g = user_id"

definition relation_in :: "uuid \<Rightarrow> uuid \<Rightarrow> grant_row list \<Rightarrow> string option" where
  "relation_in user_id i grants = map_option gr_relation (find (grant_of user_id i) grants)"

text \<open>\<open>INSERT INTO ..._grants ... ON CONFLICT DO UPDATE SET relation\<close>\<close>

definition upsert_grant :: "uuid \<Rightarrow> uuid \<Rightarrow> string \<Rightarrow> int \<Rightarrow> grant_row list \<Rightarrow> grant_row list" where
  "upsert_grant i user_id relation now grants =
     (if \<exists>g \<in> set grants. grant_of user_id i g
      then update_where (grant_of user_id i) (\<lambda>g. g\<lparr>gr_relation := relation\<rparr>) grants
      else grants @ [\<lparr>gr_object = i, gr_user_id = user_id, gr_relation = relation, gr_granted_at = now\<rparr>])"

definition put_grant ::
    "'t object_access \<Rightarrow> uuid \<Rightarrow> uuid \<Rightarrow> string \<Rightarrow> int \<Rightarrow> uuid \<Rightarrow> 't \<Rightarrow> (sql_error, 't \<times> unit) result" where
  "put_grant a i user_id relation now new t =
     (if relation \<notin> set relations then Inl Sql_check
      else if oa_tenant a i t = None then Inl Sql_foreign_key
      else Inr (oa_set_grants a (upsert_grant i user_id relation now (oa_grants a t)) t, ()))"

text \<open>
  The deletion of a grant, plain or under the guard that another owner remains; both
  answer the number of rows.
\<close>

definition other_owners :: "uuid \<Rightarrow> uuid \<Rightarrow> grant_row list \<Rightarrow> nat" where
  "other_owners i user_id grants =
     rows_affected (\<lambda>g. gr_object g = i \<and> gr_relation g = ''owner'' \<and> gr_user_id g \<noteq> user_id) grants"

definition take_grant :: "'t object_access \<Rightarrow> bool \<Rightarrow> uuid \<Rightarrow> uuid \<Rightarrow> 't \<Rightarrow> 't \<times> nat" where
  "take_grant a guarded i user_id t =
     (if guarded \<and> other_owners i user_id (oa_grants a t) = 0 then (t, 0)
      else (oa_set_grants a (delete_where (grant_of user_id i) (oa_grants a t)) t,
            rows_affected (grant_of user_id i) (oa_grants a t)))"

subsection \<open>Checks\<close>

definition fetch_relation :: "'t object_access \<Rightarrow> uuid \<Rightarrow> uuid \<Rightarrow> ('t, sql_error, string option) program" where
  "fetch_relation a user_id i = sql_select (\<lambda>t. relation_in user_id i (oa_grants a t))"

definition object_exists :: "'t object_access \<Rightarrow> uuid \<Rightarrow> uuid \<Rightarrow> ('t, http_status, unit) program" where
  "object_exists a i tenant_id =
     p_bind (server_error (sql_select (\<lambda>t. oa_tenant a i t = Some tenant_id))) (\<lambda>exists. p_guard exists Not_found)"

text \<open>A key acts for its tenant and needs no grant; a user needs a relation that allows it.\<close>

definition require_relation ::
    "'t object_access \<Rightarrow> caller_context \<Rightarrow> uuid \<Rightarrow> (string option \<Rightarrow> bool) \<Rightarrow> ('t, http_status, unit) program" where
  "require_relation a ctx i allowed =
     (case cc_user_id ctx of
        None \<Rightarrow> p_return ()
      | Some user_id \<Rightarrow>
          p_bind (server_error (fetch_relation a user_id i)) (\<lambda>relation. p_guard (allowed relation) Forbidden))"

definition require_owner :: "'t object_access \<Rightarrow> caller_context \<Rightarrow> uuid \<Rightarrow> uuid \<Rightarrow> ('t, http_status, unit) program" where
  "require_owner a ctx user_id i =
     p_bind (server_error (fetch_relation a user_id i)) (\<lambda>relation.
     p_guard (cc_role ctx = ''tenant_admin'' \<or> relation = Some ''owner'') Forbidden)"

subsection \<open>The handlers of grants\<close>

record grant_item =
  gi_user_id :: uuid
  gi_relation :: string
  gi_granted_at :: int

record add_grant_request =
  ag_user_id :: uuid
  ag_relation :: string

definition grant_rows :: "uuid \<Rightarrow> grant_row list \<Rightarrow> grant_item list" where
  "grant_rows i grants =
     map (\<lambda>g. \<lparr>gi_user_id = gr_user_id g, gi_relation = gr_relation g, gi_granted_at = gr_granted_at g\<rparr>)
       (sort_key gr_granted_at (filter (\<lambda>g. gr_object g = i) grants))"

definition list_grants :: "'t object_access \<Rightarrow> caller_context \<Rightarrow> uuid \<Rightarrow> ('t, http_status, grant_item list) program" where
  "list_grants a ctx i =
     p_bind (p_lift (ok_or Forbidden (cc_user_id ctx))) (\<lambda>user_id.
     p_bind (object_exists a i (cc_tenant_id ctx)) (\<lambda>_.
     p_bind (require_owner a ctx user_id i) (\<lambda>_.
     server_error (sql_select (\<lambda>t. grant_rows i (oa_grants a t))))))"

definition add_grant ::
    "'t object_access \<Rightarrow> caller_context \<Rightarrow> uuid \<Rightarrow> add_grant_request \<Rightarrow> ('t, http_status, http_status) program" where
  "add_grant a ctx i req =
     p_bind (p_guard (ag_relation req \<in> set relations) Bad_request) (\<lambda>_.
     p_bind (p_lift (ok_or Forbidden (cc_user_id ctx))) (\<lambda>user_id.
     p_bind (object_exists a i (cc_tenant_id ctx)) (\<lambda>_.
     p_bind (require_owner a ctx user_id i) (\<lambda>_.
     p_bind (server_error (sql_select (\<lambda>t. \<exists>r \<in> set (oa_roles a t). same_role_row (ag_user_id req) (cc_tenant_id ctx) r))) (\<lambda>target_exists.
     p_bind (p_guard target_exists Not_found) (\<lambda>_.
     p_bind (server_error (sql (put_grant a i (ag_user_id req) (ag_relation req)))) (\<lambda>_.
     p_return No_content)))))))"

definition revoke_grant ::
    "'t object_access \<Rightarrow> caller_context \<Rightarrow> uuid \<Rightarrow> uuid \<Rightarrow> ('t, http_status, http_status) program" where
  "revoke_grant a ctx i target =
     p_bind (p_lift (ok_or Forbidden (cc_user_id ctx))) (\<lambda>user_id.
     p_bind (object_exists a i (cc_tenant_id ctx)) (\<lambda>_.
     p_bind (require_owner a ctx user_id i) (\<lambda>_.
     p_bind (server_error (fetch_relation a target i)) (\<lambda>target_relation.
     p_bind (server_error (sql_update (\<lambda>_. take_grant a (target_relation = Some ''owner'') i target))) (\<lambda>rows.
     p_bind (p_guard (rows \<noteq> 0) (if target_relation = Some ''owner'' then Conflict else Not_found)) (\<lambda>_.
     p_return No_content))))))"

end
