(* ===== verification/Dashboards.thy ===== *)
theory Dashboards
  imports Object_Grants
begin

section \<open>Dashboards\<close>

text \<open>
  \<open>services/admin-service/src/dashboards.rs\<close>: creation, update, deletion, export and
  import of dashboards with their panels, and their grants. A \<open>jsonb\<close> column gives back
  the value that was stored. The tables are those of dashboards and of saved views.
\<close>

subsection \<open>Data\<close>

record panel_item =
  pi_panel_id :: uuid
  pi_title :: string
  pi_panel_kind :: string
  pi_query_kind :: "string option"
  pi_service :: "string option"
  pi_preset :: "string option"
  pi_filters :: json
  pi_query_text :: "string option"
  pi_content :: "string option"
  pi_layout :: json
  pi_time_range :: json

record dashboard_item =
  di_dashboard_id :: uuid
  di_name :: string
  di_visibility :: string
  di_panels :: "panel_item list"
  di_created_at :: int

record panel_request =
  pq_panel_id :: "uuid option"
  pq_title :: string
  pq_panel_kind :: "string option"
  pq_query_kind :: "string option"
  pq_service :: "string option"
  pq_preset :: "string option"
  pq_filters :: json
  pq_query_text :: "string option"
  pq_content :: "string option"
  pq_layout :: "json option"
  pq_time_range :: "json option"

record create_dashboard_request =
  cd_name :: string
  cd_panels :: "panel_request list"

record update_dashboard_request =
  ud_name :: string
  ud_panels :: "panel_request list"
  ud_visibility :: "string option"

text \<open>The overflow of the sum in \<open>validate_layout\<close> panics; the request then gets no answer.\<close>

datatype dashboard_error = Invalid_input string | Db_error sql_error | Overflow

datatype failed = Status http_status | Aborted

record dashboard_row =
  dr_dashboard_id :: uuid
  dr_tenant_id :: uuid
  dr_name :: string
  dr_visibility :: string
  dr_created_at :: int

record panel_row =
  pn_dashboard_id :: uuid
  pn_panel_id :: uuid
  pn_title :: string
  pn_panel_kind :: string
  pn_query_kind :: "string option"
  pn_service :: "string option"
  pn_preset :: "string option"
  pn_filters :: json
  pn_query_text :: "string option"
  pn_content :: "string option"
  pn_layout :: json
  pn_time_range :: json
  pn_position :: "32 word"

record saved_view_row =
  sv_saved_view_id :: uuid
  sv_tenant_id :: uuid
  sv_owner_user_id :: "uuid option"
  sv_name :: string
  sv_signal_kind :: string
  sv_visibility :: string
  sv_config :: json
  sv_created_at :: int
  sv_updated_at :: int

record content =
  cn_roles :: "role_row list"
  cn_dashboards :: "dashboard_row list"
  cn_panels :: "panel_row list"
  cn_dashboard_grants :: "grant_row list"
  cn_views :: "saved_view_row list"
  cn_view_grants :: "grant_row list"

definition find_dashboard :: "uuid \<Rightarrow> content \<Rightarrow> dashboard_row option" where
  "find_dashboard i t = find (\<lambda>d. dr_dashboard_id d = i) (cn_dashboards t)"

definition dashboard_access :: "content object_access" where
  "dashboard_access =
     \<lparr>oa_tenant = (\<lambda>i t. map_option dr_tenant_id (find_dashboard i t)), oa_grants = cn_dashboard_grants,
      oa_set_grants = (\<lambda>g t. t\<lparr>cn_dashboard_grants := g\<rparr>), oa_roles = cn_roles\<rparr>"

subsection \<open>Validation of a request\<close>

definition valid_query_kinds :: "string list" where "valid_query_kinds = [''logs'', ''traces'', ''metrics'']"
definition valid_panel_kinds :: "string list" where "valid_panel_kinds = [''query'', ''text'']"
definition valid_presets :: "string list" where "valid_presets = [''5m'', ''15m'', ''30m'', ''1h'', ''3h'', ''12h'']"
definition export_schema_version :: string where "export_schema_version = ''2''"

definition panel_kind :: "panel_request \<Rightarrow> string" where
  "panel_kind p = unwrap_or ''query'' (pq_panel_kind p)"

definition normalized_layout :: "json option \<Rightarrow> nat \<Rightarrow> json" where
  "normalized_layout layout position =
     unwrap_or (JObject [(''x'', JNumber (PosInt (of_nat (position mod 2 * 6)))),
        (''y'', JNumber (PosInt (of_nat (position div 2 * 4)))),
        (''w'', JNumber (PosInt 6)), (''h'', JNumber (PosInt 4))]) layout"

definition normalized_time_range :: "panel_request \<Rightarrow> json" where
  "normalized_time_range p =
     unwrap_or (case pq_preset p of
        Some preset \<Rightarrow> JObject [(''mode'', JString ''preset''), (''preset'', JString preset)]
      | None \<Rightarrow> JObject [(''mode'', JString ''global'')]) (pq_time_range p)"

definition get_i64 :: "string \<Rightarrow> json \<Rightarrow> i64 option" where
  "get_i64 key v = Option.bind (jget key v) as_i64"

definition validate_layout :: "json \<Rightarrow> (dashboard_error, unit) result" where
  "validate_layout layout =
     (case (get_i64 ''x'' layout, get_i64 ''y'' layout, get_i64 ''w'' layout, get_i64 ''h'' layout) of
        (Some x, Some y, Some w, Some h) \<Rightarrow>
          if sint x < 0 \<or> sint y < 0 \<or> sint w < 1 \<or> sint h < 1 \<or> 12 < sint w
          then Inl (Invalid_input ''layout must fit within 12 columns'')
          else if 2 ^ 63 \<le> sint x + sint w then Inl Overflow
          else if 12 < sint x + sint w then Inl (Invalid_input ''layout must fit within 12 columns'')
          else Inr ()
      | _ \<Rightarrow> Inl (Invalid_input ''layout requires numeric x, y, w, h''))"

definition validate_time_range :: "json \<Rightarrow> (dashboard_error, unit) result" where
  "validate_time_range v =
     (if get_str ''mode'' v = Some ''global'' then Inr ()
      else if get_str ''mode'' v = Some ''preset'' then
        (case get_str ''preset'' v of
           Some preset \<Rightarrow> if preset \<in> set valid_presets then Inr ()
                          else Inl (Invalid_input ''preset time_range requires a valid preset'')
         | None \<Rightarrow> Inl (Invalid_input ''preset time_range requires a valid preset''))
      else if get_str ''mode'' v = Some ''absolute'' then
        (if get_i64 ''from_ms'' v \<noteq> None \<and> get_i64 ''to_ms'' v \<noteq> None then Inr ()
         else Inl (Invalid_input ''absolute time_range requires from_ms and to_ms''))
      else Inl (Invalid_input ''time_range mode must be global, preset, or absolute''))"

text \<open>A check that fails is an invalid input; the first one that fails counts.\<close>

definition check :: "bool \<Rightarrow> string \<Rightarrow> (dashboard_error, unit) result" where
  "check b message = (if b then Inr () else Inl (Invalid_input message))"

fun check_all :: "('e, unit) result list \<Rightarrow> ('e, unit) result" where
  "check_all [] = Inr ()"
| "check_all (r # rs) = and_then r (\<lambda>_. check_all rs)"

definition blank :: "string option \<Rightarrow> bool" where
  "blank s \<longleftrightarrow> (case s of None \<Rightarrow> True | Some s \<Rightarrow> trim s = [])"

definition preset_message :: string where
  "preset_message = ''preset must be one of: '' @ join '', '' valid_presets @ '' (or omitted for global date range)''"

definition valid_preset :: "string option \<Rightarrow> bool" where
  "valid_preset preset \<longleftrightarrow> (case preset of None \<Rightarrow> True | Some p \<Rightarrow> p \<in> set valid_presets)"

text \<open>
  The checks of one panel. The creation has one more check of the preset than the update,
  which the last one repeats.
\<close>

definition validate_panel :: "bool \<Rightarrow> panel_request \<Rightarrow> (dashboard_error, unit) result" where
  "validate_panel creating p =
     check_all
       [check (trim (pq_title p) \<noteq> []) ''panel title is required'',
        check (panel_kind p \<in> set valid_panel_kinds) (''panel_kind must be one of: '' @ join '', '' valid_panel_kinds),
        check (panel_kind p = ''query'' \<longrightarrow> pq_query_kind p \<noteq> None) ''query panels require query_kind'',
        check (panel_kind p = ''text'' \<longrightarrow> \<not> blank (pq_content p)) ''text panels require content'',
        check (case pq_query_kind p of None \<Rightarrow> True | Some k \<Rightarrow> k \<in> set valid_query_kinds)
          (''query_kind must be one of: '' @ join '', '' valid_query_kinds),
        (case pq_layout p of None \<Rightarrow> Inr () | Some layout \<Rightarrow> validate_layout layout),
        (case pq_time_range p of None \<Rightarrow> Inr () | Some v \<Rightarrow> validate_time_range v),
        check (creating \<and> panel_kind p = ''query'' \<and> pq_time_range p = None \<longrightarrow> valid_preset (pq_preset p)) preset_message,
        check (valid_preset (pq_preset p)) preset_message]"

definition validate_create_request :: "create_dashboard_request \<Rightarrow> (dashboard_error, unit) result" where
  "validate_create_request req =
     check_all
       [check (trim (cd_name req) \<noteq> []) ''name is required'',
        check (cd_panels req \<noteq> []) ''at least one panel is required'',
        check_all (map (validate_panel True) (cd_panels req))]"

definition validate_update_request :: "update_dashboard_request \<Rightarrow> (dashboard_error, unit) result" where
  "validate_update_request req =
     check_all
       [check (trim (ud_name req) \<noteq> []) ''name is required'',
        check_all (map (validate_panel False) (ud_panels req)),
        check (ud_visibility req \<in> {None, Some ''public'', Some ''private''}) (''visibility must be '' @ [quote] @ ''public'' @ [quote] @ '' or '' @ [quote] @ ''private'' @ [quote])]"

subsection \<open>Statements\<close>

definition visibilities :: "string list" where
  "visibilities = [''public'', ''private'']"

text \<open>A new dashboard is public, the default of the column.\<close>

definition insert_dashboard :: "uuid \<Rightarrow> string \<Rightarrow> int \<Rightarrow> uuid \<Rightarrow> content \<Rightarrow> (sql_error, content \<times> dashboard_row) result" where
  "insert_dashboard tenant_id name now new t =
     (if find_dashboard new t \<noteq> None then Inl Sql_unique
      else (let d = \<lparr>dr_dashboard_id = new, dr_tenant_id = tenant_id, dr_name = name, dr_visibility = ''public'',
                     dr_created_at = now\<rparr>
            in Inr (t\<lparr>cn_dashboards := cn_dashboards t @ [d]\<rparr>, d)))"

definition insert_panel :: "panel_row \<Rightarrow> content \<Rightarrow> (sql_error, content \<times> panel_row) result" where
  "insert_panel p t =
     (if pn_panel_kind p \<notin> set valid_panel_kinds \<or> (\<exists>k \<in> set_option (pn_query_kind p). k \<notin> set valid_query_kinds)
      then Inl Sql_check
      else if pn_panel_id p \<in> pn_panel_id ` set (cn_panels t) then Inl Sql_unique
      else if find_dashboard (pn_dashboard_id p) t = None then Inl Sql_foreign_key
      else Inr (t\<lparr>cn_panels := cn_panels t @ [p]\<rparr>, p))"

definition set_dashboard ::
    "uuid \<Rightarrow> uuid \<Rightarrow> string \<Rightarrow> string option \<Rightarrow> content \<Rightarrow> (sql_error, content \<times> dashboard_row option) result" where
  "set_dashboard i tenant_id name visibility t =
     (let p = (\<lambda>d. dr_dashboard_id d = i \<and> dr_tenant_id d = tenant_id);
          f = (\<lambda>d. d\<lparr>dr_name := name, dr_visibility := unwrap_or (dr_visibility d) visibility\<rparr>)
      in case find p (cn_dashboards t) of
           None \<Rightarrow> Inr (t, None)
         | Some d \<Rightarrow>
             if \<exists>v \<in> set_option visibility. v \<notin> set visibilities then Inl Sql_check
             else Inr (t\<lparr>cn_dashboards := update_where p f (cn_dashboards t)\<rparr>, Some (f d)))"

definition clear_panels :: "uuid \<Rightarrow> content \<Rightarrow> content" where
  "clear_panels i t = t\<lparr>cn_panels := delete_where (\<lambda>p. pn_dashboard_id p = i) (cn_panels t)\<rparr>"

text \<open>The delete reaches the panels and the grants through \<open>ON DELETE CASCADE\<close>.\<close>

definition drop_dashboard :: "uuid \<Rightarrow> uuid \<Rightarrow> content \<Rightarrow> content \<times> nat" where
  "drop_dashboard i tenant_id t =
     (let p = (\<lambda>d. dr_dashboard_id d = i \<and> dr_tenant_id d = tenant_id) in
      if rows_affected p (cn_dashboards t) = 0 then (t, 0)
      else ((clear_panels i t)\<lparr>cn_dashboards := delete_where p (cn_dashboards t),
              cn_dashboard_grants := delete_where (\<lambda>g. gr_object g = i) (cn_dashboard_grants t)\<rparr>,
            rows_affected p (cn_dashboards t)))"

definition row_to_panel_item :: "panel_row \<Rightarrow> panel_item" where
  "row_to_panel_item row =
     \<lparr>pi_panel_id = pn_panel_id row, pi_title = pn_title row, pi_panel_kind = pn_panel_kind row,
      pi_query_kind = pn_query_kind row, pi_service = pn_service row, pi_preset = pn_preset row,
      pi_filters = pn_filters row, pi_query_text = pn_query_text row, pi_content = pn_content row,
      pi_layout = pn_layout row, pi_time_range = pn_time_range row\<rparr>"

definition dashboard_item_of :: "dashboard_row \<Rightarrow> panel_item list \<Rightarrow> dashboard_item" where
  "dashboard_item_of d panels =
     \<lparr>di_dashboard_id = dr_dashboard_id d, di_name = dr_name d, di_visibility = dr_visibility d,
      di_panels = panels, di_created_at = dr_created_at d\<rparr>"

text \<open>The dashboards that a list shows, and the panels in their order.\<close>

definition visible_to :: "uuid option \<Rightarrow> content \<Rightarrow> dashboard_row \<Rightarrow> bool" where
  "visible_to user_id t d \<longleftrightarrow>
     (case user_id of
        None \<Rightarrow> True
      | Some uid \<Rightarrow> dr_visibility d = ''public'' \<or> (\<exists>g \<in> set (cn_dashboard_grants t). grant_of uid (dr_dashboard_id d) g))"

definition dashboards_of :: "uuid \<Rightarrow> uuid option \<Rightarrow> content \<Rightarrow> dashboard_row list" where
  "dashboards_of tenant_id user_id t =
     sort_key (\<lambda>d. - dr_created_at d) (filter (\<lambda>d. dr_tenant_id d = tenant_id \<and> visible_to user_id t d) (cn_dashboards t))"

definition panels_of :: "uuid \<Rightarrow> content \<Rightarrow> panel_row list" where
  "panels_of i t = sort_key (\<lambda>p. sint (pn_position p)) (filter (\<lambda>p. pn_dashboard_id p = i) (cn_panels t))"

definition panels_of_any :: "uuid list \<Rightarrow> content \<Rightarrow> panel_row list" where
  "panels_of_any ids t =
     sort_key pn_dashboard_id (sort_key (\<lambda>p. sint (pn_position p)) (filter (\<lambda>p. pn_dashboard_id p \<in> set ids) (cn_panels t)))"

definition dashboard_in :: "uuid \<Rightarrow> uuid \<Rightarrow> content \<Rightarrow> dashboard_row option" where
  "dashboard_in i tenant_id t = find (\<lambda>d. dr_dashboard_id d = i \<and> dr_tenant_id d = tenant_id) (cn_dashboards t)"

subsection \<open>Operations\<close>

definition list_dashboards :: "uuid \<Rightarrow> uuid option \<Rightarrow> (content, sql_error, dashboard_item list) program" where
  "list_dashboards tenant_id user_id =
     p_bind (sql_select (dashboards_of tenant_id user_id)) (\<lambda>dashboards.
     p_bind (if dashboards = [] then p_return [] else sql_select (panels_of_any (map dr_dashboard_id dashboards))) (\<lambda>panels.
     p_return (map (\<lambda>d. dashboard_item_of d
       (map row_to_panel_item (filter (\<lambda>p. pn_dashboard_id p = dr_dashboard_id d) panels))) dashboards)))"

definition get_dashboard :: "uuid \<Rightarrow> uuid \<Rightarrow> (content, sql_error, dashboard_item option) program" where
  "get_dashboard tenant_id i =
     p_bind (sql_select (dashboard_in i tenant_id)) (\<lambda>dashboard.
     case dashboard of
       None \<Rightarrow> p_return None
     | Some d \<Rightarrow>
         p_bind (sql_select (panels_of (dr_dashboard_id d))) (\<lambda>panels.
         p_return (Some (dashboard_item_of d (map row_to_panel_item panels)))))"

definition non_blank :: "string option \<Rightarrow> string option" where
  "non_blank s = (case s of None \<Rightarrow> None | Some s \<Rightarrow> if trim s = [] then None else Some (trim s))"

definition panel_row_of :: "uuid \<Rightarrow> uuid \<Rightarrow> nat \<Rightarrow> panel_request \<Rightarrow> panel_row" where
  "panel_row_of dashboard_id panel_id position p =
     \<lparr>pn_dashboard_id = dashboard_id, pn_panel_id = panel_id, pn_title = trim (pq_title p), pn_panel_kind = panel_kind p,
      pn_query_kind = pq_query_kind p, pn_service = non_blank (pq_service p), pn_preset = pq_preset p,
      pn_filters = pq_filters p, pn_query_text = non_blank (pq_query_text p), pn_content = non_blank (pq_content p),
      pn_layout = normalized_layout (pq_layout p) position, pn_time_range = normalized_time_range p,
      pn_position = of_nat position\<rparr>"

definition db_error :: "('t, sql_error, 'a) program \<Rightarrow> ('t, dashboard_error, 'a) program" where
  "db_error m = p_map_err Db_error m"

text \<open>The loop over the panels; an update keeps the id that the request gives.\<close>

fun insert_panels :: "bool \<Rightarrow> uuid \<Rightarrow> nat \<Rightarrow> panel_request list \<Rightarrow> (content, dashboard_error, panel_item list) program" where
  "insert_panels keep_ids dashboard_id position [] = p_return []"
| "insert_panels keep_ids dashboard_id position (p # ps) =
     p_bind (db_error (sql (\<lambda>_ new. insert_panel (panel_row_of dashboard_id
        (if keep_ids then unwrap_or new (pq_panel_id p) else new) position p)))) (\<lambda>row.
     p_bind (insert_panels keep_ids dashboard_id (Suc position) ps) (\<lambda>items.
     p_return (row_to_panel_item row # items)))"

definition create_dashboard ::
    "uuid \<Rightarrow> create_dashboard_request \<Rightarrow> uuid option \<Rightarrow> (content, dashboard_error, dashboard_item) program" where
  "create_dashboard tenant_id req creator_user_id =
     p_bind (p_lift (validate_create_request req)) (\<lambda>_.
     transaction Db_error
       (p_bind (db_error (sql (insert_dashboard tenant_id (trim (cd_name req))))) (\<lambda>row.
        p_bind (case creator_user_id of
            None \<Rightarrow> p_return ()
          | Some user_id \<Rightarrow> db_error (sql (put_grant dashboard_access (dr_dashboard_id row) user_id ''owner''))) (\<lambda>_.
        p_bind (insert_panels False (dr_dashboard_id row) 0 (cd_panels req)) (\<lambda>panels.
        p_return (dashboard_item_of row panels))))))"

text \<open>
  A dashboard that is not found ends the transaction with a rollback; nothing has changed
  by then, so the end of the transaction here stands for either.
\<close>

definition update_dashboard ::
    "uuid \<Rightarrow> uuid \<Rightarrow> update_dashboard_request \<Rightarrow> (content, dashboard_error, dashboard_item option) program" where
  "update_dashboard tenant_id dashboard_id req =
     p_bind (p_lift (validate_update_request req)) (\<lambda>_.
     transaction Db_error
       (p_bind (db_error (sql (\<lambda>_ _. set_dashboard dashboard_id tenant_id (trim (ud_name req)) (ud_visibility req)))) (\<lambda>row.
        case row of
          None \<Rightarrow> p_return None
        | Some row \<Rightarrow>
            p_bind (db_error (sql_update (\<lambda>_ t. (clear_panels (dr_dashboard_id row) t, ())))) (\<lambda>_.
            p_bind (insert_panels True (dr_dashboard_id row) 0 (ud_panels req)) (\<lambda>panels.
            p_return (Some (dashboard_item_of row panels)))))))"

definition delete_dashboard :: "uuid \<Rightarrow> uuid \<Rightarrow> (content, sql_error, bool) program" where
  "delete_dashboard tenant_id dashboard_id =
     p_bind (sql_update (\<lambda>_. drop_dashboard dashboard_id tenant_id)) (\<lambda>n. p_return (0 < n))"

subsection \<open>Export and import\<close>

record export_panel =
  ep_title :: string
  ep_panel_kind :: "string option"
  ep_query_kind :: "string option"
  ep_service :: "string option"
  ep_preset :: "string option"
  ep_filters :: json
  ep_query_text :: "string option"
  ep_content :: "string option"
  ep_layout :: "json option"
  ep_time_range :: "json option"

record dashboard_export =
  de_schema_version :: string
  de_name :: string
  de_panels :: "export_panel list"

definition export_panel_of :: "panel_row \<Rightarrow> export_panel" where
  "export_panel_of p =
     \<lparr>ep_title = pn_title p, ep_panel_kind = Some (pn_panel_kind p), ep_query_kind = pn_query_kind p,
      ep_service = pn_service p, ep_preset = pn_preset p, ep_filters = pn_filters p, ep_query_text = pn_query_text p,
      ep_content = pn_content p, ep_layout = Some (pn_layout p), ep_time_range = Some (pn_time_range p)\<rparr>"

definition export_dashboard :: "uuid \<Rightarrow> uuid \<Rightarrow> (content, sql_error, dashboard_export option) program" where
  "export_dashboard tenant_id i =
     p_bind (sql_select (dashboard_in i tenant_id)) (\<lambda>dashboard.
     case dashboard of
       None \<Rightarrow> p_return None
     | Some d \<Rightarrow>
         p_bind (sql_select (panels_of (dr_dashboard_id d))) (\<lambda>panels.
         p_return (Some \<lparr>de_schema_version = export_schema_version, de_name = dr_name d,
           de_panels = map export_panel_of panels\<rparr>)))"

definition import_panel :: "export_panel \<Rightarrow> panel_request" where
  "import_panel p =
     \<lparr>pq_panel_id = None, pq_title = ep_title p, pq_panel_kind = ep_panel_kind p, pq_query_kind = ep_query_kind p,
      pq_service = ep_service p, pq_preset = ep_preset p, pq_filters = ep_filters p, pq_query_text = ep_query_text p,
      pq_content = ep_content p, pq_layout = ep_layout p, pq_time_range = ep_time_range p\<rparr>"

definition import_dashboard ::
    "uuid \<Rightarrow> dashboard_export \<Rightarrow> uuid option \<Rightarrow> (content, dashboard_error, dashboard_item) program" where
  "import_dashboard tenant_id export creator_user_id =
     create_dashboard tenant_id \<lparr>cd_name = de_name export, cd_panels = map import_panel (de_panels export)\<rparr> creator_user_id"

subsection \<open>Handlers\<close>

definition handle_list_dashboards :: "caller_context \<Rightarrow> (content, http_status, dashboard_item list) program" where
  "handle_list_dashboards ctx = server_error (list_dashboards (cc_tenant_id ctx) (cc_user_id ctx))"

definition dashboard_failure :: "dashboard_error \<Rightarrow> failed" where
  "dashboard_failure e =
     (case e of Invalid_input _ \<Rightarrow> Status Bad_request | Db_error _ \<Rightarrow> Status Internal_server_error | Overflow \<Rightarrow> Aborted)"

definition handle_create_dashboard ::
    "caller_context \<Rightarrow> create_dashboard_request \<Rightarrow> (content, failed, http_status \<times> dashboard_item) program" where
  "handle_create_dashboard ctx req =
     p_bind (p_map_err dashboard_failure (create_dashboard (cc_tenant_id ctx) req (cc_user_id ctx))) (\<lambda>item.
     p_return (Created, item))"

definition handle_get_dashboard :: "caller_context \<Rightarrow> uuid \<Rightarrow> (content, http_status, dashboard_item) program" where
  "handle_get_dashboard ctx i =
     p_bind (server_error (get_dashboard (cc_tenant_id ctx) i)) (\<lambda>item.
     p_bind (p_lift (ok_or Not_found item)) (\<lambda>item.
     p_bind (require_relation dashboard_access ctx i (grant_satisfies_read (di_visibility item))) (\<lambda>_.
     p_return item)))"

definition handle_update_dashboard ::
    "caller_context \<Rightarrow> uuid \<Rightarrow> update_dashboard_request \<Rightarrow> (content, failed, dashboard_item) program" where
  "handle_update_dashboard ctx i req =
     p_bind (p_map_err Status (object_exists dashboard_access i (cc_tenant_id ctx))) (\<lambda>_.
     p_bind (p_map_err Status (require_relation dashboard_access ctx i (grant_satisfies_write (cc_role ctx)))) (\<lambda>_.
     p_bind (p_map_err dashboard_failure (update_dashboard (cc_tenant_id ctx) i req)) (\<lambda>item.
     p_lift (ok_or (Status Not_found) item))))"

definition handle_delete_dashboard :: "caller_context \<Rightarrow> uuid \<Rightarrow> (content, http_status, http_status) program" where
  "handle_delete_dashboard ctx i =
     p_bind (object_exists dashboard_access i (cc_tenant_id ctx)) (\<lambda>_.
     p_bind (require_relation dashboard_access ctx i (grant_satisfies_delete (cc_role ctx))) (\<lambda>_.
     p_bind (server_error (delete_dashboard (cc_tenant_id ctx) i)) (\<lambda>deleted.
     p_bind (p_guard deleted Not_found) (\<lambda>_. p_return No_content))))"

definition handle_list_grants :: "caller_context \<Rightarrow> uuid \<Rightarrow> (content, http_status, grant_item list) program" where
  "handle_list_grants = list_grants dashboard_access"

definition handle_add_grant :: "caller_context \<Rightarrow> uuid \<Rightarrow> add_grant_request \<Rightarrow> (content, http_status, http_status) program" where
  "handle_add_grant = add_grant dashboard_access"

definition handle_revoke_grant :: "caller_context \<Rightarrow> uuid \<Rightarrow> uuid \<Rightarrow> (content, http_status, http_status) program" where
  "handle_revoke_grant = revoke_grant dashboard_access"

definition handle_get_dashboard_export :: "caller_context \<Rightarrow> uuid \<Rightarrow> (content, http_status, dashboard_export) program" where
  "handle_get_dashboard_export ctx i =
     p_bind (server_error (export_dashboard (cc_tenant_id ctx) i)) (\<lambda>export.
     p_lift (ok_or Not_found export))"

definition handle_import_dashboard ::
    "caller_context \<Rightarrow> dashboard_export \<Rightarrow> (content, failed, http_status \<times> dashboard_item) program" where
  "handle_import_dashboard ctx export =
     p_bind (p_guard (de_schema_version export = ''1'' \<or> de_schema_version export = export_schema_version)
       (Status Unprocessable_entity)) (\<lambda>_.
     p_bind (p_map_err dashboard_failure (import_dashboard (cc_tenant_id ctx) export (cc_user_id ctx))) (\<lambda>item.
     p_return (Created, item)))"

end
