(* ===== verification/Saved_Views.thy ===== *)
theory Saved_Views
  imports Dashboards
begin

section \<open>Saved views\<close>

text \<open>
  \<open>services/admin-service/src/saved_views.rs\<close>: named queries of a tenant, with the same
  grants as dashboards over tables of their own. A new view is private.
\<close>

subsection \<open>Data\<close>

record saved_view_item =
  si_saved_view_id :: uuid
  si_name :: string
  si_signal_kind :: string
  si_visibility :: string
  si_config :: json
  si_created_at :: int
  si_updated_at :: int

record create_saved_view_request =
  cv_name :: string
  cv_signal_kind :: string
  cv_config :: json

record update_saved_view_request =
  uv_name :: string
  uv_config :: json
  uv_visibility :: "string option"

datatype saved_view_error = Invalid_view string | View_db sql_error

definition valid_signal_kinds :: "string list" where
  "valid_signal_kinds = [''logs'', ''traces'', ''metrics'']"

definition find_view :: "uuid \<Rightarrow> content \<Rightarrow> saved_view_row option" where
  "find_view i t = find (\<lambda>v. sv_saved_view_id v = i) (cn_views t)"

definition view_access :: "content object_access" where
  "view_access =
     \<lparr>oa_tenant = (\<lambda>i t. map_option sv_tenant_id (find_view i t)), oa_grants = cn_view_grants,
      oa_set_grants = (\<lambda>g t. t\<lparr>cn_view_grants := g\<rparr>), oa_roles = cn_roles\<rparr>"

definition saved_view_item_of :: "saved_view_row \<Rightarrow> saved_view_item" where
  "saved_view_item_of row =
     \<lparr>si_saved_view_id = sv_saved_view_id row, si_name = sv_name row, si_signal_kind = sv_signal_kind row,
      si_visibility = sv_visibility row, si_config = sv_config row, si_created_at = sv_created_at row,
      si_updated_at = sv_updated_at row\<rparr>"

definition is_object :: "json \<Rightarrow> bool" where
  "is_object v \<longleftrightarrow> (case v of JObject _ \<Rightarrow> True | _ \<Rightarrow> False)"

definition validate_create_view :: "create_saved_view_request \<Rightarrow> (saved_view_error, unit) result" where
  "validate_create_view req =
     (if trim (cv_name req) = [] then Inl (Invalid_view ''name is required'')
      else if cv_signal_kind req \<notin> set valid_signal_kinds
        then Inl (Invalid_view (''signal_kind must be one of: '' @ join '', '' valid_signal_kinds))
      else if \<not> is_object (cv_config req) then Inl (Invalid_view ''config must be a JSON object'')
      else Inr ())"

definition validate_update_view :: "update_saved_view_request \<Rightarrow> (saved_view_error, unit) result" where
  "validate_update_view req =
     (if trim (uv_name req) = [] then Inl (Invalid_view ''name is required'')
      else if \<not> is_object (uv_config req) then Inl (Invalid_view ''config must be a JSON object'')
      else if uv_visibility req \<notin> {None, Some ''public'', Some ''private''}
        then Inl (Invalid_view (''visibility must be '' @ [quote] @ ''public'' @ [quote] @ '' or '' @ [quote] @ ''private'' @ [quote]))
      else Inr ())"

subsection \<open>Statements\<close>

definition insert_view ::
    "uuid \<Rightarrow> uuid option \<Rightarrow> string \<Rightarrow> string \<Rightarrow> json \<Rightarrow> int \<Rightarrow> uuid \<Rightarrow> content \<Rightarrow> (sql_error, content \<times> saved_view_row) result" where
  "insert_view tenant_id owner name signal_kind config now new t =
     (if signal_kind \<notin> set valid_signal_kinds then Inl Sql_check
      else if find_view new t \<noteq> None then Inl Sql_unique
      else (let v = \<lparr>sv_saved_view_id = new, sv_tenant_id = tenant_id, sv_owner_user_id = owner, sv_name = name,
                     sv_signal_kind = signal_kind, sv_visibility = ''private'', sv_config = config,
                     sv_created_at = now, sv_updated_at = now\<rparr>
            in Inr (t\<lparr>cn_views := cn_views t @ [v]\<rparr>, v)))"

definition set_view ::
    "uuid \<Rightarrow> uuid \<Rightarrow> string \<Rightarrow> json \<Rightarrow> string option \<Rightarrow> int \<Rightarrow> content \<Rightarrow> (sql_error, content \<times> saved_view_row option) result" where
  "set_view i tenant_id name config visibility now t =
     (let p = (\<lambda>v. sv_saved_view_id v = i \<and> sv_tenant_id v = tenant_id);
          f = (\<lambda>v. v\<lparr>sv_name := name, sv_config := config,
                     sv_visibility := unwrap_or (sv_visibility v) visibility, sv_updated_at := now\<rparr>)
      in case find p (cn_views t) of
           None \<Rightarrow> Inr (t, None)
         | Some v \<Rightarrow>
             if \<exists>w \<in> set_option visibility. w \<notin> set visibilities then Inl Sql_check
             else Inr (t\<lparr>cn_views := update_where p f (cn_views t)\<rparr>, Some (f v)))"

definition drop_view :: "uuid \<Rightarrow> uuid \<Rightarrow> content \<Rightarrow> content \<times> nat" where
  "drop_view i tenant_id t =
     (let p = (\<lambda>v. sv_saved_view_id v = i \<and> sv_tenant_id v = tenant_id) in
      if rows_affected p (cn_views t) = 0 then (t, 0)
      else (t\<lparr>cn_views := delete_where p (cn_views t),
              cn_view_grants := delete_where (\<lambda>g. gr_object g = i) (cn_view_grants t)\<rparr>,
            rows_affected p (cn_views t)))"

definition view_visible_to :: "uuid option \<Rightarrow> content \<Rightarrow> saved_view_row \<Rightarrow> bool" where
  "view_visible_to user_id t v \<longleftrightarrow>
     (case user_id of
        None \<Rightarrow> True
      | Some uid \<Rightarrow> sv_visibility v = ''public'' \<or> (\<exists>g \<in> set (cn_view_grants t). grant_of uid (sv_saved_view_id v) g))"

definition views_of :: "uuid \<Rightarrow> uuid option \<Rightarrow> string \<Rightarrow> content \<Rightarrow> saved_view_row list" where
  "views_of tenant_id user_id signal_kind t =
     sort_key (\<lambda>v. - sv_created_at v)
       (filter (\<lambda>v. sv_tenant_id v = tenant_id \<and> sv_signal_kind v = signal_kind \<and> view_visible_to user_id t v) (cn_views t))"

definition view_in :: "uuid \<Rightarrow> uuid \<Rightarrow> content \<Rightarrow> saved_view_row option" where
  "view_in i tenant_id t = find (\<lambda>v. sv_saved_view_id v = i \<and> sv_tenant_id v = tenant_id) (cn_views t)"

subsection \<open>Operations\<close>

definition list_saved_views :: "uuid \<Rightarrow> uuid option \<Rightarrow> string \<Rightarrow> (content, sql_error, saved_view_item list) program" where
  "list_saved_views tenant_id user_id signal_kind =
     p_bind (sql_select (views_of tenant_id user_id signal_kind)) (\<lambda>rows. p_return (map saved_view_item_of rows))"

definition get_saved_view :: "uuid \<Rightarrow> uuid \<Rightarrow> (content, sql_error, saved_view_item option) program" where
  "get_saved_view tenant_id i =
     p_bind (sql_select (view_in i tenant_id)) (\<lambda>row. p_return (map_option saved_view_item_of row))"

definition create_saved_view ::
    "uuid \<Rightarrow> create_saved_view_request \<Rightarrow> uuid option \<Rightarrow> (content, saved_view_error, saved_view_item) program" where
  "create_saved_view tenant_id req creator_user_id =
     p_bind (p_lift (validate_create_view req)) (\<lambda>_.
     transaction View_db
       (p_bind (p_map_err View_db (sql (insert_view tenant_id creator_user_id (trim (cv_name req)) (cv_signal_kind req) (cv_config req)))) (\<lambda>row.
        p_bind (case creator_user_id of
            None \<Rightarrow> p_return ()
          | Some user_id \<Rightarrow> p_map_err View_db (sql (put_grant view_access (sv_saved_view_id row) user_id ''owner''))) (\<lambda>_.
        p_return (saved_view_item_of row)))))"

definition update_saved_view ::
    "uuid \<Rightarrow> uuid \<Rightarrow> update_saved_view_request \<Rightarrow> (content, saved_view_error, saved_view_item option) program" where
  "update_saved_view tenant_id i req =
     p_bind (p_lift (validate_update_view req)) (\<lambda>_.
     p_bind (p_map_err View_db (sql (\<lambda>now _. set_view i tenant_id (trim (uv_name req)) (uv_config req) (uv_visibility req) now))) (\<lambda>row.
     p_return (map_option saved_view_item_of row)))"

definition delete_saved_view :: "uuid \<Rightarrow> uuid \<Rightarrow> (content, sql_error, bool) program" where
  "delete_saved_view tenant_id i =
     p_bind (sql_update (\<lambda>_. drop_view i tenant_id)) (\<lambda>n. p_return (0 < n))"

subsection \<open>Handlers\<close>

definition view_failure :: "saved_view_error \<Rightarrow> http_status" where
  "view_failure e = (case e of Invalid_view _ \<Rightarrow> Bad_request | View_db _ \<Rightarrow> Internal_server_error)"

definition handle_list_saved_views :: "caller_context \<Rightarrow> string \<Rightarrow> (content, http_status, saved_view_item list) program" where
  "handle_list_saved_views ctx signal_kind =
     p_bind (p_guard (signal_kind \<in> set valid_signal_kinds) Bad_request) (\<lambda>_.
     server_error (list_saved_views (cc_tenant_id ctx) (cc_user_id ctx) signal_kind))"

definition handle_create_saved_view ::
    "caller_context \<Rightarrow> create_saved_view_request \<Rightarrow> (content, http_status, http_status \<times> saved_view_item) program" where
  "handle_create_saved_view ctx req =
     p_bind (p_map_err view_failure (create_saved_view (cc_tenant_id ctx) req (cc_user_id ctx))) (\<lambda>item.
     p_return (Created, item))"

definition handle_get_saved_view :: "caller_context \<Rightarrow> uuid \<Rightarrow> (content, http_status, saved_view_item) program" where
  "handle_get_saved_view ctx i =
     p_bind (server_error (get_saved_view (cc_tenant_id ctx) i)) (\<lambda>item.
     p_bind (p_lift (ok_or Not_found item)) (\<lambda>item.
     p_bind (require_relation view_access ctx i (grant_satisfies_read (si_visibility item))) (\<lambda>_.
     p_return item)))"

definition handle_update_saved_view ::
    "caller_context \<Rightarrow> uuid \<Rightarrow> update_saved_view_request \<Rightarrow> (content, http_status, saved_view_item) program" where
  "handle_update_saved_view ctx i req =
     p_bind (object_exists view_access i (cc_tenant_id ctx)) (\<lambda>_.
     p_bind (require_relation view_access ctx i (grant_satisfies_write (cc_role ctx))) (\<lambda>_.
     p_bind (p_map_err view_failure (update_saved_view (cc_tenant_id ctx) i req)) (\<lambda>item.
     p_lift (ok_or Not_found item))))"

definition handle_delete_saved_view :: "caller_context \<Rightarrow> uuid \<Rightarrow> (content, http_status, http_status) program" where
  "handle_delete_saved_view ctx i =
     p_bind (object_exists view_access i (cc_tenant_id ctx)) (\<lambda>_.
     p_bind (require_relation view_access ctx i (grant_satisfies_delete (cc_role ctx))) (\<lambda>_.
     p_bind (server_error (delete_saved_view (cc_tenant_id ctx) i)) (\<lambda>deleted.
     p_bind (p_guard deleted Not_found) (\<lambda>_. p_return No_content))))"

definition handle_list_saved_view_grants :: "caller_context \<Rightarrow> uuid \<Rightarrow> (content, http_status, grant_item list) program" where
  "handle_list_saved_view_grants = list_grants view_access"

definition handle_add_saved_view_grant ::
    "caller_context \<Rightarrow> uuid \<Rightarrow> add_grant_request \<Rightarrow> (content, http_status, http_status) program" where
  "handle_add_saved_view_grant = add_grant view_access"

definition handle_revoke_saved_view_grant :: "caller_context \<Rightarrow> uuid \<Rightarrow> uuid \<Rightarrow> (content, http_status, http_status) program" where
  "handle_revoke_saved_view_grant = revoke_grant view_access"

end
