(* ===== verification/Content_Requests.thy ===== *)
theory Content_Requests
  imports Saved_Views
begin

section \<open>The requests on dashboards and saved views\<close>

text \<open>
  All requests of \<open>dashboards.rs\<close> and \<open>saved_views.rs\<close> that change tables, as steps of
  one system, and what every step keeps, whichever of its statements fail.
\<close>

datatype content_request =
    Create_dashboard create_dashboard_request
  | Update_dashboard uuid update_dashboard_request
  | Delete_dashboard uuid
  | Import_dashboard dashboard_export
  | Grant_dashboard uuid add_grant_request
  | Revoke_dashboard uuid uuid
  | Create_view create_saved_view_request
  | Update_view uuid update_saved_view_request
  | Delete_view uuid
  | Grant_view uuid add_grant_request
  | Revoke_view uuid uuid

fun serve :: "caller_context \<Rightarrow> content_request \<Rightarrow> content database \<Rightarrow> content database" where
  "serve ctx (Create_dashboard req) db = fst (handle_create_dashboard ctx req db)"
| "serve ctx (Update_dashboard i req) db = fst (handle_update_dashboard ctx i req db)"
| "serve ctx (Delete_dashboard i) db = fst (handle_delete_dashboard ctx i db)"
| "serve ctx (Import_dashboard export) db = fst (handle_import_dashboard ctx export db)"
| "serve ctx (Grant_dashboard i req) db = fst (handle_add_grant ctx i req db)"
| "serve ctx (Revoke_dashboard i user_id) db = fst (handle_revoke_grant ctx i user_id db)"
| "serve ctx (Create_view req) db = fst (handle_create_saved_view ctx req db)"
| "serve ctx (Update_view i req) db = fst (handle_update_saved_view ctx i req db)"
| "serve ctx (Delete_view i) db = fst (handle_delete_saved_view ctx i db)"
| "serve ctx (Grant_view i req) db = fst (handle_add_saved_view_grant ctx i req db)"
| "serve ctx (Revoke_view i user_id) db = fst (handle_revoke_saved_view_grant ctx i user_id db)"

fun serve_requests :: "(caller_context \<times> content_request) list \<Rightarrow> content database \<Rightarrow> content database" where
  "serve_requests [] db = db"
| "serve_requests ((ctx, r) # rs) db = serve_requests rs (serve ctx r db)"

subsection \<open>The object that a request is about\<close>

datatype object = Dashboard uuid | View uuid

fun target :: "content_request \<Rightarrow> object option" where
  "target (Update_dashboard i req) = Some (Dashboard i)"
| "target (Delete_dashboard i) = Some (Dashboard i)"
| "target (Grant_dashboard i req) = Some (Dashboard i)"
| "target (Revoke_dashboard i user_id) = Some (Dashboard i)"
| "target (Update_view i req) = Some (View i)"
| "target (Delete_view i) = Some (View i)"
| "target (Grant_view i req) = Some (View i)"
| "target (Revoke_view i user_id) = Some (View i)"
| "target _ = None"

fun access_of :: "object \<Rightarrow> content object_access" where
  "access_of (Dashboard i) = dashboard_access"
| "access_of (View i) = view_access"

fun object_id :: "object \<Rightarrow> uuid" where
  "object_id (Dashboard i) = i"
| "object_id (View i) = i"

text \<open>Everything the tables hold of an object: its row, its panels, its grants.\<close>

fun state_of :: "object \<Rightarrow> content \<Rightarrow>
    dashboard_row option \<times> panel_row list \<times> saved_view_row option \<times> grant_row list" where
  "state_of (Dashboard i) t =
     (find_dashboard i t, filter (\<lambda>p. pn_dashboard_id p = i) (cn_panels t), None,
      filter (\<lambda>g. gr_object g = i) (cn_dashboard_grants t))"
| "state_of (View i) t = (None, [], find_view i t, filter (\<lambda>g. gr_object g = i) (cn_view_grants t))"

definition object_tenant :: "object \<Rightarrow> content \<Rightarrow> uuid option" where
  "object_tenant j t = oa_tenant (access_of j) (object_id j) t"

definition relation_on :: "uuid \<Rightarrow> object \<Rightarrow> content \<Rightarrow> string option" where
  "relation_on u j t = relation_in u (object_id j) (oa_grants (access_of j) t)"

text \<open>
  A caller that may not write: of another tenant, or a user of the tenant who is neither
  its administrator nor an owner or editor of the object.
\<close>

definition may_not_write :: "caller_context \<Rightarrow> object \<Rightarrow> content \<Rightarrow> bool" where
  "may_not_write ctx j t \<longleftrightarrow>
     object_tenant j t \<noteq> Some (cc_tenant_id ctx) \<or>
     cc_role ctx \<noteq> ''tenant_admin'' \<and>
     (\<exists>u. cc_user_id ctx = Some u \<and> relation_on u j t \<notin> {Some ''owner'', Some ''editor''})"

subsection \<open>What a kind of objects guarantees\<close>

text \<open>That a program only counts its statements in the world is a relation that says nothing.\<close>

interpretation worldly: table_relation "\<lambda>_. True" "\<lambda>_ _. True" 0
  by unfold_locales auto

context table_relation
begin

text \<open>What follows a statement may use its result, and that its tables were inside.\<close>

lemma keeps_bind_result:
  assumes "keeps m" "\<And>x. worldly.keeps (f x)"
    and "\<And>db db' x. I (db_tables db) \<Longrightarrow> m db = (db', Inr x) \<Longrightarrow> keeps (f x)"
  shows "keeps (p_bind m f)"
  unfolding keeps_def keeps_at_def
proof (intro allI impI)
  fix t and db :: "'t database"
  assume db: "db_tables db = t \<and> start \<le> db_steps db"
  obtain db' r where m: "m db = (db', r)" by (cases "m db")
  have 1: "R t (db_tables db')" "same_world db db'"
    using keepsD[OF assms(1), of db] keeps_world[OF assms(1), of db] db m by simp_all
  have 2: "start \<le> db_steps db'" using 1(2) db by (simp add: same_world_def)
  show "R t (db_tables (fst (p_bind m f db))) \<and> same_world db (fst (p_bind m f db))"
  proof (cases r)
    case (Inl e)
    then show ?thesis using 1 m by (simp add: p_bind_def)
  next
    case (Inr x)
    have "same_world db (fst (f x db'))"
      using same_world_trans[OF 1(2) worldly.keeps_world[OF assms(2)]] by simp
    moreover have "R t (db_tables (fst (f x db')))"
    proof (cases "I t")
      case True
      then show ?thesis using trans[OF 1(1) keepsD[OF assms(3) 2]] db m Inr by blast
    qed (rule outside)
    ultimately show ?thesis using m Inr by (simp add: p_bind_def)
  qed
qed

end

interpretation unchanged: table_relation "\<lambda>_. True" "(=)" 0
  by unfold_locales auto

locale object_tables =
  fixes a :: "'t object_access"
  assumes grants_set: "oa_grants a (oa_set_grants a g t) = g"
    and set_set: "oa_set_grants a g (oa_set_grants a g' t) = oa_set_grants a g t"
    and set_grants: "oa_set_grants a (oa_grants a t) t = t"
    and tenant_set: "oa_tenant a i (oa_set_grants a g t) = oa_tenant a i t"
begin

text \<open>Two versions of the tables that differ in the grants of one object only.\<close>

definition grants_differ :: "uuid \<Rightarrow> 't \<Rightarrow> 't \<Rightarrow> bool" where
  "grants_differ i t t' \<longleftrightarrow>
     (\<exists>g. t' = oa_set_grants a g t \<and>
        filter (\<lambda>g. gr_object g \<noteq> i) g = filter (\<lambda>g. gr_object g \<noteq> i) (oa_grants a t))"

sublocale differ: table_relation "\<lambda>_. True" "grants_differ i" 0 for i
proof
  show "grants_differ i t t" for t
    unfolding grants_differ_def using set_grants by metis
  show "grants_differ i t1 t2 \<Longrightarrow> grants_differ i t2 t3 \<Longrightarrow> grants_differ i t1 t3" for t1 t2 t3
    unfolding grants_differ_def by (auto simp: grants_set set_set)
qed simp

lemma differ_checks:
  "differ.keeps j (object_exists a i tenant)" "differ.keeps j (require_owner a ctx u i)"
  "differ.keeps j (require_relation a ctx i ok)"
  by (auto simp: object_exists_def require_owner_def require_relation_def fetch_relation_def server_error_def)

lemma filter_update_grant:
  "filter (\<lambda>g. gr_object g \<noteq> i) (update_where (grant_of u i) (\<lambda>g. g\<lparr>gr_relation := r\<rparr>) gs) =
   filter (\<lambda>g. gr_object g \<noteq> i) gs"
  by (induction gs) (auto simp: update_where_def grant_of_def)

lemma filter_delete_grant:
  "filter (\<lambda>g. gr_object g \<noteq> i) (delete_where (grant_of u i) gs) = filter (\<lambda>g. gr_object g \<noteq> i) gs"
  by (induction gs) (auto simp: delete_where_def grant_of_def)

lemma grants_differI:
  "filter (\<lambda>g. gr_object g \<noteq> i) g = filter (\<lambda>g. gr_object g \<noteq> i) (oa_grants a t) \<Longrightarrow>
   grants_differ i t (oa_set_grants a g t)"
  unfolding grants_differ_def by blast

lemma differ_put_grant: "put_grant a i u rel now new t = Inr (t', x) \<Longrightarrow> grants_differ i t t'"
  by (auto simp: put_grant_def upsert_grant_def filter_update_grant split: if_splits intro!: grants_differI)

lemma differ_take_grant: "grants_differ i t (fst (take_grant a guarded i u t))"
  by (auto simp: take_grant_def filter_delete_grant intro!: grants_differI differ.refl)

lemma differ_add_grant: "differ.keeps i (add_grant a ctx i req)"
  unfolding add_grant_def
  by (auto simp: server_error_def intro!: differ_checks differ.keeps_sql intro: differ_put_grant)

lemma differ_revoke_grant: "differ.keeps i (revoke_grant a ctx i user)"
  unfolding revoke_grant_def
  by (auto simp: server_error_def fetch_relation_def intro!: differ_checks differ.keeps_update differ_take_grant)

text \<open>A caller that the checks refuse changes nothing.\<close>

lemma exists_refused:
  assumes "oa_tenant a i t \<noteq> Some tenant"
  shows "unchanged.keeps_at t (p_bind (object_exists a i tenant) f)"
  unfolding object_exists_def server_error_def p_bind_assoc
  by (rule unchanged.keeps_at_bind_select) (simp add: assms unchanged.keeps_at_keeps unchanged.keeps_fail)

lemma exists_then:
  assumes "unchanged.keeps_at t (f ())"
  shows "unchanged.keeps_at t (p_bind (object_exists a i tenant) f)"
  unfolding object_exists_def server_error_def p_bind_assoc
  by (rule unchanged.keeps_at_bind_select) (simp add: assms p_guard_def unchanged.keeps_at_keeps unchanged.keeps_fail)

lemma mapped_exists_refused:
  assumes "oa_tenant a i t \<noteq> Some tenant"
  shows "unchanged.keeps_at t (p_bind (p_map_err h (object_exists a i tenant)) f)"
  unfolding object_exists_def server_error_def p_map_err_bind p_map_err_twice p_bind_assoc
  by (rule unchanged.keeps_at_bind_select) (simp add: assms unchanged.keeps_at_keeps unchanged.keeps_fail)

lemma mapped_exists_then:
  assumes "unchanged.keeps_at t (f ())"
  shows "unchanged.keeps_at t (p_bind (p_map_err h (object_exists a i tenant)) f)"
  unfolding object_exists_def server_error_def p_map_err_bind p_map_err_twice p_bind_assoc
  by (rule unchanged.keeps_at_bind_select) (simp add: assms p_guard_def unchanged.keeps_at_keeps unchanged.keeps_fail)

lemma mapped_relation_refused:
  assumes "cc_user_id ctx = Some u" "\<not> allowed (relation_in u i (oa_grants a t))"
  shows "unchanged.keeps_at t (p_bind (p_map_err h (require_relation a ctx i allowed)) f)"
  unfolding require_relation_def fetch_relation_def server_error_def assms(1) option.case p_map_err_bind p_map_err_twice p_bind_assoc
  by (rule unchanged.keeps_at_bind_select) (simp add: assms unchanged.keeps_at_keeps unchanged.keeps_fail)

lemma owner_refused:
  assumes "cc_role ctx \<noteq> ''tenant_admin''" "relation_in u i (oa_grants a t) \<noteq> Some ''owner''"
  shows "unchanged.keeps_at t (p_bind (require_owner a ctx u i) f)"
  unfolding require_owner_def fetch_relation_def server_error_def p_bind_assoc
  by (rule unchanged.keeps_at_bind_select) (simp add: assms unchanged.keeps_at_keeps unchanged.keeps_fail)

lemma relation_refused:
  assumes "cc_user_id ctx = Some u" "\<not> allowed (relation_in u i (oa_grants a t))"
  shows "unchanged.keeps_at t (p_bind (require_relation a ctx i allowed) f)"
  unfolding require_relation_def fetch_relation_def server_error_def assms(1) option.case p_bind_assoc
  by (rule unchanged.keeps_at_bind_select) (simp add: assms unchanged.keeps_at_keeps unchanged.keeps_fail)

lemma unchanged_after_user:
  assumes "\<And>u. cc_user_id ctx = Some u \<Longrightarrow> unchanged.keeps_at t (f u)"
  shows "unchanged.keeps_at t (p_bind (p_lift (ok_or Forbidden (cc_user_id ctx))) f)"
  using assms by (cases "cc_user_id ctx") (simp_all add: unchanged.keeps_at_keeps unchanged.keeps_fail)

lemma unchanged_after_guard:
  "unchanged.keeps_at t (f ()) \<Longrightarrow> unchanged.keeps_at t (p_bind (p_guard b e) f)"
  by (cases b) (simp_all add: unchanged.keeps_at_keeps unchanged.keeps_fail)

definition refused :: "caller_context \<Rightarrow> uuid \<Rightarrow> 't \<Rightarrow> bool" where
  "refused ctx i t \<longleftrightarrow>
     oa_tenant a i t \<noteq> Some (cc_tenant_id ctx) \<or>
     cc_role ctx \<noteq> ''tenant_admin'' \<and>
     (\<exists>u. cc_user_id ctx = Some u \<and> relation_in u i (oa_grants a t) \<noteq> Some ''owner'')"

lemma refused_checks:
  assumes "refused ctx i t" "cc_user_id ctx = Some u"
  shows "unchanged.keeps_at t (p_bind (object_exists a i (cc_tenant_id ctx)) (\<lambda>_. p_bind (require_owner a ctx u i) f))"
  using assms by (auto simp: refused_def intro: exists_refused exists_then owner_refused)

lemma add_grant_refused: "refused ctx i t \<Longrightarrow> unchanged.keeps_at t (add_grant a ctx i req)"
  unfolding add_grant_def by (intro unchanged_after_guard unchanged_after_user refused_checks)

lemma revoke_grant_refused: "refused ctx i t \<Longrightarrow> unchanged.keeps_at t (revoke_grant a ctx i user)"
  unfolding revoke_grant_def by (intro unchanged_after_user refused_checks)

end

interpretation dashboards: object_tables dashboard_access
  by unfold_locales (simp_all add: dashboard_access_def find_dashboard_def)

interpretation views: object_tables view_access
  by unfold_locales (simp_all add: view_access_def find_view_def)

end
