(* ===== verification/Content_Claims.thy ===== *)
theory Content_Claims
  imports Content_Requests
begin

section \<open>Who reads and who changes dashboards and saved views\<close>

subsection \<open>A request leaves every other object as it is\<close>

lemma object_tenant_state:
  "object_tenant (Dashboard i) t = map_option dr_tenant_id (fst (state_of (Dashboard i) t))"
  "object_tenant (View i) t = map_option sv_tenant_id (fst (snd (snd (state_of (View i) t))))"
  by (simp_all add: object_tenant_def dashboard_access_def view_access_def)

lemma object_tenant_same: "state_of j t' = state_of j t \<Longrightarrow> object_tenant j t' = object_tenant j t"
  by (cases j) (simp_all add: object_tenant_def dashboard_access_def view_access_def)

definition keeps_object :: "object \<Rightarrow> content \<Rightarrow> content \<Rightarrow> bool" where
  "keeps_object j t t' \<longleftrightarrow> object_tenant j t \<noteq> None \<longrightarrow> state_of j t' = state_of j t"

interpretation frame: table_relation "\<lambda>t. object_tenant j t \<noteq> None" "keeps_object j" 0 for j
  by unfold_locales (auto simp: keeps_object_def dest: object_tenant_same)

lemma frame_unchanged: "unchanged.keeps_at t m \<Longrightarrow> frame.keeps_at j t m"
  by (auto simp: unchanged.keeps_at_def frame.keeps_at_def frame.refl)

lemma find_update_where_other:
  "(\<And>x. p x \<Longrightarrow> \<not> q x) \<Longrightarrow> (\<And>x. p x \<Longrightarrow> \<not> q (f x)) \<Longrightarrow> find q (update_where p f xs) = find q xs"
  by (induction xs) (auto simp: update_where_def)

lemma find_delete_where_other: "(\<And>x. p x \<Longrightarrow> \<not> q x) \<Longrightarrow> find q (delete_where p xs) = find q xs"
  by (induction xs) (auto simp: delete_where_def)

lemma find_append_one: "find q (xs @ [x]) = (case find q xs of Some y \<Rightarrow> Some y | None \<Rightarrow> if q x then Some x else None)"
  by (induction xs) auto

lemma filter_delete_where_other: "(\<And>x. p x \<Longrightarrow> \<not> q x) \<Longrightarrow> filter q (delete_where p xs) = filter q xs"
  by (induction xs) (auto simp: delete_where_def)

lemma filter_update_where_other:
  "(\<And>x. p x \<Longrightarrow> \<not> q x) \<Longrightarrow> (\<And>x. p x \<Longrightarrow> \<not> q (f x)) \<Longrightarrow> filter q (update_where p f xs) = filter q xs"
  by (induction xs) (auto simp: update_where_def)

lemmas other_rows = find_update_where_other find_delete_where_other filter_delete_where_other filter_update_where_other

lemma filter_object:
  assumes "filter (\<lambda>g. gr_object g \<noteq> i) gs = filter (\<lambda>g. gr_object g \<noteq> i) gs'" "j \<noteq> i"
  shows "filter (\<lambda>g. gr_object g = j) gs = filter (\<lambda>g. gr_object g = j) gs'"
proof -
  have "filter (\<lambda>g. gr_object g = j) xs = filter (\<lambda>g. gr_object g = j) (filter (\<lambda>g. gr_object g \<noteq> i) xs)" for xs
    using assms(2) by (induction xs) auto
  then show ?thesis using assms(1) by metis
qed

lemma access_simps [simp]:
  "oa_grants dashboard_access t = cn_dashboard_grants t" "oa_grants view_access t = cn_view_grants t"
  "oa_set_grants dashboard_access g t = t\<lparr>cn_dashboard_grants := g\<rparr>"
  "oa_set_grants view_access g t = t\<lparr>cn_view_grants := g\<rparr>"
  "find_dashboard i (t\<lparr>cn_dashboard_grants := g\<rparr>) = find_dashboard i t"
  "find_dashboard i (t\<lparr>cn_view_grants := g\<rparr>) = find_dashboard i t"
  "find_view i (t\<lparr>cn_dashboard_grants := g\<rparr>) = find_view i t"
  "find_view i (t\<lparr>cn_view_grants := g\<rparr>) = find_view i t"
  by (simp_all add: dashboard_access_def view_access_def find_dashboard_def find_view_def)

lemma dashboard_grants_of_other:
  "dashboards.grants_differ i t t' \<Longrightarrow> j \<noteq> Dashboard i \<Longrightarrow> keeps_object j t t'"
  by (cases j) (auto simp: dashboards.grants_differ_def keeps_object_def intro: filter_object)

lemma view_grants_of_other:
  "views.grants_differ i t t' \<Longrightarrow> j \<noteq> View i \<Longrightarrow> keeps_object j t t'"
  by (cases j) (auto simp: views.grants_differ_def keeps_object_def intro: filter_object)

lemmas grants_of_other = dashboard_grants_of_other view_grants_of_other

lemma frame_grants:
  "dashboards.differ.keeps i m \<Longrightarrow> j \<noteq> Dashboard i \<Longrightarrow> frame.keeps j m"
  "views.differ.keeps i m \<Longrightarrow> j \<noteq> View i \<Longrightarrow> frame.keeps j m"
  unfolding dashboards.differ.keeps_def views.differ.keeps_def frame.keeps_def
    dashboards.differ.keeps_at_def views.differ.keeps_at_def frame.keeps_at_def
  using grants_of_other by blast+

lemma frame_insert_dashboard: "insert_dashboard tn n now new t = Inr (t', d) \<Longrightarrow> keeps_object j t t'"
  by (cases j)
     (auto simp: insert_dashboard_def keeps_object_def object_tenant_def dashboard_access_def find_dashboard_def
        find_view_def find_append_one Let_def split: if_splits option.splits)

lemma frame_insert_view: "insert_view tn ow n k c now new t = Inr (t', v) \<Longrightarrow> keeps_object j t t'"
  by (cases j)
     (auto simp: insert_view_def keeps_object_def object_tenant_def view_access_def find_dashboard_def
        find_view_def find_append_one Let_def split: if_splits option.splits)

lemma frame_insert_panel:
  "insert_panel p t = Inr (t', q) \<Longrightarrow> j \<noteq> Dashboard (pn_dashboard_id p) \<Longrightarrow> keeps_object j t t'"
  by (cases j) (auto simp: insert_panel_def keeps_object_def find_dashboard_def find_view_def split: if_splits)

lemma frame_set_dashboard:
  "set_dashboard i tn n v t = Inr (t', d) \<Longrightarrow> j \<noteq> Dashboard i \<Longrightarrow> keeps_object j t t'"
  by (cases j)
     (auto simp: set_dashboard_def keeps_object_def find_dashboard_def find_view_def Let_def split: option.splits if_splits intro!: other_rows)

lemma frame_set_view:
  "set_view i tn n c v now t = Inr (t', w) \<Longrightarrow> j \<noteq> View i \<Longrightarrow> keeps_object j t t'"
  by (cases j)
     (auto simp: set_view_def keeps_object_def find_dashboard_def find_view_def Let_def split: option.splits if_splits intro!: other_rows)

lemma frame_clear_panels: "j \<noteq> Dashboard i \<Longrightarrow> keeps_object j t (clear_panels i t)"
  by (cases j) (auto simp: clear_panels_def keeps_object_def find_dashboard_def find_view_def intro!: other_rows)

lemma frame_drop_dashboard: "j \<noteq> Dashboard i \<Longrightarrow> keeps_object j t (fst (drop_dashboard i tn t))"
  by (cases j) (auto simp: drop_dashboard_def clear_panels_def keeps_object_def find_dashboard_def find_view_def Let_def intro!: other_rows)

lemma frame_drop_view: "j \<noteq> View i \<Longrightarrow> keeps_object j t (fst (drop_view i tn t))"
  by (cases j) (auto simp: drop_view_def keeps_object_def find_dashboard_def find_view_def Let_def intro!: other_rows)


subsection \<open>The handlers\<close>

lemma frame_checks:
  "frame.keeps j (object_exists a i tenant)" "frame.keeps j (require_relation a ctx i ok)"
  by (auto simp: object_exists_def require_relation_def fetch_relation_def server_error_def)

lemma frame_insert_panels:
  assumes "j \<noteq> Dashboard i"
  shows "frame.keeps j (insert_panels keep i n ps)"
proof (induction ps arbitrary: n)
  case (Cons p ps)
  have "frame.keeps j (db_error (sql (\<lambda>_ new. insert_panel (panel_row_of i (if keep then unwrap_or new (pq_panel_id p) else new) n p))))"
    unfolding db_error_def
    by (intro frame.keeps_map_err frame.keeps_sql) (erule frame_insert_panel, simp add: assms panel_row_of_def)
  then show ?case using Cons.IH by auto
qed auto

lemma frame_put_grant_new:
  "j \<noteq> Dashboard i \<Longrightarrow> frame.keeps j (sql (put_grant dashboard_access i u rel))"
  "j \<noteq> View i \<Longrightarrow> frame.keeps j (sql (put_grant view_access i u rel))"
  by (auto intro!: frame.keeps_sql intro: grants_of_other dest: dashboards.differ_put_grant views.differ_put_grant)

lemma worldly_sql: "worldly.keeps (sql f)"
  by (rule worldly.keeps_sql) simp

lemma worldly_insert_panels: "worldly.keeps (insert_panels keep i n ps)"
  by (induction ps arbitrary: n) (auto simp: db_error_def intro!: worldly_sql)

lemma set_dashboard_id: "set_dashboard i tn n v t = Inr (t', Some d) \<Longrightarrow> dr_dashboard_id d = i"
  by (auto simp: set_dashboard_def Let_def split: option.splits if_splits dest!: find_Some_set)

lemma db_error_sql_Inr:
  "db_error (sql f) db = (db', Inr x) \<Longrightarrow> \<exists>now new t'. f now new (db_tables db) = Inr (t', x)"
  by (auto simp: db_error_def p_map_err_Inr sql_Inr)

lemma frame_clear_and_insert:
  assumes "j \<noteq> Dashboard i"
  shows "frame.keeps j (p_bind (db_error (sql_update (\<lambda>_ t. (clear_panels i t, ())))) (\<lambda>_.
     p_bind (insert_panels True i n ps) (\<lambda>panels. p_return (g panels))))"
  unfolding db_error_def
  by (intro frame.keeps_bind frame.keeps_map_err frame.keeps_update frame_insert_panels frame.keeps_return)
     (simp_all add: assms frame_clear_panels)

lemma worldly_clear_and_insert:
  "worldly.keeps (p_bind (db_error (sql_update (\<lambda>_ t. (clear_panels i t, ())))) (\<lambda>_.
     p_bind (insert_panels True i n ps) (\<lambda>panels. p_return (g panels))))"
  unfolding db_error_def
  by (intro worldly.keeps_bind worldly.keeps_map_err worldly.keeps_update worldly_insert_panels worldly.keeps_return) simp

lemma frame_update_dashboard:
  assumes "j \<noteq> Dashboard i"
  shows "frame.keeps j (update_dashboard tn i req)"
  unfolding update_dashboard_def
proof (intro frame.keeps_bind[OF frame.keeps_lift] frame.keeps_transaction frame.keeps_bind_result)
  show "frame.keeps j (db_error (sql (\<lambda>_ _. set_dashboard i tn (trim (ud_name req)) (ud_visibility req))))"
    unfolding db_error_def
    by (intro frame.keeps_map_err frame.keeps_sql) (erule frame_set_dashboard, rule assms)
next
  fix row :: "dashboard_row option"
  show "worldly.keeps (case row of None \<Rightarrow> p_return None
      | Some row \<Rightarrow> p_bind (db_error (sql_update (\<lambda>_ t. (clear_panels (dr_dashboard_id row) t, ())))) (\<lambda>_.
          p_bind (insert_panels True (dr_dashboard_id row) 0 (ud_panels req)) (\<lambda>panels.
          p_return (Some (dashboard_item_of row panels)))))"
    by (cases row) (simp_all add: worldly_clear_and_insert worldly.keeps_return)
next
  fix db db' :: "content database" and row :: "dashboard_row option"
  assume "db_error (sql (\<lambda>_ _. set_dashboard i tn (trim (ud_name req)) (ud_visibility req))) db = (db', Inr row)"
  then have "dr_dashboard_id d = i" if "row = Some d" for d
    using that by (auto dest!: db_error_sql_Inr set_dashboard_id)
  then show "frame.keeps j (case row of None \<Rightarrow> p_return None
      | Some row \<Rightarrow> p_bind (db_error (sql_update (\<lambda>_ t. (clear_panels (dr_dashboard_id row) t, ())))) (\<lambda>_.
          p_bind (insert_panels True (dr_dashboard_id row) 0 (ud_panels req)) (\<lambda>panels.
          p_return (Some (dashboard_item_of row panels)))))"
    using assms by (cases row) (simp_all add: frame_clear_and_insert frame.keeps_return)
qed

lemma insert_dashboard_fresh:
  "insert_dashboard tn n now new t = Inr (t', d) \<Longrightarrow> object_tenant (Dashboard (dr_dashboard_id d)) t = None"
  by (auto simp: insert_dashboard_def object_tenant_def dashboard_access_def Let_def split: if_splits)

lemma insert_view_fresh:
  "insert_view tn ow n k c now new t = Inr (t', v) \<Longrightarrow> object_tenant (View (sv_saved_view_id v)) t = None"
  by (auto simp: insert_view_def object_tenant_def view_access_def Let_def split: if_splits)

definition create_rest ::
    "uuid option \<Rightarrow> create_dashboard_request \<Rightarrow> dashboard_row \<Rightarrow> (content, dashboard_error, dashboard_item) program" where
  "create_rest creator req row =
     p_bind (case creator of
         None \<Rightarrow> p_return ()
       | Some user_id \<Rightarrow> db_error (sql (put_grant dashboard_access (dr_dashboard_id row) user_id ''owner''))) (\<lambda>_.
     p_bind (insert_panels False (dr_dashboard_id row) 0 (cd_panels req)) (\<lambda>panels.
     p_return (dashboard_item_of row panels)))"

lemma worldly_create_rest: "worldly.keeps (create_rest creator req row)"
  unfolding create_rest_def db_error_def
  by (intro worldly.keeps_bind worldly_insert_panels worldly.keeps_return worldly.keeps_option worldly.keeps_map_err worldly_sql)

lemma frame_create_rest: "j \<noteq> Dashboard (dr_dashboard_id row) \<Longrightarrow> frame.keeps j (create_rest creator req row)"
  unfolding create_rest_def db_error_def
  by (intro frame.keeps_bind frame_insert_panels frame.keeps_return frame.keeps_option frame.keeps_map_err frame_put_grant_new)

lemma frame_create_dashboard: "frame.keeps j (create_dashboard tn req creator)"
  unfolding create_dashboard_def create_rest_def[symmetric]
proof (intro frame.keeps_bind[OF frame.keeps_lift] frame.keeps_transaction frame.keeps_bind_result worldly_create_rest)
  show "frame.keeps j (db_error (sql (insert_dashboard tn (trim (cd_name req)))))"
    unfolding db_error_def by (intro frame.keeps_map_err frame.keeps_sql) (rule frame_insert_dashboard)
next
  fix db db' :: "content database" and row
  assume "object_tenant j (db_tables db) \<noteq> None"
    and "db_error (sql (insert_dashboard tn (trim (cd_name req)))) db = (db', Inr row)"
  then have "j \<noteq> Dashboard (dr_dashboard_id row)"
    by (auto dest!: db_error_sql_Inr insert_dashboard_fresh)
  then show "frame.keeps j (create_rest creator req row)" by (rule frame_create_rest)
qed

lemma frame_create_view: "frame.keeps j (create_saved_view tn req creator)"
  unfolding create_saved_view_def
proof (rule frame.keeps_bind[OF frame.keeps_lift], rule frame.keeps_transaction, rule frame.keeps_bind_result)
  show "frame.keeps j (p_map_err View_db (sql (insert_view tn creator (trim (cv_name req)) (cv_signal_kind req) (cv_config req))))"
    by (intro frame.keeps_map_err frame.keeps_sql) (rule frame_insert_view)
next
  fix row
  show "worldly.keeps (p_bind (case creator of None \<Rightarrow> p_return ()
       | Some user_id \<Rightarrow> p_map_err View_db (sql (put_grant view_access (sv_saved_view_id row) user_id ''owner'')))
      (\<lambda>_. p_return (saved_view_item_of row)))"
    by (intro worldly.keeps_bind worldly.keeps_return worldly.keeps_option worldly.keeps_map_err worldly_sql)
next
  fix db db' :: "content database" and row
  assume "object_tenant j (db_tables db) \<noteq> None"
    and "p_map_err View_db (sql (insert_view tn creator (trim (cv_name req)) (cv_signal_kind req) (cv_config req))) db = (db', Inr row)"
  then have "j \<noteq> View (sv_saved_view_id row)"
    by (auto simp: p_map_err_Inr sql_Inr dest!: insert_view_fresh)
  then show "frame.keeps j (p_bind (case creator of None \<Rightarrow> p_return ()
       | Some user_id \<Rightarrow> p_map_err View_db (sql (put_grant view_access (sv_saved_view_id row) user_id ''owner'')))
      (\<lambda>_. p_return (saved_view_item_of row)))"
    by (intro frame.keeps_bind frame.keeps_return frame.keeps_option frame.keeps_map_err frame_put_grant_new)
qed


lemma frame_guarded:
  "frame.keeps j m \<Longrightarrow> frame.keeps j (p_bind (p_map_err Status (object_exists a i tn)) (\<lambda>_.
     p_bind (p_map_err Status (require_relation a ctx i ok)) (\<lambda>_. m)))"
  "frame.keeps j n \<Longrightarrow> frame.keeps j (p_bind (object_exists a i tn) (\<lambda>_. p_bind (require_relation a ctx i ok) (\<lambda>_. n)))"
  by (intro frame.keeps_bind frame.keeps_map_err frame_checks; assumption)+

lemma frame_delete:
  "j \<noteq> Dashboard i \<Longrightarrow> frame.keeps j (server_error (delete_dashboard tn i))"
  "j \<noteq> View i \<Longrightarrow> frame.keeps j (server_error (delete_saved_view tn i))"
  unfolding delete_dashboard_def delete_saved_view_def server_error_def
  by (intro frame.keeps_map_err frame.keeps_bind frame.keeps_update frame.keeps_return frame_drop_dashboard frame_drop_view; assumption)+

lemma frame_update_view: "j \<noteq> View i \<Longrightarrow> frame.keeps j (update_saved_view tn i req)"
  unfolding update_saved_view_def
  by (intro frame.keeps_bind frame.keeps_lift frame.keeps_map_err frame.keeps_sql frame.keeps_return) (erule frame_set_view, assumption)

lemma frame_serve:
  assumes "target r \<noteq> Some j"
  shows "keeps_object j (db_tables db) (db_tables (serve ctx r db))"
proof (cases r)
  case (Create_dashboard req)
  have "frame.keeps j (handle_create_dashboard ctx req)"
    unfolding handle_create_dashboard_def by (intro frame.keeps_bind frame.keeps_map_err frame_create_dashboard frame.keeps_return)
  then show ?thesis using Create_dashboard frame.keepsD by simp
next
  case (Import_dashboard e)
  have "frame.keeps j (handle_import_dashboard ctx e)"
    unfolding handle_import_dashboard_def import_dashboard_def
    by (intro frame.keeps_bind frame.keeps_guard frame.keeps_map_err frame_create_dashboard frame.keeps_return)
  then show ?thesis using Import_dashboard frame.keepsD by simp
next
  case (Update_dashboard i req)
  then have "j \<noteq> Dashboard i" using assms by auto
  then have "frame.keeps j (handle_update_dashboard ctx i req)"
    unfolding handle_update_dashboard_def
    by (intro frame_guarded frame.keeps_bind frame.keeps_map_err frame_update_dashboard frame.keeps_lift)
  then show ?thesis using Update_dashboard frame.keepsD by simp
next
  case (Delete_dashboard i)
  then have "j \<noteq> Dashboard i" using assms by auto
  then have "frame.keeps j (handle_delete_dashboard ctx i)"
    unfolding handle_delete_dashboard_def
    by (intro frame_guarded frame.keeps_bind frame.keeps_guard frame_delete frame.keeps_return)
  then show ?thesis using Delete_dashboard frame.keepsD by simp
next
  case (Grant_dashboard i req)
  then have "frame.keeps j (handle_add_grant ctx i req)"
    unfolding handle_add_grant_def using assms by (intro frame_grants(1)[OF dashboards.differ_add_grant]) auto
  then show ?thesis using Grant_dashboard frame.keepsD by simp
next
  case (Revoke_dashboard i u)
  then have "frame.keeps j (handle_revoke_grant ctx i u)"
    unfolding handle_revoke_grant_def using assms by (intro frame_grants(1)[OF dashboards.differ_revoke_grant]) auto
  then show ?thesis using Revoke_dashboard frame.keepsD by simp
next
  case (Create_view req)
  have "frame.keeps j (handle_create_saved_view ctx req)"
    unfolding handle_create_saved_view_def by (intro frame.keeps_bind frame.keeps_map_err frame_create_view frame.keeps_return)
  then show ?thesis using Create_view frame.keepsD by simp
next
  case (Update_view i req)
  then have "j \<noteq> View i" using assms by auto
  then have "frame.keeps j (handle_update_saved_view ctx i req)"
    unfolding handle_update_saved_view_def
    by (intro frame_guarded frame.keeps_bind frame.keeps_map_err frame_update_view frame.keeps_lift)
  then show ?thesis using Update_view frame.keepsD by simp
next
  case (Delete_view i)
  then have "j \<noteq> View i" using assms by auto
  then have "frame.keeps j (handle_delete_saved_view ctx i)"
    unfolding handle_delete_saved_view_def
    by (intro frame_guarded frame.keeps_bind frame.keeps_guard frame_delete frame.keeps_return)
  then show ?thesis using Delete_view frame.keepsD by simp
next
  case (Grant_view i req)
  then have "frame.keeps j (handle_add_saved_view_grant ctx i req)"
    unfolding handle_add_saved_view_grant_def using assms by (intro frame_grants(2)[OF views.differ_add_grant]) auto
  then show ?thesis using Grant_view frame.keepsD by simp
next
  case (Revoke_view i u)
  then have "frame.keeps j (handle_revoke_saved_view_grant ctx i u)"
    unfolding handle_revoke_saved_view_grant_def using assms by (intro frame_grants(2)[OF views.differ_revoke_grant]) auto
  then show ?thesis using Revoke_view frame.keepsD by simp
qed


subsection \<open>A caller that may not write changes nothing\<close>

lemma may_not_write_cases:
  "may_not_write ctx (Dashboard i) t \<Longrightarrow>
     oa_tenant dashboard_access i t \<noteq> Some (cc_tenant_id ctx) \<or>
     cc_role ctx \<noteq> ''tenant_admin'' \<and>
     (\<exists>u. cc_user_id ctx = Some u \<and> relation_in u i (oa_grants dashboard_access t) \<notin> {Some ''owner'', Some ''editor''})"
  "may_not_write ctx (View i) t \<Longrightarrow>
     oa_tenant view_access i t \<noteq> Some (cc_tenant_id ctx) \<or>
     cc_role ctx \<noteq> ''tenant_admin'' \<and>
     (\<exists>u. cc_user_id ctx = Some u \<and> relation_in u i (oa_grants view_access t) \<notin> {Some ''owner'', Some ''editor''})"
  by (simp_all add: may_not_write_def object_tenant_def relation_on_def)

lemma may_not_write_refused:
  "may_not_write ctx (Dashboard i) t \<Longrightarrow> dashboards.refused ctx i t"
  "may_not_write ctx (View i) t \<Longrightarrow> views.refused ctx i t"
  by (auto simp: dashboards.refused_def views.refused_def dest!: may_not_write_cases)

lemma not_allowed:
  "cc_role ctx \<noteq> ''tenant_admin'' \<Longrightarrow> r \<notin> {Some ''owner'', Some ''editor''} \<Longrightarrow>
   \<not> grant_satisfies_write (cc_role ctx) r \<and> \<not> grant_satisfies_delete (cc_role ctx) r"
  by (auto simp: grant_satisfies_write_def grant_satisfies_delete_def)

lemma update_dashboard_refused:
  "may_not_write ctx (Dashboard i) t \<Longrightarrow> unchanged.keeps_at t (handle_update_dashboard ctx i req)"
  unfolding handle_update_dashboard_def
  by (drule may_not_write_cases)
     (metis dashboards.mapped_exists_refused dashboards.mapped_exists_then dashboards.mapped_relation_refused not_allowed)

lemma delete_dashboard_refused:
  "may_not_write ctx (Dashboard i) t \<Longrightarrow> unchanged.keeps_at t (handle_delete_dashboard ctx i)"
  unfolding handle_delete_dashboard_def
  by (drule may_not_write_cases)
     (metis dashboards.exists_refused dashboards.exists_then dashboards.relation_refused not_allowed)

lemma update_view_refused:
  "may_not_write ctx (View i) t \<Longrightarrow> unchanged.keeps_at t (handle_update_saved_view ctx i req)"
  unfolding handle_update_saved_view_def
  by (drule may_not_write_cases) (metis views.exists_refused views.exists_then views.relation_refused not_allowed)

lemma delete_view_refused:
  "may_not_write ctx (View i) t \<Longrightarrow> unchanged.keeps_at t (handle_delete_saved_view ctx i)"
  unfolding handle_delete_saved_view_def
  by (drule may_not_write_cases) (metis views.exists_refused views.exists_then views.relation_refused not_allowed)

lemmas handlers_refused = update_dashboard_refused delete_dashboard_refused update_view_refused delete_view_refused
  dashboards.add_grant_refused[OF may_not_write_refused(1)] dashboards.revoke_grant_refused[OF may_not_write_refused(1)]
  views.add_grant_refused[OF may_not_write_refused(2)] views.revoke_grant_refused[OF may_not_write_refused(2)]

lemma unchanged_fst: "unchanged.keeps_at (db_tables db) m \<Longrightarrow> db_tables (fst (m db)) = db_tables db"
  by (auto simp: unchanged.keeps_at_def)

lemma refused_serve:
  assumes "target r = Some j" "may_not_write ctx j (db_tables db)"
  shows "db_tables (serve ctx r db) = db_tables db"
  using assms handlers_refused[where t = "db_tables db"]
  by (cases r) (auto simp: handle_add_grant_def handle_revoke_grant_def handle_add_saved_view_grant_def
      handle_revoke_saved_view_grant_def intro!: unchanged_fst)

lemma find_grant_filter:
  "find (grant_of u i) gs = find (grant_of u i) (filter (\<lambda>g. gr_object g = i) gs)"
  by (induction gs) (auto simp: grant_of_def)

definition grants_on :: "object \<Rightarrow> content \<Rightarrow> grant_row list" where
  "grants_on j t = filter (\<lambda>g. gr_object g = object_id j) (oa_grants (access_of j) t)"

lemma relation_on_grants: "relation_on u j t = map_option gr_relation (find (grant_of u (object_id j)) (grants_on j t))"
  by (simp add: relation_on_def relation_in_def grants_on_def find_grant_filter[symmetric])

lemma grants_on_same: "state_of j t' = state_of j t \<Longrightarrow> grants_on j t' = grants_on j t"
  by (cases j) (simp_all add: grants_on_def)

lemma may_not_write_same: "state_of j t' = state_of j t \<Longrightarrow> may_not_write ctx j t' = may_not_write ctx j t"
  using object_tenant_same[of j t' t] grants_on_same[of j t' t]
  by (simp add: may_not_write_def relation_on_grants)

text \<open>The same for a caller who may write but is neither owner nor administrator.\<close>

definition may_not_share :: "caller_context \<Rightarrow> object \<Rightarrow> content \<Rightarrow> bool" where
  "may_not_share ctx j t \<longleftrightarrow>
     object_tenant j t \<noteq> Some (cc_tenant_id ctx) \<or>
     cc_role ctx \<noteq> ''tenant_admin'' \<and> (\<exists>u. cc_user_id ctx = Some u \<and> relation_on u j t \<noteq> Some ''owner'')"

definition keeps_sharing :: "object \<Rightarrow> content \<Rightarrow> content \<Rightarrow> bool" where
  "keeps_sharing j t t' \<longleftrightarrow> object_tenant j t \<noteq> None \<longrightarrow>
     object_tenant j t' = object_tenant j t \<and> grants_on j t' = grants_on j t"

interpretation sharing: table_relation "\<lambda>t. object_tenant j t \<noteq> None" "keeps_sharing j" 0 for j
  by unfold_locales (auto simp: keeps_sharing_def)

lemma sharing_checks:
  "sharing.keeps j (object_exists a i tenant)" "sharing.keeps j (require_relation a ctx i ok)"
  by (auto simp: object_exists_def require_relation_def fetch_relation_def server_error_def)

lemma find_update_where_key:
  "(\<And>x. q (f x) = q x) \<Longrightarrow> (\<And>x. g (f x) = g x) \<Longrightarrow> map_option g (find q (update_where p f xs)) = map_option g (find q xs)"
  by (induction xs) (auto simp: update_where_def)

lemma sharing_set_dashboard: "set_dashboard i tn n v t = Inr (t', d) \<Longrightarrow> keeps_sharing j t t'"
  by (cases j)
     (auto simp: set_dashboard_def keeps_sharing_def object_tenant_def grants_on_def dashboard_access_def view_access_def
        find_dashboard_def find_view_def Let_def find_update_where_key split: option.splits if_splits)

lemma sharing_set_view: "set_view i tn n c v now t = Inr (t', w) \<Longrightarrow> keeps_sharing j t t'"
  by (cases j)
     (auto simp: set_view_def keeps_sharing_def object_tenant_def grants_on_def dashboard_access_def view_access_def
        find_dashboard_def find_view_def Let_def find_update_where_key split: option.splits if_splits)

lemma sharing_panels:
  "insert_panel p t = Inr (t', q) \<Longrightarrow> keeps_sharing j t t'" "keeps_sharing j t (clear_panels i t)"
  by (cases j; auto simp: insert_panel_def clear_panels_def keeps_sharing_def object_tenant_def grants_on_def
        dashboard_access_def view_access_def find_dashboard_def find_view_def split: if_splits)+

lemma sharing_insert_panels: "sharing.keeps j (insert_panels keep i n ps)"
proof (induction ps arbitrary: n)
  case (Cons p ps)
  have "sharing.keeps j (db_error (sql (\<lambda>_ new. insert_panel (panel_row_of i (if keep then unwrap_or new (pq_panel_id p) else new) n p))))"
    unfolding db_error_def by (intro sharing.keeps_map_err sharing.keeps_sql) (erule sharing_panels)
  then show ?case using Cons.IH by auto
qed auto

lemma sharing_update_dashboard: "sharing.keeps j (handle_update_dashboard ctx i req)"
  unfolding handle_update_dashboard_def update_dashboard_def db_error_def
  by (intro sharing.keeps_bind sharing.keeps_map_err sharing_checks sharing.keeps_lift sharing.keeps_transaction
      sharing.keeps_option sharing.keeps_return sharing_insert_panels sharing.keeps_sql sharing.keeps_update)
     (auto intro: sharing_set_dashboard sharing_panels)

lemma sharing_update_view: "sharing.keeps j (handle_update_saved_view ctx i req)"
  unfolding handle_update_saved_view_def update_saved_view_def
  by (intro sharing.keeps_bind sharing.keeps_map_err sharing_checks sharing.keeps_lift sharing.keeps_return sharing.keeps_sql)
     (rule sharing_set_view)

lemma may_not_share_refused:
  "may_not_share ctx (Dashboard i) t \<Longrightarrow> dashboards.refused ctx i t"
  "may_not_share ctx (View i) t \<Longrightarrow> views.refused ctx i t"
  by (simp_all add: may_not_share_def dashboards.refused_def views.refused_def object_tenant_def relation_on_def)

lemma not_deleting:
  "cc_role ctx \<noteq> ''tenant_admin'' \<Longrightarrow> r \<noteq> Some ''owner'' \<Longrightarrow> \<not> grant_satisfies_delete (cc_role ctx) r"
  by (simp add: grant_satisfies_delete_def)

lemma delete_not_shared:
  "may_not_share ctx (Dashboard i) t \<Longrightarrow> unchanged.keeps_at t (handle_delete_dashboard ctx i)"
  "may_not_share ctx (View i) t \<Longrightarrow> unchanged.keeps_at t (handle_delete_saved_view ctx i)"
  unfolding handle_delete_dashboard_def handle_delete_saved_view_def may_not_share_def object_tenant_def relation_on_def
    access_of.simps object_id.simps
  by (metis dashboards.exists_refused dashboards.exists_then dashboards.relation_refused not_deleting)
     (metis views.exists_refused views.exists_then views.relation_refused not_deleting)

lemmas handlers_not_shared = delete_not_shared
  dashboards.add_grant_refused[OF may_not_share_refused(1)] dashboards.revoke_grant_refused[OF may_not_share_refused(1)]
  views.add_grant_refused[OF may_not_share_refused(2)] views.revoke_grant_refused[OF may_not_share_refused(2)]

text \<open>
  A request that can change grants: a deletion, by an owner, an administrator or a key, or
  a sharing request, by an owner or an administrator, for a key is refused.
\<close>

fun deletes :: "content_request \<Rightarrow> bool" where
  "deletes (Delete_dashboard i) = True"
| "deletes (Delete_view i) = True"
| "deletes _ = False"

fun shares :: "content_request \<Rightarrow> bool" where
  "shares (Grant_dashboard i req) = True"
| "shares (Revoke_dashboard i u) = True"
| "shares (Grant_view i req) = True"
| "shares (Revoke_view i u) = True"
| "shares _ = False"

definition may_change_grants :: "caller_context \<Rightarrow> content_request \<Rightarrow> object \<Rightarrow> content \<Rightarrow> bool" where
  "may_change_grants ctx r j t \<longleftrightarrow>
     object_tenant j t = Some (cc_tenant_id ctx) \<and>
     (case cc_user_id ctx of
        None \<Rightarrow> deletes r
      | Some u \<Rightarrow> (deletes r \<or> shares r) \<and> (cc_role ctx = ''tenant_admin'' \<or> relation_on u j t = Some ''owner''))"

lemma no_change_deleting: "\<not> may_change_grants ctx r j t \<Longrightarrow> deletes r \<Longrightarrow> may_not_share ctx j t"
  by (auto simp: may_change_grants_def may_not_share_def split: option.splits)

lemma no_change_sharing:
  "\<not> may_change_grants ctx r j t \<Longrightarrow> shares r \<Longrightarrow> cc_user_id ctx = None \<or> may_not_share ctx j t"
  by (auto simp: may_change_grants_def may_not_share_def split: option.splits)

text \<open>Sharing takes a user.\<close>

lemma key_shares_nothing:
  assumes "cc_user_id ctx = None"
  shows "unchanged.keeps_at t (add_grant a ctx i req)" "unchanged.keeps_at t (revoke_grant a ctx i u)"
  using assms by (simp_all add: add_grant_def revoke_grant_def unchanged.keeps_at_keeps unchanged.keeps_bind unchanged.keeps_guard unchanged.keeps_fail)

lemma grants_refused:
  assumes "cc_user_id ctx = None \<or> may_not_share ctx (Dashboard i) t"
  shows "unchanged.keeps_at t (handle_add_grant ctx i req)" "unchanged.keeps_at t (handle_revoke_grant ctx i u)"
  using assms key_shares_nothing[of ctx t dashboard_access i] handlers_not_shared(3,4)[of ctx i t]
  by (auto simp: handle_add_grant_def handle_revoke_grant_def)

lemma view_grants_refused:
  assumes "cc_user_id ctx = None \<or> may_not_share ctx (View i) t"
  shows "unchanged.keeps_at t (handle_add_saved_view_grant ctx i req)" "unchanged.keeps_at t (handle_revoke_saved_view_grant ctx i u)"
  using assms key_shares_nothing[of ctx t view_access i] handlers_not_shared(5,6)[of ctx i t]
  by (auto simp: handle_add_saved_view_grant_def handle_revoke_saved_view_grant_def)

lemma sharing_serve:
  assumes "target r = Some j \<longrightarrow> \<not> may_change_grants ctx r j (db_tables db)"
  shows "keeps_sharing j (db_tables db) (db_tables (serve ctx r db))"
proof (cases "target r = Some j")
  case True
  then have del: "deletes r \<Longrightarrow> may_not_share ctx j (db_tables db)"
    and sh: "shares r \<Longrightarrow> cc_user_id ctx = None \<or> may_not_share ctx j (db_tables db)"
    using assms no_change_deleting no_change_sharing by simp_all
  show ?thesis
  proof (cases r)
    case (Update_dashboard i req)
    then show ?thesis using sharing.keepsD[OF sharing_update_dashboard] by simp
  next
    case (Update_view i req)
    then show ?thesis using sharing.keepsD[OF sharing_update_view] by simp
  next
    case (Delete_dashboard i)
    then show ?thesis using True del unchanged_fst[OF delete_not_shared(1)] sharing.refl by simp
  next
    case (Delete_view i)
    then show ?thesis using True del unchanged_fst[OF delete_not_shared(2)] sharing.refl by simp
  next
    case (Grant_dashboard i req)
    then show ?thesis using True unchanged_fst[OF grants_refused(1), of ctx i] sh sharing.refl by simp
  next
    case (Revoke_dashboard i u)
    then show ?thesis using True unchanged_fst[OF grants_refused(2), of ctx i] sh sharing.refl by simp
  next
    case (Grant_view i req)
    then show ?thesis using True unchanged_fst[OF view_grants_refused(1), of ctx i] sh sharing.refl by simp
  next
    case (Revoke_view i u)
    then show ?thesis using True unchanged_fst[OF view_grants_refused(2), of ctx i] sh sharing.refl by simp
  qed (use True in simp_all)
next
  case False
  then show ?thesis
    using frame_serve[OF False, of db ctx] object_tenant_same[of j "db_tables (serve ctx r db)" "db_tables db"]
      grants_on_same[of j "db_tables (serve ctx r db)" "db_tables db"]
    unfolding keeps_object_def keeps_sharing_def by blast
qed

lemma may_change_grants_same:
  "keeps_sharing j t t' \<Longrightarrow> object_tenant j t \<noteq> None \<Longrightarrow> may_change_grants ctx r j t' = may_change_grants ctx r j t"
  by (cases "cc_user_id ctx") (simp_all add: keeps_sharing_def may_change_grants_def relation_on_grants)

subsection \<open>An example\<close>

text \<open>A private dashboard with one panel, of user 5 and shown to user 6.\<close>

definition demo_panel :: panel_row where
  "demo_panel = \<lparr>pn_dashboard_id = 3, pn_panel_id = 4, pn_title = ''t'', pn_panel_kind = ''text'', pn_query_kind = None,
     pn_service = None, pn_preset = None, pn_filters = JArray [], pn_query_text = None, pn_content = Some ''c'',
     pn_layout = JObject [(''x'', JNumber (PosInt 0)), (''y'', JNumber (PosInt 0)), (''w'', JNumber (PosInt 6)),
       (''h'', JNumber (PosInt 4))],
     pn_time_range = JObject [(''mode'', JString ''global'')], pn_position = 0\<rparr>"

definition demo_content :: content where
  "demo_content = \<lparr>cn_roles = [], cn_dashboards =
       [\<lparr>dr_dashboard_id = 3, dr_tenant_id = 1, dr_name = ''d'', dr_visibility = ''private'', dr_created_at = 0\<rparr>],
     cn_panels = [demo_panel],
     cn_dashboard_grants = [\<lparr>gr_object = 3, gr_user_id = 5, gr_relation = ''owner'', gr_granted_at = 0\<rparr>,
       \<lparr>gr_object = 3, gr_user_id = 6, gr_relation = ''viewer'', gr_granted_at = 0\<rparr>],
     cn_views = [], cn_view_grants = []\<rparr>"

definition demo_service :: "content database" where
  "demo_service = \<lparr>db_tables = demo_content, db_steps = 0, db_clock = (\<lambda>_. 0), db_gen = (\<lambda>n. of_nat (n + 100)),
     db_fails = (\<lambda>_. None)\<rparr>"

definition demo_caller :: "uuid \<Rightarrow> uuid \<Rightarrow> caller_context" where
  "demo_caller tn u = \<lparr>cc_tenant_id = tn, cc_user_id = Some u, cc_role = ''member''\<rparr>"


text \<open>The viewer and a stranger cannot delete it; the owner publishes it, and its grants stay.\<close>

definition demo_publish :: content_request where
  "demo_publish = Update_dashboard 3 \<lparr>ud_name = ''d'', ud_panels = [], ud_visibility = Some ''public''\<rparr>"


end
