(* ===== verification/Content_Tables.thy ===== *)
theory Content_Tables
  imports Content_Claims
begin

section \<open>Well-formed dashboards and saved views\<close>

text \<open>
  What the validation and the constraints guarantee of every stored row, kept by every
  request. A stored panel passes the validation of a new one; that is what makes an
  exported dashboard importable.
\<close>

subsection \<open>Trimming\<close>

lemma ws_len_bound: "ws_len bs \<le> length bs"
  by (induction bs rule: ws_len.induct) auto

lemma ws_len_take: "ws_len (take n bs) \<noteq> 0 \<Longrightarrow> ws_len bs = ws_len (take n bs)"
proof -
  assume n: "ws_len (take n bs) \<noteq> 0"
  consider "n = 0" | "n = 1" | "n = 2" | k where "n = Suc (Suc (Suc k))"
    by (cases n; cases "n - 1"; cases "n - 2") auto
  then show ?thesis
  proof cases
    case 2
    then show ?thesis using n by (cases bs rule: ws_len.cases) (simp_all split: if_split_asm, (elim disjE; simp)+)
  next
    case 3
    then show ?thesis using n by (cases bs rule: ws_len.cases) (simp_all add: numeral_2_eq_2 split: if_split_asm, (elim disjE; simp)+)
  next
    case 4
    then show ?thesis using n by (cases bs rule: ws_len.cases) simp_all
  qed (use n in simp)
qed

lemma ws_len_rev_bound: "ws_len_rev bs \<le> length bs"
proof -
  have "ws_len (rev (take k bs)) \<le> length bs" for k
    using ws_len_bound[of "rev (take k bs)"] by simp
  then show ?thesis
    using ws_len_bound[of "take 1 bs"] by (auto simp: ws_len_rev_def) (metis dual_order.trans)+
qed

lemma drop_ws_ends:
  assumes "\<And>bs. w bs \<le> length bs" "length s \<le> n"
  shows "w (map byte (drop_ws w n s)) = 0"
  using assms(2)
proof (induction n arbitrary: s)
  case 0
  then show ?case using assms(1)[of "[]"] by simp
next
  case (Suc n)
  have "length (drop (w (map byte s)) s) \<le> n" if "w (map byte s) \<noteq> 0"
    using that Suc.prems by simp
  then show ?case using Suc.IH by (auto simp: Let_def)
qed

lemma drop_ws_suffix: "\<exists>k. drop_ws w n s = drop k s"
proof (induction w n s rule: drop_ws.induct)
  case (1 w s)
  then show ?case by (metis drop0 drop_ws.simps(1))
next
  case (2 w n s)
  show ?case
  proof (cases "w (map byte s) = 0")
    case True
    then show ?thesis by (metis drop0 drop_ws_stop)
  next
    case False
    then obtain k where "drop_ws w n (drop (w (map byte s)) s) = drop k (drop (w (map byte s)) s)"
      using 2 by auto
    then show ?thesis using False by (auto simp: Let_def)
  qed
qed

lemma trim_start_stop: "ws_len (map byte s) = 0 \<Longrightarrow> trim_start s = s"
  by (simp add: trim_start_def drop_ws_stop)

lemma trim_idem [simp]: "trim (trim s) = trim s"
proof -
  let ?a = "trim_start s"
  have a: "ws_len (map byte ?a) = 0"
    unfolding trim_start_def by (rule drop_ws_ends[where w = ws_len]) (simp_all add: ws_len_bound)
  obtain k where k: "drop_ws ws_len_rev (length ?a) (rev ?a) = drop k (rev ?a)"
    using drop_ws_suffix by blast
  have t: "trim s = take (length ?a - k) ?a"
    by (simp add: trim_def trim_end_def k rev_drop)
  have "ws_len (map byte (trim s)) = 0"
    using ws_len_take[of "length ?a - k" "map byte ?a"] a t by (auto simp: take_map)
  moreover have "ws_len_rev (map byte (rev (trim s))) = 0"
    unfolding trim_def trim_end_def rev_rev_ident
    by (rule drop_ws_ends[where w = ws_len_rev]) (simp_all add: ws_len_rev_bound)
  ultimately show ?thesis
    by (simp add: trim_def[of "trim s"] trim_start_stop trim_end_def drop_ws_stop)
qed

lemma non_blank_idem [simp]: "non_blank (non_blank s) = non_blank s"
  by (simp add: non_blank_def split: option.split)

lemma blank_non_blank: "blank s \<longleftrightarrow> non_blank s = None"
  by (simp add: blank_def non_blank_def split: option.split)

subsection \<open>Well-formed tables\<close>

definition panel_request_of :: "panel_row \<Rightarrow> panel_request" where
  "panel_request_of p = import_panel (export_panel_of p)"

definition panel_ok :: "panel_row \<Rightarrow> bool" where
  "panel_ok p \<longleftrightarrow> validate_panel True (panel_request_of p) = Inr () \<and>
     panel_row_of (pn_dashboard_id p) (pn_panel_id p) 0 (panel_request_of p) = p\<lparr>pn_position := 0\<rparr>"

definition grant_key :: "grant_row \<Rightarrow> uuid \<times> uuid" where
  "grant_key g = (gr_object g, gr_user_id g)"

definition content_ok :: "content \<Rightarrow> bool" where
  "content_ok t \<longleftrightarrow>
     distinct (map dr_dashboard_id (cn_dashboards t)) \<and> distinct (map sv_saved_view_id (cn_views t)) \<and>
     distinct (map pn_panel_id (cn_panels t)) \<and>
     (\<forall>d \<in> set (cn_dashboards t). dr_name d \<noteq> [] \<and> trim (dr_name d) = dr_name d \<and> dr_visibility d \<in> set visibilities) \<and>
     (\<forall>p \<in> set (cn_panels t). panel_ok p \<and> find_dashboard (pn_dashboard_id p) t \<noteq> None) \<and>
     (\<forall>v \<in> set (cn_views t). sv_name v \<noteq> [] \<and> trim (sv_name v) = sv_name v \<and> sv_visibility v \<in> set visibilities \<and>
        sv_signal_kind v \<in> set valid_signal_kinds \<and> is_object (sv_config v)) \<and>
     distinct (map grant_key (cn_dashboard_grants t)) \<and> distinct (map grant_key (cn_view_grants t)) \<and>
     (\<forall>g \<in> set (cn_dashboard_grants t). gr_relation g \<in> set relations \<and> find_dashboard (gr_object g) t \<noteq> None) \<and>
     (\<forall>g \<in> set (cn_view_grants t). gr_relation g \<in> set relations \<and> find_view (gr_object g) t \<noteq> None)"

text \<open>A panel that passed the validation is stored as a panel that passes it again.\<close>

lemma check_all_Inr: "check_all rs = Inr () \<longleftrightarrow> (\<forall>r \<in> set rs. r = Inr ())"
  by (induction rs) auto

lemma check_Inr [simp]: "check b m = Inr () \<longleftrightarrow> b"
  by (simp add: check_def)

text \<open>The default layout fits, as long as the row number is a number of 63 bits.\<close>

lemma small_word: "k < 2 ^ 63 \<Longrightarrow> unat (of_nat k :: 64 word) = k \<and> sint (of_nat k :: 64 word) = int k"
proof -
  assume k: "k < 2 ^ 63"
  then have u: "unat (of_nat k :: 64 word) = k" by (simp add: unsigned_of_nat take_bit_nat_eq_self)
  have "sint (of_nat k :: 64 word) = signed_take_bit 63 (int k)"
    by (simp add: signed_of_nat)
  also have "\<dots> = int k" using k by (intro signed_take_bit_int_eq_self) auto
  finally show ?thesis using u by simp
qed

lemma normalized_layout_valid:
  assumes "n \<le> 2 ^ 31"
  shows "validate_layout (normalized_layout None n) = Inr ()"
proof -
  have "n mod 2 * 6 < 2 ^ 63" "n div 2 * 4 < 2 ^ 63" using assms by auto
  note w = this[THEN small_word]
  have "n mod 2 * 6 \<le> 6" by auto
  then show ?thesis
    using w assms by (simp add: normalized_layout_def validate_layout_def get_i64_def jget_def as_i64_def del: of_nat_mult of_nat_numeral)
qed

lemma normalized_time_range_valid:
  "valid_preset (pq_preset p) \<Longrightarrow> (\<And>v. pq_time_range p = Some v \<Longrightarrow> validate_time_range v = Inr ()) \<Longrightarrow>
   validate_time_range (normalized_time_range p) = Inr ()"
  by (cases "pq_time_range p"; cases "pq_preset p")
     (simp_all add: normalized_time_range_def validate_time_range_def valid_preset_def get_str_def jget_def as_str_def)

lemma stored_panel_ok:
  assumes "validate_panel c p = Inr ()" "n \<le> 2 ^ 31"
  shows "panel_ok (panel_row_of i k n p)"
proof -
  have v: "trim (pq_title p) \<noteq> []" "panel_kind p \<in> set valid_panel_kinds"
    "panel_kind p = ''query'' \<longrightarrow> pq_query_kind p \<noteq> None" "panel_kind p = ''text'' \<longrightarrow> \<not> blank (pq_content p)"
    "case pq_query_kind p of None \<Rightarrow> True | Some k \<Rightarrow> k \<in> set valid_query_kinds"
    "\<And>l. pq_layout p = Some l \<Longrightarrow> validate_layout l = Inr ()"
    "\<And>v. pq_time_range p = Some v \<Longrightarrow> validate_time_range v = Inr ()"
    "valid_preset (pq_preset p)"
    using assms(1) by (auto simp: validate_panel_def check_all_Inr)
  have l: "validate_layout (normalized_layout (pq_layout p) n) = Inr ()"
    using v(6) normalized_layout_valid[OF assms(2)] by (cases "pq_layout p") (simp_all add: normalized_layout_def)
  show ?thesis
    using v l normalized_time_range_valid[OF v(8) v(7)]
    unfolding panel_ok_def validate_panel_def check_all_Inr
    by (simp add: panel_request_of_def import_panel_def export_panel_of_def panel_row_of_def panel_kind_def blank_non_blank
        normalized_layout_def normalized_time_range_def)
qed

text \<open>What a stored panel becomes when it is imported.\<close>

lemma panel_ok_copies:
  assumes "panel_ok p"
  shows "panel_row_of i k n (panel_request_of p) = p\<lparr>pn_dashboard_id := i, pn_panel_id := k, pn_position := of_nat n\<rparr>"
proof -
  have "panel_row_of (pn_dashboard_id p) (pn_panel_id p) 0 (panel_request_of p) = p\<lparr>pn_position := 0\<rparr>"
    using assms by (simp add: panel_ok_def)
  then show ?thesis
    by (cases p) (simp add: panel_row_of_def panel_request_of_def import_panel_def export_panel_of_def
        normalized_layout_def normalized_time_range_def)
qed


subsection \<open>Every request keeps the tables well formed\<close>

interpretation stored: table_relation content_ok "\<lambda>t t'. content_ok t \<longrightarrow> content_ok t'" 0
  by unfold_locales auto

lemma find_dashboard_mem: "find_dashboard i t \<noteq> None \<longleftrightarrow> i \<in> dr_dashboard_id ` set (cn_dashboards t)"
  by (auto simp: find_dashboard_def find_None_iff)

lemma find_view_mem: "find_view i t \<noteq> None \<longleftrightarrow> i \<in> sv_saved_view_id ` set (cn_views t)"
  by (auto simp: find_view_def find_None_iff)

lemma content_ok_alt:
  "content_ok t \<longleftrightarrow>
     distinct (map dr_dashboard_id (cn_dashboards t)) \<and> distinct (map sv_saved_view_id (cn_views t)) \<and>
     distinct (map pn_panel_id (cn_panels t)) \<and>
     (\<forall>d \<in> set (cn_dashboards t). dr_name d \<noteq> [] \<and> trim (dr_name d) = dr_name d \<and> dr_visibility d \<in> set visibilities) \<and>
     (\<forall>p \<in> set (cn_panels t). panel_ok p \<and> pn_dashboard_id p \<in> dr_dashboard_id ` set (cn_dashboards t)) \<and>
     (\<forall>v \<in> set (cn_views t). sv_name v \<noteq> [] \<and> trim (sv_name v) = sv_name v \<and> sv_visibility v \<in> set visibilities \<and>
        sv_signal_kind v \<in> set valid_signal_kinds \<and> is_object (sv_config v)) \<and>
     distinct (map grant_key (cn_dashboard_grants t)) \<and> distinct (map grant_key (cn_view_grants t)) \<and>
     (\<forall>g \<in> set (cn_dashboard_grants t). gr_relation g \<in> set relations \<and> gr_object g \<in> dr_dashboard_id ` set (cn_dashboards t)) \<and>
     (\<forall>g \<in> set (cn_view_grants t). gr_relation g \<in> set relations \<and> gr_object g \<in> sv_saved_view_id ` set (cn_views t))"
  unfolding content_ok_def find_dashboard_mem find_view_mem ..

lemma ok_insert_dashboard:
  "insert_dashboard tn n now new t = Inr (t', d) \<Longrightarrow> n \<noteq> [] \<Longrightarrow> trim n = n \<Longrightarrow> content_ok t \<Longrightarrow> content_ok t'"
  using find_dashboard_mem[of new t]
  by (auto simp: insert_dashboard_def content_ok_alt visibilities_def Let_def split: if_splits)

lemma ok_insert_view:
  "insert_view tn ow n k c now new t = Inr (t', v) \<Longrightarrow> n \<noteq> [] \<Longrightarrow> trim n = n \<Longrightarrow> is_object c \<Longrightarrow> content_ok t \<Longrightarrow> content_ok t'"
  using find_view_mem[of new t]
  by (auto simp: insert_view_def content_ok_alt visibilities_def Let_def split: if_splits)

lemma ok_insert_panel: "insert_panel p t = Inr (t', q) \<Longrightarrow> panel_ok p \<Longrightarrow> content_ok t \<Longrightarrow> content_ok t'"
  using find_dashboard_mem[of "pn_dashboard_id p" t]
  by (auto simp: insert_panel_def content_ok_alt split: if_splits)

lemma ok_clear_panels: "content_ok t \<Longrightarrow> content_ok (clear_panels i t)"
  by (auto simp: clear_panels_def content_ok_alt)

lemma image_key_delete:
  "x \<in> f ` set xs \<Longrightarrow> (\<And>y. p y \<Longrightarrow> f y \<noteq> x) \<Longrightarrow> x \<in> f ` set (delete_where p xs)"
  by auto

lemma ok_drop_dashboard: "content_ok t \<Longrightarrow> content_ok (fst (drop_dashboard i tn t))"
  by (auto simp: drop_dashboard_def clear_panels_def content_ok_alt Let_def intro!: image_key_delete)

lemma ok_drop_view: "content_ok t \<Longrightarrow> content_ok (fst (drop_view i tn t))"
  by (auto simp: drop_view_def content_ok_alt Let_def intro!: image_key_delete)

lemma ball_update_where: "(\<forall>x \<in> set (update_where p f xs). P x) \<longleftrightarrow> (\<forall>x \<in> set xs. P (if p x then f x else x))"
  by (auto simp: set_update_where)

lemma ok_set_dashboard:
  assumes "set_dashboard i tn n v t = Inr (t', d)" "n \<noteq> []" "trim n = n" "content_ok t"
  shows "content_ok t'"
proof -
  have "unwrap_or w v \<in> set visibilities" if "\<forall>u. v = Some u \<longrightarrow> u \<in> set visibilities" "w \<in> set visibilities" for w
    using that by (cases v) auto
  then show ?thesis
    using assms unfolding set_dashboard_def Let_def
    by (clarsimp split: option.splits if_splits) (simp add: content_ok_alt ball_update_where)
qed

lemma ok_set_view:
  assumes "set_view i tn n c v now t = Inr (t', d)" "n \<noteq> []" "trim n = n" "is_object c" "content_ok t"
  shows "content_ok t'"
proof -
  have "unwrap_or w v \<in> set visibilities" if "\<forall>u. v = Some u \<longrightarrow> u \<in> set visibilities" "w \<in> set visibilities" for w
    using that by (cases v) auto
  then show ?thesis
    using assms unfolding set_view_def Let_def
    by (clarsimp split: option.splits if_splits) (simp add: content_ok_alt ball_update_where)
qed

definition grants_ok :: "uuid set \<Rightarrow> grant_row list \<Rightarrow> bool" where
  "grants_ok ids gs \<longleftrightarrow> distinct (map grant_key gs) \<and> (\<forall>g \<in> set gs. gr_relation g \<in> set relations \<and> gr_object g \<in> ids)"

lemma grants_ok_upsert:
  "grants_ok ids gs \<Longrightarrow> rel \<in> set relations \<Longrightarrow> i \<in> ids \<Longrightarrow> grants_ok ids (upsert_grant i u rel now gs)"
  by (auto simp: grants_ok_def upsert_grant_def set_update_where grant_key_def grant_of_def)

lemma grants_ok_delete: "grants_ok ids gs \<Longrightarrow> grants_ok ids (delete_where p gs)"
  by (auto simp: grants_ok_def)

lemma ok_grants:
  "content_ok t \<Longrightarrow> content_ok (t\<lparr>cn_dashboard_grants := g\<rparr>) = grants_ok (dr_dashboard_id ` set (cn_dashboards t)) g"
  "content_ok t \<Longrightarrow> content_ok (t\<lparr>cn_view_grants := g\<rparr>) = grants_ok (sv_saved_view_id ` set (cn_views t)) g"
  "content_ok t \<Longrightarrow> grants_ok (dr_dashboard_id ` set (cn_dashboards t)) (cn_dashboard_grants t)"
  "content_ok t \<Longrightarrow> grants_ok (sv_saved_view_id ` set (cn_views t)) (cn_view_grants t)"
  by (auto simp: content_ok_alt grants_ok_def)

lemma ok_put_dashboard_grant:
  "put_grant dashboard_access i u rel now new t = Inr (t', x) \<Longrightarrow> content_ok t \<Longrightarrow> content_ok t'"
  using find_dashboard_mem[of i t]
  by (auto simp: put_grant_def ok_grants dashboard_access_def intro!: grants_ok_upsert split: if_splits)

lemma ok_put_view_grant:
  "put_grant view_access i u rel now new t = Inr (t', x) \<Longrightarrow> content_ok t \<Longrightarrow> content_ok t'"
  using find_view_mem[of i t]
  by (auto simp: put_grant_def ok_grants view_access_def intro!: grants_ok_upsert split: if_splits)

lemma ok_take_grant:
  "content_ok t \<Longrightarrow> content_ok (fst (take_grant dashboard_access b i u t))"
  "content_ok t \<Longrightarrow> content_ok (fst (take_grant view_access b i u t))"
  by (simp_all add: take_grant_def ok_grants grants_ok_delete)


lemma stored_checks:
  "stored.keeps (object_exists a i tenant)" "stored.keeps (require_relation a ctx i ok)" "stored.keeps (require_owner a ctx u i)"
  by (auto simp: object_exists_def require_relation_def require_owner_def fetch_relation_def server_error_def)

lemma stored_insert_panels:
  assumes "\<And>p. p \<in> set ps \<Longrightarrow> validate_panel c p = Inr ()" "n + length ps \<le> 2 ^ 31"
  shows "stored.keeps (insert_panels keep i n ps)"
  using assms
proof (induction ps arbitrary: n)
  case (Cons p ps)
  have "panel_ok (panel_row_of i k n p)" for k
    using Cons.prems by (intro stored_panel_ok[of c]) auto
  then have "stored.keeps (db_error (sql (\<lambda>_ new. insert_panel (panel_row_of i (if keep then unwrap_or new (pq_panel_id p) else new) n p))))"
    unfolding db_error_def by (intro stored.keeps_map_err stored.keeps_sql) (auto dest: ok_insert_panel)
  moreover have "stored.keeps (insert_panels keep i (Suc n) ps)"
    using Cons.prems by (intro Cons.IH) auto
  ultimately show ?case by auto
qed auto

lemma stored_lift:
  "(\<And>x. r = Inr x \<Longrightarrow> stored.keeps (m x)) \<Longrightarrow> stored.keeps (p_bind (p_lift r) m)"
  by (cases r) (auto simp: stored.keeps_fail)

lemma stored_create_dashboard:
  assumes "length (cd_panels req) \<le> 2 ^ 31"
  shows "stored.keeps (create_dashboard tn req creator)"
  unfolding create_dashboard_def db_error_def
proof (rule stored_lift)
  fix x
  assume "validate_create_request req = Inr x"
  then have v: "trim (cd_name req) \<noteq> []" "\<And>p. p \<in> set (cd_panels req) \<Longrightarrow> validate_panel True p = Inr ()"
    by (auto simp: validate_create_request_def check_all_Inr)
  have "stored.keeps (sql (insert_dashboard tn (trim (cd_name req))))"
    by (intro stored.keeps_sql) (auto dest!: ok_insert_dashboard simp: v)
  moreover have "stored.keeps (sql (put_grant dashboard_access i u ''owner''))" for i u
    by (intro stored.keeps_sql) (auto dest: ok_put_dashboard_grant)
  moreover have "stored.keeps (insert_panels False i 0 (cd_panels req))" for i
    by (rule stored_insert_panels[of _ True]) (use v assms in auto)
  ultimately show "stored.keeps (transaction Db_error
       (p_bind (p_map_err Db_error (sql (insert_dashboard tn (trim (cd_name req))))) (\<lambda>row.
        p_bind (case creator of
            None \<Rightarrow> p_return ()
          | Some user_id \<Rightarrow> p_map_err Db_error (sql (put_grant dashboard_access (dr_dashboard_id row) user_id ''owner''))) (\<lambda>_.
        p_bind (insert_panels False (dr_dashboard_id row) 0 (cd_panels req)) (\<lambda>panels.
        p_return (dashboard_item_of row panels))))))"
    by (intro stored.keeps_transaction stored.keeps_bind stored.keeps_map_err stored.keeps_option stored.keeps_return)
qed

lemma stored_update_dashboard:
  assumes "length (ud_panels req) \<le> 2 ^ 31"
  shows "stored.keeps (update_dashboard tn i req)"
  unfolding update_dashboard_def db_error_def
proof (rule stored_lift)
  fix x
  assume "validate_update_request req = Inr x"
  then have v: "trim (ud_name req) \<noteq> []" "\<And>p. p \<in> set (ud_panels req) \<Longrightarrow> validate_panel False p = Inr ()"
    by (auto simp: validate_update_request_def check_all_Inr)
  have "stored.keeps (sql (\<lambda>_ _. set_dashboard i tn (trim (ud_name req)) (ud_visibility req)))"
    by (intro stored.keeps_sql) (auto dest!: ok_set_dashboard simp: v)
  moreover have "stored.keeps (sql_update (\<lambda>_ t. (clear_panels k t, ())))" for k
    by (intro stored.keeps_update) (auto intro: ok_clear_panels)
  moreover have "stored.keeps (insert_panels True k 0 (ud_panels req))" for k
    by (rule stored_insert_panels[of _ False]) (use v assms in auto)
  ultimately show "stored.keeps (transaction Db_error
       (p_bind (p_map_err Db_error (sql (\<lambda>_ _. set_dashboard i tn (trim (ud_name req)) (ud_visibility req)))) (\<lambda>row.
        case row of
          None \<Rightarrow> p_return None
        | Some row \<Rightarrow>
            p_bind (p_map_err Db_error (sql_update (\<lambda>_ t. (clear_panels (dr_dashboard_id row) t, ())))) (\<lambda>_.
            p_bind (insert_panels True (dr_dashboard_id row) 0 (ud_panels req)) (\<lambda>panels.
            p_return (Some (dashboard_item_of row panels)))))))"
    by (intro stored.keeps_transaction stored.keeps_bind stored.keeps_map_err stored.keeps_option stored.keeps_return)
qed

lemma stored_create_view: "stored.keeps (create_saved_view tn req creator)"
  unfolding create_saved_view_def
proof (rule stored_lift)
  fix x
  assume "validate_create_view req = Inr x"
  then have v: "trim (cv_name req) \<noteq> []" "is_object (cv_config req)"
    by (auto simp: validate_create_view_def split: if_splits)
  have "stored.keeps (sql (insert_view tn creator (trim (cv_name req)) (cv_signal_kind req) (cv_config req)))"
    by (intro stored.keeps_sql) (auto dest!: ok_insert_view simp: v)
  moreover have "stored.keeps (sql (put_grant view_access i u ''owner''))" for i u
    by (intro stored.keeps_sql) (auto dest: ok_put_view_grant)
  ultimately show "stored.keeps (transaction View_db
       (p_bind (p_map_err View_db (sql (insert_view tn creator (trim (cv_name req)) (cv_signal_kind req) (cv_config req)))) (\<lambda>row.
        p_bind (case creator of
            None \<Rightarrow> p_return ()
          | Some user_id \<Rightarrow> p_map_err View_db (sql (put_grant view_access (sv_saved_view_id row) user_id ''owner''))) (\<lambda>_.
        p_return (saved_view_item_of row)))))"
    by (intro stored.keeps_transaction stored.keeps_bind stored.keeps_map_err stored.keeps_option stored.keeps_return)
qed

lemma stored_update_view: "stored.keeps (update_saved_view tn i req)"
  unfolding update_saved_view_def
proof (rule stored_lift)
  fix x
  assume "validate_update_view req = Inr x"
  then have v: "trim (uv_name req) \<noteq> []" "is_object (uv_config req)"
    by (auto simp: validate_update_view_def split: if_splits)
  have "stored.keeps (sql (\<lambda>now _. set_view i tn (trim (uv_name req)) (uv_config req) (uv_visibility req) now))"
    by (intro stored.keeps_sql) (auto dest!: ok_set_view simp: v)
  then show "stored.keeps (p_bind (p_map_err View_db (sql (\<lambda>now _. set_view i tn (trim (uv_name req)) (uv_config req) (uv_visibility req) now))) (\<lambda>row.
     p_return (map_option saved_view_item_of row)))"
    by (intro stored.keeps_bind stored.keeps_map_err stored.keeps_return)
qed

lemma stored_grants:
  "stored.keeps (add_grant dashboard_access ctx i req)" "stored.keeps (add_grant view_access ctx i req)"
  "stored.keeps (revoke_grant dashboard_access ctx i u)" "stored.keeps (revoke_grant view_access ctx i u)"
  unfolding add_grant_def revoke_grant_def fetch_relation_def server_error_def
  by (intro stored.keeps_bind stored.keeps_guard stored.keeps_lift stored_checks stored.keeps_map_err stored.keeps_select
      stored.keeps_sql stored.keeps_update stored.keeps_return;
      auto dest: ok_put_dashboard_grant ok_put_view_grant intro: ok_take_grant)+


text \<open>A request with no more panels than a row number can count.\<close>

fun countable_panels :: "content_request \<Rightarrow> bool" where
  "countable_panels (Create_dashboard req) \<longleftrightarrow> length (cd_panels req) \<le> 2 ^ 31"
| "countable_panels (Update_dashboard i req) \<longleftrightarrow> length (ud_panels req) \<le> 2 ^ 31"
| "countable_panels (Import_dashboard e) \<longleftrightarrow> length (de_panels e) \<le> 2 ^ 31"
| "countable_panels _ \<longleftrightarrow> True"

lemma stored_delete:
  "stored.keeps (handle_delete_dashboard ctx i)" "stored.keeps (handle_delete_saved_view ctx i)"
  unfolding handle_delete_dashboard_def handle_delete_saved_view_def delete_dashboard_def delete_saved_view_def server_error_def
  by (intro stored.keeps_bind stored_checks stored.keeps_map_err stored.keeps_update stored.keeps_return stored.keeps_guard;
      auto intro: ok_drop_dashboard ok_drop_view)+

lemma stored_serve:
  assumes "countable_panels r" "content_ok (db_tables db)"
  shows "content_ok (db_tables (serve ctx r db))"
proof (cases r)
  case (Create_dashboard req)
  then have "stored.keeps (handle_create_dashboard ctx req)"
    using assms(1) unfolding handle_create_dashboard_def
    by (intro stored.keeps_bind stored.keeps_map_err stored.keeps_return) (simp add: stored_create_dashboard)
  then show ?thesis using Create_dashboard assms(2) stored.keepsD[of "handle_create_dashboard ctx req" db] by simp
next
  case (Update_dashboard i req)
  then have "stored.keeps (handle_update_dashboard ctx i req)"
    using assms(1) unfolding handle_update_dashboard_def
    by (intro stored.keeps_bind stored.keeps_map_err stored.keeps_lift stored_checks) (simp add: stored_update_dashboard)
  then show ?thesis using Update_dashboard assms(2) stored.keepsD[of "handle_update_dashboard ctx i req" db] by simp
next
  case (Import_dashboard e)
  then have "stored.keeps (handle_import_dashboard ctx e)"
    using assms(1) unfolding handle_import_dashboard_def import_dashboard_def
    by (intro stored.keeps_bind stored.keeps_map_err stored.keeps_return stored.keeps_guard) (simp add: stored_create_dashboard)
  then show ?thesis using Import_dashboard assms(2) stored.keepsD[of "handle_import_dashboard ctx e" db] by simp
next
  case (Create_view req)
  have "stored.keeps (handle_create_saved_view ctx req)"
    unfolding handle_create_saved_view_def
    by (intro stored.keeps_bind stored.keeps_map_err stored.keeps_return stored_create_view)
  then show ?thesis using Create_view assms(2) stored.keepsD[of "handle_create_saved_view ctx req" db] by simp
next
  case (Update_view i req)
  have "stored.keeps (handle_update_saved_view ctx i req)"
    unfolding handle_update_saved_view_def
    by (intro stored.keeps_bind stored.keeps_map_err stored.keeps_lift stored_checks stored_update_view)
  then show ?thesis using Update_view assms(2) stored.keepsD[of "handle_update_saved_view ctx i req" db] by simp
qed (use assms(2) stored.keepsD[OF stored_delete(1)] stored.keepsD[OF stored_delete(2)] stored.keepsD[OF stored_grants(1)]
      stored.keepsD[OF stored_grants(2)] stored.keepsD[OF stored_grants(3)] stored.keepsD[OF stored_grants(4)]
      in \<open>simp_all add: handle_add_grant_def handle_revoke_grant_def handle_add_saved_view_grant_def handle_revoke_saved_view_grant_def\<close>)

lemma stored_requests:
  "\<forall>(ctx, r) \<in> set rs. countable_panels r \<Longrightarrow> content_ok (db_tables db) \<Longrightarrow> content_ok (db_tables (serve_requests rs db))"
  by (induction rs db rule: serve_requests.induct) (auto simp: stored_serve)

end
