(* ===== verification/Content_Exports.thy ===== *)
theory Content_Exports
  imports Content_Tables
begin

section \<open>Reading, export and import\<close>

subsection \<open>What a caller may read\<close>

fun visibility_on :: "object \<Rightarrow> content \<Rightarrow> string option" where
  "visibility_on (Dashboard i) t = map_option dr_visibility (find_dashboard i t)"
| "visibility_on (View i) t = map_option sv_visibility (find_view i t)"

text \<open>An object of the caller's tenant, public or shared with the caller unless it is a key.\<close>

definition may_read :: "caller_context \<Rightarrow> object \<Rightarrow> content \<Rightarrow> bool" where
  "may_read ctx j t \<longleftrightarrow>
     object_tenant j t = Some (cc_tenant_id ctx) \<and>
     (\<forall>u. cc_user_id ctx = Some u \<longrightarrow> visibility_on j t = Some ''public'' \<or> relation_on u j t \<noteq> None)"

text \<open>
  What is read of an object, field by field against the stored rows: a dashboard with its
  own panels, all of them, in their order, and a saved view.
\<close>

definition own_panels :: "uuid \<Rightarrow> content \<Rightarrow> panel_row list \<Rightarrow> bool" where
  "own_panels i t rows \<longleftrightarrow>
     set rows = {p \<in> set (cn_panels t). pn_dashboard_id p = i} \<and> distinct rows \<and> sorted (map (\<lambda>p. sint (pn_position p)) rows)"

definition shows_panel :: "panel_row \<Rightarrow> panel_item \<Rightarrow> bool" where
  "shows_panel p q \<longleftrightarrow>
     pi_panel_id q = pn_panel_id p \<and> pi_title q = pn_title p \<and> pi_panel_kind q = pn_panel_kind p \<and>
     pi_query_kind q = pn_query_kind p \<and> pi_service q = pn_service p \<and> pi_preset q = pn_preset p \<and>
     pi_filters q = pn_filters p \<and> pi_query_text q = pn_query_text p \<and> pi_content q = pn_content p \<and>
     pi_layout q = pn_layout p \<and> pi_time_range q = pn_time_range p"

definition shows_dashboard :: "uuid \<Rightarrow> content \<Rightarrow> dashboard_item \<Rightarrow> bool" where
  "shows_dashboard i t item \<longleftrightarrow> di_dashboard_id item = i \<and>
     (\<exists>d rows. find_dashboard i t = Some d \<and> di_name item = dr_name d \<and> di_visibility item = dr_visibility d \<and>
        di_created_at item = dr_created_at d \<and> own_panels i t rows \<and> list_all2 shows_panel rows (di_panels item))"

definition shows_view :: "uuid \<Rightarrow> content \<Rightarrow> saved_view_item \<Rightarrow> bool" where
  "shows_view i t item \<longleftrightarrow> si_saved_view_id item = i \<and>
     (\<exists>v. find_view i t = Some v \<and> si_name item = sv_name v \<and> si_signal_kind item = sv_signal_kind v \<and>
        si_visibility item = sv_visibility v \<and> si_config item = sv_config v \<and> si_created_at item = sv_created_at v \<and>
        si_updated_at item = sv_updated_at v)"

definition exports_panel :: "panel_row \<Rightarrow> export_panel \<Rightarrow> bool" where
  "exports_panel p e \<longleftrightarrow>
     ep_title e = pn_title p \<and> ep_panel_kind e = Some (pn_panel_kind p) \<and> ep_query_kind e = pn_query_kind p \<and>
     ep_service e = pn_service p \<and> ep_preset e = pn_preset p \<and> ep_filters e = pn_filters p \<and>
     ep_query_text e = pn_query_text p \<and> ep_content e = pn_content p \<and> ep_layout e = Some (pn_layout p) \<and>
     ep_time_range e = Some (pn_time_range p)"

definition exports_dashboard :: "uuid \<Rightarrow> content \<Rightarrow> dashboard_export \<Rightarrow> bool" where
  "exports_dashboard i t e \<longleftrightarrow>
     (\<exists>d rows. find_dashboard i t = Some d \<and> de_name e = dr_name d \<and> own_panels i t rows \<and>
        list_all2 exports_panel rows (de_panels e))"

lemma own_panels_of: "content_ok t \<Longrightarrow> own_panels i t (panels_of i t)"
  by (auto simp: own_panels_def panels_of_def content_ok_def distinct_map)

lemma own_panels_of_any:
  assumes "content_ok t" "i \<in> set ids"
  shows "own_panels i t (filter (\<lambda>p. pn_dashboard_id p = i) (panels_of_any ids t))"
proof -
  let ?pos = "\<lambda>p. sint (pn_position p)"
  have "filter (\<lambda>p. pn_dashboard_id p = i) (panels_of_any ids t) =
      filter (\<lambda>p. pn_dashboard_id p = i) (sort_key ?pos (filter (\<lambda>p. pn_dashboard_id p \<in> set ids) (cn_panels t)))"
    unfolding panels_of_any_def by (rule sort_key_stable)
  also have "\<dots> = panels_of i t"
    using assms(2) unfolding panels_of_def filter_sort filter_filter by (metis (mono_tags, lifting))
  finally show ?thesis using own_panels_of[OF assms(1)] by simp
qed

lemma shown_panels: "list_all2 shows_panel rows (map row_to_panel_item rows)"
  by (simp add: list_all2_map2 list_all2_same shows_panel_def row_to_panel_item_def)

lemma exported_panels: "list_all2 exports_panel rows (map export_panel_of rows)"
  by (simp add: list_all2_map2 list_all2_same exports_panel_def export_panel_of_def)

lemma shows_item:
  "find_dashboard i t = Some d \<Longrightarrow> dr_dashboard_id d = i \<Longrightarrow> own_panels i t rows \<Longrightarrow>
   shows_dashboard i t (dashboard_item_of d (map row_to_panel_item rows))"
  unfolding shows_dashboard_def dashboard_item_of_def using shown_panels by auto

lemma shows_view_item: "find_view i t = Some v \<Longrightarrow> sv_saved_view_id v = i \<Longrightarrow> shows_view i t (saved_view_item_of v)"
  by (simp add: shows_view_def saved_view_item_of_def)

lemma dashboard_in_find:
  assumes "content_ok t" "dashboard_in i tn t = Some d"
  shows "find_dashboard i t = Some d \<and> dr_tenant_id d = tn \<and> dr_dashboard_id d = i"
proof -
  have d: "d \<in> set (cn_dashboards t)" "dr_dashboard_id d = i" "dr_tenant_id d = tn"
    using assms(2) find_Some_set by (fastforce simp: dashboard_in_def)+
  moreover have "distinct (map dr_dashboard_id (cn_dashboards t))"
    using assms(1) by (simp add: content_ok_def)
  ultimately show ?thesis using find_unique[of dr_dashboard_id "cn_dashboards t" d] by (simp add: find_dashboard_def)
qed

lemma view_in_find:
  assumes "content_ok t" "view_in i tn t = Some v"
  shows "find_view i t = Some v \<and> sv_tenant_id v = tn \<and> sv_saved_view_id v = i"
proof -
  have v: "v \<in> set (cn_views t)" "sv_saved_view_id v = i" "sv_tenant_id v = tn"
    using assms(2) find_Some_set by (fastforce simp: view_in_def)+
  moreover have "distinct (map sv_saved_view_id (cn_views t))"
    using assms(1) by (simp add: content_ok_def)
  ultimately show ?thesis using find_unique[of sv_saved_view_id "cn_views t" v] by (simp add: find_view_def)
qed

lemma require_relation_Inr:
  "require_relation a ctx i ok db = (db', Inr x) \<Longrightarrow>
   db_tables db' = db_tables db \<and> (\<forall>u. cc_user_id ctx = Some u \<longrightarrow> ok (relation_in u i (oa_grants a (db_tables db))))"
  by (auto simp: require_relation_def fetch_relation_def server_error_def program_Inr split: option.splits)

lemma read_allowed:
  "grant_satisfies_read v r \<Longrightarrow> v = ''public'' \<or> r \<noteq> None"
  by (auto simp: grant_satisfies_read_def)

lemma get_dashboard_readable:
  assumes "handle_get_dashboard ctx i db = (db', Inr item)" "content_ok (db_tables db)"
  shows "may_read ctx (Dashboard i) (db_tables db) \<and> shows_dashboard i (db_tables db) item"
proof -
  obtain d db1 where d: "dashboard_in i (cc_tenant_id ctx) (db_tables db) = Some d"
      "item = dashboard_item_of d (map row_to_panel_item (panels_of (dr_dashboard_id d) (db_tables db)))"
    and r: "require_relation dashboard_access ctx i (grant_satisfies_read (di_visibility item)) db1 = (db', Inr ())"
    and t: "db_tables db1 = db_tables db"
    using assms(1)
    by (auto simp: handle_get_dashboard_def get_dashboard_def server_error_def program_Inr split: option.splits)
  have f: "find_dashboard i (db_tables db) = Some d" "dr_tenant_id d = cc_tenant_id ctx" "dr_dashboard_id d = i"
    using dashboard_in_find[OF assms(2) d(1)] by simp_all
  have "may_read ctx (Dashboard i) (db_tables db)"
    using f d(2) t require_relation_Inr[OF r] read_allowed
    by (auto simp: may_read_def object_tenant_def relation_on_def dashboard_access_def dashboard_item_of_def)
  moreover have "shows_dashboard i (db_tables db) item"
    using shows_item[OF f(1,3) own_panels_of[OF assms(2)]] d(2) f(3) by simp
  ultimately show ?thesis by simp
qed

lemma get_view_readable:
  assumes "handle_get_saved_view ctx i db = (db', Inr item)" "content_ok (db_tables db)"
  shows "may_read ctx (View i) (db_tables db) \<and> shows_view i (db_tables db) item"
proof -
  obtain v db1 where v: "view_in i (cc_tenant_id ctx) (db_tables db) = Some v" "item = saved_view_item_of v"
    and r: "require_relation view_access ctx i (grant_satisfies_read (si_visibility item)) db1 = (db', Inr ())"
    and t: "db_tables db1 = db_tables db"
    using assms(1)
    by (auto simp: handle_get_saved_view_def get_saved_view_def server_error_def program_Inr split: option.splits)
  have f: "find_view i (db_tables db) = Some v" "sv_tenant_id v = cc_tenant_id ctx" "sv_saved_view_id v = i"
    using view_in_find[OF assms(2) v(1)] by simp_all
  have "may_read ctx (View i) (db_tables db)"
    using f v(2) t require_relation_Inr[OF r] read_allowed
    by (auto simp: may_read_def object_tenant_def relation_on_def view_access_def saved_view_item_of_def)
  then show ?thesis using shows_view_item[OF f(1,3)] v(2) by simp
qed

text \<open>A list shows every object the caller may read, and no other.\<close>

lemma relation_in_granted: "relation_in u i gs \<noteq> None \<longleftrightarrow> (\<exists>g \<in> set gs. grant_of u i g)"
  by (auto simp: relation_in_def find_None_iff)

lemma dashboard_row:
  assumes "content_ok t"
  shows "d \<in> set (cn_dashboards t) \<longleftrightarrow> find_dashboard (dr_dashboard_id d) t = Some d"
proof
  have "distinct (map dr_dashboard_id (cn_dashboards t))" using assms by (simp add: content_ok_def)
  then show "d \<in> set (cn_dashboards t) \<Longrightarrow> find_dashboard (dr_dashboard_id d) t = Some d"
    using find_unique[of dr_dashboard_id _ d] by (simp add: find_dashboard_def)
qed (auto simp: find_dashboard_def dest: find_Some_set)

lemma view_row:
  assumes "content_ok t"
  shows "v \<in> set (cn_views t) \<longleftrightarrow> find_view (sv_saved_view_id v) t = Some v"
proof
  have "distinct (map sv_saved_view_id (cn_views t))" using assms by (simp add: content_ok_def)
  then show "v \<in> set (cn_views t) \<Longrightarrow> find_view (sv_saved_view_id v) t = Some v"
    using find_unique[of sv_saved_view_id _ v] by (simp add: find_view_def)
qed (auto simp: find_view_def dest: find_Some_set)

lemma listed_dashboard:
  assumes "content_ok t" "find_dashboard i t = Some d"
  shows "d \<in> set (dashboards_of (cc_tenant_id ctx) (cc_user_id ctx) t) \<longleftrightarrow> may_read ctx (Dashboard i) t"
proof -
  have "dr_dashboard_id d = i" using assms(2) by (auto simp: find_dashboard_def dest: find_Some_set)
  then show ?thesis
    using assms dashboard_row[OF assms(1), of d]
    by (auto simp: dashboards_of_def may_read_def object_tenant_def relation_on_def dashboard_access_def visible_to_def
        relation_in_granted[symmetric] split: option.splits)
qed

lemma listed_view:
  assumes "content_ok t" "find_view i t = Some v"
  shows "v \<in> set (views_of (cc_tenant_id ctx) (cc_user_id ctx) kind t) \<longleftrightarrow> may_read ctx (View i) t \<and> sv_signal_kind v = kind"
proof -
  have "sv_saved_view_id v = i" using assms(2) by (auto simp: find_view_def dest: find_Some_set)
  then show ?thesis
    using assms view_row[OF assms(1), of v]
    by (auto simp: views_of_def may_read_def object_tenant_def relation_on_def view_access_def view_visible_to_def
        relation_in_granted[symmetric] split: option.splits)
qed

lemma may_read_exists:
  "may_read ctx (Dashboard i) t \<Longrightarrow> \<exists>d. find_dashboard i t = Some d"
  "may_read ctx (View i) t \<Longrightarrow> \<exists>v. find_view i t = Some v"
  by (auto simp: may_read_def object_tenant_def dashboard_access_def view_access_def)

text \<open>The rows of a list by their keys.\<close>

lemma rows_by_key:
  assumes "distinct (map k xs)" "\<And>x. x \<in> set xs \<Longrightarrow> key (f x) = k x"
  shows "distinct (map key (map f xs))"
proof -
  have "map key (map f xs) = map k xs" using assms(2) by simp
  then show ?thesis using assms(1) by (simp only:)
qed

lemma distinct_rows:
  "content_ok t \<Longrightarrow> distinct (map dr_dashboard_id (dashboards_of tn u t))"
  "content_ok t \<Longrightarrow> distinct (map sv_saved_view_id (views_of tn u kind t))"
  by (auto simp: dashboards_of_def views_of_def content_ok_def distinct_map intro: inj_on_subset)

lemma list_dashboards_Inr:
  assumes "handle_list_dashboards ctx db = (db', Inr items)"
    and "rows = dashboards_of (cc_tenant_id ctx) (cc_user_id ctx) (db_tables db)"
  shows "items = map (\<lambda>d. dashboard_item_of d (map row_to_panel_item
     (filter (\<lambda>p. pn_dashboard_id p = dr_dashboard_id d) (panels_of_any (map dr_dashboard_id rows) (db_tables db))))) rows"
  using assms
  by (auto simp: handle_list_dashboards_def list_dashboards_def server_error_def program_Inr split: if_splits)

lemma list_views_Inr:
  assumes "handle_list_saved_views ctx kind db = (db', Inr items)"
  shows "items = map saved_view_item_of (views_of (cc_tenant_id ctx) (cc_user_id ctx) kind (db_tables db))"
  using assms by (auto simp: handle_list_saved_views_def list_saved_views_def server_error_def program_Inr)

lemma listed_dashboards_readable:
  assumes "handle_list_dashboards ctx db = (db', Inr items)" "content_ok (db_tables db)"
  shows "distinct (map di_dashboard_id items) \<and>
    di_dashboard_id ` set items = {i. may_read ctx (Dashboard i) (db_tables db)} \<and>
    (\<forall>item \<in> set items. shows_dashboard (di_dashboard_id item) (db_tables db) item)"
proof -
  let ?t = "db_tables db"
  define rows where "rows = dashboards_of (cc_tenant_id ctx) (cc_user_id ctx) ?t"
  let ?item = "\<lambda>d. dashboard_item_of d (map row_to_panel_item
     (filter (\<lambda>p. pn_dashboard_id p = dr_dashboard_id d) (panels_of_any (map dr_dashboard_id rows) ?t)))"
  have items: "items = map ?item rows"
    using list_dashboards_Inr[OF assms(1) rows_def] .
  have found: "find_dashboard (dr_dashboard_id d) ?t = Some d" if "d \<in> set rows" for d
    using that dashboard_row[OF assms(2), of d] by (auto simp: rows_def dashboards_of_def)
  have key: "di_dashboard_id (?item d) = dr_dashboard_id d" for d by (simp add: dashboard_item_of_def)
  have ids: "di_dashboard_id ` set items = dr_dashboard_id ` set rows"
    unfolding items set_map image_image key ..
  have "distinct (map di_dashboard_id items)"
    unfolding items rows_def by (rule rows_by_key, rule distinct_rows(1)[OF assms(2)], rule key[unfolded rows_def])
  moreover have "i \<in> di_dashboard_id ` set items \<longleftrightarrow> may_read ctx (Dashboard i) ?t" for i
  proof
    assume "i \<in> di_dashboard_id ` set items"
    then obtain d where d: "d \<in> set rows" "i = dr_dashboard_id d" unfolding ids by blast
    then show "may_read ctx (Dashboard i) ?t"
      using listed_dashboard[OF assms(2) found[OF d(1)], of ctx] by (simp add: rows_def)
  next
    assume r: "may_read ctx (Dashboard i) ?t"
    then obtain d where d: "find_dashboard i ?t = Some d" using may_read_exists(1) by blast
    then have "d \<in> set rows" using listed_dashboard[OF assms(2) d] r by (simp add: rows_def)
    moreover have "dr_dashboard_id d = i" using d by (auto simp: find_dashboard_def dest: find_Some_set)
    ultimately show "i \<in> di_dashboard_id ` set items" unfolding ids by blast
  qed
  moreover have "shows_dashboard (di_dashboard_id item) ?t item" if item: "item \<in> set items" for item
  proof -
    obtain d where d: "d \<in> set rows" "item = ?item d" using item unfolding items by auto
    have "own_panels (dr_dashboard_id d) ?t (filter (\<lambda>p. pn_dashboard_id p = dr_dashboard_id d) (panels_of_any (map dr_dashboard_id rows) ?t))"
      using d(1) by (intro own_panels_of_any[OF assms(2)]) auto
    then show ?thesis
      unfolding d(2) key by (rule shows_item[OF found[OF d(1)] HOL.refl])
  qed
  ultimately show ?thesis by blast
qed

lemma listed_views_readable:
  assumes "handle_list_saved_views ctx kind db = (db', Inr items)" "content_ok (db_tables db)"
  shows "distinct (map si_saved_view_id items) \<and>
    si_saved_view_id ` set items =
      {i. may_read ctx (View i) (db_tables db) \<and> map_option sv_signal_kind (find_view i (db_tables db)) = Some kind} \<and>
    (\<forall>item \<in> set items. shows_view (si_saved_view_id item) (db_tables db) item)"
proof -
  let ?t = "db_tables db"
  define rows where "rows = views_of (cc_tenant_id ctx) (cc_user_id ctx) kind ?t"
  have items: "items = map saved_view_item_of rows"
    using list_views_Inr[OF assms(1)] by (simp add: rows_def)
  have found: "find_view (sv_saved_view_id v) ?t = Some v" if "v \<in> set rows" for v
    using that view_row[OF assms(2), of v] by (auto simp: rows_def views_of_def)
  have key: "si_saved_view_id (saved_view_item_of v) = sv_saved_view_id v" for v by (simp add: saved_view_item_of_def)
  have ids: "si_saved_view_id ` set items = sv_saved_view_id ` set rows"
    unfolding items set_map image_image key ..
  have "distinct (map si_saved_view_id items)"
    unfolding items rows_def by (rule rows_by_key, rule distinct_rows(2)[OF assms(2)], rule key)
  moreover have "i \<in> si_saved_view_id ` set items \<longleftrightarrow>
      may_read ctx (View i) ?t \<and> map_option sv_signal_kind (find_view i ?t) = Some kind" for i
  proof
    assume "i \<in> si_saved_view_id ` set items"
    then obtain v where v: "v \<in> set rows" "i = sv_saved_view_id v" unfolding ids by blast
    then show "may_read ctx (View i) ?t \<and> map_option sv_signal_kind (find_view i ?t) = Some kind"
      using listed_view[OF assms(2) found[OF v(1)], of ctx kind] found[OF v(1)] by (simp add: rows_def)
  next
    assume r: "may_read ctx (View i) ?t \<and> map_option sv_signal_kind (find_view i ?t) = Some kind"
    then obtain v where v: "find_view i ?t = Some v" "sv_signal_kind v = kind" by auto
    then have "v \<in> set rows" using listed_view[OF assms(2) v(1)] r by (simp add: rows_def)
    moreover have "sv_saved_view_id v = i" using v(1) by (auto simp: find_view_def dest: find_Some_set)
    ultimately show "i \<in> si_saved_view_id ` set items" unfolding ids by blast
  qed
  moreover have "shows_view (si_saved_view_id item) ?t item" if item: "item \<in> set items" for item
  proof -
    obtain v where v: "v \<in> set rows" "item = saved_view_item_of v" using item unfolding items by auto
    show ?thesis unfolding v(2) key by (rule shows_view_item[OF found[OF v(1)] HOL.refl])
  qed
  ultimately show ?thesis by blast
qed

subsection \<open>Export and import\<close>

lemma export_Inr:
  assumes "handle_get_dashboard_export ctx i db = (db', Inr e)"
  shows "\<exists>d. dashboard_in i (cc_tenant_id ctx) (db_tables db) = Some d \<and>
     e = \<lparr>de_schema_version = export_schema_version, de_name = dr_name d,
          de_panels = map export_panel_of (panels_of (dr_dashboard_id d) (db_tables db))\<rparr>"
  using assms
  by (auto simp: handle_get_dashboard_export_def export_dashboard_def server_error_def program_Inr split: option.splits)

fun stored_rows :: "uuid \<Rightarrow> nat \<Rightarrow> uuid list \<Rightarrow> panel_request list \<Rightarrow> panel_row list" where
  "stored_rows i n (k # ks) (p # ps) = panel_row_of i k n p # stored_rows i (Suc n) ks ps"
| "stored_rows i n _ _ = []"

lemma insert_panel_Inr: "insert_panel p t = Inr (t', q) \<Longrightarrow> q = p \<and> t' = t\<lparr>cn_panels := cn_panels t @ [p]\<rparr>"
  by (auto simp: insert_panel_def split: if_splits)

lemma insert_panels_Inr:
  "insert_panels keep i n ps db = (db', Inr items) \<Longrightarrow>
   \<exists>ks. length ks = length ps \<and> items = map row_to_panel_item (stored_rows i n ks ps) \<and>
     db_tables db' = (db_tables db)\<lparr>cn_panels := cn_panels (db_tables db) @ stored_rows i n ks ps\<rparr>"
proof (induction ps arbitrary: n db items)
  case (Cons p ps)
  obtain db1 row items' where 0: "db_error (sql (\<lambda>_ new. insert_panel (panel_row_of i
        (if keep then unwrap_or new (pq_panel_id p) else new) n p))) db = (db1, Inr row)"
      "items = row_to_panel_item row # items'" "insert_panels keep i (Suc n) ps db1 = (db', Inr items')"
    using Cons.prems by (auto simp: p_bind_Inr)
  then obtain k where 1: "row = panel_row_of i k n p" "items = row_to_panel_item row # items'"
      "db_tables db1 = (db_tables db)\<lparr>cn_panels := cn_panels (db_tables db) @ [row]\<rparr>"
      "insert_panels keep i (Suc n) ps db1 = (db', Inr items')"
    by (auto simp: db_error_def p_map_err_Inr sql_Inr dest!: insert_panel_Inr)
  obtain ks where "length ks = length ps" "items' = map row_to_panel_item (stored_rows i (Suc n) ks ps)"
      "db_tables db' = (db_tables db1)\<lparr>cn_panels := cn_panels (db_tables db1) @ stored_rows i (Suc n) ks ps\<rparr>"
    using Cons.IH[OF 1(4)] by blast
  then show ?case using 1 by (intro exI[of _ "k # ks"]) simp
qed simp

lemma stored_rows_dashboard: "p \<in> set (stored_rows i n ks ps) \<Longrightarrow> pn_dashboard_id p = i"
  by (induction i n ks ps rule: stored_rows.induct) (auto simp: panel_row_of_def)

lemma position_sint: "n < 2 ^ 31 \<Longrightarrow> sint (of_nat n :: 32 word) = int n"
proof -
  assume n: "n < 2 ^ 31"
  have "sint (of_nat n :: 32 word) = signed_take_bit 31 (int n)" by (simp add: signed_of_nat)
  also have "\<dots> = int n" using n by (intro signed_take_bit_int_eq_self) auto
  finally show ?thesis .
qed

lemma stored_rows_ordered:
  "n + length ps \<le> 2 ^ 31 \<Longrightarrow> sorted (map (\<lambda>p. sint (pn_position p)) (stored_rows i n ks ps)) \<and>
   (\<forall>p \<in> set (stored_rows i n ks ps). int n \<le> sint (pn_position p))"
proof (induction i n ks ps rule: stored_rows.induct)
  case (1 i n k ks p ps)
  then have "sorted (map (\<lambda>p. sint (pn_position p)) (stored_rows i (Suc n) ks ps)) \<and>
      (\<forall>p \<in> set (stored_rows i (Suc n) ks ps). int (Suc n) \<le> sint (pn_position p))" by simp
  moreover have "sint (pn_position (panel_row_of i k n p)) = int n"
    using 1(2) position_sint[of n] by (simp add: panel_row_of_def)
  ultimately show ?case by auto
qed simp_all

lemma export_stored_rows:
  "\<forall>p \<in> set rows. panel_ok p \<Longrightarrow> length ks = length rows \<Longrightarrow>
   map export_panel_of (stored_rows i n ks (map panel_request_of rows)) = map export_panel_of rows"
proof (induction rows arbitrary: n ks)
  case (Cons p rows)
  then obtain k ks' where "ks = k # ks'" by (cases ks) auto
  moreover have "export_panel_of (panel_row_of i k n (panel_request_of p)) = export_panel_of p"
    using Cons.prems(1) panel_ok_copies[of p i k n] by (simp add: export_panel_of_def)
  ultimately show ?case using Cons by simp
qed simp

lemma panels_of_stored:
  assumes "\<forall>p \<in> set old. pn_dashboard_id p \<noteq> i" "length ps \<le> 2 ^ 31" "cn_panels t = old @ stored_rows i 0 ks ps"
  shows "panels_of i t = stored_rows i 0 ks ps"
proof -
  have "filter (\<lambda>p. pn_dashboard_id p = i) (cn_panels t) = stored_rows i 0 ks ps"
    using assms(1,3) stored_rows_dashboard by (auto simp: filter_empty_conv intro: filter_True)
  then show ?thesis
    using stored_rows_ordered[of 0 ps i ks] assms(2) by (simp add: panels_of_def sort_key_id_if_sorted)
qed


text \<open>The parts of a creation that succeeded.\<close>

lemma create_dashboard_Inr:
  assumes "create_dashboard tn req creator db = (db', Inr item)"
  shows "\<exists>i now ks g. find_dashboard i (db_tables db) = None \<and> length ks = length (cd_panels req) \<and>
     item = dashboard_item_of \<lparr>dr_dashboard_id = i, dr_tenant_id = tn, dr_name = trim (cd_name req),
         dr_visibility = ''public'', dr_created_at = now\<rparr> (map row_to_panel_item (stored_rows i 0 ks (cd_panels req))) \<and>
     cn_dashboards (db_tables db') = cn_dashboards (db_tables db) @
       [\<lparr>dr_dashboard_id = i, dr_tenant_id = tn, dr_name = trim (cd_name req), dr_visibility = ''public'', dr_created_at = now\<rparr>] \<and>
     cn_panels (db_tables db') = cn_panels (db_tables db) @ stored_rows i 0 ks (cd_panels req)"
proof -
  obtain db1 row db2 db3 panels u where 1:
      "db_error (sql (insert_dashboard tn (trim (cd_name req)))) (tick db) = (db1, Inr row)"
      "(case creator of None \<Rightarrow> p_return ()
        | Some user_id \<Rightarrow> db_error (sql (put_grant dashboard_access (dr_dashboard_id row) user_id ''owner''))) db1 = (db2, Inr u)"
      "insert_panels False (dr_dashboard_id row) 0 (cd_panels req) db2 = (db3, Inr panels)"
      "item = dashboard_item_of row panels" "db' = tick db3"
    using assms by (auto simp: create_dashboard_def transaction_Inr p_bind_Inr)
  obtain now where row: "row = \<lparr>dr_dashboard_id = dr_dashboard_id row, dr_tenant_id = tn, dr_name = trim (cd_name req),
       dr_visibility = ''public'', dr_created_at = now\<rparr>"
      "find_dashboard (dr_dashboard_id row) (db_tables db) = None"
      "db_tables db1 = (db_tables db)\<lparr>cn_dashboards := cn_dashboards (db_tables db) @ [row]\<rparr>"
    using 1(1) by (auto simp: db_error_def p_map_err_Inr sql_Inr insert_dashboard_def Let_def split: if_splits)
  have t2: "cn_dashboards (db_tables db2) = cn_dashboards (db_tables db1)" "cn_panels (db_tables db2) = cn_panels (db_tables db1)"
    using 1(2) by (auto simp: db_error_def p_map_err_Inr sql_Inr put_grant_def split: option.splits if_splits)
  obtain ks where ks: "length ks = length (cd_panels req)"
      "panels = map row_to_panel_item (stored_rows (dr_dashboard_id row) 0 ks (cd_panels req))"
      "db_tables db3 = (db_tables db2)\<lparr>cn_panels := cn_panels (db_tables db2) @ stored_rows (dr_dashboard_id row) 0 ks (cd_panels req)\<rparr>"
    using insert_panels_Inr[OF 1(3)] by blast
  show ?thesis
    using row ks t2 1(4,5) by (intro exI[of _ "dr_dashboard_id row"] exI[of _ now] exI[of _ ks]) simp
qed

definition import_request :: "dashboard_export \<Rightarrow> create_dashboard_request" where
  "import_request e = \<lparr>cd_name = de_name e, cd_panels = map import_panel (de_panels e)\<rparr>"

lemma import_Inr:
  assumes "handle_import_dashboard ctx e db = (db', Inr (st, item))"
  shows "create_dashboard (cc_tenant_id ctx) (import_request e) (cc_user_id ctx) db = (db', Inr item) \<and> st = Created"
  using assms by (auto simp: handle_import_dashboard_def import_dashboard_def import_request_def program_Inr)

text \<open>An exported dashboard passes the validation of the import.\<close>

lemma exported_valid:
  assumes "content_ok t" "dashboard_in i tn t = Some d" "panels_of i t \<noteq> []"
    "e = \<lparr>de_schema_version = export_schema_version, de_name = dr_name d, de_panels = map export_panel_of (panels_of i t)\<rparr>"
  shows "validate_create_request (import_request e) = Inr () \<and> trim (de_name e) = de_name e \<and>
    (\<forall>p \<in> set (panels_of i t). panel_ok p)"
proof -
  have "d \<in> set (cn_dashboards t)" using assms(2) by (simp add: dashboard_in_def find_Some_set)
  then have n: "dr_name d \<noteq> []" "trim (dr_name d) = dr_name d" using assms(1) by (auto simp: content_ok_def)
  have p: "\<forall>p \<in> set (panels_of i t). panel_ok p" using assms(1) by (auto simp: content_ok_def panels_of_def)
  then have "validate_create_request (import_request e) = Inr ()"
    using n assms(3,4)
    by (auto simp: validate_create_request_def check_all_Inr import_request_def panel_ok_def panel_request_of_def)
  then show ?thesis using n p assms(4) by simp
qed


text \<open>After the validation only the database can fail.\<close>

definition only_database :: "(content, dashboard_error, 'a) program \<Rightarrow> bool" where
  "only_database m \<longleftrightarrow> (\<forall>db db' e. m db = (db', Inl e) \<longrightarrow> (\<exists>x. e = Db_error x))"

lemma only_database_bind:
  "only_database m \<Longrightarrow> (\<And>x. only_database (f x)) \<Longrightarrow> only_database (p_bind m f)"
  by (auto simp: only_database_def p_bind_def split: prod.splits sum.splits)

lemma only_database_steps:
  "only_database (p_return x)" "only_database (db_error m)"
  by (auto simp: only_database_def db_error_def p_map_err_def split: prod.splits sum.splits)

lemma only_database_transaction: "only_database m \<Longrightarrow> only_database (transaction Db_error m)"
  by (auto simp: only_database_def transaction_def split: prod.splits sum.splits option.splits failure.splits)

lemma only_database_option:
  "only_database m \<Longrightarrow> (\<And>y. only_database (f y)) \<Longrightarrow> only_database (case x of None \<Rightarrow> m | Some y \<Rightarrow> f y)"
  by (cases x) auto

lemma only_database_insert: "only_database (insert_panels keep i n ps)"
  by (induction ps arbitrary: n) (auto intro!: only_database_bind only_database_steps)

lemma create_only_database:
  assumes "validate_create_request req = Inr ()"
  shows "only_database (create_dashboard tn req creator)"
  unfolding create_dashboard_def assms p_bind_simple
  by (intro only_database_transaction only_database_bind only_database_steps only_database_option only_database_insert)

lemma import_not_refused:
  assumes "validate_create_request (import_request e) = Inr ()" "de_schema_version e = export_schema_version"
    and "handle_import_dashboard ctx e db = (db', Inl f)"
  shows "f = Status Internal_server_error"
proof -
  obtain x where "create_dashboard (cc_tenant_id ctx) (import_request e) (cc_user_id ctx) db = (db', Inl x)" "f = dashboard_failure x"
    using assms(2,3)
    by (auto simp: handle_import_dashboard_def import_dashboard_def import_request_def p_bind_def p_map_err_def split: prod.splits sum.splits)
  moreover have "\<exists>s. x = Db_error s"
    using calculation(1) create_only_database[OF assms(1)] unfolding only_database_def by blast
  ultimately show ?thesis by (auto simp: dashboard_failure_def)
qed

lemma dashboard_in_appended:
  assumes "find_dashboard i t = None" "cn_dashboards t' = cn_dashboards t @ [d]" "dr_dashboard_id d = i" "dr_tenant_id d = tn"
  shows "dashboard_in i tn t' = Some d"
  using assms by (auto simp: dashboard_in_def find_dashboard_def find_append_one find_None_iff split: option.splits dest!: find_Some_set)

lemma created_export:
  assumes "content_ok (db_tables db)" "create_dashboard tn req creator db = (db1, Inr item)"
    and "cc_tenant_id ctx = tn \<and> handle_get_dashboard_export ctx (di_dashboard_id item) db1 = (db2, Inr e)"
    and "cd_panels req = map panel_request_of rows" "\<forall>p \<in> set rows. panel_ok p" "length rows \<le> 2 ^ 31"
  shows "e = \<lparr>de_schema_version = export_schema_version, de_name = trim (cd_name req), de_panels = map export_panel_of rows\<rparr>"
proof -
  obtain i now ks where c: "find_dashboard i (db_tables db) = None" "length ks = length rows" "di_dashboard_id item = i"
      "cn_dashboards (db_tables db1) = cn_dashboards (db_tables db) @
       [\<lparr>dr_dashboard_id = i, dr_tenant_id = tn, dr_name = trim (cd_name req), dr_visibility = ''public'', dr_created_at = now\<rparr>]"
      "cn_panels (db_tables db1) = cn_panels (db_tables db) @ stored_rows i 0 ks (cd_panels req)"
    using create_dashboard_Inr[OF assms(2)] assms(4) by (auto simp: dashboard_item_of_def)
  have "dashboard_in i tn (db_tables db1) =
      Some \<lparr>dr_dashboard_id = i, dr_tenant_id = tn, dr_name = trim (cd_name req), dr_visibility = ''public'', dr_created_at = now\<rparr>"
    by (rule dashboard_in_appended[OF c(1,4)]) simp_all
  moreover have "\<forall>p \<in> set (cn_panels (db_tables db)). pn_dashboard_id p \<noteq> i"
    using assms(1) c(1) by (auto simp: content_ok_def find_dashboard_def find_None_iff)
  then have "panels_of i (db_tables db1) = stored_rows i 0 ks (cd_panels req)"
    using panels_of_stored[OF _ _ c(5)] assms(4,6) by simp
  moreover have "map export_panel_of (stored_rows i 0 ks (cd_panels req)) = map export_panel_of rows"
    using export_stored_rows[OF assms(5) c(2)] assms(4) by simp
  ultimately show ?thesis using export_Inr[of ctx i db1 db2 e] assms(3) c(3) by simp
qed

lemma exported_dashboard:
  assumes "handle_get_dashboard_export ctx i db = (db', Inr e)" "content_ok (db_tables db)"
  shows "object_tenant (Dashboard i) (db_tables db) = Some (cc_tenant_id ctx) \<and> exports_dashboard i (db_tables db) e"
proof -
  obtain d where d: "dashboard_in i (cc_tenant_id ctx) (db_tables db) = Some d"
     "e = \<lparr>de_schema_version = export_schema_version, de_name = dr_name d,
          de_panels = map export_panel_of (panels_of (dr_dashboard_id d) (db_tables db))\<rparr>"
    using export_Inr[OF assms(1)] by blast
  then show ?thesis
    using dashboard_in_find[OF assms(2) d(1)] own_panels_of[OF assms(2)] exported_panels
    by (auto simp: object_tenant_def dashboard_access_def exports_dashboard_def)
qed

text \<open>
  C39: what a caller reads of dashboards and saved views. A dashboard or saved view that
  it gets is one of its tenant that is public or shared with it, unless it acts with a
  key, and the answer has, field by field, what is stored of it: a dashboard has all of
  its own panels, in their order, and no other. A list has every such dashboard, or every
  such saved view of the kind asked for, once, with the same contents, and no other. An
  export has the name and the panels of the dashboard asked for, which is of the caller's
  tenant; it does not depend on visibility or grants.
\<close>

theorem readers_see_what_is_shared:
  assumes "content_ok (db_tables db)"
  shows "(\<forall>i db' item. handle_get_dashboard ctx i db = (db', Inr item) \<longrightarrow>
       may_read ctx (Dashboard i) (db_tables db) \<and> shows_dashboard i (db_tables db) item) \<and>
    (\<forall>db' items. handle_list_dashboards ctx db = (db', Inr items) \<longrightarrow>
       distinct (map di_dashboard_id items) \<and>
       di_dashboard_id ` set items = {i. may_read ctx (Dashboard i) (db_tables db)} \<and>
       (\<forall>item \<in> set items. shows_dashboard (di_dashboard_id item) (db_tables db) item)) \<and>
    (\<forall>i db' item. handle_get_saved_view ctx i db = (db', Inr item) \<longrightarrow>
       may_read ctx (View i) (db_tables db) \<and> shows_view i (db_tables db) item) \<and>
    (\<forall>kind db' items. handle_list_saved_views ctx kind db = (db', Inr items) \<longrightarrow>
       distinct (map si_saved_view_id items) \<and>
       si_saved_view_id ` set items =
         {i. may_read ctx (View i) (db_tables db) \<and> map_option sv_signal_kind (find_view i (db_tables db)) = Some kind} \<and>
       (\<forall>item \<in> set items. shows_view (si_saved_view_id item) (db_tables db) item)) \<and>
    (\<forall>i db' e. handle_get_dashboard_export ctx i db = (db', Inr e) \<longrightarrow>
       object_tenant (Dashboard i) (db_tables db) = Some (cc_tenant_id ctx) \<and> exports_dashboard i (db_tables db) e)"
  by (rule conjI[OF _ conjI[OF _ conjI[OF _ conjI]]]; intro allI impI;
      erule get_dashboard_readable[OF _ assms] listed_dashboards_readable[OF _ assms] get_view_readable[OF _ assms]
        listed_views_readable[OF _ assms] exported_dashboard[OF _ assms])

text \<open>The viewer reads the private dashboard; any user of the tenant exports it.\<close>

lemma pair_snd: "snd p = y \<Longrightarrow> p = (fst p, y)"
  by (cases p) simp

lemma demo_trims: "trim ''t'' = ''t''" "trim ''c'' = ''c''" "trim ''d'' = ''d''"
  by code_simp+

lemma demo_panel_valid: "validate_panel True (panel_request_of demo_panel) = Inr ()"
  by (simp add: validate_panel_def check_def panel_request_of_def import_panel_def export_panel_of_def demo_panel_def
      panel_kind_def valid_panel_kinds_def valid_query_kinds_def blank_def valid_preset_def validate_layout_def
      get_i64_def jget_def as_i64_def validate_time_range_def get_str_def as_str_def demo_trims)

lemma demo_panel_ok: "panel_ok demo_panel"
  using demo_panel_valid
  by (simp add: panel_ok_def demo_panel_def panel_row_of_def panel_request_of_def import_panel_def export_panel_of_def
      panel_kind_def non_blank_def normalized_layout_def normalized_time_range_def demo_trims)

lemma demo_ok: "content_ok (db_tables demo_service)"
  using demo_panel_ok
  by (simp add: content_ok_def demo_service_def demo_content_def find_dashboard_def visibilities_def relations_def
      grant_key_def demo_trims demo_panel_def)

lemma demo_read: "handle_get_dashboard (demo_caller 1 6) 3 demo_service =
    (fst (handle_get_dashboard (demo_caller 1 6) 3 demo_service),
     Inr (dashboard_item_of (hd (cn_dashboards demo_content)) [row_to_panel_item demo_panel]))"
  by (rule pair_snd) code_simp

theorem readers_see_what_is_shared_witness:
  "may_read (demo_caller 1 6) (Dashboard 3) demo_content \<and>
   shows_dashboard 3 demo_content (dashboard_item_of (hd (cn_dashboards demo_content)) [row_to_panel_item demo_panel]) \<and>
   \<not> may_read (demo_caller 1 7) (Dashboard 3) demo_content \<and>
   snd (handle_get_dashboard (demo_caller 1 7) 3 demo_service) = Inl Forbidden \<and>
   snd (handle_get_dashboard_export (demo_caller 1 7) 3 demo_service) =
     Inr \<lparr>de_schema_version = ''2'', de_name = ''d'', de_panels = [export_panel_of demo_panel]\<rparr>"
proof -
  have t: "db_tables demo_service = demo_content" by (simp add: demo_service_def)
  have "may_read (demo_caller 1 6) (Dashboard 3) demo_content \<and>
      shows_dashboard 3 demo_content (dashboard_item_of (hd (cn_dashboards demo_content)) [row_to_panel_item demo_panel])"
    using readers_see_what_is_shared[OF demo_ok, of "demo_caller 1 6", THEN conjunct1, rule_format, OF demo_read]
    unfolding t .
  moreover have "\<not> may_read (demo_caller 1 7) (Dashboard 3) demo_content"
    by (simp add: may_read_def demo_caller_def demo_content_def find_dashboard_def relation_on_def relation_in_def
        dashboard_access_def grant_of_def)
  moreover have "snd (handle_get_dashboard (demo_caller 1 7) 3 demo_service) = Inl Forbidden"
    "snd (handle_get_dashboard_export (demo_caller 1 7) 3 demo_service) =
     Inr \<lparr>de_schema_version = ''2'', de_name = ''d'', de_panels = [export_panel_of demo_panel]\<rparr>"
    by code_simp+
  ultimately show ?thesis by blast
qed

text \<open>
  C40: an exported dashboard that has panels can be imported, in any tenant: the import is
  never refused, only the database can fail; and the new dashboard has the name and the
  panels of the old one, so that exporting it again gives the same document.
\<close>

theorem dashboard_export_import:
  assumes "content_ok (db_tables db)" "handle_get_dashboard_export ctx i db = (db', Inr e)"
    and "de_panels e \<noteq> []" "length (de_panels e) \<le> 2 ^ 31"
    and "content_ok (db_tables db1)" "handle_import_dashboard ctx1 e db1 = (db2, r)"
  shows "(\<forall>f. r = Inl f \<longrightarrow> f = Status Internal_server_error) \<and>
    (\<forall>st item. r = Inr (st, item) \<longrightarrow> st = Created \<and> di_name item = de_name e \<and>
      (\<forall>ctx2 db3 e'. cc_tenant_id ctx2 = cc_tenant_id ctx1 \<and>
         handle_get_dashboard_export ctx2 (di_dashboard_id item) db2 = (db3, Inr e') \<longrightarrow> e' = e))"
proof -
  let ?t = "db_tables db" and ?req = "import_request e"
  obtain d where d: "dashboard_in i (cc_tenant_id ctx) ?t = Some d"
      "e = \<lparr>de_schema_version = export_schema_version, de_name = dr_name d, de_panels = map export_panel_of (panels_of i ?t)\<rparr>"
    using export_Inr[OF assms(2)] dashboard_in_find[OF assms(1)] by metis
  have v: "validate_create_request ?req = Inr ()" "trim (de_name e) = de_name e" "\<forall>p \<in> set (panels_of i ?t). panel_ok p"
    using exported_valid[OF assms(1) d(1) _ d(2)] assms(3) d(2) by simp_all
  show ?thesis
  proof (intro conjI allI impI)
    fix f assume "r = Inl f"
    then show "f = Status Internal_server_error"
      using import_not_refused[OF v(1)] assms(6) d(2) by simp
  next
    fix st item assume r: "r = Inr (st, item)"
    then have c: "create_dashboard (cc_tenant_id ctx1) ?req (cc_user_id ctx1) db1 = (db2, Inr item)" "st = Created"
      using import_Inr assms(6) by blast+
    show "st = Created" by (rule c(2))
    show "di_name item = de_name e"
      using create_dashboard_Inr[OF c(1)] v(2) by (auto simp: dashboard_item_of_def import_request_def)
    fix ctx2 db3 e'
    assume "cc_tenant_id ctx2 = cc_tenant_id ctx1 \<and>
        handle_get_dashboard_export ctx2 (di_dashboard_id item) db2 = (db3, Inr e')"
    then show "e' = e"
      using created_export[OF assms(5) c(1), of ctx2 db3 e' "panels_of i ?t"] v d(2) assms(4)
      by (simp add: import_request_def panel_request_of_def)
  qed
qed

definition demo_export :: dashboard_export where
  "demo_export = \<lparr>de_schema_version = ''2'', de_name = ''d'', de_panels = [export_panel_of demo_panel]\<rparr>"

theorem dashboard_export_import_witness:
  "\<exists>db item. handle_import_dashboard (demo_caller 2 8) demo_export demo_service = (db, Inr (Created, item)) \<and>
     di_name item = ''d'' \<and> cn_dashboards (db_tables db) \<noteq> cn_dashboards demo_content"
proof -
  let ?m = "handle_import_dashboard (demo_caller 2 8) demo_export demo_service"
  have x: "handle_get_dashboard_export (demo_caller 1 5) 3 demo_service =
      (fst (handle_get_dashboard_export (demo_caller 1 5) 3 demo_service), Inr demo_export)"
    by (rule pair_snd) code_simp
  have e: "de_panels demo_export \<noteq> []" "length (de_panels demo_export) \<le> 2 ^ 31" "de_name demo_export = ''d''"
    by (simp_all add: demo_export_def)
  have "validate_create_request (import_request demo_export) = Inr ()"
    using demo_panel_valid
    by (simp add: validate_create_request_def import_request_def demo_export_def panel_request_of_def check_def demo_trims)
  then have r: "case snd ?m of Inl f \<Rightarrow> False | Inr x \<Rightarrow> True" "cn_dashboards (db_tables (fst ?m)) \<noteq> cn_dashboards demo_content"
    by (simp_all add: handle_import_dashboard_def import_dashboard_def create_dashboard_def import_request_def
        demo_export_def demo_service_def demo_content_def demo_caller_def transaction_def sql_def db_error_def
        insert_dashboard_def find_dashboard_def put_grant_def relations_def upsert_grant_def grant_of_def
        dashboard_access_def insert_panel_def panel_row_of_def import_panel_def export_panel_of_def demo_panel_def
        panel_kind_def valid_panel_kinds_def export_schema_version_def tick_def p_bind_def p_map_err_def Let_def demo_trims)
  then obtain st item where i: "?m = (fst ?m, Inr (st, item))"
    by (cases ?m) (auto split: sum.splits)
  have "st = Created \<and> di_name item = ''d''"
    using dashboard_export_import[OF demo_ok x e(1,2) demo_ok i] unfolding e(3) by blast
  then show ?thesis using i r(2) by metis
qed

end
