(* ===== verification/Spec2Isabelle.thy ===== *)
theory Spec2Isabelle
  imports Sql_Noninterference Duckdb_Safety Span_Metrics Storage_Writer Query_Properties Alert_Worker Otlp_Transports Ingest_Claims Identity_Login Content_Exports
begin

text \<open>
  Observable: a verification development.

  Observable is a multi-tenant observability platform. Applications send spans,
  logs and metrics to an ingest gateway, which authenticates them and puts one
  envelope per request on a queue; a stream processor merges envelopes into
  normalized batches; a storage writer stores the rows in ClickHouse. A query
  service plans and runs queries for one tenant, an alert evaluator runs the rules
  of the tenants against the stored telemetry and notifies channels, and two
  services keep accounts, tokens and tenants in Postgres. The theories follow this
  path; paths below are under src/.

  THE PARTS AND THEIR THEORIES

  Prelude holds what all share: UTF-8 and decimal text, list and option helpers,
  and the sum type of results. Float64 is the part of binary64 the program relies
  on: conversion from integers, comparison, the value of a number, with rounding
  written out.

  Query library (libs/domain-core/src/nlq.rs, libs/query-core/src). Nlq_Ir has the
  data of a query. Sql_Templates has every function of sql_templates.rs, on lists of
  characters as the code builds strings. Sql_Lexer defines how ClickHouse (and
  DuckDB) cut a text into code and string literals; Sql_Safety proves how each
  template lexes, and Sql_Noninterference that no value of a request changes the
  code of the query. Duckdb_Queries and Duckdb_Safety do the same for the renderers
  of log_query.rs, trace_query.rs, service_query.rs, topology_query.rs,
  metric_query.rs, change_event_query.rs.

  Telemetry (libs/domain/src). Domain has spans, logs, series, points, envelopes and
  batches. Process has the normalisation of libs/observable-process and the merging
  loop of services/stream-processor/src/batch.rs. Storage_Rows has the conversions of
  libs/observable-storage-contracts between domain values and stored rows.
  Span_Metrics is services/stream-processor/src/metrics.rs, Batching the consumer of
  consumer.rs with its retry loop. Write_Buffer and Storage_Writer are the buffers,
  flush loops and consumer of services/storage-writer/src.

  Ingest (services/ingest-gateway/src, libs/observable-auth). Auth_Client is the
  verification of credentials; Ingest_State the cardinality budget, deployment
  registry and rate limiter; Otlp_Grpc and Otlp_Json the two converters, which
  Otlp_Transports compares; Prometheus_Rw the remote-write converter; Ingest_Gateway
  the middleware and all the endpoints; Ingest_Rows the tenants of converted rows;
  Ingest_Claims the properties of requests and of the whole pipeline up to the
  merged batch.

  Queries (services/query-api/src). Query_Planner is the planner of query-core,
  Clickhouse_Query what a handler sees of ClickHouse, Query_Handlers the handlers of
  logs.rs and traces.rs with audit.rs, Query_Properties what they answer.

  Alerts (services/alert-evaluator/src/evaluator.rs). Alert_Rules has the pure parts;
  Alert_Store the tables and a program monad over them in which each statement is
  atomic and may fail; Alert_Evaluator and Alert_Firings the programs;
  Alert_Lifecycle the abstract life of a firing; Alert_Properties, Alert_Claims and
  Alert_Worker what the programs and the two workers do to the tables.

  Accounts (services/auth-service/src, services/admin-service/src,
  the middleware/auth.rs of three services). Service_Db is a program monad over
  tables that any handler uses: a statement is atomic, may fail, and may take effect
  without its reply arriving; a transaction commits or has no effect. Identity_Store
  has the tables of tenants, keys, users, roles, sessions and the audit log with
  their constraints. Auth_Service is lib.rs, validate.rs, session.rs and the
  statements of oidc.rs; Auth_Sessions the handlers of oidc.rs; Auth_Middleware the
  middleware, and its composition with the authentication service; Admin_Accounts is
  tokens.rs and admin_members.rs; Admin_Tenants is tenants.rs. Identity_Requests
  gathers the requests of both services into one transition system,
  Identity_Invariants proves what every request keeps of the tables, and
  Identity_Claims, Identity_Admins and Identity_Login hold the properties.

  HOW STATE AND OPERATIONS CORRESPOND

  A struct is a record with the fields of the code, an enum a datatype with its
  variants; a function that panics or returns an error has those as values. A
  Rust i64 or u64 is a word, or an int or nat with its bounds written out where it is
  compared; a HashMap is a map, or an association list where its order is seen. What a
  function mutates is passed and returned. Effects of a service (statements, HTTP
  calls, queue) are programs of a small state monad whose steps record, in order,
  what happens and may fail as the parameters say; locales in Alert_Store and
  Ingest_Claims prove once that a relation or an invariant kept by each step is kept
  by a whole program. Loops that depend on the outside are bounded by the number of
  events or ticks given, and the theorems quantify over that number; the retry loop of
  the batching consumer, the only one with fuel, has a theorem that it returns exactly
  when an attempt succeeds, for any fuel above that attempt.

  Code that is not in the repository is a parameter: serde_json, the UUID generators
  and parsers, sha256, ClickHouse and Postgres beyond the statements themselves, the
  Kafka client, the HTTP clients, clocks. Hypotheses on them say what the code relies
  on and are instantiated in the witnesses.

  WHAT THE LEMMAS SHOW

  Queries carry values only as literals and always the tenant (C1 to C5); telemetry
  keeps its tenant and its values through merging and storing (C6 to C8); span
  metrics count and flush correctly (C9 to C11); messages are committed only after
  they are delivered and stored (C12 to C15); query handlers bind values and return
  only rows of their tenant (C16 to C19); the life of alert firings and notifications
  (C20 to C27); the two OTLP transports agree (C28, C29); the gateway acts only for
  the caller that authenticated (C30 to C33); accounts, tokens, sessions and the purge
  of a tenant (C34 to C40).

  NOT MODELLED

  One request or message is one step: concurrent tasks interleave between steps, not
  within them. Servers, routers, configuration, readiness and metrics endpoints,
  telemetry exporters, the playground and the natural language front end are not
  modelled; nor is the text that serde and sqlx produce.
\<close>

end
